(* ===== verification/Prelude.thy ===== *)
theory Prelude
  imports Main "HOL-Library.Word" "HOL-Library.Sublist"
begin

text \<open>
  Shared ground of the development: the types that every component uses (timestamps,
  durations, UUIDs, the strings of the wire), Rust's signed narrowing cast, and the generic
  lemmas on tables. A table is the list of its rows in insertion order; the three SQL shapes
  the server uses (select by a predicate, update the rows that satisfy a predicate, append a
  row) are the three functions \<open>find\<close>, \<open>update_where\<close> and append.

  Two collections carry the automation: \<open>table_simps\<close> (how reads and writes of a table
  interact) and \<open>keeps_intros\<close> (how an invariant passes through the operations of the
  server; filled from theory World on).
\<close>

named_theorems table_simps
named_theorems keeps_intros

subsection \<open>Basic types\<close>

text \<open>A \<open>DateTime<Utc>\<close> is an instant in microseconds (Postgres' own resolution).\<close>

type_synonym timestamp = int
type_synonym duration = int
type_synonym uuid = "128 word"

definition duration_days :: "int \<Rightarrow> duration" where
  "duration_days n = n * 86400000000"

definition duration_hours :: "int \<Rightarrow> duration" where
  "duration_hours n = n * 3600000000"

lemma duration_days_mono [simp]: "duration_days a \<le> duration_days b \<longleftrightarrow> a \<le> b"
  by (simp add: duration_days_def)

lemma duration_days_pos: "0 < a \<Longrightarrow> 0 < duration_days a"
  by (simp add: duration_days_def)

text \<open>
  Rust's \<open>n as i32\<close> keeps the low 32 bits and reads them as two's complement.
\<close>

definition as_i32 :: "nat \<Rightarrow> int" where
  "as_i32 n = (int n + 2 ^ 31) mod 2 ^ 32 - 2 ^ 31"

lemma as_i32_small: "int n < 2 ^ 31 \<Longrightarrow> as_i32 n = int n"
  by (simp add: as_i32_def)

lemma as_i32_wraps: "as_i32 (2 ^ 31) = - (2 ^ 31)"
  by (simp add: as_i32_def)

definition in_i64 :: "int \<Rightarrow> bool" where
  "in_i64 n \<longleftrightarrow> - (2 ^ 63) \<le> n \<and> n < 2 ^ 63"

text \<open>Rust's \<open>Option<Result<T, E>>::transpose\<close>.\<close>

fun transpose_option :: "('e + 'a) option \<Rightarrow> 'e + 'a option" where
  "transpose_option None = Inr None"
| "transpose_option (Some (Inl e)) = Inl e"
| "transpose_option (Some (Inr x)) = Inr (Some x)"

fun map_err :: "('e \<Rightarrow> 'f) \<Rightarrow> 'e + 'a \<Rightarrow> 'f + 'a" where
  "map_err f (Inl e) = Inl (f e)"
| "map_err f (Inr x) = Inr x"

subsection \<open>Tables\<close>

definition update_where :: "('r \<Rightarrow> bool) \<Rightarrow> ('r \<Rightarrow> 'r) \<Rightarrow> 'r list \<Rightarrow> 'r list" where
  "update_where p f rows = map (\<lambda>r. if p r then f r else r) rows"

definition count_where :: "('r \<Rightarrow> bool) \<Rightarrow> 'r list \<Rightarrow> nat" where
  "count_where p rows = length (filter p rows)"

lemma update_where_append [table_simps]:
  "update_where p f (xs @ ys) = update_where p f xs @ update_where p f ys"
  by (simp add: update_where_def)

lemma update_where_simps [simp]:
  "update_where p f [] = []"
  "update_where p f (r # rs) = (if p r then f r else r) # update_where p f rs"
  by (simp_all add: update_where_def)

lemma length_update_where [simp]: "length (update_where p f rows) = length rows"
  by (simp add: update_where_def)

lemma in_update_where:
  "r \<in> set (update_where p f rows) \<longleftrightarrow>
     (\<exists>r0 \<in> set rows. r = (if p r0 then f r0 else r0))"
  by (auto simp: update_where_def)

lemma updated_in: "r \<in> set rows \<Longrightarrow> p r \<Longrightarrow> f r \<in> set (update_where p f rows)"
  by (auto simp: in_update_where)

lemma update_where_none: "(\<And>r. r \<in> set rows \<Longrightarrow> \<not> p r) \<Longrightarrow> update_where p f rows = rows"
  by (induction rows) auto

lemma map_update_where:
  "(\<And>r. p r \<Longrightarrow> g (f r) = g r) \<Longrightarrow> map g (update_where p f rows) = map g rows"
  by (induction rows) auto

text \<open>
  \<open>keyed key rows\<close>: the key is unique in the table, the meaning of a \<open>UNIQUE\<close> column.
  \<open>keyed_opt\<close> is a partial unique index \<open>WHERE key IS NOT NULL\<close>.
\<close>

definition keyed :: "('r \<Rightarrow> 'k) \<Rightarrow> 'r list \<Rightarrow> bool" where
  "keyed key rows \<longleftrightarrow> distinct (map key rows)"

definition keyed_opt :: "('r \<Rightarrow> 'k option) \<Rightarrow> 'r list \<Rightarrow> bool" where
  "keyed_opt key rows \<longleftrightarrow> distinct (filter (\<lambda>k. k \<noteq> None) (map key rows))"

definition keys :: "('r \<Rightarrow> 'k) \<Rightarrow> 'r list \<Rightarrow> 'k set" where
  "keys key rows = key ` set rows"

lemma keys_simps [simp]:
  "keys key [] = {}"
  "keys key (xs @ ys) = keys key xs \<union> keys key ys"
  "keys key (r # rs) = insert (key r) (keys key rs)"
  by (auto simp: keys_def)

lemma keyed_empty [simp]: "keyed key []" "keyed_opt key' []"
  by (simp_all add: keyed_def keyed_opt_def)

lemma keyed_snoc [simp]: "keyed key (rows @ [r]) \<longleftrightarrow> keyed key rows \<and> key r \<notin> keys key rows"
  by (auto simp: keyed_def keys_def)

lemma keyed_update_where:
  "(\<And>r. p r \<Longrightarrow> key (f r) = key r) \<Longrightarrow> keyed key (update_where p f rows) = keyed key rows"
  by (simp add: keyed_def map_update_where)

lemma keyed_opt_update_where:
  "(\<And>r. p r \<Longrightarrow> key (f r) = key r) \<Longrightarrow> keyed_opt key (update_where p f rows) = keyed_opt key rows"
  by (simp add: keyed_opt_def map_update_where)

lemma keys_update_where:
  assumes "\<And>r. p r \<Longrightarrow> key (f r) = key r"
  shows "keys key (update_where p f rows) = keys key rows"
proof -
  have "set (map key (update_where p f rows)) = set (map key rows)"
    by (simp only: map_update_where [of p key f rows, OF assms])
  then show ?thesis by (simp add: keys_def)
qed

lemma keyedD: "keyed key rows \<Longrightarrow> r \<in> set rows \<Longrightarrow> s \<in> set rows \<Longrightarrow> key r = key s \<Longrightarrow> r = s"
  by (auto simp: keyed_def distinct_map inj_on_def)

lemma find_keyed:
  "keyed key rows \<Longrightarrow> r \<in> set rows \<Longrightarrow> key r = k \<Longrightarrow> find (\<lambda>x. key x = k) rows = Some r"
proof (induction rows)
  case (Cons x xs)
  then show ?case
    by (cases "key x = k") (auto simp: keyed_def)
qed simp

lemma find_Some_iff_keyed:
  "keyed key rows \<Longrightarrow> find (\<lambda>x. key x = k) rows = Some r \<longleftrightarrow> r \<in> set rows \<and> key r = k"
  by (auto dest: find_keyed simp: find_Some_iff)

lemma find_fresh: "k \<notin> keys key rows \<Longrightarrow> find (\<lambda>x. key x = k) rows = None"
  by (induction rows) auto

lemma find_snoc: "find p (xs @ [x]) = (case find p xs of Some y \<Rightarrow> Some y | None \<Rightarrow> if p x then Some x else None)"
  by (induction xs) auto

lemma find_SomeD: "find p rows = Some r \<Longrightarrow> r \<in> set rows \<and> p r"
  by (auto simp: find_Some_iff)

lemma find_NoneD: "find p rows = None \<Longrightarrow> r \<in> set rows \<Longrightarrow> \<not> p r"
  by (auto simp: find_None_iff)

text \<open>A select by key after an update of the row with that key, or of another row.\<close>

lemma find_update_where:
  assumes "\<And>r. p r \<Longrightarrow> q (f r) = q r"
  shows "find q (update_where p f rows) = map_option (\<lambda>r. if p r then f r else r) (find q rows)"
  by (induction rows) (auto simp: assms)

lemma filter_update_where:
  assumes "\<And>r. p r \<Longrightarrow> q (f r) = q r"
  shows "filter q (update_where p f rows) = update_where p f (filter q rows)"
  by (induction rows) (auto simp: assms)

lemma filter_update_where_in:
  assumes "\<And>r. r \<in> set rows \<Longrightarrow> p r \<Longrightarrow> q (f r) = q r"
  shows "filter q (update_where p f rows) = update_where p f (filter q rows)"
  using assms by (induction rows) auto

lemma find_update_where_in:
  assumes "\<And>r. r \<in> set rows \<Longrightarrow> p r \<Longrightarrow> q (f r) = q r"
  shows "find q (update_where p f rows) = map_option (\<lambda>r. if p r then f r else r) (find q rows)"
  using assms by (induction rows) auto

lemma count_where_append [simp]:
  "count_where p (xs @ ys) = count_where p xs + count_where p ys"
  "count_where p [] = 0"
  "count_where p (r # rs) = (if p r then 1 else 0) + count_where p rs"
  by (simp_all add: count_where_def)

lemma count_where_update_same:
  "(\<And>r. p r \<Longrightarrow> q (f r) = q r) \<Longrightarrow> count_where q (update_where p f rows) = count_where q rows"
  by (induction rows) auto

text \<open>
  Updating the one row with a given key changes a count by exactly that row's contribution.
\<close>

lemma count_where_update_row:
  assumes "keyed key rows" and "r \<in> set rows" and "key r = k"
  shows "count_where q (update_where (\<lambda>x. key x = k) f rows) + (if q r then 1 else 0)
       = count_where q rows + (if q (f r) then 1 else 0)"
  using assms
proof (induction rows)
  case (Cons x xs)
  show ?case
  proof (cases "x = r")
    case True
    with Cons.prems have "\<And>y. y \<in> set xs \<Longrightarrow> key y \<noteq> k"
      by (metis distinct.simps(2) image_eqI keyed_def list.set_map list.simps(9))
    then have "update_where (\<lambda>x. key x = k) f xs = xs"
      by (rule update_where_none)
    with True Cons.prems show ?thesis by simp
  next
    case False
    with Cons.prems have in_xs: "r \<in> set xs" and kd: "keyed key xs" and "key x \<noteq> k"
      by (auto simp: keyed_def)
    with Cons.IH [OF kd in_xs Cons.prems(3)] show ?thesis by simp
  qed
qed simp

text \<open>
  \<open>latest_by ts rows\<close> is \<open>ORDER BY ts DESC LIMIT 1\<close>; among equal timestamps, where SQL
  leaves the order open, the row inserted first is taken.
\<close>

fun latest_by :: "('r \<Rightarrow> int) \<Rightarrow> 'r list \<Rightarrow> 'r option" where
  "latest_by ts [] = None"
| "latest_by ts (r # rs) =
     (case latest_by ts rs of
        None \<Rightarrow> Some r
      | Some s \<Rightarrow> if ts r < ts s then Some s else Some r)"

lemma latest_by_None [simp]: "latest_by ts rows = None \<longleftrightarrow> rows = []"
  by (induction rows) (auto split: option.splits)

lemma latest_by_SomeD:
  "latest_by ts rows = Some r \<Longrightarrow> r \<in> set rows \<and> (\<forall>s \<in> set rows. ts s \<le> ts r)"
proof (induction rows arbitrary: r)
  case (Cons x xs)
  then show ?case
    by (cases "latest_by ts xs") (auto split: if_splits dest: Cons.IH)
qed simp

lemma latest_by_in: "latest_by ts rows = Some r \<Longrightarrow> r \<in> set rows"
  using latest_by_SomeD by fastforce

lemma latest_by_single [simp]: "latest_by ts [r] = Some r"
  by simp

lemma latest_by_update_where:
  assumes "\<And>r. p r \<Longrightarrow> ts (f r) = ts r"
  shows "latest_by ts (update_where p f rows)
       = map_option (\<lambda>r. if p r then f r else r) (latest_by ts rows)"
  by (induction rows) (auto simp: assms split: option.splits)

end
