(* ===== verification/Domain.thy ===== *)
theory Domain
  imports Prelude
begin

text \<open>
  The server's domain model (\<open>server/src/domain/*.rs\<close>): the enums that are stored and sent as
  strings, each with its \<open>as_str\<close> and its \<open>FromStr\<close>, and the records of the seven tables the
  server writes. The string contract the enums share is the locale \<open>wire_enum\<close>, interpreted
  for every one of them. Ids are \<open>int\<close> (\<open>i64\<close> columns fed by \<open>BIGSERIAL\<close>
  sequences), \<open>i32\<close> columns are \<open>int\<close> too, and the one narrowing cast of the code is
  \<open>Prelude.as_i32\<close>.
\<close>

subsection \<open>Rust's debug form of a string\<close>

text \<open>
  \<open>{other:?}\<close> in the error messages of the \<open>FromStr\<close> impls: quotes around the string, the
  characters \<open>str\<close>'s \<open>Debug\<close> escapes escaped.
\<close>

definition hex_digit :: "nat \<Rightarrow> char" where
  "hex_digit n = (if n < 10 then char_of (48 + n) else char_of (87 + n))"

text \<open>\<open>format!("{b:02x}")\<close>.\<close>

definition hex_byte :: "8 word \<Rightarrow> string" where
  "hex_byte b = [hex_digit (unat b div 16), hex_digit (unat b mod 16)]"

definition escape_char :: "char \<Rightarrow> string" where
  "escape_char c =
    (let n = (of_char c :: nat) in
     if n = 0 then [CHR 0x5C, CHR ''0'']
     else if n = 9 then [CHR 0x5C, CHR ''t'']
     else if n = 10 then [CHR 0x5C, CHR ''n'']
     else if n = 13 then [CHR 0x5C, CHR ''r'']
     else if n = 34 \<or> n = 92 then [CHR 0x5C, c]
     else if n < 16 then [CHR 0x5C, CHR ''u'', CHR 0x7B, hex_digit n, CHR 0x7D]
     else if n < 32 \<or> n = 127
       then [CHR 0x5C, CHR ''u'', CHR 0x7B, hex_digit (n div 16), hex_digit (n mod 16), CHR 0x7D]
     else [c])"

definition debug_str :: "string \<Rightarrow> string" where
  "debug_str s = CHR 0x22 # concat (map escape_char s) @ [CHR 0x22]"

text \<open>Rust's \<open>{}\<close> form of an integer, used where an error message names an id.\<close>

fun nat_str :: "nat \<Rightarrow> string" where
  "nat_str n = (if n < 10 then [hex_digit n] else nat_str (n div 10) @ [hex_digit (n mod 10)])"

declare nat_str.simps [simp del]

definition int_str :: "int \<Rightarrow> string" where
  "int_str i = (if i < 0 then CHR ''-'' # nat_str (nat (- i)) else nat_str (nat i))"

subsection \<open>The contract of a stored enum\<close>

text \<open>
  Every stored enum is written with \<open>as_str\<close> and read back with \<open>from_str\<close>. The two laws
  are what the repositories rely on; what follows from them is proved once here.
\<close>

locale wire_enum =
  fixes as_str :: "'a \<Rightarrow> string"
    and from_str :: "string \<Rightarrow> string + 'a"
  assumes parse_print: "from_str (as_str x) = Inr x"
    and print_parse: "from_str s = Inr x \<Longrightarrow> as_str x = s"
begin

lemma as_str_inject: "as_str x = as_str y \<longleftrightarrow> x = y"
  by (metis parse_print sum.inject(2))

lemma from_str_iff: "from_str s = Inr x \<longleftrightarrow> s = as_str x"
  using parse_print print_parse by blast

lemma from_str_rejects: "s \<notin> range as_str \<Longrightarrow> \<exists>m. from_str s = Inl m"
  by (cases "from_str s") (auto dest: print_parse)

lemma from_str_accepts: "(\<exists>x. from_str s = Inr x) \<longleftrightarrow> s \<in> range as_str"
  by (auto simp: from_str_iff)

end

subsection \<open>Licenses\<close>

datatype license_record_status = LicActive | LicRevoked | LicExpired | LicSuspended

fun license_status_as_str :: "license_record_status \<Rightarrow> string" where
  "license_status_as_str LicActive = ''active''"
| "license_status_as_str LicRevoked = ''revoked''"
| "license_status_as_str LicExpired = ''expired''"
| "license_status_as_str LicSuspended = ''suspended''"

definition license_status_from_str :: "string \<Rightarrow> string + license_record_status" where
  "license_status_from_str s =
    (if s = ''active'' then Inr LicActive
     else if s = ''revoked'' then Inr LicRevoked
     else if s = ''expired'' then Inr LicExpired
     else if s = ''suspended'' then Inr LicSuspended
     else Inl (''unrecognized license status '' @ debug_str s))"

record license =
  lic_id :: int
  lic_subscription_id :: int
  lic_key :: string
  lic_status :: license_record_status
  lic_expires_at :: "timestamp option"
  lic_max_devices :: int
  lic_grace_period_days :: int
  lic_issued_at :: timestamp
  lic_revoked_at :: "timestamp option"
  lic_revoked_reason :: "string option"

record new_license =
  nl_subscription_id :: int
  nl_license_key :: string
  nl_status :: license_record_status
  nl_expires_at :: "timestamp option"
  nl_max_devices :: int
  nl_grace_period_days :: int

subsection \<open>Subscriptions\<close>

datatype plan_type = Trial | Monthly | Yearly | Lifetime

fun plan_as_str :: "plan_type \<Rightarrow> string" where
  "plan_as_str Trial = ''trial''"
| "plan_as_str Monthly = ''monthly''"
| "plan_as_str Yearly = ''yearly''"
| "plan_as_str Lifetime = ''lifetime''"

definition plan_from_str :: "string \<Rightarrow> string + plan_type" where
  "plan_from_str s =
    (if s = ''trial'' then Inr Trial
     else if s = ''monthly'' then Inr Monthly
     else if s = ''yearly'' then Inr Yearly
     else if s = ''lifetime'' then Inr Lifetime
     else Inl (''unrecognized plan_type '' @ debug_str s))"

datatype subscription_status =
  SubActive | SubExpired | SubCancelled | SubSuspended | SubPendingPayment

fun subscription_status_as_str :: "subscription_status \<Rightarrow> string" where
  "subscription_status_as_str SubActive = ''active''"
| "subscription_status_as_str SubExpired = ''expired''"
| "subscription_status_as_str SubCancelled = ''cancelled''"
| "subscription_status_as_str SubSuspended = ''suspended''"
| "subscription_status_as_str SubPendingPayment = ''pending_payment''"

definition subscription_status_from_str :: "string \<Rightarrow> string + subscription_status" where
  "subscription_status_from_str s =
    (if s = ''active'' then Inr SubActive
     else if s = ''expired'' then Inr SubExpired
     else if s = ''cancelled'' then Inr SubCancelled
     else if s = ''suspended'' then Inr SubSuspended
     else if s = ''pending_payment'' then Inr SubPendingPayment
     else Inl (''unrecognized subscription status '' @ debug_str s))"

record subscription =
  sub_id :: int
  sub_user_id :: int
  sub_plan_type :: plan_type
  sub_status :: subscription_status
  sub_started_at :: timestamp
  sub_current_period_end :: "timestamp option"
  sub_auto_renew :: bool
  sub_created_at :: timestamp
  sub_updated_at :: timestamp

record new_subscription =
  ns_user_id :: int
  ns_plan_type :: plan_type
  ns_status :: subscription_status
  ns_started_at :: timestamp
  ns_current_period_end :: "timestamp option"
  ns_auto_renew :: bool

subsection \<open>Payments and the webhook ledger\<close>

datatype payment_status = PayPending | PaySucceeded | PayFailed | PayRefunded | PayDisputed

fun payment_status_as_str :: "payment_status \<Rightarrow> string" where
  "payment_status_as_str PayPending = ''pending''"
| "payment_status_as_str PaySucceeded = ''succeeded''"
| "payment_status_as_str PayFailed = ''failed''"
| "payment_status_as_str PayRefunded = ''refunded''"
| "payment_status_as_str PayDisputed = ''disputed''"

definition payment_status_from_str :: "string \<Rightarrow> string + payment_status" where
  "payment_status_from_str s =
    (if s = ''pending'' then Inr PayPending
     else if s = ''succeeded'' then Inr PaySucceeded
     else if s = ''failed'' then Inr PayFailed
     else if s = ''refunded'' then Inr PayRefunded
     else if s = ''disputed'' then Inr PayDisputed
     else Inl (''unrecognized payment status '' @ debug_str s))"

record payment =
  pay_id :: int
  pay_subscription_id :: int
  pay_amount_minor :: int
  pay_currency :: string
  pay_provider :: string
  pay_provider_ref :: "string option"
  pay_gateway_payment_id :: "string option"
  pay_status :: payment_status
  pay_created_at :: timestamp

record new_payment =
  np_subscription_id :: int
  np_amount_minor :: int
  np_currency :: string
  np_provider :: string
  np_provider_ref :: "string option"
  np_status :: payment_status

text \<open>
  A JSON value as \<open>serde_json::Value\<close> has it. An object keeps the members in order of
  insertion; a number with a fraction or an exponent is opaque (no operation of the server
  reads one).
\<close>

datatype json =
    JNull
  | JBool bool
  | JInt int
  | JFloat string
  | JStr string
  | JArr "json list"
  | JObj "(string \<times> json) list"

record payment_webhook_event =
  pwe_id :: int
  pwe_provider :: string
  pwe_event_id :: string
  pwe_event_type :: string
  pwe_payload :: json
  pwe_processed_at :: timestamp

record new_payment_webhook_event =
  npwe_provider :: string
  npwe_event_id :: string
  npwe_event_type :: string
  npwe_payload :: json

subsection \<open>Devices\<close>

record device =
  dev_id :: int
  dev_license_id :: int
  dev_device_id :: uuid
  dev_machine_fingerprint :: string
  dev_device_label :: "string option"
  dev_first_seen_at :: timestamp
  dev_last_seen_at :: timestamp
  dev_deactivated_at :: "timestamp option"

subsection \<open>Accounts and sessions\<close>

datatype user_role = Customer | Admin

fun user_role_as_str :: "user_role \<Rightarrow> string" where
  "user_role_as_str Customer = ''customer''"
| "user_role_as_str Admin = ''admin''"

definition user_role_from_str :: "string \<Rightarrow> string + user_role" where
  "user_role_from_str s =
    (if s = ''customer'' then Inr Customer
     else if s = ''admin'' then Inr Admin
     else Inl (''unrecognized user role '' @ debug_str s))"

record user =
  usr_id :: int
  usr_email :: string
  usr_password_hash :: string
  usr_full_name :: "string option"
  usr_company_name :: "string option"
  usr_role :: user_role
  usr_created_at :: timestamp
  usr_updated_at :: timestamp

record new_user =
  nu_email :: string
  nu_password_hash :: string
  nu_full_name :: "string option"
  nu_company_name :: "string option"

record session =
  ses_id :: int
  ses_user_id :: int
  ses_token_hash :: string
  ses_created_at :: timestamp
  ses_expires_at :: timestamp
  ses_revoked_at :: "timestamp option"

record new_session =
  nse_user_id :: int
  nse_token_hash :: string
  nse_expires_at :: timestamp

subsection \<open>Audit logs\<close>

datatype validation_log_result =
  LogValid | LogExpired | LogSuspended | LogRevoked | LogDeviceMismatch

fun log_result_as_str :: "validation_log_result \<Rightarrow> string" where
  "log_result_as_str LogValid = ''valid''"
| "log_result_as_str LogExpired = ''expired''"
| "log_result_as_str LogSuspended = ''suspended''"
| "log_result_as_str LogRevoked = ''revoked''"
| "log_result_as_str LogDeviceMismatch = ''device_mismatch''"

definition log_result_from_str :: "string \<Rightarrow> string + validation_log_result" where
  "log_result_from_str s =
    (if s = ''valid'' then Inr LogValid
     else if s = ''expired'' then Inr LogExpired
     else if s = ''suspended'' then Inr LogSuspended
     else if s = ''revoked'' then Inr LogRevoked
     else if s = ''device_mismatch'' then Inr LogDeviceMismatch
     else Inl (''unrecognized validation log result '' @ debug_str s))"

record new_login_history_entry =
  nlh_user_id :: int
  nlh_device_id :: "uuid option"
  nlh_success :: bool

record new_license_validation_log_entry =
  nlv_license_id :: int
  nlv_device_id :: uuid
  nlv_result :: validation_log_result
  nlv_client_clock :: "timestamp option"

record login_history_entry =
  lh_id :: int
  lh_user_id :: int
  lh_device_id :: "uuid option"
  lh_success :: bool
  lh_created_at :: timestamp

record license_validation_entry =
  lv_id :: int
  lv_license_id :: int
  lv_device_id :: uuid
  lv_result :: validation_log_result
  lv_created_at :: timestamp

subsection \<open>The contract holds for every stored enum\<close>

interpretation license_status_wire: wire_enum license_status_as_str license_status_from_str
proof
  show "license_status_from_str (license_status_as_str x) = Inr x" for x
    by (cases x) (simp_all add: license_status_from_str_def)
qed (auto simp: license_status_from_str_def split: if_splits)

interpretation plan_wire: wire_enum plan_as_str plan_from_str
proof
  show "plan_from_str (plan_as_str x) = Inr x" for x
    by (cases x) (simp_all add: plan_from_str_def)
qed (auto simp: plan_from_str_def split: if_splits)

interpretation subscription_status_wire:
  wire_enum subscription_status_as_str subscription_status_from_str
proof
  show "subscription_status_from_str (subscription_status_as_str x) = Inr x" for x
    by (cases x) (simp_all add: subscription_status_from_str_def)
qed (auto simp: subscription_status_from_str_def split: if_splits)

interpretation payment_status_wire: wire_enum payment_status_as_str payment_status_from_str
proof
  show "payment_status_from_str (payment_status_as_str x) = Inr x" for x
    by (cases x) (simp_all add: payment_status_from_str_def)
qed (auto simp: payment_status_from_str_def split: if_splits)

interpretation user_role_wire: wire_enum user_role_as_str user_role_from_str
proof
  show "user_role_from_str (user_role_as_str x) = Inr x" for x
    by (cases x) (simp_all add: user_role_from_str_def)
qed (auto simp: user_role_from_str_def split: if_splits)

interpretation log_result_wire: wire_enum log_result_as_str log_result_from_str
proof
  show "log_result_from_str (log_result_as_str x) = Inr x" for x
    by (cases x) (simp_all add: log_result_from_str_def)
qed (auto simp: log_result_from_str_def split: if_splits)

end
