(* ===== verification/World.thy ===== *)
theory World
  imports Domain
begin

text \<open>
  The world the server's asynchronous code acts on, and the shape of that code.

  \<^item> \<open>tables\<close> is the Postgres database: one list of rows per table of \<open>server/migrations\<close>.
    A column with a \<open>CHECK (... IN ...)\<close> constraint holds the enum it encodes.
  \<^item> \<open>seqs\<close> are the \<open>BIGSERIAL\<close> sequences. They are not transactional: a rolled-back or
    conflicting insert still consumes an id.
  \<^item> \<open>faults\<close> schedules failures of the connection: each SQL statement consumes one element,
    and fails if it is \<open>True\<close>. The empty schedule is a healthy connection. Theorems that do
    not mention \<open>faults\<close> hold under every schedule.
  \<^item> \<open>utc_now\<close> is the clock that \<open>Utc::now()\<close> and SQL's \<open>now()\<close> read; it is constant
    within one operation and moved by the environment between operations.
  \<^item> \<open>spawned\<close> holds the audit writes handed to \<open>tokio::spawn\<close> and not yet executed.

  An \<open>async fn\<close> returning \<open>Result<T, E>\<close> is an \<open>action\<close>: a function of the world that returns
  the result and the new world. \<open>await_as conv m (\<lambda>x. k)\<close> is \<open>let x = m.await?; k\<close>, where
  \<open>conv\<close> is the \<open>From\<close> impl that \<open>?\<close> applies to the error.
\<close>

named_theorems run_simps

subsection \<open>Errors of the repository layer (\<open>repository/error.rs\<close>)\<close>

datatype sqlx_error = ConnectionLost | ConstraintViolation | RowNotFound | NegativeOffset

datatype repository_error =
    Database sqlx_error
  | InvalidData string
  | DuplicateProviderReference string

subsection \<open>The database\<close>

record tables =
  users :: "user list"
  subscriptions :: "subscription list"
  licenses :: "license list"
  devices :: "device list"
  sessions :: "session list"
  payments :: "payment list"
  webhook_events :: "payment_webhook_event list"
  login_history :: "login_history_entry list"
  validation_logs :: "license_validation_entry list"

datatype table_name =
    T_users | T_subscriptions | T_licenses | T_devices | T_sessions | T_payments
  | T_webhook_events | T_login_history | T_validation_logs

datatype audit_task =
    AuditLogin new_login_history_entry
  | AuditValidation new_license_validation_log_entry

record world =
  db :: tables
  seqs :: "table_name \<Rightarrow> int"
  faults :: "bool list"
  utc_now :: timestamp
  spawned :: "audit_task list"

definition empty_tables :: tables where
  "empty_tables = \<lparr> users = [], subscriptions = [], licenses = [], devices = [], sessions = [],
     payments = [], webhook_events = [], login_history = [], validation_logs = [] \<rparr>"

definition empty_world :: "timestamp \<Rightarrow> world" where
  "empty_world t = \<lparr> db = empty_tables, seqs = (\<lambda>_. 1), faults = [], utc_now = t, spawned = [] \<rparr>"

subsection \<open>Actions\<close>

type_synonym ('e, 'a) action = "world \<Rightarrow> ('e + 'a) \<times> world"

definition return_ok :: "'a \<Rightarrow> ('e, 'a) action" where
  "return_ok x w = (Inr x, w)"

definition return_err :: "'e \<Rightarrow> ('e, 'a) action" where
  "return_err e w = (Inl e, w)"

definition await_as ::
  "('e \<Rightarrow> 'f) \<Rightarrow> ('e, 'a) action \<Rightarrow> ('a \<Rightarrow> ('f, 'b) action) \<Rightarrow> ('f, 'b) action" where
  "await_as conv m k w =
    (case m w of
       (Inl e, w') \<Rightarrow> (Inl (conv e), w')
     | (Inr x, w') \<Rightarrow> k x w')"

definition await :: "('e, 'a) action \<Rightarrow> ('a \<Rightarrow> ('e, 'b) action) \<Rightarrow> ('e, 'b) action" where
  "await m k = await_as (\<lambda>e. e) m k"

text \<open>\<open>match m.await { Ok(x) => k x, Err(e) => h e }\<close>.\<close>

definition await_match ::
  "('e, 'a) action \<Rightarrow> ('e \<Rightarrow> ('f, 'b) action) \<Rightarrow> ('a \<Rightarrow> ('f, 'b) action) \<Rightarrow> ('f, 'b) action" where
  "await_match m h k w =
    (case m w of
       (Inl e, w') \<Rightarrow> h e w'
     | (Inr x, w') \<Rightarrow> k x w')"

definition now_then :: "(timestamp \<Rightarrow> ('e, 'a) action) \<Rightarrow> ('e, 'a) action" where
  "now_then k w = k (utc_now w) w"

definition spawn :: "audit_task \<Rightarrow> ('e, 'a) action \<Rightarrow> ('e, 'a) action" where
  "spawn t k w = k (w\<lparr>spawned := spawned w @ [t]\<rparr>)"

subsection \<open>SQL statements and transactions\<close>

definition sql :: "(world \<Rightarrow> (repository_error + 'a) \<times> world) \<Rightarrow> (repository_error, 'a) action" where
  "sql q w =
    (case faults w of
       [] \<Rightarrow> q w
     | broken # fs \<Rightarrow>
         if broken then (Inl (Database ConnectionLost), w\<lparr>faults := fs\<rparr>)
         else q (w\<lparr>faults := fs\<rparr>))"

definition sql_select :: "(tables \<Rightarrow> 'a) \<Rightarrow> (repository_error, 'a) action" where
  "sql_select f = sql (\<lambda>w. (Inr (f (db w)), w))"

text \<open>
  An \<open>UPDATE\<close>: \<open>f\<close> computes the new database from \<open>now()\<close> and the old one; \<open>allowed\<close> is
  what the constraints of the schema check on the result.
\<close>

definition sql_update ::
  "(timestamp \<Rightarrow> tables \<Rightarrow> tables) \<Rightarrow> (tables \<Rightarrow> bool) \<Rightarrow> (repository_error, unit) action" where
  "sql_update f allowed =
    sql (\<lambda>w. let d = f (utc_now w) (db w) in
      if allowed d then (Inr (), w\<lparr>db := d\<rparr>) else (Inl (Database ConstraintViolation), w))"

text \<open>
  An \<open>INSERT ... RETURNING\<close>: the id comes from the table's sequence, \<open>mk\<close> builds the row from
  the id and \<open>now()\<close>, \<open>allowed\<close> is what unique indexes and foreign keys check.
\<close>

definition sql_insert ::
  "table_name \<Rightarrow> (int \<Rightarrow> timestamp \<Rightarrow> 'r) \<Rightarrow> ('r \<Rightarrow> tables \<Rightarrow> bool) \<Rightarrow> ('r \<Rightarrow> tables \<Rightarrow> tables)
    \<Rightarrow> (repository_error, 'r) action" where
  "sql_insert t mk allowed put =
    sql (\<lambda>w. let i = seqs w t; r = mk i (utc_now w); w' = w\<lparr>seqs := (seqs w)(t := i + 1)\<rparr> in
      if allowed r (db w) then (Inr r, w'\<lparr>db := put r (db w)\<rparr>)
      else (Inl (Database ConstraintViolation), w'))"

text \<open>
  A transaction body ends by committing or rolling back; an error drops the transaction, which
  rolls it back. Begin, commit and rollback are statements of their own and can fail; a failed
  commit is taken as not applied. Rolling back restores the tables, not the sequences.
\<close>

datatype 'a tx_end = Commit 'a | Rollback 'a

definition tx_statement :: "(repository_error, unit) action" where
  "tx_statement = sql (\<lambda>w. (Inr (), w))"

definition transaction :: "(repository_error, 'a tx_end) action \<Rightarrow> (repository_error, 'a) action" where
  "transaction body w0 =
    (case tx_statement w0 of
       (Inl e, w1) \<Rightarrow> (Inl e, w1)
     | (Inr _, w1) \<Rightarrow>
        (case body w1 of
           (Inl e, w2) \<Rightarrow> (Inl e, w2\<lparr>db := db w1\<rparr>)
         | (Inr (Rollback x), w2) \<Rightarrow>
             (case tx_statement (w2\<lparr>db := db w1\<rparr>) of
                (Inl e, w3) \<Rightarrow> (Inl e, w3)
              | (Inr _, w3) \<Rightarrow> (Inr x, w3))
         | (Inr (Commit x), w2) \<Rightarrow>
             (case tx_statement w2 of
                (Inl e, w3) \<Rightarrow> (Inl e, w3\<lparr>db := db w1\<rparr>)
              | (Inr _, w3) \<Rightarrow> (Inr x, w3))))"

subsection \<open>Evaluation on a healthy connection\<close>

lemma sql_healthy [run_simps]: "faults w = [] \<Longrightarrow> sql q w = q w"
  by (simp add: sql_def)

lemma sql_select_healthy [run_simps]: "faults w = [] \<Longrightarrow> sql_select f w = (Inr (f (db w)), w)"
  by (simp add: sql_select_def run_simps)

lemma sql_update_healthy [run_simps]:
  "faults w = [] \<Longrightarrow> sql_update f allowed w =
    (let d = f (utc_now w) (db w) in
      if allowed d then (Inr (), w\<lparr>db := d\<rparr>) else (Inl (Database ConstraintViolation), w))"
  by (simp add: sql_update_def run_simps)

lemma sql_insert_healthy [run_simps]:
  "faults w = [] \<Longrightarrow> sql_insert t mk allowed put w =
    (let i = seqs w t; r = mk i (utc_now w); w' = w\<lparr>seqs := (seqs w)(t := i + 1)\<rparr> in
      if allowed r (db w) then (Inr r, w'\<lparr>db := put r (db w)\<rparr>)
      else (Inl (Database ConstraintViolation), w'))"
  by (simp add: sql_insert_def run_simps)

lemma tx_statement_healthy [run_simps]: "faults w = [] \<Longrightarrow> tx_statement w = (Inr (), w)"
  by (simp add: tx_statement_def run_simps)

lemma return_run [run_simps]: "return_ok x w = (Inr x, w)" "return_err e w = (Inl e, w)"
  by (simp_all add: return_ok_def return_err_def)

lemma await_run [run_simps]:
  "await m k w = (case m w of (Inl e, w') \<Rightarrow> (Inl e, w') | (Inr x, w') \<Rightarrow> k x w')"
  by (simp add: await_def await_as_def)

lemma await_as_run [run_simps]:
  "await_as conv m k w = (case m w of (Inl e, w') \<Rightarrow> (Inl (conv e), w') | (Inr x, w') \<Rightarrow> k x w')"
  by (simp add: await_as_def)

lemma await_match_run [run_simps]:
  "await_match m h k w = (case m w of (Inl e, w') \<Rightarrow> h e w' | (Inr x, w') \<Rightarrow> k x w')"
  by (simp add: await_match_def)

lemma now_then_run [run_simps]: "now_then k w = k (utc_now w) w"
  by (simp add: now_then_def)

lemma spawn_run [run_simps]: "spawn t k w = k (w\<lparr>spawned := spawned w @ [t]\<rparr>)"
  by (simp add: spawn_def)

subsection \<open>Case analysis of a statement under any fault schedule\<close>

lemma sql_cases:
  obtains (failed) fs where "sql q w = (Inl (Database ConnectionLost), w\<lparr>faults := fs\<rparr>)"
  | (ran) fs where "sql q w = q (w\<lparr>faults := fs\<rparr>)"
proof (cases "faults w")
  case Nil
  then have eq: "w\<lparr>faults := []\<rparr> = w" by (cases w) simp
  from Nil have "sql q w = q w" by (simp add: sql_def)
  then have "sql q w = q (w\<lparr>faults := []\<rparr>)" by (simp only: eq)
  then show ?thesis by (rule ran)
next
  case (Cons b fs)
  then show ?thesis
    by (cases b) (auto simp: sql_def intro: failed [of fs] ran [of fs])
qed

lemma tx_statement_db: "db (snd (tx_statement w)) = db w" "seqs (snd (tx_statement w)) = seqs w"
  by (simp_all add: tx_statement_def sql_def split: list.split)

lemma tx_statement_env:
  "utc_now (snd (tx_statement w)) = utc_now w" "spawned (snd (tx_statement w)) = spawned w"
  by (simp_all add: tx_statement_def sql_def split: list.split)

subsection \<open>What a successful run did, under any fault schedule\<close>

lemma transaction_effect:
  assumes "transaction body w0 = (r, w')"
  obtains (rolled_back) "db w' = db w0" and "\<And>x. r = Inr x \<Longrightarrow>
        \<exists>w1 w2. db w1 = db w0 \<and> utc_now w1 = utc_now w0 \<and> body w1 = (Inr (Rollback x), w2)"
  | (committed) w1 w2 x where "db w1 = db w0" and "utc_now w1 = utc_now w0"
      and "body w1 = (Inr (Commit x), w2)" and "db w' = db w2" and "r = Inr x"
proof -
  obtain r1 w1 where b: "tx_statement w0 = (r1, w1)" by (cases "tx_statement w0")
  then have w1: "db w1 = db w0" "utc_now w1 = utc_now w0"
    using tx_statement_db [of w0] tx_statement_env [of w0] by simp_all
  obtain r2 w2 where bd: "body w1 = (r2, w2)" by (cases "body w1")
  have tx: "db w3 = db v" if "tx_statement v = (q, w3)" for v q w3
    using tx_statement_db(1) [of v] that by simp
  show ?thesis
  proof (cases r1)
    case (Inl e)
    with assms b w1 show ?thesis by (intro rolled_back) (auto simp: transaction_def)
  next
    case r1: (Inr u)
    show ?thesis
    proof (cases r2)
      case (Inl e)
      with assms b bd r1 w1 show ?thesis by (intro rolled_back) (auto simp: transaction_def)
    next
      case r2: (Inr t)
      show ?thesis
      proof (cases t)
        case (Commit x)
        obtain q w3 where c: "tx_statement w2 = (q, w3)" by (cases "tx_statement w2")
        show ?thesis
        proof (cases q)
          case (Inl e)
          with assms b bd r1 r2 Commit c w1 show ?thesis
            by (intro rolled_back) (auto simp: transaction_def)
        next
          case (Inr v)
          with assms b bd r1 r2 Commit c w1 tx [OF c] show ?thesis
            by (intro committed [of w1 x w2]) (auto simp: transaction_def)
        qed
      next
        case (Rollback x)
        obtain q w3 where c: "tx_statement (w2\<lparr>db := db w1\<rparr>) = (q, w3)"
          by (cases "tx_statement (w2\<lparr>db := db w1\<rparr>)")
        from assms b bd r1 r2 Rollback c
        have w': "w' = w3" and r: "r = Inr y \<Longrightarrow> y = x" for y
          by (auto simp: transaction_def split: sum.splits)
        from w' tx [OF c] w1 have "db w' = db w0" by simp
        then show ?thesis using r bd r2 Rollback w1 by (intro rolled_back) blast+
      qed
    qed
  qed
qed

lemma sql_run_cases:
  assumes "sql q w = (r, w')"
  obtains (failed) fs where "r = Inl (Database ConnectionLost)" and "w' = w\<lparr>faults := fs\<rparr>"
  | (ran) fs where "q (w\<lparr>faults := fs\<rparr>) = (r, w')"
  using assms by (cases rule: sql_cases [of q w]) auto

lemma await_InrE:
  assumes "await m k w = (Inr y, w')"
  obtains x w1 where "m w = (Inr x, w1)" and "k x w1 = (Inr y, w')"
  using assms by (auto simp: run_simps split: prod.splits sum.splits)

lemma sql_select_InrE:
  assumes "sql_select f w = (Inr x, w')"
  obtains fs where "x = f (db w)" and "w' = w\<lparr>faults := fs\<rparr>"
  using assms unfolding sql_select_def by (elim sql_run_cases) auto

lemma sql_update_InrE:
  assumes "sql_update f allowed w = (Inr u, w')"
  obtains "allowed (f (utc_now w) (db w))" and "db w' = f (utc_now w) (db w)"
    and "utc_now w' = utc_now w" and "seqs w' = seqs w" and "spawned w' = spawned w"
  using assms unfolding sql_update_def
  by (elim sql_run_cases) (auto simp: Let_def split: if_splits)

lemma sql_insert_InrE:
  assumes "sql_insert t mk allowed put w = (Inr r, w')"
  obtains "r = mk (seqs w t) (utc_now w)" and "allowed r (db w)" and "db w' = put r (db w)"
    and "utc_now w' = utc_now w" and "spawned w' = spawned w"
  using assms unfolding sql_insert_def
  by (elim sql_run_cases) (auto simp: Let_def split: if_splits)

lemma lock_row_InrE:
  assumes "sql (\<lambda>w. if P w then (Inr (), w) else (Inl e, w)) w = (Inr u, w')"
  obtains fs where "P (w\<lparr>faults := fs\<rparr>)" and "w' = w\<lparr>faults := fs\<rparr>"
  using assms by (elim sql_run_cases) (auto split: if_splits)

lemma return_InrE:
  assumes "return_ok x w = (Inr y, w')" obtains "y = x" and "w' = w"
  using assms by (simp add: run_simps)

lemmas run_elims = await_InrE sql_select_InrE sql_update_InrE sql_insert_InrE return_InrE

subsection \<open>Invariants carried through actions\<close>

text \<open>
  \<open>keeps I m\<close>: from a database and sequences that satisfy \<open>I\<close>, the action \<open>m\<close> ends in ones
  that do, whatever it returns and whichever of its statements fail.
\<close>

type_synonym db_inv = "tables \<Rightarrow> (table_name \<Rightarrow> int) \<Rightarrow> bool"

definition keeps :: "db_inv \<Rightarrow> ('e, 'a) action \<Rightarrow> bool" where
  "keeps I m \<longleftrightarrow> (\<forall>w. I (db w) (seqs w) \<longrightarrow> I (db (snd (m w))) (seqs (snd (m w))))"

lemma keepsI:
  "(\<And>w. I (db w) (seqs w) \<Longrightarrow> I (db (snd (m w))) (seqs (snd (m w)))) \<Longrightarrow> keeps I m"
  by (simp add: keeps_def)

lemma keepsD: "keeps I m \<Longrightarrow> I (db w) (seqs w) \<Longrightarrow> I (db (snd (m w))) (seqs (snd (m w)))"
  by (simp add: keeps_def)

lemma keeps_return [keeps_intros]: "keeps I (return_ok x)" "keeps I (return_err e)"
  by (simp_all add: keeps_def return_ok_def return_err_def)

lemma keeps_await_as [keeps_intros]:
  "keeps I m \<Longrightarrow> (\<And>x. keeps I (k x)) \<Longrightarrow> keeps I (await_as conv m k)"
  by (fastforce simp: keeps_def await_as_def split: prod.split sum.split)

lemma keeps_await [keeps_intros]: "keeps I m \<Longrightarrow> (\<And>x. keeps I (k x)) \<Longrightarrow> keeps I (await m k)"
  by (simp add: await_def keeps_await_as)

lemma keeps_await_match [keeps_intros]:
  "keeps I m \<Longrightarrow> (\<And>e. keeps I (h e)) \<Longrightarrow> (\<And>x. keeps I (k x)) \<Longrightarrow> keeps I (await_match m h k)"
  by (fastforce simp: keeps_def await_match_def split: prod.split sum.split)

lemma keeps_now_then [keeps_intros]: "(\<And>t. keeps I (k t)) \<Longrightarrow> keeps I (now_then k)"
  by (simp add: keeps_def now_then_def)

lemma keeps_spawn [keeps_intros]: "keeps I k \<Longrightarrow> keeps I (spawn t k)"
proof (rule keepsI)
  fix w :: world assume "keeps I k" and "I (db w) (seqs w)"
  then show "I (db (snd (spawn t k w))) (seqs (snd (spawn t k w)))"
    using keepsD [of I k "w\<lparr>spawned := spawned w @ [t]\<rparr>"] by (simp add: spawn_def)
qed

lemma keeps_if [keeps_intros]:
  "(b \<Longrightarrow> keeps I m) \<Longrightarrow> (\<not> b \<Longrightarrow> keeps I m') \<Longrightarrow> keeps I (if b then m else m')"
  by simp

lemma keeps_case_option [keeps_intros]:
  "(x = None \<Longrightarrow> keeps I m) \<Longrightarrow> (\<And>y. x = Some y \<Longrightarrow> keeps I (f y))
    \<Longrightarrow> keeps I (case x of None \<Rightarrow> m | Some y \<Rightarrow> f y)"
  by (cases x) auto

lemma keeps_case_sum [keeps_intros]:
  "(\<And>e. x = Inl e \<Longrightarrow> keeps I (g e)) \<Longrightarrow> (\<And>y. x = Inr y \<Longrightarrow> keeps I (f y))
    \<Longrightarrow> keeps I (case x of Inl e \<Rightarrow> g e | Inr y \<Rightarrow> f y)"
  by (cases x) auto

lemma keeps_case_prod [keeps_intros]:
  "(\<And>a b. x = (a, b) \<Longrightarrow> keeps I (f a b)) \<Longrightarrow> keeps I (case x of (a, b) \<Rightarrow> f a b)"
  by (cases x) auto

lemma keeps_let [keeps_intros]: "(\<And>x. x = e \<Longrightarrow> keeps I (f x)) \<Longrightarrow> keeps I (Let e f)"
  by (simp add: Let_def)

lemma keeps_sql:
  assumes "\<And>w. I (db w) (seqs w) \<Longrightarrow> I (db (snd (q w))) (seqs (snd (q w)))"
  shows "keeps I (sql q)"
proof (rule keepsI)
  fix w :: world assume I: "I (db w) (seqs w)"
  show "I (db (snd (sql q w))) (seqs (snd (sql q w)))"
  proof (cases rule: sql_cases [of q w])
    case (failed fs)
    with I show ?thesis by simp
  next
    case (ran fs)
    with I assms [of "w\<lparr>faults := fs\<rparr>"] show ?thesis by simp
  qed
qed

lemma keeps_select [keeps_intros]: "keeps I (sql_select f)"
  unfolding sql_select_def by (rule keeps_sql) simp

lemma keeps_update:
  "(\<And>t d s. I d s \<Longrightarrow> allowed (f t d) \<Longrightarrow> I (f t d) s) \<Longrightarrow> keeps I (sql_update f allowed)"
  unfolding sql_update_def by (rule keeps_sql) (simp add: Let_def)

lemma keeps_insert:
  assumes "\<And>d s i t. I d s \<Longrightarrow> i = s tb \<Longrightarrow> allowed (mk i t) d
      \<Longrightarrow> I (put (mk i t) d) (s(tb := i + 1))"
    and "\<And>d s. I d s \<Longrightarrow> I d (s(tb := s tb + 1))"
  shows "keeps I (sql_insert tb mk allowed put)"
  unfolding sql_insert_def by (rule keeps_sql) (simp add: Let_def assms)

lemma keeps_tx_statement [keeps_intros]: "keeps I tx_statement"
  by (rule keepsI) (simp add: tx_statement_db)

text \<open>
  A transaction keeps an invariant that its body keeps and that does not mind ids consumed by a
  rolled-back body.
\<close>

definition seq_tolerant :: "db_inv \<Rightarrow> bool" where
  "seq_tolerant I \<longleftrightarrow> (\<forall>d s s'. I d s \<longrightarrow> (\<forall>t. s t \<le> s' t) \<longrightarrow> I d s')"

definition seqs_grow :: "('e, 'a) action \<Rightarrow> bool" where
  "seqs_grow m \<longleftrightarrow> (\<forall>w t. seqs w t \<le> seqs (snd (m w)) t)"

lemma keeps_transaction:
  assumes "keeps I body" and "seq_tolerant I" and "seqs_grow body"
  shows "keeps I (transaction body)"
proof (rule keepsI)
  fix w0 :: world assume I0: "I (db w0) (seqs w0)"
  obtain r1 w1 where b: "tx_statement w0 = (r1, w1)" by (cases "tx_statement w0")
  then have w1: "db w1 = db w0" "seqs w1 = seqs w0"
    using tx_statement_db [of w0] by simp_all
  obtain r2 w2 where bd: "body w1 = (r2, w2)" by (cases "body w1")
  have I2: "I (db w2) (seqs w2)"
    using keepsD [OF assms(1), of w1] I0 w1 bd by simp
  have "\<forall>t. seqs w1 t \<le> seqs w2 t"
    using assms(3) bd by (metis seqs_grow_def snd_conv)
  then have I_back: "I (db w1) (seqs w2)"
    using assms(2) I0 w1 unfolding seq_tolerant_def by metis
  have tx: "db (snd (tx_statement v)) = db v" "seqs (snd (tx_statement v)) = seqs v" for v
    by (rule tx_statement_db)+
  show "I (db (snd (transaction body w0))) (seqs (snd (transaction body w0)))"
    using I0 I2 I_back w1 tx [of w2] tx [of "w2\<lparr>db := db w1\<rparr>"]
    by (auto simp: transaction_def b bd split: sum.split tx_end.split prod.split)
qed

lemma seqs_growI: "(\<And>w t. seqs w t \<le> seqs (snd (m w)) t) \<Longrightarrow> seqs_grow m"
  by (simp add: seqs_grow_def)

lemma seqs_grow_return [keeps_intros]: "seqs_grow (return_ok x)" "seqs_grow (return_err e)"
  by (simp_all add: seqs_grow_def return_ok_def return_err_def)

lemma seqs_grow_await [keeps_intros]:
  assumes "seqs_grow m" and "\<And>x. seqs_grow (k x)"
  shows "seqs_grow (await m k)"
proof (rule seqs_growI)
  fix w :: world and t
  obtain r w' where m: "m w = (r, w')" by (cases "m w")
  have le: "seqs w t \<le> seqs w' t" using assms(1) m by (metis seqs_grow_def snd_conv)
  show "seqs w t \<le> seqs (snd (await m k w)) t"
  proof (cases r)
    case (Inl e)
    with le m show ?thesis by (simp add: run_simps)
  next
    case (Inr x)
    have "seqs w' t \<le> seqs (snd (k x w')) t" using assms(2) by (simp add: seqs_grow_def)
    with le m Inr show ?thesis by (simp add: run_simps)
  qed
qed

lemma seqs_grow_control [keeps_intros]:
  "(b \<Longrightarrow> seqs_grow m) \<Longrightarrow> (\<not> b \<Longrightarrow> seqs_grow m') \<Longrightarrow> seqs_grow (if b then m else m')"
  "(x = None \<Longrightarrow> seqs_grow m) \<Longrightarrow> (\<And>y. x = Some y \<Longrightarrow> seqs_grow (f y))
    \<Longrightarrow> seqs_grow (case x of None \<Rightarrow> m | Some y \<Rightarrow> f y)"
  "(\<And>y. y = e \<Longrightarrow> seqs_grow (f y)) \<Longrightarrow> seqs_grow (Let e f)"
  by (auto split: option.split)

lemma seqs_grow_sql [keeps_intros]:
  "seqs_grow (sql_select g)" "seqs_grow (sql_update f allowed)"
  "seqs_grow (sql_insert tb mk allowed' put)"
  by (auto simp: seqs_grow_def sql_select_def sql_update_def sql_insert_def sql_def Let_def
      split: list.split)

text \<open>
  What a transaction leaves when it does not commit: the tables it started from. This is the
  all-or-nothing contract the webhook ledger and the device activation rest on.
\<close>

lemma transaction_error_keeps_tables:
  "transaction body w = (Inl e, w') \<Longrightarrow> db w' = db w"
  using tx_statement_db [of w]
  by (auto simp: transaction_def split: sum.splits prod.splits tx_end.splits)
    (metis snd_conv tx_statement_db(1) world.select_convs(1) world.surjective world.update_convs(1))+

lemma transaction_healthy [run_simps]:
  assumes "faults w = []"
  shows "transaction body w =
    (case body w of
       (Inl e, w2) \<Rightarrow> (Inl e, w2\<lparr>db := db w\<rparr>)
     | (Inr (Rollback x), w2) \<Rightarrow>
         (case tx_statement (w2\<lparr>db := db w\<rparr>) of
            (Inl e, w3) \<Rightarrow> (Inl e, w3)
          | (Inr _, w3) \<Rightarrow> (Inr x, w3))
     | (Inr (Commit x), w2) \<Rightarrow>
         (case tx_statement w2 of
            (Inl e, w3) \<Rightarrow> (Inl e, w3\<lparr>db := db w\<rparr>)
          | (Inr _, w3) \<Rightarrow> (Inr x, w3)))"
  by (simp add: transaction_def run_simps assms)

subsection \<open>The environment of an action\<close>

text \<open>
  No action moves the clock, and on a healthy connection none makes it fail.
\<close>

definition calm :: "('e, 'a) action \<Rightarrow> bool" where
  "calm m \<longleftrightarrow> (\<forall>w. utc_now (snd (m w)) = utc_now w \<and> (faults w = [] \<longrightarrow> faults (snd (m w)) = []))"

lemma calmD:
  "calm m \<Longrightarrow> utc_now (snd (m w)) = utc_now w"
  "calm m \<Longrightarrow> faults w = [] \<Longrightarrow> faults (snd (m w)) = []"
  by (simp_all add: calm_def)

lemma calm_runD:
  "calm m \<Longrightarrow> m w = (r, w') \<Longrightarrow> utc_now w' = utc_now w"
  "calm m \<Longrightarrow> m w = (r, w') \<Longrightarrow> faults w = [] \<Longrightarrow> faults w' = []"
  using calmD [of m w] by simp_all

lemma calm_return [keeps_intros]: "calm (return_ok x)" "calm (return_err e)"
  by (simp_all add: calm_def return_ok_def return_err_def)

lemma calm_then:
  assumes "calm m" and "\<And>e. calm (h e)" and "\<And>x. calm (k x)"
  shows "calm (\<lambda>w. case m w of (Inl e, w') \<Rightarrow> h e w' | (Inr x, w') \<Rightarrow> k x w')"
  unfolding calm_def
proof
  fix w :: world
  obtain r w' where m: "m w = (r, w')" by (cases "m w")
  note 1 = calm_runD [OF assms(1) m]
  show "utc_now (snd (case m w of (Inl e, w') \<Rightarrow> h e w' | (Inr x, w') \<Rightarrow> k x w')) = utc_now w
    \<and> (faults w = [] \<longrightarrow> faults (snd (case m w of (Inl e, w') \<Rightarrow> h e w' | (Inr x, w') \<Rightarrow> k x w')) = [])"
    using 1 calmD [OF assms(2)] calmD [OF assms(3)] m by (cases r) simp_all
qed

lemma calm_await_match [keeps_intros]:
  "calm m \<Longrightarrow> (\<And>e. calm (h e)) \<Longrightarrow> (\<And>x. calm (k x)) \<Longrightarrow> calm (await_match m h k)"
  using calm_then [of m h k] by (simp add: await_match_def [abs_def])

lemma await_as_match: "await_as conv m k = await_match m (\<lambda>e. return_err (conv e)) k"
  by (simp add: fun_eq_iff await_as_run await_match_run return_run split: prod.split sum.split)

lemma calm_await_as [keeps_intros]: "calm m \<Longrightarrow> (\<And>x. calm (k x)) \<Longrightarrow> calm (await_as conv m k)"
  by (simp add: await_as_match calm_await_match calm_return)

lemma calm_await [keeps_intros]: "calm m \<Longrightarrow> (\<And>x. calm (k x)) \<Longrightarrow> calm (await m k)"
  by (simp add: await_def calm_await_as)

lemma calm_now_then [keeps_intros]: "(\<And>t. calm (k t)) \<Longrightarrow> calm (now_then k)"
  by (simp add: calm_def now_then_def)

lemma calm_spawn [keeps_intros]: "calm k \<Longrightarrow> calm (spawn a k)"
  by (simp add: calm_def spawn_def)

lemma calm_control [keeps_intros]:
  "(b \<Longrightarrow> calm m) \<Longrightarrow> (\<not> b \<Longrightarrow> calm m') \<Longrightarrow> calm (if b then m else m')"
  "(x = None \<Longrightarrow> calm m) \<Longrightarrow> (\<And>y. x = Some y \<Longrightarrow> calm (f y)) \<Longrightarrow> calm (case x of None \<Rightarrow> m | Some y \<Rightarrow> f y)"
  "(\<And>e. z = Inl e \<Longrightarrow> calm (g' e)) \<Longrightarrow> (\<And>y. z = Inr y \<Longrightarrow> calm (f y))
    \<Longrightarrow> calm (case z of Inl e \<Rightarrow> g' e | Inr y \<Rightarrow> f y)"
  "(\<And>y. y = e \<Longrightarrow> calm (g y)) \<Longrightarrow> calm (Let e g)"
  "(\<And>a b. p = (a, b) \<Longrightarrow> calm (h a b)) \<Longrightarrow> calm (case p of (a, b) \<Rightarrow> h a b)"
  by (auto split: option.split prod.split sum.split)

lemma calm_sql:
  assumes "\<And>w. utc_now (snd (q w)) = utc_now w" and "\<And>w. faults (snd (q w)) = faults w"
  shows "calm (sql q)"
  by (auto simp: calm_def sql_def assms split: list.split)

lemma calm_statements [keeps_intros]:
  "calm (sql_select f)" "calm (sql_update g allowed)" "calm (sql_insert t mk allowed' put)"
  "calm tx_statement"
  unfolding sql_select_def sql_update_def sql_insert_def tx_statement_def
  by (rule calm_sql; simp add: Let_def)+

lemma calm_transaction [keeps_intros]:
  assumes "calm body"
  shows "calm (transaction body)"
  unfolding calm_def
proof
  fix w0 :: world
  note tx = calm_statements(4)
  obtain r1 w1 where 1: "tx_statement w0 = (r1, w1)" by (cases "tx_statement w0")
  obtain r2 w2 where 2: "body w1 = (r2, w2)" by (cases "body w1")
  note c = calm_runD [OF tx 1] calm_runD [OF assms 2] calmD [OF tx, of w2]
    calmD [OF tx, of "w2\<lparr>db := db w1\<rparr>"]
  show "utc_now (snd (transaction body w0)) = utc_now w0
    \<and> (faults w0 = [] \<longrightarrow> faults (snd (transaction body w0)) = [])"
    using c by (auto simp: transaction_def 1 2 split: sum.split prod.split tx_end.split)
qed

subsection \<open>How the database may evolve\<close>

text \<open>
  A relation between the database before and after that is reflexive and transitive passes
  through every action whose statements respect it. Instances say which columns never change
  and which rows never disappear.
\<close>

definition evolves :: "(tables \<Rightarrow> tables \<Rightarrow> bool) \<Rightarrow> ('e, 'a) action \<Rightarrow> bool" where
  "evolves R m \<longleftrightarrow> (\<forall>w. R (db w) (db (snd (m w))))"

lemma evolvesD: "evolves R m \<Longrightarrow> R (db w) (db (snd (m w)))"
  by (simp add: evolves_def)

locale evolution =
  fixes R :: "tables \<Rightarrow> tables \<Rightarrow> bool"
  assumes same: "R d d"
    and then_on: "R d d' \<Longrightarrow> R d' d'' \<Longrightarrow> R d d''"
begin

lemma ev_return [keeps_intros]: "evolves R (return_ok x)" "evolves R (return_err e)"
  by (simp_all add: evolves_def same return_ok_def return_err_def)

lemma ev_await_as [keeps_intros]:
  assumes "evolves R m" and "\<And>x. evolves R (k x)"
  shows "evolves R (await_as conv m k)"
  unfolding evolves_def
proof
  fix w :: world
  obtain r w' where m: "m w = (r, w')" by (cases "m w")
  have 1: "R (db w) (db w')" using assms(1) m by (metis evolves_def snd_conv)
  show "R (db w) (db (snd (await_as conv m k w)))"
  proof (cases r)
    case (Inl e)
    with 1 m show ?thesis by (simp add: run_simps)
  next
    case (Inr x)
    have "R (db w') (db (snd (k x w')))" using assms(2) by (simp add: evolves_def)
    with 1 m Inr show ?thesis by (auto simp: run_simps intro: then_on)
  qed
qed

lemma ev_await [keeps_intros]:
  "evolves R m \<Longrightarrow> (\<And>x. evolves R (k x)) \<Longrightarrow> evolves R (await m k)"
  by (simp add: await_def ev_await_as)

lemma ev_await_match [keeps_intros]:
  assumes "evolves R m" and "\<And>e. evolves R (h e)" and "\<And>x. evolves R (k x)"
  shows "evolves R (await_match m h k)"
  unfolding evolves_def
proof
  fix w :: world
  obtain r w' where m: "m w = (r, w')" by (cases "m w")
  have 1: "R (db w) (db w')" using assms(1) m by (metis evolves_def snd_conv)
  have 2: "R (db w') (db (snd (h e w')))" "R (db w') (db (snd (k x w')))" for e x
    using assms(2,3) by (simp_all add: evolves_def)
  show "R (db w) (db (snd (await_match m h k w)))"
    using 1 2 m by (cases r) (auto simp: run_simps intro: then_on)
qed

lemma ev_now_spawn [keeps_intros]:
  "(\<And>t. evolves R (k' t)) \<Longrightarrow> evolves R (now_then k')"
  "evolves R k \<Longrightarrow> evolves R (spawn a k)"
  by (auto simp: evolves_def now_then_def spawn_def)
    (metis (no_types) ext_inject surjective update_convs(5) world.select_convs(1) world.surjective
      world.update_convs(5))

lemma ev_control [keeps_intros]:
  "(b \<Longrightarrow> evolves R m) \<Longrightarrow> (\<not> b \<Longrightarrow> evolves R m') \<Longrightarrow> evolves R (if b then m else m')"
  "(x = None \<Longrightarrow> evolves R m) \<Longrightarrow> (\<And>y. x = Some y \<Longrightarrow> evolves R (f y))
    \<Longrightarrow> evolves R (case x of None \<Rightarrow> m | Some y \<Rightarrow> f y)"
  "(\<And>y. y = e \<Longrightarrow> evolves R (g y)) \<Longrightarrow> evolves R (Let e g)"
  "(\<And>a b. p = (a, b) \<Longrightarrow> evolves R (h a b)) \<Longrightarrow> evolves R (case p of (a, b) \<Rightarrow> h a b)"
  by (auto split: option.split prod.split)

lemma ev_sql:
  assumes q: "\<And>w. R (db w) (db (snd (q w)))"
  shows "evolves R (sql q)"
  unfolding evolves_def
proof
  fix w :: world
  show "R (db w) (db (snd (sql q w)))"
  proof (cases rule: sql_cases [of q w])
    case (failed fs)
    then show ?thesis by (simp add: same)
  next
    case (ran fs)
    with q [of "w\<lparr>faults := fs\<rparr>"] show ?thesis by simp
  qed
qed

lemma ev_select [keeps_intros]: "evolves R (sql_select f)"
  unfolding sql_select_def by (rule ev_sql) (simp add: same)

lemma ev_update: "(\<And>t d. allowed (f t d) \<Longrightarrow> R d (f t d)) \<Longrightarrow> evolves R (sql_update f allowed)"
  unfolding sql_update_def by (rule ev_sql) (simp add: Let_def same)

lemma ev_insert:
  "(\<And>d i t. allowed (mk i t) d \<Longrightarrow> R d (put (mk i t) d)) \<Longrightarrow> evolves R (sql_insert tb mk allowed put)"
  unfolding sql_insert_def by (rule ev_sql) (simp add: Let_def same)

lemma ev_transaction:
  assumes "evolves R body"
  shows "evolves R (transaction body)"
  unfolding evolves_def
proof
  fix w0 :: world
  obtain r1 w1 where b: "tx_statement w0 = (r1, w1)" by (cases "tx_statement w0")
  then have w1: "db w1 = db w0" using tx_statement_db [of w0] by simp
  obtain r2 w2 where bd: "body w1 = (r2, w2)" by (cases "body w1")
  have 2: "R (db w0) (db w2)" using assms bd w1 by (metis evolves_def snd_conv)
  show "R (db w0) (db (snd (transaction body w0)))"
    using 2 w1 same tx_statement_db(1) [of w2] tx_statement_db(1) [of "w2\<lparr>db := db w1\<rparr>"]
    by (auto simp: transaction_def b bd split: sum.split tx_end.split prod.split)
qed

end

text \<open>Reading: the database is what it was.\<close>

abbreviation reads_only :: "('e, 'a) action \<Rightarrow> bool" where
  "reads_only m \<equiv> evolves (=) m"

interpretation unchanged: evolution "(=)"
  by unfold_locales auto

end
