(* ===== verification/Schema.thy ===== *)
theory Schema
  imports World
begin

text \<open>
  The constraints of the schema (\<open>server/migrations/0001\<close> to \<open>0009\<close>) as an invariant of the
  database and its sequences: primary keys unique and below their sequence, the \<open>UNIQUE\<close>
  columns and (partial) unique indexes, and the foreign keys. \<open>schema_ok\<close> is what every
  repository operation is proved to keep, and what the services' theorems assume of the
  database they start from.
\<close>

subsection \<open>Keys drawn from a sequence\<close>

definition serial_key :: "('r \<Rightarrow> int) \<Rightarrow> int \<Rightarrow> 'r list \<Rightarrow> bool" where
  "serial_key key next_id rows \<longleftrightarrow> keyed key rows \<and> (\<forall>k \<in> keys key rows. k < next_id)"

lemma serial_key_empty [simp]: "serial_key key n []"
  by (simp add: serial_key_def)

lemma serial_key_snoc:
  "serial_key key n rows \<Longrightarrow> key r = n \<Longrightarrow> serial_key key (n + 1) (rows @ [r])"
  by (force simp: serial_key_def)

lemma serial_key_mono: "serial_key key n rows \<Longrightarrow> n \<le> m \<Longrightarrow> serial_key key m rows"
  by (auto simp: serial_key_def dest: bspec intro: less_le_trans)

lemma serial_key_update_where:
  "(\<And>r. p r \<Longrightarrow> key (f r) = key r) \<Longrightarrow>
    serial_key key n (update_where p f rows) = serial_key key n rows"
  by (simp add: serial_key_def keyed_update_where keys_update_where)

lemma serial_key_keyed: "serial_key key n rows \<Longrightarrow> keyed key rows"
  by (simp add: serial_key_def)

subsection \<open>The invariant\<close>

definition ids_ok :: db_inv where
  "ids_ok d s \<longleftrightarrow>
     serial_key usr_id (s T_users) (users d) \<and>
     serial_key sub_id (s T_subscriptions) (subscriptions d) \<and>
     serial_key lic_id (s T_licenses) (licenses d) \<and>
     serial_key dev_id (s T_devices) (devices d) \<and>
     serial_key ses_id (s T_sessions) (sessions d) \<and>
     serial_key pay_id (s T_payments) (payments d) \<and>
     serial_key pwe_id (s T_webhook_events) (webhook_events d) \<and>
     serial_key lh_id (s T_login_history) (login_history d) \<and>
     serial_key lv_id (s T_validation_logs) (validation_logs d)"

definition uniques_ok :: "tables \<Rightarrow> bool" where
  "uniques_ok d \<longleftrightarrow>
     keyed usr_email (users d) \<and>
     keyed lic_key (licenses d) \<and>
     keyed (\<lambda>x. (dev_license_id x, dev_device_id x)) (devices d) \<and>
     keyed ses_token_hash (sessions d) \<and>
     keyed (\<lambda>e. (pwe_provider e, pwe_event_id e)) (webhook_events d) \<and>
     keyed_opt pay_provider_ref (payments d) \<and>
     keyed_opt pay_gateway_payment_id (payments d)"

definition refs_ok :: "tables \<Rightarrow> bool" where
  "refs_ok d \<longleftrightarrow>
     sub_user_id ` set (subscriptions d) \<subseteq> keys usr_id (users d) \<and>
     lic_subscription_id ` set (licenses d) \<subseteq> keys sub_id (subscriptions d) \<and>
     dev_license_id ` set (devices d) \<subseteq> keys lic_id (licenses d) \<and>
     ses_user_id ` set (sessions d) \<subseteq> keys usr_id (users d) \<and>
     pay_subscription_id ` set (payments d) \<subseteq> keys sub_id (subscriptions d) \<and>
     lh_user_id ` set (login_history d) \<subseteq> keys usr_id (users d) \<and>
     lv_license_id ` set (validation_logs d) \<subseteq> keys lic_id (licenses d)"

definition schema_ok :: db_inv where
  "schema_ok d s \<longleftrightarrow> ids_ok d s \<and> uniques_ok d \<and> refs_ok d"

lemmas schema_defs = schema_ok_def ids_ok_def uniques_ok_def refs_ok_def

lemma schema_ok_empty: "schema_ok empty_tables s"
  by (simp add: schema_defs empty_tables_def)

lemma schema_seq_tolerant: "seq_tolerant schema_ok"
  unfolding seq_tolerant_def schema_ok_def ids_ok_def
  by (intro allI impI conjI; elim conjE; (assumption | (erule serial_key_mono, erule spec)))

subsection \<open>What the invariant gives a reader\<close>

lemma schema_keyed:
  assumes "schema_ok d s"
  shows "keyed usr_id (users d)" "keyed usr_email (users d)"
    and "keyed sub_id (subscriptions d)"
    and "keyed lic_id (licenses d)" "keyed lic_key (licenses d)"
    and "keyed dev_id (devices d)" "keyed (\<lambda>x. (dev_license_id x, dev_device_id x)) (devices d)"
    and "keyed ses_id (sessions d)" "keyed ses_token_hash (sessions d)"
    and "keyed pay_id (payments d)"
  using assms by (simp_all add: schema_defs serial_key_def)

lemma schema_license_subscription:
  assumes "schema_ok d s" and "l \<in> set (licenses d)"
  obtains b where "b \<in> set (subscriptions d)" and "sub_id b = lic_subscription_id l"
proof -
  have "lic_subscription_id ` set (licenses d) \<subseteq> keys sub_id (subscriptions d)"
    using assms(1) by (simp add: schema_ok_def refs_ok_def)
  then have "lic_subscription_id l \<in> keys sub_id (subscriptions d)"
    using assms(2) by (rule image_subset_iff [THEN iffD1, THEN bspec])
  then show ?thesis using that by (auto simp: keys_def)
qed

lemma schema_payment_subscription:
  assumes "schema_ok d s" and "p \<in> set (payments d)"
  obtains b where "b \<in> set (subscriptions d)" and "sub_id b = pay_subscription_id p"
proof -
  have "pay_subscription_id ` set (payments d) \<subseteq> keys sub_id (subscriptions d)"
    using assms(1) by (simp add: schema_ok_def refs_ok_def)
  then have "pay_subscription_id p \<in> keys sub_id (subscriptions d)"
    using assms(2) by (rule image_subset_iff [THEN iffD1, THEN bspec])
  then show ?thesis using that by (auto simp: keys_def)
qed

lemma schema_device_license:
  assumes "schema_ok d s" and "x \<in> set (devices d)"
  shows "dev_license_id x \<in> keys lic_id (licenses d)" and "dev_license_id x < s T_licenses"
proof -
  have sub: "dev_license_id ` set (devices d) \<subseteq> keys lic_id (licenses d)"
    and lt: "\<forall>k \<in> keys lic_id (licenses d). k < s T_licenses"
    using assms(1) by (simp_all add: schema_defs serial_key_def)
  show mem: "dev_license_id x \<in> keys lic_id (licenses d)"
    using sub assms(2) by (rule image_subset_iff [THEN iffD1, THEN bspec])
  show "dev_license_id x < s T_licenses" using lt mem by (rule bspec)
qed

lemma keyed_optD:
  assumes "keyed_opt key rows" and "r \<in> set rows" and "q \<in> set rows"
    and "key r = Some k" and "key q = Some k"
  shows "r = q"
  using assms
proof (induction rows)
  case (Cons x xs)
  have not_both: "key x = Some k \<Longrightarrow> y \<in> set xs \<Longrightarrow> key y \<noteq> Some k" for y
    using Cons.prems(1) by (force simp: keyed_opt_def image_iff)
  have tl: "keyed_opt key xs"
    using Cons.prems(1) by (auto simp: keyed_opt_def split: if_splits)
  show ?case
    using Cons.prems Cons.IH [OF tl] not_both by auto
qed simp

subsection \<open>Appending and updating rows\<close>

text \<open>One rule per insert: what the sequence, the unique indexes and the foreign keys ask.\<close>

lemma schema_insert_user:
  assumes "schema_ok d s" and "usr_id r = s T_users" and "usr_email r \<notin> keys usr_email (users d)"
  shows "schema_ok (d\<lparr>users := users d @ [r]\<rparr>) (s(T_users := s T_users + 1))"
  using assms by (auto simp: schema_defs intro: serial_key_snoc)

lemma schema_insert_session:
  assumes "schema_ok d s" and "ses_id r = s T_sessions"
    and "ses_token_hash r \<notin> keys ses_token_hash (sessions d)"
    and "ses_user_id r \<in> keys usr_id (users d)"
  shows "schema_ok (d\<lparr>sessions := sessions d @ [r]\<rparr>) (s(T_sessions := s T_sessions + 1))"
  using assms by (auto simp: schema_defs intro: serial_key_snoc)

lemma schema_insert_subscription:
  assumes "schema_ok d s" and "sub_id r = s T_subscriptions"
    and "sub_user_id r \<in> keys usr_id (users d)"
  shows "schema_ok (d\<lparr>subscriptions := subscriptions d @ [r]\<rparr>)
      (s(T_subscriptions := s T_subscriptions + 1))"
  using assms by (auto simp: schema_defs intro: serial_key_snoc)

lemma schema_insert_license:
  assumes "schema_ok d s" and "lic_id r = s T_licenses"
    and "lic_key r \<notin> keys lic_key (licenses d)"
    and "lic_subscription_id r \<in> keys sub_id (subscriptions d)"
  shows "schema_ok (d\<lparr>licenses := licenses d @ [r]\<rparr>) (s(T_licenses := s T_licenses + 1))"
  using assms by (auto simp: schema_defs intro: serial_key_snoc)

lemma schema_insert_device:
  assumes "schema_ok d s" and "dev_id r = s T_devices"
    and "(dev_license_id r, dev_device_id r) \<notin> keys (\<lambda>x. (dev_license_id x, dev_device_id x)) (devices d)"
    and "dev_license_id r \<in> keys lic_id (licenses d)"
  shows "schema_ok (d\<lparr>devices := devices d @ [r]\<rparr>) (s(T_devices := s T_devices + 1))"
  using assms by (auto simp: schema_defs intro: serial_key_snoc)

lemma schema_insert_payment:
  assumes "schema_ok d s" and "pay_id r = s T_payments"
    and "keyed_opt pay_provider_ref (payments d @ [r])"
    and "keyed_opt pay_gateway_payment_id (payments d @ [r])"
    and "pay_subscription_id r \<in> keys sub_id (subscriptions d)"
  shows "schema_ok (d\<lparr>payments := payments d @ [r]\<rparr>) (s(T_payments := s T_payments + 1))"
  using assms by (auto simp: schema_defs intro: serial_key_snoc)

lemma schema_insert_webhook_event:
  assumes "schema_ok d s" and "pwe_id r = s T_webhook_events"
    and "(pwe_provider r, pwe_event_id r) \<notin> keys (\<lambda>e. (pwe_provider e, pwe_event_id e)) (webhook_events d)"
  shows "schema_ok (d\<lparr>webhook_events := webhook_events d @ [r]\<rparr>)
      (s(T_webhook_events := s T_webhook_events + 1))"
  using assms by (auto simp: schema_defs intro: serial_key_snoc)

lemma schema_insert_login:
  assumes "schema_ok d s" and "lh_id r = s T_login_history" and "lh_user_id r \<in> keys usr_id (users d)"
  shows "schema_ok (d\<lparr>login_history := login_history d @ [r]\<rparr>)
      (s(T_login_history := s T_login_history + 1))"
  using assms by (auto simp: schema_defs intro: serial_key_snoc)

lemma schema_insert_validation:
  assumes "schema_ok d s" and "lv_id r = s T_validation_logs"
    and "lv_license_id r \<in> keys lic_id (licenses d)"
  shows "schema_ok (d\<lparr>validation_logs := validation_logs d @ [r]\<rparr>)
      (s(T_validation_logs := s T_validation_logs + 1))"
  using assms by (auto simp: schema_defs intro: serial_key_snoc)

lemmas schema_inserts =
  schema_insert_user schema_insert_session schema_insert_subscription schema_insert_license
  schema_insert_device schema_insert_payment schema_insert_webhook_event schema_insert_login
  schema_insert_validation

lemma schema_seq_bump: "schema_ok d s \<Longrightarrow> schema_ok d (s(t := s t + 1))"
  using schema_seq_tolerant unfolding seq_tolerant_def by simp

text \<open>One rule per updated table: the columns that constraints mention are left alone.\<close>

lemma image_update_where:
  assumes "\<And>r. p r \<Longrightarrow> g (f r) = g r"
  shows "g ` set (update_where p f rows) = g ` set rows"
  using keys_update_where [of p g f rows, OF assms] by (simp add: keys_def)

lemma schema_update_sessions:
  assumes "schema_ok d s"
    and "\<And>r. p r \<Longrightarrow> ses_id (f r) = ses_id r \<and> ses_token_hash (f r) = ses_token_hash r
      \<and> ses_user_id (f r) = ses_user_id r"
  shows "schema_ok (d\<lparr>sessions := update_where p f (sessions d)\<rparr>) s"
  using assms
  by (simp add: schema_defs serial_key_update_where keyed_update_where image_update_where)

lemma schema_update_subscriptions:
  assumes "schema_ok d s"
    and "\<And>r. p r \<Longrightarrow> sub_id (f r) = sub_id r \<and> sub_user_id (f r) = sub_user_id r"
  shows "schema_ok (d\<lparr>subscriptions := update_where p f (subscriptions d)\<rparr>) s"
  using assms
  by (simp add: schema_defs serial_key_update_where keyed_update_where image_update_where
      keys_update_where)

lemma schema_update_licenses:
  assumes "schema_ok d s"
    and "\<And>r. p r \<Longrightarrow> lic_id (f r) = lic_id r \<and> lic_key (f r) = lic_key r
      \<and> lic_subscription_id (f r) = lic_subscription_id r"
  shows "schema_ok (d\<lparr>licenses := update_where p f (licenses d)\<rparr>) s"
  using assms
  by (simp add: schema_defs serial_key_update_where keyed_update_where image_update_where
      keys_update_where)

lemma schema_update_devices:
  assumes "schema_ok d s"
    and "\<And>r. p r \<Longrightarrow> dev_id (f r) = dev_id r \<and> dev_license_id (f r) = dev_license_id r
      \<and> dev_device_id (f r) = dev_device_id r"
  shows "schema_ok (d\<lparr>devices := update_where p f (devices d)\<rparr>) s"
  using assms
  by (simp add: schema_defs serial_key_update_where keyed_update_where image_update_where)

lemma schema_update_payments:
  assumes "schema_ok d s"
    and "\<And>r. p r \<Longrightarrow> pay_id (f r) = pay_id r \<and> pay_subscription_id (f r) = pay_subscription_id r
      \<and> pay_provider_ref (f r) = pay_provider_ref r"
    and "keyed_opt pay_gateway_payment_id (update_where p f (payments d))"
  shows "schema_ok (d\<lparr>payments := update_where p f (payments d)\<rparr>) s"
  using assms
  by (simp add: schema_defs serial_key_update_where keyed_opt_update_where image_update_where)

lemma schema_update_payments_status:
  assumes "schema_ok d s"
    and "\<And>r. p r \<Longrightarrow> pay_id (f r) = pay_id r \<and> pay_subscription_id (f r) = pay_subscription_id r
      \<and> pay_provider_ref (f r) = pay_provider_ref r
      \<and> pay_gateway_payment_id (f r) = pay_gateway_payment_id r"
  shows "schema_ok (d\<lparr>payments := update_where p f (payments d)\<rparr>) s"
  using assms
  by (simp add: schema_defs serial_key_update_where keyed_opt_update_where image_update_where)

lemmas schema_updates =
  schema_update_sessions schema_update_subscriptions schema_update_licenses
  schema_update_devices schema_update_payments_status

lemma keeps_schema_insert:
  assumes "\<And>d s t. schema_ok d s \<Longrightarrow> allowed (mk (s tb) t) d
      \<Longrightarrow> schema_ok (put (mk (s tb) t) d) (s(tb := s tb + 1))"
  shows "keeps schema_ok (sql_insert tb mk allowed put)"
  by (rule keeps_insert) (simp_all add: assms schema_seq_bump)

end
