(* ===== verification/RepoAccounts.thy ===== *)
theory RepoAccounts
  imports Schema
begin

text \<open>
  The repositories of the account tables:
  \<open>repository/{user,session,audit,subscription}.rs\<close>. A stored row carries its enums as
  text; \<open>..._row_of\<close> is the encoding an \<open>INSERT\<close>/\<open>UPDATE\<close> binds and \<open>..._try_from\<close> the
  \<open>TryFrom<Row>\<close> impl a read goes through. That the second never fails on the first is the
  \<open>wire_enum\<close> contract, so each read is equal to a plain select (\<open>..._eq\<close>).
  Every operation is shown to keep \<open>schema_ok\<close>.
\<close>

definition result_of :: "'e + 'a \<Rightarrow> ('e, 'a) action" where
  "result_of r w = (r, w)"

lemma result_of_run [run_simps]: "result_of r w = (r, w)"
  by (simp add: result_of_def)

lemma keeps_result_of [keeps_intros]: "keeps I (result_of r)"
  by (simp add: keeps_def result_of_def)

lemma result_of_Inr [simp]: "result_of (Inr x) = return_ok x"
  by (rule ext) (simp add: result_of_def return_ok_def)

text \<open>A select followed by a decoding that always succeeds is that select.\<close>

lemma select_decoded:
  assumes "\<And>x. dec (enc x) = Inr x"
  shows "await (sql_select (\<lambda>d. map_option enc (f d)))
      (\<lambda>row. result_of (transpose_option (map_option dec row))) = sql_select f"
proof -
  have "transpose_option (map_option dec (map_option enc r)) = Inr r" for r
    by (cases r) (simp_all add: assms)
  then show ?thesis
    by (simp add: fun_eq_iff await_def await_as_def sql_select_def sql_def result_of_def
        return_ok_def split: list.split)
qed

lemma await_return [simp]: "await m return_ok = m"
  by (rule ext) (simp add: await_def await_as_def return_ok_def split: prod.split sum.split)

subsection \<open>Users\<close>

record user_row =
  ur_id :: int
  ur_email :: string
  ur_password_hash :: string
  ur_full_name :: "string option"
  ur_company_name :: "string option"
  ur_role :: string
  ur_created_at :: timestamp
  ur_updated_at :: timestamp

definition user_row_of :: "user \<Rightarrow> user_row" where
  "user_row_of u = \<lparr> ur_id = usr_id u, ur_email = usr_email u, ur_password_hash = usr_password_hash u,
     ur_full_name = usr_full_name u, ur_company_name = usr_company_name u,
     ur_role = user_role_as_str (usr_role u), ur_created_at = usr_created_at u,
     ur_updated_at = usr_updated_at u \<rparr>"

definition user_try_from :: "user_row \<Rightarrow> repository_error + user" where
  "user_try_from row =
    (case map_err InvalidData (user_role_from_str (ur_role row)) of
       Inl e \<Rightarrow> Inl e
     | Inr role \<Rightarrow> Inr \<lparr> usr_id = ur_id row, usr_email = ur_email row,
         usr_password_hash = ur_password_hash row, usr_full_name = ur_full_name row,
         usr_company_name = ur_company_name row, usr_role = role,
         usr_created_at = ur_created_at row, usr_updated_at = ur_updated_at row \<rparr>)"

lemma user_row_roundtrip [simp]: "user_try_from (user_row_of u) = Inr u"
  by (simp add: user_try_from_def user_row_of_def user_role_wire.parse_print)

definition user_find_by_email :: "string \<Rightarrow> (repository_error, user option) action" where
  "user_find_by_email email =
    await (sql_select (\<lambda>d. map_option user_row_of (find (\<lambda>u. usr_email u = email) (users d))))
      (\<lambda>row. result_of (transpose_option (map_option user_try_from row)))"

definition user_find_by_id :: "int \<Rightarrow> (repository_error, user option) action" where
  "user_find_by_id i =
    await (sql_select (\<lambda>d. map_option user_row_of (find (\<lambda>u. usr_id u = i) (users d))))
      (\<lambda>row. result_of (transpose_option (map_option user_try_from row)))"

definition user_insert :: "new_user \<Rightarrow> (repository_error, user) action" where
  "user_insert nu =
    await (sql_insert T_users
        (\<lambda>i now. \<lparr> usr_id = i, usr_email = nu_email nu, usr_password_hash = nu_password_hash nu,
           usr_full_name = nu_full_name nu, usr_company_name = nu_company_name nu,
           usr_role = Customer, usr_created_at = now, usr_updated_at = now \<rparr>)
        (\<lambda>r d. usr_email r \<notin> keys usr_email (users d))
        (\<lambda>r d. d\<lparr>users := users d @ [r]\<rparr>))
      (\<lambda>row. result_of (user_try_from (user_row_of row)))"

lemma user_find_by_email_eq [run_simps]:
  "user_find_by_email email = sql_select (\<lambda>d. find (\<lambda>u. usr_email u = email) (users d))"
  unfolding user_find_by_email_def by (rule select_decoded) simp

lemma user_find_by_id_eq [run_simps]:
  "user_find_by_id i = sql_select (\<lambda>d. find (\<lambda>u. usr_id u = i) (users d))"
  unfolding user_find_by_id_def by (rule select_decoded) simp

lemma keeps_user_insert [keeps_intros]: "keeps schema_ok (user_insert nu)"
  unfolding user_insert_def
  by (intro keeps_intros keeps_schema_insert) (auto intro: schema_inserts)

subsection \<open>Sessions\<close>

definition session_insert :: "new_session \<Rightarrow> (repository_error, session) action" where
  "session_insert ns =
    sql_insert T_sessions
      (\<lambda>i now. \<lparr> ses_id = i, ses_user_id = nse_user_id ns, ses_token_hash = nse_token_hash ns,
         ses_created_at = now, ses_expires_at = nse_expires_at ns, ses_revoked_at = None \<rparr>)
      (\<lambda>r d. ses_token_hash r \<notin> keys ses_token_hash (sessions d)
           \<and> ses_user_id r \<in> keys usr_id (users d))
      (\<lambda>r d. d\<lparr>sessions := sessions d @ [r]\<rparr>)"

definition session_find_by_token_hash :: "string \<Rightarrow> (repository_error, session option) action" where
  "session_find_by_token_hash h =
    sql_select (\<lambda>d. find (\<lambda>x. ses_token_hash x = h) (sessions d))"

definition session_revoke :: "int \<Rightarrow> (repository_error, unit) action" where
  "session_revoke i =
    sql_update (\<lambda>now d. d\<lparr>sessions :=
        update_where (\<lambda>x. ses_id x = i) (\<lambda>x. x\<lparr>ses_revoked_at := Some now\<rparr>) (sessions d)\<rparr>)
      (\<lambda>_. True)"

lemma keeps_sessions [keeps_intros]:
  "keeps schema_ok (session_insert ns)"
  "keeps I (session_find_by_token_hash h)"
  "keeps schema_ok (session_revoke i)"
  unfolding session_insert_def session_find_by_token_hash_def session_revoke_def
  by (auto intro!: keeps_intros keeps_schema_insert keeps_update schema_inserts schema_updates)

subsection \<open>Audit logs\<close>

definition audit_record_login :: "new_login_history_entry \<Rightarrow> (repository_error, unit) action" where
  "audit_record_login e =
    await (sql_insert T_login_history
        (\<lambda>i now. \<lparr> lh_id = i, lh_user_id = nlh_user_id e, lh_device_id = nlh_device_id e,
           lh_success = nlh_success e, lh_created_at = now \<rparr>)
        (\<lambda>r d. lh_user_id r \<in> keys usr_id (users d))
        (\<lambda>r d. d\<lparr>login_history := login_history d @ [r]\<rparr>))
      (\<lambda>_. return_ok ())"

definition audit_record_validation ::
  "new_license_validation_log_entry \<Rightarrow> (repository_error, unit) action" where
  "audit_record_validation e =
    await (sql_insert T_validation_logs
        (\<lambda>i now. \<lparr> lv_id = i, lv_license_id = nlv_license_id e, lv_device_id = nlv_device_id e,
           lv_result = nlv_result e, lv_created_at = now \<rparr>)
        (\<lambda>r d. lv_license_id r \<in> keys lic_id (licenses d))
        (\<lambda>r d. d\<lparr>validation_logs := validation_logs d @ [r]\<rparr>))
      (\<lambda>_. return_ok ())"

lemma keeps_audit [keeps_intros]:
  "keeps schema_ok (audit_record_login e)" "keeps schema_ok (audit_record_validation v)"
  unfolding audit_record_login_def audit_record_validation_def
  by (auto intro!: keeps_intros keeps_schema_insert schema_inserts)

subsection \<open>Subscriptions\<close>

record subscription_row =
  sr_id :: int
  sr_user_id :: int
  sr_plan_type :: string
  sr_status :: string
  sr_started_at :: timestamp
  sr_current_period_end :: "timestamp option"
  sr_auto_renew :: bool
  sr_created_at :: timestamp
  sr_updated_at :: timestamp

definition subscription_row_of :: "subscription \<Rightarrow> subscription_row" where
  "subscription_row_of b = \<lparr> sr_id = sub_id b, sr_user_id = sub_user_id b,
     sr_plan_type = plan_as_str (sub_plan_type b),
     sr_status = subscription_status_as_str (sub_status b), sr_started_at = sub_started_at b,
     sr_current_period_end = sub_current_period_end b, sr_auto_renew = sub_auto_renew b,
     sr_created_at = sub_created_at b, sr_updated_at = sub_updated_at b \<rparr>"

definition subscription_try_from :: "subscription_row \<Rightarrow> repository_error + subscription" where
  "subscription_try_from row =
    (case map_err InvalidData (plan_from_str (sr_plan_type row)) of
       Inl e \<Rightarrow> Inl e
     | Inr plan \<Rightarrow>
        (case map_err InvalidData (subscription_status_from_str (sr_status row)) of
           Inl e \<Rightarrow> Inl e
         | Inr st \<Rightarrow> Inr \<lparr> sub_id = sr_id row, sub_user_id = sr_user_id row, sub_plan_type = plan,
             sub_status = st, sub_started_at = sr_started_at row,
             sub_current_period_end = sr_current_period_end row, sub_auto_renew = sr_auto_renew row,
             sub_created_at = sr_created_at row, sub_updated_at = sr_updated_at row \<rparr>))"

lemma subscription_row_roundtrip [simp]: "subscription_try_from (subscription_row_of b) = Inr b"
  by (simp add: subscription_try_from_def subscription_row_of_def plan_wire.parse_print
      subscription_status_wire.parse_print)

definition subscription_find_by_id :: "int \<Rightarrow> (repository_error, subscription option) action" where
  "subscription_find_by_id i =
    await (sql_select (\<lambda>d. map_option subscription_row_of (find (\<lambda>b. sub_id b = i) (subscriptions d))))
      (\<lambda>row. result_of (transpose_option (map_option subscription_try_from row)))"

definition subscription_find_active_by_user ::
  "int \<Rightarrow> (repository_error, subscription option) action" where
  "subscription_find_active_by_user u =
    await (sql_select (\<lambda>d. map_option subscription_row_of
        (latest_by sub_created_at
          (filter (\<lambda>b. sub_user_id b = u \<and> sub_status b = SubActive) (subscriptions d)))))
      (\<lambda>row. result_of (transpose_option (map_option subscription_try_from row)))"

definition subscription_find_latest_by_user ::
  "int \<Rightarrow> (repository_error, subscription option) action" where
  "subscription_find_latest_by_user u =
    await (sql_select (\<lambda>d. map_option subscription_row_of
        (latest_by sub_created_at (filter (\<lambda>b. sub_user_id b = u) (subscriptions d)))))
      (\<lambda>row. result_of (transpose_option (map_option subscription_try_from row)))"

definition subscription_insert :: "new_subscription \<Rightarrow> (repository_error, subscription) action" where
  "subscription_insert ns =
    await (sql_insert T_subscriptions
        (\<lambda>i now. \<lparr> sub_id = i, sub_user_id = ns_user_id ns, sub_plan_type = ns_plan_type ns,
           sub_status = ns_status ns, sub_started_at = ns_started_at ns,
           sub_current_period_end = ns_current_period_end ns, sub_auto_renew = ns_auto_renew ns,
           sub_created_at = now, sub_updated_at = now \<rparr>)
        (\<lambda>r d. sub_user_id r \<in> keys usr_id (users d))
        (\<lambda>r d. d\<lparr>subscriptions := subscriptions d @ [r]\<rparr>))
      (\<lambda>row. result_of (subscription_try_from (subscription_row_of row)))"

definition subscription_update_status ::
  "int \<Rightarrow> subscription_status \<Rightarrow> timestamp option \<Rightarrow> (repository_error, unit) action" where
  "subscription_update_status i st period_end =
    sql_update (\<lambda>now d. d\<lparr>subscriptions :=
        update_where (\<lambda>b. sub_id b = i)
          (\<lambda>b. b\<lparr>sub_status := st, sub_current_period_end := period_end, sub_updated_at := now\<rparr>)
          (subscriptions d)\<rparr>)
      (\<lambda>_. True)"

lemma subscription_finds_eq [run_simps]:
  "subscription_find_by_id i = sql_select (\<lambda>d. find (\<lambda>b. sub_id b = i) (subscriptions d))"
  "subscription_find_latest_by_user u =
     sql_select (\<lambda>d. latest_by sub_created_at (filter (\<lambda>b. sub_user_id b = u) (subscriptions d)))"
  "subscription_find_active_by_user u =
     sql_select (\<lambda>d. latest_by sub_created_at
       (filter (\<lambda>b. sub_user_id b = u \<and> sub_status b = SubActive) (subscriptions d)))"
  unfolding subscription_find_by_id_def subscription_find_latest_by_user_def
    subscription_find_active_by_user_def
  by (rule select_decoded, simp)+

lemma keeps_subscriptions [keeps_intros]:
  "keeps schema_ok (subscription_insert ns)"
  "keeps schema_ok (subscription_update_status i st pe)"
  unfolding subscription_insert_def subscription_update_status_def
  by (auto intro!: keeps_intros keeps_schema_insert keeps_update schema_inserts schema_updates)

end
