(* ===== verification/RepoLicenses.thy ===== *)
theory RepoLicenses
  imports RepoAccounts
begin

text \<open>
  The repositories of licenses and devices: \<open>repository/license.rs\<close>,
  \<open>repository/device.rs\<close> and the single-row operations of \<open>repository/admin.rs\<close>. The core is
  \<open>device_activate\<close>, the check-and-mutate transaction behind \<open>/activate-license\<close>, with its
  branches; its effect and the device cap are the theory DeviceCap.
\<close>

subsection \<open>Licenses\<close>

record license_row =
  lr_id :: int
  lr_subscription_id :: int
  lr_license_key :: string
  lr_status :: string
  lr_expires_at :: "timestamp option"
  lr_max_devices :: int
  lr_grace_period_days :: int
  lr_issued_at :: timestamp
  lr_revoked_at :: "timestamp option"
  lr_revoked_reason :: "string option"

definition license_row_of :: "license \<Rightarrow> license_row" where
  "license_row_of l = \<lparr> lr_id = lic_id l, lr_subscription_id = lic_subscription_id l,
     lr_license_key = lic_key l, lr_status = license_status_as_str (lic_status l),
     lr_expires_at = lic_expires_at l, lr_max_devices = lic_max_devices l,
     lr_grace_period_days = lic_grace_period_days l, lr_issued_at = lic_issued_at l,
     lr_revoked_at = lic_revoked_at l, lr_revoked_reason = lic_revoked_reason l \<rparr>"

definition license_try_from :: "license_row \<Rightarrow> repository_error + license" where
  "license_try_from row =
    (case map_err InvalidData (license_status_from_str (lr_status row)) of
       Inl e \<Rightarrow> Inl e
     | Inr st \<Rightarrow> Inr \<lparr> lic_id = lr_id row, lic_subscription_id = lr_subscription_id row,
         lic_key = lr_license_key row, lic_status = st, lic_expires_at = lr_expires_at row,
         lic_max_devices = lr_max_devices row, lic_grace_period_days = lr_grace_period_days row,
         lic_issued_at = lr_issued_at row, lic_revoked_at = lr_revoked_at row,
         lic_revoked_reason = lr_revoked_reason row \<rparr>)"

lemma license_row_roundtrip [simp]: "license_try_from (license_row_of l) = Inr l"
  by (simp add: license_try_from_def license_row_of_def license_status_wire.parse_print)

definition license_find_by_key :: "string \<Rightarrow> (repository_error, license option) action" where
  "license_find_by_key key =
    await (sql_select (\<lambda>d. map_option license_row_of (find (\<lambda>l. lic_key l = key) (licenses d))))
      (\<lambda>row. result_of (transpose_option (map_option license_try_from row)))"

definition license_find_by_id :: "int \<Rightarrow> (repository_error, license option) action" where
  "license_find_by_id i =
    await (sql_select (\<lambda>d. map_option license_row_of (find (\<lambda>l. lic_id l = i) (licenses d))))
      (\<lambda>row. result_of (transpose_option (map_option license_try_from row)))"

text \<open>\<open>WHERE subscription_id = $1 AND status != 'revoked' ORDER BY issued_at DESC LIMIT 1\<close>.\<close>

definition current_license :: "int \<Rightarrow> tables \<Rightarrow> license option" where
  "current_license sid d =
    latest_by lic_issued_at
      (filter (\<lambda>l. lic_subscription_id l = sid \<and> lic_status l \<noteq> LicRevoked) (licenses d))"

definition license_find_latest_by_subscription ::
  "int \<Rightarrow> (repository_error, license option) action" where
  "license_find_latest_by_subscription sid =
    await (sql_select (\<lambda>d. map_option license_row_of (current_license sid d)))
      (\<lambda>row. result_of (transpose_option (map_option license_try_from row)))"

text \<open>The row an \<open>INSERT INTO licenses\<close> stores, with the schema's column defaults.\<close>

definition license_of_new :: "new_license \<Rightarrow> int \<Rightarrow> timestamp \<Rightarrow> license" where
  "license_of_new nl i now =
    \<lparr> lic_id = i, lic_subscription_id = nl_subscription_id nl, lic_key = nl_license_key nl,
      lic_status = nl_status nl, lic_expires_at = nl_expires_at nl,
      lic_max_devices = nl_max_devices nl, lic_grace_period_days = nl_grace_period_days nl,
      lic_issued_at = now, lic_revoked_at = None, lic_revoked_reason = None \<rparr>"

definition license_insert_statement :: "new_license \<Rightarrow> (repository_error, license) action" where
  "license_insert_statement nl =
    sql_insert T_licenses (license_of_new nl)
      (\<lambda>r d. lic_key r \<notin> keys lic_key (licenses d)
           \<and> lic_subscription_id r \<in> keys sub_id (subscriptions d))
      (\<lambda>r d. d\<lparr>licenses := licenses d @ [r]\<rparr>)"

definition license_insert :: "new_license \<Rightarrow> (repository_error, license) action" where
  "license_insert nl =
    await (license_insert_statement nl) (\<lambda>row. result_of (license_try_from (license_row_of row)))"

definition license_extend ::
  "int \<Rightarrow> license_record_status \<Rightarrow> timestamp option \<Rightarrow> (repository_error, unit) action" where
  "license_extend i st expires =
    sql_update (\<lambda>now d. d\<lparr>licenses :=
        update_where (\<lambda>l. lic_id l = i) (\<lambda>l. l\<lparr>lic_status := st, lic_expires_at := expires\<rparr>)
          (licenses d)\<rparr>)
      (\<lambda>_. True)"

lemma license_finds_eq [run_simps]:
  "license_find_by_key key = sql_select (\<lambda>d. find (\<lambda>l. lic_key l = key) (licenses d))"
  "license_find_by_id i = sql_select (\<lambda>d. find (\<lambda>l. lic_id l = i) (licenses d))"
  "license_find_latest_by_subscription sid = sql_select (current_license sid)"
  unfolding license_find_by_key_def license_find_by_id_def license_find_latest_by_subscription_def
  by (rule select_decoded, simp)+

lemma keeps_licenses [keeps_intros]:
  "keeps schema_ok (license_insert_statement nl)"
  "keeps schema_ok (license_insert nl)"
  "keeps schema_ok (license_extend i st ex)"
  unfolding license_insert_def license_insert_statement_def license_extend_def
  by (auto intro!: keeps_intros keeps_schema_insert keeps_update schema_inserts schema_updates
      simp: license_of_new_def)

lemma current_licenseD:
  "current_license sid d = Some l \<Longrightarrow>
    l \<in> set (licenses d) \<and> lic_subscription_id l = sid \<and> lic_status l \<noteq> LicRevoked"
  unfolding current_license_def by (auto dest: latest_by_in)

subsection \<open>The admin's writes to a license\<close>

definition admin_revoke_license_row :: "int \<Rightarrow> string option \<Rightarrow> (repository_error, unit) action" where
  "admin_revoke_license_row i reason =
    sql_update (\<lambda>now d. d\<lparr>licenses :=
        update_where (\<lambda>l. lic_id l = i)
          (\<lambda>l. l\<lparr>lic_status := LicRevoked, lic_revoked_at := Some now, lic_revoked_reason := reason\<rparr>)
          (licenses d)\<rparr>)
      (\<lambda>_. True)"

definition admin_restore_license_row :: "int \<Rightarrow> (repository_error, unit) action" where
  "admin_restore_license_row i =
    sql_update (\<lambda>now d. d\<lparr>licenses :=
        update_where (\<lambda>l. lic_id l = i)
          (\<lambda>l. l\<lparr>lic_status := LicActive, lic_revoked_at := None, lic_revoked_reason := None\<rparr>)
          (licenses d)\<rparr>)
      (\<lambda>_. True)"

lemma keeps_admin_license_rows [keeps_intros]:
  "keeps schema_ok (admin_revoke_license_row i reason)"
  "keeps schema_ok (admin_restore_license_row i)"
  unfolding admin_revoke_license_row_def admin_restore_license_row_def
  by (auto intro!: keeps_update schema_updates)

subsection \<open>Devices\<close>

definition device_active :: "device \<Rightarrow> bool" where
  "device_active x \<longleftrightarrow> dev_deactivated_at x = None"

definition devices_of :: "int \<Rightarrow> tables \<Rightarrow> device list" where
  "devices_of lid d = filter (\<lambda>x. dev_license_id x = lid) (devices d)"

definition active_count :: "int \<Rightarrow> tables \<Rightarrow> nat" where
  "active_count lid d = count_where (\<lambda>x. dev_license_id x = lid \<and> device_active x) (devices d)"

definition device_find_by_license_and_device_id ::
  "int \<Rightarrow> uuid \<Rightarrow> (repository_error, device option) action" where
  "device_find_by_license_and_device_id lid did =
    sql_select (\<lambda>d. find (\<lambda>x. (dev_license_id x, dev_device_id x) = (lid, did)) (devices d))"

definition device_count_active_by_license :: "int \<Rightarrow> (repository_error, int) action" where
  "device_count_active_by_license lid = sql_select (\<lambda>d. int (active_count lid d))"

definition device_touch_last_seen :: "int \<Rightarrow> (repository_error, unit) action" where
  "device_touch_last_seen i =
    sql_update (\<lambda>now d. d\<lparr>devices :=
        update_where (\<lambda>x. dev_id x = i) (\<lambda>x. x\<lparr>dev_last_seen_at := now\<rparr>) (devices d)\<rparr>)
      (\<lambda>_. True)"

definition device_deactivate :: "int \<Rightarrow> (repository_error, unit) action" where
  "device_deactivate i =
    sql_update (\<lambda>now d. d\<lparr>devices :=
        update_where (\<lambda>x. dev_id x = i) (\<lambda>x. x\<lparr>dev_deactivated_at := Some now\<rparr>) (devices d)\<rparr>)
      (\<lambda>_. True)"

definition admin_reactivate_device_row :: "int \<Rightarrow> (repository_error, unit) action" where
  "admin_reactivate_device_row i =
    sql_update (\<lambda>now d. d\<lparr>devices :=
        update_where (\<lambda>x. dev_id x = i) (\<lambda>x. x\<lparr>dev_deactivated_at := None\<rparr>) (devices d)\<rparr>)
      (\<lambda>_. True)"

lemma keeps_devices [keeps_intros]:
  "keeps schema_ok (device_touch_last_seen i)"
  "keeps schema_ok (device_deactivate i)"
  "keeps schema_ok (admin_reactivate_device_row i)"
  "keeps I (device_find_by_license_and_device_id lid did)"
  "keeps I (device_count_active_by_license lid)"
  unfolding device_touch_last_seen_def device_deactivate_def admin_reactivate_device_row_def
    device_find_by_license_and_device_id_def device_count_active_by_license_def
  by (auto intro!: keeps_update keeps_select schema_updates)

subsection \<open>The activation transaction\<close>

datatype device_activation_outcome = Activated | LimitReached "device list"

definition refresh_device :: "string \<Rightarrow> string \<Rightarrow> timestamp \<Rightarrow> device \<Rightarrow> device" where
  "refresh_device fp label now x =
    x\<lparr>dev_machine_fingerprint := fp, dev_device_label := Some label, dev_last_seen_at := now\<rparr>"

definition revive_device :: "string \<Rightarrow> string \<Rightarrow> timestamp \<Rightarrow> device \<Rightarrow> device" where
  "revive_device fp label now x =
    x\<lparr>dev_deactivated_at := None, dev_machine_fingerprint := fp, dev_device_label := Some label,
      dev_last_seen_at := now\<rparr>"

definition fresh_device :: "int \<Rightarrow> uuid \<Rightarrow> string \<Rightarrow> string \<Rightarrow> int \<Rightarrow> timestamp \<Rightarrow> device" where
  "fresh_device lid did fp label i now =
    \<lparr> dev_id = i, dev_license_id = lid, dev_device_id = did, dev_machine_fingerprint = fp,
      dev_device_label = Some label, dev_first_seen_at = now, dev_last_seen_at = now,
      dev_deactivated_at = None \<rparr>"

definition device_activate ::
  "int \<Rightarrow> int \<Rightarrow> uuid \<Rightarrow> string \<Rightarrow> string \<Rightarrow> (repository_error, device_activation_outcome) action" where
  "device_activate lid max_devices did fp label =
    transaction (
      await (sql (\<lambda>w. if lid \<in> keys lic_id (licenses (db w)) then (Inr (), w)
                      else (Inl (Database RowNotFound), w))) (\<lambda>_.
      await (sql_select (devices_of lid)) (\<lambda>rows.
      case find (\<lambda>x. dev_device_id x = did) rows of
        Some existing \<Rightarrow>
          if dev_deactivated_at existing = None then
            await (sql_update (\<lambda>now d. d\<lparr>devices :=
                update_where (\<lambda>x. dev_id x = dev_id existing) (refresh_device fp label now) (devices d)\<rparr>)
              (\<lambda>_. True)) (\<lambda>_.
            return_ok (Commit Activated))
          else if max_devices \<le> as_i32 (count_where device_active rows) then
            return_ok (Rollback (LimitReached (filter device_active rows)))
          else
            await (sql_update (\<lambda>now d. d\<lparr>devices :=
                update_where (\<lambda>x. dev_id x = dev_id existing) (revive_device fp label now) (devices d)\<rparr>)
              (\<lambda>_. True)) (\<lambda>_.
            return_ok (Commit Activated))
      | None \<Rightarrow>
          if max_devices \<le> as_i32 (count_where device_active rows) then
            return_ok (Rollback (LimitReached (filter device_active rows)))
          else
            await (sql_insert T_devices (fresh_device lid did fp label)
                (\<lambda>r d. (dev_license_id r, dev_device_id r)
                         \<notin> keys (\<lambda>x. (dev_license_id x, dev_device_id x)) (devices d)
                     \<and> dev_license_id r \<in> keys lic_id (licenses d))
                (\<lambda>r d. d\<lparr>devices := devices d @ [r]\<rparr>)) (\<lambda>_.
            return_ok (Commit Activated)))))"

lemma keeps_lock_row [keeps_intros]:
  "keeps I (sql (\<lambda>w. if P w then (Inr (), w) else (Inl e, w)))"
  by (rule keeps_sql) simp

lemma seqs_grow_lock_row [keeps_intros]:
  "seqs_grow (sql (\<lambda>w. if P w then (Inr (), w) else (Inl e, w)))"
  by (auto simp: seqs_grow_def sql_def split: list.split)

lemma keeps_device_activate [keeps_intros]:
  "keeps schema_ok (device_activate lid m did fp label)"
  unfolding device_activate_def
  by (intro keeps_transaction schema_seq_tolerant keeps_intros keeps_update keeps_schema_insert
      schema_updates schema_insert_device)
    (auto simp: refresh_device_def revive_device_def fresh_device_def)

end
