(* ===== verification/DeviceCap.thy ===== *)
theory DeviceCap
  imports RepoLicenses
begin

text \<open>
  What \<open>activate_device\<close> does to the database, and the device cap it enforces: a license never
  has more active devices than its \<open>max_devices\<close>. The effect is characterised for every fault
  schedule (\<open>device_activate_effect\<close>) and, on a healthy connection, for every branch.
\<close>

subsection \<open>Every run is one of four effects\<close>

definition slot_free :: "int \<Rightarrow> int \<Rightarrow> tables \<Rightarrow> bool" where
  "slot_free lid m d \<longleftrightarrow> as_i32 (active_count lid d) < m"

lemma count_active_rows: "count_where device_active (devices_of lid d) = active_count lid d"
  by (simp add: count_where_def devices_of_def active_count_def conj_commute)

lemma find_in_devices_of:
  "find (\<lambda>x. dev_device_id x = did) (devices_of lid d)
     = find (\<lambda>x. (dev_license_id x, dev_device_id x) = (lid, did)) (devices d)"
proof -
  have "find (\<lambda>x. dev_device_id x = did) (filter (\<lambda>x. dev_license_id x = lid) xs)
      = find (\<lambda>x. (dev_license_id x, dev_device_id x) = (lid, did)) xs" for xs
    by (induction xs) auto
  then show ?thesis by (simp add: devices_of_def)
qed

lemma device_activate_effect:
  assumes run: "device_activate lid m did fp label w = (r, w')"
  obtains
    (unchanged) "db w' = db w" and "r \<noteq> Inr Activated"
      and "\<And>ds. r = Inr (LimitReached ds) \<Longrightarrow>
             \<not> slot_free lid m (db w) \<and> ds = filter device_active (devices_of lid (db w))
             \<and> (\<forall>x. find (\<lambda>x. (dev_license_id x, dev_device_id x) = (lid, did)) (devices (db w)) = Some x
                  \<longrightarrow> \<not> device_active x)"
  | (refreshed) x where "find (\<lambda>x. (dev_license_id x, dev_device_id x) = (lid, did)) (devices (db w)) = Some x"
      and "device_active x" and "r = Inr Activated"
      and "db w' = (db w)\<lparr>devices := update_where (\<lambda>y. dev_id y = dev_id x)
             (refresh_device fp label (utc_now w)) (devices (db w))\<rparr>"
  | (revived) x where "find (\<lambda>x. (dev_license_id x, dev_device_id x) = (lid, did)) (devices (db w)) = Some x"
      and "\<not> device_active x" and "slot_free lid m (db w)" and "r = Inr Activated"
      and "db w' = (db w)\<lparr>devices := update_where (\<lambda>y. dev_id y = dev_id x)
             (revive_device fp label (utc_now w)) (devices (db w))\<rparr>"
  | (inserted) i where "find (\<lambda>x. (dev_license_id x, dev_device_id x) = (lid, did)) (devices (db w)) = None"
      and "slot_free lid m (db w)" and "r = Inr Activated" and "lid \<in> keys lic_id (licenses (db w))"
      and "db w' = (db w)\<lparr>devices := devices (db w) @ [fresh_device lid did fp label i (utc_now w)]\<rparr>"
  using run unfolding device_activate_def
proof (cases rule: transaction_effect)
  case rolled_back
  show ?thesis
  proof (rule unchanged)
    show "db w' = db w" by (rule rolled_back(1))
    show "r \<noteq> Inr Activated"
      using rolled_back(2) [of Activated]
      by (fastforce elim!: run_elims lock_row_InrE split: option.splits if_splits)
    fix ds assume "r = Inr (LimitReached ds)"
    from rolled_back(2) [OF this]
    show "\<not> slot_free lid m (db w) \<and> ds = filter device_active (devices_of lid (db w))
       \<and> (\<forall>x. find (\<lambda>x. (dev_license_id x, dev_device_id x) = (lid, did)) (devices (db w)) = Some x
            \<longrightarrow> \<not> device_active x)"
      by (auto elim!: run_elims lock_row_InrE split: option.splits if_splits
          simp: slot_free_def count_active_rows find_in_devices_of device_active_def)
  qed
next
  case (committed w1 w2 x)
  from committed(3) show ?thesis
    by (elim run_elims lock_row_InrE)
      (auto elim!: run_elims simp: committed(1,2,4,5) slot_free_def count_active_rows
        find_in_devices_of device_active_def split: option.splits if_splits
        intro: refreshed revived inserted)
qed

subsection \<open>How each effect changes the number of active devices\<close>

lemma active_count_update_row:
  assumes "keyed dev_id (devices d)" and "x \<in> set (devices d)"
    and "dev_license_id (f x) = dev_license_id x"
  shows "active_count lid (d\<lparr>devices := update_where (\<lambda>y. dev_id y = dev_id x) f (devices d)\<rparr>)
       + (if dev_license_id x = lid \<and> device_active x then 1 else 0)
     = active_count lid d + (if dev_license_id x = lid \<and> device_active (f x) then 1 else 0)"
  using count_where_update_row [OF assms(1,2) refl,
      of "\<lambda>x. dev_license_id x = lid \<and> device_active x" f] assms(3)
  by (simp add: active_count_def)

lemma active_count_insert:
  "active_count lid (d\<lparr>devices := devices d @ [x]\<rparr>)
     = active_count lid d + (if dev_license_id x = lid \<and> device_active x then 1 else 0)"
  by (simp add: active_count_def)

lemma active_count_other_tables [simp]:
  "active_count lid (d\<lparr>licenses := ls\<rparr>) = active_count lid d"
  "active_count lid (d\<lparr>subscriptions := bs\<rparr>) = active_count lid d"
  "active_count lid (d\<lparr>payments := ps\<rparr>) = active_count lid d"
  "active_count lid (d\<lparr>webhook_events := es\<rparr>) = active_count lid d"
  "active_count lid (d\<lparr>sessions := ss\<rparr>) = active_count lid d"
  "active_count lid (d\<lparr>users := us\<rparr>) = active_count lid d"
  "active_count lid (d\<lparr>login_history := lhs\<rparr>) = active_count lid d"
  "active_count lid (d\<lparr>validation_logs := vls\<rparr>) = active_count lid d"
  by (simp_all add: active_count_def)

lemma device_of_license_found:
  "find (\<lambda>x. (dev_license_id x, dev_device_id x) = (lid, did)) xs = Some x
     \<Longrightarrow> x \<in> set xs \<and> dev_license_id x = lid \<and> dev_device_id x = did"
  by (auto dest: find_SomeD)

text \<open>
  One activation adds at most one active device, to the license it names only, and only when a
  slot was free.
\<close>

lemma device_activate_count:
  assumes run: "device_activate lid m did fp label w = (r, w')"
    and ok: "schema_ok (db w) (seqs w)"
  shows "active_count k (db w') = active_count k (db w) \<or>
     (k = lid \<and> active_count k (db w') = Suc (active_count k (db w)) \<and> slot_free lid m (db w))"
  using run
proof (cases rule: device_activate_effect)
  case (refreshed x)
  have "active_count k (db w') = active_count k (db w)"
    using active_count_update_row [of "db w" x "refresh_device fp label (utc_now w)" k] refreshed
      device_of_license_found [OF refreshed(1)] schema_keyed(6) [OF ok]
    by (simp add: refresh_device_def device_active_def)
  then show ?thesis ..
next
  case (revived x)
  note found = device_of_license_found [OF revived(1)]
  have "active_count k (db w') + (if dev_license_id x = k \<and> device_active x then 1 else 0)
      = active_count k (db w)
        + (if dev_license_id x = k \<and> device_active (revive_device fp label (utc_now w) x) then 1 else 0)"
    unfolding revived(5)
    by (rule active_count_update_row)
      (use found schema_keyed(6) [OF ok] in \<open>simp_all add: revive_device_def\<close>)
  with found revived(2,3) show ?thesis
    by (cases "k = lid") (auto simp: revive_device_def device_active_def)
next
  case (inserted i)
  then show ?thesis by (auto simp: active_count_insert fresh_device_def device_active_def)
qed simp

subsection \<open>The cap\<close>

text \<open>
  \<open>max_devices\<close> is an \<open>INT\<close> column, so below \<open>2 ^ 31\<close>: this is what makes the cast
  \<open>count() as i32\<close> exact whenever the cap holds.
\<close>

definition cap_ok :: "tables \<Rightarrow> bool" where
  "cap_ok d \<longleftrightarrow> (\<forall>l \<in> set (licenses d).
     int (active_count (lic_id l) d) \<le> lic_max_devices l \<and> lic_max_devices l < 2 ^ 31)"

lemma cap_okD:
  "cap_ok d \<Longrightarrow> l \<in> set (licenses d) \<Longrightarrow> int (active_count (lic_id l) d) \<le> lic_max_devices l"
  by (simp add: cap_ok_def)

lemma cap_ok_empty: "cap_ok empty_tables"
  by (simp add: cap_ok_def empty_tables_def)

lemma device_activate_licenses:
  "device_activate lid m did fp label w = (r, w') \<Longrightarrow> licenses (db w') = licenses (db w)"
  by (erule device_activate_effect) simp_all

lemma device_activate_cap:
  assumes "device_activate lid m did fp label w = (r, w')"
    and "schema_ok (db w) (seqs w)" and "cap_ok (db w)"
    and lic: "l \<in> set (licenses (db w))" "lic_id l = lid" "lic_max_devices l = m"
  shows "cap_ok (db w')"
proof -
  have same: "licenses (db w') = licenses (db w)"
    by (rule device_activate_licenses [OF assms(1)])
  have small: "int (active_count lid (db w)) < 2 ^ 31"
    using assms(3) lic unfolding cap_ok_def by fastforce
  show ?thesis
    unfolding cap_ok_def same
  proof
    fix k assume k: "k \<in> set (licenses (db w))"
    then have base: "int (active_count (lic_id k) (db w)) \<le> lic_max_devices k \<and> lic_max_devices k < 2 ^ 31"
      using assms(3) by (simp add: cap_ok_def)
    have unique: "lic_id k = lid \<Longrightarrow> k = l"
      using keyedD [OF schema_keyed(4) [OF assms(2)] k lic(1)] lic(2) by simp
    from device_activate_count [OF assms(1,2), of "lic_id k"]
    show "int (active_count (lic_id k) (db w')) \<le> lic_max_devices k \<and> lic_max_devices k < 2 ^ 31"
    proof
      assume "active_count (lic_id k) (db w') = active_count (lic_id k) (db w)"
      with base show ?thesis by simp
    next
      assume more: "lic_id k = lid \<and> active_count (lic_id k) (db w') = Suc (active_count (lic_id k) (db w))
        \<and> slot_free lid m (db w)"
      then have "as_i32 (active_count lid (db w)) < lic_max_devices l"
        using lic by (simp add: slot_free_def)
      then have "int (active_count lid (db w)) < lic_max_devices l"
        using small by (simp add: as_i32_small)
      with more unique base lic(2) show ?thesis by auto
    qed
  qed
qed

text \<open>The other operations on devices and licenses and the cap.\<close>

lemma cap_ok_update_licenses:
  assumes "cap_ok d" and "\<And>l. p l \<Longrightarrow> lic_id (f l) = lic_id l \<and> lic_max_devices (f l) = lic_max_devices l"
  shows "cap_ok (d\<lparr>licenses := update_where p f (licenses d)\<rparr>)"
  using assms by (auto simp: cap_ok_def in_update_where)

lemma cap_ok_insert_license:
  assumes "cap_ok d" and "schema_ok d s" and "lic_id l = s T_licenses"
    and "0 \<le> lic_max_devices l" and "lic_max_devices l < 2 ^ 31"
  shows "cap_ok (d\<lparr>licenses := licenses d @ [l]\<rparr>)"
proof -
  have "dev_license_id ` set (devices d) \<subseteq> keys lic_id (licenses d)"
    "\<forall>k \<in> keys lic_id (licenses d). k < s T_licenses"
    using assms(2) by (simp_all add: schema_defs serial_key_def)
  then have "\<And>x. x \<in> set (devices d) \<Longrightarrow> dev_license_id x \<noteq> lic_id l"
    using assms(3) by fastforce
  then have "active_count (lic_id l) d = 0"
    by (auto simp: active_count_def count_where_def filter_empty_conv)
  with assms show ?thesis by (auto simp: cap_ok_def)
qed

lemma active_count_deactivate_le:
  assumes "keyed dev_id (devices d)"
  shows "active_count k (d\<lparr>devices := update_where (\<lambda>x. dev_id x = i)
           (\<lambda>x. x\<lparr>dev_deactivated_at := Some t\<rparr>) (devices d)\<rparr>) \<le> active_count k d"
proof (cases "\<exists>x \<in> set (devices d). dev_id x = i")
  case True
  then obtain x where "x \<in> set (devices d)" "dev_id x = i" by blast
  with active_count_update_row [OF assms, of x "\<lambda>x. x\<lparr>dev_deactivated_at := Some t\<rparr>" k]
  show ?thesis by (auto simp: device_active_def split: if_splits)
next
  case False
  then have "update_where (\<lambda>x. dev_id x = i) (\<lambda>x. x\<lparr>dev_deactivated_at := Some t\<rparr>) (devices d) = devices d"
    by (intro update_where_none) auto
  then show ?thesis by simp
qed

lemma cap_ok_deactivate:
  "cap_ok d \<Longrightarrow> keyed dev_id (devices d) \<Longrightarrow>
    cap_ok (d\<lparr>devices := update_where (\<lambda>x. dev_id x = i)
       (\<lambda>x. x\<lparr>dev_deactivated_at := Some t\<rparr>) (devices d)\<rparr>)"
  unfolding cap_ok_def
proof
  fix l
  assume cap: "\<forall>l \<in> set (licenses d). int (active_count (lic_id l) d) \<le> lic_max_devices l
      \<and> lic_max_devices l < 2 ^ 31"
    and kd: "keyed dev_id (devices d)"
    and l: "l \<in> set (licenses (d\<lparr>devices := update_where (\<lambda>x. dev_id x = i)
       (\<lambda>x. x\<lparr>dev_deactivated_at := Some t\<rparr>) (devices d)\<rparr>))"
  from cap l have "int (active_count (lic_id l) d) \<le> lic_max_devices l \<and> lic_max_devices l < 2 ^ 31"
    by simp
  with active_count_deactivate_le [OF kd, of "lic_id l" i t]
  show "int (active_count (lic_id l) (d\<lparr>devices := update_where (\<lambda>x. dev_id x = i)
       (\<lambda>x. x\<lparr>dev_deactivated_at := Some t\<rparr>) (devices d)\<rparr>)) \<le> lic_max_devices l
      \<and> lic_max_devices l < 2 ^ 31"
    by linarith
qed

lemma active_count_same_activity:
  assumes "\<And>x. p x \<Longrightarrow> dev_license_id (f x) = dev_license_id x
      \<and> dev_deactivated_at (f x) = dev_deactivated_at x"
  shows "active_count k (d\<lparr>devices := update_where p f (devices d)\<rparr>) = active_count k d"
  unfolding active_count_def using assms
  by (simp add: count_where_update_same device_active_def)

subsection \<open>Every branch on a healthy connection\<close>

lemma device_activate_healthy:
  assumes "faults w = []" and "lid \<in> keys lic_id (licenses (db w))"
  shows "device_activate lid m did fp label w =
    (case find (\<lambda>x. (dev_license_id x, dev_device_id x) = (lid, did)) (devices (db w)) of
       Some x \<Rightarrow>
         if device_active x then
           (Inr Activated, w\<lparr>db := (db w)\<lparr>devices := update_where (\<lambda>y. dev_id y = dev_id x)
              (refresh_device fp label (utc_now w)) (devices (db w))\<rparr>\<rparr>)
         else if \<not> slot_free lid m (db w) then
           (Inr (LimitReached (filter device_active (devices_of lid (db w)))), w)
         else
           (Inr Activated, w\<lparr>db := (db w)\<lparr>devices := update_where (\<lambda>y. dev_id y = dev_id x)
              (revive_device fp label (utc_now w)) (devices (db w))\<rparr>\<rparr>)
     | None \<Rightarrow>
         if \<not> slot_free lid m (db w) then
           (Inr (LimitReached (filter device_active (devices_of lid (db w)))), w)
         else
           (Inr Activated, w\<lparr>
              db := (db w)\<lparr>devices := devices (db w) @
                [fresh_device lid did fp label (seqs w T_devices) (utc_now w)]\<rparr>,
              seqs := (seqs w)(T_devices := seqs w T_devices + 1)\<rparr>))"
proof -
  have "find (\<lambda>x. (dev_license_id x, dev_device_id x) = (lid, did)) (devices (db w)) = None \<Longrightarrow>
      (lid, did) \<notin> keys (\<lambda>x. (dev_license_id x, dev_device_id x)) (devices (db w))"
    by (auto simp: find_None_iff keys_def)
  then show ?thesis
    using assms
    by (auto simp: device_activate_def run_simps find_in_devices_of count_active_rows slot_free_def
        device_active_def fresh_device_def Let_def not_le split: option.splits)
qed

end
