(* ===== verification/RepoPayments.thy ===== *)
theory RepoPayments
  imports DeviceCap
begin

text \<open>
  The payments table (\<open>repository/payment.rs\<close>) and the webhook ledger
  (\<open>repository/payment_webhook_event.rs\<close>). \<open>claim_and_apply\<close> is one transaction: the claim
  of the event, then the statements of its mutation. Its abstract specification is the pure
  function \<open>apply_mutation\<close> on the tables; the refinement says that \<open>Applied\<close> is that function
  plus the ledger row, and that every other outcome changes no table at all, whichever
  statement fails.
\<close>

subsection \<open>Payments\<close>

record payment_row =
  pr_id :: int
  pr_subscription_id :: int
  pr_amount_minor :: int
  pr_currency :: string
  pr_provider :: string
  pr_provider_ref :: "string option"
  pr_gateway_payment_id :: "string option"
  pr_status :: string
  pr_created_at :: timestamp

definition payment_row_of :: "payment \<Rightarrow> payment_row" where
  "payment_row_of p = \<lparr> pr_id = pay_id p, pr_subscription_id = pay_subscription_id p,
     pr_amount_minor = pay_amount_minor p, pr_currency = pay_currency p,
     pr_provider = pay_provider p, pr_provider_ref = pay_provider_ref p,
     pr_gateway_payment_id = pay_gateway_payment_id p,
     pr_status = payment_status_as_str (pay_status p), pr_created_at = pay_created_at p \<rparr>"

definition payment_try_from :: "payment_row \<Rightarrow> repository_error + payment" where
  "payment_try_from row =
    (case map_err InvalidData (payment_status_from_str (pr_status row)) of
       Inl e \<Rightarrow> Inl e
     | Inr st \<Rightarrow> Inr \<lparr> pay_id = pr_id row, pay_subscription_id = pr_subscription_id row,
         pay_amount_minor = pr_amount_minor row, pay_currency = pr_currency row,
         pay_provider = pr_provider row, pay_provider_ref = pr_provider_ref row,
         pay_gateway_payment_id = pr_gateway_payment_id row, pay_status = st,
         pay_created_at = pr_created_at row \<rparr>)"

lemma payment_row_roundtrip [simp]: "payment_try_from (payment_row_of p) = Inr p"
  by (simp add: payment_try_from_def payment_row_of_def payment_status_wire.parse_print)

fun single_payment_or_duplicate_error ::
  "payment_row list \<Rightarrow> string \<Rightarrow> repository_error + payment option" where
  "single_payment_or_duplicate_error [] r = Inr None"
| "single_payment_or_duplicate_error [row] r = transpose_option (Some (payment_try_from row))"
| "single_payment_or_duplicate_error (row1 # row2 # rows) r = Inl (DuplicateProviderReference r)"

definition payment_of_new :: "new_payment \<Rightarrow> int \<Rightarrow> timestamp \<Rightarrow> payment" where
  "payment_of_new np i now =
    \<lparr> pay_id = i, pay_subscription_id = np_subscription_id np, pay_amount_minor = np_amount_minor np,
      pay_currency = np_currency np, pay_provider = np_provider np,
      pay_provider_ref = np_provider_ref np, pay_gateway_payment_id = None,
      pay_status = np_status np, pay_created_at = now \<rparr>"

definition payment_insert :: "new_payment \<Rightarrow> (repository_error, payment) action" where
  "payment_insert np =
    await (sql_insert T_payments (payment_of_new np)
        (\<lambda>r d. keyed_opt pay_provider_ref (payments d @ [r])
             \<and> keyed_opt pay_gateway_payment_id (payments d @ [r])
             \<and> pay_subscription_id r \<in> keys sub_id (subscriptions d))
        (\<lambda>r d. d\<lparr>payments := payments d @ [r]\<rparr>))
      (\<lambda>row. result_of (payment_try_from (payment_row_of row)))"

definition payment_find_by_provider_ref :: "string \<Rightarrow> (repository_error, payment option) action" where
  "payment_find_by_provider_ref ref =
    await (sql_select (\<lambda>d. map payment_row_of
        (filter (\<lambda>p. pay_provider_ref p = Some ref) (payments d))))
      (\<lambda>rows. result_of (single_payment_or_duplicate_error rows ref))"

definition payment_find_by_gateway_payment_id ::
  "string \<Rightarrow> (repository_error, payment option) action" where
  "payment_find_by_gateway_payment_id gid =
    await (sql_select (\<lambda>d. map_option payment_row_of
        (latest_by pay_created_at (filter (\<lambda>p. pay_gateway_payment_id p = Some gid) (payments d)))))
      (\<lambda>row. result_of (transpose_option (map_option payment_try_from row)))"

definition payment_update_status :: "int \<Rightarrow> payment_status \<Rightarrow> (repository_error, unit) action" where
  "payment_update_status i st =
    sql_update (\<lambda>now d. d\<lparr>payments :=
        update_where (\<lambda>p. pay_id p = i) (\<lambda>p. p\<lparr>pay_status := st\<rparr>) (payments d)\<rparr>)
      (\<lambda>_. True)"

definition payment_record_gateway_payment_id ::
  "int \<Rightarrow> string \<Rightarrow> (repository_error, unit) action" where
  "payment_record_gateway_payment_id i gid =
    sql_update (\<lambda>now d. d\<lparr>payments :=
        update_where (\<lambda>p. pay_id p = i) (\<lambda>p. p\<lparr>pay_gateway_payment_id := Some gid\<rparr>) (payments d)\<rparr>)
      (\<lambda>d. keyed_opt pay_gateway_payment_id (payments d))"

text \<open>
  With the partial unique index of migration 0008, the lookup by provider reference is a plain
  keyed lookup and its \<open>DuplicateProviderReference\<close> arm is unreachable.
\<close>

lemma keyed_opt_filter:
  assumes "keyed_opt key rows"
  shows "filter (\<lambda>r. key r = Some k) rows = (case find (\<lambda>r. key r = Some k) rows of None \<Rightarrow> [] | Some r \<Rightarrow> [r])"
  using assms
proof (induction rows)
  case (Cons x xs)
  have tl: "keyed_opt key xs"
    using Cons.prems by (auto simp: keyed_opt_def split: if_splits)
  have "filter (\<lambda>r. key r = Some k) xs = []" if "key x = Some k"
    using Cons.prems that by (force simp: keyed_opt_def image_iff filter_empty_conv)
  then show ?case using Cons.IH [OF tl] by auto
qed simp

lemma single_of_found:
  "single_payment_or_duplicate_error (map payment_row_of (case q of None \<Rightarrow> [] | Some p \<Rightarrow> [p])) r = Inr q"
  by (cases q) simp_all

lemma payment_find_by_provider_ref_healthy:
  assumes "faults w = []" and "keyed_opt pay_provider_ref (payments (db w))"
  shows "payment_find_by_provider_ref ref w =
    (Inr (find (\<lambda>p. pay_provider_ref p = Some ref) (payments (db w))), w)"
  by (simp add: payment_find_by_provider_ref_def run_simps assms(1) keyed_opt_filter [OF assms(2)]
      single_of_found)

lemma payment_find_by_gateway_eq [run_simps]:
  "payment_find_by_gateway_payment_id gid =
     sql_select (\<lambda>d. latest_by pay_created_at (filter (\<lambda>p. pay_gateway_payment_id p = Some gid) (payments d)))"
  unfolding payment_find_by_gateway_payment_id_def by (rule select_decoded) simp

lemma payment_find_duplicate:
  assumes "faults w = []" and "p \<in> set (payments (db w))" and "q \<in> set (payments (db w))"
    and "p \<noteq> q" and "pay_provider_ref p = Some ref" and "pay_provider_ref q = Some ref"
  shows "payment_find_by_provider_ref ref w = (Inl (DuplicateProviderReference ref), w)"
proof -
  let ?m = "filter (\<lambda>p. pay_provider_ref p = Some ref) (payments (db w))"
  have in_m: "p \<in> set ?m" "q \<in> set ?m" using assms by auto
  then obtain a b m where "?m = a # b # m"
    using assms(4) by (cases ?m; cases "tl ?m") auto
  then show ?thesis
    by (simp add: payment_find_by_provider_ref_def run_simps assms(1))
qed

lemma keeps_record_gateway [keeps_intros]: "keeps schema_ok (payment_record_gateway_payment_id i gid)"
  unfolding payment_record_gateway_payment_id_def
  by (rule keeps_update, rule schema_update_payments) simp_all

lemma keeps_payments [keeps_intros]:
  "keeps schema_ok (payment_insert np)"
  "keeps schema_ok (payment_update_status i st)"
  "keeps I (payment_find_by_provider_ref ref)"
  unfolding payment_insert_def payment_update_status_def payment_find_by_provider_ref_def
  by (auto intro!: keeps_intros keeps_schema_insert keeps_update schema_insert_payment schema_updates
      simp: payment_of_new_def)

subsection \<open>The mutation of an event\<close>

datatype license_mutation =
    ExtendLicense int
  | InsertLicense string int int

record affected_license =
  al_license_id :: int
  al_expires_at :: "timestamp option"

record affected_license_status_change =
  sc_license_id :: int
  sc_expires_at :: "timestamp option"
  sc_status :: license_record_status

datatype webhook_mutation =
    ActivateSubscriptionAndLicense int int "timestamp option" license_mutation "string option"
  | MarkPaymentFailed int
  | UpdateSubscriptionStatus int subscription_status "timestamp option"
      "affected_license_status_change option"
  | RefundPayment int "affected_license option"
  | MarkPaymentDisputed int "affected_license option"
  | ResolveDispute int "affected_license option" bool
  | NoMutation

datatype claim_outcome = Applied | AlreadyProcessed

text \<open>The three \<open>UPDATE\<close> statements the arms share, as functions on the tables.\<close>

definition set_payment_status :: "int \<Rightarrow> payment_status \<Rightarrow> tables \<Rightarrow> tables" where
  "set_payment_status i st d = d\<lparr>payments :=
     update_where (\<lambda>p. pay_id p = i) (\<lambda>p. p\<lparr>pay_status := st\<rparr>) (payments d)\<rparr>"

definition coalesce :: "'a option \<Rightarrow> 'a option \<Rightarrow> 'a option" where
  "coalesce a b = (case a of Some x \<Rightarrow> Some x | None \<Rightarrow> b)"

definition set_payment_captured :: "int \<Rightarrow> string option \<Rightarrow> tables \<Rightarrow> tables" where
  "set_payment_captured i gid d = d\<lparr>payments :=
     update_where (\<lambda>p. pay_id p = i)
       (\<lambda>p. p\<lparr>pay_status := PaySucceeded,
              pay_gateway_payment_id := coalesce gid (pay_gateway_payment_id p)\<rparr>) (payments d)\<rparr>"

definition set_subscription_status ::
  "int \<Rightarrow> subscription_status \<Rightarrow> timestamp option \<Rightarrow> timestamp \<Rightarrow> tables \<Rightarrow> tables" where
  "set_subscription_status i st period_end now d = d\<lparr>subscriptions :=
     update_where (\<lambda>b. sub_id b = i)
       (\<lambda>b. b\<lparr>sub_status := st, sub_current_period_end := period_end, sub_updated_at := now\<rparr>)
       (subscriptions d)\<rparr>"

definition set_license_status ::
  "int \<Rightarrow> license_record_status \<Rightarrow> timestamp option \<Rightarrow> tables \<Rightarrow> tables" where
  "set_license_status i st expires d = d\<lparr>licenses :=
     update_where (\<lambda>l. lic_id l = i) (\<lambda>l. l\<lparr>lic_status := st, lic_expires_at := expires\<rparr>)
       (licenses d)\<rparr>"

definition update_license_if ::
  "affected_license option \<Rightarrow> license_record_status \<Rightarrow> (repository_error, unit) action" where
  "update_license_if lic st =
    (case lic of
       None \<Rightarrow> return_ok ()
     | Some a \<Rightarrow> sql_update (\<lambda>_. set_license_status (al_license_id a) st (al_expires_at a)) (\<lambda>_. True))"

definition mutation_statements :: "webhook_mutation \<Rightarrow> (repository_error, unit) action" where
  "mutation_statements m =
    (case m of
       NoMutation \<Rightarrow> return_ok ()
     | MarkPaymentFailed pid \<Rightarrow>
         sql_update (\<lambda>_. set_payment_status pid PayFailed) (\<lambda>_. True)
     | UpdateSubscriptionStatus sid st period_end lic \<Rightarrow>
         await (sql_update (set_subscription_status sid st period_end) (\<lambda>_. True)) (\<lambda>_.
         case lic of
           None \<Rightarrow> return_ok ()
         | Some c \<Rightarrow> sql_update
             (\<lambda>_. set_license_status (sc_license_id c) (sc_status c) (sc_expires_at c)) (\<lambda>_. True))
     | ActivateSubscriptionAndLicense pid sid period_end lm gid \<Rightarrow>
         await (sql_update (\<lambda>_. set_payment_captured pid gid)
           (\<lambda>d. keyed_opt pay_gateway_payment_id (payments d))) (\<lambda>_.
         await (sql_update (set_subscription_status sid SubActive period_end) (\<lambda>_. True)) (\<lambda>_.
         case lm of
           ExtendLicense lid \<Rightarrow>
             sql_update (\<lambda>_. set_license_status lid LicActive period_end) (\<lambda>_. True)
         | InsertLicense key max_devices grace \<Rightarrow>
             await (license_insert_statement
               \<lparr> nl_subscription_id = sid, nl_license_key = key, nl_status = LicActive,
                 nl_expires_at = period_end, nl_max_devices = max_devices,
                 nl_grace_period_days = grace \<rparr>) (\<lambda>_.
             return_ok ())))
     | RefundPayment pid lic \<Rightarrow>
         await (sql_update (\<lambda>_. set_payment_status pid PayRefunded) (\<lambda>_. True)) (\<lambda>_.
         update_license_if lic LicRevoked)
     | MarkPaymentDisputed pid lic \<Rightarrow>
         await (sql_update (\<lambda>_. set_payment_status pid PayDisputed) (\<lambda>_. True)) (\<lambda>_.
         update_license_if lic LicSuspended)
     | ResolveDispute pid lic won \<Rightarrow>
         await (sql_update (\<lambda>_. set_payment_status pid (if won then PaySucceeded else PayRefunded))
           (\<lambda>_. True)) (\<lambda>_.
         update_license_if lic (if won then LicActive else LicRevoked)))"

text \<open>
  The claim is \<open>INSERT ... ON CONFLICT (provider, event_id) DO NOTHING\<close>: it returns the number
  of rows inserted. A conflicting insert consumes an id all the same.
\<close>

definition event_row :: "new_payment_webhook_event \<Rightarrow> int \<Rightarrow> timestamp \<Rightarrow> payment_webhook_event" where
  "event_row e i now = \<lparr> pwe_id = i, pwe_provider = npwe_provider e, pwe_event_id = npwe_event_id e,
     pwe_event_type = npwe_event_type e, pwe_payload = npwe_payload e, pwe_processed_at = now \<rparr>"

definition event_claimed :: "string \<Rightarrow> string \<Rightarrow> tables \<Rightarrow> bool" where
  "event_claimed provider eid d \<longleftrightarrow>
     (provider, eid) \<in> keys (\<lambda>e. (pwe_provider e, pwe_event_id e)) (webhook_events d)"

definition claim_statement :: "new_payment_webhook_event \<Rightarrow> (repository_error, nat) action" where
  "claim_statement e =
    sql (\<lambda>w. let i = seqs w T_webhook_events;
                w' = w\<lparr>seqs := (seqs w)(T_webhook_events := i + 1)\<rparr> in
      if event_claimed (npwe_provider e) (npwe_event_id e) (db w) then (Inr 0, w')
      else (Inr 1, w'\<lparr>db := (db w)\<lparr>webhook_events :=
             webhook_events (db w) @ [event_row e i (utc_now w)]\<rparr>\<rparr>))"

definition claim_and_apply ::
  "new_payment_webhook_event \<Rightarrow> webhook_mutation \<Rightarrow> (repository_error, claim_outcome) action" where
  "claim_and_apply e m =
    transaction (
      await (claim_statement e) (\<lambda>rows_affected.
      if rows_affected = 0 then return_ok (Rollback AlreadyProcessed)
      else
        await (mutation_statements m) (\<lambda>_.
        return_ok (Commit Applied))))"

subsection \<open>The schema is kept\<close>

lemma schema_set [intro]:
  "schema_ok d s \<Longrightarrow> schema_ok (set_payment_status i st d) s"
  "schema_ok d s \<Longrightarrow> schema_ok (set_subscription_status j sst pe now d) s"
  "schema_ok d s \<Longrightarrow> schema_ok (set_license_status k lst ex d) s"
  unfolding set_payment_status_def set_subscription_status_def set_license_status_def
  by (auto intro: schema_updates)

lemma schema_set_captured:
  assumes "schema_ok d s"
    and "keyed_opt pay_gateway_payment_id (payments (set_payment_captured i gid d))"
  shows "schema_ok (set_payment_captured i gid d) s"
  using assms unfolding set_payment_captured_def
  by (intro schema_update_payments) simp_all

lemma keeps_mutation [keeps_intros]: "keeps schema_ok (mutation_statements m)"
  unfolding mutation_statements_def update_license_if_def
  by (cases m)
    (auto intro!: keeps_intros keeps_update schema_set_captured
      split: license_mutation.split option.split)

lemma seqs_grow_mutation [keeps_intros]: "seqs_grow (mutation_statements m)"
  unfolding mutation_statements_def update_license_if_def license_insert_statement_def
  by (cases m) (auto intro!: keeps_intros split: license_mutation.split option.split)

lemma keeps_claim_statement [keeps_intros]: "keeps schema_ok (claim_statement e)"
proof -
  have "schema_ok (db w) (seqs w) \<Longrightarrow> \<not> event_claimed (npwe_provider e) (npwe_event_id e) (db w) \<Longrightarrow>
      schema_ok ((db w)\<lparr>webhook_events := webhook_events (db w) @
          [event_row e (seqs w T_webhook_events) (utc_now w)]\<rparr>)
        ((seqs w)(T_webhook_events := seqs w T_webhook_events + 1))" for w :: world
    by (rule schema_insert_webhook_event) (simp_all add: event_row_def event_claimed_def)
  then show ?thesis
    unfolding claim_statement_def
    by (intro keeps_sql) (simp add: Let_def schema_seq_bump)
qed

lemma seqs_grow_claim_statement [keeps_intros]: "seqs_grow (claim_statement e)"
  by (auto simp: seqs_grow_def claim_statement_def sql_def Let_def split: list.split)

lemma keeps_claim_and_apply [keeps_intros]: "keeps schema_ok (claim_and_apply e m)"
  unfolding claim_and_apply_def
  by (intro keeps_transaction schema_seq_tolerant keeps_intros)

subsection \<open>What a claim does, as a function on the tables\<close>

definition log_event :: "new_payment_webhook_event \<Rightarrow> int \<Rightarrow> timestamp \<Rightarrow> tables \<Rightarrow> tables" where
  "log_event e i now d = d\<lparr>webhook_events := webhook_events d @ [event_row e i now]\<rparr>"

definition set_affected :: "affected_license option \<Rightarrow> license_record_status \<Rightarrow> tables \<Rightarrow> tables" where
  "set_affected lic st d =
    (case lic of None \<Rightarrow> d | Some a \<Rightarrow> set_license_status (al_license_id a) st (al_expires_at a) d)"

definition issued_license :: "int \<Rightarrow> string \<Rightarrow> int \<Rightarrow> int \<Rightarrow> timestamp option \<Rightarrow> int \<Rightarrow> timestamp \<Rightarrow> license" where
  "issued_license sid key max_devices grace period_end i now =
    license_of_new \<lparr> nl_subscription_id = sid, nl_license_key = key, nl_status = LicActive,
      nl_expires_at = period_end, nl_max_devices = max_devices, nl_grace_period_days = grace \<rparr> i now"

fun apply_license_mutation ::
  "license_mutation \<Rightarrow> int \<Rightarrow> timestamp option \<Rightarrow> int \<Rightarrow> timestamp \<Rightarrow> tables \<Rightarrow> tables" where
  "apply_license_mutation (ExtendLicense lid) sid period_end i now d =
     set_license_status lid LicActive period_end d"
| "apply_license_mutation (InsertLicense key m g) sid period_end i now d =
     d\<lparr>licenses := licenses d @ [issued_license sid key m g period_end i now]\<rparr>"

fun apply_mutation :: "webhook_mutation \<Rightarrow> int \<Rightarrow> timestamp \<Rightarrow> tables \<Rightarrow> tables" where
  "apply_mutation NoMutation i now d = d"
| "apply_mutation (MarkPaymentFailed pid) i now d = set_payment_status pid PayFailed d"
| "apply_mutation (UpdateSubscriptionStatus sid st period_end lic) i now d =
     (case lic of
        None \<Rightarrow> set_subscription_status sid st period_end now d
      | Some c \<Rightarrow> set_license_status (sc_license_id c) (sc_status c) (sc_expires_at c)
          (set_subscription_status sid st period_end now d))"
| "apply_mutation (ActivateSubscriptionAndLicense pid sid period_end lm gid) i now d =
     apply_license_mutation lm sid period_end i now
       (set_subscription_status sid SubActive period_end now (set_payment_captured pid gid d))"
| "apply_mutation (RefundPayment pid lic) i now d =
     set_affected lic LicRevoked (set_payment_status pid PayRefunded d)"
| "apply_mutation (MarkPaymentDisputed pid lic) i now d =
     set_affected lic LicSuspended (set_payment_status pid PayDisputed d)"
| "apply_mutation (ResolveDispute pid lic won) i now d =
     set_affected lic (if won then LicActive else LicRevoked)
       (set_payment_status pid (if won then PaySucceeded else PayRefunded) d)"

lemma return_okE: "return_ok x w = (Inr y, w') \<Longrightarrow> (y = x \<Longrightarrow> w' = w \<Longrightarrow> P) \<Longrightarrow> P"
  by (simp add: run_simps)

lemma mutation_effect:
  assumes "mutation_statements m w = (Inr u, w')"
  shows "\<exists>i. db w' = apply_mutation m i (utc_now w) (db w)"
  using assms unfolding mutation_statements_def update_license_if_def license_insert_statement_def
  by (cases m)
    (auto elim!: run_elims return_okE simp: set_affected_def issued_license_def
      split: license_mutation.splits option.splits)

lemma mutation_env:
  "mutation_statements m w = (Inr u, w') \<Longrightarrow> utc_now w' = utc_now w"
  unfolding mutation_statements_def update_license_if_def license_insert_statement_def
  by (cases m)
    (auto elim!: run_elims return_okE split: license_mutation.splits option.splits)

lemma claim_statement_InrE:
  assumes "claim_statement e w = (Inr n, w')"
  obtains (conflict) "n = 0" and "db w' = db w"
      and "event_claimed (npwe_provider e) (npwe_event_id e) (db w)"
  | (claimed) i where "n = 1" and "db w' = log_event e i (utc_now w) (db w)"
      and "utc_now w' = utc_now w"
      and "\<not> event_claimed (npwe_provider e) (npwe_event_id e) (db w)"
  using assms unfolding claim_statement_def
  by (elim sql_run_cases) (auto simp: Let_def log_event_def split: if_splits)

lemma claim_and_apply_cases:
  assumes run: "claim_and_apply e m w = (r, w')"
  obtains (applied) i j where "r = Inr Applied"
      and "\<not> event_claimed (npwe_provider e) (npwe_event_id e) (db w)"
      and "db w' = apply_mutation m j (utc_now w) (log_event e i (utc_now w) (db w))"
  | (duplicate) "r = Inr AlreadyProcessed" and "db w' = db w"
      and "event_claimed (npwe_provider e) (npwe_event_id e) (db w)"
  | (failed) x where "r = Inl x" and "db w' = db w"
  using run unfolding claim_and_apply_def
proof (cases rule: transaction_effect)
  case rolled_back
  show ?thesis
  proof (cases r)
    case (Inl x)
    then show ?thesis using rolled_back(1) by (intro failed)
  next
    case (Inr x)
    from rolled_back(2) [OF Inr] obtain w1 w2 where "db w1 = db w"
      and "await (claim_statement e) (\<lambda>n. if n = 0 then return_ok (Rollback AlreadyProcessed)
        else await (mutation_statements m) (\<lambda>_. return_ok (Commit Applied))) w1 = (Inr (Rollback x), w2)"
      by blast
    then have "x = AlreadyProcessed" "event_claimed (npwe_provider e) (npwe_event_id e) (db w)"
      by (auto elim!: await_InrE claim_statement_InrE return_okE split: if_splits)
    with Inr rolled_back(1) show ?thesis by (intro duplicate) simp_all
  qed
next
  case (committed w1 w2 x)
  from committed(3) obtain n w3 where claim: "claim_statement e w1 = (Inr n, w3)"
    and rest: "(if n = 0 then return_ok (Rollback AlreadyProcessed)
        else await (mutation_statements m) (\<lambda>_. return_ok (Commit Applied))) w3 = (Inr (Commit x), w2)"
    by (elim await_InrE)
  from claim show ?thesis
  proof (cases rule: claim_statement_InrE)
    case conflict
    with rest show ?thesis by (auto elim: return_okE)
  next
    case (claimed i)
    with rest obtain u where "mutation_statements m w3 = (Inr u, w2)" and x: "x = Applied"
      by (auto elim!: await_InrE return_okE)
    then obtain j where "db w2 = apply_mutation m j (utc_now w3) (db w3)"
      using mutation_effect by blast
    with claimed committed x show ?thesis by (intro applied [of j i]) simp_all
  qed
qed

lemma event_claimed_log:
  "event_claimed p k (log_event e i now d) \<longleftrightarrow>
     (p = npwe_provider e \<and> k = npwe_event_id e) \<or> event_claimed p k d"
  by (auto simp: event_claimed_def log_event_def event_row_def)

lemma set_webhook_events [simp]:
  "webhook_events (set_payment_status i st d) = webhook_events d"
  "webhook_events (set_payment_captured i gid d) = webhook_events d"
  "webhook_events (set_subscription_status i sst pe now d) = webhook_events d"
  "webhook_events (set_license_status i lst ex d) = webhook_events d"
  "webhook_events (set_affected lic lst d) = webhook_events d"
  by (simp_all add: set_payment_status_def set_payment_captured_def set_subscription_status_def
      set_license_status_def set_affected_def split: option.split)

lemma apply_mutation_events [simp]: "webhook_events (apply_mutation m i now d) = webhook_events d"
proof (cases m)
  case (ActivateSubscriptionAndLicense pid sid pe lm gid)
  then show ?thesis by (cases lm) simp_all
qed (auto split: option.split)

lemma event_claimed_apply [simp]:
  "event_claimed p k (apply_mutation m i now d) \<longleftrightarrow> event_claimed p k d"
  by (simp add: event_claimed_def)

subsection \<open>A claim on a healthy connection\<close>

definition license_mutation_allowed :: "license_mutation \<Rightarrow> int \<Rightarrow> tables \<Rightarrow> bool" where
  "license_mutation_allowed lm sid d =
    (case lm of
       ExtendLicense _ \<Rightarrow> True
     | InsertLicense key _ _ \<Rightarrow> key \<notin> keys lic_key (licenses d) \<and> sid \<in> keys sub_id (subscriptions d))"

definition mutation_allowed :: "webhook_mutation \<Rightarrow> tables \<Rightarrow> bool" where
  "mutation_allowed m d =
    (case m of
       ActivateSubscriptionAndLicense pid sid pe lm gid \<Rightarrow>
         keyed_opt pay_gateway_payment_id (payments (set_payment_captured pid gid d))
         \<and> license_mutation_allowed lm sid d
     | _ \<Rightarrow> True)"

definition inserts_license :: "webhook_mutation \<Rightarrow> bool" where
  "inserts_license m =
    (case m of ActivateSubscriptionAndLicense _ _ _ (InsertLicense _ _ _) _ \<Rightarrow> True | _ \<Rightarrow> False)"

definition seqs_after_claim :: "webhook_mutation \<Rightarrow> (table_name \<Rightarrow> int) \<Rightarrow> table_name \<Rightarrow> int" where
  "seqs_after_claim m s =
    (let s1 = s(T_webhook_events := s T_webhook_events + 1) in
     if inserts_license m then s1(T_licenses := s T_licenses + 1) else s1)"

lemma log_event_tables [simp]:
  "payments (log_event e i now d) = payments d"
  "licenses (log_event e i now d) = licenses d"
  "subscriptions (log_event e i now d) = subscriptions d"
  "devices (log_event e i now d) = devices d"
  "users (log_event e i now d) = users d"
  by (simp_all add: log_event_def)

lemma set_tables [simp]:
  "licenses (set_payment_status i st d) = licenses d"
  "subscriptions (set_payment_status i st d) = subscriptions d"
  "devices (set_payment_status i st d) = devices d"
  "users (set_payment_status i st d) = users d"
  "licenses (set_payment_captured i gid d) = licenses d"
  "subscriptions (set_payment_captured i gid d) = subscriptions d"
  "devices (set_payment_captured i gid d) = devices d"
  "users (set_payment_captured i gid d) = users d"
  "licenses (set_subscription_status i sst pe now d) = licenses d"
  "payments (set_subscription_status i sst pe now d) = payments d"
  "devices (set_subscription_status i sst pe now d) = devices d"
  "users (set_subscription_status i sst pe now d) = users d"
  "keys sub_id (subscriptions (set_subscription_status i sst pe now d)) = keys sub_id (subscriptions d)"
  "payments (set_license_status i lst ex d) = payments d"
  "subscriptions (set_license_status i lst ex d) = subscriptions d"
  "devices (set_license_status i lst ex d) = devices d"
  "users (set_license_status i lst ex d) = users d"
  by (simp_all add: set_payment_status_def set_payment_captured_def set_subscription_status_def
      set_license_status_def keys_update_where)

lemma captured_log [simp]:
  "payments (set_payment_captured pid gid (log_event e i now d)) = payments (set_payment_captured pid gid d)"
  by (simp add: set_payment_captured_def)

lemma mutation_healthy:
  assumes "faults w = []" and "mutation_allowed m (db w)"
  shows "mutation_statements m w = (Inr (), w\<lparr>
      db := apply_mutation m (seqs w T_licenses) (utc_now w) (db w),
      seqs := (if inserts_license m then (seqs w)(T_licenses := seqs w T_licenses + 1) else seqs w)\<rparr>)"
proof (cases m)
  case (ActivateSubscriptionAndLicense pid sid pe lm gid)
  with assms show ?thesis
    by (cases lm)
      (simp_all add: mutation_statements_def license_insert_statement_def run_simps Let_def
        mutation_allowed_def license_mutation_allowed_def inserts_license_def issued_license_def
        license_of_new_def)
qed (use assms in \<open>auto simp: mutation_statements_def update_license_if_def set_affected_def
    run_simps Let_def inserts_license_def split: option.split\<close>)

lemma mutation_allowed_log [simp]:
  "mutation_allowed m (log_event e i now d) = mutation_allowed m d"
  by (simp add: mutation_allowed_def license_mutation_allowed_def
      split: webhook_mutation.split license_mutation.split)

lemma claim_statement_healthy [run_simps]:
  assumes "faults w = []"
  shows "claim_statement e w =
    (if event_claimed (npwe_provider e) (npwe_event_id e) (db w)
     then (Inr 0, w\<lparr>seqs := (seqs w)(T_webhook_events := seqs w T_webhook_events + 1)\<rparr>)
     else (Inr 1, w\<lparr>seqs := (seqs w)(T_webhook_events := seqs w T_webhook_events + 1),
       db := log_event e (seqs w T_webhook_events) (utc_now w) (db w)\<rparr>))"
  by (simp add: claim_statement_def sql_healthy [OF assms] Let_def log_event_def)

lemma claim_and_apply_fresh:
  assumes "faults w = []" and "\<not> event_claimed (npwe_provider e) (npwe_event_id e) (db w)"
    and "mutation_allowed m (db w)"
  shows "claim_and_apply e m w = (Inr Applied, w\<lparr>
      db := apply_mutation m (seqs w T_licenses) (utc_now w)
              (log_event e (seqs w T_webhook_events) (utc_now w) (db w)),
      seqs := seqs_after_claim m (seqs w)\<rparr>)"
  using assms
  by (simp add: claim_and_apply_def run_simps mutation_healthy seqs_after_claim_def Let_def)

lemma claim_and_apply_duplicate:
  assumes "faults w = []" and "event_claimed (npwe_provider e) (npwe_event_id e) (db w)"
  shows "claim_and_apply e m w = (Inr AlreadyProcessed,
      w\<lparr>seqs := (seqs w)(T_webhook_events := seqs w T_webhook_events + 1)\<rparr>)"
  using assms by (simp add: claim_and_apply_def run_simps)

subsection \<open>The device cap is kept\<close>

definition mutation_caps_ok :: "webhook_mutation \<Rightarrow> bool" where
  "mutation_caps_ok m =
    (case m of
       ActivateSubscriptionAndLicense _ _ _ (InsertLicense _ max_devices _) _ \<Rightarrow>
         0 \<le> max_devices \<and> max_devices < 2 ^ 31
     | _ \<Rightarrow> True)"

lemma cap_ok_cong:
  assumes "licenses d' = licenses d" and "devices d' = devices d"
  shows "cap_ok d' = cap_ok d"
  using assms by (simp add: cap_ok_def active_count_def)

lemma cap_ok_set_license [simp]: "cap_ok d \<Longrightarrow> cap_ok (set_license_status i st ex d)"
  unfolding set_license_status_def by (rule cap_ok_update_licenses) simp_all

lemma cap_ok_set [simp]:
  "cap_ok (set_payment_status i st d) = cap_ok d"
  "cap_ok (set_payment_captured i gid d) = cap_ok d"
  "cap_ok (set_subscription_status i sst pe now d) = cap_ok d"
  "cap_ok (log_event e j now d) = cap_ok d"
  by (rule cap_ok_cong; simp)+

definition schema_and_cap :: db_inv where
  "schema_and_cap d s \<longleftrightarrow> schema_ok d s \<and> cap_ok d"

lemma schema_and_cap_seq_tolerant: "seq_tolerant schema_and_cap"
  using schema_seq_tolerant unfolding seq_tolerant_def schema_and_cap_def by blast

lemma schema_and_cap_bump: "schema_and_cap d s \<Longrightarrow> schema_and_cap d (s(t := s t + 1))"
  by (simp add: schema_and_cap_def schema_seq_bump)

lemma schema_and_cap_set:
  "schema_and_cap d s \<Longrightarrow> schema_and_cap (set_payment_status i st d) s"
  "schema_and_cap d s \<Longrightarrow> schema_and_cap (set_subscription_status j sst pe now d) s"
  "schema_and_cap d s \<Longrightarrow> schema_and_cap (set_license_status k lst ex d) s"
  "schema_and_cap d s \<Longrightarrow> keyed_opt pay_gateway_payment_id (payments (set_payment_captured i gid d))
     \<Longrightarrow> schema_and_cap (set_payment_captured i gid d) s"
  by (simp_all add: schema_and_cap_def schema_set schema_set_captured)

lemma keeps_cap_license_insert:
  assumes "0 \<le> nl_max_devices nl" and "nl_max_devices nl < 2 ^ 31"
  shows "keeps schema_and_cap (license_insert_statement nl)"
  unfolding license_insert_statement_def
proof (rule keeps_insert)
  fix d s i t
  assume inv: "schema_and_cap d s" and i: "i = s T_licenses"
    and ok: "lic_key (license_of_new nl i t) \<notin> keys lic_key (licenses d)
      \<and> lic_subscription_id (license_of_new nl i t) \<in> keys sub_id (subscriptions d)"
  have "schema_ok (d\<lparr>licenses := licenses d @ [license_of_new nl i t]\<rparr>) (s(T_licenses := i + 1))"
    using inv i ok unfolding schema_and_cap_def i
    by (intro schema_insert_license) (simp_all add: license_of_new_def)
  moreover have "cap_ok (d\<lparr>licenses := licenses d @ [license_of_new nl i t]\<rparr>)"
    using inv i assms unfolding schema_and_cap_def
    by (intro cap_ok_insert_license) (auto simp: license_of_new_def)
  ultimately show "schema_and_cap (d\<lparr>licenses := licenses d @ [license_of_new nl i t]\<rparr>)
      (s(T_licenses := i + 1))"
    by (simp add: schema_and_cap_def)
qed (rule schema_and_cap_bump)

lemma keeps_cap_mutation:
  assumes "mutation_caps_ok m"
  shows "keeps schema_and_cap (mutation_statements m)"
  using assms unfolding mutation_statements_def update_license_if_def
  by (cases m)
    (auto intro!: keeps_intros keeps_update schema_and_cap_set keeps_cap_license_insert
      simp: mutation_caps_ok_def split: license_mutation.splits option.split)

lemma keeps_cap_claim_statement: "keeps schema_and_cap (claim_statement e)"
proof (rule keepsI)
  fix w :: world
  assume inv: "schema_and_cap (db w) (seqs w)"
  have "cap_ok (db (snd (claim_statement e w)))"
  proof -
    obtain r w' where run: "claim_statement e w = (r, w')" by (cases "claim_statement e w")
    show ?thesis
    proof (cases r)
      case (Inl x)
      then have "db w' = db w"
        using run unfolding claim_statement_def
        by (elim sql_run_cases) (auto simp: Let_def split: if_splits)
      with inv run show ?thesis by (simp add: schema_and_cap_def)
    next
      case (Inr n)
      with run inv show ?thesis
        by (auto simp: schema_and_cap_def elim!: claim_statement_InrE)
    qed
  qed
  with keepsD [OF keeps_claim_statement, of w e] inv
  show "schema_and_cap (db (snd (claim_statement e w))) (seqs (snd (claim_statement e w)))"
    by (simp add: schema_and_cap_def)
qed

lemma keeps_cap_claim_and_apply:
  "mutation_caps_ok m \<Longrightarrow> keeps schema_and_cap (claim_and_apply e m)"
  unfolding claim_and_apply_def
  by (intro keeps_transaction schema_and_cap_seq_tolerant keeps_intros keeps_cap_mutation
      keeps_cap_claim_statement)

lemma keeps_cap_device_activate:
  assumes "schema_and_cap (db w) (seqs w)" and "l \<in> set (licenses (db w))"
    and "device_activate (lic_id l) (lic_max_devices l) did fp label w = (r, w')"
  shows "schema_and_cap (db w') (seqs w')"
  using assms device_activate_cap [OF assms(3)] keepsD [OF keeps_device_activate, of w]
  by (metis schema_and_cap_def snd_conv)

end
