(* ===== verification/LicenseService.thy ===== *)
theory LicenseService
  imports RepoPayments
begin

text \<open>
  \<open>service/license_service.rs\<close>: activation, validation, heartbeat, deactivation and the
  subscription summary, over the repositories of the theories before. The audit writes of
  \<open>service/audit_service.rs\<close> are the \<open>spawn\<close>s of these operations.
\<close>

subsection \<open>Errors and outcomes\<close>

datatype license_operation_error =
    LicenseNotFound
  | LicenseRevoked
  | LicenseExpired
  | DeviceNotActivated
  | DeviceLimitReached "device list"
  | DeviceMismatch
  | Repository repository_error

record activation_outcome =
  ao_license :: license
  ao_customer_id :: int
  ao_plan_type :: plan_type

record validation_outcome =
  vo_status :: license_record_status
  vo_expires_at :: "timestamp option"
  vo_grace_period_days :: int
  vo_fingerprint_matched :: bool

record license_summary_outcome =
  ls_license_id :: int
  ls_status :: license_record_status
  ls_devices_active :: int
  ls_max_devices :: int
  ls_license_key :: string

record subscription_summary_outcome =
  ss_subscription :: subscription
  ss_licenses :: "license_summary_outcome list"

subsection \<open>Status\<close>

fun as_validation_log_result :: "license_record_status \<Rightarrow> validation_log_result" where
  "as_validation_log_result LicActive = LogValid"
| "as_validation_log_result LicExpired = LogExpired"
| "as_validation_log_result LicSuspended = LogSuspended"
| "as_validation_log_result LicRevoked = LogRevoked"

definition effective_status :: "license \<Rightarrow> timestamp \<Rightarrow> license_record_status" where
  "effective_status l now =
    (if lic_status l = LicActive then
       (case lic_expires_at l of
          Some e \<Rightarrow> if e \<le> now then LicExpired else lic_status l
        | None \<Rightarrow> lic_status l)
     else lic_status l)"

subsection \<open>The audit service\<close>

text \<open>
  \<open>record_validation\<close> and \<open>record_login\<close> hand one insert to \<open>tokio::spawn\<close> and return at
  once; the task itself logs a failed insert and drops it (\<open>run_audit_task\<close>).
\<close>

definition record_validation ::
  "int \<Rightarrow> uuid \<Rightarrow> validation_log_result \<Rightarrow> ('e, 'a) action \<Rightarrow> ('e, 'a) action" where
  "record_validation lid did res k =
    spawn (AuditValidation \<lparr> nlv_license_id = lid, nlv_device_id = did, nlv_result = res,
      nlv_client_clock = None \<rparr>) k"

definition record_login :: "int \<Rightarrow> uuid option \<Rightarrow> bool \<Rightarrow> ('e, 'a) action \<Rightarrow> ('e, 'a) action" where
  "record_login uid did success k =
    spawn (AuditLogin \<lparr> nlh_user_id = uid, nlh_device_id = did, nlh_success = success \<rparr>) k"

definition audit_action :: "audit_task \<Rightarrow> (repository_error, unit) action" where
  "audit_action t =
    (case t of
       AuditLogin e \<Rightarrow> audit_record_login e
     | AuditValidation e \<Rightarrow> audit_record_validation e)"

definition run_audit_task :: "audit_task \<Rightarrow> (repository_error, unit) action" where
  "run_audit_task t = await_match (audit_action t) (\<lambda>_. return_ok ()) (\<lambda>_. return_ok ())"

lemma record_run [run_simps]:
  "record_validation lid did res k w = k (w\<lparr>spawned := spawned w @
     [AuditValidation \<lparr> nlv_license_id = lid, nlv_device_id = did, nlv_result = res,
        nlv_client_clock = None \<rparr>]\<rparr>)"
  "record_login uid dido ok k w = k (w\<lparr>spawned := spawned w @
     [AuditLogin \<lparr> nlh_user_id = uid, nlh_device_id = dido, nlh_success = ok \<rparr>]\<rparr>)"
  by (simp_all add: record_validation_def record_login_def run_simps)

lemma keeps_record [keeps_intros]:
  "keeps I k \<Longrightarrow> keeps I (record_validation lid did res k)"
  "keeps I k \<Longrightarrow> keeps I (record_login uid dido ok k)"
  by (simp_all add: record_validation_def record_login_def keeps_spawn)

lemma calm_record [keeps_intros]:
  "calm k \<Longrightarrow> calm (record_validation lid did res k)"
  "calm k \<Longrightarrow> calm (record_login uid dido ok k)"
  by (simp_all add: record_validation_def record_login_def calm_spawn)

lemma keeps_audit_task [keeps_intros]: "keeps schema_ok (run_audit_task t)"
  unfolding run_audit_task_def audit_action_def
  by (cases t) (auto intro!: keeps_intros)

subsection \<open>Looking a license and its device up\<close>

definition license_service_find_by_key ::
  "string \<Rightarrow> (license_operation_error, license option) action" where
  "license_service_find_by_key key = await_as Repository (license_find_by_key key) return_ok"

definition owns_subscription :: "int \<Rightarrow> int option \<Rightarrow> (license_operation_error, bool) action" where
  "owns_subscription sid requesting =
    (case requesting of
       None \<Rightarrow> return_ok True
     | Some uid \<Rightarrow>
         await_as Repository (subscription_find_by_id sid) (\<lambda>b.
         return_ok (map_option sub_user_id b = Some uid)))"

definition find_active_device ::
  "int \<Rightarrow> uuid \<Rightarrow> int option \<Rightarrow> (license_operation_error, license \<times> device) action" where
  "find_active_device lid did requesting =
    await_as Repository (license_find_by_id lid) (\<lambda>found.
    case found of
      None \<Rightarrow> return_err DeviceNotActivated
    | Some l \<Rightarrow>
        await (owns_subscription (lic_subscription_id l) requesting) (\<lambda>owns.
        if \<not> owns then return_err DeviceNotActivated
        else
          await_as Repository (device_find_by_license_and_device_id (lic_id l) did) (\<lambda>dev.
          case dev of
            None \<Rightarrow> return_err DeviceNotActivated
          | Some x \<Rightarrow>
              if dev_deactivated_at x = None then return_ok (l, x)
              else return_err DeviceNotActivated)))"

subsection \<open>Activation\<close>

definition missing_subscription :: "license \<Rightarrow> license_operation_error" where
  "missing_subscription l = Repository (InvalidData (''license '' @ int_str (lic_id l)
     @ '' references missing subscription '' @ int_str (lic_subscription_id l)))"

definition license_activate ::
  "string \<Rightarrow> uuid \<Rightarrow> string \<Rightarrow> string \<Rightarrow> (license_operation_error, activation_outcome) action" where
  "license_activate key did fp label =
    await_as Repository (license_find_by_key key) (\<lambda>found.
    case found of
      None \<Rightarrow> return_err LicenseNotFound
    | Some l \<Rightarrow> now_then (\<lambda>now.
        let proceed =
          await_as Repository
            (device_activate (lic_id l) (lic_max_devices l) did fp label) (\<lambda>outcome.
          case outcome of
            LimitReached existing \<Rightarrow> return_err (DeviceLimitReached existing)
          | Activated \<Rightarrow>
              await_as Repository (subscription_find_by_id (lic_subscription_id l)) (\<lambda>b.
              case b of
                None \<Rightarrow> return_err (missing_subscription l)
              | Some b \<Rightarrow>
                  record_validation (lic_id l) did LogValid
                    (return_ok \<lparr> ao_license = l, ao_customer_id = sub_user_id b,
                       ao_plan_type = sub_plan_type b \<rparr>)))
        in case effective_status l now of
             LicRevoked \<Rightarrow> record_validation (lic_id l) did LogRevoked (return_err LicenseRevoked)
           | LicExpired \<Rightarrow> record_validation (lic_id l) did LogExpired (return_err LicenseExpired)
           | LicActive \<Rightarrow> proceed
           | LicSuspended \<Rightarrow> proceed))"

subsection \<open>Validation, heartbeat, deactivation\<close>

definition license_validate ::
  "int \<Rightarrow> uuid \<Rightarrow> string \<Rightarrow> int option \<Rightarrow> (license_operation_error, validation_outcome) action" where
  "license_validate lid did fp requesting =
    await (find_active_device lid did requesting) (\<lambda>(l, x).
    await_as Repository (device_touch_last_seen (dev_id x)) (\<lambda>_.
    now_then (\<lambda>now.
    let status = effective_status l now in
    if dev_machine_fingerprint x \<noteq> fp then
      record_validation (lic_id l) did LogDeviceMismatch (return_err DeviceMismatch)
    else
      record_validation (lic_id l) did (as_validation_log_result status)
        (return_ok \<lparr> vo_status = status, vo_expires_at = lic_expires_at l,
           vo_grace_period_days = lic_grace_period_days l, vo_fingerprint_matched = True \<rparr>))))"

definition license_heartbeat ::
  "int \<Rightarrow> uuid \<Rightarrow> int option \<Rightarrow> (license_operation_error, license_record_status) action" where
  "license_heartbeat lid did requesting =
    await (find_active_device lid did requesting) (\<lambda>(l, x).
    await_as Repository (device_touch_last_seen (dev_id x)) (\<lambda>_.
    now_then (\<lambda>now.
    let status = effective_status l now in
    record_validation (lic_id l) did (as_validation_log_result status) (return_ok status))))"

definition license_deactivate ::
  "int \<Rightarrow> uuid \<Rightarrow> string \<Rightarrow> int option \<Rightarrow> (license_operation_error, int) action" where
  "license_deactivate lid did fp requesting =
    await_as Repository (license_find_by_id lid) (\<lambda>found.
    case found of
      None \<Rightarrow> return_err LicenseNotFound
    | Some l \<Rightarrow>
        await (owns_subscription (lic_subscription_id l) requesting) (\<lambda>owns.
        if \<not> owns then return_err LicenseNotFound
        else
          await_as Repository (device_find_by_license_and_device_id (lic_id l) did) (\<lambda>dev.
          case dev of
            None \<Rightarrow> return_err DeviceNotActivated
          | Some x \<Rightarrow>
              if dev_deactivated_at x \<noteq> None then return_err DeviceNotActivated
              else if dev_machine_fingerprint x \<noteq> fp then return_err DeviceMismatch
              else
                await_as Repository (device_deactivate (dev_id x)) (\<lambda>_.
                await_as Repository (device_count_active_by_license (lic_id l)) (\<lambda>n.
                return_ok n)))))"

definition no_subscription :: "int \<Rightarrow> license_operation_error" where
  "no_subscription uid =
    Repository (InvalidData (''user '' @ int_str uid @ '' has no subscription''))"

definition subscription_summary ::
  "int \<Rightarrow> (license_operation_error, subscription_summary_outcome) action" where
  "subscription_summary uid =
    await_as Repository (subscription_find_latest_by_user uid) (\<lambda>found.
    case found of
      None \<Rightarrow> return_err (no_subscription uid)
    | Some b \<Rightarrow>
        await_as Repository (license_find_latest_by_subscription (sub_id b)) (\<lambda>lic.
        case lic of
          None \<Rightarrow> return_ok \<lparr> ss_subscription = b, ss_licenses = [] \<rparr>
        | Some l \<Rightarrow>
            await_as Repository (device_count_active_by_license (lic_id l)) (\<lambda>n.
            return_ok \<lparr> ss_subscription = b, ss_licenses =
              [\<lparr> ls_license_id = lic_id l, ls_status = lic_status l, ls_devices_active = n,
                 ls_max_devices = lic_max_devices l, ls_license_key = lic_key l \<rparr>] \<rparr>)))"

subsection \<open>The schema is kept by every operation\<close>

lemma keeps_finds [keeps_intros]:
  "keeps I (license_find_by_key key)" "keeps I (license_find_by_id lid)"
  "keeps I (license_find_latest_by_subscription sid)"
  "keeps I (subscription_find_by_id sid)" "keeps I (subscription_find_latest_by_user uid)"
  "keeps I (subscription_find_active_by_user uid)"
  "keeps I (user_find_by_id uid)" "keeps I (user_find_by_email em)"
  "keeps I (payment_find_by_gateway_payment_id gid)"
  by (simp_all add: run_simps keeps_select)

lemma keeps_find_active_device [keeps_intros]:
  "keeps I (owns_subscription sid requesting)"
  "keeps I (find_active_device lid did requesting)"
  unfolding find_active_device_def owns_subscription_def
  by (intro keeps_intros)+

lemma keeps_license_activate [keeps_intros]: "keeps schema_ok (license_activate key did fp label)"
proof -
  have status: "keeps schema_ok (case st of LicRevoked \<Rightarrow> a | LicExpired \<Rightarrow> b | LicActive \<Rightarrow> c | LicSuspended \<Rightarrow> d)"
    if "keeps schema_ok a" "keeps schema_ok b" "keeps schema_ok c" "keeps schema_ok d" for st a b c d
    using that by (cases st) simp_all
  have outcome: "keeps schema_ok (case oc of LimitReached ds \<Rightarrow> f ds | Activated \<Rightarrow> a)"
    if "\<And>ds. keeps schema_ok (f ds)" "keeps schema_ok a" for oc f a
    using that by (cases oc) simp_all
  show ?thesis
    unfolding license_activate_def Let_def
    by (intro keeps_intros status outcome)
qed

lemma keeps_license_operations [keeps_intros]:
  "keeps schema_ok (license_validate lid did fp requesting)"
  "keeps schema_ok (license_heartbeat lid did requesting)"
  "keeps schema_ok (license_deactivate lid did fp requesting)"
  "keeps schema_ok (subscription_summary uid)"
  unfolding license_validate_def license_heartbeat_def license_deactivate_def subscription_summary_def
  by (intro keeps_intros)+

subsection \<open>No operation moves the clock or breaks a healthy connection\<close>

lemma calm_result_of [keeps_intros]: "calm (result_of r)"
  by (simp add: calm_def result_of_def)

lemma calm_device_activate [keeps_intros]: "calm (device_activate lid m did fp label)"
  unfolding device_activate_def
  by (intro keeps_intros calm_sql) simp_all

lemma calm_finds [keeps_intros]:
  "calm (license_find_by_key key)" "calm (license_find_by_id lid)"
  "calm (license_find_latest_by_subscription sid)"
  "calm (subscription_find_by_id sid)" "calm (subscription_find_latest_by_user uid)"
  "calm (subscription_find_active_by_user uid)"
  "calm (user_find_by_id uid)" "calm (user_find_by_email em)"
  "calm (device_find_by_license_and_device_id lid did)" "calm (device_count_active_by_license lid)"
  "calm (device_touch_last_seen i)" "calm (device_deactivate i)"
  "calm (payment_find_by_gateway_payment_id gid)" "calm (payment_find_by_provider_ref ref)"
  unfolding device_find_by_license_and_device_id_def device_count_active_by_license_def
    device_touch_last_seen_def device_deactivate_def payment_find_by_provider_ref_def
  by (simp_all add: license_finds_eq subscription_finds_eq user_find_by_id_eq user_find_by_email_eq
      payment_find_by_gateway_eq calm_statements calm_await calm_result_of)

lemma calm_owns [keeps_intros]:
  "calm (owns_subscription sid requesting)" "calm (find_active_device lid did requesting)"
  unfolding owns_subscription_def find_active_device_def by (intro keeps_intros)+

lemma calm_license_activate [keeps_intros]: "calm (license_activate key did fp label)"
proof -
  have status: "calm (case st of LicRevoked \<Rightarrow> a | LicExpired \<Rightarrow> b | LicActive \<Rightarrow> c | LicSuspended \<Rightarrow> d)"
    if "calm a" "calm b" "calm c" "calm d" for st and a b c d :: "(license_operation_error, 'x) action"
    using that by (cases st) simp_all
  have outcome: "calm (case oc of LimitReached ds \<Rightarrow> f ds | Activated \<Rightarrow> a)"
    if "\<And>ds. calm (f ds)" "calm a" for oc f and a :: "(license_operation_error, 'x) action"
    using that by (cases oc) simp_all
  show ?thesis
    unfolding license_activate_def Let_def by (intro keeps_intros status outcome)
qed

lemma calm_license_operations [keeps_intros]:
  "calm (license_validate lid did fp requesting)" "calm (license_heartbeat lid did requesting)"
  "calm (license_deactivate lid did fp requesting)" "calm (subscription_summary uid)"
  unfolding license_validate_def license_heartbeat_def license_deactivate_def subscription_summary_def
  by (intro keeps_intros)+

end
