(* ===== verification/PaymentService.thy ===== *)
theory PaymentService
  imports LicenseService
begin

text \<open>
  \<open>razorpay/webhook.rs\<close> and \<open>service/payment_service.rs\<close>: reading a webhook payload, the
  resolution of an event into a \<open>webhook_mutation\<close> (reads only), its processing (resolve, then
  \<open>claim_and_apply\<close>), checkout, and reconciliation. Razorpay itself is an argument: its answers
  to \<open>create_checkout\<close> and \<open>list_payments_since\<close>; so are the draws of the random generator
  behind a license key.
\<close>

subsection \<open>Webhook payloads\<close>

record razorpay_webhook_payload =
  rwp_event :: string
  rwp_payload :: json

definition json_get :: "string \<Rightarrow> json \<Rightarrow> json option" where
  "json_get k j = (case j of JObj ms \<Rightarrow> map_of ms k | _ \<Rightarrow> None)"

definition json_as_str :: "json \<Rightarrow> string option" where
  "json_as_str j = (case j of JStr s \<Rightarrow> Some s | _ \<Rightarrow> None)"

definition json_as_i64 :: "json \<Rightarrow> int option" where
  "json_as_i64 j = (case j of JInt n \<Rightarrow> if in_i64 n then Some n else None | _ \<Rightarrow> None)"

definition json_entity :: "string \<Rightarrow> json \<Rightarrow> json option" where
  "json_entity key j = Option.bind (json_get key j) (json_get ''entity'')"

definition extract_entity_ref :: "json \<Rightarrow> string \<Rightarrow> string option" where
  "extract_entity_ref payload key =
    Option.bind (json_entity key payload) (\<lambda>entity.
      case Option.bind (json_get ''order_id'' entity) json_as_str of
        Some r \<Rightarrow> Some r
      | None \<Rightarrow> Option.bind (json_get ''id'' entity) json_as_str)"

definition extract_entity_id :: "json \<Rightarrow> string \<Rightarrow> string option" where
  "extract_entity_id payload key =
    Option.bind (json_entity key payload) (\<lambda>entity. Option.bind (json_get ''id'' entity) json_as_str)"

definition extract_entity_amount_minor :: "json \<Rightarrow> string \<Rightarrow> int option" where
  "extract_entity_amount_minor payload key =
    Option.bind (json_entity key payload) (\<lambda>entity. Option.bind (json_get ''amount'' entity) json_as_i64)"

definition extract_entity_currency :: "json \<Rightarrow> string \<Rightarrow> string option" where
  "extract_entity_currency payload key =
    Option.bind (json_entity key payload) (\<lambda>entity. Option.bind (json_get ''currency'' entity) json_as_str)"

definition extract_dispute_status :: "json \<Rightarrow> string option" where
  "extract_dispute_status payload =
    Option.bind (json_entity ''dispute'' payload) (\<lambda>entity. Option.bind (json_get ''status'' entity) json_as_str)"

subsection \<open>Prices, terms and license keys\<close>

fun plan_amount_minor :: "plan_type \<Rightarrow> int" where
  "plan_amount_minor Trial = 0"
| "plan_amount_minor Monthly = 49900"
| "plan_amount_minor Yearly = 399900"
| "plan_amount_minor Lifetime = 999900"

fun plan_duration :: "plan_type \<Rightarrow> duration option" where
  "plan_duration Trial = Some (duration_days 14)"
| "plan_duration Monthly = Some (duration_days 30)"
| "plan_duration Yearly = Some (duration_days 365)"
| "plan_duration Lifetime = None"

definition license_key_charset :: string where
  "license_key_charset = ''ABCDEFGHJKLMNPQRSTUVWXYZ23456789''"

fun join_with :: "string \<Rightarrow> string list \<Rightarrow> string" where
  "join_with sep [] = []"
| "join_with sep [x] = x"
| "join_with sep (x # y # ys) = x @ sep @ join_with sep (y # ys)"

text \<open>\<open>draw i\<close> is the result of the \<open>i\<close>-th \<open>gen_range(0..32)\<close>.\<close>

definition generate_license_key :: "(nat \<Rightarrow> nat) \<Rightarrow> string" where
  "generate_license_key draw =
    join_with ''-'' (map (\<lambda>g. map (\<lambda>i. license_key_charset ! draw (4 * g + i)) [0..<4]) [0..<4])"

subsection \<open>Errors and outcomes\<close>

datatype payment_operation_error =
    InvalidPlanType
  | ProviderError string
  | PaymentRepository repository_error

record checkout_outcome =
  co_checkout_url :: string
  co_provider_ref :: string

record create_checkout_request =
  cc_plan_type :: plan_type
  cc_amount_minor :: int
  cc_currency :: string
  cc_receipt :: string

subsection \<open>Checkout\<close>

definition create_checkout_session ::
  "(create_checkout_request \<Rightarrow> string + checkout_outcome) \<Rightarrow> int \<Rightarrow> string
    \<Rightarrow> (payment_operation_error, checkout_outcome) action" where
  "create_checkout_session razorpay uid plan_str =
    (case plan_from_str plan_str of
       Inl _ \<Rightarrow> return_err InvalidPlanType
     | Inr plan \<Rightarrow> now_then (\<lambda>now.
        await_as PaymentRepository (subscription_insert
          \<lparr> ns_user_id = uid, ns_plan_type = plan, ns_status = SubPendingPayment,
            ns_started_at = now, ns_current_period_end = None, ns_auto_renew = True \<rparr>) (\<lambda>sub.
        let amount = plan_amount_minor plan in
        case razorpay \<lparr> cc_plan_type = plan, cc_amount_minor = amount, cc_currency = ''INR'',
               cc_receipt = ''sub_'' @ int_str (sub_id sub) \<rparr> of
          Inl e \<Rightarrow> return_err (ProviderError e)
        | Inr checkout \<Rightarrow>
            await_as PaymentRepository (payment_insert
              \<lparr> np_subscription_id = sub_id sub, np_amount_minor = amount, np_currency = ''INR'',
                np_provider = ''razorpay'', np_provider_ref = Some (co_provider_ref checkout),
                np_status = PayPending \<rparr>) (\<lambda>_.
            return_ok checkout))))"

subsection \<open>Resolving an event\<close>

definition find_payment_by_provider_ref_or_none ::
  "string \<Rightarrow> (payment_operation_error, payment option) action" where
  "find_payment_by_provider_ref_or_none ref =
    await_match (payment_find_by_provider_ref ref)
      (\<lambda>e. case e of
             DuplicateProviderReference _ \<Rightarrow> return_ok None
           | _ \<Rightarrow> return_err (PaymentRepository e))
      return_ok"

definition payment_missing_subscription :: "payment \<Rightarrow> payment_operation_error" where
  "payment_missing_subscription p = PaymentRepository (InvalidData
     (''payment references missing subscription '' @ int_str (pay_subscription_id p)))"

definition resolve_activation ::
  "(nat \<Rightarrow> nat) \<Rightarrow> string \<Rightarrow> string option \<Rightarrow> int option \<Rightarrow> string option
    \<Rightarrow> (payment_operation_error, webhook_mutation) action" where
  "resolve_activation draw ref gid amount currency =
    await (find_payment_by_provider_ref_or_none ref) (\<lambda>found.
    case found of
      None \<Rightarrow> return_ok NoMutation
    | Some p \<Rightarrow>
        if amount \<noteq> None \<and> amount \<noteq> Some (pay_amount_minor p) then return_ok NoMutation
        else if currency \<noteq> None \<and> currency \<noteq> Some (pay_currency p) then return_ok NoMutation
        else if pay_status p = PayRefunded \<or> pay_status p = PayDisputed then return_ok NoMutation
        else
          await_as PaymentRepository (subscription_find_by_id (pay_subscription_id p)) (\<lambda>sub.
          case sub of
            None \<Rightarrow> return_err (payment_missing_subscription p)
          | Some b \<Rightarrow> now_then (\<lambda>now.
              let period_end = map_option (\<lambda>d. now + d) (plan_duration (sub_plan_type b)) in
              await_as PaymentRepository (license_find_latest_by_subscription (sub_id b)) (\<lambda>lic.
              return_ok (ActivateSubscriptionAndLicense (pay_id p) (sub_id b) period_end
                (case lic of
                   Some l \<Rightarrow> ExtendLicense (lic_id l)
                 | None \<Rightarrow> InsertLicense (generate_license_key draw) 1 7)
                gid)))))"

text \<open>The four activation events differ only in the entity whose reference they read.\<close>

definition resolve_activation_by ::
  "string \<Rightarrow> (nat \<Rightarrow> nat) \<Rightarrow> razorpay_webhook_payload \<Rightarrow> (payment_operation_error, webhook_mutation) action" where
  "resolve_activation_by key draw pl =
    (case extract_entity_ref (rwp_payload pl) key of
       None \<Rightarrow> return_ok NoMutation
     | Some ref \<Rightarrow>
         resolve_activation draw ref (extract_entity_id (rwp_payload pl) ''payment'')
           (extract_entity_amount_minor (rwp_payload pl) ''payment'')
           (extract_entity_currency (rwp_payload pl) ''payment''))"

definition resolve_payment_captured ::
  "(nat \<Rightarrow> nat) \<Rightarrow> razorpay_webhook_payload \<Rightarrow> (payment_operation_error, webhook_mutation) action" where
  "resolve_payment_captured = resolve_activation_by ''payment''"

definition resolve_payment_link_paid ::
  "(nat \<Rightarrow> nat) \<Rightarrow> razorpay_webhook_payload \<Rightarrow> (payment_operation_error, webhook_mutation) action" where
  "resolve_payment_link_paid = resolve_activation_by ''payment_link''"

definition resolve_subscription_active ::
  "(nat \<Rightarrow> nat) \<Rightarrow> razorpay_webhook_payload \<Rightarrow> (payment_operation_error, webhook_mutation) action" where
  "resolve_subscription_active = resolve_activation_by ''subscription''"

definition resolve_payment_failed ::
  "razorpay_webhook_payload \<Rightarrow> (payment_operation_error, webhook_mutation) action" where
  "resolve_payment_failed pl =
    (case extract_entity_ref (rwp_payload pl) ''payment'' of
       None \<Rightarrow> return_ok NoMutation
     | Some ref \<Rightarrow>
         await (find_payment_by_provider_ref_or_none ref) (\<lambda>found.
         case found of
           None \<Rightarrow> return_ok NoMutation
         | Some p \<Rightarrow>
             if pay_status p \<noteq> PayPending then return_ok NoMutation
             else return_ok (MarkPaymentFailed (pay_id p))))"

definition inactive_status :: "string \<Rightarrow> subscription_status \<times> license_record_status" where
  "inactive_status event =
    (if event = ''subscription.halted'' then (SubSuspended, LicSuspended)
     else (SubCancelled, LicRevoked))"

definition resolve_subscription_inactive ::
  "razorpay_webhook_payload \<Rightarrow> (payment_operation_error, webhook_mutation) action" where
  "resolve_subscription_inactive pl =
    (case extract_entity_ref (rwp_payload pl) ''subscription'' of
       None \<Rightarrow> return_ok NoMutation
     | Some ref \<Rightarrow>
         await (find_payment_by_provider_ref_or_none ref) (\<lambda>found.
         case found of
           None \<Rightarrow> return_ok NoMutation
         | Some p \<Rightarrow>
             await_as PaymentRepository (subscription_find_by_id (pay_subscription_id p)) (\<lambda>sub.
             case sub of
               None \<Rightarrow> return_ok NoMutation
             | Some b \<Rightarrow>
                 await_as PaymentRepository (license_find_latest_by_subscription (sub_id b)) (\<lambda>lic.
                 return_ok (UpdateSubscriptionStatus (sub_id b) (fst (inactive_status (rwp_event pl)))
                   (sub_current_period_end b)
                   (map_option (\<lambda>l. \<lparr> sc_license_id = lic_id l, sc_expires_at = lic_expires_at l,
                      sc_status = snd (inactive_status (rwp_event pl)) \<rparr>) lic))))))"

definition find_payment_and_license ::
  "string \<Rightarrow> (payment_operation_error, (payment \<times> affected_license option) option) action" where
  "find_payment_and_license gid =
    await_as PaymentRepository (payment_find_by_gateway_payment_id gid) (\<lambda>found.
    case found of
      None \<Rightarrow> return_ok None
    | Some p \<Rightarrow>
        await_as PaymentRepository (license_find_latest_by_subscription (pay_subscription_id p)) (\<lambda>lic.
        return_ok (Some (p, map_option
          (\<lambda>l. \<lparr> al_license_id = lic_id l, al_expires_at = lic_expires_at l \<rparr>) lic))))"

definition resolve_refund ::
  "razorpay_webhook_payload \<Rightarrow> (payment_operation_error, webhook_mutation) action" where
  "resolve_refund pl =
    (case extract_entity_id (rwp_payload pl) ''payment'' of
       None \<Rightarrow> return_ok NoMutation
     | Some gid \<Rightarrow>
         await (find_payment_and_license gid) (\<lambda>found.
         case found of
           None \<Rightarrow> return_ok NoMutation
         | Some (p, lic) \<Rightarrow> return_ok (RefundPayment (pay_id p) lic)))"

definition resolve_dispute_created ::
  "razorpay_webhook_payload \<Rightarrow> (payment_operation_error, webhook_mutation) action" where
  "resolve_dispute_created pl =
    (case extract_entity_id (rwp_payload pl) ''payment'' of
       None \<Rightarrow> return_ok NoMutation
     | Some gid \<Rightarrow>
         await (find_payment_and_license gid) (\<lambda>found.
         case found of
           None \<Rightarrow> return_ok NoMutation
         | Some (p, lic) \<Rightarrow> return_ok (MarkPaymentDisputed (pay_id p) lic)))"

definition dispute_outcome :: "string option \<Rightarrow> bool option" where
  "dispute_outcome st =
    (if st = Some ''won'' then Some True
     else if st = Some ''lost'' then Some False
     else None)"

definition resolve_dispute_closed ::
  "razorpay_webhook_payload \<Rightarrow> (payment_operation_error, webhook_mutation) action" where
  "resolve_dispute_closed pl =
    (case extract_entity_id (rwp_payload pl) ''payment'' of
       None \<Rightarrow> return_ok NoMutation
     | Some gid \<Rightarrow>
        (case dispute_outcome (extract_dispute_status (rwp_payload pl)) of
           None \<Rightarrow> return_ok NoMutation
         | Some merchant_won \<Rightarrow>
             await (find_payment_and_license gid) (\<lambda>found.
             case found of
               None \<Rightarrow> return_ok NoMutation
             | Some (p, lic) \<Rightarrow> return_ok (ResolveDispute (pay_id p) lic merchant_won))))"

subsection \<open>Processing an event\<close>

definition resolve_event ::
  "(nat \<Rightarrow> nat) \<Rightarrow> razorpay_webhook_payload \<Rightarrow> (payment_operation_error, webhook_mutation) action" where
  "resolve_event draw pl =
    (let ev = rwp_event pl in
     if ev = ''payment.captured'' then resolve_payment_captured draw pl
     else if ev = ''payment_link.paid'' then resolve_payment_link_paid draw pl
     else if ev = ''payment.failed'' then resolve_payment_failed pl
     else if ev = ''subscription.activated'' \<or> ev = ''subscription.charged''
       then resolve_subscription_active draw pl
     else if ev = ''subscription.cancelled'' \<or> ev = ''subscription.halted''
       then resolve_subscription_inactive pl
     else if ev = ''refund.created'' \<or> ev = ''refund.processed'' then resolve_refund pl
     else if ev = ''payment.dispute.created'' then resolve_dispute_created pl
     else if ev = ''payment.dispute.closed'' then resolve_dispute_closed pl
     else return_ok NoMutation)"

definition ledger_event :: "string \<Rightarrow> razorpay_webhook_payload \<Rightarrow> new_payment_webhook_event" where
  "ledger_event eid pl = \<lparr> npwe_provider = ''razorpay'', npwe_event_id = eid,
     npwe_event_type = rwp_event pl, npwe_payload = rwp_payload pl \<rparr>"

definition process_webhook_event ::
  "(nat \<Rightarrow> nat) \<Rightarrow> string \<Rightarrow> razorpay_webhook_payload \<Rightarrow> (payment_operation_error, unit) action" where
  "process_webhook_event draw eid pl =
    await (resolve_event draw pl) (\<lambda>mutation.
    await_as PaymentRepository (claim_and_apply (ledger_event eid pl) mutation) (\<lambda>_.
    return_ok ()))"

subsection \<open>Reconciliation\<close>

record razorpay_payment =
  rp_id :: string
  rp_order_id :: "string option"
  rp_status :: string

record reconciliation_summary =
  rs_checked :: nat
  rs_healed :: nat

definition map_razorpay_payment_status :: "string \<Rightarrow> payment_status option" where
  "map_razorpay_payment_status s =
    (if s = ''captured'' then Some PaySucceeded
     else if s = ''failed'' then Some PayFailed
     else if s = ''refunded'' then Some PayRefunded
     else None)"

definition candidate_refs :: "razorpay_payment \<Rightarrow> string list" where
  "candidate_refs rp = (case rp_order_id rp of Some r \<Rightarrow> [r, rp_id rp] | None \<Rightarrow> [rp_id rp])"

fun find_first_candidate :: "string list \<Rightarrow> (payment_operation_error, payment option) action" where
  "find_first_candidate [] = return_ok None"
| "find_first_candidate (r # rs) =
    await_as PaymentRepository (payment_find_by_provider_ref r) (\<lambda>found.
    case found of
      Some p \<Rightarrow> return_ok (Some p)
    | None \<Rightarrow> find_first_candidate rs)"

definition heal_event_type :: "payment_status \<Rightarrow> string option" where
  "heal_event_type st =
    (case st of
       PaySucceeded \<Rightarrow> Some ''payment.captured''
     | PayFailed \<Rightarrow> Some ''payment.failed''
     | PayRefunded \<Rightarrow> Some ''refund.created''
     | _ \<Rightarrow> None)"

definition reconcile_event_id :: "payment \<Rightarrow> razorpay_payment \<Rightarrow> string" where
  "reconcile_event_id p rp =
    ''reconcile:'' @ int_str (pay_id p) @ '':'' @ rp_status rp @ '':'' @ rp_id rp"

definition reconcile_payload :: "string \<Rightarrow> razorpay_payment \<Rightarrow> razorpay_webhook_payload" where
  "reconcile_payload event rp = \<lparr> rwp_event = event, rwp_payload =
     JObj [(''payment'', JObj [(''entity'', JObj
       [(''id'', JStr (rp_id rp)),
        (''order_id'', case rp_order_id rp of Some r \<Rightarrow> JStr r | None \<Rightarrow> JNull)])])] \<rparr>"

definition reconcile_one ::
  "(nat \<Rightarrow> nat) \<Rightarrow> razorpay_payment \<Rightarrow> (payment_operation_error, bool) action" where
  "reconcile_one draw rp =
    (case map_razorpay_payment_status (rp_status rp) of
       None \<Rightarrow> return_ok False
     | Some razorpay_status \<Rightarrow>
         await (find_first_candidate (candidate_refs rp)) (\<lambda>found.
         case found of
           None \<Rightarrow> return_ok False
         | Some p \<Rightarrow>
             if pay_status p = razorpay_status then return_ok False
             else
              (case heal_event_type razorpay_status of
                 None \<Rightarrow> return_ok False
               | Some event \<Rightarrow>
                   await (process_webhook_event draw (reconcile_event_id p rp)
                     (reconcile_payload event rp)) (\<lambda>_.
                   return_ok True))))"

fun reconcile_payments ::
  "(nat \<Rightarrow> nat \<Rightarrow> nat) \<Rightarrow> razorpay_payment list \<Rightarrow> nat \<Rightarrow> (payment_operation_error, nat) action" where
  "reconcile_payments draws [] healed = return_ok healed"
| "reconcile_payments draws (rp # rps) healed =
    await_match (reconcile_one (draws (length rps)) rp)
      (\<lambda>_. reconcile_payments draws rps healed)
      (\<lambda>h. reconcile_payments draws rps (if h then healed + 1 else healed))"

definition reconcile_once ::
  "(timestamp \<Rightarrow> string + razorpay_payment list) \<Rightarrow> int \<Rightarrow> (nat \<Rightarrow> nat \<Rightarrow> nat)
    \<Rightarrow> (payment_operation_error, reconciliation_summary) action" where
  "reconcile_once list_payments_since lookback_hours draws =
    now_then (\<lambda>now.
    case list_payments_since (now - duration_hours lookback_hours) of
      Inl e \<Rightarrow> return_err (ProviderError e)
    | Inr rps \<Rightarrow>
        await (reconcile_payments draws rps 0) (\<lambda>healed.
        return_ok \<lparr> rs_checked = length rps, rs_healed = healed \<rparr>))"

subsection \<open>The schema is kept, and resolving writes nothing\<close>

lemmas resolve_defs =
  resolve_payment_captured_def resolve_payment_link_paid_def resolve_subscription_active_def
  resolve_activation_by_def resolve_activation_def resolve_payment_failed_def
  resolve_subscription_inactive_def resolve_refund_def resolve_dispute_created_def
  resolve_dispute_closed_def find_payment_and_license_def find_payment_by_provider_ref_or_none_def

lemma keeps_provider_ref_or_none [keeps_intros]:
  "keeps I (find_payment_by_provider_ref_or_none ref)"
proof -
  have "keeps I (case e of DuplicateProviderReference _ \<Rightarrow> return_ok None
      | _ \<Rightarrow> return_err (PaymentRepository e))" for e
    by (cases e) (simp_all add: keeps_return)
  then show ?thesis
    unfolding find_payment_by_provider_ref_or_none_def by (intro keeps_intros)
qed

lemma keeps_resolve_event [keeps_intros]: "keeps I (resolve_event draw pl)"
  unfolding resolve_event_def Let_def resolve_payment_captured_def resolve_payment_link_paid_def
    resolve_subscription_active_def resolve_activation_by_def resolve_activation_def
    resolve_payment_failed_def resolve_subscription_inactive_def resolve_refund_def
    resolve_dispute_created_def resolve_dispute_closed_def find_payment_and_license_def
  by (intro keeps_intros)

lemma keeps_process_webhook_event [keeps_intros]:
  "keeps schema_ok (process_webhook_event draw eid pl)"
  unfolding process_webhook_event_def by (intro keeps_intros)

lemma keeps_create_checkout_session [keeps_intros]:
  "keeps schema_ok (create_checkout_session razorpay uid plan_str)"
  unfolding create_checkout_session_def by (intro keeps_intros)

lemma keeps_find_first_candidate [keeps_intros]: "keeps I (find_first_candidate rs)"
  by (induction rs) (auto intro!: keeps_intros)

lemma keeps_reconcile_one [keeps_intros]: "keeps schema_ok (reconcile_one draw rp)"
  unfolding reconcile_one_def by (intro keeps_intros)

lemma keeps_reconcile_payments [keeps_intros]:
  "keeps schema_ok (reconcile_payments draws rps healed)"
  by (induction rps arbitrary: healed) (auto intro!: keeps_intros)

lemma keeps_reconcile_once [keeps_intros]:
  "keeps schema_ok (reconcile_once list_payments_since lookback draws)"
  unfolding reconcile_once_def by (intro keeps_intros)

end
