(* ===== verification/LicenseFacts.thy ===== *)
theory LicenseFacts
  imports LicenseService
begin

text \<open>
  What the license service promises. The abstract specification of its lookups are two pure
  functions on the tables, \<open>entitled_license\<close> and \<open>entitled_device\<close>: the license a caller may
  act on and the active device of that license. The operations are then decision tables over
  them on a healthy connection; safety statements hold under every fault schedule.
\<close>

definition caller_owns :: "int option \<Rightarrow> license \<Rightarrow> tables \<Rightarrow> bool" where
  "caller_owns requesting l d =
    (case requesting of
       None \<Rightarrow> True
     | Some uid \<Rightarrow>
         map_option sub_user_id (find (\<lambda>b. sub_id b = lic_subscription_id l) (subscriptions d)) = Some uid)"

definition entitled_license :: "int \<Rightarrow> int option \<Rightarrow> tables \<Rightarrow> license option" where
  "entitled_license lid requesting d =
    (case find (\<lambda>l. lic_id l = lid) (licenses d) of
       None \<Rightarrow> None
     | Some l \<Rightarrow> if caller_owns requesting l d then Some l else None)"

definition device_row :: "int \<Rightarrow> uuid \<Rightarrow> tables \<Rightarrow> device option" where
  "device_row lid did d =
    find (\<lambda>x. (dev_license_id x, dev_device_id x) = (lid, did)) (devices d)"

definition entitled_device :: "int \<Rightarrow> uuid \<Rightarrow> int option \<Rightarrow> tables \<Rightarrow> (license \<times> device) option" where
  "entitled_device lid did requesting d =
    (case entitled_license lid requesting d of
       None \<Rightarrow> None
     | Some l \<Rightarrow>
        (case device_row (lic_id l) did d of
           None \<Rightarrow> None
         | Some x \<Rightarrow> if device_active x then Some (l, x) else None))"

lemma owns_subscription_healthy [run_simps]:
  "faults w = [] \<Longrightarrow> owns_subscription (lic_subscription_id l) requesting w
     = (Inr (caller_owns requesting l (db w)), w)"
  by (simp add: owns_subscription_def caller_owns_def run_simps split: option.split)

lemma find_active_device_healthy [run_simps]:
  "faults w = [] \<Longrightarrow> find_active_device lid did requesting w =
    (case entitled_device lid did requesting (db w) of
       None \<Rightarrow> (Inl DeviceNotActivated, w)
     | Some p \<Rightarrow> (Inr p, w))"
  by (simp add: find_active_device_def entitled_device_def entitled_license_def device_row_def
      device_find_by_license_and_device_id_def device_active_def run_simps split: option.split)

lemma entitled_deviceD:
  assumes "entitled_device lid did requesting d = Some (l, x)"
  shows "l \<in> set (licenses d)" and "lic_id l = lid" and "caller_owns requesting l d"
    and "x \<in> set (devices d)" and "dev_license_id x = lid" and "dev_device_id x = did"
    and "device_active x"
  using assms
  by (auto simp: entitled_device_def entitled_license_def device_row_def dest: find_SomeD
      split: option.splits if_splits)

lemma entitled_deviceI:
  assumes "schema_ok d s" and "l \<in> set (licenses d)" and "lic_id l = lid"
    and "caller_owns requesting l d" and "x \<in> set (devices d)" and "dev_license_id x = lid"
    and "dev_device_id x = did" and "device_active x"
  shows "entitled_device lid did requesting d = Some (l, x)"
proof -
  have "find (\<lambda>l. lic_id l = lid) (licenses d) = Some l"
    using schema_keyed(4) [OF assms(1)] assms(2,3) by (rule find_keyed)
  moreover have "find (\<lambda>x. (dev_license_id x, dev_device_id x) = (lid, did)) (devices d) = Some x"
    using schema_keyed(7) [OF assms(1)] assms(5) by (rule find_keyed) (simp add: assms(6,7))
  ultimately show ?thesis
    using assms(3,4,8)
    by (simp add: entitled_device_def entitled_license_def device_row_def)
qed

definition touched :: "device \<Rightarrow> timestamp \<Rightarrow> tables \<Rightarrow> tables" where
  "touched x now d = d\<lparr>devices :=
     update_where (\<lambda>y. dev_id y = dev_id x) (\<lambda>y. y\<lparr>dev_last_seen_at := now\<rparr>) (devices d)\<rparr>"

definition validation_logged :: "int \<Rightarrow> uuid \<Rightarrow> validation_log_result \<Rightarrow> world \<Rightarrow> world" where
  "validation_logged lid did res w = w\<lparr>spawned := spawned w @
     [AuditValidation \<lparr> nlv_license_id = lid, nlv_device_id = did, nlv_result = res,
        nlv_client_clock = None \<rparr>]\<rparr>"

definition validated :: "license \<Rightarrow> timestamp \<Rightarrow> validation_outcome" where
  "validated l now = \<lparr> vo_status = effective_status l now, vo_expires_at = lic_expires_at l,
     vo_grace_period_days = lic_grace_period_days l, vo_fingerprint_matched = True \<rparr>"

lemma license_validate_healthy:
  "faults w = [] \<Longrightarrow> license_validate lid did fp requesting w =
    (case entitled_device lid did requesting (db w) of
       None \<Rightarrow> (Inl DeviceNotActivated, w)
     | Some (l, x) \<Rightarrow>
         let w1 = w\<lparr>db := touched x (utc_now w) (db w)\<rparr> in
         if dev_machine_fingerprint x = fp then
           (Inr (validated l (utc_now w)),
            validation_logged lid did (as_validation_log_result (effective_status l (utc_now w))) w1)
         else (Inl DeviceMismatch, validation_logged lid did LogDeviceMismatch w1))"
  by (auto simp: license_validate_def run_simps device_touch_last_seen_def touched_def
      validation_logged_def validated_def Let_def entitled_deviceD(2) split: option.split)

lemma license_heartbeat_healthy:
  "faults w = [] \<Longrightarrow> license_heartbeat lid did requesting w =
    (case entitled_device lid did requesting (db w) of
       None \<Rightarrow> (Inl DeviceNotActivated, w)
     | Some (l, x) \<Rightarrow>
         (Inr (effective_status l (utc_now w)),
          validation_logged lid did (as_validation_log_result (effective_status l (utc_now w)))
            (w\<lparr>db := touched x (utc_now w) (db w)\<rparr>)))"
  by (auto simp: license_heartbeat_def run_simps device_touch_last_seen_def touched_def
      validation_logged_def Let_def entitled_deviceD(2) split: option.split)

lemma license_deactivate_healthy:
  "faults w = [] \<Longrightarrow> license_deactivate lid did fp requesting w =
    (case entitled_license lid requesting (db w) of
       None \<Rightarrow> (Inl LicenseNotFound, w)
     | Some l \<Rightarrow>
        (case device_row lid did (db w) of
           None \<Rightarrow> (Inl DeviceNotActivated, w)
         | Some x \<Rightarrow>
             if \<not> device_active x then (Inl DeviceNotActivated, w)
             else if dev_machine_fingerprint x \<noteq> fp then (Inl DeviceMismatch, w)
             else
               let d = (db w)\<lparr>devices := update_where (\<lambda>y. dev_id y = dev_id x)
                     (\<lambda>y. y\<lparr>dev_deactivated_at := Some (utc_now w)\<rparr>) (devices (db w))\<rparr> in
               (Inr (int (active_count lid d)), w\<lparr>db := d\<rparr>)))"
  by (auto simp: license_deactivate_def run_simps entitled_license_def device_row_def Let_def
      device_find_by_license_and_device_id_def device_deactivate_def device_active_def
      device_count_active_by_license_def split: option.split dest: find_SomeD)

subsection \<open>Activation as a decision table\<close>

definition activated :: "license \<Rightarrow> subscription \<Rightarrow> activation_outcome" where
  "activated l b = \<lparr> ao_license = l, ao_customer_id = sub_user_id b, ao_plan_type = sub_plan_type b \<rparr>"

lemma device_activate_env:
  assumes "faults w = []" and "device_activate lid m did fp label w = (r, w')"
    and "lid \<in> keys lic_id (licenses (db w))"
  shows "faults w' = []" and "spawned w' = spawned w" and "utc_now w' = utc_now w"
    and "subscriptions (db w') = subscriptions (db w)" and "licenses (db w') = licenses (db w)"
  using assms(2) unfolding device_activate_healthy [OF assms(1,3)]
  using assms(1) by (auto split: option.splits if_splits)

lemma license_activate_healthy:
  assumes w: "faults w = []" and ok: "schema_ok (db w) (seqs w)"
  shows "license_activate key did fp label w =
    (case find (\<lambda>l. lic_key l = key) (licenses (db w)) of
       None \<Rightarrow> (Inl LicenseNotFound, w)
     | Some l \<Rightarrow>
        (case effective_status l (utc_now w) of
           LicRevoked \<Rightarrow> (Inl LicenseRevoked, validation_logged (lic_id l) did LogRevoked w)
         | LicExpired \<Rightarrow> (Inl LicenseExpired, validation_logged (lic_id l) did LogExpired w)
         | _ \<Rightarrow>
            (case device_activate (lic_id l) (lic_max_devices l) did fp label w of
               (Inl e, w1) \<Rightarrow> (Inl (Repository e), w1)
             | (Inr (LimitReached ds), w1) \<Rightarrow> (Inl (DeviceLimitReached ds), w1)
             | (Inr Activated, w1) \<Rightarrow>
                 (Inr (activated l (the (find (\<lambda>b. sub_id b = lic_subscription_id l) (subscriptions (db w))))),
                  validation_logged (lic_id l) did LogValid w1))))"
proof (cases "find (\<lambda>l. lic_key l = key) (licenses (db w))")
  case None
  then show ?thesis by (simp add: license_activate_def run_simps w)
next
  case (Some l)
  then have l: "l \<in> set (licenses (db w))" by (auto dest: find_SomeD)
  then have lid: "lic_id l \<in> keys lic_id (licenses (db w))" by (simp add: keys_def)
  obtain b where b: "find (\<lambda>b. sub_id b = lic_subscription_id l) (subscriptions (db w)) = Some b"
    by (metis schema_license_subscription [OF ok l] find_keyed [OF schema_keyed(3) [OF ok]])
  obtain r w1 where da: "device_activate (lic_id l) (lic_max_devices l) did fp label w = (r, w1)"
    by (cases "device_activate (lic_id l) (lic_max_devices l) did fp label w")
  note env = device_activate_env [OF w da lid]
  have sel: "sql_select f w1 = (Inr (f (db w1)), w1)" for f :: "tables \<Rightarrow> subscription option"
    by (rule sql_select_healthy [OF env(1)])
  show ?thesis
    by (cases "effective_status l (utc_now w)")
      (auto simp: license_activate_def run_simps w Some Let_def da sel env(4) b activated_def
        validation_logged_def split: sum.split device_activation_outcome.split)
qed

subsection \<open>Properties\<close>

text \<open>Expiry is decided by the server's clock alone: an active license reads as active exactly
  before its expiry date, from then on as expired, and a license in any other state keeps that
  state whatever the date.\<close>

lemma effective_status_iff:
  "effective_status l now =
    (if lic_status l \<noteq> LicActive then lic_status l
     else if \<exists>e. lic_expires_at l = Some e \<and> e \<le> now then LicExpired else LicActive)"
  by (auto simp: effective_status_def split: option.split)

lemma effective_status_mono:
  "effective_status l t = LicExpired \<Longrightarrow> t \<le> u \<Longrightarrow> effective_status l u = LicExpired"
  by (auto simp: effective_status_def split: option.splits if_splits)

lemma await_as_InrE:
  assumes "await_as conv m k w = (Inr y, w')"
  obtains x w1 where "m w = (Inr x, w1)" and "k x w1 = (Inr y, w')"
  using assms by (auto simp: run_simps split: prod.splits sum.splits)

lemma owns_subscription_InrE:
  assumes "owns_subscription (lic_subscription_id l) requesting w = (Inr o', w')"
  obtains "o' = caller_owns requesting l (db w)" and "db w' = db w" and "utc_now w' = utc_now w"
  using assms unfolding owns_subscription_def caller_owns_def subscription_finds_eq
  by (cases requesting) (auto elim!: await_as_InrE sql_select_InrE return_okE)

lemma find_active_device_InrE:
  assumes "find_active_device lid did requesting w = (Inr (l, x), w')"
  obtains "entitled_device lid did requesting (db w) = Some (l, x)" and "db w' = db w"
    and "utc_now w' = utc_now w"
proof -
  from assms have "entitled_device lid did requesting (db w) = Some (l, x) \<and> db w' = db w
      \<and> utc_now w' = utc_now w"
    unfolding find_active_device_def license_finds_eq device_find_by_license_and_device_id_def
    by (auto elim!: await_as_InrE await_InrE sql_select_InrE owns_subscription_InrE return_okE
        split: option.splits if_splits
        simp: return_run entitled_device_def entitled_license_def device_row_def device_active_def)
  then show ?thesis using that by blast
qed

text \<open>C5: a successful validation, under any schedule of database failures, certifies exactly this:
  the license exists, the caller owns it (when a session was presented), the device is an active
  device of it with the very fingerprint presented, and the status returned is the effective
  status of that license at the server's clock.\<close>

theorem license_validate_safe:
  assumes "license_validate lid did fp requesting w = (Inr out, w')"
  shows "\<exists>l x. l \<in> set (licenses (db w)) \<and> lic_id l = lid \<and> caller_owns requesting l (db w)
    \<and> x \<in> set (devices (db w)) \<and> dev_license_id x = lid \<and> dev_device_id x = did
    \<and> device_active x \<and> dev_machine_fingerprint x = fp \<and> out = validated l (utc_now w)"
proof -
  from assms obtain l x w1 w2 where find: "find_active_device lid did requesting w = (Inr (l, x), w1)"
    and touch: "device_touch_last_seen (dev_id x) w1 = (Inr (), w2)"
    and rest: "(if dev_machine_fingerprint x \<noteq> fp then
          record_validation (lic_id l) did LogDeviceMismatch (return_err DeviceMismatch)
        else record_validation (lic_id l) did (as_validation_log_result (effective_status l (utc_now w2)))
          (return_ok (validated l (utc_now w2)))) w2 = (Inr out, w')"
    unfolding license_validate_def validated_def
    by (auto elim!: await_InrE await_as_InrE simp: now_then_run Let_def)
  from touch have t: "utc_now w2 = utc_now w1"
    unfolding device_touch_last_seen_def by (elim sql_update_InrE)
  from rest have "dev_machine_fingerprint x = fp" and "out = validated l (utc_now w2)"
    by (auto simp: record_run return_run split: if_splits)
  moreover from find have "entitled_device lid did requesting (db w) = Some (l, x)"
    and "utc_now w1 = utc_now w"
    by (auto elim!: find_active_device_InrE)
  ultimately show ?thesis
    using entitled_deviceD [of lid did requesting "db w" l x] t by metis
qed

lemma not_entitled:
  "(\<forall>l \<in> set (licenses d). lic_id l \<noteq> lid \<or> \<not> caller_owns requesting l d) \<Longrightarrow>
    entitled_license lid requesting d = None"
  by (auto simp: entitled_license_def split: option.split dest: find_SomeD)

text \<open>Whoever presents a session that does not own the license learns nothing: validation,
  heartbeat and deactivation answer exactly as they do for a license that does not exist, and
  leave the database and the audit queue untouched.\<close>

lemma foreign_license_is_missing_license:
  assumes "faults w = []"
    and "\<forall>l \<in> set (licenses (db w)). lic_id l \<noteq> lid \<or> \<not> caller_owns (Some uid) l (db w)"
  shows "license_validate lid did fp (Some uid) w = (Inl DeviceNotActivated, w)
    \<and> license_heartbeat lid did (Some uid) w = (Inl DeviceNotActivated, w)
    \<and> license_deactivate lid did fp (Some uid) w = (Inl LicenseNotFound, w)"
  using not_entitled [OF assms(2)]
  by (simp add: license_validate_healthy license_heartbeat_healthy license_deactivate_healthy
      assms(1) entitled_device_def)

text \<open>A machine fingerprint that differs from the one the device was activated with is always
  rejected, by validation and by deactivation alike, and the rejected deactivation frees no slot.\<close>

lemma fingerprint_mismatch_rejected:
  assumes "faults w = []" and "entitled_device lid did requesting (db w) = Some (l, x)"
    and "dev_machine_fingerprint x \<noteq> fp"
  shows "fst (license_validate lid did fp requesting w) = Inl DeviceMismatch
    \<and> license_deactivate lid did fp requesting w = (Inl DeviceMismatch, w)"
proof -
  have "entitled_license lid requesting (db w) = Some l \<and> device_row lid did (db w) = Some x
      \<and> device_active x"
    using assms(2)
    by (auto simp: entitled_device_def entitled_license_def split: option.splits if_splits
        dest: find_SomeD)
  then show ?thesis
    using assms
    by (simp add: license_validate_healthy license_deactivate_healthy Let_def)
qed

lemma deactivate_one:
  assumes "keyed dev_id (devices d)" and "x \<in> set (devices d)" and "device_active x"
    and "dev_license_id x = lid"
  shows "Suc (active_count lid (d\<lparr>devices := update_where (\<lambda>y. dev_id y = dev_id x)
      (\<lambda>y. y\<lparr>dev_deactivated_at := Some t\<rparr>) (devices d)\<rparr>)) = active_count lid d"
  using active_count_update_row [OF assms(1,2), of "\<lambda>y. y\<lparr>dev_deactivated_at := Some t\<rparr>" lid]
    assms(3,4)
  by (simp add: device_active_def)

text \<open>Deactivation gives back exactly one slot of the license: the number it returns is the
  number of devices then active, one less than before, and a further device can be activated
  right away whenever the cap was respected.\<close>

lemma deactivate_frees_one_slot:
  assumes w: "faults w = []" "schema_and_cap (db w) (seqs w)"
    and ok: "entitled_device lid did requesting (db w) = Some (l, x)" "dev_machine_fingerprint x = fp"
    and run: "license_deactivate lid did fp requesting w = (r, w')"
  shows "r = Inr (int (active_count lid (db w')))
    \<and> Suc (active_count lid (db w')) = active_count lid (db w)
    \<and> slot_free lid (lic_max_devices l) (db w')"
proof -
  have sch: "schema_ok (db w) (seqs w)" and cap: "cap_ok (db w)"
    using w(2) by (simp_all add: schema_and_cap_def)
  note e = entitled_deviceD [OF ok(1)]
  have "entitled_license lid requesting (db w) = Some l \<and> device_row lid did (db w) = Some x"
    using ok(1) by (auto simp: entitled_device_def entitled_license_def split: option.splits if_splits
        dest: find_SomeD)
  then have w': "r = Inr (int (active_count lid (db w')))"
    "db w' = (db w)\<lparr>devices := update_where (\<lambda>y. dev_id y = dev_id x)
       (\<lambda>y. y\<lparr>dev_deactivated_at := Some (utc_now w)\<rparr>) (devices (db w))\<rparr>"
    using run e(7) ok(2) by (auto simp: license_deactivate_healthy w(1) Let_def)
  have one: "Suc (active_count lid (db w')) = active_count lid (db w)"
    unfolding w'(2) by (rule deactivate_one [OF schema_keyed(6) [OF sch] e(4,7,5)])
  have "int (active_count lid (db w)) \<le> lic_max_devices l" "lic_max_devices l < 2 ^ 31"
    using cap e(1,2) by (auto simp: cap_ok_def)
  with one have "as_i32 (active_count lid (db w')) < lic_max_devices l"
    by (subst as_i32_small) linarith+
  with w'(1) one show ?thesis by (simp add: slot_free_def)
qed

subsection \<open>Activation\<close>

text \<open>The row that an activation of a device leaves for it.\<close>

definition device_is_active_with :: "int \<Rightarrow> uuid \<Rightarrow> string \<Rightarrow> string \<Rightarrow> timestamp \<Rightarrow> tables \<Rightarrow> bool" where
  "device_is_active_with lid did fp label now d \<longleftrightarrow>
     (\<exists>x \<in> set (devices d). dev_license_id x = lid \<and> dev_device_id x = did \<and> device_active x
        \<and> dev_machine_fingerprint x = fp \<and> dev_device_label x = Some label \<and> dev_last_seen_at x = now)"

lemma device_activate_leaves_device:
  assumes "device_activate lid m did fp label w = (Inr Activated, w')"
  shows "device_is_active_with lid did fp label (utc_now w) (db w')"
proof -
  note found = device_of_license_found
  show ?thesis
    using assms
  proof (cases rule: device_activate_effect)
    case (refreshed x)
    have "refresh_device fp label (utc_now w) x \<in> set (devices (db w'))"
      using found [OF refreshed(1)] by (simp add: refreshed updated_in)
    with found [OF refreshed(1)] refreshed(2) show ?thesis
      unfolding device_is_active_with_def
      by (intro bexI) (auto simp: refresh_device_def device_active_def)
  next
    case (revived x)
    have "revive_device fp label (utc_now w) x \<in> set (devices (db w'))"
      using found [OF revived(1)] by (simp add: revived updated_in)
    with found [OF revived(1)] revived(2) show ?thesis
      unfolding device_is_active_with_def
      by (intro bexI) (auto simp: revive_device_def device_active_def)
  next
    case (inserted i)
    then show ?thesis
      by (auto simp: device_is_active_with_def fresh_device_def device_active_def)
  qed simp
qed

lemma license_activate_InrE:
  assumes "license_activate key did fp label w = (Inr out, w')"
  obtains l w1 w2 b where "find (\<lambda>l. lic_key l = key) (licenses (db w)) = Some l"
    and "effective_status l (utc_now w) = LicActive \<or> effective_status l (utc_now w) = LicSuspended"
    and "db w1 = db w" and "utc_now w1 = utc_now w" and "seqs w1 = seqs w"
    and "device_activate (lic_id l) (lic_max_devices l) did fp label w1 = (Inr Activated, w2)"
    and "find (\<lambda>b. sub_id b = lic_subscription_id l) (subscriptions (db w2)) = Some b"
    and "out = activated l b" and "db w' = db w2"
proof -
  from assms obtain found w1 where key: "license_find_by_key key w = (Inr found, w1)"
    and rest: "(case found of None \<Rightarrow> return_err LicenseNotFound
      | Some l \<Rightarrow> now_then (\<lambda>now. case effective_status l now of
            LicRevoked \<Rightarrow> record_validation (lic_id l) did LogRevoked (return_err LicenseRevoked)
          | LicExpired \<Rightarrow> record_validation (lic_id l) did LogExpired (return_err LicenseExpired)
          | _ \<Rightarrow> await_as Repository (device_activate (lic_id l) (lic_max_devices l) did fp label)
              (\<lambda>outcome. case outcome of
                LimitReached existing \<Rightarrow> return_err (DeviceLimitReached existing)
              | Activated \<Rightarrow>
                  await_as Repository (subscription_find_by_id (lic_subscription_id l)) (\<lambda>b.
                  case b of
                    None \<Rightarrow> return_err (missing_subscription l)
                  | Some b \<Rightarrow> record_validation (lic_id l) did LogValid (return_ok (activated l b)))))) w1
      = (Inr out, w')"
    unfolding license_activate_def Let_def activated_def [symmetric] by (elim await_as_InrE)
  from key have k: "found = find (\<lambda>l. lic_key l = key) (licenses (db w))" "db w1 = db w"
    "utc_now w1 = utc_now w" "seqs w1 = seqs w"
    unfolding license_finds_eq by (auto elim: sql_select_InrE)
  from rest obtain l where l: "found = Some l"
    by (cases found) (auto simp: return_run)
  have st: "effective_status l (utc_now w1) = LicActive \<or> effective_status l (utc_now w1) = LicSuspended"
    using rest by (cases "effective_status l (utc_now w1)") (auto simp: l now_then_run record_run return_run)
  have "await_as Repository (device_activate (lic_id l) (lic_max_devices l) did fp label)
      (\<lambda>outcome. case outcome of
        LimitReached existing \<Rightarrow> return_err (DeviceLimitReached existing)
      | Activated \<Rightarrow>
          await_as Repository (subscription_find_by_id (lic_subscription_id l)) (\<lambda>b.
          case b of
            None \<Rightarrow> return_err (missing_subscription l)
          | Some b \<Rightarrow> record_validation (lic_id l) did LogValid (return_ok (activated l b)))) w1 = (Inr out, w')"
    using rest st by (auto simp: l now_then_run)
  then obtain w2 b w3 where
    "device_activate (lic_id l) (lic_max_devices l) did fp label w1 = (Inr Activated, w2)"
    and "subscription_find_by_id (lic_subscription_id l) w2 = (Inr (Some b), w3)"
    and fin: "record_validation (lic_id l) did LogValid (return_ok (activated l b)) w3
      = (Inr out :: license_operation_error + activation_outcome, w')"
    by (auto elim!: await_as_InrE simp: return_run
        split: device_activation_outcome.splits option.splits)
  moreover from this(2) have "find (\<lambda>b. sub_id b = lic_subscription_id l) (subscriptions (db w2)) = Some b"
    "db w3 = db w2"
    unfolding subscription_finds_eq by (auto elim: sql_select_InrE)
  moreover from fin have "out = activated l b" "db w' = db w3"
    by (auto simp: record_run return_run)
  ultimately show ?thesis using that k l st by metis
qed

lemma license_activate_sound:
  assumes "license_activate key did fp label w = (Inr out, w')"
  shows "ao_license out \<in> set (licenses (db w)) \<and> lic_key (ao_license out) = key
    \<and> effective_status (ao_license out) (utc_now w) \<in> {LicActive, LicSuspended}
    \<and> (\<exists>b \<in> set (subscriptions (db w')). sub_id b = lic_subscription_id (ao_license out)
         \<and> ao_customer_id out = sub_user_id b \<and> ao_plan_type out = sub_plan_type b)
    \<and> device_is_active_with (lic_id (ao_license out)) did fp label (utc_now w) (db w')"
  using assms
proof (cases rule: license_activate_InrE)
  case (1 l w1 w2 b)
  have "l \<in> set (licenses (db w)) \<and> lic_key l = key"
    using find_SomeD [OF 1(1)] by simp
  moreover have "b \<in> set (subscriptions (db w')) \<and> sub_id b = lic_subscription_id l"
    using find_SomeD [OF 1(7)] 1(9) by simp
  moreover have "device_is_active_with (lic_id l) did fp label (utc_now w) (db w')"
    using device_activate_leaves_device [OF 1(6)] 1(4,9) by simp
  ultimately show ?thesis
    using 1(2,8) by (auto simp: activated_def)
qed

text \<open>C6: a successful activation, under any schedule of database failures, was for an existing
  license that was neither revoked nor expired at the server's clock; it names the owner and the
  plan of that license's subscription, and the device is then active with the fingerprint and
  label presented.\<close>

theorem license_activate_safe:
  assumes "license_activate key did fp label w = (Inr out, w')"
  shows "ao_license out \<in> set (licenses (db w)) \<and> lic_key (ao_license out) = key
    \<and> effective_status (ao_license out) (utc_now w) \<in> {LicActive, LicSuspended}
    \<and> (\<exists>b \<in> set (subscriptions (db w')). sub_id b = lic_subscription_id (ao_license out)
         \<and> ao_customer_id out = sub_user_id b \<and> ao_plan_type out = sub_plan_type b)
    \<and> device_is_active_with (lic_id (ao_license out)) did fp label (utc_now w) (db w')"
  by (rule license_activate_sound [OF assms])

text \<open>An activation that fails leaves the cap as it was, or the device activated: both keep it.\<close>

lemma record_validation_db: "record_validation lid did res k w = (r, w') \<Longrightarrow>
    \<exists>v. db v = db w \<and> seqs v = seqs w \<and> k v = (r, w')"
  by (intro exI [of _ "w\<lparr>spawned := spawned w @ [AuditValidation \<lparr> nlv_license_id = lid,
      nlv_device_id = did, nlv_result = res, nlv_client_clock = None \<rparr>]\<rparr>"]) (simp add: record_run)

text \<open>The device cap. Whatever a run of activation returns and whichever of its database
  statements fail, it takes a database that satisfies the schema and in which no license has more
  active devices than its \<open>max_devices\<close> to one of the same kind.\<close>

lemma license_activate_keeps_cap:
  assumes "schema_and_cap (db w) (seqs w)" and "license_activate key did fp label w = (r, w')"
  shows "schema_and_cap (db w') (seqs w')"
proof -
  obtain q w1 where key: "license_find_by_key key w = (q, w1)"
    by (cases "license_find_by_key key w")
  have inv: "schema_and_cap (db w1) (seqs w1)"
    using keepsD [OF keeps_finds(1) [of schema_and_cap key], of w] assms(1) key by simp
  have db1: "db w1 = db w"
    using unchanged.ev_select [THEN evolvesD, where w = w] key
    by (metis license_finds_eq(1) snd_conv)
  show ?thesis
  proof (cases q)
    case (Inl e)
    with assms(2) key inv show ?thesis by (auto simp: license_activate_def await_as_run)
  next
    case q: (Inr found)
    show ?thesis
    proof (cases found)
      case None
      with assms(2) key inv q show ?thesis
        by (auto simp: license_activate_def await_as_run return_run)
    next
      case (Some l)
      have found: "found = find (\<lambda>l. lic_key l = key) (licenses (db w))"
        using key q unfolding license_finds_eq by (auto elim: sql_select_InrE)
      with Some have "find (\<lambda>l. lic_key l = key) (licenses (db w)) = Some l" by simp
      from find_SomeD [OF this] db1 have l: "l \<in> set (licenses (db w1))" by simp
      let ?rest = "\<lambda>outcome. case outcome of
          LimitReached existing \<Rightarrow> return_err (DeviceLimitReached existing)
        | Activated \<Rightarrow> await_as Repository (subscription_find_by_id (lic_subscription_id l)) (\<lambda>b.
            case b of None \<Rightarrow> return_err (missing_subscription l)
            | Some b \<Rightarrow> record_validation (lic_id l) did LogValid (return_ok \<lparr> ao_license = l,
                ao_customer_id = sub_user_id b, ao_plan_type = sub_plan_type b \<rparr>))"
      have rest: "keeps schema_and_cap (?rest oc)" for oc
        by (cases oc) (auto intro!: keeps_intros)
      obtain r2 w2 where da: "device_activate (lic_id l) (lic_max_devices l) did fp label w1 = (r2, w2)"
        by (cases "device_activate (lic_id l) (lic_max_devices l) did fp label w1")
      have inv2: "schema_and_cap (db w2) (seqs w2)"
        by (rule keeps_cap_device_activate [OF inv l da])
      have after: "schema_and_cap (db w3) (seqs w3)" if "?rest oc w2 = (r3, w3)" for oc r3 w3
        using keepsD [OF rest inv2, of oc] that by simp
      show ?thesis
        using assms(2) inv inv2
        by (cases "effective_status l (utc_now w1)"; cases r2)
          (auto simp: license_activate_def await_as_run key q Some now_then_run Let_def record_run
            return_run da dest: after)
    qed
  qed
qed

text \<open>Activate, then validate. Once a device has been activated, validating that license from
  that device, with the same fingerprint and on behalf of the customer the activation named (or
  without a session), succeeds at any later time, and reports the effective status of the license
  at that time.\<close>

lemma activate_then_validate:
  assumes w: "faults w = []" "schema_ok (db w) (seqs w)"
    and act: "license_activate key did fp label w = (Inr out, w1)"
    and who: "requesting = None \<or> requesting = Some (ao_customer_id out)"
  shows "fst (license_validate (lic_id (ao_license out)) did fp requesting (w1\<lparr>utc_now := t\<rparr>))
       = Inr (validated (ao_license out) t)"
proof -
  have ok1: "schema_ok (db w1) (seqs w1)"
    using keepsD [OF keeps_license_activate, of w key did fp label] w(2) act by simp
  obtain l b where l: "l \<in> set (licenses (db w))" "ao_license out = l"
    and b: "find (\<lambda>b. sub_id b = lic_subscription_id l) (subscriptions (db w1)) = Some b"
      "ao_customer_id out = sub_user_id b"
    and same: "licenses (db w1) = licenses (db w)"
    using act
  proof (cases rule: license_activate_InrE)
    case (1 l w2 w3 b)
    with device_activate_licenses [OF 1(6)] that [of l b] show ?thesis
      by (auto simp: activated_def dest: find_SomeD)
  qed
  have "device_is_active_with (lic_id l) did fp label (utc_now w) (db w1)"
    using license_activate_sound [OF act] l by simp
  then obtain x where x: "x \<in> set (devices (db w1))" "dev_license_id x = lic_id l"
    "dev_device_id x = did" "device_active x" "dev_machine_fingerprint x = fp"
    by (auto simp: device_is_active_with_def)
  have "entitled_device (lic_id l) did requesting (db w1) = Some (l, x)"
    using ok1 l same x who b
    by (intro entitled_deviceI) (auto simp: caller_owns_def)
  moreover have "faults w1 = []"
    by (rule calm_runD(2) [OF calm_license_activate act w(1)])
  ultimately show ?thesis
    using x(5) l(2) by (simp add: license_validate_healthy Let_def)
qed

text \<open>Re-activating a device that is already active never takes a slot and is never refused by
  the device limit, even if the limit has meanwhile been filled or lowered below the number of
  active devices: the set of active devices stays the same.\<close>

lemma reactivation_takes_no_slot:
  assumes w: "faults w = []" "schema_ok (db w) (seqs w)"
    and x: "device_row lid did (db w) = Some x" "device_active x"
    and lid: "lid \<in> keys lic_id (licenses (db w))"
    and run: "device_activate lid m did fp label w = (r, w')"
  shows "r = Inr Activated \<and> active_count k (db w') = active_count k (db w)
    \<and> map dev_device_id (filter device_active (devices (db w')))
      = map dev_device_id (filter device_active (devices (db w)))"
proof -
  have found: "find (\<lambda>x. (dev_license_id x, dev_device_id x) = (lid, did)) (devices (db w)) = Some x"
    using x(1) by (simp add: device_row_def)
  have w': "r = Inr Activated" "db w' = (db w)\<lparr>devices := update_where (\<lambda>y. dev_id y = dev_id x)
      (refresh_device fp label (utc_now w)) (devices (db w))\<rparr>"
    using run x(2) unfolding device_activate_healthy [OF w(1) lid] found by auto
  have act: "device_active (refresh_device fp label t y) = device_active y"
    and ident: "dev_device_id (refresh_device fp label t y) = dev_device_id y" for t y
    by (simp_all add: refresh_device_def device_active_def)
  have "active_count k (db w') = active_count k (db w)"
    unfolding w'(2) by (rule active_count_same_activity) (simp add: refresh_device_def)
  moreover have "map dev_device_id (filter device_active (devices (db w')))
      = map dev_device_id (filter device_active (devices (db w)))"
    using filter_update_where [of _ device_active, OF act] map_update_where [of _ dev_device_id, OF ident]
    unfolding w'(2) by simp
  ultimately show ?thesis using w'(1) by simp
qed

text \<open>At the limit, activating a device that is not active is refused with the list of the
  devices that hold the slots, and nothing is written.\<close>

lemma activation_at_limit_refused:
  assumes w: "faults w = []" "schema_and_cap (db w) (seqs w)"
    and l: "find (\<lambda>l. lic_key l = key) (licenses (db w)) = Some l"
      "effective_status l (utc_now w) = LicActive"
    and full: "int (active_count (lic_id l) (db w)) = lic_max_devices l"
    and idle: "\<forall>x. device_row (lic_id l) did (db w) = Some x \<longrightarrow> \<not> device_active x"
  shows "license_activate key did fp label w =
    (Inl (DeviceLimitReached (filter device_active (devices_of (lic_id l) (db w)))), w)"
proof -
  have mem: "l \<in> set (licenses (db w))" using find_SomeD [OF l(1)] by simp
  then have small: "lic_max_devices l < 2 ^ 31"
    using w(2) by (auto simp: schema_and_cap_def cap_ok_def)
  have "\<not> slot_free (lic_id l) (lic_max_devices l) (db w)"
    using full small by (simp add: slot_free_def as_i32_small)
  moreover have "lic_id l \<in> keys lic_id (licenses (db w))" using mem by (simp add: keys_def)
  ultimately have "device_activate (lic_id l) (lic_max_devices l) did fp label w =
      (Inr (LimitReached (filter device_active (devices_of (lic_id l) (db w)))), w)"
    using idle by (auto simp: device_activate_healthy w(1) device_row_def split: option.split)
  with w l show ?thesis
    by (simp add: license_activate_healthy schema_and_cap_def)
qed

end
