(* ===== verification/PaymentFacts.thy ===== *)
theory PaymentFacts
  imports PaymentService LicenseFacts
begin

text \<open>
  What the payment service promises. On a healthy connection and a database that satisfies the
  schema, resolving an event is the pure function \<open>event_mutation\<close> of the payload, the clock
  and the tables, and processing it is \<open>apply_mutation\<close> of that mutation, at most once per
  event id. The rules of the business are then statements about these functions.
\<close>

subsection \<open>The resolution as a function of the tables\<close>

definition payment_by_ref :: "string \<Rightarrow> tables \<Rightarrow> payment option" where
  "payment_by_ref ref d = find (\<lambda>p. pay_provider_ref p = Some ref) (payments d)"

definition payment_by_gateway :: "string \<Rightarrow> tables \<Rightarrow> payment option" where
  "payment_by_gateway gid d =
    latest_by pay_created_at (filter (\<lambda>p. pay_gateway_payment_id p = Some gid) (payments d))"

definition subscription_by_id :: "int \<Rightarrow> tables \<Rightarrow> subscription option" where
  "subscription_by_id sid d = find (\<lambda>b. sub_id b = sid) (subscriptions d)"

definition term_end :: "subscription \<Rightarrow> timestamp \<Rightarrow> timestamp option" where
  "term_end b now = map_option (\<lambda>d. now + d) (plan_duration (sub_plan_type b))"

definition entitlement :: "(nat \<Rightarrow> nat) \<Rightarrow> int \<Rightarrow> tables \<Rightarrow> license_mutation" where
  "entitlement draw sid d =
    (case current_license sid d of
       Some l \<Rightarrow> ExtendLicense (lic_id l)
     | None \<Rightarrow> InsertLicense (generate_license_key draw) 1 7)"

definition activates :: "payment \<Rightarrow> int option \<Rightarrow> string option \<Rightarrow> bool" where
  "activates p amount currency \<longleftrightarrow>
     (amount = None \<or> amount = Some (pay_amount_minor p)) \<and>
     (currency = None \<or> currency = Some (pay_currency p)) \<and>
     pay_status p \<noteq> PayRefunded \<and> pay_status p \<noteq> PayDisputed"

definition activation_mutation ::
  "string \<Rightarrow> (nat \<Rightarrow> nat) \<Rightarrow> json \<Rightarrow> timestamp \<Rightarrow> tables \<Rightarrow> webhook_mutation" where
  "activation_mutation key draw pl now d =
    (case Option.bind (extract_entity_ref pl key) (\<lambda>ref. payment_by_ref ref d) of
       None \<Rightarrow> NoMutation
     | Some p \<Rightarrow>
         if activates p (extract_entity_amount_minor pl ''payment'') (extract_entity_currency pl ''payment'')
         then
          (case subscription_by_id (pay_subscription_id p) d of
             None \<Rightarrow> NoMutation
           | Some b \<Rightarrow> ActivateSubscriptionAndLicense (pay_id p) (sub_id b) (term_end b now)
               (entitlement draw (sub_id b) d) (extract_entity_id pl ''payment''))
         else NoMutation)"

definition affected :: "payment \<Rightarrow> tables \<Rightarrow> affected_license option" where
  "affected p d = map_option (\<lambda>l. \<lparr> al_license_id = lic_id l, al_expires_at = lic_expires_at l \<rparr>)
     (current_license (pay_subscription_id p) d)"

definition gateway_mutation ::
  "(payment \<Rightarrow> affected_license option \<Rightarrow> webhook_mutation) \<Rightarrow> json \<Rightarrow> tables \<Rightarrow> webhook_mutation" where
  "gateway_mutation mk pl d =
    (case Option.bind (extract_entity_id pl ''payment'') (\<lambda>gid. payment_by_gateway gid d) of
       None \<Rightarrow> NoMutation
     | Some p \<Rightarrow> mk p (affected p d))"

definition failed_mutation :: "json \<Rightarrow> tables \<Rightarrow> webhook_mutation" where
  "failed_mutation pl d =
    (case Option.bind (extract_entity_ref pl ''payment'') (\<lambda>ref. payment_by_ref ref d) of
       None \<Rightarrow> NoMutation
     | Some p \<Rightarrow> if pay_status p = PayPending then MarkPaymentFailed (pay_id p) else NoMutation)"

definition inactive_mutation :: "string \<Rightarrow> json \<Rightarrow> tables \<Rightarrow> webhook_mutation" where
  "inactive_mutation ev pl d =
    (case Option.bind (Option.bind (extract_entity_ref pl ''subscription'') (\<lambda>ref. payment_by_ref ref d))
        (\<lambda>p. subscription_by_id (pay_subscription_id p) d) of
       None \<Rightarrow> NoMutation
     | Some b \<Rightarrow> UpdateSubscriptionStatus (sub_id b) (fst (inactive_status ev)) (sub_current_period_end b)
         (map_option (\<lambda>l. \<lparr> sc_license_id = lic_id l, sc_expires_at = lic_expires_at l,
            sc_status = snd (inactive_status ev) \<rparr>) (current_license (sub_id b) d)))"

definition event_mutation ::
  "(nat \<Rightarrow> nat) \<Rightarrow> razorpay_webhook_payload \<Rightarrow> timestamp \<Rightarrow> tables \<Rightarrow> webhook_mutation" where
  "event_mutation draw pl now d =
    (let ev = rwp_event pl; j = rwp_payload pl in
     if ev = ''payment.captured'' then activation_mutation ''payment'' draw j now d
     else if ev = ''payment_link.paid'' then activation_mutation ''payment_link'' draw j now d
     else if ev = ''payment.failed'' then failed_mutation j d
     else if ev = ''subscription.activated'' \<or> ev = ''subscription.charged''
       then activation_mutation ''subscription'' draw j now d
     else if ev = ''subscription.cancelled'' \<or> ev = ''subscription.halted''
       then inactive_mutation ev j d
     else if ev = ''refund.created'' \<or> ev = ''refund.processed''
       then gateway_mutation (\<lambda>p. RefundPayment (pay_id p)) j d
     else if ev = ''payment.dispute.created''
       then gateway_mutation (\<lambda>p. MarkPaymentDisputed (pay_id p)) j d
     else if ev = ''payment.dispute.closed'' then
       (case dispute_outcome (extract_dispute_status j) of
          None \<Rightarrow> NoMutation
        | Some won \<Rightarrow> gateway_mutation (\<lambda>p lic. ResolveDispute (pay_id p) lic won) j d)
     else NoMutation)"

subsection \<open>Resolving computes it\<close>

lemma find_by_ref_or_none_healthy:
  assumes "faults w = []" and "schema_ok (db w) (seqs w)"
  shows "find_payment_by_provider_ref_or_none ref w = (Inr (payment_by_ref ref (db w)), w)"
proof -
  have "keyed_opt pay_provider_ref (payments (db w))"
    using assms(2) by (simp add: schema_ok_def uniques_ok_def)
  then show ?thesis
    by (simp add: find_payment_by_provider_ref_or_none_def await_match_run return_run
        payment_find_by_provider_ref_healthy [OF assms(1)] payment_by_ref_def)
qed

lemma subscription_of_payment:
  assumes "schema_ok d s" and "payment_by_ref ref d = Some p"
  obtains b where "subscription_by_id (pay_subscription_id p) d = Some b"
    and "sub_id b = pay_subscription_id p"
proof -
  have "p \<in> set (payments d)" using assms(2) by (auto simp: payment_by_ref_def dest: find_SomeD)
  with schema_payment_subscription [OF assms(1)] obtain b
    where "b \<in> set (subscriptions d)" "sub_id b = pay_subscription_id p" by metis
  then show ?thesis
    using find_keyed [OF schema_keyed(3) [OF assms(1)]] that by (simp add: subscription_by_id_def)
qed

lemma resolve_activation_by_healthy:
  assumes w: "faults w = []" "schema_ok (db w) (seqs w)"
  shows "resolve_activation_by key draw pl w =
    (Inr (activation_mutation key draw (rwp_payload pl) (utc_now w) (db w)), w)"
proof (cases "extract_entity_ref (rwp_payload pl) key")
  case None
  then show ?thesis by (simp add: resolve_activation_by_def activation_mutation_def return_run)
next
  case (Some ref)
  show ?thesis
  proof (cases "payment_by_ref ref (db w)")
    case None
    with Some show ?thesis
      by (simp add: resolve_activation_by_def resolve_activation_def activation_mutation_def
          find_by_ref_or_none_healthy w run_simps)
  next
    case p: (Some p)
    obtain b where b: "subscription_by_id (pay_subscription_id p) (db w) = Some b"
      by (rule subscription_of_payment [OF w(2) p])
    then have fb: "find (\<lambda>b. sub_id b = pay_subscription_id p) (subscriptions (db w)) = Some b"
      by (simp add: subscription_by_id_def)
    show ?thesis
      by (auto simp: resolve_activation_by_def resolve_activation_def activation_mutation_def
          find_by_ref_or_none_healthy w run_simps Some p b fb activates_def term_end_def entitlement_def
          Let_def)
  qed
qed

lemma resolve_failed_healthy:
  assumes w: "faults w = []" "schema_ok (db w) (seqs w)"
  shows "resolve_payment_failed pl w = (Inr (failed_mutation (rwp_payload pl) (db w)), w)"
  by (simp add: resolve_payment_failed_def failed_mutation_def find_by_ref_or_none_healthy w
      run_simps split: option.split)

lemma resolve_inactive_healthy:
  assumes w: "faults w = []" "schema_ok (db w) (seqs w)"
  shows "resolve_subscription_inactive pl w =
    (Inr (inactive_mutation (rwp_event pl) (rwp_payload pl) (db w)), w)"
  by (simp add: resolve_subscription_inactive_def inactive_mutation_def find_by_ref_or_none_healthy w
      run_simps subscription_by_id_def split: option.split)

lemma find_payment_and_license_healthy:
  "faults w = [] \<Longrightarrow> find_payment_and_license gid w =
    (Inr (map_option (\<lambda>p. (p, affected p (db w))) (payment_by_gateway gid (db w))), w)"
  by (simp add: find_payment_and_license_def run_simps payment_by_gateway_def affected_def
      split: option.split)

lemma resolve_gateway_healthy:
  assumes "faults w = []"
  shows "resolve_refund pl w
      = (Inr (gateway_mutation (\<lambda>p. RefundPayment (pay_id p)) (rwp_payload pl) (db w)), w)"
    and "resolve_dispute_created pl w
      = (Inr (gateway_mutation (\<lambda>p. MarkPaymentDisputed (pay_id p)) (rwp_payload pl) (db w)), w)"
    and "resolve_dispute_closed pl w
      = (Inr (case dispute_outcome (extract_dispute_status (rwp_payload pl)) of
          None \<Rightarrow> NoMutation
        | Some won \<Rightarrow> gateway_mutation (\<lambda>p lic. ResolveDispute (pay_id p) lic won) (rwp_payload pl) (db w)), w)"
  by (auto simp: resolve_refund_def resolve_dispute_created_def resolve_dispute_closed_def
      gateway_mutation_def find_payment_and_license_healthy assms await_run return_run
      split: option.split)

lemma resolve_event_healthy:
  assumes "faults w = []" and "schema_ok (db w) (seqs w)"
  shows "resolve_event draw pl w = (Inr (event_mutation draw pl (utc_now w) (db w)), w)"
  by (simp add: resolve_event_def event_mutation_def Let_def resolve_payment_captured_def
      resolve_payment_link_paid_def resolve_subscription_active_def resolve_activation_by_healthy
      resolve_failed_healthy resolve_inactive_healthy resolve_gateway_healthy assms return_run)

subsection \<open>Processing\<close>

text \<open>The abstract effect of an event on the tables: once, and then never again.\<close>

definition event_effect ::
  "(nat \<Rightarrow> nat) \<Rightarrow> string \<Rightarrow> razorpay_webhook_payload \<Rightarrow> world \<Rightarrow> tables" where
  "event_effect draw eid pl w =
    (let m = event_mutation draw pl (utc_now w) (db w) in
     if event_claimed ''razorpay'' eid (db w) \<or> \<not> mutation_allowed m (db w) then db w
     else apply_mutation m (seqs w T_licenses) (utc_now w)
       (log_event (ledger_event eid pl) (seqs w T_webhook_events) (utc_now w) (db w)))"

lemma claim_not_allowed:
  assumes "faults w = []" and "\<not> event_claimed (npwe_provider e) (npwe_event_id e) (db w)"
    and "\<not> mutation_allowed m (db w)"
  shows "\<exists>w'. claim_and_apply e m w = (Inl (Database ConstraintViolation), w') \<and> db w' = db w"
proof (cases m)
  case (ActivateSubscriptionAndLicense pid sid pe lm gid)
  with assms show ?thesis
    by (cases lm)
      (auto simp: claim_and_apply_def run_simps mutation_statements_def Let_def
        license_insert_statement_def mutation_allowed_def license_mutation_allowed_def
        license_of_new_def)
qed (use assms in \<open>simp_all add: mutation_allowed_def\<close>)

lemma process_webhook_event_spec:
  assumes "faults w = []" and "schema_ok (db w) (seqs w)"
    and "process_webhook_event draw eid pl w = (r, w')"
  shows "db w' = event_effect draw eid pl w
    \<and> (r = Inr () \<longleftrightarrow> event_claimed ''razorpay'' eid (db w)
         \<or> mutation_allowed (event_mutation draw pl (utc_now w) (db w)) (db w))"
proof -
  let ?m = "event_mutation draw pl (utc_now w) (db w)"
  let ?e = "ledger_event eid pl"
  have key: "npwe_provider ?e = ''razorpay''" "npwe_event_id ?e = eid"
    by (simp_all add: ledger_event_def)
  have run: "process_webhook_event draw eid pl w =
      (case claim_and_apply ?e ?m w of (Inl x, v) \<Rightarrow> (Inl (PaymentRepository x), v) | (Inr _, v) \<Rightarrow> (Inr (), v))"
    by (simp add: process_webhook_event_def await_run await_as_run resolve_event_healthy assms return_run
        split: prod.split sum.split)
  show ?thesis
  proof (cases "event_claimed ''razorpay'' eid (db w)")
    case True
    with run assms key show ?thesis
      by (auto simp: claim_and_apply_duplicate event_effect_def)
  next
    case fresh: False
    show ?thesis
    proof (cases "mutation_allowed ?m (db w)")
      case True
      with fresh run assms key show ?thesis
        by (auto simp: claim_and_apply_fresh event_effect_def Let_def)
    next
      case False
      obtain v where "claim_and_apply ?e ?m w = (Inl (Database ConstraintViolation), v)" "db v = db w"
        using claim_not_allowed [OF assms(1), of ?e ?m] fresh False key by auto
      with fresh False run assms(3) show ?thesis
        by (auto simp: event_effect_def)
    qed
  qed
qed

text \<open>C4: processing a webhook refines its specification on the tables: on a healthy connection the
  database after \<open>process_webhook_event\<close> is exactly \<open>event_effect\<close> of the one before (the ledger
  row and the mutation of the event, or nothing at all if the event id was claimed before), and
  the call fails only where a unique index or foreign key rejects the mutation.\<close>

theorem process_webhook_event_refines:
  assumes "faults w = []" and "schema_ok (db w) (seqs w)"
    and "process_webhook_event draw eid pl w = (r, w')"
  shows "db w' = event_effect draw eid pl w
    \<and> (r = Inr () \<longleftrightarrow> event_claimed ''razorpay'' eid (db w)
         \<or> mutation_allowed (event_mutation draw pl (utc_now w) (db w)) (db w))"
  by (rule process_webhook_event_spec [OF assms])

lemma calm_claim_statement [keeps_intros]: "calm (claim_statement e)"
  unfolding claim_statement_def by (rule calm_sql) (simp_all add: Let_def)

lemma calm_claim_and_apply [keeps_intros]: "calm (claim_and_apply e m)"
proof -
  have "calm (mutation_statements m)"
    unfolding mutation_statements_def update_license_if_def license_insert_statement_def
    by (cases m) (auto intro!: keeps_intros split: license_mutation.split option.split)
  then show ?thesis unfolding claim_and_apply_def by (intro keeps_intros)
qed

lemma calm_provider_ref_or_none [keeps_intros]: "calm (find_payment_by_provider_ref_or_none ref)"
proof -
  have "calm (case e of DuplicateProviderReference _ \<Rightarrow> return_ok None
      | _ \<Rightarrow> return_err (PaymentRepository e))" for e
    by (cases e) (simp_all add: calm_return)
  then show ?thesis
    unfolding find_payment_by_provider_ref_or_none_def by (intro keeps_intros)
qed

lemma calm_resolve_event [keeps_intros]: "calm (resolve_event draw pl)"
  unfolding resolve_event_def Let_def resolve_payment_captured_def resolve_payment_link_paid_def
    resolve_subscription_active_def resolve_activation_by_def resolve_activation_def
    resolve_payment_failed_def resolve_subscription_inactive_def resolve_refund_def
    resolve_dispute_created_def resolve_dispute_closed_def find_payment_and_license_def
  by (intro keeps_intros)

lemma calm_process_webhook_event [keeps_intros]: "calm (process_webhook_event draw eid pl)"
  unfolding process_webhook_event_def by (intro keeps_intros)

lemma event_claimed_effect:
  assumes "process_webhook_event draw eid pl w = (Inr (), w')"
  shows "event_claimed ''razorpay'' eid (db w')"
proof -
  obtain m w1 where "claim_and_apply (ledger_event eid pl) m w1 = (Inr Applied, w')
      \<or> claim_and_apply (ledger_event eid pl) m w1 = (Inr AlreadyProcessed, w')"
    using assms unfolding process_webhook_event_def
    by (auto elim!: await_InrE await_as_InrE return_okE) (metis claim_outcome.exhaust)
  then show ?thesis
    by (auto elim!: claim_and_apply_cases simp: event_claimed_log ledger_event_def)
qed

lemma evolves_provider_ref_or_none: "reads_only (find_payment_by_provider_ref_or_none ref)"
proof -
  have "reads_only (case e of DuplicateProviderReference _ \<Rightarrow> return_ok None
      | _ \<Rightarrow> return_err (PaymentRepository e))" for e
    by (cases e) (simp_all add: unchanged.ev_return)
  moreover have "reads_only (result_of x)" for x :: "repository_error + payment option"
    by (simp add: evolves_def result_of_def)
  ultimately show ?thesis
    unfolding find_payment_by_provider_ref_or_none_def payment_find_by_provider_ref_def
    by (intro keeps_intros)
qed

lemma resolve_event_reads_only: "reads_only (resolve_event draw pl)"
  unfolding resolve_event_def Let_def resolve_payment_captured_def resolve_payment_link_paid_def
    resolve_subscription_active_def resolve_activation_by_def resolve_activation_def
    resolve_payment_failed_def resolve_subscription_inactive_def resolve_refund_def
    resolve_dispute_created_def resolve_dispute_closed_def find_payment_and_license_def
    license_finds_eq subscription_finds_eq payment_find_by_gateway_eq
  by (intro keeps_intros evolves_provider_ref_or_none)

lemma process_claimed:
  assumes "event_claimed ''razorpay'' eid (db w)"
    and "process_webhook_event draw eid pl w = (r, w')"
  shows "db w' = db w"
proof -
  obtain q w1 where res: "resolve_event draw pl w = (q, w1)" by (cases "resolve_event draw pl w")
  have same: "db w1 = db w"
    using evolvesD [OF resolve_event_reads_only, of w draw pl] res by simp
  show ?thesis
  proof (cases q)
    case (Inl e)
    with assms(2) res same show ?thesis by (simp add: process_webhook_event_def await_run)
  next
    case (Inr m)
    obtain c w2 where cl: "claim_and_apply (ledger_event eid pl) m w1 = (c, w2)"
      by (cases "claim_and_apply (ledger_event eid pl) m w1")
    then have "db w2 = db w1"
      using assms(1) same by (auto elim!: claim_and_apply_cases simp: ledger_event_def)
    moreover have "w' = w2"
      using assms(2) res Inr cl
      by (auto simp: process_webhook_event_def await_run await_as_run return_run split: sum.splits)
    ultimately show ?thesis using same by simp
  qed
qed

text \<open>One event id takes effect at most once: after a webhook was processed successfully, a
  redelivery under the same id, with whatever payload, at whatever later time and whichever
  database statements fail on the way, changes no table.\<close>

lemma webhook_redelivery_changes_nothing:
  assumes "process_webhook_event draw eid pl w = (Inr (), w1)"
    and "process_webhook_event draw' eid pl' (w1\<lparr>utc_now := t, faults := fs\<rparr>) = (r, w2)"
  shows "db w2 = db w1"
  using process_claimed [OF _ assms(2)] event_claimed_effect [OF assms(1)] by simp

text \<open>C3: a claim is atomic under every schedule of database failures: \<open>Applied\<close> means the event
  was new, and the tables are then the old ones with the ledger row added and the whole mutation
  applied; \<open>AlreadyProcessed\<close> means the event was claimed before; that answer and every error
  leave all tables as they were.\<close>

theorem claim_and_apply_atomic:
  "case claim_and_apply e m w of
     (Inr Applied, w') \<Rightarrow> \<not> event_claimed (npwe_provider e) (npwe_event_id e) (db w)
       \<and> (\<exists>i j. db w' = apply_mutation m j (utc_now w) (log_event e i (utc_now w) (db w)))
   | (Inr AlreadyProcessed, w') \<Rightarrow>
       event_claimed (npwe_provider e) (npwe_event_id e) (db w) \<and> db w' = db w
   | (Inl _, w') \<Rightarrow> db w' = db w"
proof -
  obtain r w' where run: "claim_and_apply e m w = (r, w')" by (cases "claim_and_apply e m w")
  then show ?thesis
    by (cases rule: claim_and_apply_cases) (auto simp: run)
qed

end
