(* ===== verification/PaymentRules.thy ===== *)
theory PaymentRules
  imports PaymentFacts
begin

text \<open>
  The rules of the business as theorems about webhook processing: which events may move a
  payment out of which status, what an activation grants, and what refunds and disputes do to
  the license that \<open>/validate-license\<close> then reports.
\<close>

subsection \<open>Where each mutation comes from\<close>

lemma payment_by_refD:
  "payment_by_ref ref d = Some p \<Longrightarrow> p \<in> set (payments d) \<and> pay_provider_ref p = Some ref"
  by (auto simp: payment_by_ref_def dest: find_SomeD)

lemma payment_by_gatewayD:
  "payment_by_gateway gid d = Some p \<Longrightarrow> p \<in> set (payments d) \<and> pay_gateway_payment_id p = Some gid"
  unfolding payment_by_gateway_def by (auto dest: latest_by_in)

lemma activation_mutation_cases:
  obtains (nothing) "activation_mutation key draw j now d = NoMutation"
  | (activation) p b where "p \<in> set (payments d)"
    and "activates p (extract_entity_amount_minor j ''payment'') (extract_entity_currency j ''payment'')"
    and "subscription_by_id (pay_subscription_id p) d = Some b"
    and "activation_mutation key draw j now d =
      ActivateSubscriptionAndLicense (pay_id p) (sub_id b) (term_end b now)
        (entitlement draw (sub_id b) d) (extract_entity_id j ''payment'')"
proof (cases "Option.bind (extract_entity_ref j key) (\<lambda>ref. payment_by_ref ref d)")
  case None
  show ?thesis by (rule nothing) (simp add: activation_mutation_def None)
next
  case (Some p)
  then have "p \<in> set (payments d)"
    by (cases "extract_entity_ref j key") (auto dest: payment_by_refD)
  show ?thesis
  proof (cases "subscription_by_id (pay_subscription_id p) d")
    case None
    show ?thesis by (rule nothing) (simp add: activation_mutation_def Some None)
  next
    case b: (Some b)
    show ?thesis
    proof (cases "activates p (extract_entity_amount_minor j ''payment'') (extract_entity_currency j ''payment'')")
      case True
      show ?thesis
        by (rule activation [OF \<open>p \<in> set (payments d)\<close> True b])
          (simp add: activation_mutation_def Some b True)
    next
      case False
      show ?thesis by (rule nothing) (simp add: activation_mutation_def Some False)
    qed
  qed
qed

lemma failed_mutation_cases:
  obtains (nothing) "failed_mutation j d = NoMutation"
  | (failed) p where "p \<in> set (payments d)" and "pay_status p = PayPending"
    and "failed_mutation j d = MarkPaymentFailed (pay_id p)"
proof (cases "Option.bind (extract_entity_ref j ''payment'') (\<lambda>ref. payment_by_ref ref d)")
  case None
  show ?thesis by (rule nothing) (simp add: failed_mutation_def None)
next
  case (Some p)
  then have "p \<in> set (payments d)"
    by (cases "extract_entity_ref j ''payment''") (auto dest: payment_by_refD)
  show ?thesis
  proof (cases "pay_status p = PayPending")
    case True
    show ?thesis
      by (rule failed [OF \<open>p \<in> set (payments d)\<close> True]) (simp add: failed_mutation_def Some True)
  next
    case False
    show ?thesis by (rule nothing) (simp add: failed_mutation_def Some False)
  qed
qed

lemma gateway_mutation_cases:
  obtains (nothing) "gateway_mutation mk j d = NoMutation"
  | (found) p where "p \<in> set (payments d)" and "gateway_mutation mk j d = mk p (affected p d)"
proof (cases "Option.bind (extract_entity_id j ''payment'') (\<lambda>gid. payment_by_gateway gid d)")
  case None
  show ?thesis by (rule nothing) (simp add: gateway_mutation_def None)
next
  case (Some p)
  then have "p \<in> set (payments d)"
    by (cases "extract_entity_id j ''payment''") (auto dest: payment_by_gatewayD)
  then show ?thesis by (rule found) (simp add: gateway_mutation_def Some)
qed

lemma inactive_mutation_cases:
  obtains (nothing) "inactive_mutation ev j d = NoMutation"
  | (inactive) sid st pe lic where "inactive_mutation ev j d = UpdateSubscriptionStatus sid st pe lic"
  by (cases "Option.bind (Option.bind (extract_entity_ref j ''subscription'') (\<lambda>ref. payment_by_ref ref d))
        (\<lambda>p. subscription_by_id (pay_subscription_id p) d)")
    (auto simp: inactive_mutation_def)

text \<open>
  The status an event may give a payment, as a relation between its status before and after:
  \<open>PayPending\<close> is left by any event, \<open>PayFailed\<close> is entered from \<open>PayPending\<close> only, an activation
  never starts from \<open>PayRefunded\<close> or \<open>PayDisputed\<close>, and refunds and disputes may start anywhere.
\<close>

fun mutation_target :: "webhook_mutation \<Rightarrow> (int \<times> payment_status) option" where
  "mutation_target (ActivateSubscriptionAndLicense pid _ _ _ _) = Some (pid, PaySucceeded)"
| "mutation_target (MarkPaymentFailed pid) = Some (pid, PayFailed)"
| "mutation_target (RefundPayment pid _) = Some (pid, PayRefunded)"
| "mutation_target (MarkPaymentDisputed pid _) = Some (pid, PayDisputed)"
| "mutation_target (ResolveDispute pid _ won) = Some (pid, if won then PaySucceeded else PayRefunded)"
| "mutation_target _ = None"

lemma set_affected_payments [simp]: "payments (set_affected lic st d) = payments d"
  by (simp add: set_affected_def split: option.split)

lemma apply_mutation_payments:
  "\<exists>f. payments (apply_mutation m i now d) = map f (payments d)
    \<and> (\<forall>p. pay_id (f p) = pay_id p \<and> pay_subscription_id (f p) = pay_subscription_id p
         \<and> pay_provider_ref (f p) = pay_provider_ref p
         \<and> pay_status (f p) = (case mutation_target m of
              Some (pid, st) \<Rightarrow> if pay_id p = pid then st else pay_status p
            | None \<Rightarrow> pay_status p))"
proof -
  have same: "\<exists>f. xs = map f xs \<and> (\<forall>p. pay_id (f p) = pay_id p \<and> pay_subscription_id (f p) = pay_subscription_id p
      \<and> pay_provider_ref (f p) = pay_provider_ref p \<and> pay_status (f p) = pay_status p)" for xs :: "payment list"
    by (intro exI [of _ "\<lambda>p. p"]) simp
  have upd: "\<exists>f. update_where (\<lambda>p. pay_id p = pid) g xs = map f xs
      \<and> (\<forall>p. pay_id (f p) = pay_id p \<and> pay_subscription_id (f p) = pay_subscription_id p
           \<and> pay_provider_ref (f p) = pay_provider_ref p
           \<and> pay_status (f p) = (if pay_id p = pid then st else pay_status p))"
    if "\<And>p. pay_id (g p) = pay_id p \<and> pay_subscription_id (g p) = pay_subscription_id p
      \<and> pay_provider_ref (g p) = pay_provider_ref p \<and> pay_status (g p) = st"
    for pid g st and xs :: "payment list"
    unfolding update_where_def
    by (intro exI [of _ "\<lambda>p. if pay_id p = pid then g p else p"]) (simp add: that)
  show ?thesis
  proof (cases m)
    case (ActivateSubscriptionAndLicense pid sid pe lm gid)
    then have "payments (apply_mutation m i now d) = payments (set_payment_captured pid gid d)"
      by (cases lm) simp_all
    with ActivateSubscriptionAndLicense show ?thesis
      by (simp add: set_payment_captured_def upd)
  qed (auto simp: set_payment_status_def same upd split: option.split)
qed

definition activation_event :: "string \<Rightarrow> bool" where
  "activation_event ev \<longleftrightarrow> ev = ''payment.captured'' \<or> ev = ''payment_link.paid''
     \<or> ev = ''subscription.activated'' \<or> ev = ''subscription.charged''"

definition refund_event :: "string \<Rightarrow> bool" where
  "refund_event ev \<longleftrightarrow> ev = ''refund.created'' \<or> ev = ''refund.processed''"

definition status_step :: "string \<Rightarrow> payment_status \<Rightarrow> payment_status \<Rightarrow> bool" where
  "status_step ev st st' \<longleftrightarrow>
     st' = st
     \<or> activation_event ev \<and> st' = PaySucceeded \<and> st \<in> {PayPending, PayFailed}
     \<or> ev = ''payment.failed'' \<and> st' = PayFailed \<and> st = PayPending
     \<or> refund_event ev \<and> st' = PayRefunded
     \<or> ev = ''payment.dispute.created'' \<and> st' = PayDisputed
     \<or> ev = ''payment.dispute.closed'' \<and> st' \<in> {PaySucceeded, PayRefunded}"

lemmas event_kind_defs = activation_event_def refund_event_def

text \<open>The dispatch on the event type, one case per resolver.\<close>

lemma event_mutation_cases:
  obtains (activation) key where "activation_event (rwp_event pl)"
      and "event_mutation draw pl now d = activation_mutation key draw (rwp_payload pl) now d"
  | (failed) "rwp_event pl = ''payment.failed''"
      and "event_mutation draw pl now d = failed_mutation (rwp_payload pl) d"
  | (inactive) "event_mutation draw pl now d = inactive_mutation (rwp_event pl) (rwp_payload pl) d"
  | (refund) "refund_event (rwp_event pl)"
      and "event_mutation draw pl now d = gateway_mutation (\<lambda>p. RefundPayment (pay_id p)) (rwp_payload pl) d"
  | (created) "rwp_event pl = ''payment.dispute.created''"
      and "event_mutation draw pl now d = gateway_mutation (\<lambda>p. MarkPaymentDisputed (pay_id p)) (rwp_payload pl) d"
  | (closed) won where "rwp_event pl = ''payment.dispute.closed''"
      and "event_mutation draw pl now d
        = gateway_mutation (\<lambda>p lic. ResolveDispute (pay_id p) lic won) (rwp_payload pl) d"
  | (other) "event_mutation draw pl now d = NoMutation"
proof -
  let ?ev = "rwp_event pl"
  consider "?ev = ''payment.captured''" | "?ev = ''payment_link.paid''"
    | "?ev = ''subscription.activated'' \<or> ?ev = ''subscription.charged''"
    | "?ev = ''payment.failed''" | "?ev = ''subscription.cancelled'' \<or> ?ev = ''subscription.halted''"
    | "?ev = ''refund.created'' \<or> ?ev = ''refund.processed''"
    | "?ev = ''payment.dispute.created''" | "?ev = ''payment.dispute.closed''"
    | "\<not> activation_event ?ev" "?ev \<noteq> ''payment.failed''" "?ev \<noteq> ''subscription.cancelled''"
      "?ev \<noteq> ''subscription.halted''" "\<not> refund_event ?ev" "?ev \<noteq> ''payment.dispute.created''"
      "?ev \<noteq> ''payment.dispute.closed''"
    unfolding event_kind_defs by argo
  then show ?thesis
  proof cases
    case 1
    show ?thesis by (rule activation [of "''payment''"]) (simp_all add: 1 event_mutation_def event_kind_defs)
  next
    case 2
    show ?thesis by (rule activation [of "''payment_link''"]) (simp_all add: 2 event_mutation_def event_kind_defs)
  next
    case 3
    show ?thesis
      by (rule activation [of "''subscription''"]) (use 3 in \<open>auto simp: event_mutation_def event_kind_defs\<close>)
  next
    case 4
    show ?thesis by (rule failed) (simp_all add: 4 event_mutation_def)
  next
    case 5
    show ?thesis by (rule inactive) (use 5 in \<open>auto simp: event_mutation_def\<close>)
  next
    case 6
    show ?thesis by (rule refund) (use 6 in \<open>auto simp: event_mutation_def event_kind_defs\<close>)
  next
    case 7
    show ?thesis by (rule created) (simp_all add: 7 event_mutation_def)
  next
    case 8
    show ?thesis
    proof (cases "dispute_outcome (extract_dispute_status (rwp_payload pl))")
      case None
      show ?thesis by (rule other) (simp add: 8 None event_mutation_def)
    next
      case (Some won)
      show ?thesis by (rule closed [of won]) (simp_all add: 8 Some event_mutation_def)
    qed
  next
    case 9
    show ?thesis by (rule other) (use 9 in \<open>simp add: event_mutation_def event_kind_defs Let_def\<close>)
  qed
qed

lemma event_mutation_target:
  assumes "mutation_target (event_mutation draw pl now d) = Some (pid, st)"
  shows "\<exists>p \<in> set (payments d). pay_id p = pid \<and> status_step (rwp_event pl) (pay_status p) st"
proof -
  let ?ev = "rwp_event pl" and ?j = "rwp_payload pl"
  have act: "\<exists>p \<in> set (payments d). pay_id p = pid \<and> st = PaySucceeded
      \<and> pay_status p \<in> {PayPending, PayFailed, PaySucceeded}"
    if "mutation_target (activation_mutation key draw ?j now d) = Some (pid, st)" for key
  proof (cases rule: activation_mutation_cases [of key draw ?j now d])
    case nothing
    with that show ?thesis by simp
  next
    case (activation p b)
    then have "pay_status p \<in> {PayPending, PayFailed, PaySucceeded}"
      by (cases "pay_status p") (simp_all add: activates_def)
    with that activation(1,4) show ?thesis by auto
  qed
  have fail: "\<exists>p \<in> set (payments d). pay_id p = pid \<and> st = PayFailed \<and> pay_status p = PayPending"
    if "mutation_target (failed_mutation ?j d) = Some (pid, st)"
  proof (cases rule: failed_mutation_cases [of ?j d])
    case (failed p)
    with that show ?thesis by auto
  qed (use that in simp)
  have gate: "\<exists>p \<in> set (payments d). pay_id p = pid \<and> st = st0"
    if "mutation_target (gateway_mutation mk ?j d) = Some (pid, st)"
      and "\<And>p a. mutation_target (mk p a) = Some (pay_id p, st0)" for mk st0
  proof (cases rule: gateway_mutation_cases [of mk ?j d])
    case (found p)
    with that show ?thesis by auto
  qed (use that in simp)
  have inact: "mutation_target (inactive_mutation ?ev ?j d) = None"
    by (cases rule: inactive_mutation_cases [of ?ev ?j d]) simp_all
  show ?thesis
  proof (cases rule: event_mutation_cases [of pl draw now d])
    case (activation key)
    with act assms show ?thesis by (fastforce simp: status_step_def)
  next
    case failed
    with fail assms show ?thesis by (fastforce simp: status_step_def)
  next
    case refund
    with gate [of "\<lambda>p. RefundPayment (pay_id p)" PayRefunded] assms show ?thesis
      by (fastforce simp: status_step_def)
  next
    case created
    with gate [of "\<lambda>p. MarkPaymentDisputed (pay_id p)" PayDisputed] assms show ?thesis
      by (fastforce simp: status_step_def)
  next
    case (closed won)
    with gate [of "\<lambda>p lic. ResolveDispute (pay_id p) lic won" "if won then PaySucceeded else PayRefunded"] assms
    show ?thesis by (fastforce simp: status_step_def)
  qed (use inact assms in simp_all)
qed

lemma log_event_payments [simp]: "payments (log_event e i now d) = payments d"
  by simp

lemma event_effect_payments:
  assumes "schema_ok (db w) (seqs w)"
  shows "\<exists>f. payments (event_effect draw eid pl w) = map f (payments (db w))
    \<and> (\<forall>p \<in> set (payments (db w)). pay_id (f p) = pay_id p
         \<and> pay_subscription_id (f p) = pay_subscription_id p \<and> pay_provider_ref (f p) = pay_provider_ref p
         \<and> status_step (rwp_event pl) (pay_status p) (pay_status (f p)))"
proof (cases "event_claimed ''razorpay'' eid (db w)
    \<or> \<not> mutation_allowed (event_mutation draw pl (utc_now w) (db w)) (db w)")
  case True
  then show ?thesis
    by (intro exI [of _ "\<lambda>p. p"]) (simp add: event_effect_def Let_def status_step_def)
next
  case False
  let ?m = "event_mutation draw pl (utc_now w) (db w)"
  obtain f where f: "payments (event_effect draw eid pl w) = map f (payments (db w))"
    and fp: "\<And>p. pay_id (f p) = pay_id p" "\<And>p. pay_subscription_id (f p) = pay_subscription_id p"
      "\<And>p. pay_provider_ref (f p) = pay_provider_ref p"
      "\<And>p. pay_status (f p) = (case mutation_target ?m of
          Some (pid, st) \<Rightarrow> if pay_id p = pid then st else pay_status p | None \<Rightarrow> pay_status p)"
    using apply_mutation_payments [of ?m "seqs w T_licenses" "utc_now w"
        "log_event (ledger_event eid pl) (seqs w T_webhook_events) (utc_now w) (db w)"] False
    by (auto simp: event_effect_def Let_def)
  have "status_step (rwp_event pl) (pay_status p) (pay_status (f p))" if p: "p \<in> set (payments (db w))" for p
  proof (cases "mutation_target ?m")
    case None
    then show ?thesis by (simp add: fp status_step_def)
  next
    case (Some t)
    obtain pid st where t: "t = (pid, st)" by (cases t)
    then obtain q where q: "q \<in> set (payments (db w))" "pay_id q = pid"
      "status_step (rwp_event pl) (pay_status q) st"
      using event_mutation_target [of draw pl "utc_now w" "db w" pid st] Some by auto
    show ?thesis
    proof (cases "pay_id p = pid")
      case True
      then have "p = q" using keyedD [OF schema_keyed(10) [OF assms] p q(1)] q(2) by simp
      with q Some t show ?thesis by (simp add: fp)
    next
      case False
      with Some t show ?thesis by (simp add: fp status_step_def)
    qed
  qed
  with f fp(1-3) show ?thesis by (intro exI [of _ f]) simp
qed

text \<open>C7: the state machine of a payment: processing any webhook neither adds nor drops a payment,
  keeps each one's id, subscription and provider reference, and moves its status only along
  \<open>status_step\<close>: failure only from pending, activation only from pending or failed, refund and
  dispute only by their own events.\<close>

theorem webhook_payment_state_machine:
  assumes "faults w = []" and "schema_ok (db w) (seqs w)"
    and "process_webhook_event draw eid pl w = (r, w')"
  shows "\<exists>f. payments (db w') = map f (payments (db w))
    \<and> (\<forall>p \<in> set (payments (db w)). pay_id (f p) = pay_id p
         \<and> pay_subscription_id (f p) = pay_subscription_id p \<and> pay_provider_ref (f p) = pay_provider_ref p
         \<and> status_step (rwp_event pl) (pay_status p) (pay_status (f p)))"
  using event_effect_payments [OF assms(2), of draw eid pl] process_webhook_event_spec [OF assms]
  by simp

text \<open>What an activation event is refused for leaves every entitlement as it was.\<close>

definition entitlements_unchanged :: "tables \<Rightarrow> tables \<Rightarrow> bool" where
  "entitlements_unchanged d d' \<longleftrightarrow>
     payments d' = payments d \<and> subscriptions d' = subscriptions d \<and> licenses d' = licenses d"

definition activation_key :: "string \<Rightarrow> string" where
  "activation_key ev =
    (if ev = ''payment.captured'' then ''payment''
     else if ev = ''payment_link.paid'' then ''payment_link'' else ''subscription'')"

lemma event_mutation_activation:
  "activation_event (rwp_event pl) \<Longrightarrow> event_mutation draw pl now d
    = activation_mutation (activation_key (rwp_event pl)) draw (rwp_payload pl) now d"
  by (auto simp: event_mutation_def activation_event_def activation_key_def)

text \<open>An activation webhook for a payment that was refunded or is disputed, or whose captured
  amount or currency differs from the one stored at checkout, grants nothing: no payment,
  subscription or license changes, whatever its event id.\<close>

lemma activation_refused:
  assumes w: "faults w = []" "schema_ok (db w) (seqs w)"
    and ev: "activation_event (rwp_event pl)"
    and ref: "extract_entity_ref (rwp_payload pl) (activation_key (rwp_event pl)) = Some ref"
      "payment_by_ref ref (db w) = Some p"
    and refused: "pay_status p \<in> {PayRefunded, PayDisputed}
      \<or> (\<exists>a. extract_entity_amount_minor (rwp_payload pl) ''payment'' = Some a \<and> a \<noteq> pay_amount_minor p)
      \<or> (\<exists>c. extract_entity_currency (rwp_payload pl) ''payment'' = Some c \<and> c \<noteq> pay_currency p)"
    and run: "process_webhook_event draw eid pl w = (r, w')"
  shows "r = Inr () \<and> entitlements_unchanged (db w) (db w')"
proof -
  have "\<not> activates p (extract_entity_amount_minor (rwp_payload pl) ''payment'')
      (extract_entity_currency (rwp_payload pl) ''payment'')"
    using refused by (auto simp: activates_def)
  then have "event_mutation draw pl (utc_now w) (db w) = NoMutation"
    using ref by (simp add: event_mutation_activation ev activation_mutation_def)
  with process_webhook_event_spec [OF w run] show ?thesis
    by (auto simp: event_effect_def Let_def entitlements_unchanged_def mutation_allowed_def)
qed

subsection \<open>What an activation grants\<close>

definition granted :: "license \<Rightarrow> timestamp option \<Rightarrow> license" where
  "granted l ends = l\<lparr>lic_status := LicActive, lic_expires_at := ends\<rparr>"

lemma current_license_set_status:
  assumes "keyed lic_id (licenses d)" and "current_license sid d = Some l" and "st \<noteq> LicRevoked"
  shows "current_license sid (set_license_status (lic_id l) st ex d)
    = Some (l\<lparr>lic_status := st, lic_expires_at := ex\<rparr>)"
proof -
  let ?q = "\<lambda>l. lic_subscription_id l = sid \<and> lic_status l \<noteq> LicRevoked"
  note l = current_licenseD [OF assms(2)]
  have "filter ?q (licenses (set_license_status (lic_id l) st ex d))
      = update_where (\<lambda>r. lic_id r = lic_id l) (\<lambda>r. r\<lparr>lic_status := st, lic_expires_at := ex\<rparr>)
          (filter ?q (licenses d))"
    unfolding set_license_status_def
    using l assms(3) keyedD [OF assms(1)] by (auto intro!: filter_update_where_in)
  then show ?thesis
    using assms(2) unfolding current_license_def by (simp add: latest_by_update_where)
qed

lemma current_license_append:
  assumes "current_license sid d = None" and "lic_subscription_id l = sid" and "lic_status l \<noteq> LicRevoked"
  shows "current_license sid (d\<lparr>licenses := licenses d @ [l]\<rparr>) = Some l"
  using assms unfolding current_license_def by (auto simp: filter_empty_conv)

lemma current_license_other [simp]:
  "current_license sid (set_subscription_status j st pe now d) = current_license sid d"
  "current_license sid (set_payment_captured pid gid d) = current_license sid d"
  "current_license sid (set_payment_status pid pst d) = current_license sid d"
  "current_license sid (log_event e i now d) = current_license sid d"
  by (simp_all add: current_license_def)

text \<open>The license the customer holds after an activation of subscription \<open>sid\<close>.\<close>

definition license_after :: "(nat \<Rightarrow> nat) \<Rightarrow> int \<Rightarrow> timestamp option \<Rightarrow> int \<Rightarrow> timestamp \<Rightarrow> tables \<Rightarrow> license" where
  "license_after draw sid ends i now d =
    (case current_license sid d of
       Some l \<Rightarrow> granted l ends
     | None \<Rightarrow> issued_license sid (generate_license_key draw) 1 7 ends i now)"

lemma entitlement_grants:
  assumes "keyed lic_id (licenses d)" and "current_license sid d0 = current_license sid d"
  shows "current_license sid (apply_license_mutation (entitlement draw sid d0) sid ends i now d)
    = Some (license_after draw sid ends i now d)"
proof (cases "current_license sid d")
  case None
  with assms(2) show ?thesis
    by (simp add: entitlement_def license_after_def current_license_append issued_license_def license_of_new_def)
next
  case (Some l)
  with assms show ?thesis
    by (simp add: entitlement_def license_after_def granted_def current_license_set_status)
qed

lemma license_mutation_keeps:
  "subscriptions (apply_license_mutation lm sid ends i now d) = subscriptions d"
  "payments (apply_license_mutation lm sid ends i now d) = payments d"
  by (cases lm; simp)+

lemma activation_grants_spec:
  assumes w: "faults w = []" "schema_ok (db w) (seqs w)"
    and ev: "activation_event (rwp_event pl)"
    and ref: "extract_entity_ref (rwp_payload pl) (activation_key (rwp_event pl)) = Some ref"
      "payment_by_ref ref (db w) = Some p"
    and acts: "activates p (extract_entity_amount_minor (rwp_payload pl) ''payment'')
      (extract_entity_currency (rwp_payload pl) ''payment'')"
    and sub: "subscription_by_id (pay_subscription_id p) (db w) = Some b"
    and run: "process_webhook_event draw eid pl w = (Inr (), w')"
    and fresh: "\<not> event_claimed ''razorpay'' eid (db w)"
  shows "current_license (sub_id b) (db w')
      = Some (license_after draw (sub_id b) (term_end b (utc_now w)) (seqs w T_licenses) (utc_now w) (db w))
    \<and> subscription_by_id (sub_id b) (db w') = Some (b\<lparr>sub_status := SubActive,
        sub_current_period_end := term_end b (utc_now w), sub_updated_at := utc_now w\<rparr>)
    \<and> payment_by_ref ref (db w') = Some (p\<lparr>pay_status := PaySucceeded, pay_gateway_payment_id :=
        coalesce (extract_entity_id (rwp_payload pl) ''payment'') (pay_gateway_payment_id p)\<rparr>)"
proof -
  let ?ends = "term_end b (utc_now w)" and ?gid = "extract_entity_id (rwp_payload pl) ''payment''"
  let ?lm = "entitlement draw (sub_id b) (db w)"
  let ?d0 = "log_event (ledger_event eid pl) (seqs w T_webhook_events) (utc_now w) (db w)"
  let ?d1 = "set_payment_captured (pay_id p) ?gid ?d0"
  let ?d2 = "set_subscription_status (sub_id b) SubActive ?ends (utc_now w) ?d1"
  have m: "event_mutation draw pl (utc_now w) (db w)
      = ActivateSubscriptionAndLicense (pay_id p) (sub_id b) ?ends ?lm ?gid"
    using ref acts sub by (simp add: event_mutation_activation ev activation_mutation_def)
  have w': "db w' = apply_license_mutation ?lm (sub_id b) ?ends (seqs w T_licenses) (utc_now w) ?d2"
    using process_webhook_event_spec [OF w run] fresh m by (auto simp: event_effect_def Let_def)
  have bid: "sub_id b = pay_subscription_id p"
    using sub by (auto simp: subscription_by_id_def dest: find_SomeD)
  have p: "p \<in> set (payments (db w))" "pay_provider_ref p = Some ref"
    using payment_by_refD [OF ref(2)] by simp_all
  have "current_license (sub_id b) (db w')
      = Some (license_after draw (sub_id b) ?ends (seqs w T_licenses) (utc_now w) ?d2)"
    unfolding w' by (rule entitlement_grants) (simp_all add: schema_keyed(4) [OF w(2)])
  moreover have "license_after draw (sub_id b) ?ends i t ?d2 = license_after draw (sub_id b) ?ends i t (db w)" for i t
    by (simp add: license_after_def)
  moreover have "subscription_by_id (sub_id b) (db w') = Some (b\<lparr>sub_status := SubActive,
        sub_current_period_end := ?ends, sub_updated_at := utc_now w\<rparr>)"
  proof -
    have "find (\<lambda>x. sub_id x = sub_id b) (subscriptions (db w)) = Some b"
      using sub bid by (simp add: subscription_by_id_def)
    then show ?thesis
      unfolding subscription_by_id_def w' license_mutation_keeps
      by (simp add: set_subscription_status_def find_update_where)
  qed
  moreover have "payment_by_ref ref (db w') = Some (p\<lparr>pay_status := PaySucceeded,
      pay_gateway_payment_id := coalesce ?gid (pay_gateway_payment_id p)\<rparr>)"
    using ref(2) unfolding payment_by_ref_def w' license_mutation_keeps
    by (simp add: set_payment_captured_def find_update_where)
  ultimately show ?thesis by simp
qed

text \<open>C8: what a captured payment buys: the payment is succeeded and carries the gateway's payment
  id, its subscription is active until the end of the plan's term, and the subscription's current
  license is active until the same date: the license it already had, extended, or else a new one
  with one device slot and seven days of grace.\<close>

theorem activation_grants:
  assumes w: "faults w = []" "schema_ok (db w) (seqs w)"
    and ev: "activation_event (rwp_event pl)"
    and ref: "extract_entity_ref (rwp_payload pl) (activation_key (rwp_event pl)) = Some ref"
      "payment_by_ref ref (db w) = Some p"
    and acts: "activates p (extract_entity_amount_minor (rwp_payload pl) ''payment'')
      (extract_entity_currency (rwp_payload pl) ''payment'')"
    and sub: "subscription_by_id (pay_subscription_id p) (db w) = Some b"
    and run: "process_webhook_event draw eid pl w = (Inr (), w')"
    and fresh: "\<not> event_claimed ''razorpay'' eid (db w)"
  shows "current_license (sub_id b) (db w')
      = Some (license_after draw (sub_id b) (term_end b (utc_now w)) (seqs w T_licenses) (utc_now w) (db w))
    \<and> subscription_by_id (sub_id b) (db w') = Some (b\<lparr>sub_status := SubActive,
        sub_current_period_end := term_end b (utc_now w), sub_updated_at := utc_now w\<rparr>)
    \<and> payment_by_ref ref (db w') = Some (p\<lparr>pay_status := PaySucceeded, pay_gateway_payment_id :=
        coalesce (extract_entity_id (rwp_payload pl) ''payment'') (pay_gateway_payment_id p)\<rparr>)"
  by (rule activation_grants_spec [OF assms])

text \<open>C9: from payment to a working device. When a first payment of a subscription is captured, the
  license key issued can be activated at any moment of the paid term on one device of the
  customer's choice, and the activation names that customer.\<close>

theorem first_payment_can_be_activated:
  assumes w: "faults w = []" "schema_ok (db w) (seqs w)"
    and ev: "activation_event (rwp_event pl)"
    and ref: "extract_entity_ref (rwp_payload pl) (activation_key (rwp_event pl)) = Some ref"
      "payment_by_ref ref (db w) = Some p"
    and acts: "activates p (extract_entity_amount_minor (rwp_payload pl) ''payment'')
      (extract_entity_currency (rwp_payload pl) ''payment'')"
    and sub: "subscription_by_id (pay_subscription_id p) (db w) = Some b"
    and first: "current_license (sub_id b) (db w) = None"
    and run: "process_webhook_event draw eid pl w = (Inr (), w')"
    and fresh: "\<not> event_claimed ''razorpay'' eid (db w)"
    and time: "\<forall>e. term_end b (utc_now w) = Some e \<longrightarrow> t < e"
  shows "\<exists>out. fst (license_activate (generate_license_key draw) did fp label (w'\<lparr>utc_now := t\<rparr>)) = Inr out
    \<and> ao_customer_id out = sub_user_id b"
proof -
  let ?l = "issued_license (sub_id b) (generate_license_key draw) 1 7 (term_end b (utc_now w))
      (seqs w T_licenses) (utc_now w)"
  let ?w = "w'\<lparr>utc_now := t\<rparr>"
  note grants = activation_grants_spec [OF w ev ref acts sub run fresh]
  have cur: "current_license (sub_id b) (db w') = Some ?l"
    using grants first by (simp add: license_after_def)
  have ok: "schema_ok (db ?w) (seqs ?w)"
    using keepsD [OF keeps_process_webhook_event, of w draw eid pl] w(2) run by simp
  have healthy: "faults ?w = []"
    using calm_runD(2) [OF calm_process_webhook_event run w(1)] by simp
  have l: "?l \<in> set (licenses (db w'))" using current_licenseD [OF cur] by simp
  have key: "find (\<lambda>l. lic_key l = generate_license_key draw) (licenses (db ?w)) = Some ?l"
    using l find_keyed [OF schema_keyed(5) [OF ok], of ?l]
    by (simp add: issued_license_def license_of_new_def)
  have status: "effective_status ?l (utc_now ?w) = LicActive"
    using time by (auto simp: effective_status_def issued_license_def license_of_new_def
        not_le split: option.split)
  have devs: "devices (db w') = devices (db w)"
  proof -
    have mk: "devices (apply_license_mutation lm sid ends i now d) = devices d" for lm sid ends i now d
      by (cases lm) simp_all
    have "devices (apply_mutation m i now d) = devices d" for m i now d
      by (cases m) (auto simp: mk set_affected_def split: option.split)
    then show ?thesis
      using process_webhook_event_spec [OF w run] by (simp add: event_effect_def Let_def)
  qed
  have other: "dev_license_id x \<noteq> seqs w T_licenses" if "x \<in> set (devices (db w))" for x
    using schema_device_license(2) [OF w(2) that] by simp
  then have "active_count (seqs w T_licenses) (db ?w) = 0"
    using devs other by (auto simp: active_count_def count_where_def filter_empty_conv)
  then have free: "slot_free (lic_id ?l) (lic_max_devices ?l) (db ?w)"
    by (simp add: slot_free_def issued_license_def license_of_new_def as_i32_def)
  have idle: "device_row (lic_id ?l) did (db ?w) = None"
    using other devs
    by (auto simp: device_row_def find_None_iff issued_license_def license_of_new_def)
  have lid: "lic_id ?l \<in> keys lic_id (licenses (db ?w))"
    using l by (simp add: keys_def)
  have "fst (device_activate (lic_id ?l) (lic_max_devices ?l) did fp label ?w) = Inr Activated"
    using free idle unfolding device_activate_healthy [OF healthy lid] device_row_def by simp
  then obtain w2 where da: "device_activate (lic_id ?l) (lic_max_devices ?l) did fp label ?w = (Inr Activated, w2)"
    by (metis prod.collapse)
  have bid: "sub_id b = lic_subscription_id ?l" by (simp add: issued_license_def license_of_new_def)
  have "find (\<lambda>x. sub_id x = lic_subscription_id ?l) (subscriptions (db ?w)) = Some (b\<lparr>sub_status := SubActive,
        sub_current_period_end := term_end b (utc_now w), sub_updated_at := utc_now w\<rparr>)"
    using grants unfolding subscription_by_id_def bid [symmetric] by simp
  then show ?thesis
    using license_activate_healthy [OF healthy ok, of "generate_license_key draw" did fp label] key status da
    by (simp add: activated_def)
qed

subsection \<open>Refunds and disputes\<close>

text \<open>The status a refund or dispute event gives the current license of the payment.\<close>

definition gateway_target :: "razorpay_webhook_payload \<Rightarrow> license_record_status option" where
  "gateway_target pl =
    (if refund_event (rwp_event pl) then Some LicRevoked
     else if rwp_event pl = ''payment.dispute.created'' then Some LicSuspended
     else if rwp_event pl = ''payment.dispute.closed'' then
       map_option (\<lambda>won. if won then LicActive else LicRevoked)
         (dispute_outcome (extract_dispute_status (rwp_payload pl)))
     else None)"

lemma gateway_mutation_target:
  assumes "gateway_target pl = Some st" and "extract_entity_id (rwp_payload pl) ''payment'' = Some gid"
    and "payment_by_gateway gid d = Some p"
  shows "mutation_allowed (event_mutation draw pl now d) d
    \<and> (\<exists>pst. apply_mutation (event_mutation draw pl now d) i t e = set_affected (affected p d) st
          (set_payment_status (pay_id p) pst e))"
proof -
  have "gateway_mutation mk (rwp_payload pl) d = mk p (affected p d)" for mk
    using assms(2,3) by (simp add: gateway_mutation_def)
  with assms(1) show ?thesis
    by (auto simp: gateway_target_def event_mutation_def refund_event_def mutation_allowed_def
        split: if_splits option.splits)
qed

text \<open>C10: refunds and disputes reach the device. Once a refund or dispute event of a payment has
  been processed, validating the customer's device reports, at any time, the status the event
  stands for: revoked for a refund or a lost dispute, suspended while a dispute is open, and the
  license's effective active status when the dispute is won.\<close>

theorem gateway_event_reaches_device:
  assumes w: "faults w = []" "schema_ok (db w) (seqs w)"
    and ev: "gateway_target pl = Some st" "extract_entity_id (rwp_payload pl) ''payment'' = Some gid"
    and pay: "payment_by_gateway gid (db w) = Some p"
      "current_license (pay_subscription_id p) (db w) = Some l"
    and dev: "entitled_device (lic_id l) did requesting (db w) = Some (l, x)"
      "dev_machine_fingerprint x = fp"
    and run: "process_webhook_event draw eid pl w = (r, w')"
    and fresh: "\<not> event_claimed ''razorpay'' eid (db w)"
  shows "fst (license_validate (lic_id l) did fp requesting (w'\<lparr>utc_now := t\<rparr>))
    = Inr (validated (l\<lparr>lic_status := st\<rparr>) t)"
proof -
  let ?e = "log_event (ledger_event eid pl) (seqs w T_webhook_events) (utc_now w) (db w)"
  obtain pst where allowed: "mutation_allowed (event_mutation draw pl (utc_now w) (db w)) (db w)"
    and m: "apply_mutation (event_mutation draw pl (utc_now w) (db w)) (seqs w T_licenses) (utc_now w) ?e
      = set_affected (affected p (db w)) st (set_payment_status (pay_id p) pst ?e)"
    using gateway_mutation_target [OF ev pay(1)] by blast
  have w': "db w' = set_license_status (lic_id l) st (lic_expires_at l) (set_payment_status (pay_id p) pst ?e)"
    using process_webhook_event_spec [OF w run] allowed fresh m pay(2)
    by (simp add: event_effect_def Let_def set_affected_def affected_def)
  have tables: "devices (db w') = devices (db w)" "subscriptions (db w') = subscriptions (db w)"
    by (simp_all add: w')
  note e = entitled_deviceD [OF dev(1)]
  have l: "find (\<lambda>k. lic_id k = lic_id l) (licenses (db w)) = Some l"
    using find_keyed [OF schema_keyed(4) [OF w(2)] e(1)] by simp
  have "find (\<lambda>k. lic_id k = lic_id l) (licenses (db w')) = Some (l\<lparr>lic_status := st\<rparr>)"
    unfolding w' set_license_status_def by (simp add: find_update_where l)
  then have "entitled_device (lic_id l) did requesting (db w') = Some (l\<lparr>lic_status := st\<rparr>, x)"
    using dev(1) e(3) tables
    by (auto simp: entitled_device_def entitled_license_def l device_row_def caller_owns_def
        split: option.splits if_splits)
  moreover have "faults w' = []"
    by (rule calm_runD(2) [OF calm_process_webhook_event run w(1)])
  ultimately show ?thesis
    using dev(2) by (simp add: license_validate_healthy Let_def)
qed

end
