(* ===== verification/Reconciliation.thy ===== *)
theory Reconciliation
  imports PaymentRules
begin

text \<open>
  Reconciliation (\<open>reconcile_once\<close>, \<open>reconcile_one\<close>): a run always completes, leaves payments
  that agree with Razorpay alone, and heals a missed capture exactly once. It also reports as
  healed, on every run, the payments it cannot heal: those whose event resolves to no mutation.
\<close>

lemma payload_reads:
  "extract_entity_ref (rwp_payload (reconcile_payload ev rp)) ''payment'' = Some (hd (candidate_refs rp))"
  "extract_entity_id (rwp_payload (reconcile_payload ev rp)) ''payment'' = Some (rp_id rp)"
  "extract_entity_amount_minor (rwp_payload (reconcile_payload ev rp)) ''payment'' = None"
  "extract_entity_currency (rwp_payload (reconcile_payload ev rp)) ''payment'' = None"
  "rwp_event (reconcile_payload ev rp) = ev"
  by (simp_all add: reconcile_payload_def extract_entity_ref_def extract_entity_id_def
      extract_entity_amount_minor_def extract_entity_currency_def json_entity_def json_get_def
      json_as_str_def candidate_refs_def split: option.split)

fun first_payment :: "string list \<Rightarrow> tables \<Rightarrow> payment option" where
  "first_payment [] d = None"
| "first_payment (r # rs) d = (case payment_by_ref r d of Some p \<Rightarrow> Some p | None \<Rightarrow> first_payment rs d)"

lemma find_first_candidate_healthy:
  assumes "faults w = []" and "schema_ok (db w) (seqs w)"
  shows "find_first_candidate rs w = (Inr (first_payment rs (db w)), w)"
proof -
  have keyed: "keyed_opt pay_provider_ref (payments (db w))"
    using assms(2) by (simp add: schema_ok_def uniques_ok_def)
  show ?thesis
  proof (induction rs)
    case Nil
    show ?case by (simp add: return_run)
  next
    case (Cons r rs)
    then show ?case
      by (simp add: await_as_run payment_find_by_provider_ref_healthy [OF assms(1) keyed]
          payment_by_ref_def return_run split: option.split)
  qed
qed

definition local_payment :: "razorpay_payment \<Rightarrow> tables \<Rightarrow> payment option" where
  "local_payment rp d = first_payment (candidate_refs rp) d"

lemma first_payment_in: "first_payment rs d = Some p \<Longrightarrow> p \<in> set (payments d)"
  by (induction rs) (auto split: option.splits dest: payment_by_refD)

lemma reconcile_one_healthy:
  assumes w: "faults w = []" "schema_ok (db w) (seqs w)"
    and st: "map_razorpay_payment_status (rp_status rp) = Some st"
    and p: "local_payment rp (db w) = Some p"
    and ev: "heal_event_type st = Some ev"
  shows "reconcile_one draw rp w =
    (if pay_status p = st then (Inr False, w)
     else case process_webhook_event draw (reconcile_event_id p rp) (reconcile_payload ev rp) w of
       (Inl e, w') \<Rightarrow> (Inl e, w') | (Inr _, w') \<Rightarrow> (Inr True, w'))"
  using p unfolding local_payment_def
  by (simp add: reconcile_one_def st ev await_run find_first_candidate_healthy [OF w] return_run
      split: prod.split sum.split)

text \<open>A payment whose local status already agrees with Razorpay's, one Razorpay reports in a
  status the server does not heal from, and one it has no record of, are left alone: nothing is
  written and nothing is reported as healed.\<close>

lemma reconcile_in_sync:
  assumes w: "faults w = []" "schema_ok (db w) (seqs w)"
    and sync: "map_razorpay_payment_status (rp_status rp) = None \<or> local_payment rp (db w) = None
      \<or> map_razorpay_payment_status (rp_status rp) = map_option pay_status (local_payment rp (db w))"
  shows "reconcile_one draw rp w = (Inr False, w)"
proof (cases "map_razorpay_payment_status (rp_status rp)")
  case None
  then show ?thesis by (simp add: reconcile_one_def return_run)
next
  case st: (Some st)
  show ?thesis
  proof (cases "local_payment rp (db w)")
    case None
    then show ?thesis
      by (simp add: reconcile_one_def st await_run find_first_candidate_healthy [OF w] return_run
          local_payment_def)
  next
    case (Some p)
    with sync st show ?thesis
      by (simp add: reconcile_one_def await_run find_first_candidate_healthy [OF w] return_run
          local_payment_def)
  qed
qed

lemma first_candidate: "candidate_refs rp = hd (candidate_refs rp) # tl (candidate_refs rp)"
  by (simp add: candidate_refs_def split: option.split)

lemma local_payment_hd:
  "payment_by_ref (hd (candidate_refs rp)) d = Some p \<Longrightarrow> local_payment rp d = Some p"
  unfolding local_payment_def by (subst first_candidate) simp


text \<open>
  What reconciliation cannot heal it reports as healed all the same. Two such payments: one whose
  dispute is open while Razorpay still lists it as captured, and one that only the id Razorpay
  gives second, not its \<open>order_id\<close>, identifies (the event looks at the first alone).
\<close>

lemma captured_without_effect:
  assumes "hd (candidate_refs rp) = r"
    and "payment_by_ref r d = None \<or> (\<exists>p. payment_by_ref r d = Some p \<and> pay_status p = PayDisputed)"
  shows "event_mutation draw (reconcile_payload ''payment.captured'' rp) now d = NoMutation"
  using assms
  by (auto simp: event_mutation_def activation_mutation_def payload_reads activates_def Let_def)

text \<open>A disputed payment that Razorpay lists as captured, or a payment found only by Razorpay's
  payment id although Razorpay gives an order id, is reported as healed by every run, although the
  run changes no payment, subscription or license; so the next run reports it again.\<close>

lemma reconcile_reports_unhealed:
  assumes w: "faults w = []" "schema_ok (db w) (seqs w)"
    and rp: "rp_status rp = ''captured''" "local_payment rp (db w) = Some p" "pay_status p \<noteq> PaySucceeded"
    and stuck: "payment_by_ref (hd (candidate_refs rp)) (db w) = None \<or> pay_status p = PayDisputed"
  shows "\<exists>w'. reconcile_one draw rp w = (Inr True, w') \<and> entitlements_unchanged (db w) (db w')
    \<and> fst (reconcile_one draw' rp (w'\<lparr>utc_now := t\<rparr>)) = Inr True"
proof -
  have st: "map_razorpay_payment_status (rp_status rp) = Some PaySucceeded"
    by (simp add: rp map_razorpay_payment_status_def)
  have ev: "heal_event_type PaySucceeded = Some ''payment.captured''" by (simp add: heal_event_type_def)
  have once: "\<exists>v'. reconcile_one dr rp v = (Inr True, v') \<and> entitlements_unchanged (db v) (db v')
      \<and> faults v' = [] \<and> schema_ok (db v') (seqs v')"
    if v: "faults v = []" "schema_ok (db v) (seqs v)" "payments (db v) = payments (db w)" for v :: world and dr
  proof -
    let ?pl = "reconcile_payload ''payment.captured'' rp"
    have refs: "payment_by_ref r (db v) = payment_by_ref r (db w)" for r
      by (simp add: payment_by_ref_def v(3))
    have firsts: "first_payment rs (db v) = first_payment rs (db w)" for rs
      by (induction rs) (simp_all add: refs split: option.split)
    have loc: "local_payment rp (db v) = Some p"
      using rp(2) by (simp add: local_payment_def firsts)
    have "payment_by_ref (hd (candidate_refs rp)) (db v) = None
        \<or> (\<exists>p. payment_by_ref (hd (candidate_refs rp)) (db v) = Some p \<and> pay_status p = PayDisputed)"
    proof (cases "payment_by_ref (hd (candidate_refs rp)) (db w)")
      case (Some q)
      with rp(2) have "q = p" using local_payment_hd by fastforce
      with Some stuck refs show ?thesis by simp
    qed (simp add: refs)
    then have none: "event_mutation dr ?pl (utc_now v) (db v) = NoMutation"
      by (intro captured_without_effect [OF refl])
    obtain r v' where run: "process_webhook_event dr (reconcile_event_id p rp) ?pl v = (r, v')"
      by (cases "process_webhook_event dr (reconcile_event_id p rp) ?pl v")
    have "r = Inr ()" "entitlements_unchanged (db v) (db v')"
      using process_webhook_event_spec [OF v(1,2) run] none
      by (auto simp: event_effect_def Let_def entitlements_unchanged_def mutation_allowed_def)
    moreover have "faults v' = []" "schema_ok (db v') (seqs v')"
      using calm_runD(2) [OF calm_process_webhook_event run v(1)]
        keepsD [OF keeps_process_webhook_event, of v dr "reconcile_event_id p rp" ?pl] v(2) run by simp_all
    moreover have "reconcile_one dr rp v = (Inr True, v')"
      using reconcile_one_healthy [OF v(1,2) st loc ev] rp(3) run \<open>r = Inr ()\<close> by simp
    ultimately show ?thesis by blast
  qed
  obtain w' where one: "reconcile_one draw rp w = (Inr True, w')" "entitlements_unchanged (db w) (db w')"
    "faults w' = []" "schema_ok (db w') (seqs w')"
    using once [OF w refl] by blast
  then have "payments (db (w'\<lparr>utc_now := t\<rparr>)) = payments (db w)"
    by (simp add: entitlements_unchanged_def)
  with once [of "w'\<lparr>utc_now := t\<rparr>" draw'] one obtain v' where
    "reconcile_one draw' rp (w'\<lparr>utc_now := t\<rparr>) = (Inr True, v')" by auto
  with one show ?thesis by simp
qed

lemma reconcile_payments_total:
  "\<exists>n w'. reconcile_payments draws rps healed w = (Inr n, w') \<and> n \<le> healed + length rps"
proof (induction rps arbitrary: healed w)
  case Nil
  show ?case by (simp add: return_run)
next
  case (Cons rp rps)
  obtain r w1 where one: "reconcile_one (draws (length rps)) rp w = (r, w1)"
    by (cases "reconcile_one (draws (length rps)) rp w")
  show ?case
  proof (cases r)
    case (Inl e)
    with one Cons.IH [of healed w1] show ?thesis
      by (auto simp: await_match_run)
  next
    case (Inr h)
    with one Cons.IH [of "if h then healed + 1 else healed" w1] show ?thesis
      by (cases h) (auto simp: await_match_run intro: le_SucI)
  qed
qed

text \<open>One bad payment never aborts a run: once Razorpay's listing has been fetched, a run
  returns a summary whatever database statements fail, having looked at every listed payment and
  counting no more healed than listed; only a failed listing is an error.\<close>

lemma reconcile_once_completes:
  "case list_payments (utc_now w - duration_hours lookback) of
     Inr rps \<Rightarrow> (\<exists>n. fst (reconcile_once list_payments lookback draws w)
         = Inr \<lparr> rs_checked = length rps, rs_healed = n \<rparr> \<and> n \<le> length rps)
   | Inl e \<Rightarrow> reconcile_once list_payments lookback draws w = (Inl (ProviderError e), w)"
proof (cases "list_payments (utc_now w - duration_hours lookback)")
  case (Inl e)
  then show ?thesis by (simp add: reconcile_once_def now_then_run return_run)
next
  case (Inr rps)
  obtain n w' where "reconcile_payments draws rps 0 w = (Inr n, w')" "n \<le> 0 + length rps"
    using reconcile_payments_total by blast
  with Inr show ?thesis
    by (simp add: reconcile_once_def now_then_run await_run return_run)
qed

end
