(* ===== verification/Checkout.thy ===== *)
theory Checkout
  imports Reconciliation
begin

text \<open>
  Checkout and the license keys: what \<open>create_checkout_session\<close> records for each answer of the
  provider, the format of a generated key and the size of its space.
\<close>

definition checkout_request :: "plan_type \<Rightarrow> int \<Rightarrow> create_checkout_request" where
  "checkout_request plan sid = \<lparr> cc_plan_type = plan, cc_amount_minor = plan_amount_minor plan,
     cc_currency = ''INR'', cc_receipt = ''sub_'' @ int_str sid \<rparr>"

definition pending_subscription :: "int \<Rightarrow> plan_type \<Rightarrow> int \<Rightarrow> timestamp \<Rightarrow> subscription" where
  "pending_subscription uid plan i now = \<lparr> sub_id = i, sub_user_id = uid, sub_plan_type = plan,
     sub_status = SubPendingPayment, sub_started_at = now, sub_current_period_end = None,
     sub_auto_renew = True, sub_created_at = now, sub_updated_at = now \<rparr>"

definition pending_payment :: "int \<Rightarrow> plan_type \<Rightarrow> string \<Rightarrow> int \<Rightarrow> timestamp \<Rightarrow> payment" where
  "pending_payment sid plan ref i now = \<lparr> pay_id = i, pay_subscription_id = sid,
     pay_amount_minor = plan_amount_minor plan, pay_currency = ''INR'', pay_provider = ''razorpay'',
     pay_provider_ref = Some ref, pay_gateway_payment_id = None, pay_status = PayPending,
     pay_created_at = now \<rparr>"

lemma keyed_opt_snoc:
  "keyed_opt key (rows @ [r]) \<longleftrightarrow> keyed_opt key rows \<and> (key r = None \<or> key r \<notin> key ` set rows)"
  by (cases "key r") (auto simp: keyed_opt_def)

text \<open>A checkout charges and records the plan's own price: the provider is asked for exactly that
  amount, and when it answers, a pending subscription of the customer on that plan and a pending
  payment of that amount under the provider's reference are stored; when it fails, the error is
  returned and the pending subscription remains without a payment.\<close>

lemma checkout_records_price:
  assumes w: "faults w = []" "schema_ok (db w) (seqs w)"
    and plan: "plan_from_str plan_str = Inr plan" and user: "uid \<in> keys usr_id (users (db w))"
    and fresh: "\<And>co. razorpay (checkout_request plan (seqs w T_subscriptions)) = Inr co
      \<Longrightarrow> payment_by_ref (co_provider_ref co) (db w) = None"
    and run: "create_checkout_session razorpay uid plan_str w = (r, w')"
  shows "subscriptions (db w') = subscriptions (db w)
      @ [pending_subscription uid plan (seqs w T_subscriptions) (utc_now w)]
    \<and> (case razorpay (checkout_request plan (seqs w T_subscriptions)) of
        Inl e \<Rightarrow> r = Inl (ProviderError e) \<and> payments (db w') = payments (db w)
      | Inr co \<Rightarrow> r = Inr co \<and> payment_by_ref (co_provider_ref co) (db w')
          = Some (pending_payment (seqs w T_subscriptions) plan (co_provider_ref co) (seqs w T_payments) (utc_now w)))"
proof -
  let ?sub = "pending_subscription uid plan (seqs w T_subscriptions) (utc_now w)"
  let ?w1 = "w\<lparr>seqs := (seqs w)(T_subscriptions := seqs w T_subscriptions + 1),
      db := (db w)\<lparr>subscriptions := subscriptions (db w) @ [?sub]\<rparr>\<rparr>"
  have s1: "subscription_insert \<lparr> ns_user_id = uid, ns_plan_type = plan, ns_status = SubPendingPayment,
      ns_started_at = utc_now w, ns_current_period_end = None, ns_auto_renew = True \<rparr> w = (Inr ?sub, ?w1)"
    using user by (simp add: subscription_insert_def run_simps w Let_def pending_subscription_def)
  show ?thesis
  proof (cases "razorpay (checkout_request plan (seqs w T_subscriptions))")
    case (Inl e)
    with run s1 plan show ?thesis
      by (auto simp: create_checkout_session_def now_then_run await_as_run return_run Let_def
          checkout_request_def pending_subscription_def)
  next
    case (Inr co)
    let ?pay = "pending_payment (seqs w T_subscriptions) plan (co_provider_ref co) (seqs w T_payments) (utc_now w)"
    have none: "payment_by_ref (co_provider_ref co) (db w) = None" by (rule fresh [OF Inr])
    then have "Some (co_provider_ref co) \<notin> pay_provider_ref ` set (payments (db w))"
      by (auto simp: payment_by_ref_def find_None_iff)
    moreover have "keyed_opt pay_provider_ref (payments (db w))"
      "keyed_opt pay_gateway_payment_id (payments (db w))"
      using w(2) by (simp_all add: schema_ok_def uniques_ok_def)
    ultimately have s2: "payment_insert \<lparr> np_subscription_id = seqs w T_subscriptions,
        np_amount_minor = plan_amount_minor plan, np_currency = ''INR'', np_provider = ''razorpay'',
        np_provider_ref = Some (co_provider_ref co), np_status = PayPending \<rparr> ?w1
      = (Inr ?pay, ?w1\<lparr>seqs := (seqs ?w1)(T_payments := seqs w T_payments + 1),
          db := (db ?w1)\<lparr>payments := payments (db w) @ [?pay]\<rparr>\<rparr>)"
      by (simp add: payment_insert_def run_simps w Let_def payment_of_new_def pending_payment_def
          pending_subscription_def keyed_opt_snoc)
    have "r = Inr co" and pays: "payments (db w') = payments (db w) @ [?pay]"
      and subs: "subscriptions (db w') = subscriptions (db w) @ [?sub]"
      using run s1 s2 plan Inr
      by (auto simp: create_checkout_session_def now_then_run await_as_run return_run Let_def
          checkout_request_def pending_subscription_def)
    with none Inr show ?thesis
      by (simp add: payment_by_ref_def find_snoc pending_payment_def)
  qed
qed

subsection \<open>License keys\<close>

lemma key_shape:
  "generate_license_key draw =
    (let c = (\<lambda>i. license_key_charset ! draw i); dash = CHR ''-'' in
     [c 0, c 1, c 2, c 3, dash, c 4, c 5, c 6, c 7, dash, c 8, c 9, c 10, c 11, dash,
      c 12, c 13, c 14, c 15])"
  by (simp add: generate_license_key_def upt_rec numeral_eq_Suc Let_def)

lemma charset_distinct: "distinct license_key_charset" and charset_length: "length license_key_charset = 32"
  by code_simp+

lemma charset_in: "n < 32 \<Longrightarrow> license_key_charset ! n \<in> set license_key_charset"
  by (simp add: charset_length)

lemma charset_inject: "m < 32 \<Longrightarrow> n < 32 \<Longrightarrow> license_key_charset ! m = license_key_charset ! n \<longleftrightarrow> m = n"
  using nth_eq_iff_index_eq [OF charset_distinct] by (simp add: charset_length)

text \<open>A license key is four groups of four characters joined by dashes, none of them one of the
  easily confused 0, O, 1 and I, and keys collide only when all sixteen draws coincide.\<close>

lemma license_key_format:
  assumes "\<forall>i<16. draw i < 32" and "\<forall>i<16. draw' i < 32"
  shows "length (generate_license_key draw) = 19
    \<and> (\<forall>i<19. if i \<in> {4, 9, 14} then generate_license_key draw ! i = CHR ''-''
         else generate_license_key draw ! i \<in> set license_key_charset)
    \<and> set license_key_charset \<inter> {CHR ''0'', CHR ''O'', CHR ''1'', CHR ''I''} = {}
    \<and> (generate_license_key draw = generate_license_key draw' \<longleftrightarrow> (\<forall>i<16. draw i = draw' i))"
proof -
  have below: "\<And>i. i < 16 \<Longrightarrow> draw i < 32 \<and> draw' i < 32" using assms by blast
  have range16: "[0..<16] = [0, 1, 2, 3, 4, 5, 6, 7, 8, 9, 10, 11, 12, 13, 14, 15]"
    by (simp add: upt_rec)
  have as_list: "(\<forall>i<16. P i) \<longleftrightarrow> list_all P [0..<16]" for P :: "nat \<Rightarrow> bool"
    by (auto simp: list_all_iff)
  have all16: "(\<forall>i<16. P i) \<longleftrightarrow> P 0 \<and> P 1 \<and> P 2 \<and> P 3 \<and> P 4 \<and> P 5 \<and> P 6 \<and> P 7 \<and> P 8 \<and> P 9
      \<and> P 10 \<and> P 11 \<and> P 12 \<and> P 13 \<and> P 14 \<and> P 15" for P :: "nat \<Rightarrow> bool"
    by (simp add: as_list range16)
  have shape: "\<forall>i<19. if i \<in> {4, 9, 14} then generate_license_key draw ! i = CHR ''-''
         else generate_license_key draw ! i \<in> set license_key_charset"
    using below
    by (simp add: key_shape Let_def numeral_eq_Suc less_Suc_eq all_conj_distrib charset_in)
  have collide: "generate_license_key draw = generate_license_key draw' \<longleftrightarrow> (\<forall>i<16. draw i = draw' i)"
    unfolding all16 using below by (simp add: key_shape Let_def charset_inject)
  have confusable: "set license_key_charset \<inter> {CHR ''0'', CHR ''O'', CHR ''1'', CHR ''I''} = {}"
    by (simp add: license_key_charset_def)
  have len: "length (generate_license_key draw) = 19"
    by (simp add: key_shape Let_def)
  from shape collide confusable len show ?thesis by blast
qed

end
