(* ===== verification/Samples.thy ===== *)
theory Samples
  imports Checkout
begin

text \<open>
  A concrete database on which the properties are evaluated: two customers, the first with a
  monthly subscription, a paid license of two device slots and one active device; the second
  with a pending checkout. The properties' witnesses run the model's operations on it.
\<close>

definition sample_users :: "user list" where
  "sample_users =
    [\<lparr> usr_id = 1, usr_email = ''a@x.in'', usr_password_hash = ''phc-a'', usr_full_name = Some ''A'',
       usr_company_name = None, usr_role = Customer, usr_created_at = 0, usr_updated_at = 0 \<rparr>,
     \<lparr> usr_id = 2, usr_email = ''b@x.in'', usr_password_hash = ''phc-b'', usr_full_name = None,
       usr_company_name = None, usr_role = Customer, usr_created_at = 0, usr_updated_at = 0 \<rparr>]"

definition sample_subscriptions :: "subscription list" where
  "sample_subscriptions =
    [\<lparr> sub_id = 1, sub_user_id = 1, sub_plan_type = Monthly, sub_status = SubActive,
       sub_started_at = 0, sub_current_period_end = Some 5000, sub_auto_renew = True,
       sub_created_at = 0, sub_updated_at = 0 \<rparr>,
     \<lparr> sub_id = 2, sub_user_id = 2, sub_plan_type = Lifetime, sub_status = SubPendingPayment,
       sub_started_at = 0, sub_current_period_end = None, sub_auto_renew = True,
       sub_created_at = 0, sub_updated_at = 0 \<rparr>]"

definition sample_license :: license where
  "sample_license = \<lparr> lic_id = 1, lic_subscription_id = 1, lic_key = ''KEY-1'', lic_status = LicActive,
     lic_expires_at = Some 5000, lic_max_devices = 2, lic_grace_period_days = 7, lic_issued_at = 0,
     lic_revoked_at = None, lic_revoked_reason = None \<rparr>"

definition sample_device :: device where
  "sample_device = \<lparr> dev_id = 1, dev_license_id = 1, dev_device_id = 17,
     dev_machine_fingerprint = ''fp-1'', dev_device_label = Some ''desk'', dev_first_seen_at = 10,
     dev_last_seen_at = 10, dev_deactivated_at = None \<rparr>"

definition sample_payments :: "payment list" where
  "sample_payments =
    [\<lparr> pay_id = 1, pay_subscription_id = 1, pay_amount_minor = 49900, pay_currency = ''INR'',
       pay_provider = ''razorpay'', pay_provider_ref = Some ''sub_A'',
       pay_gateway_payment_id = Some ''pay_A'', pay_status = PaySucceeded, pay_created_at = 0 \<rparr>,
     \<lparr> pay_id = 2, pay_subscription_id = 2, pay_amount_minor = 999900, pay_currency = ''INR'',
       pay_provider = ''razorpay'', pay_provider_ref = Some ''plink_B'',
       pay_gateway_payment_id = None, pay_status = PayPending, pay_created_at = 0 \<rparr>]"

definition sample_tables :: tables where
  "sample_tables = empty_tables\<lparr> users := sample_users, subscriptions := sample_subscriptions,
     licenses := [sample_license], devices := [sample_device], payments := sample_payments \<rparr>"

definition sample_world :: world where
  "sample_world = (empty_world 1000)\<lparr> db := sample_tables, seqs := (\<lambda>_. 3) \<rparr>"

lemmas sample_defs = sample_world_def sample_tables_def sample_payments_def sample_device_def
  sample_license_def sample_subscriptions_def sample_users_def empty_world_def empty_tables_def

lemma sample_schema: "schema_ok (db sample_world) (seqs sample_world)"
  by (simp add: sample_defs schema_defs serial_key_def keyed_def keyed_opt_def keys_def)

lemma sample_cap: "schema_and_cap (db sample_world) (seqs sample_world)"
  using sample_schema
  by (simp add: schema_and_cap_def cap_ok_def active_count_def sample_defs device_active_def)

lemma sample_healthy: "faults sample_world = []"
  by (simp add: sample_defs)

lemma run_pair: "fst (m w) = r \<Longrightarrow> m w = (r, snd (m w))"
  by (simp add: prod_eq_iff)

subsection \<open>Licenses\<close>

lemma sample_validates:
  "license_validate 1 17 ''fp-1'' (Some 1) sample_world
    = (Inr (validated sample_license 1000), snd (license_validate 1 17 ''fp-1'' (Some 1) sample_world))"
  by (rule run_pair) code_simp

theorem license_validate_safe_witness:
  "\<exists>l x. l \<in> set (licenses sample_tables) \<and> lic_id l = 1 \<and> caller_owns (Some 1) l sample_tables
    \<and> x \<in> set (devices sample_tables) \<and> dev_license_id x = 1 \<and> dev_device_id x = 17
    \<and> device_active x \<and> dev_machine_fingerprint x = ''fp-1''
    \<and> validated sample_license 1000 = validated l 1000"
  using license_validate_safe [OF sample_validates] by (simp add: sample_world_def empty_world_def)

lemma foreign_license_is_missing_license_example:
  "license_validate 1 17 ''fp-1'' (Some 2) sample_world = (Inl DeviceNotActivated, sample_world)
    \<and> license_heartbeat 1 17 (Some 2) sample_world = (Inl DeviceNotActivated, sample_world)
    \<and> license_deactivate 1 17 ''fp-1'' (Some 2) sample_world = (Inl LicenseNotFound, sample_world)"
proof (rule foreign_license_is_missing_license [OF sample_healthy])
  show "\<forall>l \<in> set (licenses (db sample_world)). lic_id l \<noteq> 1 \<or> \<not> caller_owns (Some 2) l (db sample_world)"
    by code_simp
qed

lemma sample_entitled: "entitled_device 1 17 (Some 1) (db sample_world) = Some (sample_license, sample_device)"
  by code_simp

lemma fingerprint_mismatch_rejected_example:
  "fst (license_validate 1 17 ''other'' (Some 1) sample_world) = Inl DeviceMismatch
    \<and> license_deactivate 1 17 ''other'' (Some 1) sample_world = (Inl DeviceMismatch, sample_world)"
  by (rule fingerprint_mismatch_rejected [OF sample_healthy sample_entitled]) code_simp

abbreviation sample_deactivated :: world where
  "sample_deactivated \<equiv> snd (license_deactivate 1 17 ''fp-1'' (Some 1) sample_world)"

lemma deactivate_frees_one_slot_example:
  "Inr 0 = (Inr (int (active_count 1 (db sample_deactivated))) :: license_operation_error + int)
    \<and> Suc (active_count 1 (db sample_deactivated)) = active_count 1 (db sample_world)
    \<and> slot_free 1 (lic_max_devices sample_license) (db sample_deactivated)"
proof (rule deactivate_frees_one_slot [OF sample_healthy sample_cap sample_entitled])
  show "dev_machine_fingerprint sample_device = ''fp-1''" by code_simp
  show "license_deactivate 1 17 ''fp-1'' (Some 1) sample_world = (Inr 0, sample_deactivated)"
    by (rule run_pair) code_simp
qed

definition sample_activation :: activation_outcome where
  "sample_activation = \<lparr> ao_license = sample_license, ao_customer_id = 1, ao_plan_type = Monthly \<rparr>"

abbreviation sample_activated :: world where
  "sample_activated \<equiv> snd (license_activate ''KEY-1'' 18 ''fp-2'' ''laptop'' sample_world)"

lemma sample_activates:
  "license_activate ''KEY-1'' 18 ''fp-2'' ''laptop'' sample_world = (Inr sample_activation, sample_activated)"
  by (rule run_pair) code_simp

theorem license_activate_safe_witness:
  "sample_license \<in> set (licenses (db sample_world)) \<and> lic_key sample_license = ''KEY-1''
    \<and> effective_status sample_license 1000 \<in> {LicActive, LicSuspended}
    \<and> (\<exists>b \<in> set (subscriptions (db sample_activated)).
         sub_id b = 1 \<and> 1 = sub_user_id b \<and> Monthly = sub_plan_type b)
    \<and> device_is_active_with 1 18 ''fp-2'' ''laptop'' 1000 (db sample_activated)"
proof -
  have "utc_now sample_world = 1000" "lic_id sample_license = 1" "lic_subscription_id sample_license = 1"
    by (simp_all add: sample_defs)
  with license_activate_safe [OF sample_activates] show ?thesis
    by (simp add: sample_activation_def)
qed

lemma license_activate_keeps_cap_example:
  "schema_and_cap (db sample_activated) (seqs sample_activated)"
  by (rule license_activate_keeps_cap [OF sample_cap sample_activates])

lemma activate_then_validate_example:
  "fst (license_validate 1 18 ''fp-2'' (Some 1) (sample_activated\<lparr>utc_now := 5000\<rparr>))
     = Inr (validated sample_license 5000) \<and> vo_status (validated sample_license 5000) = LicExpired"
proof -
  have "ao_customer_id sample_activation = 1" "lic_id (ao_license sample_activation) = 1"
    "ao_license sample_activation = sample_license"
    by (simp_all add: sample_activation_def sample_license_def)
  moreover have "vo_status (validated sample_license 5000) = LicExpired" by code_simp
  ultimately show ?thesis
    using activate_then_validate [OF sample_healthy sample_schema sample_activates, of "Some 1" 5000]
    by simp
qed

abbreviation sample_reactivated :: world where
  "sample_reactivated \<equiv> snd (device_activate 1 0 17 ''fp-9'' ''desk'' sample_world)"

lemma reactivation_takes_no_slot_example:
  "(Inr Activated :: repository_error + device_activation_outcome) = Inr Activated
    \<and> active_count 1 (db sample_reactivated) = active_count 1 (db sample_world)
    \<and> map dev_device_id (filter device_active (devices (db sample_reactivated)))
      = map dev_device_id (filter device_active (devices (db sample_world)))"
proof (rule reactivation_takes_no_slot [OF sample_healthy sample_schema])
  show "device_row 1 17 (db sample_world) = Some sample_device" by code_simp
  show "device_active sample_device" by code_simp
  show "1 \<in> keys lic_id (licenses (db sample_world))" by (simp add: sample_defs)
  show "device_activate 1 0 17 ''fp-9'' ''desk'' sample_world = (Inr Activated, sample_reactivated)"
    by (rule run_pair) code_simp
qed

text \<open>The sample license with its slots used up by the one device.\<close>

definition full_world :: world where
  "full_world = sample_world\<lparr>db := sample_tables\<lparr>licenses := [sample_license\<lparr>lic_max_devices := 1\<rparr>]\<rparr>\<rparr>"

lemma full_cap: "schema_and_cap (db full_world) (seqs full_world)"
  by (simp add: full_world_def schema_and_cap_def cap_ok_def active_count_def sample_defs
      device_active_def schema_defs serial_key_def keyed_def keyed_opt_def keys_def)

lemma activation_at_limit_refused_example:
  "license_activate ''KEY-1'' 18 ''fp-2'' ''laptop'' full_world =
    (Inl (DeviceLimitReached (filter device_active
       (devices_of (lic_id (sample_license\<lparr>lic_max_devices := 1\<rparr>)) (db full_world)))), full_world)"
proof (rule activation_at_limit_refused [OF _ full_cap])
  show "faults full_world = []" by (simp add: full_world_def sample_defs)
  show "find (\<lambda>l. lic_key l = ''KEY-1'') (licenses (db full_world)) = Some (sample_license\<lparr>lic_max_devices := 1\<rparr>)"
    by code_simp
  show "effective_status (sample_license\<lparr>lic_max_devices := 1\<rparr>) (utc_now full_world) = LicActive"
    by code_simp
  show "int (active_count (lic_id (sample_license\<lparr>lic_max_devices := 1\<rparr>)) (db full_world))
      = lic_max_devices (sample_license\<lparr>lic_max_devices := 1\<rparr>)"
    by code_simp
  have "device_row (lic_id (sample_license\<lparr>lic_max_devices := 1\<rparr>)) 18 (db full_world) = None"
    by code_simp
  then show "\<forall>x. device_row (lic_id (sample_license\<lparr>lic_max_devices := 1\<rparr>)) 18 (db full_world) = Some x
      \<longrightarrow> \<not> device_active x"
    by simp
qed

subsection \<open>Payments\<close>

definition sample_paid :: razorpay_webhook_payload where
  "sample_paid = \<lparr> rwp_event = ''payment_link.paid'', rwp_payload = JObj
     [(''payment_link'', JObj [(''entity'', JObj [(''id'', JStr ''plink_B'')])]),
      (''payment'', JObj [(''entity'', JObj [(''id'', JStr ''pay_B''), (''amount'', JInt 999900),
         (''currency'', JStr ''INR'')])])] \<rparr>"

definition sample_draw :: "nat \<Rightarrow> nat" where
  "sample_draw i = i"

abbreviation sample_after_paid :: world where
  "sample_after_paid \<equiv> snd (process_webhook_event sample_draw ''evt-1'' sample_paid sample_world)"

lemma sample_paid_processed:
  "process_webhook_event sample_draw ''evt-1'' sample_paid sample_world = (Inr (), sample_after_paid)"
  by (rule run_pair) code_simp

theorem process_webhook_event_refines_witness:
  "db sample_after_paid = event_effect sample_draw ''evt-1'' sample_paid sample_world
    \<and> length (licenses (db sample_after_paid)) = 2"
proof -
  have "length (licenses (db sample_after_paid)) = 2" by code_simp
  then show ?thesis
    using process_webhook_event_refines [OF sample_healthy sample_schema sample_paid_processed] by simp
qed

lemma webhook_redelivery_changes_nothing_example:
  "db (snd (process_webhook_event sample_draw ''evt-1'' sample_paid
      (sample_after_paid\<lparr>utc_now := 2000, faults := [False, True]\<rparr>))) = db sample_after_paid"
  by (rule webhook_redelivery_changes_nothing [OF sample_paid_processed]) (rule prod.collapse [symmetric])

theorem webhook_payment_state_machine_witness:
  "\<exists>f. payments (db sample_after_paid) = map f (payments (db sample_world))
    \<and> (\<forall>p \<in> set (payments (db sample_world)). pay_id (f p) = pay_id p
         \<and> pay_subscription_id (f p) = pay_subscription_id p \<and> pay_provider_ref (f p) = pay_provider_ref p
         \<and> status_step ''payment_link.paid'' (pay_status p) (pay_status (f p)))"
proof -
  have "rwp_event sample_paid = ''payment_link.paid''" by (simp add: sample_paid_def)
  then show ?thesis
    using webhook_payment_state_machine [OF sample_healthy sample_schema sample_paid_processed] by metis
qed

lemma sample_paid_reads:
  "activation_event (rwp_event sample_paid)"
  "extract_entity_ref (rwp_payload sample_paid) (activation_key (rwp_event sample_paid)) = Some ''plink_B''"
  "\<not> event_claimed ''razorpay'' ''evt-1'' (db sample_world)"
  by code_simp+

definition sample_pending :: payment where
  "sample_pending = sample_payments ! 1"

definition sample_lifetime :: subscription where
  "sample_lifetime = sample_subscriptions ! 1"

lemma sample_pending_found:
  "payment_by_ref ''plink_B'' (db sample_world) = Some sample_pending"
  "subscription_by_id (pay_subscription_id sample_pending) (db sample_world) = Some sample_lifetime"
  "activates sample_pending (extract_entity_amount_minor (rwp_payload sample_paid) ''payment'')
     (extract_entity_currency (rwp_payload sample_paid) ''payment'')"
  by code_simp+

definition sample_underpaid :: razorpay_webhook_payload where
  "sample_underpaid = \<lparr> rwp_event = ''payment_link.paid'', rwp_payload = JObj
     [(''payment_link'', JObj [(''entity'', JObj [(''id'', JStr ''plink_B'')])]),
      (''payment'', JObj [(''entity'', JObj [(''id'', JStr ''pay_B''), (''amount'', JInt 1)])])] \<rparr>"

lemma activation_refused_example:
  "entitlements_unchanged (db sample_world)
     (db (snd (process_webhook_event sample_draw ''evt-2'' sample_underpaid sample_world)))"
proof -
  have "(Inr () :: payment_operation_error + unit) = Inr () \<and> entitlements_unchanged (db sample_world)
     (db (snd (process_webhook_event sample_draw ''evt-2'' sample_underpaid sample_world)))"
  proof (rule activation_refused [OF sample_healthy sample_schema _ _ sample_pending_found(1)])
    show "activation_event (rwp_event sample_underpaid)" by code_simp
    show "extract_entity_ref (rwp_payload sample_underpaid) (activation_key (rwp_event sample_underpaid))
        = Some ''plink_B''" by code_simp
    have "extract_entity_amount_minor (rwp_payload sample_underpaid) ''payment'' = Some 1"
      "pay_amount_minor sample_pending = 999900"
      by code_simp+
    then show "pay_status sample_pending \<in> {PayRefunded, PayDisputed}
      \<or> (\<exists>a. extract_entity_amount_minor (rwp_payload sample_underpaid) ''payment'' = Some a
           \<and> a \<noteq> pay_amount_minor sample_pending)
      \<or> (\<exists>c. extract_entity_currency (rwp_payload sample_underpaid) ''payment'' = Some c
           \<and> c \<noteq> pay_currency sample_pending)"
      by simp
    show "process_webhook_event sample_draw ''evt-2'' sample_underpaid sample_world
        = (Inr (), snd (process_webhook_event sample_draw ''evt-2'' sample_underpaid sample_world))"
      by (rule run_pair) code_simp
  qed
  then show ?thesis ..
qed

theorem activation_grants_witness:
  "current_license (sub_id sample_lifetime) (db sample_after_paid)
     = Some (license_after sample_draw (sub_id sample_lifetime) (term_end sample_lifetime (utc_now sample_world))
         (seqs sample_world T_licenses) (utc_now sample_world) (db sample_world))"
  using activation_grants [OF sample_healthy sample_schema sample_paid_reads(1,2) sample_pending_found(1,3,2)
      sample_paid_processed sample_paid_reads(3)] by blast

theorem first_payment_can_be_activated_witness:
  "\<exists>out. fst (license_activate (generate_license_key sample_draw) 99 ''fp'' ''pc''
      (sample_after_paid\<lparr>utc_now := 10 ^ 20\<rparr>)) = Inr out \<and> ao_customer_id out = 2"
proof -
  have "current_license (sub_id sample_lifetime) (db sample_world) = None"
    "term_end sample_lifetime (utc_now sample_world) = None" "sub_user_id sample_lifetime = 2"
    by code_simp+
  then show ?thesis
    using first_payment_can_be_activated [OF sample_healthy sample_schema sample_paid_reads(1,2)
        sample_pending_found(1,3,2) _ sample_paid_processed sample_paid_reads(3), of "10 ^ 20" 99 "''fp''" "''pc''"]
    by simp
qed

definition sample_refund :: razorpay_webhook_payload where
  "sample_refund = \<lparr> rwp_event = ''refund.created'', rwp_payload = JObj
     [(''payment'', JObj [(''entity'', JObj [(''id'', JStr ''pay_A'')])])] \<rparr>"

abbreviation sample_after_refund :: world where
  "sample_after_refund \<equiv> snd (process_webhook_event sample_draw ''evt-3'' sample_refund sample_world)"

theorem gateway_event_reaches_device_witness:
  "fst (license_validate (lic_id sample_license) 17 ''fp-1'' (Some 1) (sample_after_refund\<lparr>utc_now := 2000\<rparr>))
     = Inr (validated (sample_license\<lparr>lic_status := LicRevoked\<rparr>) 2000)"
proof (rule gateway_event_reaches_device [OF sample_healthy sample_schema])
  show "gateway_target sample_refund = Some LicRevoked" by code_simp
  show "extract_entity_id (rwp_payload sample_refund) ''payment'' = Some ''pay_A''" by code_simp
  show "payment_by_gateway ''pay_A'' (db sample_world) = Some (sample_payments ! 0)" by code_simp
  show "current_license (pay_subscription_id (sample_payments ! 0)) (db sample_world) = Some sample_license"
    by code_simp
  show "entitled_device (lic_id sample_license) 17 (Some 1) (db sample_world) = Some (sample_license, sample_device)"
    by code_simp
  show "dev_machine_fingerprint sample_device = ''fp-1''" by code_simp
  show "\<not> event_claimed ''razorpay'' ''evt-3'' (db sample_world)" by code_simp
qed (rule prod.collapse [symmetric])

subsection \<open>Reconciliation and checkout\<close>


definition sample_known :: razorpay_payment where
  "sample_known = \<lparr> rp_id = ''sub_A'', rp_order_id = None, rp_status = ''captured'' \<rparr>"

definition sample_stuck :: razorpay_payment where
  "sample_stuck = \<lparr> rp_id = ''plink_B'', rp_order_id = Some ''order_9'', rp_status = ''captured'' \<rparr>"

lemma reconcile_in_sync_example:
  "reconcile_one sample_draw sample_known sample_world = (Inr False, sample_world)"
proof (rule reconcile_in_sync [OF sample_healthy sample_schema])
  have "map_razorpay_payment_status (rp_status sample_known) = Some PaySucceeded"
    "map_option pay_status (local_payment sample_known (db sample_world)) = Some PaySucceeded"
    by code_simp+
  then show "map_razorpay_payment_status (rp_status sample_known) = None
    \<or> local_payment sample_known (db sample_world) = None
    \<or> map_razorpay_payment_status (rp_status sample_known)
      = map_option pay_status (local_payment sample_known (db sample_world))"
    by metis
qed



lemma reconcile_reports_unhealed_example:
  "\<exists>w'. reconcile_one sample_draw sample_stuck sample_world = (Inr True, w')
    \<and> entitlements_unchanged (db sample_world) (db w')
    \<and> fst (reconcile_one sample_draw sample_stuck (w'\<lparr>utc_now := 9000\<rparr>)) = Inr True"
proof (rule reconcile_reports_unhealed [OF sample_healthy sample_schema])
  show "rp_status sample_stuck = ''captured''" by code_simp
  show "local_payment sample_stuck (db sample_world) = Some sample_pending" by code_simp
  show "pay_status sample_pending \<noteq> PaySucceeded" by code_simp
  have "payment_by_ref (hd (candidate_refs sample_stuck)) (db sample_world) = None" by code_simp
  then show "payment_by_ref (hd (candidate_refs sample_stuck)) (db sample_world) = None
    \<or> pay_status sample_pending = PayDisputed" by simp
qed

definition sample_provider :: "create_checkout_request \<Rightarrow> string + checkout_outcome" where
  "sample_provider req = Inr \<lparr> co_checkout_url = ''https://rzp.io/x'', co_provider_ref = ''plink_C'' \<rparr>"

abbreviation sample_checked_out :: world where
  "sample_checked_out \<equiv> snd (create_checkout_session sample_provider 2 ''yearly'' sample_world)"

lemma checkout_records_price_example:
  "subscriptions (db sample_checked_out) = sample_subscriptions @ [pending_subscription 2 Yearly 3 1000]
    \<and> payment_by_ref ''plink_C'' (db sample_checked_out) = Some (pending_payment 3 Yearly ''plink_C'' 3 1000)"
proof -
  have facts: "plan_from_str ''yearly'' = Inr Yearly" "seqs sample_world T_subscriptions = 3"
    "seqs sample_world T_payments = 3" "utc_now sample_world = 1000"
    "subscriptions (db sample_world) = sample_subscriptions"
    "payment_by_ref ''plink_C'' (db sample_world) = None"
    by code_simp+
  have user: "2 \<in> keys usr_id (users (db sample_world))" by (simp add: sample_defs)
  have "payment_by_ref (co_provider_ref co) (db sample_world) = None"
    if "sample_provider (checkout_request Yearly (seqs sample_world T_subscriptions)) = Inr co" for co
    using that facts(6) by (auto simp: sample_provider_def)
  note spec = checkout_records_price [OF sample_healthy sample_schema facts(1) user this, of sample_provider,
      OF _ prod.collapse [symmetric]]
  have "subscriptions (db sample_checked_out) = subscriptions (db sample_world) @ [pending_subscription 2 Yearly 3 1000]"
    and "payment_by_ref ''plink_C'' (db sample_checked_out) = Some (pending_payment 3 Yearly ''plink_C'' 3 1000)"
    using spec facts by (simp_all add: sample_provider_def)
  then show ?thesis by (simp add: facts(5))
qed

lemma license_key_format_example:
  "length (generate_license_key sample_draw) = 19 \<and> sample_draw 3 < 32"
  using license_key_format [of sample_draw sample_draw] by (simp add: sample_draw_def)

end
