(* ===== verification/AuthService.thy ===== *)
theory AuthService
  imports LicenseService
begin

text \<open>
  \<open>auth/{token,webhook_signature}.rs\<close> and \<open>service/auth_service.rs\<close>. SHA-256, HMAC-SHA256 and
  Argon2 are arguments (\<open>sha256\<close>, \<open>hmac\<close>, \<open>verify\<close>), as are the random bytes of a token.
  Session tokens live in the database only as the hex form of their hash.
\<close>

subsection \<open>Hexadecimal\<close>

definition hex_encode :: "8 word list \<Rightarrow> string" where
  "hex_encode bs = concat (map hex_byte bs)"

definition hex_value :: "char \<Rightarrow> nat option" where
  "hex_value c =
    (let n = (of_char c :: nat) in
     if 48 \<le> n \<and> n \<le> 57 then Some (n - 48)
     else if 97 \<le> n \<and> n \<le> 102 then Some (n - 87)
     else if 65 \<le> n \<and> n \<le> 70 then Some (n - 55)
     else None)"

text \<open>\<open>u8::from_str_radix(_, 16)\<close> on two characters: a leading plus sign is accepted.\<close>

definition parse_hex_pair :: "char \<Rightarrow> char \<Rightarrow> 8 word option" where
  "parse_hex_pair a b =
    (if a = CHR ''+'' then map_option of_nat (hex_value b)
     else case (hex_value a, hex_value b) of
       (Some x, Some y) \<Rightarrow> Some (of_nat (16 * x + y))
     | _ \<Rightarrow> None)"

fun hex_decode :: "string \<Rightarrow> 8 word list option" where
  "hex_decode [] = Some []"
| "hex_decode [c] = None"
| "hex_decode (a # b # s) =
     (case parse_hex_pair a b of
        None \<Rightarrow> None
      | Some x \<Rightarrow> map_option ((#) x) (hex_decode s))"

text \<open>A byte codec: what is printed is read back, so printing is injective.\<close>

locale codec =
  fixes enc :: "'a \<Rightarrow> string" and dec :: "string \<Rightarrow> 'a option"
  assumes dec_enc: "dec (enc x) = Some x"
begin

lemma enc_inject: "enc x = enc y \<longleftrightarrow> x = y"
  by (metis dec_enc option.inject)

lemma decodes_to: "dec s = Some x \<and> enc x = s \<longleftrightarrow> s = enc x"
  using dec_enc by auto

end

lemma hex_value_digit: "n < 16 \<Longrightarrow> hex_value (hex_digit n) = Some n"
  by (auto simp: hex_value_def hex_digit_def Let_def)

lemma hex_digit_not_plus: "n < 16 \<Longrightarrow> hex_digit n \<noteq> CHR ''+''"
  using hex_value_digit [of n] by (auto simp: hex_value_def Let_def)

lemma parse_hex_byte: "parse_hex_pair (hex_digit (unat b div 16)) (hex_digit (unat b mod 16)) = Some b"
proof -
  have "unat b < 256" using unsigned_less [of b, where ?'a = nat] by simp
  then have "unat b div 16 < 16" by (simp add: less_mult_imp_div_less)
  then show ?thesis
    by (simp add: parse_hex_pair_def hex_digit_not_plus hex_value_digit)
qed

interpretation hex: codec hex_encode hex_decode
proof
  show "hex_decode (hex_encode bs) = Some bs" for bs
    by (induction bs) (simp_all add: hex_encode_def hex_byte_def parse_hex_byte)
qed

lemma hex_encode_length: "length (hex_encode bs) = 2 * length bs"
  by (induction bs) (simp_all add: hex_encode_def hex_byte_def)

subsection \<open>Tokens and webhook signatures\<close>

definition generate_session_token :: "8 word list \<Rightarrow> string" where
  "generate_session_token random_bytes = hex_encode random_bytes"

definition hash_token :: "(string \<Rightarrow> 8 word list) \<Rightarrow> string \<Rightarrow> string" where
  "hash_token sha256 token = hex_encode (sha256 token)"

definition verify_webhook_signature ::
  "(string \<Rightarrow> string \<Rightarrow> 8 word list) \<Rightarrow> string \<Rightarrow> string \<Rightarrow> string \<Rightarrow> bool" where
  "verify_webhook_signature hmac secret raw_body signature_header =
    (case hex_decode signature_header of
       None \<Rightarrow> False
     | Some expected \<Rightarrow> hmac secret raw_body = expected)"

subsection \<open>The service\<close>

datatype auth_error = InvalidCredentials | Unauthorized | Forbidden | AuthRepository repository_error

record login_outcome =
  lo_session_token :: string
  lo_user_id :: int
  lo_expires_at :: timestamp

definition session_lifetime_days :: int where
  "session_lifetime_days = 30"

definition hash_to_verify :: "string \<Rightarrow> user option \<Rightarrow> string" where
  "hash_to_verify dummy_hash u = (case u of Some u \<Rightarrow> usr_password_hash u | None \<Rightarrow> dummy_hash)"

definition auth_login ::
  "(string \<Rightarrow> string \<Rightarrow> string + bool) \<Rightarrow> (string \<Rightarrow> 8 word list) \<Rightarrow> string \<Rightarrow> 8 word list
    \<Rightarrow> string \<Rightarrow> string \<Rightarrow> (auth_error, login_outcome) action" where
  "auth_login verify sha256 dummy_hash random_bytes email password =
    await_as AuthRepository (user_find_by_email email) (\<lambda>found.
    case verify password (hash_to_verify dummy_hash found) of
      Inl e \<Rightarrow> return_err (AuthRepository (InvalidData e))
    | Inr matches \<Rightarrow>
       (case (found, matches) of
          (Some u, False) \<Rightarrow> record_login (usr_id u) None False (return_err InvalidCredentials)
        | (None, _) \<Rightarrow> return_err InvalidCredentials
        | (Some u, True) \<Rightarrow>
            let token = generate_session_token random_bytes in
            now_then (\<lambda>now.
            await_as AuthRepository (session_insert
              \<lparr> nse_user_id = usr_id u, nse_token_hash = hash_token sha256 token,
                nse_expires_at = now + duration_days session_lifetime_days \<rparr>) (\<lambda>ses.
            record_login (usr_id u) None True
              (return_ok \<lparr> lo_session_token = token, lo_user_id = usr_id u,
                 lo_expires_at = ses_expires_at ses \<rparr>)))))"

definition auth_validate_session ::
  "(string \<Rightarrow> 8 word list) \<Rightarrow> string \<Rightarrow> (auth_error, session) action" where
  "auth_validate_session sha256 token =
    await_as AuthRepository (session_find_by_token_hash (hash_token sha256 token)) (\<lambda>found.
    case found of
      None \<Rightarrow> return_err Unauthorized
    | Some s \<Rightarrow> now_then (\<lambda>now.
        if ses_revoked_at s \<noteq> None \<or> ses_expires_at s \<le> now then return_err Unauthorized
        else return_ok s))"

definition auth_require_admin ::
  "(string \<Rightarrow> 8 word list) \<Rightarrow> string \<Rightarrow> (auth_error, session) action" where
  "auth_require_admin sha256 token =
    await (auth_validate_session sha256 token) (\<lambda>s.
    await_as AuthRepository (user_find_by_id (ses_user_id s)) (\<lambda>u.
    case u of
      None \<Rightarrow> return_err Unauthorized
    | Some u \<Rightarrow> if usr_role u \<noteq> Admin then return_err Forbidden else return_ok s))"

definition auth_logout :: "int \<Rightarrow> (auth_error, unit) action" where
  "auth_logout sid = await_as AuthRepository (session_revoke sid) (\<lambda>_. return_ok ())"

lemma keeps_auth [keeps_intros]:
  "keeps schema_ok (auth_login verify sha256 dummy rand email password)"
  "keeps I (auth_validate_session sha256 token)"
  "keeps I (auth_require_admin sha256 token)"
  "keeps schema_ok (auth_logout sid)"
proof -
  have pair: "keeps schema_ok (case (found, matches) of
      (Some u, False) \<Rightarrow> a u | (None, _) \<Rightarrow> b | (Some u, True) \<Rightarrow> c u)"
    if "\<And>u. keeps schema_ok (a u)" "keeps schema_ok b" "\<And>u. keeps schema_ok (c u)"
    for found matches and a c :: "user \<Rightarrow> (auth_error, login_outcome) action" and b
    using that by (cases found; cases matches) simp_all
  show "keeps schema_ok (auth_login verify sha256 dummy rand email password)"
    unfolding auth_login_def Let_def by (intro keeps_intros pair)
  show "keeps I (auth_validate_session sha256 token)"
    unfolding auth_validate_session_def by (intro keeps_intros)
  then show "keeps I (auth_require_admin sha256 token)"
    unfolding auth_require_admin_def by (intro keeps_intros)
  show "keeps schema_ok (auth_logout sid)"
    unfolding auth_logout_def by (intro keeps_intros)
qed

subsection \<open>Runs on a healthy connection\<close>

definition new_session_row :: "(string \<Rightarrow> 8 word list) \<Rightarrow> int \<Rightarrow> string \<Rightarrow> int \<Rightarrow> timestamp \<Rightarrow> session" where
  "new_session_row sha256 uid token i now = \<lparr> ses_id = i, ses_user_id = uid,
     ses_token_hash = hash_token sha256 token, ses_created_at = now,
     ses_expires_at = now + duration_days session_lifetime_days, ses_revoked_at = None \<rparr>"

definition login_logged :: "int \<Rightarrow> bool \<Rightarrow> world \<Rightarrow> world" where
  "login_logged uid success w = w\<lparr>spawned := spawned w @
     [AuditLogin \<lparr> nlh_user_id = uid, nlh_device_id = None, nlh_success = success \<rparr>]\<rparr>"

lemma auth_login_healthy:
  assumes "faults w = []" and "verify password (hash_to_verify dummy found) = Inr matches"
    and "found = find (\<lambda>u. usr_email u = email) (users (db w))"
    and fresh: "hash_token sha256 (generate_session_token rand) \<notin> keys ses_token_hash (sessions (db w))"
  shows "auth_login verify sha256 dummy rand email password w =
    (case found of
       None \<Rightarrow> (Inl InvalidCredentials, w)
     | Some u \<Rightarrow>
         if \<not> matches then (Inl InvalidCredentials, login_logged (usr_id u) False w)
         else
           let token = generate_session_token rand;
               s = new_session_row sha256 (usr_id u) token (seqs w T_sessions) (utc_now w) in
           (Inr \<lparr> lo_session_token = token, lo_user_id = usr_id u, lo_expires_at = ses_expires_at s \<rparr>,
            login_logged (usr_id u) True (w\<lparr>
              seqs := (seqs w)(T_sessions := seqs w T_sessions + 1),
              db := (db w)\<lparr>sessions := sessions (db w) @ [s]\<rparr>\<rparr>)))"
proof (cases found)
  case None
  with assms show ?thesis by (simp add: auth_login_def run_simps)
next
  case (Some u)
  then have "usr_id u \<in> keys usr_id (users (db w))"
    using assms(3) find_SomeD [of _ "users (db w)" u] by (auto simp: keys_def)
  moreover have "find (\<lambda>u. usr_email u = email) (users (db w)) = Some u" using Some assms(3) by simp
  ultimately show ?thesis
    using Some assms(1,2) fresh
    by (cases matches)
      (simp_all add: auth_login_def run_simps session_insert_def Let_def new_session_row_def login_logged_def)
qed

definition session_by_hash :: "string \<Rightarrow> tables \<Rightarrow> session option" where
  "session_by_hash h d = find (\<lambda>x. ses_token_hash x = h) (sessions d)"

definition session_live :: "session \<Rightarrow> timestamp \<Rightarrow> bool" where
  "session_live s now \<longleftrightarrow> ses_revoked_at s = None \<and> now < ses_expires_at s"

lemma auth_validate_session_healthy:
  "faults w = [] \<Longrightarrow> auth_validate_session sha256 token w =
    (case session_by_hash (hash_token sha256 token) (db w) of
       None \<Rightarrow> (Inl Unauthorized, w)
     | Some s \<Rightarrow> if session_live s (utc_now w) then (Inr s, w) else (Inl Unauthorized, w))"
  by (auto simp: auth_validate_session_def run_simps session_find_by_token_hash_def session_by_hash_def
      session_live_def split: option.split)

lemma auth_require_admin_healthy:
  "faults w = [] \<Longrightarrow> auth_require_admin sha256 token w =
    (case session_by_hash (hash_token sha256 token) (db w) of
       None \<Rightarrow> (Inl Unauthorized, w)
     | Some s \<Rightarrow>
         if session_live s (utc_now w) then
           (case find (\<lambda>u. usr_id u = ses_user_id s) (users (db w)) of
              None \<Rightarrow> (Inl Unauthorized, w)
            | Some u \<Rightarrow> if usr_role u = Admin then (Inr s, w) else (Inl Forbidden, w))
         else (Inl Unauthorized, w))"
  by (simp add: auth_require_admin_def await_run auth_validate_session_healthy run_simps split: option.split)

end
