(* ===== verification/AuthFacts.thy ===== *)
theory AuthFacts
  imports AuthService LicenseFacts
begin

text \<open>
  What authentication promises: a login issues exactly one session, to the account whose
  password matched; its token is good until it expires or is logged out and never afterwards;
  failed logins leave no session and do not tell an unknown email from a wrong password; admin
  routes need an admin account.
\<close>

lemma session_insert_InrE:
  assumes "session_insert ns w = (Inr s, w')"
  obtains "nse_token_hash ns \<notin> keys ses_token_hash (sessions (db w))"
    and "db w' = (db w)\<lparr>sessions := sessions (db w) @ [s]\<rparr>"
    and "ses_user_id s = nse_user_id ns" and "ses_token_hash s = nse_token_hash ns"
    and "ses_expires_at s = nse_expires_at ns" and "ses_revoked_at s = None"
  using assms unfolding session_insert_def by (elim sql_insert_InrE) simp

lemma auth_login_InrE:
  assumes "auth_login verify sha256 dummy rand email password w = (Inr out, w')"
  obtains u s where "u \<in> set (users (db w))" and "usr_email u = email"
    and "verify password (usr_password_hash u) = Inr True"
    and "hash_token sha256 (generate_session_token rand) \<notin> keys ses_token_hash (sessions (db w))"
    and "db w' = (db w)\<lparr>sessions := sessions (db w) @ [s]\<rparr>"
    and "ses_user_id s = usr_id u"
    and "ses_token_hash s = hash_token sha256 (generate_session_token rand)"
    and "ses_expires_at s = utc_now w + duration_days session_lifetime_days"
    and "ses_revoked_at s = None"
    and "out = \<lparr> lo_session_token = generate_session_token rand, lo_user_id = usr_id u,
      lo_expires_at = ses_expires_at s \<rparr>"
proof -
  from assms obtain found w1 where f: "user_find_by_email email w = (Inr found, w1)"
    and rest: "(case verify password (hash_to_verify dummy found) of
        Inl e \<Rightarrow> return_err (AuthRepository (InvalidData e))
      | Inr matches \<Rightarrow>
         (case (found, matches) of
            (Some u, False) \<Rightarrow> record_login (usr_id u) None False (return_err InvalidCredentials)
          | (None, _) \<Rightarrow> return_err InvalidCredentials
          | (Some u, True) \<Rightarrow>
              now_then (\<lambda>now.
              await_as AuthRepository (session_insert
                \<lparr> nse_user_id = usr_id u, nse_token_hash = hash_token sha256 (generate_session_token rand),
                  nse_expires_at = now + duration_days session_lifetime_days \<rparr>) (\<lambda>ses.
              record_login (usr_id u) None True
                (return_ok \<lparr> lo_session_token = generate_session_token rand, lo_user_id = usr_id u,
                   lo_expires_at = ses_expires_at ses \<rparr>))))) w1 = (Inr out, w')"
    unfolding auth_login_def Let_def by (elim await_as_InrE)
  from f have found: "found = find (\<lambda>u. usr_email u = email) (users (db w))" "db w1 = db w" "utc_now w1 = utc_now w"
    unfolding user_find_by_email_eq by (auto elim: sql_select_InrE)
  from rest obtain matches where m: "verify password (hash_to_verify dummy found) = Inr matches"
    by (cases "verify password (hash_to_verify dummy found)") (simp_all add: return_run)
  from rest m obtain u where u: "found = Some u" and True: "matches"
    by (cases found; cases matches) (auto simp: return_run record_run)
  with rest m obtain s w2 where ins: "session_insert
      \<lparr> nse_user_id = usr_id u, nse_token_hash = hash_token sha256 (generate_session_token rand),
        nse_expires_at = utc_now w1 + duration_days session_lifetime_days \<rparr> w1 = (Inr s, w2)"
    and fin: "out = \<lparr> lo_session_token = generate_session_token rand, lo_user_id = usr_id u,
        lo_expires_at = ses_expires_at s \<rparr>" "db w' = db w2"
    by (auto simp: now_then_run record_run return_run elim!: await_as_InrE)
  have "u \<in> set (users (db w)) \<and> usr_email u = email"
    using find_SomeD [of "\<lambda>u. usr_email u = email" "users (db w)" u] u found(1) by simp
  moreover have "verify password (usr_password_hash u) = Inr True"
    using m u True by (simp add: hash_to_verify_def)
  ultimately show ?thesis
    using ins fin found that by (auto elim!: session_insert_InrE)
qed

text \<open>A login succeeds only for an account whose own stored hash the password verifies against
  (never through the dummy hash of an unknown email), and then adds exactly one session, of that
  account, that carries only the hash of the token; under any schedule of database failures.\<close>

lemma login_safe:
  assumes "auth_login verify sha256 dummy rand email password w = (Inr out, w')"
  shows "\<exists>u s. u \<in> set (users (db w)) \<and> usr_email u = email
    \<and> verify password (usr_password_hash u) = Inr True \<and> lo_user_id out = usr_id u
    \<and> db w' = (db w)\<lparr>sessions := sessions (db w) @ [s]\<rparr> \<and> ses_user_id s = usr_id u
    \<and> ses_token_hash s = hash_token sha256 (lo_session_token out)"
  using assms by (rule auth_login_InrE) auto

text \<open>C12: login, then authenticate: the token a login returned resolves to a session of that account
  at every time before the expiry the login announced, thirty days on, and to \<open>Unauthorized\<close> from
  then on.\<close>

theorem login_then_authenticate:
  assumes "auth_login verify sha256 dummy rand email password w = (Inr out, w')"
  shows "lo_expires_at out = utc_now w + duration_days 30
    \<and> (case fst (auth_validate_session sha256 (lo_session_token out) (w'\<lparr>utc_now := t, faults := []\<rparr>)) of
        Inr s \<Rightarrow> t < lo_expires_at out \<and> ses_user_id s = lo_user_id out
      | Inl e \<Rightarrow> e = Unauthorized \<and> lo_expires_at out \<le> t)"
proof -
  obtain u :: user and s :: session where s: "hash_token sha256 (generate_session_token rand) \<notin> keys ses_token_hash (sessions (db w))"
    "db w' = (db w)\<lparr>sessions := sessions (db w) @ [s]\<rparr>" "ses_user_id s = usr_id u"
    "ses_token_hash s = hash_token sha256 (generate_session_token rand)" "ses_revoked_at s = None"
    "ses_expires_at s = utc_now w + duration_days session_lifetime_days"
    "out = \<lparr> lo_session_token = generate_session_token rand, lo_user_id = usr_id u,
      lo_expires_at = ses_expires_at s \<rparr>"
    using assms by (rule auth_login_InrE) blast
  have "find (\<lambda>x. ses_token_hash x = hash_token sha256 (generate_session_token rand)) (sessions (db w)) = None"
    using s(1) by (rule find_fresh)
  then have "session_by_hash (hash_token sha256 (lo_session_token out)) (db w') = Some s"
    using s(2,4,7) by (simp add: session_by_hash_def find_snoc)
  then show ?thesis
    using s by (auto simp: auth_validate_session_healthy session_live_def not_less session_lifetime_days_def)
qed

text \<open>A failed login gives nothing away and nothing out: with an unknown email or a wrong password
  the answer is the same \<open>InvalidCredentials\<close>, and no table changes.\<close>

lemma login_failure_uniform:
  assumes "faults w = []"
    and "(\<forall>u \<in> set (users (db w)). usr_email u \<noteq> email) \<and> (\<exists>b. verify password dummy = Inr b)
      \<or> (\<exists>u. find (\<lambda>u. usr_email u = email) (users (db w)) = Some u
           \<and> verify password (usr_password_hash u) = Inr False)"
    and "auth_login verify sha256 dummy rand email password w = (r, w')"
  shows "r = Inl InvalidCredentials \<and> db w' = db w"
  using assms(2)
proof
  assume u: "(\<forall>u \<in> set (users (db w)). usr_email u \<noteq> email) \<and> (\<exists>b. verify password dummy = Inr b)"
  then have "find (\<lambda>u. usr_email u = email) (users (db w)) = None"
    by (auto simp: find_None_iff)
  with u assms(1,3) show ?thesis
    by (auto simp: auth_login_def run_simps hash_to_verify_def)
next
  assume "\<exists>u. find (\<lambda>u. usr_email u = email) (users (db w)) = Some u
      \<and> verify password (usr_password_hash u) = Inr False"
  with assms(1,3) show ?thesis
    by (auto simp: auth_login_def run_simps hash_to_verify_def)
qed

lemma auth_validate_InrE:
  assumes "auth_validate_session sha256 token w = (Inr s, w')"
  obtains "session_by_hash (hash_token sha256 token) (db w) = Some s" and "session_live s (utc_now w)"
    and "db w' = db w"
proof -
  from assms have "session_by_hash (hash_token sha256 token) (db w) = Some s
      \<and> session_live s (utc_now w) \<and> db w' = db w"
    unfolding auth_validate_session_def session_find_by_token_hash_def
    by (auto elim!: await_as_InrE sql_select_InrE return_okE split: option.splits if_splits
        simp: now_then_run return_run session_by_hash_def session_live_def)
  then show ?thesis using that by blast
qed

text \<open>The admin guard lets a request pass only with the token of a live session whose account
  holds the admin role, under any schedule of database failures.\<close>

lemma require_admin_safe:
  assumes "auth_require_admin sha256 token w = (Inr s, w')"
  shows "s \<in> set (sessions (db w)) \<and> ses_token_hash s = hash_token sha256 token
    \<and> session_live s (utc_now w)
    \<and> (\<exists>u \<in> set (users (db w)). usr_id u = ses_user_id s \<and> usr_role u = Admin)"
proof -
  from assms obtain s' w1 found w2 where v: "auth_validate_session sha256 token w = (Inr s', w1)"
    and f: "user_find_by_id (ses_user_id s') w1 = (Inr found, w2)"
    and rest: "(case found of None \<Rightarrow> return_err Unauthorized
      | Some u \<Rightarrow> if usr_role u \<noteq> Admin then return_err Forbidden else return_ok s') w2 = (Inr s, w')"
    unfolding auth_require_admin_def by (elim await_InrE await_as_InrE)
  from v have ses: "session_by_hash (hash_token sha256 token) (db w) = Some s'"
    "session_live s' (utc_now w)" "db w1 = db w"
    by (rule auth_validate_InrE, simp)+
  from f have "found = find (\<lambda>u. usr_id u = ses_user_id s') (users (db w))"
    using ses(3) unfolding user_find_by_id_eq by (auto elim: sql_select_InrE)
  moreover from rest obtain u where "found = Some u" "usr_role u = Admin" "s = s'"
    by (cases found) (auto simp: return_run split: if_splits)
  ultimately have "u \<in> set (users (db w)) \<and> usr_id u = ses_user_id s"
    using find_SomeD [of "\<lambda>u. usr_id u = ses_user_id s'" "users (db w)" u] by simp
  moreover have "s \<in> set (sessions (db w)) \<and> ses_token_hash s = hash_token sha256 token"
    using ses(1) \<open>s = s'\<close> find_SomeD [of "\<lambda>x. ses_token_hash x = hash_token sha256 token" "sessions (db w)" s']
    by (simp add: session_by_hash_def)
  ultimately show ?thesis using ses(2) \<open>s = s'\<close> \<open>usr_role u = Admin\<close> by blast
qed

text \<open>Logging a session out is final: its token is answered with \<open>Unauthorized\<close> from then on.\<close>

lemma logout_is_final:
  assumes "schema_ok (db w) (seqs w)"
    and "session_by_hash (hash_token sha256 token) (db w) = Some s"
    and "auth_logout (ses_id s) w = (Inr (), w')"
  shows "fst (auth_validate_session sha256 token (w'\<lparr>utc_now := t, faults := []\<rparr>)) = Inl Unauthorized"
proof -
  have "db w' = (db w)\<lparr>sessions := update_where (\<lambda>x. ses_id x = ses_id s)
      (\<lambda>x. x\<lparr>ses_revoked_at := Some (utc_now w)\<rparr>) (sessions (db w))\<rparr>"
    using assms(3) unfolding auth_logout_def session_revoke_def
    by (elim await_as_InrE sql_update_InrE) (simp add: return_run)
  then have "session_by_hash (hash_token sha256 token) (db w')
      = Some (s\<lparr>ses_revoked_at := Some (utc_now w)\<rparr>)"
    using assms(2) by (simp add: session_by_hash_def find_update_where)
  then show ?thesis by (simp add: auth_validate_session_healthy session_live_def)
qed

lemma parse_hex_pair_SomeD:
  assumes "parse_hex_pair a b = Some x"
  shows "a = CHR ''+'' \<or> hex_value a \<noteq> None" "hex_value b \<noteq> None"
  using assms by (auto simp: parse_hex_pair_def split: if_splits option.splits)

lemma hex_decode_SomeD:
  "hex_decode h = Some bs \<Longrightarrow> even (length h) \<and> (\<forall>c \<in> set h. c = CHR ''+'' \<or> hex_value c \<noteq> None)"
proof (induction h arbitrary: bs rule: hex_decode.induct)
  case (3 a b s)
  from 3(2) obtain x bs' where x: "parse_hex_pair a b = Some x" and s: "hex_decode s = Some bs'"
    by (simp split: option.splits) blast
  from 3(1) [OF x s] parse_hex_pair_SomeD [OF x] show ?case by simp
qed simp_all

text \<open>A webhook signature is accepted exactly for the body it was computed over: the hex form of a
  body's MAC verifies another body if and only if both have the same MAC, and a header of odd
  length or with a character outside hex is rejected.\<close>

lemma webhook_signature_exact:
  "(verify_webhook_signature hmac secret body' (hex_encode (hmac secret body))
      \<longleftrightarrow> hmac secret body' = hmac secret body)
    \<and> (odd (length h) \<or> (\<exists>c \<in> set h. c \<noteq> CHR ''+'' \<and> hex_value c = None)
      \<longrightarrow> \<not> verify_webhook_signature hmac secret body h)"
proof (intro conjI impI)
  show "verify_webhook_signature hmac secret body' (hex_encode (hmac secret body))
      \<longleftrightarrow> hmac secret body' = hmac secret body"
    unfolding verify_webhook_signature_def hex.dec_enc by (simp only: option.case)
  assume "odd (length h) \<or> (\<exists>c \<in> set h. c \<noteq> CHR ''+'' \<and> hex_value c = None)"
  then have "hex_decode h \<noteq> Some bs" for bs by (metis hex_decode_SomeD)
  then have "hex_decode h = None" by (metis not_None_eq)
  then show "\<not> verify_webhook_signature hmac secret body h"
    by (simp add: verify_webhook_signature_def)
qed

end
