(* ===== verification/AdminService.thy ===== *)
theory AdminService
  imports LicenseService
begin

text \<open>
  The admin console: \<open>domain/admin.rs\<close> (pagination and filters), the list queries and lookups of
  \<open>repository/admin.rs\<close>, and \<open>service/admin_service.rs\<close>. A list query counts the matching rows,
  then fetches one \<open>LIMIT\<close>/\<open>OFFSET\<close> window of them in its order; rows that tie in that order
  come in the order of insertion here (SQL leaves it open). Postgres' \<open>ILIKE\<close> is an argument.
\<close>

subsection \<open>Pagination\<close>

record pagination =
  pg_page :: int
  pg_page_size :: int

definition default_page_size :: int where
  "default_page_size = 20"

definition max_page_size :: int where
  "max_page_size = 100"

definition pagination_new :: "int option \<Rightarrow> int option \<Rightarrow> pagination" where
  "pagination_new page page_size =
    \<lparr> pg_page = (case page of Some p \<Rightarrow> if 1 \<le> p then p else 1 | None \<Rightarrow> 1),
      pg_page_size = (case page_size of
         Some s \<Rightarrow> if 1 \<le> s then min s max_page_size else default_page_size
       | None \<Rightarrow> default_page_size) \<rparr>"

definition pagination_limit :: "pagination \<Rightarrow> int" where
  "pagination_limit pg = pg_page_size pg"

text \<open>\<open>i64\<close> arithmetic as a release build performs it: the product wraps.\<close>

definition pagination_offset :: "pagination \<Rightarrow> int" where
  "pagination_offset pg = sint (word_of_int ((pg_page pg - 1) * pg_page_size pg) :: 64 word)"

record 'a page_of =
  po_items :: "'a list"
  po_page :: int
  po_page_size :: int
  po_total :: int

datatype sort_order = Ascending | Descending

subsection \<open>Filters and rows\<close>

record user_list_filter =
  ulf_search :: "string option"
  ulf_sort_order :: sort_order
  ulf_pagination :: pagination

record admin_user_summary =
  aus_id :: int
  aus_email :: string
  aus_company_name :: "string option"
  aus_role :: user_role
  aus_subscription_status :: "subscription_status option"
  aus_created_at :: timestamp

record license_list_filter =
  llf_status :: "license_record_status option"
  llf_plan_type :: "plan_type option"
  llf_expires_before :: "timestamp option"
  llf_expires_after :: "timestamp option"
  llf_pagination :: pagination

record admin_license_summary =
  als_id :: int
  als_license_key :: string
  als_status :: license_record_status
  als_plan_type :: plan_type
  als_expires_at :: "timestamp option"
  als_max_devices :: int
  als_issued_at :: timestamp
  als_user_id :: int

record device_list_filter =
  dlf_user_id :: "int option"
  dlf_license_id :: "int option"
  dlf_pagination :: pagination

record admin_device_summary =
  ads_id :: int
  ads_license_id :: int
  ads_user_id :: int
  ads_device_id :: uuid
  ads_device_label :: "string option"
  ads_last_seen_at :: timestamp
  ads_is_active :: bool

record login_history_filter =
  lhf_user_id :: "int option"
  lhf_success :: "bool option"
  lhf_from :: "timestamp option"
  lhf_to :: "timestamp option"
  lhf_pagination :: pagination

record license_validation_filter =
  lvf_license_id :: "int option"
  lvf_result :: "validation_log_result option"
  lvf_from :: "timestamp option"
  lvf_to :: "timestamp option"
  lvf_pagination :: pagination

record admin_user_row =
  aur_id :: int
  aur_email :: string
  aur_company_name :: "string option"
  aur_role :: string
  aur_subscription_status :: "string option"
  aur_created_at :: timestamp

definition admin_user_try_from :: "admin_user_row \<Rightarrow> repository_error + admin_user_summary" where
  "admin_user_try_from row =
    (case map_err InvalidData (user_role_from_str (aur_role row)) of
       Inl e \<Rightarrow> Inl e
     | Inr role \<Rightarrow>
        (case map_err InvalidData (transpose_option
            (map_option subscription_status_from_str (aur_subscription_status row))) of
           Inl e \<Rightarrow> Inl e
         | Inr st \<Rightarrow> Inr \<lparr> aus_id = aur_id row, aus_email = aur_email row,
             aus_company_name = aur_company_name row, aus_role = role,
             aus_subscription_status = st, aus_created_at = aur_created_at row \<rparr>))"

record admin_license_row =
  alr_id :: int
  alr_license_key :: string
  alr_status :: string
  alr_plan_type :: string
  alr_expires_at :: "timestamp option"
  alr_max_devices :: int
  alr_issued_at :: timestamp
  alr_user_id :: int

definition admin_license_try_from :: "admin_license_row \<Rightarrow> repository_error + admin_license_summary" where
  "admin_license_try_from row =
    (case map_err InvalidData (license_status_from_str (alr_status row)) of
       Inl e \<Rightarrow> Inl e
     | Inr st \<Rightarrow>
        (case map_err InvalidData (plan_from_str (alr_plan_type row)) of
           Inl e \<Rightarrow> Inl e
         | Inr plan \<Rightarrow> Inr \<lparr> als_id = alr_id row, als_license_key = alr_license_key row,
             als_status = st, als_plan_type = plan, als_expires_at = alr_expires_at row,
             als_max_devices = alr_max_devices row, als_issued_at = alr_issued_at row,
             als_user_id = alr_user_id row \<rparr>))"

record admin_device_row =
  adr_id :: int
  adr_license_id :: int
  adr_user_id :: int
  adr_device_id :: uuid
  adr_device_label :: "string option"
  adr_last_seen_at :: timestamp
  adr_deactivated_at :: "timestamp option"

definition admin_device_from :: "admin_device_row \<Rightarrow> admin_device_summary" where
  "admin_device_from row = \<lparr> ads_id = adr_id row, ads_license_id = adr_license_id row,
     ads_user_id = adr_user_id row, ads_device_id = adr_device_id row,
     ads_device_label = adr_device_label row, ads_last_seen_at = adr_last_seen_at row,
     ads_is_active = (adr_deactivated_at row = None) \<rparr>"

record license_validation_row =
  lvr_id :: int
  lvr_license_id :: int
  lvr_device_id :: uuid
  lvr_result :: string
  lvr_created_at :: timestamp

definition license_validation_try_from ::
  "license_validation_row \<Rightarrow> repository_error + license_validation_entry" where
  "license_validation_try_from row =
    (case map_err InvalidData (log_result_from_str (lvr_result row)) of
       Inl e \<Rightarrow> Inl e
     | Inr res \<Rightarrow> Inr \<lparr> lv_id = lvr_id row, lv_license_id = lvr_license_id row,
         lv_device_id = lvr_device_id row, lv_result = res, lv_created_at = lvr_created_at row \<rparr>)"

subsection \<open>Queries\<close>

fun collect_results :: "('e + 'a) list \<Rightarrow> 'e + 'a list" where
  "collect_results [] = Inr []"
| "collect_results (Inl e # rs) = Inl e"
| "collect_results (Inr x # rs) = (case collect_results rs of Inl e \<Rightarrow> Inl e | Inr xs \<Rightarrow> Inr (x # xs))"

definition window :: "pagination \<Rightarrow> 'r list \<Rightarrow> 'r list" where
  "window pg rows = take (nat (pagination_limit pg)) (drop (nat (pagination_offset pg)) rows)"

text \<open>The \<open>COUNT\<close> and the windowed \<open>SELECT\<close> every list method runs, in this order.\<close>

definition list_page ::
  "(tables \<Rightarrow> 'r list) \<Rightarrow> ('r \<Rightarrow> repository_error + 'i) \<Rightarrow> pagination \<Rightarrow> (repository_error, 'i page_of) action" where
  "list_page rows dec pg =
    await (sql_select (\<lambda>d. int (length (rows d)))) (\<lambda>total.
    await (sql (\<lambda>w. if pagination_offset pg < 0 then (Inl (Database NegativeOffset), w)
                    else (Inr (window pg (rows (db w))), w))) (\<lambda>rs.
    case collect_results (map dec rs) of
      Inl e \<Rightarrow> return_err e
    | Inr items \<Rightarrow> return_ok \<lparr> po_items = items, po_page = pg_page pg,
        po_page_size = pg_page_size pg, po_total = total \<rparr>))"

definition opt_all :: "'a option \<Rightarrow> ('a \<Rightarrow> bool) \<Rightarrow> bool" where
  "opt_all x p = (case x of None \<Rightarrow> True | Some y \<Rightarrow> p y)"

definition opt_any :: "'a option \<Rightarrow> ('a \<Rightarrow> bool) \<Rightarrow> bool" where
  "opt_any x p = (case x of None \<Rightarrow> False | Some y \<Rightarrow> p y)"

definition newest_first :: "('r \<Rightarrow> timestamp) \<Rightarrow> 'r list \<Rightarrow> 'r list" where
  "newest_first ts rows = sort_key (\<lambda>r. - ts r) rows"

definition user_filter :: "(string \<Rightarrow> string \<Rightarrow> bool) \<Rightarrow> user_list_filter \<Rightarrow> user \<Rightarrow> bool" where
  "user_filter ilike f u \<longleftrightarrow> opt_all (ulf_search f) (\<lambda>search.
     let pattern = ''%'' @ search @ ''%'' in
     ilike (usr_email u) pattern \<or> opt_any (usr_company_name u) (\<lambda>c. ilike c pattern))"

definition admin_user_row_of :: "tables \<Rightarrow> user \<Rightarrow> admin_user_row" where
  "admin_user_row_of d u = \<lparr> aur_id = usr_id u, aur_email = usr_email u,
     aur_company_name = usr_company_name u, aur_role = user_role_as_str (usr_role u),
     aur_subscription_status = map_option (\<lambda>b. subscription_status_as_str (sub_status b))
       (latest_by sub_created_at (filter (\<lambda>b. sub_user_id b = usr_id u) (subscriptions d))),
     aur_created_at = usr_created_at u \<rparr>"

definition admin_list_users ::
  "(string \<Rightarrow> string \<Rightarrow> bool) \<Rightarrow> user_list_filter \<Rightarrow> (repository_error, admin_user_summary page_of) action" where
  "admin_list_users ilike f =
    list_page (\<lambda>d. map (admin_user_row_of d)
        ((case ulf_sort_order f of
            Ascending \<Rightarrow> sort_key usr_created_at
          | Descending \<Rightarrow> newest_first usr_created_at)
         (filter (user_filter ilike f) (users d))))
      admin_user_try_from (ulf_pagination f)"

definition license_filter :: "license_list_filter \<Rightarrow> license \<times> subscription \<Rightarrow> bool" where
  "license_filter f p \<longleftrightarrow>
     opt_all (llf_status f) (\<lambda>st. lic_status (fst p) = st)
     \<and> opt_all (llf_plan_type f) (\<lambda>plan. sub_plan_type (snd p) = plan)
     \<and> opt_all (llf_expires_before f) (\<lambda>t. opt_any (lic_expires_at (fst p)) (\<lambda>e. e < t))
     \<and> opt_all (llf_expires_after f) (\<lambda>t. opt_any (lic_expires_at (fst p)) (\<lambda>e. t < e))"

definition licenses_joined :: "tables \<Rightarrow> (license \<times> subscription) list" where
  "licenses_joined d = concat (map (\<lambda>l. map (Pair l)
     (filter (\<lambda>b. sub_id b = lic_subscription_id l) (subscriptions d))) (licenses d))"

definition admin_license_row_of :: "license \<times> subscription \<Rightarrow> admin_license_row" where
  "admin_license_row_of p = \<lparr> alr_id = lic_id (fst p), alr_license_key = lic_key (fst p),
     alr_status = license_status_as_str (lic_status (fst p)), alr_plan_type = plan_as_str (sub_plan_type (snd p)),
     alr_expires_at = lic_expires_at (fst p), alr_max_devices = lic_max_devices (fst p),
     alr_issued_at = lic_issued_at (fst p), alr_user_id = sub_user_id (snd p) \<rparr>"

definition admin_list_licenses ::
  "license_list_filter \<Rightarrow> (repository_error, admin_license_summary page_of) action" where
  "admin_list_licenses f =
    list_page (\<lambda>d. map admin_license_row_of
        (newest_first (\<lambda>p. lic_issued_at (fst p)) (filter (license_filter f) (licenses_joined d))))
      admin_license_try_from (llf_pagination f)"

definition devices_joined :: "tables \<Rightarrow> (device \<times> license \<times> subscription) list" where
  "devices_joined d = concat (map (\<lambda>x. map (Pair x)
     (filter (\<lambda>p. lic_id (fst p) = dev_license_id x) (licenses_joined d))) (devices d))"

definition device_filter :: "device_list_filter \<Rightarrow> device \<times> license \<times> subscription \<Rightarrow> bool" where
  "device_filter f p \<longleftrightarrow>
     opt_all (dlf_user_id f) (\<lambda>u. sub_user_id (snd (snd p)) = u)
     \<and> opt_all (dlf_license_id f) (\<lambda>l. dev_license_id (fst p) = l)"

definition admin_device_row_of :: "device \<times> license \<times> subscription \<Rightarrow> admin_device_row" where
  "admin_device_row_of p = \<lparr> adr_id = dev_id (fst p), adr_license_id = dev_license_id (fst p),
     adr_user_id = sub_user_id (snd (snd p)), adr_device_id = dev_device_id (fst p),
     adr_device_label = dev_device_label (fst p), adr_last_seen_at = dev_last_seen_at (fst p),
     adr_deactivated_at = dev_deactivated_at (fst p) \<rparr>"

definition admin_list_devices ::
  "device_list_filter \<Rightarrow> (repository_error, admin_device_summary page_of) action" where
  "admin_list_devices f =
    list_page (\<lambda>d. map admin_device_row_of
        (newest_first (\<lambda>p. dev_last_seen_at (fst p)) (filter (device_filter f) (devices_joined d))))
      (\<lambda>row. Inr (admin_device_from row)) (dlf_pagination f)"

definition admin_find_device_by_id :: "int \<Rightarrow> (repository_error, admin_device_summary option) action" where
  "admin_find_device_by_id i = sql_select (\<lambda>d. map_option (\<lambda>p. admin_device_from (admin_device_row_of p))
     (find (\<lambda>p. dev_id (fst p) = i) (devices_joined d)))"

definition login_filter :: "login_history_filter \<Rightarrow> login_history_entry \<Rightarrow> bool" where
  "login_filter f e \<longleftrightarrow>
     opt_all (lhf_user_id f) (\<lambda>u. lh_user_id e = u) \<and> opt_all (lhf_success f) (\<lambda>b. lh_success e = b)
     \<and> opt_all (lhf_from f) (\<lambda>t. t \<le> lh_created_at e) \<and> opt_all (lhf_to f) (\<lambda>t. lh_created_at e \<le> t)"

definition admin_list_login_history ::
  "login_history_filter \<Rightarrow> (repository_error, login_history_entry page_of) action" where
  "admin_list_login_history f =
    list_page (\<lambda>d. newest_first lh_created_at (filter (login_filter f) (login_history d)))
      Inr (lhf_pagination f)"

definition validation_filter :: "license_validation_filter \<Rightarrow> license_validation_entry \<Rightarrow> bool" where
  "validation_filter f e \<longleftrightarrow>
     opt_all (lvf_license_id f) (\<lambda>l. lv_license_id e = l) \<and> opt_all (lvf_result f) (\<lambda>r. lv_result e = r)
     \<and> opt_all (lvf_from f) (\<lambda>t. t \<le> lv_created_at e) \<and> opt_all (lvf_to f) (\<lambda>t. lv_created_at e \<le> t)"

definition validation_row_of :: "license_validation_entry \<Rightarrow> license_validation_row" where
  "validation_row_of e = \<lparr> lvr_id = lv_id e, lvr_license_id = lv_license_id e,
     lvr_device_id = lv_device_id e, lvr_result = log_result_as_str (lv_result e),
     lvr_created_at = lv_created_at e \<rparr>"

definition admin_list_license_validations ::
  "license_validation_filter \<Rightarrow> (repository_error, license_validation_entry page_of) action" where
  "admin_list_license_validations f =
    list_page (\<lambda>d. map validation_row_of
        (newest_first lv_created_at (filter (validation_filter f) (validation_logs d))))
      license_validation_try_from (lvf_pagination f)"

subsection \<open>The service\<close>

datatype admin_operation_error =
    AdminLicenseNotFound
  | AdminLicenseNotRevoked
  | AdminDeviceNotFound
  | AdminRepository repository_error

definition admin_revoke_license :: "int \<Rightarrow> string option \<Rightarrow> (admin_operation_error, license) action" where
  "admin_revoke_license lid reason =
    await_as AdminRepository (license_find_by_id lid) (\<lambda>found.
    case found of
      None \<Rightarrow> return_err AdminLicenseNotFound
    | Some _ \<Rightarrow>
        await_as AdminRepository (admin_revoke_license_row lid reason) (\<lambda>_.
        await_as AdminRepository (license_find_by_id lid) (\<lambda>updated.
        case updated of
          None \<Rightarrow> return_err AdminLicenseNotFound
        | Some l \<Rightarrow> return_ok l)))"

definition admin_restore_license :: "int \<Rightarrow> (admin_operation_error, license) action" where
  "admin_restore_license lid =
    await_as AdminRepository (license_find_by_id lid) (\<lambda>found.
    case found of
      None \<Rightarrow> return_err AdminLicenseNotFound
    | Some l \<Rightarrow>
        if lic_status l \<noteq> LicRevoked then return_err AdminLicenseNotRevoked
        else
          await_as AdminRepository (admin_restore_license_row lid) (\<lambda>_.
          await_as AdminRepository (license_find_by_id lid) (\<lambda>updated.
          case updated of
            None \<Rightarrow> return_err AdminLicenseNotFound
          | Some l \<Rightarrow> return_ok l)))"

definition admin_deactivate_device :: "int \<Rightarrow> (admin_operation_error, unit) action" where
  "admin_deactivate_device i =
    await_as AdminRepository (admin_find_device_by_id i) (\<lambda>found.
    case found of
      None \<Rightarrow> return_err AdminDeviceNotFound
    | Some _ \<Rightarrow> await_as AdminRepository (device_deactivate i) (\<lambda>_. return_ok ()))"

definition admin_activate_device :: "int \<Rightarrow> (admin_operation_error, unit) action" where
  "admin_activate_device i =
    await_as AdminRepository (admin_find_device_by_id i) (\<lambda>found.
    case found of
      None \<Rightarrow> return_err AdminDeviceNotFound
    | Some _ \<Rightarrow> await_as AdminRepository (admin_reactivate_device_row i) (\<lambda>_. return_ok ()))"

lemma keeps_list_page [keeps_intros]: "keeps I (list_page rows dec pg)"
  unfolding list_page_def by (intro keeps_intros) (rule keeps_sql, simp)

lemma keeps_admin [keeps_intros]:
  "keeps I (admin_find_device_by_id i)"
  "keeps schema_ok (admin_revoke_license lid reason)"
  "keeps schema_ok (admin_restore_license lid)"
  "keeps schema_ok (admin_deactivate_device i)"
  "keeps schema_ok (admin_activate_device i)"
proof -
  show find: "keeps I (admin_find_device_by_id i)" for I
    unfolding admin_find_device_by_id_def by (intro keeps_intros)
  show "keeps schema_ok (admin_revoke_license lid reason)" "keeps schema_ok (admin_restore_license lid)"
    "keeps schema_ok (admin_deactivate_device i)" "keeps schema_ok (admin_activate_device i)"
    unfolding admin_revoke_license_def admin_restore_license_def admin_deactivate_device_def
      admin_activate_device_def
    by (intro keeps_intros find)+
qed

end
