(* ===== verification/AdminFacts.thy ===== *)
theory AdminFacts
  imports AdminService LicenseFacts
begin

text \<open>
  What the admin console promises: page bounds and the exactness of the offset, lists whose pages
  put together are the whole filtered list, and the round trip of revoking and restoring a
  license as \<open>/validate-license\<close> sees it.
\<close>

subsection \<open>Pagination\<close>

lemma pagination_new_bounds:
  "1 \<le> pg_page (pagination_new p s)" "1 \<le> pg_page_size (pagination_new p s)"
  "pg_page_size (pagination_new p s) \<le> 100"
  by (auto simp: pagination_new_def max_page_size_def default_page_size_def split: option.split)

lemma sint_small:
  assumes "- (2 ^ 63) \<le> n" and "n < 2 ^ 63"
  shows "sint (word_of_int n :: 64 word) = n"
  using assms by (simp add: signed_of_int signed_take_bit_int_eq_self)

lemma offset_exact:
  assumes "1 \<le> pg_page pg" and "pg_page pg \<le> 2 ^ 56" and "1 \<le> pg_page_size pg" and "pg_page_size pg \<le> 100"
  shows "pagination_offset pg = (pg_page pg - 1) * pg_page_size pg"
proof -
  have nonneg: "0 \<le> (pg_page pg - 1) * pg_page_size pg"
    using assms by (intro mult_nonneg_nonneg) simp_all
  have "(pg_page pg - 1) * pg_page_size pg \<le> 2 ^ 56 * 100"
    using assms by (intro mult_mono) simp_all
  then show ?thesis
    unfolding pagination_offset_def using nonneg by (intro sint_small) simp_all
qed

text \<open>Whatever page and size a query string asks for, the page is at least one and the size
  between 1 and 100, and for every page up to \<open>2 ^ 56\<close> the offset is exactly \<open>(page - 1) * size\<close>;
  but the page is not bounded above, and there are pages whose 64-bit offset is negative.\<close>

lemma pagination_bounds:
  "1 \<le> pg_page (pagination_new p s)
   \<and> pagination_limit (pagination_new p s) \<in> {1..100}
   \<and> (pg_page (pagination_new p s) \<le> 2 ^ 56 \<longrightarrow> pagination_offset (pagination_new p s)
        = (pg_page (pagination_new p s) - 1) * pagination_limit (pagination_new p s))
   \<and> pagination_offset (pagination_new (Some (10 ^ 17)) (Some 100)) < 0"
proof -
  have "pagination_offset (pagination_new (Some (10 ^ 17)) (Some 100)) < 0"
    by code_simp
  then show ?thesis
    using pagination_new_bounds [of p s] offset_exact [of "pagination_new p s"]
    by (simp add: pagination_limit_def)
qed

subsection \<open>Lists\<close>

lemma collect_map_Inr:
  "(\<And>r. r \<in> set rows \<Longrightarrow> dec r = Inr (f r)) \<Longrightarrow> collect_results (map dec rows) = Inr (map f rows)"
  by (induction rows) auto

lemma list_page_healthy:
  assumes "faults w = []" and "0 \<le> pagination_offset pg"
    and "\<And>r. r \<in> set (rows (db w)) \<Longrightarrow> dec r = Inr (f r)"
  shows "list_page rows dec pg w = (Inr \<lparr> po_items = map f (window pg (rows (db w))),
    po_page = pg_page pg, po_page_size = pg_page_size pg, po_total = int (length (rows (db w))) \<rparr>, w)"
proof -
  have "r \<in> set (window pg (rows (db w))) \<Longrightarrow> dec r = Inr (f r)" for r
    using assms(3) by (auto simp: window_def dest: in_set_takeD in_set_dropD)
  then have "collect_results (map dec (window pg (rows (db w)))) = Inr (map f (window pg (rows (db w))))"
    by (rule collect_map_Inr)
  with assms(1,2) show ?thesis by (simp add: list_page_def run_simps)
qed

text \<open>Consecutive windows put together are a prefix of the list.\<close>

lemma windows_prefix:
  assumes "0 < sz"
  shows "concat (map (\<lambda>k. take sz (drop (k * sz) rows)) [0..<n]) = take (n * sz) rows"
proof (induction n)
  case (Suc n)
  have "Suc n * sz = n * sz + sz" by simp
  then have "take (Suc n * sz) rows = take (n * sz) rows @ take sz (drop (n * sz) rows)"
    by (simp only: take_add)
  with Suc show ?case by simp
qed simp

definition page_number :: "nat \<Rightarrow> int \<Rightarrow> pagination" where
  "page_number k sz = pagination_new (Some (int k + 1)) (Some sz)"

lemma window_page_number:
  assumes "1 \<le> sz" and "sz \<le> 100" and "int k < 2 ^ 56"
  shows "window (page_number k sz) rows = take (nat sz) (drop (k * nat sz) rows)"
    and "0 \<le> pagination_offset (page_number k sz)"
proof -
  have pg: "pg_page (page_number k sz) = int k + 1" "pg_page_size (page_number k sz) = sz"
    using assms by (auto simp: page_number_def pagination_new_def max_page_size_def)
  then have off: "pagination_offset (page_number k sz) = int k * sz"
    using assms offset_exact [of "page_number k sz"] by simp
  then show "0 \<le> pagination_offset (page_number k sz)" using assms(1) by simp
  show "window (page_number k sz) rows = take (nat sz) (drop (k * nat sz) rows)"
    using off pg assms(1) by (simp add: window_def pagination_limit_def nat_mult_distrib)
qed

lemma pages_cover:
  assumes "faults w = []" and "1 \<le> sz" and "sz \<le> 100" and "int n \<le> 2 ^ 56"
    and "length (rows (db w)) \<le> n * nat sz"
    and "\<And>r. r \<in> set (rows (db w)) \<Longrightarrow> dec r = Inr (f r)"
  shows "concat (map (\<lambda>k. case fst (list_page rows dec (page_number k sz) w) of
      Inr pg \<Rightarrow> po_items pg | Inl _ \<Rightarrow> []) [0..<n]) = map f (rows (db w))"
proof -
  have "(case fst (list_page rows dec (page_number k sz) w) of Inr pg \<Rightarrow> po_items pg | Inl _ \<Rightarrow> [])
      = map f (take (nat sz) (drop (k * nat sz) (rows (db w))))" if "k < n" for k
    using window_page_number(1) [of sz k "rows (db w)"] window_page_number(2) [of sz k] assms that
    by (subst list_page_healthy [where f = f]) auto
  then have "concat (map (\<lambda>k. case fst (list_page rows dec (page_number k sz) w) of
      Inr pg \<Rightarrow> po_items pg | Inl _ \<Rightarrow> []) [0..<n])
    = concat (map (\<lambda>k. map f (take (nat sz) (drop (k * nat sz) (rows (db w))))) [0..<n])"
    by (intro arg_cong [of _ _ concat] map_cong) simp_all
  also have "\<dots> = map f (concat (map (\<lambda>k. take (nat sz) (drop (k * nat sz) (rows (db w)))) [0..<n]))"
    by (simp add: map_concat comp_def)
  also have "\<dots> = map f (rows (db w))"
    using assms(2,5) by (simp add: windows_prefix)
  finally show ?thesis .
qed

lemma keyed_filter_one:
  "keyed key rows \<Longrightarrow> r \<in> set rows \<Longrightarrow> filter (\<lambda>x. key x = key r) rows = [r]"
proof (induction rows)
  case (Cons x xs)
  then show ?case by (auto simp: keyed_def filter_empty_conv image_iff)
qed simp

lemma licenses_joined_fst:
  assumes "schema_ok d s"
  shows "map fst (licenses_joined d) = licenses d"
proof -
  have "filter (\<lambda>b. sub_id b = lic_subscription_id l) (subscriptions d)
      = [the (find (\<lambda>b. sub_id b = lic_subscription_id l) (subscriptions d))]"
    if l: "l \<in> set (licenses d)" for l
  proof -
    obtain b where b: "b \<in> set (subscriptions d)" "sub_id b = lic_subscription_id l"
      by (rule schema_license_subscription [OF assms l])
    with keyed_filter_one [OF schema_keyed(3) [OF assms] b(1)]
      find_keyed [OF schema_keyed(3) [OF assms] b(1) b(2)]
    show ?thesis by simp
  qed
  then have "map fst (concat (map (\<lambda>l. map (Pair l)
      (filter (\<lambda>b. sub_id b = lic_subscription_id l) (subscriptions d))) ls)) = ls"
    if "set ls \<subseteq> set (licenses d)" for ls
    using that by (induction ls) auto
  then show ?thesis by (simp add: licenses_joined_def)
qed

definition admin_license_summary_of :: "license \<times> subscription \<Rightarrow> admin_license_summary" where
  "admin_license_summary_of p = \<lparr> als_id = lic_id (fst p), als_license_key = lic_key (fst p),
     als_status = lic_status (fst p), als_plan_type = sub_plan_type (snd p),
     als_expires_at = lic_expires_at (fst p), als_max_devices = lic_max_devices (fst p),
     als_issued_at = lic_issued_at (fst p), als_user_id = sub_user_id (snd p) \<rparr>"

lemma admin_license_decodes: "admin_license_try_from (admin_license_row_of p) = Inr (admin_license_summary_of p)"
  by (simp add: admin_license_try_from_def admin_license_row_of_def admin_license_summary_of_def
      license_status_wire.parse_print plan_wire.parse_print)

definition listed_license_ids :: "license_list_filter \<Rightarrow> int \<Rightarrow> nat \<Rightarrow> world \<Rightarrow> int list" where
  "listed_license_ids f sz n w = concat (map (\<lambda>k.
     case fst (admin_list_licenses (f\<lparr>llf_pagination := page_number k sz\<rparr>) w) of
       Inr pg \<Rightarrow> map als_id (po_items pg) | Inl _ \<Rightarrow> []) [0..<n])"

text \<open>Walking the pages of the license list shows every license that matches the filter exactly
  once, and nothing else, provided the list does not change between the requests and the pages
  asked for are enough for it.\<close>

lemma license_pages_complete:
  assumes w: "faults w = []" "schema_ok (db w) (seqs w)"
    and sz: "1 \<le> sz" "sz \<le> 100" "int n \<le> 2 ^ 56"
    and enough: "length (licenses (db w)) \<le> n * nat sz"
  shows "distinct (listed_license_ids f sz n w)
    \<and> set (listed_license_ids f sz n w)
      = {lic_id l | l b. (l, b) \<in> set (licenses_joined (db w)) \<and> license_filter f (l, b)}"
proof -
  let ?sel = "newest_first (\<lambda>p. lic_issued_at (fst p)) (filter (license_filter f) (licenses_joined (db w)))"
  let ?rows = "\<lambda>d. map admin_license_row_of
      (newest_first (\<lambda>p. lic_issued_at (fst p)) (filter (license_filter f) (licenses_joined d)))"
  have flt: "license_filter (f\<lparr>llf_pagination := pg\<rparr>) = license_filter f" for pg
    by (simp add: fun_eq_iff license_filter_def)
  have "length (licenses_joined (db w)) = length (licenses (db w))"
    using licenses_joined_fst [OF w(2)] by (metis length_map)
  then have len: "length (?rows (db w)) \<le> n * nat sz"
    using enough length_filter_le [of "license_filter f" "licenses_joined (db w)"]
    by (simp add: newest_first_def)
  have dec: "\<exists>p. r = admin_license_row_of p" if "r \<in> set (?rows (db w))" for r
    using that by auto
  define unrow where "unrow r = (case admin_license_try_from r of Inr x \<Rightarrow> x | Inl _ \<Rightarrow> undefined)" for r
  have unrow: "admin_license_try_from r = Inr (unrow r)" if "r \<in> set (?rows (db w))" for r
    using dec [OF that] by (auto simp: unrow_def admin_license_decodes)
  have pages: "concat (map (\<lambda>k. case fst (list_page ?rows admin_license_try_from (page_number k sz) w) of
      Inr pg \<Rightarrow> po_items pg | Inl _ \<Rightarrow> []) [0..<n]) = map unrow (?rows (db w))"
    by (rule pages_cover [where rows = ?rows, OF w(1) sz len unrow])
  have "listed_license_ids f sz n w = map als_id (concat (map (\<lambda>k.
      case fst (list_page ?rows admin_license_try_from (page_number k sz) w) of
      Inr pg \<Rightarrow> po_items pg | Inl _ \<Rightarrow> []) [0..<n]))"
    unfolding listed_license_ids_def admin_list_licenses_def flt
    by (simp add: map_concat comp_def sum.case_distrib [of "map als_id"] cong: sum.case_cong)
  also have "\<dots> = map (\<lambda>p. lic_id (fst p)) ?sel"
    unfolding pages by (simp add: unrow_def admin_license_decodes admin_license_summary_of_def comp_def)
  finally have ids: "listed_license_ids f sz n w = map (\<lambda>p. lic_id (fst p)) ?sel" .
  have "distinct (map (\<lambda>p. lic_id (fst p)) (licenses_joined (db w)))"
  proof -
    have "map (\<lambda>p. lic_id (fst p)) (licenses_joined (db w)) = map lic_id (licenses (db w))"
      using arg_cong [OF licenses_joined_fst [OF w(2)], of "map lic_id"] by (simp add: comp_def)
    with schema_keyed(4) [OF w(2)] show ?thesis by (simp add: keyed_def)
  qed
  then have "distinct (map (\<lambda>p. lic_id (fst p)) (filter (license_filter f) (licenses_joined (db w))))"
    by (rule distinct_map_filter)
  then have "distinct (map (\<lambda>p. lic_id (fst p)) ?sel)"
    by (simp add: newest_first_def distinct_map)
  then show ?thesis unfolding ids by (force simp: newest_first_def)
qed

subsection \<open>Revoking and restoring\<close>

lemma license_select_healthy:
  "faults w = [] \<Longrightarrow> license_find_by_id lid w = (Inr (find (\<lambda>l. lic_id l = lid) (licenses (db w))), w)"
  by (simp add: run_simps)

definition revoked_now :: "timestamp \<Rightarrow> string option \<Rightarrow> license \<Rightarrow> license" where
  "revoked_now now reason l =
    l\<lparr>lic_status := LicRevoked, lic_revoked_at := Some now, lic_revoked_reason := reason\<rparr>"

definition restored :: "license \<Rightarrow> license" where
  "restored l = l\<lparr>lic_status := LicActive, lic_revoked_at := None, lic_revoked_reason := None\<rparr>"

definition with_license :: "int \<Rightarrow> (license \<Rightarrow> license) \<Rightarrow> world \<Rightarrow> world" where
  "with_license lid f w = w\<lparr>db := (db w)\<lparr>licenses := update_where (\<lambda>l. lic_id l = lid) f (licenses (db w))\<rparr>\<rparr>"

lemma with_license_find:
  "(\<And>l. lic_id (f l) = lic_id l) \<Longrightarrow> find (\<lambda>l. lic_id l = lid) (licenses (db w)) = Some l \<Longrightarrow>
    find (\<lambda>l. lic_id l = lid) (licenses (db (with_license lid f w))) = Some (f l)"
  by (auto simp: with_license_def find_update_where dest: find_SomeD)

lemma admin_revoke_license_healthy:
  assumes "faults w = []"
  shows "admin_revoke_license lid reason w =
    (case find (\<lambda>l. lic_id l = lid) (licenses (db w)) of
       None \<Rightarrow> (Inl AdminLicenseNotFound, w)
     | Some l \<Rightarrow> (Inr (revoked_now (utc_now w) reason l), with_license lid (revoked_now (utc_now w) reason) w))"
proof (cases "find (\<lambda>l. lic_id l = lid) (licenses (db w))")
  case None
  then show ?thesis by (simp add: admin_revoke_license_def run_simps assms)
next
  case (Some l)
  let ?f = "revoked_now (utc_now w) reason"
  have "find (\<lambda>l. lic_id l = lid) (licenses (db (with_license lid ?f w))) = Some (?f l)"
    by (rule with_license_find [OF _ Some]) (simp add: revoked_now_def)
  moreover have "admin_revoke_license_row lid reason w = (Inr (), with_license lid ?f w)"
    by (simp add: admin_revoke_license_row_def run_simps assms Let_def with_license_def revoked_now_def [abs_def])
  moreover have "faults (with_license lid ?f w) = []" using assms by (simp add: with_license_def)
  ultimately show ?thesis
    using Some by (simp add: admin_revoke_license_def await_as_run license_select_healthy assms return_run)
qed

lemma admin_restore_license_healthy:
  assumes "faults w = []"
  shows "admin_restore_license lid w =
    (case find (\<lambda>l. lic_id l = lid) (licenses (db w)) of
       None \<Rightarrow> (Inl AdminLicenseNotFound, w)
     | Some l \<Rightarrow>
         if lic_status l = LicRevoked then (Inr (restored l), with_license lid restored w)
         else (Inl AdminLicenseNotRevoked, w))"
proof (cases "find (\<lambda>l. lic_id l = lid) (licenses (db w))")
  case None
  then show ?thesis by (simp add: admin_restore_license_def run_simps assms)
next
  case (Some l)
  have "find (\<lambda>l. lic_id l = lid) (licenses (db (with_license lid restored w))) = Some (restored l)"
    by (rule with_license_find [OF _ Some]) (simp add: restored_def)
  moreover have "admin_restore_license_row lid w = (Inr (), with_license lid restored w)"
    by (simp add: admin_restore_license_row_def run_simps assms Let_def with_license_def restored_def [abs_def])
  moreover have "faults (with_license lid restored w) = []" using assms by (simp add: with_license_def)
  ultimately show ?thesis
    using Some by (simp add: admin_restore_license_def await_as_run license_select_healthy assms return_run)
qed

lemma entitled_with_license:
  assumes "entitled_device lid did requesting (db w) = Some (l, x)"
    and "\<And>l. lic_id (f l) = lic_id l \<and> lic_subscription_id (f l) = lic_subscription_id l"
  shows "entitled_device lid did requesting (db (with_license lid f w)) = Some (f l, x)"
proof -
  have l: "find (\<lambda>l. lic_id l = lid) (licenses (db w)) = Some l" "lic_id l = lid"
    "caller_owns requesting l (db w)" "device_row lid did (db w) = Some x" "device_active x"
    using assms(1) by (auto simp: entitled_device_def entitled_license_def split: option.splits if_splits
        dest: find_SomeD)
  have "find (\<lambda>l. lic_id l = lid) (licenses (db (with_license lid f w))) = Some (f l)"
    using assms(2) l(1) by (intro with_license_find) simp_all
  moreover have "caller_owns requesting (f l) (db (with_license lid f w))"
    using l(3) assms(2) by (cases requesting) (simp_all add: caller_owns_def with_license_def)
  moreover have "device_row lid did (db (with_license lid f w)) = Some x"
    using l(4) by (simp add: device_row_def with_license_def)
  ultimately show ?thesis
    using assms(2) l(2,5) by (simp add: entitled_device_def entitled_license_def)
qed

text \<open>Revoke, then restore. After an admin revoked a license, the customer's device is told
  \<open>revoked\<close> at any time; restoring it brings back exactly the status and expiry an active license
  had before, and restoring a license that is not revoked is refused and changes nothing.\<close>

lemma revoke_then_restore:
  assumes w: "faults w = []"
    and dev: "entitled_device lid did requesting (db w) = Some (l, x)" "dev_machine_fingerprint x = fp"
    and active: "lic_status l = LicActive"
    and revoke: "admin_revoke_license lid reason w = (r1, w1)"
    and restore: "admin_restore_license lid (w1\<lparr>utc_now := t1\<rparr>) = (r2, w2)"
  shows "admin_restore_license lid w = (Inl AdminLicenseNotRevoked, w)
    \<and> fst (license_validate lid did fp requesting (w1\<lparr>utc_now := t\<rparr>))
        = Inr (validated (l\<lparr>lic_status := LicRevoked\<rparr>) t)
    \<and> r2 = Inr (restored l)
    \<and> fst (license_validate lid did fp requesting (w2\<lparr>utc_now := t\<rparr>)) = Inr (validated l t)"
proof -
  let ?rev = "revoked_now (utc_now w) reason"
  have l: "find (\<lambda>l. lic_id l = lid) (licenses (db w)) = Some l"
    using dev(1) by (auto simp: entitled_device_def entitled_license_def split: option.splits if_splits)
  have w1: "w1 = with_license lid ?rev w"
    using revoke by (simp add: admin_revoke_license_healthy w l)
  have f1: "find (\<lambda>l. lic_id l = lid) (licenses (db w1)) = Some (?rev l)"
    unfolding w1 by (rule with_license_find [OF _ l]) (simp add: revoked_now_def)
  have e1: "entitled_device lid did requesting (db w1) = Some (?rev l, x)"
    unfolding w1 by (rule entitled_with_license [OF dev(1)]) (simp add: revoked_now_def)
  have h1: "faults w1 = []" using w by (simp add: w1 with_license_def)
  have w2: "r2 = Inr (restored (?rev l))" "w2 = with_license lid restored (w1\<lparr>utc_now := t1\<rparr>)"
    using restore f1 by (simp_all add: admin_restore_license_healthy h1 revoked_now_def)
  have e2: "entitled_device lid did requesting (db w2) = Some (restored (?rev l), x)"
    unfolding w2(2) by (rule entitled_with_license) (use e1 in \<open>simp_all add: restored_def\<close>)
  have h2: "faults w2 = []" using h1 by (simp add: w2 with_license_def)
  have "restored (?rev l) = restored l" by (simp add: restored_def revoked_now_def)
  moreover have "validated (?rev l) t = validated (l\<lparr>lic_status := LicRevoked\<rparr>) t"
    "validated (restored l) t = validated l t"
    using active by (simp_all add: validated_def effective_status_def restored_def revoked_now_def
        split: option.split)
  ultimately show ?thesis
    using l active e1 e2 h1 h2 dev(2) w2(1)
    by (simp add: admin_restore_license_healthy w license_validate_healthy Let_def)
qed

end
