(* ===== verification/Transitions.thy ===== *)
theory Transitions
  imports Main
begin

text \<open>
  Labelled transition systems, shared by the interleaving model of the server and the clock of
  the client: traces, and contracts stated once as locales: an invariant kept by every step a
  predicate on labels admits, the observations such an invariant guarantees along a run, a mark
  that is set at most once, and a relation between states that every step respects.
\<close>

inductive trace :: "('l \<Rightarrow> 's \<Rightarrow> 's \<Rightarrow> bool) \<Rightarrow> 'l list \<Rightarrow> 's \<Rightarrow> 's \<Rightarrow> bool" for step where
  trace_nil: "trace step [] s s"
| trace_snoc: "trace step ls s s' \<Longrightarrow> step l s' s'' \<Longrightarrow> trace step (ls @ [l]) s s''"

inductive_cases trace_nilE: "trace step [] s s'"

lemma trace_one: "step l s s' \<Longrightarrow> trace step [l] s s'"
  using trace_snoc [OF trace_nil, of step l s s'] by simp

lemma trace_append:
  "trace step ls' s' s'' \<Longrightarrow> trace step ls s s' \<Longrightarrow> trace step (ls @ ls') s s''"
proof (induction rule: trace.induct)
  case (trace_snoc ls' s' t l u)
  have "trace step ((ls @ ls') @ [l]) s u"
    by (rule trace.trace_snoc [OF trace_snoc.IH [OF trace_snoc.prems] trace_snoc.hyps(2)])
  then show ?case by simp
qed simp

locale invariant =
  fixes step :: "'l \<Rightarrow> 's \<Rightarrow> 's \<Rightarrow> bool" and admitted :: "'l \<Rightarrow> bool" and inv :: "'s \<Rightarrow> bool"
  assumes kept: "step l s s' \<Longrightarrow> admitted l \<Longrightarrow> inv s \<Longrightarrow> inv s'"
begin

lemma along_trace: "trace step ls s s' \<Longrightarrow> list_all admitted ls \<Longrightarrow> inv s \<Longrightarrow> inv s'"
  by (induction rule: trace.induct) (auto intro: kept)

end

locale monitored = invariant step admitted inv
  for step :: "'l \<Rightarrow> 's \<Rightarrow> 's \<Rightarrow> bool" and admitted :: "'l \<Rightarrow> bool" and inv :: "'s \<Rightarrow> bool" +
  fixes good :: "'l \<Rightarrow> bool"
  assumes observed: "step l s s' \<Longrightarrow> admitted l \<Longrightarrow> inv s \<Longrightarrow> good l"
begin

lemma all_good: "trace step ls s s' \<Longrightarrow> list_all admitted ls \<Longrightarrow> inv s \<Longrightarrow> list_all good ls"
proof (induction rule: trace.induct)
  case (trace_snoc ls s s' l s'')
  then have "inv s'" using along_trace by simp
  with trace_snoc observed show ?case by simp
qed simp

end

locale once_only =
  fixes step :: "'l \<Rightarrow> 's \<Rightarrow> 's \<Rightarrow> bool" and sets_mark :: "'k \<Rightarrow> 'l \<Rightarrow> bool" and marked :: "'k \<Rightarrow> 's \<Rightarrow> bool"
  assumes sets: "step l s s' \<Longrightarrow> sets_mark k l \<Longrightarrow> \<not> marked k s \<and> marked k s'"
    and stays: "step l s s' \<Longrightarrow> marked k s \<Longrightarrow> marked k s'"
begin

lemma marked_stays: "trace step ls s s' \<Longrightarrow> marked k s \<Longrightarrow> marked k s'"
  by (induction rule: trace.induct) (auto intro: stays)

lemma marks_at_most:
  "trace step ls s s' \<Longrightarrow> length (filter (sets_mark k) ls) \<le> (if marked k s' \<and> \<not> marked k s then 1 else 0)"
proof (induction rule: trace.induct)
  case (trace_snoc ls s s' l s'')
  have "\<not> marked k s" if "\<not> marked k s'"
    using marked_stays [OF trace_snoc.hyps(1)] that by blast
  then show ?case
    using trace_snoc.IH sets [OF trace_snoc.hyps(2), of k] stays [OF trace_snoc.hyps(2), of k]
    by (auto split: if_splits)
qed simp

lemma at_most_once: "trace step ls s s' \<Longrightarrow> length (filter (sets_mark k) ls) \<le> 1"
  using marks_at_most [of ls s s' k] by (auto split: if_splits)

lemma never_again: "trace step ls s s' \<Longrightarrow> marked k s \<Longrightarrow> filter (sets_mark k) ls = []"
  using marks_at_most [of ls s s' k] by (auto split: if_splits)

end

locale progress =
  fixes step :: "'l \<Rightarrow> 's \<Rightarrow> 's \<Rightarrow> bool" and R :: "'s \<Rightarrow> 's \<Rightarrow> bool"
  assumes reflexive: "R s s" and transitive: "R s s' \<Longrightarrow> R s' s'' \<Longrightarrow> R s s''"
    and stepwise: "step l s s' \<Longrightarrow> R s s'"
begin

lemma over_trace: "trace step ls s s' \<Longrightarrow> R s s'"
  by (induction rule: trace.induct) (auto intro: reflexive transitive stepwise)

end

end
