(* ===== verification/ServerSystem.thy ===== *)
theory ServerSystem
  imports Checkout AuthFacts AdminFacts Transitions
begin

text \<open>
  The server as a concurrent system. Requests interleave between their database statements, so
  the steps are the atomic writes of the repositories (each one statement or one transaction),
  with arguments that some earlier read can have produced, and the two halves of webhook
  processing: resolving an event adds the mutation to the requests in flight, claiming takes
  one of them and applies it to the database as it is by then. The environment moves the clock,
  schedules database failures and drops or runs audit tasks.
\<close>

datatype db_op =
    InsertUser new_user
  | InsertSession new_session
  | RevokeSession int
  | InsertSubscription new_subscription
  | InsertPayment new_payment
  | ActivateDevice license uuid string string
  | TouchDevice int
  | DeactivateDevice int
  | ReactivateDevice int
  | RevokeLicense int "string option"
  | RestoreLicense int
  | RunAudit audit_task

fun run_op :: "db_op \<Rightarrow> world \<Rightarrow> world" where
  "run_op (InsertUser nu) w = snd (user_insert nu w)"
| "run_op (InsertSession ns) w = snd (session_insert ns w)"
| "run_op (RevokeSession i) w = snd (session_revoke i w)"
| "run_op (InsertSubscription ns) w = snd (subscription_insert ns w)"
| "run_op (InsertPayment np) w = snd (payment_insert np w)"
| "run_op (ActivateDevice l did fp label) w =
     snd (device_activate (lic_id l) (lic_max_devices l) did fp label w)"
| "run_op (TouchDevice i) w = snd (device_touch_last_seen i w)"
| "run_op (DeactivateDevice i) w = snd (device_deactivate i w)"
| "run_op (ReactivateDevice i) w = snd (admin_reactivate_device_row i w)"
| "run_op (RevokeLicense i reason) w = snd (admin_revoke_license_row i reason w)"
| "run_op (RestoreLicense i) w = snd (admin_restore_license_row i w)"
| "run_op (RunAudit t) w = snd (run_audit_task t w)"

text \<open>
  An activation carries the id and the \<open>max_devices\<close> it read from a license row; no statement
  deletes a license or changes those columns, so such a row is in the table whenever it runs.
\<close>

definition op_enabled :: "db_op \<Rightarrow> tables \<Rightarrow> bool" where
  "op_enabled op d =
    (case op of
       ActivateDevice l _ _ _ \<Rightarrow>
         (\<exists>l' \<in> set (licenses d). lic_id l' = lic_id l \<and> lic_max_devices l' = lic_max_devices l)
     | _ \<Rightarrow> True)"

record system =
  sys_world :: world
  sys_inflight :: "(new_payment_webhook_event \<times> webhook_mutation) list"

datatype label =
    Environment
  | Op db_op
  | Resolved new_payment_webhook_event
  | Claimed new_payment_webhook_event claim_outcome
  | ClaimFailed new_payment_webhook_event

inductive step :: "label \<Rightarrow> system \<Rightarrow> system \<Rightarrow> bool" where
  step_environment: "db w' = db w \<Longrightarrow> seqs w' = seqs w \<Longrightarrow> utc_now w \<le> utc_now w' \<Longrightarrow>
    step Environment \<lparr> sys_world = w, sys_inflight = fl \<rparr> \<lparr> sys_world = w', sys_inflight = fl \<rparr>"
| step_op: "op_enabled op (db w) \<Longrightarrow>
    step (Op op) \<lparr> sys_world = w, sys_inflight = fl \<rparr> \<lparr> sys_world = run_op op w, sys_inflight = fl \<rparr>"
| step_resolve: "resolve_event draw pl w = (Inr m, w') \<Longrightarrow> e = ledger_event eid pl \<Longrightarrow>
    step (Resolved e) \<lparr> sys_world = w, sys_inflight = fl \<rparr>
      \<lparr> sys_world = w', sys_inflight = fl @ [(e, m)] \<rparr>"
| step_claim: "(e, m) \<in> set fl \<Longrightarrow> claim_and_apply e m w = (Inr outcome, w') \<Longrightarrow>
    step (Claimed e outcome) \<lparr> sys_world = w, sys_inflight = fl \<rparr>
      \<lparr> sys_world = w', sys_inflight = remove1 (e, m) fl \<rparr>"
| step_claim_failed: "(e, m) \<in> set fl \<Longrightarrow> claim_and_apply e m w = (Inl x, w') \<Longrightarrow>
    step (ClaimFailed e) \<lparr> sys_world = w, sys_inflight = fl \<rparr>
      \<lparr> sys_world = w', sys_inflight = remove1 (e, m) fl \<rparr>"

inductive_cases step_environmentE: "step Environment s s'"
inductive_cases step_opE: "step (Op op) s s'"
inductive_cases step_claimedE: "step (Claimed e outcome) s s'"
inductive_simps step_op_iff: "step (Op op) s s'"

abbreviation sdb :: "system \<Rightarrow> tables" where
  "sdb s \<equiv> db (sys_world s)"

subsection \<open>The device cap under interleaving\<close>

text \<open>Writes that respect the cap, as an evolution of the tables.\<close>

interpretation cap: evolution "\<lambda>d d'. cap_ok d \<longrightarrow> cap_ok d'"
  by unfold_locales auto

lemma cap_updates:
  "cap_ok (d\<lparr>users := us\<rparr>) = cap_ok d" "cap_ok (d\<lparr>sessions := ss\<rparr>) = cap_ok d"
  "cap_ok (d\<lparr>subscriptions := bs\<rparr>) = cap_ok d" "cap_ok (d\<lparr>payments := ps\<rparr>) = cap_ok d"
  "cap_ok (d\<lparr>login_history := lh\<rparr>) = cap_ok d" "cap_ok (d\<lparr>validation_logs := vl\<rparr>) = cap_ok d"
  by (rule cap_ok_cong; simp)+

lemma evolves_result_of: "evolves (\<lambda>d d'. cap_ok d \<longrightarrow> cap_ok d') (result_of r)"
  by (simp add: evolves_def result_of_def)

lemma cap_inserts:
  "evolves (\<lambda>d d'. cap_ok d \<longrightarrow> cap_ok d') (user_insert nu)"
  "evolves (\<lambda>d d'. cap_ok d \<longrightarrow> cap_ok d') (session_insert nses)"
  "evolves (\<lambda>d d'. cap_ok d \<longrightarrow> cap_ok d') (session_revoke i)"
  "evolves (\<lambda>d d'. cap_ok d \<longrightarrow> cap_ok d') (subscription_insert ns)"
  "evolves (\<lambda>d d'. cap_ok d \<longrightarrow> cap_ok d') (payment_insert np)"
  unfolding user_insert_def session_insert_def session_revoke_def subscription_insert_def payment_insert_def
  by (intro cap.ev_await cap.ev_insert cap.ev_update evolves_result_of impI; simp add: cap_updates)+

lemma cap_audit: "evolves (\<lambda>d d'. cap_ok d \<longrightarrow> cap_ok d') (run_audit_task t)"
  unfolding run_audit_task_def audit_action_def audit_record_login_def audit_record_validation_def
  by (cases t)
    (auto intro!: cap.ev_await_match cap.ev_await cap.ev_insert cap.ev_return simp: cap_updates)

lemma cap_license_rows:
  "evolves (\<lambda>d d'. cap_ok d \<longrightarrow> cap_ok d') (admin_revoke_license_row i reason)"
  "evolves (\<lambda>d d'. cap_ok d \<longrightarrow> cap_ok d') (admin_restore_license_row i)"
  unfolding admin_revoke_license_row_def admin_restore_license_row_def
  by (intro cap.ev_update impI cap_ok_update_licenses; simp)+

lemma cap_touch: "evolves (\<lambda>d d'. cap_ok d \<longrightarrow> cap_ok d') (device_touch_last_seen i)"
proof -
  have "cap_ok (d\<lparr>devices := update_where (\<lambda>x. dev_id x = i) (\<lambda>x. x\<lparr>dev_last_seen_at := t\<rparr>) (devices d)\<rparr>)
      = cap_ok d" for t d
  proof -
    have "active_count k (d\<lparr>devices := update_where (\<lambda>x. dev_id x = i)
        (\<lambda>x. x\<lparr>dev_last_seen_at := t\<rparr>) (devices d)\<rparr>) = active_count k d" for k
      by (rule active_count_same_activity) simp
    then show ?thesis by (simp add: cap_ok_def)
  qed
  then show ?thesis
    unfolding device_touch_last_seen_def by (intro cap.ev_update) simp
qed

lemma keeps_run_audit: "keeps schema_ok (run_audit_task t)"
  by (rule keeps_audit_task)

definition is_reactivation :: "db_op \<Rightarrow> bool" where
  "is_reactivation op = (case op of ReactivateDevice _ \<Rightarrow> True | _ \<Rightarrow> False)"

lemma schema_run_op:
  assumes "schema_ok (db w) (seqs w)"
  shows "schema_ok (db (run_op op w)) (seqs (run_op op w))"
  using assms
  by (cases op)
    (simp_all add: keepsD keeps_user_insert keeps_sessions keeps_subscriptions keeps_payments
      keeps_device_activate keeps_devices keeps_admin_license_rows keeps_audit_task)

lemma cap_run_op:
  assumes "schema_and_cap (db w) (seqs w)" and "op_enabled op (db w)" and "\<not> is_reactivation op"
  shows "schema_and_cap (db (run_op op w)) (seqs (run_op op w))"
proof -
  have sch: "schema_ok (db w) (seqs w)" and capw: "cap_ok (db w)"
    using assms(1) by (simp_all add: schema_and_cap_def)
  have "cap_ok (db (run_op op w))"
  proof (cases op)
    case (ActivateDevice l did fp label)
    with assms(2) obtain l' where l': "l' \<in> set (licenses (db w))" "lic_id l' = lic_id l"
      "lic_max_devices l' = lic_max_devices l"
      by (auto simp: op_enabled_def)
    obtain r w' where run: "device_activate (lic_id l') (lic_max_devices l') did fp label w = (r, w')"
      by (cases "device_activate (lic_id l') (lic_max_devices l') did fp label w")
    show ?thesis
      using keeps_cap_device_activate [OF assms(1) l'(1) run] run l'(2,3) ActivateDevice
      by (simp add: schema_and_cap_def)
  next
    case (DeactivateDevice i)
    have "cap_ok d \<Longrightarrow> keyed dev_id (devices d) \<Longrightarrow> cap_ok (d\<lparr>devices :=
        update_where (\<lambda>x. dev_id x = i) (\<lambda>x. x\<lparr>dev_deactivated_at := Some t\<rparr>) (devices d)\<rparr>)" for t d
      by (rule cap_ok_deactivate)
    then have "keeps (\<lambda>d s. cap_ok d \<and> keyed dev_id (devices d)) (device_deactivate i)"
      unfolding device_deactivate_def by (intro keeps_update) (simp add: keyed_update_where)
    from keepsD [OF this, of w] capw schema_keyed(6) [OF sch] DeactivateDevice show ?thesis by simp
  next
    case (ReactivateDevice i)
    with assms(3) show ?thesis by (simp add: is_reactivation_def)
  next
    case (RevokeLicense i reason)
    with evolvesD [OF cap_license_rows(1)] capw show ?thesis by simp
  next
    case (RestoreLicense i)
    with evolvesD [OF cap_license_rows(2)] capw show ?thesis by simp
  next
    case (TouchDevice i)
    with evolvesD [OF cap_touch] capw show ?thesis by simp
  next
    case (RunAudit t)
    with evolvesD [OF cap_audit] capw show ?thesis by simp
  next
    case (InsertUser nu)
    with evolvesD [OF cap_inserts(1)] capw show ?thesis by simp
  next
    case (InsertSession nses)
    with evolvesD [OF cap_inserts(2)] capw show ?thesis by simp
  next
    case (RevokeSession i)
    with evolvesD [OF cap_inserts(3)] capw show ?thesis by simp
  next
    case (InsertSubscription ns)
    with evolvesD [OF cap_inserts(4)] capw show ?thesis by simp
  next
    case (InsertPayment np)
    with evolvesD [OF cap_inserts(5)] capw show ?thesis by simp
  qed
  with schema_run_op [OF sch] show ?thesis by (simp add: schema_and_cap_def)
qed

text \<open>A resolved mutation issues licenses of one slot only.\<close>

definition mutation_small :: "('e, webhook_mutation) action \<Rightarrow> bool" where
  "mutation_small k \<longleftrightarrow> (\<forall>w m w'. k w = (Inr m, w') \<longrightarrow> mutation_caps_ok m)"

lemma small_return: "mutation_caps_ok m \<Longrightarrow> mutation_small (return_ok m)" "mutation_small (return_err e)"
  by (simp_all add: mutation_small_def return_run)

lemma small_await:
  "(\<And>x. mutation_small (k x)) \<Longrightarrow> mutation_small (await_as conv q k)"
  "(\<And>x. mutation_small (k' x)) \<Longrightarrow> mutation_small (await q' k')"
  unfolding mutation_small_def by (blast elim: await_as_InrE await_InrE)+

lemma small_control:
  "(b \<Longrightarrow> mutation_small k) \<Longrightarrow> (\<not> b \<Longrightarrow> mutation_small k') \<Longrightarrow> mutation_small (if b then k else k')"
  "(x = None \<Longrightarrow> mutation_small k) \<Longrightarrow> (\<And>y. x = Some y \<Longrightarrow> mutation_small (f y))
    \<Longrightarrow> mutation_small (case x of None \<Rightarrow> k | Some y \<Rightarrow> f y)"
  "(\<And>y. mutation_small (f y)) \<Longrightarrow> mutation_small (Let z f)"
  "(\<And>a b. mutation_small (g a b)) \<Longrightarrow> mutation_small (case p of (a, b) \<Rightarrow> g a b)"
  "(\<And>t. mutation_small (h t)) \<Longrightarrow> mutation_small (now_then h)"
  by (auto simp: mutation_small_def now_then_run split: option.split prod.split)

lemma resolve_small: "mutation_small (resolve_event draw pl)"
  unfolding resolve_event_def resolve_payment_captured_def resolve_payment_link_paid_def
    resolve_subscription_active_def resolve_activation_by_def resolve_activation_def
    resolve_payment_failed_def resolve_subscription_inactive_def resolve_refund_def
    resolve_dispute_created_def resolve_dispute_closed_def find_payment_and_license_def
  by (intro small_control small_await small_return)
    (simp_all add: mutation_caps_ok_def split: license_mutation.split option.split)

definition system_ok :: "system \<Rightarrow> bool" where
  "system_ok s \<longleftrightarrow> schema_and_cap (sdb s) (seqs (sys_world s))
     \<and> (\<forall>p \<in> set (sys_inflight s). mutation_caps_ok (snd p))"

definition customer_label :: "label \<Rightarrow> bool" where
  "customer_label l = (case l of Op op \<Rightarrow> \<not> is_reactivation op | _ \<Rightarrow> True)"

lemma resolve_db: "resolve_event draw pl w = (r, w') \<Longrightarrow> db w' = db w"
  using evolvesD [OF resolve_event_reads_only, of w draw pl] by simp

lemma keeps_seqs_resolve: "resolve_event draw pl w = (r, w') \<Longrightarrow> I (db w) (seqs w) \<Longrightarrow> I (db w') (seqs w')"
  using keepsD [OF keeps_resolve_event, of I w draw pl] by simp

interpretation system_inv: invariant step customer_label system_ok
proof
  fix l s s'
  assume "step l s s'" and "customer_label l" and "system_ok s"
  then show "system_ok s'"
  proof (cases rule: step.cases)
    case (step_environment w' w fl)
    with \<open>system_ok s\<close> show ?thesis by (simp add: system_ok_def)
  next
    case (step_op op w fl)
    with \<open>system_ok s\<close> \<open>customer_label l\<close> show ?thesis
      by (simp add: system_ok_def customer_label_def cap_run_op)
  next
    case (step_resolve draw pl w m w' e eid fl)
    moreover have "mutation_caps_ok m"
      using resolve_small step_resolve(4) unfolding mutation_small_def by blast
    ultimately show ?thesis
      using \<open>system_ok s\<close> keeps_seqs_resolve [of draw pl w "Inr m" w' schema_and_cap]
      by (auto simp: system_ok_def)
  next
    case (step_claim e m fl w outcome w')
    then have "mutation_caps_ok m" using \<open>system_ok s\<close> by (fastforce simp: system_ok_def)
    with step_claim \<open>system_ok s\<close> keepsD [OF keeps_cap_claim_and_apply, of m w e] show ?thesis
      by (auto simp: system_ok_def dest: notin_set_remove1 [THEN contrapos_np] set_remove1_subset [THEN subsetD])
  next
    case (step_claim_failed e m fl w x w')
    then have "mutation_caps_ok m" using \<open>system_ok s\<close> by (fastforce simp: system_ok_def)
    with step_claim_failed \<open>system_ok s\<close> keepsD [OF keeps_cap_claim_and_apply, of m w e] show ?thesis
      by (auto simp: system_ok_def dest: set_remove1_subset [THEN subsetD])
  qed
qed

definition start :: "timestamp \<Rightarrow> system" where
  "start t = \<lparr> sys_world = empty_world t, sys_inflight = [] \<rparr>"

lemma start_ok: "system_ok (start t)"
  by (simp add: start_def system_ok_def schema_and_cap_def schema_ok_empty cap_ok_empty empty_world_def)

text \<open>C1: from an empty database, whatever the customers, the payment provider, the admins (short of
  re-activating a device by hand) and the failing database do, in whatever interleaving, every
  license keeps at most \<open>max_devices\<close> active devices and the schema's constraints hold.\<close>

theorem reachable_cap:
  assumes "trace step ls (start t) s" and "list_all customer_label ls"
  shows "schema_ok (sdb s) (seqs (sys_world s))
    \<and> (\<forall>l \<in> set (licenses (sdb s)). int (active_count (lic_id l) (sdb s)) \<le> lic_max_devices l)"
  using system_inv.along_trace [OF assms start_ok]
  by (simp add: system_ok_def schema_and_cap_def cap_ok_def)

subsection \<open>At most once under interleaving\<close>

interpretation ledger: evolution "\<lambda>d d'. event_claimed p k d \<longrightarrow> event_claimed p k d'"
  by unfold_locales auto

lemma event_claimed_updates [simp]:
  "event_claimed p k (d\<lparr>users := us\<rparr>) = event_claimed p k d"
  "event_claimed p k (d\<lparr>sessions := ss\<rparr>) = event_claimed p k d"
  "event_claimed p k (d\<lparr>subscriptions := bs\<rparr>) = event_claimed p k d"
  "event_claimed p k (d\<lparr>payments := ps\<rparr>) = event_claimed p k d"
  "event_claimed p k (d\<lparr>licenses := ls\<rparr>) = event_claimed p k d"
  "event_claimed p k (d\<lparr>devices := ds\<rparr>) = event_claimed p k d"
  "event_claimed p k (d\<lparr>login_history := lh\<rparr>) = event_claimed p k d"
  "event_claimed p k (d\<lparr>validation_logs := vl\<rparr>) = event_claimed p k d"
  by (simp_all add: event_claimed_def)

lemma ledger_result_of: "evolves (\<lambda>d d'. event_claimed p k d \<longrightarrow> event_claimed p k d') (result_of r)"
  by (simp add: evolves_def result_of_def)

lemma ledger_lock_row:
  "evolves (\<lambda>d d'. event_claimed p k d \<longrightarrow> event_claimed p k d') (sql (\<lambda>w. if P w then (Inr (), w) else (Inl e, w)))"
  by (rule ledger.ev_sql) simp

lemma ledger_device_activate:
  "evolves (\<lambda>d d'. event_claimed p k d \<longrightarrow> event_claimed p k d') (device_activate lid m did fp label)"
  unfolding device_activate_def
  by (intro ledger.ev_transaction ledger.ev_await ledger.ev_control ledger.ev_return ledger.ev_select
      ledger.ev_update ledger.ev_insert ledger_lock_row) simp_all

lemma ledger_run_op: "event_claimed p k (db w) \<Longrightarrow> event_claimed p k (db (run_op op w))"
proof (cases op)
  case (RunAudit t)
  have "evolves (\<lambda>d d'. event_claimed p k d \<longrightarrow> event_claimed p k d') (run_audit_task t)"
    unfolding run_audit_task_def audit_action_def audit_record_login_def audit_record_validation_def
    by (cases t) (auto intro!: ledger.ev_await_match ledger.ev_await ledger.ev_insert ledger.ev_return)
  moreover assume "event_claimed p k (db w)"
  ultimately show ?thesis using RunAudit evolvesD by fastforce
next
  case (ActivateDevice l did fp label)
  moreover assume "event_claimed p k (db w)"
  ultimately show ?thesis using evolvesD [OF ledger_device_activate] by fastforce
next
  case (InsertUser nu)
  have "evolves (\<lambda>d d'. event_claimed p k d \<longrightarrow> event_claimed p k d') (user_insert nu)"
    unfolding user_insert_def by (intro ledger.ev_await ledger.ev_insert ledger_result_of) simp
  moreover assume "event_claimed p k (db w)"
  ultimately show ?thesis using InsertUser evolvesD by fastforce
next
  case (InsertSubscription ns)
  have "evolves (\<lambda>d d'. event_claimed p k d \<longrightarrow> event_claimed p k d') (subscription_insert ns)"
    unfolding subscription_insert_def by (intro ledger.ev_await ledger.ev_insert ledger_result_of) simp
  moreover assume "event_claimed p k (db w)"
  ultimately show ?thesis using InsertSubscription evolvesD by fastforce
next
  case (InsertPayment np)
  have "evolves (\<lambda>d d'. event_claimed p k d \<longrightarrow> event_claimed p k d') (payment_insert np)"
    unfolding payment_insert_def by (intro ledger.ev_await ledger.ev_insert ledger_result_of) simp
  moreover assume "event_claimed p k (db w)"
  ultimately show ?thesis using InsertPayment evolvesD by fastforce
next
  case (InsertSession ns)
  have "evolves (\<lambda>d d'. event_claimed p k d \<longrightarrow> event_claimed p k d') (session_insert ns)"
    unfolding session_insert_def by (intro ledger.ev_insert) simp
  moreover assume "event_claimed p k (db w)"
  ultimately show ?thesis using InsertSession evolvesD by fastforce
qed (auto simp: session_revoke_def device_touch_last_seen_def device_deactivate_def
    admin_reactivate_device_row_def admin_revoke_license_row_def admin_restore_license_row_def
    sql_update_def sql_def Let_def split: list.split)

definition applies_event :: "string \<times> string \<Rightarrow> label \<Rightarrow> bool" where
  "applies_event k l = (case l of
     Claimed e Applied \<Rightarrow> k = (npwe_provider e, npwe_event_id e) | _ \<Rightarrow> False)"

definition claimed_in :: "string \<times> string \<Rightarrow> system \<Rightarrow> bool" where
  "claimed_in k s = event_claimed (fst k) (snd k) (sdb s)"

lemma claim_keeps_claimed:
  assumes "claim_and_apply e m w = (r, w')" and "event_claimed p k (db w)"
  shows "event_claimed p k (db w')"
  using assms by (auto elim!: claim_and_apply_cases simp: event_claimed_log)

lemma applied_claims:
  assumes "claim_and_apply e m w = (Inr Applied, w')"
  shows "\<not> event_claimed (npwe_provider e) (npwe_event_id e) (db w)
    \<and> event_claimed (npwe_provider e) (npwe_event_id e) (db w')"
  using assms by (auto elim!: claim_and_apply_cases simp: event_claimed_log)

interpretation ledger_once: once_only step applies_event claimed_in
proof
  fix l s s' k
  assume "step l s s'" and "applies_event k l"
  then show "\<not> claimed_in k s \<and> claimed_in k s'"
    by (cases rule: step.cases)
      (auto simp: applies_event_def claimed_in_def dest: applied_claims split: claim_outcome.splits)
next
  fix l s s' k
  assume "step l s s'" and "claimed_in k s"
  then show "claimed_in k s'"
    by (cases rule: step.cases)
      (auto simp: claimed_in_def ledger_run_op dest: resolve_db intro: claim_keeps_claimed)
qed

text \<open>C2: at most once, under concurrency: in every run of the server, with any number of deliveries
  and reconciliation passes resolving and claiming the same event in any interleaving and with any
  database failures, the mutation of an event id is applied at most once.\<close>

theorem event_applied_at_most_once:
  assumes "trace step ls s s'"
  shows "length (filter (applies_event (provider, eid)) ls) \<le> 1"
  by (rule ledger_once.at_most_once [OF assms])

subsection \<open>Sessions and the clock\<close>

definition session_kept :: "tables \<Rightarrow> session \<Rightarrow> bool" where
  "session_kept d x \<longleftrightarrow> (\<exists>y \<in> set (sessions d). ses_id y = ses_id x \<and> ses_token_hash y = ses_token_hash x
     \<and> ses_user_id y = ses_user_id x \<and> ses_expires_at y = ses_expires_at x
     \<and> (ses_revoked_at x = None \<or> ses_revoked_at y \<noteq> None))"

definition sessions_le :: "tables \<Rightarrow> tables \<Rightarrow> bool" where
  "sessions_le d d' \<longleftrightarrow> (\<forall>x \<in> set (sessions d). session_kept d' x)"

lemma sessions_le_same: "sessions d' = sessions d \<Longrightarrow> sessions_le d d'"
  by (auto simp: sessions_le_def session_kept_def)

interpretation ses: evolution sessions_le
proof
  show "sessions_le d d" for d by (rule sessions_le_same) simp
  show "sessions_le d d''" if "sessions_le d d'" "sessions_le d' d''" for d d' d''
    unfolding sessions_le_def
  proof
    fix x assume "x \<in> set (sessions d)"
    with that(1) obtain y where y: "y \<in> set (sessions d')" "ses_id y = ses_id x" "ses_token_hash y = ses_token_hash x"
      "ses_user_id y = ses_user_id x" "ses_expires_at y = ses_expires_at x"
      "ses_revoked_at x = None \<or> ses_revoked_at y \<noteq> None"
      by (auto simp: sessions_le_def session_kept_def)
    from that(2) y(1) obtain z where "z \<in> set (sessions d'')" "ses_id z = ses_id y"
      "ses_token_hash z = ses_token_hash y" "ses_user_id z = ses_user_id y"
      "ses_expires_at z = ses_expires_at y" "ses_revoked_at y = None \<or> ses_revoked_at z \<noteq> None"
      by (auto simp: sessions_le_def session_kept_def)
    with y show "session_kept d'' x" unfolding session_kept_def by (intro bexI [of _ z]) auto
  qed
qed

lemma sessions_le_insert: "sessions_le d (d\<lparr>sessions := sessions d @ [x]\<rparr>)"
  by (auto simp: sessions_le_def session_kept_def)

lemma sessions_le_revoke:
  "sessions_le d (d\<lparr>sessions := update_where (\<lambda>x. ses_id x = i) (\<lambda>x. x\<lparr>ses_revoked_at := Some t\<rparr>) (sessions d)\<rparr>)"
  unfolding sessions_le_def
proof
  fix x assume x: "x \<in> set (sessions d)"
  let ?y = "if ses_id x = i then x\<lparr>ses_revoked_at := Some t\<rparr> else x"
  have "?y \<in> set (update_where (\<lambda>x. ses_id x = i) (\<lambda>x. x\<lparr>ses_revoked_at := Some t\<rparr>) (sessions d))"
    using x unfolding in_update_where by blast
  then show "session_kept (d\<lparr>sessions := update_where (\<lambda>x. ses_id x = i)
      (\<lambda>x. x\<lparr>ses_revoked_at := Some t\<rparr>) (sessions d)\<rparr>) x"
    unfolding session_kept_def by (intro bexI [of _ ?y]) auto
qed

lemma ses_result_of: "evolves sessions_le (result_of r)"
  by (simp add: evolves_def result_of_def ses.same)

lemma ses_ops:
  "evolves sessions_le (user_insert nu)" "evolves sessions_le (session_insert nses)"
  "evolves sessions_le (session_revoke i)" "evolves sessions_le (subscription_insert ns)"
  "evolves sessions_le (payment_insert np)" "evolves sessions_le (device_touch_last_seen i)"
  "evolves sessions_le (device_deactivate i)" "evolves sessions_le (admin_reactivate_device_row i)"
  "evolves sessions_le (admin_revoke_license_row i reason)"
  "evolves sessions_le (admin_restore_license_row i)"
  unfolding user_insert_def session_insert_def session_revoke_def subscription_insert_def
    payment_insert_def device_touch_last_seen_def device_deactivate_def
    admin_reactivate_device_row_def admin_revoke_license_row_def admin_restore_license_row_def
  by (intro ses.ev_await ses.ev_insert ses.ev_update ses_result_of sessions_le_insert sessions_le_revoke;
      (rule sessions_le_same, simp))+

lemma ses_audit: "evolves sessions_le (run_audit_task t)"
  unfolding run_audit_task_def audit_action_def audit_record_login_def audit_record_validation_def
  by (cases t)
    (auto intro!: ses.ev_await_match ses.ev_await ses.ev_insert ses.ev_return sessions_le_same)

lemma ses_lock_row: "evolves sessions_le (sql (\<lambda>w. if P w then (Inr (), w) else (Inl e, w)))"
  by (rule ses.ev_sql) (simp add: ses.same)

lemma ses_activate: "evolves sessions_le (device_activate lid m did fp label)"
  unfolding device_activate_def
  by (intro ses.ev_transaction ses.ev_await ses.ev_control ses.ev_return ses.ev_select
      ses.ev_update ses.ev_insert ses_lock_row; rule sessions_le_same; simp)

lemma sessions_run_op: "sessions_le (db w) (db (run_op op w))"
  by (cases op)
    (simp_all add: evolvesD [OF ses_ops(1)] evolvesD [OF ses_ops(2)] evolvesD [OF ses_ops(3)]
      evolvesD [OF ses_ops(4)] evolvesD [OF ses_ops(5)] evolvesD [OF ses_ops(6)]
      evolvesD [OF ses_ops(7)] evolvesD [OF ses_ops(8)] evolvesD [OF ses_ops(9)]
      evolvesD [OF ses_ops(10)] evolvesD [OF ses_audit] evolvesD [OF ses_activate])

lemma set_sessions [simp]:
  "sessions (set_payment_status i st d) = sessions d"
  "sessions (set_payment_captured i gid d) = sessions d"
  "sessions (set_subscription_status i sst pe now d) = sessions d"
  "sessions (set_license_status i lst ex d) = sessions d"
  "sessions (set_affected lic lst d) = sessions d"
  "sessions (log_event e j now d) = sessions d"
  by (simp_all add: set_payment_status_def set_payment_captured_def set_subscription_status_def
      set_license_status_def set_affected_def log_event_def split: option.split)

lemma apply_mutation_sessions [simp]: "sessions (apply_mutation m i now d) = sessions d"
proof (cases m)
  case (ActivateSubscriptionAndLicense pid sid pe lm gid)
  then show ?thesis by (cases lm) simp_all
qed (auto split: option.split)

lemma claim_sessions: "claim_and_apply e m w = (r, w') \<Longrightarrow> sessions (db w') = sessions (db w)"
  by (erule claim_and_apply_cases) simp_all

lemma calm_ops:
  "calm (user_insert nu)" "calm (session_insert nses)" "calm (session_revoke i)"
  "calm (subscription_insert ns)" "calm (payment_insert np)"
  "calm (admin_reactivate_device_row i)" "calm (admin_revoke_license_row i reason)"
  "calm (admin_restore_license_row i)" "calm (run_audit_task t)"
proof -
  show "calm (run_audit_task t)"
    unfolding run_audit_task_def audit_action_def audit_record_login_def audit_record_validation_def
    by (cases t) (auto intro!: keeps_intros)
qed (unfold user_insert_def session_insert_def session_revoke_def subscription_insert_def
    payment_insert_def admin_reactivate_device_row_def admin_revoke_license_row_def
    admin_restore_license_row_def, (intro keeps_intros)+)

lemma clock_run_op: "utc_now (run_op op w) = utc_now w"
  by (cases op)
    (simp_all only: run_op.simps calmD(1) [OF calm_ops(1)] calmD(1) [OF calm_ops(2)]
      calmD(1) [OF calm_ops(3)] calmD(1) [OF calm_ops(4)] calmD(1) [OF calm_ops(5)]
      calmD(1) [OF calm_ops(6)] calmD(1) [OF calm_ops(7)] calmD(1) [OF calm_ops(8)]
      calmD(1) [OF calm_ops(9)] calmD(1) [OF calm_device_activate]
      calmD(1) [OF calm_finds(11)] calmD(1) [OF calm_finds(12)])

definition later :: "system \<Rightarrow> system \<Rightarrow> bool" where
  "later s s' \<longleftrightarrow> sessions_le (sdb s) (sdb s') \<and> utc_now (sys_world s) \<le> utc_now (sys_world s')"

interpretation later: progress step later
proof
  show "later s s" for s by (simp add: later_def ses.same)
  show "later s s''" if "later s s'" "later s' s''" for s s' s''
    using that ses.then_on by (auto simp: later_def)
  fix l s s' assume "step l s s'"
  then show "later s s'"
  proof (cases rule: step.cases)
    case (step_environment w' w fl)
    then show ?thesis by (simp add: later_def ses.same)
  next
    case (step_op op w fl)
    then show ?thesis by (simp add: later_def sessions_run_op clock_run_op)
  next
    case (step_resolve draw pl w m w' e eid fl)
    then show ?thesis
      using sessions_le_same [of "db w'" "db w"] resolve_db [OF step_resolve(4)]
        calm_runD(1) [OF calm_resolve_event step_resolve(4)]
      by (simp add: later_def)
  next
    case (step_claim e m fl w outcome w')
    then show ?thesis
      using sessions_le_same [OF claim_sessions [OF step_claim(5)]]
        calm_runD(1) [OF calm_claim_and_apply step_claim(5)]
      by (simp add: later_def)
  next
    case (step_claim_failed e m fl w x w')
    then show ?thesis
      using sessions_le_same [OF claim_sessions [OF step_claim_failed(5)]]
        calm_runD(1) [OF calm_claim_and_apply step_claim_failed(5)]
      by (simp add: later_def)
  qed
qed

lemma schema_step:
  assumes "step l s s'" and ok: "schema_ok (sdb s) (seqs (sys_world s))"
  shows "schema_ok (sdb s') (seqs (sys_world s'))"
  using assms(1)
proof (cases rule: step.cases)
  case (step_claim e m fl w outcome w')
  with ok show ?thesis using keepsD [OF keeps_claim_and_apply, of w e m] by simp
next
  case (step_claim_failed e m fl w x w')
  with ok show ?thesis using keepsD [OF keeps_claim_and_apply, of w e m] by simp
next
  case (step_resolve draw pl w m w' e eid fl)
  with ok show ?thesis using keeps_seqs_resolve [of draw pl w "Inr m" w' schema_ok] by simp
qed (use ok in \<open>simp_all add: schema_run_op\<close>)

interpretation schema_inv: invariant step "\<lambda>_. True" "\<lambda>s. schema_ok (sdb s) (seqs (sys_world s))"
  by unfold_locales (rule schema_step)

text \<open>C13: a token that no longer authenticates, because its session was logged out or has expired,
  never authenticates again, in any run of the server from there on.\<close>

theorem dead_token_stays_dead:
  assumes run: "trace step ls s s'" and ok: "schema_ok (sdb s) (seqs (sys_world s))"
    and ses: "session_by_hash (hash_token sha256 token) (sdb s) = Some x"
      "\<not> session_live x (utc_now (sys_world s))"
  shows "fst (auth_validate_session sha256 token ((sys_world s')\<lparr>faults := []\<rparr>)) = Inl Unauthorized"
proof -
  have le: "later s s'" by (rule later.over_trace [OF run])
  have ok': "schema_ok (sdb s') (seqs (sys_world s'))"
    using schema_inv.along_trace [OF run _ ok] by (simp add: list_all_iff)
  have x: "x \<in> set (sessions (sdb s))" "ses_token_hash x = hash_token sha256 token"
    using find_SomeD [OF ses(1) [unfolded session_by_hash_def]] by simp_all
  then obtain y where y: "y \<in> set (sessions (sdb s'))" "ses_token_hash y = ses_token_hash x"
    "ses_expires_at y = ses_expires_at x" "ses_revoked_at x = None \<or> ses_revoked_at y \<noteq> None"
    using le by (auto simp: later_def sessions_le_def session_kept_def)
  have "session_by_hash (hash_token sha256 token) (sdb s') = Some y"
    unfolding session_by_hash_def using x(2) y(1,2) by (intro find_keyed [OF schema_keyed(9) [OF ok']]) simp_all
  moreover have "\<not> session_live y (utc_now (sys_world s'))"
    using ses(2) y le by (auto simp: session_live_def later_def)
  ultimately show ?thesis by (simp add: auth_validate_session_healthy)
qed

end
