(* ===== verification/SamplesServer.thy ===== *)
theory SamplesServer
  imports Samples ServerSystem
begin

text \<open>
  Witnesses for the properties of authentication, of the admin console and of the server as a
  concurrent system, on the sample database with an administrator added. The cryptographic
  arguments are instantiated by small concrete functions.
\<close>

definition plain_verify :: "string \<Rightarrow> string \<Rightarrow> string + bool" where
  "plain_verify password phc = Inr (phc = ''phc-'' @ password)"

definition byte_digest :: "string \<Rightarrow> 8 word list" where
  "byte_digest s = map of_char s"

definition admin_user :: user where
  "admin_user = \<lparr> usr_id = 3, usr_email = ''root@x.in'', usr_password_hash = ''phc-root'',
     usr_full_name = None, usr_company_name = None, usr_role = Admin, usr_created_at = 0,
     usr_updated_at = 0 \<rparr>"

definition staffed_world :: world where
  "staffed_world = sample_world\<lparr>db := sample_tables\<lparr>users := sample_users @ [admin_user]\<rparr>,
     seqs := (\<lambda>_. 4)\<rparr>"

lemma staffed_schema: "schema_ok (db staffed_world) (seqs staffed_world)"
  by (simp add: staffed_world_def admin_user_def sample_defs schema_defs serial_key_def keyed_def
      keyed_opt_def keys_def)

lemma staffed_healthy: "faults staffed_world = []"
  by (simp add: staffed_world_def sample_defs)

subsection \<open>Authentication\<close>

abbreviation root_logged_in :: world where
  "root_logged_in \<equiv>
     snd (auth_login plain_verify byte_digest ''none'' [1, 171] ''root@x.in'' ''root'' staffed_world)"

definition root_login :: login_outcome where
  "root_login = \<lparr> lo_session_token = ''01ab'', lo_user_id = 3,
     lo_expires_at = 1000 + duration_days session_lifetime_days \<rparr>"

definition root_session :: session where
  "root_session = new_session_row byte_digest 3 ''01ab'' 4 1000"

lemma root_logs_in:
  "auth_login plain_verify byte_digest ''none'' [1, 171] ''root@x.in'' ''root'' staffed_world
    = (Inr root_login, root_logged_in)"
  by (rule run_pair) code_simp

lemma login_safe_example:
  "\<exists>u s. u \<in> set (users (db staffed_world)) \<and> usr_email u = ''root@x.in''
    \<and> plain_verify ''root'' (usr_password_hash u) = Inr True \<and> lo_user_id root_login = usr_id u
    \<and> db root_logged_in = (db staffed_world)\<lparr>sessions := sessions (db staffed_world) @ [s]\<rparr>
    \<and> ses_user_id s = usr_id u \<and> ses_token_hash s = hash_token byte_digest (lo_session_token root_login)"
  by (rule login_safe [OF root_logs_in])

theorem login_then_authenticate_witness:
  "lo_expires_at root_login = utc_now staffed_world + duration_days 30
    \<and> (case fst (auth_validate_session byte_digest (lo_session_token root_login)
        (root_logged_in\<lparr>utc_now := 2000, faults := []\<rparr>)) of
        Inr s \<Rightarrow> 2000 < lo_expires_at root_login \<and> ses_user_id s = lo_user_id root_login
      | Inl e \<Rightarrow> e = Unauthorized \<and> lo_expires_at root_login \<le> 2000)"
  by (rule login_then_authenticate [OF root_logs_in])

lemma login_failure_uniform_example:
  "fst (auth_login plain_verify byte_digest ''none'' [1] ''root@x.in'' ''guess'' staffed_world)
    = Inl InvalidCredentials
  \<and> fst (auth_login plain_verify byte_digest ''none'' [1] ''nobody@x.in'' ''guess'' staffed_world)
    = Inl InvalidCredentials"
proof -
  have "find (\<lambda>u. usr_email u = ''root@x.in'') (users (db staffed_world)) = Some admin_user
      \<and> plain_verify ''guess'' (usr_password_hash admin_user) = Inr False"
    by code_simp
  moreover have "(\<forall>u \<in> set (users (db staffed_world)). usr_email u \<noteq> ''nobody@x.in'')"
    by code_simp
  moreover have "\<exists>b. plain_verify ''guess'' ''none'' = Inr b" unfolding plain_verify_def by (rule exI) (rule refl)
  moreover have run: "auth_login plain_verify byte_digest ''none'' [1] em ''guess'' staffed_world
      = (fst (auth_login plain_verify byte_digest ''none'' [1] em ''guess'' staffed_world),
         snd (auth_login plain_verify byte_digest ''none'' [1] em ''guess'' staffed_world))" for em
    by simp
  ultimately show ?thesis
    using login_failure_uniform [OF staffed_healthy _ run, of "''root@x.in''"]
      login_failure_uniform [OF staffed_healthy _ run, of "''nobody@x.in''"] by blast
qed

lemma require_admin_safe_example:
  "root_session \<in> set (sessions (db root_logged_in))
    \<and> ses_token_hash root_session = hash_token byte_digest ''01ab''
    \<and> session_live root_session (utc_now root_logged_in)
    \<and> (\<exists>u \<in> set (users (db root_logged_in)). usr_id u = ses_user_id root_session \<and> usr_role u = Admin)"
proof (rule require_admin_safe)
  show "auth_require_admin byte_digest ''01ab'' root_logged_in
      = (Inr root_session, snd (auth_require_admin byte_digest ''01ab'' root_logged_in))"
    by (rule run_pair) code_simp
qed

abbreviation root_logged_out :: world where
  "root_logged_out \<equiv> snd (auth_logout 4 root_logged_in)"

lemma root_logged_in_schema: "schema_ok (db root_logged_in) (seqs root_logged_in)"
  using keepsD [OF keeps_auth(1) staffed_schema] by simp

lemma root_session_found:
  "session_by_hash (hash_token byte_digest ''01ab'') (db root_logged_in) = Some root_session"
  "ses_id root_session = 4"
  by code_simp+

lemma logout_is_final_example:
  "fst (auth_validate_session byte_digest ''01ab'' (root_logged_out\<lparr>utc_now := 1500, faults := []\<rparr>))
    = Inl Unauthorized"
proof (rule logout_is_final [OF root_logged_in_schema root_session_found(1)])
  have "auth_logout 4 root_logged_in = (Inr (), root_logged_out)" by (rule run_pair) code_simp
  then show "auth_logout (ses_id root_session) root_logged_in = (Inr (), root_logged_out)"
    by (simp add: root_session_found)
qed

lemma webhook_signature_exact_example:
  "\<not> verify_webhook_signature (\<lambda>k b. byte_digest (k @ b)) ''s'' ''body'' ''12zz''"
proof -
  have "\<exists>c \<in> set ''12zz''. c \<noteq> CHR ''+'' \<and> hex_value c = None" by code_simp
  then show ?thesis using webhook_signature_exact [of _ _ _ _ "''12zz''"] by blast
qed

subsection \<open>The admin console\<close>

lemma pagination_bounds_example:
  "pagination_offset (pagination_new (Some 3) (Some 500)) = 200"
proof -
  have "pg_page (pagination_new (Some 3) (Some 500)) = 3"
    "pagination_limit (pagination_new (Some 3) (Some 500)) = 100"
    by code_simp+
  then show ?thesis using pagination_bounds [of "Some 3" "Some 500"] by simp
qed

definition all_licenses :: license_list_filter where
  "all_licenses = \<lparr> llf_status = None, llf_plan_type = None, llf_expires_before = None,
     llf_expires_after = None, llf_pagination = pagination_new None None \<rparr>"

lemma license_pages_complete_example:
  "distinct (listed_license_ids all_licenses 1 2 sample_world)
    \<and> set (listed_license_ids all_licenses 1 2 sample_world)
      = {lic_id l | l b. (l, b) \<in> set (licenses_joined (db sample_world)) \<and> license_filter all_licenses (l, b)}"
  by (rule license_pages_complete [OF sample_healthy sample_schema]) (simp_all add: sample_defs)

abbreviation sample_revoked :: world where
  "sample_revoked \<equiv> snd (admin_revoke_license 1 (Some ''abuse'') sample_world)"

abbreviation sample_restored :: world where
  "sample_restored \<equiv> snd (admin_restore_license 1 (sample_revoked\<lparr>utc_now := 1100\<rparr>))"

lemma revoke_then_restore_example:
  "admin_restore_license 1 sample_world = (Inl AdminLicenseNotRevoked, sample_world)
    \<and> fst (license_validate 1 17 ''fp-1'' (Some 1) (sample_revoked\<lparr>utc_now := 1200\<rparr>))
        = Inr (validated (sample_license\<lparr>lic_status := LicRevoked\<rparr>) 1200)
    \<and> fst (admin_restore_license 1 (sample_revoked\<lparr>utc_now := 1100\<rparr>)) = Inr (restored sample_license)
    \<and> fst (license_validate 1 17 ''fp-1'' (Some 1) (sample_restored\<lparr>utc_now := 1200\<rparr>))
        = Inr (validated sample_license 1200)"
proof (rule revoke_then_restore [OF sample_healthy sample_entitled])
  show "dev_machine_fingerprint sample_device = ''fp-1''" "lic_status sample_license = LicActive"
    by code_simp+
  show "admin_revoke_license 1 (Some ''abuse'') sample_world
      = (fst (admin_revoke_license 1 (Some ''abuse'') sample_world), sample_revoked)"
    "admin_restore_license 1 (sample_revoked\<lparr>utc_now := 1100\<rparr>)
      = (fst (admin_restore_license 1 (sample_revoked\<lparr>utc_now := 1100\<rparr>)), sample_restored)"
    by (rule prod.collapse [symmetric])+
qed

end
