(* ===== verification/Races.thy ===== *)
theory Races
  imports SamplesServer
begin

text \<open>
  What the guards of webhook processing do not cover: \<open>resolve_event\<close> reads the database before the
  transaction of \<open>claim_and_apply\<close> locks anything, so a decision can be stale when it is applied. Two
  runs of the concurrent server show the two ways that matters; the same events one after the
  other are harmless. The last section runs the server from an empty database for the witnesses of
  the properties of \<open>ServerSystem\<close>.
\<close>

definition sample_start :: system where
  "sample_start = \<lparr> sys_world = sample_world, sys_inflight = [] \<rparr>"

definition other_draw :: "nat \<Rightarrow> nat" where
  "other_draw i = i + 1"

definition paid_event :: new_payment_webhook_event where
  "paid_event = ledger_event ''evt-1'' sample_paid"

definition healing_event :: new_payment_webhook_event where
  "healing_event = ledger_event ''reconcile-2'' sample_paid"

definition paid_mutation :: "(nat \<Rightarrow> nat) \<Rightarrow> webhook_mutation" where
  "paid_mutation draw = ActivateSubscriptionAndLicense 2 2 None
     (InsertLicense (generate_license_key draw) 1 7) (Some ''pay_B'')"

text \<open>The steps with the functions they run.\<close>

abbreviation sys :: "world \<Rightarrow> (new_payment_webhook_event \<times> webhook_mutation) list \<Rightarrow> system" where
  "sys w fl \<equiv> \<lparr> sys_world = w, sys_inflight = fl \<rparr>"

lemma run_resolve:
  "trace step ls s (sys w fl) \<Longrightarrow> fst (resolve_event draw pl w) = Inr m \<Longrightarrow>
    trace step (ls @ [Resolved (ledger_event eid pl)]) s
      (sys (snd (resolve_event draw pl w)) (fl @ [(ledger_event eid pl, m)]))"
  by (erule trace_snoc) (simp add: step_resolve prod_eq_iff)

lemma run_claim:
  "trace step ls s (sys w fl) \<Longrightarrow> (e, m) \<in> set fl \<Longrightarrow> fst (claim_and_apply e m w) = Inr outcome \<Longrightarrow>
    trace step (ls @ [Claimed e outcome]) s (sys (snd (claim_and_apply e m w)) (remove1 (e, m) fl))"
  by (erule trace_snoc) (simp add: step_claim prod_eq_iff)

lemma run_db_op:
  "trace step ls s (sys w fl) \<Longrightarrow> op_enabled op (db w) \<Longrightarrow>
    trace step (ls @ [Op op]) s (sys (run_op op w) fl)"
  by (erule trace_snoc) (rule step_op)

definition active_licenses_of :: "int \<Rightarrow> tables \<Rightarrow> license list" where
  "active_licenses_of sid d = filter (\<lambda>l. lic_subscription_id l = sid \<and> lic_status l = LicActive) (licenses d)"

text \<open>The run of two resolutions and two claims, whatever the events are.\<close>

lemma race_run:
  assumes e: "e = ledger_event eid pl" "e' = ledger_event eid' pl'"
    and r: "fst (resolve_event draw pl w) = Inr m" "w1 = snd (resolve_event draw pl w)"
    and r': "fst (resolve_event draw' pl' w1) = Inr m'" "w2 = snd (resolve_event draw' pl' w1)"
    and c: "fst (claim_and_apply e' m' w2) = Inr Applied" "w3 = snd (claim_and_apply e' m' w2)"
    and c': "fst (claim_and_apply e m w3) = Inr Applied" "w4 = snd (claim_and_apply e m w3)"
    and ne: "e \<noteq> e'"
  shows "trace step [Resolved e, Resolved e', Claimed e' Applied, Claimed e Applied] (sys w []) (sys w4 [])"
proof -
  have "trace step ([] @ [Resolved e]) (sys w []) (sys w1 ([] @ [(e, m)]))"
    unfolding e r(2) by (rule run_resolve [OF trace_nil r(1)])
  then have "trace step (([] @ [Resolved e]) @ [Resolved e']) (sys w []) (sys w2 (([] @ [(e, m)]) @ [(e', m')]))"
    unfolding e(2) r'(2) by (rule run_resolve [OF _ r'(1)])
  then have "trace step ([Resolved e, Resolved e'] @ [Claimed e' Applied]) (sys w []) (sys w3 [(e, m)])"
    using run_claim [of "[Resolved e, Resolved e']" "sys w []" w2 "[(e, m), (e', m')]" e' m' Applied] c ne
    by simp
  then have "trace step (([Resolved e, Resolved e'] @ [Claimed e' Applied]) @ [Claimed e Applied])
      (sys w []) (sys w4 [])"
    using run_claim [of "[Resolved e, Resolved e'] @ [Claimed e' Applied]" "sys w []" w3 "[(e, m)]" e m Applied] c'
    by simp
  then show ?thesis by simp
qed

definition race_world :: world where
  "race_world = snd (claim_and_apply paid_event (paid_mutation sample_draw)
     (snd (claim_and_apply healing_event (paid_mutation other_draw)
     (snd (resolve_event other_draw sample_paid (snd (resolve_event sample_draw sample_paid sample_world)))))))"

lemma racing_captures_run:
  "trace step [Resolved paid_event, Resolved healing_event, Claimed healing_event Applied,
     Claimed paid_event Applied] sample_start (sys race_world [])"
  unfolding sample_start_def race_world_def
  by (rule race_run [OF paid_event_def healing_event_def _ refl _ refl _ refl _ refl]) code_simp+

text \<open>One payment can be turned into two licenses: when a webhook delivery and the reconciliation
  of the same capture (two different event ids) are both resolved before either is claimed, both
  mutations insert a license and both are applied; processed one after the other, the second
  extends the license of the first.\<close>

lemma racing_captures_issue_two_licenses:
  "(\<exists>s. trace step [Resolved paid_event, Resolved healing_event, Claimed healing_event Applied,
       Claimed paid_event Applied] sample_start s
     \<and> length (active_licenses_of 2 (sdb s)) = 2)
   \<and> length (active_licenses_of 2 (db (snd (process_webhook_event other_draw ''reconcile-2'' sample_paid
       sample_after_paid)))) = 1"
proof
  have "length (active_licenses_of 2 (db race_world)) = 2" by code_simp
  with racing_captures_run show "\<exists>s. trace step [Resolved paid_event, Resolved healing_event,
      Claimed healing_event Applied, Claimed paid_event Applied] sample_start s
     \<and> length (active_licenses_of 2 (sdb s)) = 2" by (intro exI [of _ "sys race_world []"] conjI) simp_all
  show "length (active_licenses_of 2 (db (snd (process_webhook_event other_draw ''reconcile-2'' sample_paid
       sample_after_paid)))) = 1" by code_simp
qed

subsection \<open>A refund overtaken by an activation\<close>

definition sample_charge :: razorpay_webhook_payload where
  "sample_charge = \<lparr> rwp_event = ''subscription.charged'', rwp_payload = JObj
     [(''subscription'', JObj [(''entity'', JObj [(''id'', JStr ''sub_A'')])])] \<rparr>"

definition charge_event :: new_payment_webhook_event where
  "charge_event = ledger_event ''evt-5'' sample_charge"

definition refunding_event :: new_payment_webhook_event where
  "refunding_event = ledger_event ''evt-3'' sample_refund"

definition charge_mutation :: webhook_mutation where
  "charge_mutation = ActivateSubscriptionAndLicense 1 1 (Some (1000 + duration_days 30)) (ExtendLicense 1) None"

definition refund_mutation :: webhook_mutation where
  "refund_mutation = RefundPayment 1 (Some \<lparr> al_license_id = 1, al_expires_at = Some 5000 \<rparr>)"

definition revived_world :: world where
  "revived_world = snd (claim_and_apply charge_event charge_mutation
     (snd (claim_and_apply refunding_event refund_mutation
     (snd (resolve_event sample_draw sample_refund (snd (resolve_event sample_draw sample_charge sample_world)))))))"

lemma revived_run:
  "trace step [Resolved charge_event, Resolved refunding_event, Claimed refunding_event Applied,
     Claimed charge_event Applied] sample_start (sys revived_world [])"
  unfolding sample_start_def revived_world_def
  by (rule race_run [OF charge_event_def refunding_event_def _ refl _ refl _ refl _ refl]) code_simp+

text \<open>A refund can be undone by an activation that was resolved before it: although the resolution
  refuses to activate a refunded payment, a charge event resolved just before the refund commits is
  applied after it, and leaves the refunded payment \<open>succeeded\<close> and its license active; delivered
  after the refund, the same event changes nothing.\<close>

lemma stale_activation_revives_refund:
  "(\<exists>s. trace step [Resolved charge_event, Resolved refunding_event, Claimed refunding_event Applied,
       Claimed charge_event Applied] sample_start s
     \<and> map_option pay_status (payment_by_ref ''sub_A'' (sdb s)) = Some PaySucceeded
     \<and> length (active_licenses_of 1 (sdb s)) = 1)
   \<and> map_option pay_status (payment_by_ref ''sub_A'' (db (snd (process_webhook_event sample_draw ''evt-5''
       sample_charge sample_after_refund)))) = Some PayRefunded
   \<and> active_licenses_of 1 (db (snd (process_webhook_event sample_draw ''evt-5'' sample_charge
       sample_after_refund))) = []"
proof (intro conjI)
  have "map_option pay_status (payment_by_ref ''sub_A'' (db revived_world)) = Some PaySucceeded"
    "length (active_licenses_of 1 (db revived_world)) = 1" by code_simp+
  with revived_run show "\<exists>s. trace step [Resolved charge_event, Resolved refunding_event,
      Claimed refunding_event Applied, Claimed charge_event Applied] sample_start s
     \<and> map_option pay_status (payment_by_ref ''sub_A'' (sdb s)) = Some PaySucceeded
     \<and> length (active_licenses_of 1 (sdb s)) = 1" by (intro exI [of _ "sys revived_world []"] conjI) simp_all
  show "map_option pay_status (payment_by_ref ''sub_A'' (db (snd (process_webhook_event sample_draw ''evt-5''
       sample_charge sample_after_refund)))) = Some PayRefunded" by code_simp
  show "active_licenses_of 1 (db (snd (process_webhook_event sample_draw ''evt-5'' sample_charge
       sample_after_refund))) = []" by code_simp
qed

subsection \<open>Runs for the properties of the concurrent server\<close>

definition first_ops :: "db_op list" where
  "first_ops =
    [InsertUser \<lparr> nu_email = ''c@x.in'', nu_password_hash = ''phc-c'', nu_full_name = None,
       nu_company_name = None \<rparr>,
     InsertSubscription \<lparr> ns_user_id = 1, ns_plan_type = Lifetime, ns_status = SubPendingPayment,
       ns_started_at = 10, ns_current_period_end = None, ns_auto_renew = True \<rparr>,
     InsertPayment \<lparr> np_subscription_id = 1, np_amount_minor = 999900, np_currency = ''INR'',
       np_provider = ''razorpay'', np_provider_ref = Some ''plink_B'', np_status = PayPending \<rparr>]"

definition sold_world :: world where
  "sold_world = fold run_op first_ops (empty_world 10)"

definition sold_mutation :: webhook_mutation where
  "sold_mutation = ActivateSubscriptionAndLicense 1 1 None
     (InsertLicense (generate_license_key sample_draw) 1 7) (Some ''pay_B'')"

definition licensed_world :: world where
  "licensed_world = snd (claim_and_apply paid_event sold_mutation
     (snd (resolve_event sample_draw sample_paid sold_world)))"

definition sold_device :: db_op where
  "sold_device = ActivateDevice (hd (licenses (db licensed_world))) 31 ''fp-c'' ''office''"

lemma run_db_ops:
  "trace step ls s (sys w fl) \<Longrightarrow> \<forall>op \<in> set ops. \<forall>d. op_enabled op d \<Longrightarrow>
    trace step (ls @ map Op ops) s (sys (fold run_op ops w) fl)"
proof (induction ops arbitrary: ls w)
  case (Cons op ops)
  have "trace step ((ls @ [Op op]) @ map Op ops) s (sys (fold run_op ops (run_op op w)) fl)"
    using Cons.prems by (intro Cons.IH run_db_op) simp_all
  then show ?case by simp
qed simp

definition sold_labels :: "label list" where
  "sold_labels = map Op first_ops @ [Resolved paid_event, Claimed paid_event Applied, Op sold_device]"

lemma sold_run: "trace step sold_labels (start 10) (sys (run_op sold_device licensed_world) [])"
proof -
  have "trace step (map Op first_ops) (start 10) (sys sold_world [])"
    using run_db_ops [OF trace_nil [of step "start 10", unfolded start_def], of first_ops]
    by (simp add: sold_world_def first_ops_def op_enabled_def start_def)
  moreover have "fst (resolve_event sample_draw sample_paid sold_world) = Inr sold_mutation"
    by code_simp
  ultimately have "trace step (map Op first_ops @ [Resolved paid_event]) (start 10)
      (sys (snd (resolve_event sample_draw sample_paid sold_world)) ([] @ [(paid_event, sold_mutation)]))"
    unfolding paid_event_def by (rule run_resolve)
  from run_claim [OF this, of paid_event sold_mutation Applied]
  have claimed: "trace step ((map Op first_ops @ [Resolved paid_event]) @ [Claimed paid_event Applied])
      (start 10) (sys licensed_world [])"
    if "fst (claim_and_apply paid_event sold_mutation
        (snd (resolve_event sample_draw sample_paid sold_world))) = Inr Applied"
    using that by (simp add: licensed_world_def)
  have "fst (claim_and_apply paid_event sold_mutation
        (snd (resolve_event sample_draw sample_paid sold_world))) = Inr Applied"
    by code_simp
  note claimed = claimed [OF this]
  have "op_enabled sold_device (db licensed_world)" by code_simp
  from run_db_op [OF claimed this] show ?thesis by (simp add: sold_labels_def)
qed

theorem reachable_cap_witness:
  "schema_ok (db (run_op sold_device licensed_world)) (seqs (run_op sold_device licensed_world))
    \<and> list_all (\<lambda>l. int (active_count (lic_id l) (db (run_op sold_device licensed_world))) \<le> lic_max_devices l)
        (licenses (db (run_op sold_device licensed_world)))
    \<and> map device_active (devices (db (run_op sold_device licensed_world))) = [True]"
proof -
  have "list_all customer_label sold_labels" by code_simp
  moreover have "map device_active (devices (db (run_op sold_device licensed_world))) = [True]"
    by code_simp
  ultimately show ?thesis using reachable_cap [OF sold_run] by (simp add: list_all_iff)
qed

theorem event_applied_at_most_once_witness:
  "length (filter (applies_event (''razorpay'', ''evt-1'')) sold_labels) \<le> 1
    \<and> length (filter (applies_event (''razorpay'', ''evt-1'')) sold_labels) = 1"
proof -
  have "length (filter (applies_event (''razorpay'', ''evt-1'')) sold_labels) = 1" by code_simp
  then show ?thesis using event_applied_at_most_once [OF sold_run, of "''razorpay''" "''evt-1''"] by simp
qed

definition new_login :: db_op where
  "new_login = InsertSession \<lparr> nse_user_id = 3, nse_token_hash = hash_token byte_digest ''02cd'',
     nse_expires_at = 9000 \<rparr>"

theorem dead_token_stays_dead_witness:
  "fst (auth_validate_session byte_digest ''01ab'' ((run_op new_login root_logged_out)\<lparr>faults := []\<rparr>))
    = Inl Unauthorized"
proof -
  let ?x = "root_session\<lparr>ses_revoked_at := Some 1000\<rparr>"
  have run: "trace step [Op new_login] (sys root_logged_out []) (sys (run_op new_login root_logged_out) [])"
    using run_db_op [OF trace_nil, of new_login root_logged_out "[]"]
    by (simp add: new_login_def op_enabled_def)
  have "schema_ok (db root_logged_out) (seqs root_logged_out)"
    using keepsD [OF keeps_auth(4) root_logged_in_schema] by simp
  moreover have "session_by_hash (hash_token byte_digest ''01ab'') (db root_logged_out) = Some ?x"
    "\<not> session_live ?x (utc_now root_logged_out)"
    by code_simp+
  ultimately show ?thesis using dead_token_stays_dead [OF run, of byte_digest "''01ab''" ?x] by simp
qed

end
