(* ===== verification/DecimalText.thy ===== *)
theory DecimalText
  imports Domain
begin

text \<open>
  Decimal numbers in text: \<open>str::parse::<i64>()\<close> of the standard library, and that it reads back what
  \<open>{}\<close> prints. The request handlers parse ids with it and the parsers of the desktop application
  read amounts and dates by the same digits.
\<close>

definition is_digit :: "char \<Rightarrow> bool" where
  "is_digit c \<longleftrightarrow> (let n = (of_char c :: nat) in 48 \<le> n \<and> n \<le> 57)"

definition digit_value :: "char \<Rightarrow> nat" where
  "digit_value c = of_char c - 48"

definition digits_value :: "string \<Rightarrow> nat" where
  "digits_value s = foldl (\<lambda>n c. 10 * n + digit_value c) 0 s"

definition all_digits :: "string \<Rightarrow> bool" where
  "all_digits s \<longleftrightarrow> s \<noteq> [] \<and> list_all is_digit s"

text \<open>\<open>i64\<close> and its text: an optional sign, at least one digit, and a value in range.\<close>

definition checked_i64 :: "int \<Rightarrow> int option" where
  "checked_i64 i = (if in_i64 i then Some i else None)"

fun parse_i64 :: "string \<Rightarrow> int option" where
  "parse_i64 [] = None"
| "parse_i64 (c # s) =
     (if c = CHR ''-'' then if all_digits s then checked_i64 (- int (digits_value s)) else None
      else if c = CHR ''+'' then if all_digits s then checked_i64 (int (digits_value s)) else None
      else if all_digits (c # s) then checked_i64 (int (digits_value (c # s))) else None)"

lemma digits_value_snoc [simp]: "digits_value (s @ [c]) = 10 * digits_value s + digit_value c"
  by (simp add: digits_value_def)

lemma digits_value_Nil [simp]: "digits_value [] = 0"
  by (simp add: digits_value_def)

lemma digits_value_append: "digits_value (s @ t) = digits_value s * 10 ^ length t + digits_value t"
proof (induction t rule: rev_induct)
  case (snoc c t)
  have "digits_value (s @ t @ [c]) = 10 * digits_value (s @ t) + digit_value c"
    using digits_value_snoc [of "s @ t" c] by simp
  with snoc show ?case by (simp add: algebra_simps)
qed simp

lemma digits_value_bound: "list_all is_digit s \<Longrightarrow> digits_value s < 10 ^ length s"
proof (induction s rule: rev_induct)
  case (snoc c s)
  then have "is_digit c" and less: "digits_value s < 10 ^ length s" by simp_all
  then have "digit_value c \<le> 9" unfolding is_digit_def digit_value_def Let_def by linarith
  with less show ?case by simp
qed simp

lemma hex_digit_decimal: "n < 10 \<Longrightarrow> is_digit (hex_digit n) \<and> digit_value (hex_digit n) = n"
  by (simp add: is_digit_def digit_value_def hex_digit_def)

lemma nat_str_digits: "all_digits (nat_str n) \<and> digits_value (nat_str n) = n"
proof (induction n rule: nat_str.induct)
  case (1 n)
  show ?case
  proof (cases "n < 10")
    case True
    then have "nat_str n = [] @ [hex_digit n]" by (simp add: nat_str.simps [of n])
    moreover have "digits_value ([] @ [hex_digit n]) = n"
      using hex_digit_decimal [OF True] by (simp only: digits_value_snoc digits_value_Nil mult_0_right add_0)
    ultimately show ?thesis using hex_digit_decimal [OF True] by (simp add: all_digits_def)
  next
    case False
    then have step: "nat_str n = nat_str (n div 10) @ [hex_digit (n mod 10)]"
      by (simp add: nat_str.simps [of n])
    from 1 [OF False] hex_digit_decimal [of "n mod 10"] show ?thesis
      unfolding step by (simp add: all_digits_def)
  qed
qed

lemma nat_str_all_digits [simp]: "all_digits (nat_str n)"
  and digits_value_nat_str [simp]: "digits_value (nat_str n) = n"
  using nat_str_digits [of n] by simp_all

lemma parse_i64_digits: "all_digits s \<Longrightarrow> parse_i64 s = checked_i64 (int (digits_value s))"
  by (cases s) (auto simp: all_digits_def is_digit_def Let_def)

lemma parse_i64_int_str: "in_i64 i \<Longrightarrow> parse_i64 (int_str i) = Some i"
  by (simp add: int_str_def parse_i64_digits checked_i64_def)

lemma parse_i64_bounds: "parse_i64 s = Some i \<Longrightarrow> in_i64 i"
  by (cases s) (auto simp: checked_i64_def split: if_splits)

end
