(* ===== verification/Protocol.thy ===== *)
theory Protocol
  imports DecimalText
begin

text \<open>
  The wire contract between the desktop application and the server: the request and response types
  of \<open>protocol/src/lib.rs\<close> (the client's own copies in \<open>src/license/client.rs\<close> have the same fields),
  the client's error type and how it reads a failed response. The text form of a time on the wire is
  chrono's RFC 3339, which the definitions that print or parse one take as an argument.
\<close>

record activate_license_request =
  alq_license_key :: string
  alq_device_id :: string
  alq_machine_fingerprint :: string
  alq_device_label :: string

record activate_license_response =
  asp_license_id :: string
  asp_customer_id :: string
  asp_subscription_type :: string
  asp_status :: string
  asp_expires_at :: "string option"
  asp_grace_period_days :: int

record validate_license_request =
  vlq_license_id :: string
  vlq_device_id :: string
  vlq_machine_fingerprint :: string
  vlq_client_clock :: string

record validate_license_response =
  vsp_status :: string
  vsp_expires_at :: "string option"
  vsp_grace_period_days :: int
  vsp_server_time :: string
  vsp_fingerprint_matched :: bool

record heartbeat_request =
  hbq_license_id :: string
  hbq_device_id :: string

record heartbeat_response =
  hsp_status :: string

record login_request =
  liq_email :: string
  liq_password :: string

record login_response =
  lsp_session_token :: string
  lsp_user_id :: string
  lsp_expires_at :: string

record deactivate_license_request =
  dlq_license_id :: string
  dlq_device_id :: string
  dlq_machine_fingerprint :: string

record deactivate_license_response =
  dsp_status :: string
  dsp_devices_active :: int

record create_checkout_session_request =
  ccq_plan_type :: string

record create_checkout_session_response =
  csp_checkout_url :: string
  csp_provider_ref :: string

subsection \<open>The client's errors\<close>

datatype client_error =
    NoServerConfigured
  | ClInvalidCredentials
  | ClUnauthorized
  | ClLicenseNotFound
  | ClDeviceNotActivated
  | ClDeviceLimitReached
  | ClLicenseExpired
  | ClLicenseRevoked
  | ClLicenseSuspended
  | ClRateLimited
  | NetworkError string
  | ServerError string

definition map_error_code :: "int \<Rightarrow> string option \<Rightarrow> client_error" where
  "map_error_code status code =
    (case code of
       None \<Rightarrow> ServerError (''server returned HTTP '' @ int_str status)
     | Some c \<Rightarrow>
        if c = ''LICENSE_NOT_FOUND'' then ClLicenseNotFound
        else if c = ''DEVICE_NOT_ACTIVATED'' then ClDeviceNotActivated
        else if c = ''DEVICE_LIMIT_REACHED'' then ClDeviceLimitReached
        else if c = ''LICENSE_EXPIRED'' then ClLicenseExpired
        else if c = ''LICENSE_REVOKED'' then ClLicenseRevoked
        else if c = ''INVALID_CREDENTIALS'' then ClInvalidCredentials
        else if c = ''UNAUTHORIZED'' then ClUnauthorized
        else if c = ''RATE_LIMITED'' then ClRateLimited
        else ServerError (''server returned HTTP '' @ int_str status))"

text \<open>
  What the client sees of the server: a function per endpoint the licensing code calls. The
  offline client answers every call with \<open>NoServerConfigured\<close>.
\<close>

record license_api =
  api_activate :: "activate_license_request \<Rightarrow> client_error + activate_license_response"
  api_validate :: "validate_license_request \<Rightarrow> client_error + validate_license_response"

definition offline_client :: license_api where
  "offline_client = \<lparr> api_activate = (\<lambda>_. Inl NoServerConfigured), api_validate = (\<lambda>_. Inl NoServerConfigured) \<rparr>"

end
