(* ===== verification/Routes.thy ===== *)
theory Routes
  imports Protocol AuthService PaymentService
begin

text \<open>
  \<open>server/src/routes/{error,license,auth,admin,payment}.rs\<close>: the HTTP boundary. A handler is an action
  that answers with a response body or an \<open>api_error\<close>; \<open>into_response\<close> gives the status code and the
  error code a client sees. Request headers are the values that are readable text, by lower-case
  name. What other crates contribute (chrono's RFC 3339, \<open>Uuid\<close>, serde, the Display form of a driver
  error, the cryptography and the configured secrets) is collected in \<open>server_env\<close>. Routing, JSON
  extraction and metrics are not modelled; the rate limiter in front of three of the routes is the theory
  RateLimit.
\<close>

type_synonym headers = "string \<Rightarrow> string option"

record server_env =
  srv_sha256 :: "string \<Rightarrow> 8 word list"
  srv_hmac :: "string \<Rightarrow> string \<Rightarrow> 8 word list"
  srv_verify :: "string \<Rightarrow> string \<Rightarrow> string + bool"
  srv_dummy_hash :: string
  srv_random :: "8 word list"
  srv_draw :: "nat \<Rightarrow> nat"
  srv_provider :: "create_checkout_request \<Rightarrow> string + checkout_outcome"
  srv_parse_uuid :: "string \<Rightarrow> uuid option"
  srv_show_uuid :: "uuid \<Rightarrow> string"
  srv_to_rfc3339 :: "timestamp \<Rightarrow> string"
  srv_parse_rfc3339 :: "string \<Rightarrow> timestamp option"
  srv_db_error :: "sqlx_error \<Rightarrow> string"
  srv_webhook_secret :: "string option"
  srv_parse_webhook :: "string \<Rightarrow> string + razorpay_webhook_payload"

subsection \<open>Errors\<close>

record device_summary =
  dsum_device_id :: string
  dsum_device_label :: "string option"
  dsum_first_seen_at :: string
  dsum_last_seen_at :: string

definition device_summary_of :: "server_env \<Rightarrow> device \<Rightarrow> device_summary" where
  "device_summary_of S x = \<lparr> dsum_device_id = srv_show_uuid S (dev_device_id x),
     dsum_device_label = dev_device_label x, dsum_first_seen_at = srv_to_rfc3339 S (dev_first_seen_at x),
     dsum_last_seen_at = srv_to_rfc3339 S (dev_last_seen_at x) \<rparr>"

datatype api_error =
    ApInvalidRequest string
  | ApLicenseNotFound
  | ApLicenseRevoked
  | ApLicenseExpired
  | ApDeviceNotActivated
  | ApDeviceLimitReached "device list"
  | ApDeviceMismatch
  | ApInvalidCredentials
  | ApUnauthorized
  | ApForbidden
  | ApRateLimited
  | ApInvalidPlanType
  | ApProviderError string
  | ApDeviceNotFound
  | ApLicenseNotRevoked
  | ApServer string

definition repository_error_display :: "server_env \<Rightarrow> repository_error \<Rightarrow> string" where
  "repository_error_display S e =
    (case e of
       Database x \<Rightarrow> ''database error: '' @ srv_db_error S x
     | InvalidData msg \<Rightarrow> ''invalid stored data: '' @ msg
     | DuplicateProviderReference ref \<Rightarrow> ''multiple payments rows share provider_ref '' @ debug_str ref)"

fun api_error_display :: "api_error \<Rightarrow> string" where
  "api_error_display (ApInvalidRequest msg) = ''invalid request: '' @ msg"
| "api_error_display ApLicenseNotFound = ''license not found''"
| "api_error_display ApLicenseRevoked = ''license has been revoked''"
| "api_error_display ApLicenseExpired = ''license has expired''"
| "api_error_display ApDeviceNotActivated = ''device not activated for this license''"
| "api_error_display (ApDeviceLimitReached _) = ''device limit reached for this license''"
| "api_error_display ApDeviceMismatch = ''machine fingerprint does not match the activated device''"
| "api_error_display ApInvalidCredentials = ''invalid credentials''"
| "api_error_display ApUnauthorized = ''unauthorized''"
| "api_error_display ApForbidden = ''forbidden''"
| "api_error_display ApRateLimited = ''too many requests''"
| "api_error_display ApInvalidPlanType = ''invalid plan_type''"
| "api_error_display (ApProviderError msg) = ''payment provider error: '' @ msg"
| "api_error_display ApDeviceNotFound = ''device not found''"
| "api_error_display ApLicenseNotRevoked = ''license is not revoked''"
| "api_error_display (ApServer msg) = ''internal error: '' @ msg"

fun of_license_error :: "server_env \<Rightarrow> license_operation_error \<Rightarrow> api_error" where
  "of_license_error S LicenseNotFound = ApLicenseNotFound"
| "of_license_error S LicenseRevoked = ApLicenseRevoked"
| "of_license_error S LicenseExpired = ApLicenseExpired"
| "of_license_error S DeviceNotActivated = ApDeviceNotActivated"
| "of_license_error S (DeviceLimitReached ds) = ApDeviceLimitReached ds"
| "of_license_error S DeviceMismatch = ApDeviceMismatch"
| "of_license_error S (Repository e) = ApServer (repository_error_display S e)"

fun of_auth_error :: "server_env \<Rightarrow> auth_error \<Rightarrow> api_error" where
  "of_auth_error S InvalidCredentials = ApInvalidCredentials"
| "of_auth_error S Unauthorized = ApUnauthorized"
| "of_auth_error S Forbidden = ApForbidden"
| "of_auth_error S (AuthRepository e) = ApServer (repository_error_display S e)"

fun of_payment_error :: "server_env \<Rightarrow> payment_operation_error \<Rightarrow> api_error" where
  "of_payment_error S InvalidPlanType = ApInvalidPlanType"
| "of_payment_error S (ProviderError msg) = ApProviderError msg"
| "of_payment_error S (PaymentRepository e) = ApServer (repository_error_display S e)"

record error_response =
  er_status :: int
  er_code :: string
  er_message :: string
  er_devices :: "device_summary list option"

fun error_code :: "api_error \<Rightarrow> int \<times> string" where
  "error_code (ApInvalidRequest _) = (400, ''INVALID_REQUEST'')"
| "error_code ApLicenseNotFound = (404, ''LICENSE_NOT_FOUND'')"
| "error_code ApDeviceNotActivated = (404, ''DEVICE_NOT_ACTIVATED'')"
| "error_code (ApDeviceLimitReached _) = (409, ''DEVICE_LIMIT_REACHED'')"
| "error_code ApLicenseExpired = (410, ''LICENSE_EXPIRED'')"
| "error_code ApLicenseRevoked = (410, ''LICENSE_REVOKED'')"
| "error_code ApDeviceMismatch = (403, ''DEVICE_MISMATCH'')"
| "error_code ApInvalidCredentials = (401, ''INVALID_CREDENTIALS'')"
| "error_code ApUnauthorized = (401, ''UNAUTHORIZED'')"
| "error_code ApForbidden = (403, ''FORBIDDEN'')"
| "error_code ApRateLimited = (429, ''RATE_LIMITED'')"
| "error_code ApInvalidPlanType = (400, ''INVALID_PLAN_TYPE'')"
| "error_code (ApProviderError _) = (502, ''PROVIDER_ERROR'')"
| "error_code ApDeviceNotFound = (404, ''DEVICE_NOT_FOUND'')"
| "error_code ApLicenseNotRevoked = (409, ''LICENSE_NOT_REVOKED'')"
| "error_code (ApServer _) = (500, ''SERVER_ERROR'')"

definition into_response :: "server_env \<Rightarrow> api_error \<Rightarrow> error_response" where
  "into_response S e = \<lparr> er_status = fst (error_code e), er_code = snd (error_code e),
     er_message = api_error_display e,
     er_devices = (case e of ApDeviceLimitReached ds \<Rightarrow> Some (map (device_summary_of S) ds) | _ \<Rightarrow> None) \<rparr>"

subsection \<open>Parsing and sessions\<close>

definition parse_device_id :: "server_env \<Rightarrow> string \<Rightarrow> api_error + uuid" where
  "parse_device_id S raw = (case srv_parse_uuid S raw of
     Some u \<Rightarrow> Inr u | None \<Rightarrow> Inl (ApInvalidRequest ''device_id must be a valid UUID''))"

definition parse_license_id :: "string \<Rightarrow> api_error + int" where
  "parse_license_id raw = (case parse_i64 raw of
     Some i \<Rightarrow> Inr i | None \<Rightarrow> Inl (ApInvalidRequest ''license_id must be a valid integer''))"

text \<open>\<open>?\<close> on a pure result.\<close>

definition given :: "'e + 'a \<Rightarrow> ('a \<Rightarrow> ('e, 'b) action) \<Rightarrow> ('e, 'b) action" where
  "given r k = (case r of Inl e \<Rightarrow> return_err e | Inr x \<Rightarrow> k x)"

fun strip_prefix :: "string \<Rightarrow> string \<Rightarrow> string option" where
  "strip_prefix [] s = Some s"
| "strip_prefix (p # ps) [] = None"
| "strip_prefix (p # ps) (c # s) = (if p = c then strip_prefix ps s else None)"

definition optional_owner_user_id :: "server_env \<Rightarrow> headers \<Rightarrow> (api_error, int option) action" where
  "optional_owner_user_id S h =
    (case h ''authorization'' of
       None \<Rightarrow> return_ok None
     | Some value \<Rightarrow>
        (case strip_prefix ''Bearer '' value of
           None \<Rightarrow> return_ok None
         | Some token \<Rightarrow>
             await_as (of_auth_error S) (auth_validate_session (srv_sha256 S) token) (\<lambda>s.
             return_ok (Some (ses_user_id s)))))"

definition extract_bearer_token :: "headers \<Rightarrow> api_error + string" where
  "extract_bearer_token h =
    (case h ''authorization'' of
       None \<Rightarrow> Inl ApUnauthorized
     | Some value \<Rightarrow>
        (case strip_prefix ''Bearer '' value of None \<Rightarrow> Inl ApUnauthorized | Some token \<Rightarrow> Inr token))"

text \<open>The two middlewares: the handler behind them is their last argument.\<close>

definition require_session ::
  "server_env \<Rightarrow> headers \<Rightarrow> (session \<Rightarrow> (api_error, 'a) action) \<Rightarrow> (api_error, 'a) action" where
  "require_session S h handler =
    given (extract_bearer_token h) (\<lambda>token.
    await_as (of_auth_error S) (auth_validate_session (srv_sha256 S) token) handler)"

definition require_admin ::
  "server_env \<Rightarrow> headers \<Rightarrow> (session \<Rightarrow> (api_error, 'a) action) \<Rightarrow> (api_error, 'a) action" where
  "require_admin S h handler =
    given (extract_bearer_token h) (\<lambda>token.
    await_as (of_auth_error S) (auth_require_admin (srv_sha256 S) token) handler)"

subsection \<open>The licensing routes\<close>

definition route_activate ::
  "server_env \<Rightarrow> activate_license_request \<Rightarrow> (api_error, activate_license_response) action" where
  "route_activate S req =
    given (parse_device_id S (alq_device_id req)) (\<lambda>did.
    await_as (of_license_error S) (license_activate (alq_license_key req) did
        (alq_machine_fingerprint req) (alq_device_label req)) (\<lambda>out.
    return_ok \<lparr> asp_license_id = int_str (lic_id (ao_license out)),
      asp_customer_id = int_str (ao_customer_id out), asp_subscription_type = plan_as_str (ao_plan_type out),
      asp_status = license_status_as_str (lic_status (ao_license out)),
      asp_expires_at = map_option (srv_to_rfc3339 S) (lic_expires_at (ao_license out)),
      asp_grace_period_days = lic_grace_period_days (ao_license out) \<rparr>))"

definition route_validate ::
  "server_env \<Rightarrow> headers \<Rightarrow> validate_license_request \<Rightarrow> (api_error, validate_license_response) action" where
  "route_validate S h req =
    given (parse_license_id (vlq_license_id req)) (\<lambda>lid.
    given (parse_device_id S (vlq_device_id req)) (\<lambda>did.
    await (optional_owner_user_id S h) (\<lambda>requesting.
    await_as (of_license_error S)
        (license_validate lid did (vlq_machine_fingerprint req) requesting) (\<lambda>out.
    now_then (\<lambda>now.
    return_ok \<lparr> vsp_status = license_status_as_str (vo_status out),
      vsp_expires_at = map_option (srv_to_rfc3339 S) (vo_expires_at out),
      vsp_grace_period_days = vo_grace_period_days out, vsp_server_time = srv_to_rfc3339 S now,
      vsp_fingerprint_matched = vo_fingerprint_matched out \<rparr>)))))"

definition route_heartbeat ::
  "server_env \<Rightarrow> headers \<Rightarrow> heartbeat_request \<Rightarrow> (api_error, heartbeat_response) action" where
  "route_heartbeat S h req =
    given (parse_license_id (hbq_license_id req)) (\<lambda>lid.
    given (parse_device_id S (hbq_device_id req)) (\<lambda>did.
    await (optional_owner_user_id S h) (\<lambda>requesting.
    await_as (of_license_error S) (license_heartbeat lid did requesting) (\<lambda>st.
    return_ok \<lparr> hsp_status = license_status_as_str st \<rparr>))))"

definition route_deactivate ::
  "server_env \<Rightarrow> headers \<Rightarrow> deactivate_license_request \<Rightarrow> (api_error, deactivate_license_response) action" where
  "route_deactivate S h req =
    given (parse_license_id (dlq_license_id req)) (\<lambda>lid.
    given (parse_device_id S (dlq_device_id req)) (\<lambda>did.
    await (optional_owner_user_id S h) (\<lambda>requesting.
    await_as (of_license_error S)
        (license_deactivate lid did (dlq_machine_fingerprint req) requesting) (\<lambda>n.
    return_ok \<lparr> dsp_status = ''deactivated'', dsp_devices_active = n \<rparr>))))"

subsection \<open>The account routes\<close>

definition route_login :: "server_env \<Rightarrow> login_request \<Rightarrow> (api_error, login_response) action" where
  "route_login S req =
    await_as (of_auth_error S) (auth_login (srv_verify S) (srv_sha256 S) (srv_dummy_hash S) (srv_random S)
        (liq_email req) (liq_password req)) (\<lambda>out.
    return_ok \<lparr> lsp_session_token = lo_session_token out, lsp_user_id = int_str (lo_user_id out),
      lsp_expires_at = srv_to_rfc3339 S (lo_expires_at out) \<rparr>)"

definition route_logout :: "server_env \<Rightarrow> headers \<Rightarrow> (api_error, unit) action" where
  "route_logout S h = require_session S h (\<lambda>s.
    await_as (of_auth_error S) (auth_logout (ses_id s)) (\<lambda>_. return_ok ()))"

record license_summary_dto =
  lsd_license_id :: string
  lsd_status :: string
  lsd_devices_active :: int
  lsd_max_devices :: int
  lsd_license_key :: string

record subscription_summary_dto =
  ssd_subscription_id :: string
  ssd_plan_type :: string
  ssd_status :: string
  ssd_current_period_end :: "string option"
  ssd_auto_renew :: bool
  ssd_licenses :: "license_summary_dto list"

definition route_subscription :: "server_env \<Rightarrow> headers \<Rightarrow> (api_error, subscription_summary_dto) action" where
  "route_subscription S h = require_session S h (\<lambda>s.
    await_as (of_license_error S) (subscription_summary (ses_user_id s)) (\<lambda>out.
    let b = ss_subscription out in
    return_ok \<lparr> ssd_subscription_id = int_str (sub_id b), ssd_plan_type = plan_as_str (sub_plan_type b),
      ssd_status = subscription_status_as_str (sub_status b),
      ssd_current_period_end = map_option (srv_to_rfc3339 S) (sub_current_period_end b),
      ssd_auto_renew = sub_auto_renew b,
      ssd_licenses = map (\<lambda>l. \<lparr> lsd_license_id = int_str (ls_license_id l),
        lsd_status = license_status_as_str (ls_status l), lsd_devices_active = ls_devices_active l,
        lsd_max_devices = ls_max_devices l, lsd_license_key = ls_license_key l \<rparr>) (ss_licenses out) \<rparr>))"

subsection \<open>The payment routes\<close>

definition route_create_checkout_session ::
  "server_env \<Rightarrow> headers \<Rightarrow> create_checkout_session_request \<Rightarrow> (api_error, create_checkout_session_response) action" where
  "route_create_checkout_session S h req = require_session S h (\<lambda>s.
    await_as (of_payment_error S)
        (create_checkout_session (srv_provider S) (ses_user_id s) (ccq_plan_type req)) (\<lambda>out.
    return_ok \<lparr> csp_checkout_url = co_checkout_url out, csp_provider_ref = co_provider_ref out \<rparr>))"

text \<open>
  The event id: Razorpay's header, or else the hash of the body. It is resolved after the body has
  been parsed, so the body is valid UTF-8 and \<open>from_utf8_lossy\<close> returns it unchanged.
\<close>

definition resolve_event_id :: "server_env \<Rightarrow> headers \<Rightarrow> string \<Rightarrow> string" where
  "resolve_event_id S h body =
    (case h ''x-razorpay-event-id'' of Some v \<Rightarrow> v | None \<Rightarrow> hash_token (srv_sha256 S) body)"

definition route_webhook :: "server_env \<Rightarrow> headers \<Rightarrow> string \<Rightarrow> (api_error, string) action" where
  "route_webhook S h body =
    (case h ''x-razorpay-signature'' of
       None \<Rightarrow> return_err ApUnauthorized
     | Some signature \<Rightarrow>
        (case srv_webhook_secret S of
           None \<Rightarrow> return_err ApUnauthorized
         | Some secret \<Rightarrow>
            if \<not> verify_webhook_signature (srv_hmac S) secret body signature then return_err ApUnauthorized
            else
              (case srv_parse_webhook S body of
                 Inl e \<Rightarrow> return_err (ApInvalidRequest e)
               | Inr payload \<Rightarrow>
                   await_as (of_payment_error S)
                     (process_webhook_event (srv_draw S) (resolve_event_id S h body) payload) (\<lambda>_.
                   return_ok ''ok''))))"

end
