(* ===== verification/AdminRoutes.thy ===== *)
theory AdminRoutes
  imports Routes AdminService
begin

text \<open>
  \<open>server/src/routes/admin_api.rs\<close>: the admin console's HTTP interface. Every route stands behind
  \<open>require_admin\<close>; query strings are parsed here, ids travel as decimal text, and a page of rows is
  answered with its transfer objects.
\<close>

fun of_admin_error :: "server_env \<Rightarrow> admin_operation_error \<Rightarrow> api_error" where
  "of_admin_error S AdminLicenseNotFound = ApLicenseNotFound"
| "of_admin_error S AdminLicenseNotRevoked = ApLicenseNotRevoked"
| "of_admin_error S AdminDeviceNotFound = ApDeviceNotFound"
| "of_admin_error S (AdminRepository e) = ApServer (repository_error_display S e)"

subsection \<open>Query parameters\<close>

definition in_quotes :: "string \<Rightarrow> string" where
  "in_quotes s = CHR 0x27 # s @ [CHR 0x27]"

definition parse_optional_with ::
  "(string \<Rightarrow> 'a option) \<Rightarrow> string \<Rightarrow> string option \<Rightarrow> api_error + 'a option" where
  "parse_optional_with parse complaint raw =
    (case raw of
       None \<Rightarrow> Inr None
     | Some s \<Rightarrow> (case parse s of None \<Rightarrow> Inl (ApInvalidRequest complaint) | Some x \<Rightarrow> Inr (Some x)))"

definition parse_optional_i64 :: "string \<Rightarrow> string option \<Rightarrow> api_error + int option" where
  "parse_optional_i64 field raw =
    parse_optional_with parse_i64 (field @ '' must be a valid integer'') raw"

definition parse_optional_bool :: "string \<Rightarrow> string option \<Rightarrow> api_error + bool option" where
  "parse_optional_bool field raw =
    parse_optional_with (\<lambda>s. if s = ''true'' then Some True else if s = ''false'' then Some False else None)
      (field @ '' must be '' @ in_quotes ''true'' @ '' or '' @ in_quotes ''false'') raw"

definition parse_optional_datetime ::
  "server_env \<Rightarrow> string \<Rightarrow> string option \<Rightarrow> api_error + timestamp option" where
  "parse_optional_datetime S field raw =
    parse_optional_with (srv_parse_rfc3339 S) (field @ '' must be a valid RFC3339 timestamp'') raw"

text \<open>\<open>parse_optional::<T>\<close>, with \<open>T\<close>'s \<open>FromStr\<close>.\<close>

definition parse_optional_enum ::
  "(string \<Rightarrow> string + 'a) \<Rightarrow> string \<Rightarrow> string option \<Rightarrow> api_error + 'a option" where
  "parse_optional_enum from_str field raw =
    parse_optional_with (\<lambda>s. case from_str s of Inl _ \<Rightarrow> None | Inr x \<Rightarrow> Some x)
      (field @ '' is not a recognized value'') raw"

record 'a paged_response =
  pr_items :: "'a list"
  pr_page :: int
  pr_page_size :: int
  pr_total :: int

definition paged_response_of :: "('u \<Rightarrow> 't) \<Rightarrow> 'u page_of \<Rightarrow> 't paged_response" where
  "paged_response_of into page = \<lparr> pr_items = map into (po_items page), pr_page = po_page page,
     pr_page_size = po_page_size page, pr_total = po_total page \<rparr>"

text \<open>\<open>Pagination::new(parse_optional_i64(q.page)?, parse_optional_i64(q.page_size)?)\<close>.\<close>

definition parse_pagination :: "string option \<Rightarrow> string option \<Rightarrow> api_error + pagination" where
  "parse_pagination page page_size =
    (case parse_optional_i64 ''page'' page of
       Inl e \<Rightarrow> Inl e
     | Inr p \<Rightarrow>
        (case parse_optional_i64 ''page_size'' page_size of
           Inl e \<Rightarrow> Inl e
         | Inr s \<Rightarrow> Inr (pagination_new p s)))"

subsection \<open>Lists\<close>

record user_list_query =
  ulq_page :: "string option"
  ulq_page_size :: "string option"
  ulq_search :: "string option"
  ulq_order :: "string option"

record admin_user_dto =
  aud_id :: string
  aud_email :: string
  aud_company_name :: "string option"
  aud_role :: string
  aud_status :: "string option"
  aud_created_at :: string

definition admin_user_dto_of :: "server_env \<Rightarrow> admin_user_summary \<Rightarrow> admin_user_dto" where
  "admin_user_dto_of S u = \<lparr> aud_id = int_str (aus_id u), aud_email = aus_email u,
     aud_company_name = aus_company_name u, aud_role = user_role_as_str (aus_role u),
     aud_status = map_option subscription_status_as_str (aus_subscription_status u),
     aud_created_at = srv_to_rfc3339 S (aus_created_at u) \<rparr>"

definition parse_order :: "string option \<Rightarrow> api_error + sort_order" where
  "parse_order order =
    (case order of
       None \<Rightarrow> Inr Descending
     | Some s \<Rightarrow> if s = ''desc'' then Inr Descending else if s = ''asc'' then Inr Ascending
         else Inl (ApInvalidRequest (''order must be '' @ in_quotes ''asc'' @ '' or '' @ in_quotes ''desc'')))"

definition route_list_users ::
  "server_env \<Rightarrow> (string \<Rightarrow> string \<Rightarrow> bool) \<Rightarrow> headers \<Rightarrow> user_list_query
    \<Rightarrow> (api_error, admin_user_dto paged_response) action" where
  "route_list_users S ilike h q = require_admin S h (\<lambda>_.
    given (parse_order (ulq_order q)) (\<lambda>order.
    given (parse_pagination (ulq_page q) (ulq_page_size q)) (\<lambda>pg.
    await_as (\<lambda>e. of_admin_error S (AdminRepository e)) (admin_list_users ilike
      \<lparr> ulf_search = ulq_search q, ulf_sort_order = order, ulf_pagination = pg \<rparr>) (\<lambda>page.
    return_ok (paged_response_of (admin_user_dto_of S) page)))))"

record license_list_query =
  llq_page :: "string option"
  llq_page_size :: "string option"
  llq_status :: "string option"
  llq_plan :: "string option"
  llq_expires_before :: "string option"
  llq_expires_after :: "string option"

record admin_license_dto =
  ald_license_id :: string
  ald_license_key :: string
  ald_status :: string
  ald_plan_type :: string
  ald_expires_at :: "string option"
  ald_max_devices :: int
  ald_issued_at :: string
  ald_user_id :: string

definition admin_license_dto_of :: "server_env \<Rightarrow> admin_license_summary \<Rightarrow> admin_license_dto" where
  "admin_license_dto_of S l = \<lparr> ald_license_id = int_str (als_id l), ald_license_key = als_license_key l,
     ald_status = license_status_as_str (als_status l), ald_plan_type = plan_as_str (als_plan_type l),
     ald_expires_at = map_option (srv_to_rfc3339 S) (als_expires_at l), ald_max_devices = als_max_devices l,
     ald_issued_at = srv_to_rfc3339 S (als_issued_at l), ald_user_id = int_str (als_user_id l) \<rparr>"

definition route_list_licenses ::
  "server_env \<Rightarrow> headers \<Rightarrow> license_list_query \<Rightarrow> (api_error, admin_license_dto paged_response) action" where
  "route_list_licenses S h q = require_admin S h (\<lambda>_.
    given (parse_optional_enum license_status_from_str ''status'' (llq_status q)) (\<lambda>status.
    given (parse_optional_enum plan_from_str ''plan'' (llq_plan q)) (\<lambda>plan.
    given (parse_optional_datetime S ''expires_before'' (llq_expires_before q)) (\<lambda>before.
    given (parse_optional_datetime S ''expires_after'' (llq_expires_after q)) (\<lambda>expires_after.
    given (parse_pagination (llq_page q) (llq_page_size q)) (\<lambda>pg.
    await_as (\<lambda>e. of_admin_error S (AdminRepository e)) (admin_list_licenses
      \<lparr> llf_status = status, llf_plan_type = plan, llf_expires_before = before,
        llf_expires_after = expires_after, llf_pagination = pg \<rparr>) (\<lambda>page.
    return_ok (paged_response_of (admin_license_dto_of S) page))))))))"

record device_list_query =
  dvq_page :: "string option"
  dvq_page_size :: "string option"
  dvq_user_id :: "string option"
  dvq_license :: "string option"

record admin_device_dto =
  add_id :: string
  add_license_id :: string
  add_user_id :: string
  add_device_id :: string
  add_device_label :: "string option"
  add_last_seen_at :: string
  add_is_active :: bool

definition admin_device_dto_of :: "server_env \<Rightarrow> admin_device_summary \<Rightarrow> admin_device_dto" where
  "admin_device_dto_of S x = \<lparr> add_id = int_str (ads_id x), add_license_id = int_str (ads_license_id x),
     add_user_id = int_str (ads_user_id x), add_device_id = srv_show_uuid S (ads_device_id x),
     add_device_label = ads_device_label x, add_last_seen_at = srv_to_rfc3339 S (ads_last_seen_at x),
     add_is_active = ads_is_active x \<rparr>"

definition route_list_devices ::
  "server_env \<Rightarrow> headers \<Rightarrow> device_list_query \<Rightarrow> (api_error, admin_device_dto paged_response) action" where
  "route_list_devices S h q = require_admin S h (\<lambda>_.
    given (parse_optional_i64 ''user_id'' (dvq_user_id q)) (\<lambda>uid.
    given (parse_optional_i64 ''license_id'' (dvq_license q)) (\<lambda>lid.
    given (parse_pagination (dvq_page q) (dvq_page_size q)) (\<lambda>pg.
    await_as (\<lambda>e. of_admin_error S (AdminRepository e)) (admin_list_devices
      \<lparr> dlf_user_id = uid, dlf_license_id = lid, dlf_pagination = pg \<rparr>) (\<lambda>page.
    return_ok (paged_response_of (admin_device_dto_of S) page))))))"

record login_history_query =
  lhq_page :: "string option"
  lhq_page_size :: "string option"
  lhq_user_id :: "string option"
  lhq_success :: "string option"
  lhq_from :: "string option"
  lhq_to :: "string option"

record login_history_dto =
  lhd_id :: string
  lhd_user_id :: string
  lhd_device_id :: "string option"
  lhd_success :: bool
  lhd_created_at :: string

definition login_history_dto_of :: "server_env \<Rightarrow> login_history_entry \<Rightarrow> login_history_dto" where
  "login_history_dto_of S e = \<lparr> lhd_id = int_str (lh_id e), lhd_user_id = int_str (lh_user_id e),
     lhd_device_id = map_option (srv_show_uuid S) (lh_device_id e), lhd_success = lh_success e,
     lhd_created_at = srv_to_rfc3339 S (lh_created_at e) \<rparr>"

definition route_list_login_history ::
  "server_env \<Rightarrow> headers \<Rightarrow> login_history_query \<Rightarrow> (api_error, login_history_dto paged_response) action" where
  "route_list_login_history S h q = require_admin S h (\<lambda>_.
    given (parse_optional_i64 ''user_id'' (lhq_user_id q)) (\<lambda>uid.
    given (parse_optional_bool ''success'' (lhq_success q)) (\<lambda>ok.
    given (parse_optional_datetime S ''from'' (lhq_from q)) (\<lambda>from_t.
    given (parse_optional_datetime S ''to'' (lhq_to q)) (\<lambda>to_t.
    given (parse_pagination (lhq_page q) (lhq_page_size q)) (\<lambda>pg.
    await_as (\<lambda>e. of_admin_error S (AdminRepository e)) (admin_list_login_history
      \<lparr> lhf_user_id = uid, lhf_success = ok, lhf_from = from_t, lhf_to = to_t, lhf_pagination = pg \<rparr>) (\<lambda>page.
    return_ok (paged_response_of (login_history_dto_of S) page))))))))"

record license_validation_query =
  lvq_page :: "string option"
  lvq_page_size :: "string option"
  lvq_license_id :: "string option"
  lvq_result :: "string option"
  lvq_from :: "string option"
  lvq_to :: "string option"

record license_validation_dto =
  lvd_id :: string
  lvd_license_id :: string
  lvd_device_id :: string
  lvd_result :: string
  lvd_created_at :: string

definition license_validation_dto_of :: "server_env \<Rightarrow> license_validation_entry \<Rightarrow> license_validation_dto" where
  "license_validation_dto_of S e = \<lparr> lvd_id = int_str (lv_id e), lvd_license_id = int_str (lv_license_id e),
     lvd_device_id = srv_show_uuid S (lv_device_id e), lvd_result = log_result_as_str (lv_result e),
     lvd_created_at = srv_to_rfc3339 S (lv_created_at e) \<rparr>"

definition route_list_license_validations ::
  "server_env \<Rightarrow> headers \<Rightarrow> license_validation_query \<Rightarrow> (api_error, license_validation_dto paged_response) action" where
  "route_list_license_validations S h q = require_admin S h (\<lambda>_.
    given (parse_optional_i64 ''license_id'' (lvq_license_id q)) (\<lambda>lid.
    given (parse_optional_enum log_result_from_str ''result'' (lvq_result q)) (\<lambda>res.
    given (parse_optional_datetime S ''from'' (lvq_from q)) (\<lambda>from_t.
    given (parse_optional_datetime S ''to'' (lvq_to q)) (\<lambda>to_t.
    given (parse_pagination (lvq_page q) (lvq_page_size q)) (\<lambda>pg.
    await_as (\<lambda>e. of_admin_error S (AdminRepository e)) (admin_list_license_validations
      \<lparr> lvf_license_id = lid, lvf_result = res, lvf_from = from_t, lvf_to = to_t, lvf_pagination = pg \<rparr>) (\<lambda>page.
    return_ok (paged_response_of (license_validation_dto_of S) page))))))))"

subsection \<open>Actions\<close>

record license_action_response =
  lar_license_id :: string
  lar_status :: string

definition license_action_response_of :: "license \<Rightarrow> license_action_response" where
  "license_action_response_of l =
    \<lparr> lar_license_id = int_str (lic_id l), lar_status = license_status_as_str (lic_status l) \<rparr>"

definition route_revoke_license ::
  "server_env \<Rightarrow> headers \<Rightarrow> string \<Rightarrow> string option option \<Rightarrow> (api_error, license_action_response) action" where
  "route_revoke_license S h raw_license_id body = require_admin S h (\<lambda>_.
    given (parse_license_id raw_license_id) (\<lambda>lid.
    await_as (of_admin_error S) (admin_revoke_license lid (Option.bind body (\<lambda>reason. reason))) (\<lambda>l.
    return_ok (license_action_response_of l))))"

definition route_restore_license ::
  "server_env \<Rightarrow> headers \<Rightarrow> string \<Rightarrow> (api_error, license_action_response) action" where
  "route_restore_license S h raw_license_id = require_admin S h (\<lambda>_.
    given (parse_license_id raw_license_id) (\<lambda>lid.
    await_as (of_admin_error S) (admin_restore_license lid) (\<lambda>l.
    return_ok (license_action_response_of l))))"

record device_action_response =
  dar_device_id :: string
  dar_status :: string

definition parse_admin_device_id :: "string \<Rightarrow> api_error + int" where
  "parse_admin_device_id raw = (case parse_i64 raw of
     Some i \<Rightarrow> Inr i | None \<Rightarrow> Inl (ApInvalidRequest ''device_id must be a valid integer''))"

definition route_deactivate_device ::
  "server_env \<Rightarrow> headers \<Rightarrow> string \<Rightarrow> (api_error, device_action_response) action" where
  "route_deactivate_device S h raw_device_id = require_admin S h (\<lambda>_.
    given (parse_admin_device_id raw_device_id) (\<lambda>i.
    await_as (of_admin_error S) (admin_deactivate_device i) (\<lambda>_.
    return_ok \<lparr> dar_device_id = int_str i, dar_status = ''deactivated'' \<rparr>)))"

definition route_activate_device ::
  "server_env \<Rightarrow> headers \<Rightarrow> string \<Rightarrow> (api_error, device_action_response) action" where
  "route_activate_device S h raw_device_id = require_admin S h (\<lambda>_.
    given (parse_admin_device_id raw_device_id) (\<lambda>i.
    await_as (of_admin_error S) (admin_activate_device i) (\<lambda>_.
    return_ok \<lparr> dar_device_id = int_str i, dar_status = ''activated'' \<rparr>)))"

end
