(* ===== verification/RouteFacts.thy ===== *)
theory RouteFacts
  imports AdminRoutes AuthFacts
begin

text \<open>
  What the HTTP boundary adds to the services: nothing reaches an admin or account operation without
  the right session, nothing reaches webhook processing without a valid signature, and how the
  server's error codes read at the client.
\<close>

subsection \<open>Guards\<close>

lemma keeps_auth_db:
  "db (snd (auth_validate_session sha256 token w)) = db w"
  "db (snd (auth_require_admin sha256 token w)) = db w"
  using keepsD [OF keeps_auth(2), of "\<lambda>d s. d = db w" w sha256 token]
    keepsD [OF keeps_auth(3), of "\<lambda>d s. d = db w" w sha256 token] by simp_all

lemma given_run: "given r k w = (case r of Inl e \<Rightarrow> (Inl e, w) | Inr x \<Rightarrow> k x w)"
  by (simp add: given_def return_err_def split: sum.split)

text \<open>What a bearer token has to be for the request to pass.\<close>

definition bearer :: "headers \<Rightarrow> string option" where
  "bearer h = Option.bind (h ''authorization'') (strip_prefix ''Bearer '')"

definition session_request :: "server_env \<Rightarrow> headers \<Rightarrow> world \<Rightarrow> session \<Rightarrow> bool" where
  "session_request S h w s \<longleftrightarrow> (\<exists>token. bearer h = Some token \<and> s \<in> set (sessions (db w))
     \<and> ses_token_hash s = hash_token (srv_sha256 S) token \<and> session_live s (utc_now w))"

definition admin_request :: "server_env \<Rightarrow> headers \<Rightarrow> world \<Rightarrow> bool" where
  "admin_request S h w \<longleftrightarrow> (\<exists>s u. session_request S h w s \<and> u \<in> set (users (db w))
     \<and> usr_id u = ses_user_id s \<and> usr_role u = Admin)"

lemma extract_bearer: "extract_bearer_token h = (case bearer h of None \<Rightarrow> Inl ApUnauthorized | Some t \<Rightarrow> Inr t)"
  by (simp add: extract_bearer_token_def bearer_def split: option.split)

definition turned_away :: "(api_error, 'a) action \<Rightarrow> world \<Rightarrow> bool" where
  "turned_away m w \<longleftrightarrow> (\<exists>e. fst (m w) = Inl e) \<and> db (snd (m w)) = db w"

lemma require_admin_turns_away:
  assumes "\<not> admin_request S h w"
  shows "turned_away (require_admin S h handler) w"
proof (cases "bearer h")
  case None
  then show ?thesis
    by (simp add: turned_away_def require_admin_def extract_bearer given_run)
next
  case (Some token)
  obtain r w' where run: "auth_require_admin (srv_sha256 S) token w = (r, w')" by fastforce
  have "\<exists>e. r = Inl e"
  proof (cases r)
    case (Inr s)
    with require_admin_safe [of "srv_sha256 S" token w s w'] run Some assms
    show ?thesis by (auto simp: admin_request_def session_request_def)
  qed simp
  moreover have "db w' = db w" using keeps_auth_db(2) [of "srv_sha256 S" token w] run by simp
  ultimately show ?thesis
    using Some run by (auto simp: turned_away_def require_admin_def extract_bearer given_run await_as_def)
qed

lemma require_session_turns_away:
  assumes "\<And>s. \<not> session_request S h w s"
  shows "turned_away (require_session S h handler) w"
proof (cases "bearer h")
  case None
  then show ?thesis
    by (simp add: turned_away_def require_session_def extract_bearer given_run)
next
  case (Some token)
  obtain r w' where run: "auth_validate_session (srv_sha256 S) token w = (r, w')" by fastforce
  have "\<exists>e. r = Inl e"
  proof (cases r)
    case (Inr s)
    with run have "session_by_hash (hash_token (srv_sha256 S) token) (db w) = Some s"
      "session_live s (utc_now w)"
      by (auto elim: auth_validate_InrE)
    then have "session_request S h w s"
      using find_SomeD [of _ "sessions (db w)" s] Some
      by (auto simp: session_request_def session_by_hash_def)
    with assms show ?thesis by blast
  qed simp
  moreover have "db w' = db w" using keeps_auth_db(1) [of "srv_sha256 S" token w] run by simp
  ultimately show ?thesis
    using Some run by (auto simp: turned_away_def require_session_def extract_bearer given_run await_as_def)
qed

text \<open>No admin operation without an admin. A request that does not carry the bearer token of a live
  session of an account with the admin role is answered with an error on each of the nine admin
  routes and changes no table, under any database failures.\<close>

lemma admin_routes_guarded:
  assumes "\<not> admin_request S h w"
  shows "turned_away (route_list_users S ilike h uq) w \<and> turned_away (route_list_licenses S h lq) w
    \<and> turned_away (route_list_devices S h dq) w \<and> turned_away (route_list_login_history S h hq) w
    \<and> turned_away (route_list_license_validations S h vq) w
    \<and> turned_away (route_revoke_license S h raw body) w \<and> turned_away (route_restore_license S h raw) w
    \<and> turned_away (route_deactivate_device S h raw) w \<and> turned_away (route_activate_device S h raw) w"
  unfolding route_list_users_def route_list_licenses_def route_list_devices_def
    route_list_login_history_def route_list_license_validations_def route_revoke_license_def
    route_restore_license_def route_deactivate_device_def route_activate_device_def
  by (intro conjI require_admin_turns_away [OF assms])

text \<open>The account routes (logout, subscription, checkout) answer a request without the bearer token of
  a live session with an error, and change no table, under any database failures.\<close>

lemma account_routes_guarded:
  assumes "\<forall>s \<in> set (sessions (db w)). \<not> session_request S h w s"
  shows "turned_away (route_logout S h) w \<and> turned_away (route_subscription S h) w
    \<and> turned_away (route_create_checkout_session S h req) w"
proof -
  have "\<not> session_request S h w s" for s using assms by (auto simp: session_request_def)
  then show ?thesis
    unfolding route_logout_def route_subscription_def route_create_checkout_session_def
    by (intro conjI require_session_turns_away)
qed

subsection \<open>Webhooks\<close>

definition webhook_signed :: "server_env \<Rightarrow> headers \<Rightarrow> string \<Rightarrow> bool" where
  "webhook_signed S h body \<longleftrightarrow> (\<exists>signature secret. h ''x-razorpay-signature'' = Some signature
     \<and> srv_webhook_secret S = Some secret \<and> verify_webhook_signature (srv_hmac S) secret body signature)"

text \<open>A webhook call without a valid signature of its very body under the configured secret, and every
  call while no secret is configured, is answered with \<open>Unauthorized\<close> and has no effect at all; a
  signed call has exactly the effect of processing its payload under the event id of the request, and
  one delivered again without an event id header is processed under the same id.\<close>

lemma webhook_route_authenticated:
  "(\<not> webhook_signed S h body \<longrightarrow> route_webhook S h body w = (Inl ApUnauthorized, w))
   \<and> (webhook_signed S h body \<longrightarrow>
       db (snd (route_webhook S h body w)) =
         (case srv_parse_webhook S body of
            Inl _ \<Rightarrow> db w
          | Inr pl \<Rightarrow> db (snd (process_webhook_event (srv_draw S) (resolve_event_id S h body) pl w))))
   \<and> (h ''x-razorpay-event-id'' = None \<longrightarrow>
       resolve_event_id S h body = resolve_event_id S (\<lambda>_. None) body)"
  by (auto simp: webhook_signed_def route_webhook_def return_run resolve_event_id_def await_as_def
      split: option.splits sum.splits prod.splits)

subsection \<open>Errors at the client\<close>

text \<open>What \<open>handle_response\<close> makes of an error response of this server.\<close>

definition client_view :: "api_error \<Rightarrow> client_error" where
  "client_view e = map_error_code (fst (error_code e)) (Some (snd (error_code e)))"

lemma client_view_simps [simp]:
  "client_view ApLicenseNotFound = ClLicenseNotFound"
  "client_view ApDeviceNotActivated = ClDeviceNotActivated"
  "client_view (ApDeviceLimitReached ds) = ClDeviceLimitReached"
  "client_view ApLicenseExpired = ClLicenseExpired"
  "client_view ApLicenseRevoked = ClLicenseRevoked"
  "client_view ApInvalidCredentials = ClInvalidCredentials"
  "client_view ApUnauthorized = ClUnauthorized"
  "client_view ApRateLimited = ClRateLimited"
  by (simp_all add: client_view_def map_error_code_def)

text \<open>The remaining codes have no counterpart at the client and read as a server error.\<close>

lemma client_view_unknown:
  assumes "e \<in> {ApDeviceMismatch, ApForbidden, ApInvalidPlanType, ApDeviceNotFound, ApLicenseNotRevoked}
    \<or> (\<exists>msg. e \<in> {ApInvalidRequest msg, ApProviderError msg, ApServer msg})"
  shows "client_view e = ServerError (''server returned HTTP '' @ int_str (fst (error_code e)))"
  using assms by (auto simp: client_view_def map_error_code_def)

text \<open>The API a client has when this server, in the given state, answers each of its calls.\<close>

definition server_api :: "server_env \<Rightarrow> world \<Rightarrow> license_api" where
  "server_api S w = \<lparr>
     api_activate = (\<lambda>q. map_err client_view (fst (route_activate S q w))),
     api_validate = (\<lambda>q. map_err client_view (fst (route_validate S (\<lambda>_. None) q w))) \<rparr>"

end
