(* ===== verification/DesktopStore.thy ===== *)
theory DesktopStore
  imports Protocol
begin

text \<open>
  \<open>src/license/{storage,fingerprint}.rs\<close> of the desktop application: the local SQLite tables that
  cache the license and identify the device. A local database is a record of the three tables of
  migration 6; every statement is one call of \<open>sqlite\<close>, which a schedule of faults can make fail
  with the error text the source attaches to it. The columns the code never reads back
  (\<open>updated_at\<close>, \<open>checked_at\<close>, \<open>created_at\<close>) are left out. What comes from other crates is collected
  in \<open>externals\<close>: HMAC-SHA256, base64, SHA-256, chrono's RFC 3339, the environment variables and the
  random bytes of a device id. Times are in microseconds, as on the server.
\<close>

record externals =
  ext_hmac :: "string \<Rightarrow> string \<Rightarrow> 8 word list"
  ext_base64 :: "8 word list \<Rightarrow> string"
  ext_sha256 :: "string \<Rightarrow> 8 word list"
  ext_to_rfc3339 :: "timestamp \<Rightarrow> string"
  ext_parse_rfc3339 :: "string \<Rightarrow> timestamp option"
  ext_environment :: "string \<Rightarrow> string option"
  ext_random :: "8 word list"

subsection \<open>Device identity\<close>

text \<open>Bytes 6 and 8 carry the version and variant bits of a version 4 UUID.\<close>

definition stamp_uuid :: "8 word list \<Rightarrow> 8 word list" where
  "stamp_uuid bs =
    bs[6 := or (and (bs ! 6) 0x0F) 0x40, 8 := or (and (bs ! 8) 0x3F) 0x80]"

definition generate_device_id :: "8 word list \<Rightarrow> string" where
  "generate_device_id random =
    (let h = map hex_byte (stamp_uuid random); part = (\<lambda>i n. concat (take n (drop i h))) in
     part 0 4 @ ''-'' @ part 4 2 @ ''-'' @ part 6 2 @ ''-'' @ part 8 2 @ ''-'' @ part 10 6)"

record fingerprint_inputs =
  fi_computer_name :: string
  fi_user_name :: string
  fi_processor_identifier :: string

definition env_or_unknown :: "externals \<Rightarrow> string \<Rightarrow> string" where
  "env_or_unknown E key = (case ext_environment E key of Some v \<Rightarrow> v | None \<Rightarrow> ''unknown'')"

definition fingerprint_collect :: "externals \<Rightarrow> fingerprint_inputs" where
  "fingerprint_collect E = \<lparr> fi_computer_name = env_or_unknown E ''COMPUTERNAME'',
     fi_user_name = env_or_unknown E ''USERNAME'',
     fi_processor_identifier = env_or_unknown E ''PROCESSOR_IDENTIFIER'' \<rparr>"

definition fingerprint_to_json :: "fingerprint_inputs \<Rightarrow> string" where
  "fingerprint_to_json f =
    ''{'' @ debug_str ''computer_name'' @ '':'' @ debug_str (fi_computer_name f)
    @ '','' @ debug_str ''user_name'' @ '':'' @ debug_str (fi_user_name f)
    @ '','' @ debug_str ''processor_identifier'' @ '':'' @ debug_str (fi_processor_identifier f) @ ''}''"

definition fingerprint_hash :: "externals \<Rightarrow> fingerprint_inputs \<Rightarrow> string" where
  "fingerprint_hash E f = concat (map hex_byte (ext_sha256 E
     (fi_computer_name f @ ''|'' @ fi_user_name f @ ''|'' @ fi_processor_identifier f)))"

subsection \<open>The cached license\<close>

record local_license =
  ll_customer_id :: "string option"
  ll_license_id :: "string option"
  ll_license_key :: "string option"
  ll_subscription_type :: "string option"
  ll_status :: string
  ll_expires_at :: "timestamp option"
  ll_last_validated_at :: "timestamp option"
  ll_grace_period_days :: int
  ll_highest_seen_clock :: "timestamp option"

definition not_activated :: local_license where
  "not_activated = \<lparr> ll_customer_id = None, ll_license_id = None, ll_license_key = None,
     ll_subscription_type = None, ll_status = ''not_activated'', ll_expires_at = None,
     ll_last_validated_at = None, ll_grace_period_days = 7, ll_highest_seen_clock = None \<rparr>"

definition or_empty :: "string option \<Rightarrow> string" where
  "or_empty s = (case s of Some s \<Rightarrow> s | None \<Rightarrow> [])"

definition integrity_payload :: "externals \<Rightarrow> local_license \<Rightarrow> string" where
  "integrity_payload E r =
    or_empty (ll_license_id r) @ ''|'' @ ll_status r
    @ ''|'' @ or_empty (map_option (ext_to_rfc3339 E) (ll_expires_at r))
    @ ''|'' @ int_str (ll_grace_period_days r)
    @ ''|'' @ or_empty (map_option (ext_to_rfc3339 E) (ll_last_validated_at r))"

definition integrity_key :: string where
  "integrity_key = ''bank-statement-processor/local-license-integrity/v1''"

definition compute_integrity_hmac :: "externals \<Rightarrow> local_license \<Rightarrow> string" where
  "compute_integrity_hmac E r = ext_base64 E (ext_hmac E integrity_key (integrity_payload E r))"

text \<open>The row as SQLite stores it: times as text, and the signature, which old rows lack.\<close>

record license_row =
  row_customer_id :: "string option"
  row_license_id :: "string option"
  row_license_key :: "string option"
  row_subscription_type :: "string option"
  row_status :: string
  row_expires_at :: "string option"
  row_last_validated_at :: "string option"
  row_grace_period_days :: int
  row_highest_seen_clock :: "string option"
  row_integrity_hmac :: "string option"

definition parse_ts :: "externals \<Rightarrow> string option \<Rightarrow> timestamp option" where
  "parse_ts E s = Option.bind s (ext_parse_rfc3339 E)"

definition record_of_row :: "externals \<Rightarrow> license_row \<Rightarrow> local_license" where
  "record_of_row E row = \<lparr> ll_customer_id = row_customer_id row, ll_license_id = row_license_id row,
     ll_license_key = row_license_key row, ll_subscription_type = row_subscription_type row,
     ll_status = row_status row, ll_expires_at = parse_ts E (row_expires_at row),
     ll_last_validated_at = parse_ts E (row_last_validated_at row),
     ll_grace_period_days = row_grace_period_days row,
     ll_highest_seen_clock = parse_ts E (row_highest_seen_clock row) \<rparr>"

definition row_of_record :: "externals \<Rightarrow> local_license \<Rightarrow> license_row" where
  "row_of_record E r = \<lparr> row_customer_id = ll_customer_id r, row_license_id = ll_license_id r,
     row_license_key = ll_license_key r, row_subscription_type = ll_subscription_type r,
     row_status = ll_status r, row_expires_at = map_option (ext_to_rfc3339 E) (ll_expires_at r),
     row_last_validated_at = map_option (ext_to_rfc3339 E) (ll_last_validated_at r),
     row_grace_period_days = ll_grace_period_days r,
     row_highest_seen_clock = map_option (ext_to_rfc3339 E) (ll_highest_seen_clock r),
     row_integrity_hmac = Some (compute_integrity_hmac E r) \<rparr>"

subsection \<open>The local database\<close>

record device_info =
  di_device_id :: string
  di_machine_fingerprint :: string
  di_fingerprint_inputs :: string

record device_info_row =
  drw_device_id :: string
  drw_machine_fingerprint :: string
  drw_fingerprint_inputs :: "string option"

record validation_log_row =
  vlr_result_text :: string
  vlr_online :: bool
  vlr_detail :: string

record desk =
  dk_license :: "license_row option"
  dk_device :: "device_info_row option"
  dk_log :: "validation_log_row list"
  dk_faults :: "bool list"

type_synonym 'a desk_action = "desk \<Rightarrow> (string + 'a) \<times> desk"

definition desk_ok :: "'a \<Rightarrow> 'a desk_action" where
  "desk_ok x d = (Inr x, d)"

definition desk_bail :: "string \<Rightarrow> 'a desk_action" where
  "desk_bail e d = (Inl e, d)"

definition next_fails :: "desk \<Rightarrow> bool" where
  "next_fails d = (case dk_faults d of [] \<Rightarrow> False | failing # _ \<Rightarrow> failing)"

definition consumed :: "desk \<Rightarrow> desk" where
  "consumed d = d\<lparr>dk_faults := tl (dk_faults d)\<rparr>"

definition sqlite :: "string \<Rightarrow> (desk \<Rightarrow> 'a \<times> desk) \<Rightarrow> 'a desk_action" where
  "sqlite ctx q d =
    (if next_fails d then (Inl ctx, consumed d)
     else (case q (consumed d) of (x, d') \<Rightarrow> (Inr x, d')))"

text \<open>\<open>?\<close> on a result, and \<open>let _ =\<close>, which drops one.\<close>

definition desk_try :: "'a desk_action \<Rightarrow> ('a \<Rightarrow> 'b desk_action) \<Rightarrow> 'b desk_action" where
  "desk_try m k d = (case m d of (Inl e, d') \<Rightarrow> (Inl e, d') | (Inr x, d') \<Rightarrow> k x d')"

definition after :: "'a desk_action \<Rightarrow> desk \<Rightarrow> desk" where
  "after m d = snd (m d)"

definition tampered_error :: string where
  "tampered_error = ''local license record failed integrity check (cached data may have been tampered with)''"

definition signature_ok :: "externals \<Rightarrow> license_row \<Rightarrow> bool" where
  "signature_ok E row \<longleftrightarrow> (case row_integrity_hmac row of
     None \<Rightarrow> True | Some stored \<Rightarrow> stored = compute_integrity_hmac E (record_of_row E row))"

definition load_local_license :: "externals \<Rightarrow> local_license option desk_action" where
  "load_local_license E =
    desk_try (sqlite ''load_local_license'' (\<lambda>d. (dk_license d, d))) (\<lambda>row.
    case row of
      None \<Rightarrow> desk_ok None
    | Some row \<Rightarrow> if signature_ok E row then desk_ok (Some (record_of_row E row))
        else desk_bail tampered_error)"

definition save_local_license :: "externals \<Rightarrow> local_license \<Rightarrow> unit desk_action" where
  "save_local_license E r =
    sqlite ''save_local_license'' (\<lambda>d. ((), d\<lparr>dk_license := Some (row_of_record E r)\<rparr>))"

definition should_advance :: "timestamp option \<Rightarrow> timestamp \<Rightarrow> bool" where
  "should_advance watermark now = (case watermark of Some existing \<Rightarrow> existing < now | None \<Rightarrow> True)"

definition advance_clock_watermark :: "externals \<Rightarrow> timestamp \<Rightarrow> unit desk_action" where
  "advance_clock_watermark E now =
    desk_try (load_local_license E) (\<lambda>loaded.
    case loaded of
      None \<Rightarrow> desk_ok ()
    | Some r \<Rightarrow>
        if should_advance (ll_highest_seen_clock r) now
        then save_local_license E (r\<lparr>ll_highest_seen_clock := Some now\<rparr>)
        else desk_ok ())"

definition load_device_info :: "device_info option desk_action" where
  "load_device_info = sqlite ''load_device_info'' (\<lambda>d. (map_option (\<lambda>row.
     \<lparr> di_device_id = drw_device_id row, di_machine_fingerprint = drw_machine_fingerprint row,
       di_fingerprint_inputs = or_empty (drw_fingerprint_inputs row) \<rparr>) (dk_device d), d))"

definition get_or_create_device_info :: "externals \<Rightarrow> device_info desk_action" where
  "get_or_create_device_info E =
    desk_try load_device_info (\<lambda>existing.
    case existing of
      Some info \<Rightarrow> desk_ok info
    | None \<Rightarrow>
        let inputs = fingerprint_collect E;
            info = \<lparr> di_device_id = generate_device_id (ext_random E),
              di_machine_fingerprint = fingerprint_hash E inputs,
              di_fingerprint_inputs = fingerprint_to_json inputs \<rparr> in
        desk_try (sqlite ''get_or_create_device_info insert'' (\<lambda>d. ((), d\<lparr>dk_device := Some
          \<lparr> drw_device_id = di_device_id info, drw_machine_fingerprint = di_machine_fingerprint info,
            drw_fingerprint_inputs = Some (di_fingerprint_inputs info) \<rparr>\<rparr>))) (\<lambda>_. desk_ok info))"

definition log_validation :: "string \<Rightarrow> bool \<Rightarrow> string \<Rightarrow> unit desk_action" where
  "log_validation result online detail =
    sqlite ''log_validation'' (\<lambda>d. ((), d\<lparr>dk_log := dk_log d @
      [\<lparr> vlr_result_text = result, vlr_online = online, vlr_detail = detail \<rparr>]\<rparr>))"

subsection \<open>What the statements do\<close>

text \<open>chrono parses what it prints: the documented behaviour the results below rest on.\<close>

definition times_ok :: "externals \<Rightarrow> bool" where
  "times_ok E \<longleftrightarrow> (\<forall>t. ext_parse_rfc3339 E (ext_to_rfc3339 E t) = Some t)"

lemma parse_ts_printed: "times_ok E \<Longrightarrow> parse_ts E (map_option (ext_to_rfc3339 E) t) = t"
  by (cases t) (simp_all add: parse_ts_def times_ok_def)

lemma record_of_row_of_record: "times_ok E \<Longrightarrow> record_of_row E (row_of_record E r) = r"
  by (simp add: record_of_row_def row_of_record_def parse_ts_printed)

lemma row_hmac [simp]: "row_integrity_hmac (row_of_record E r) = Some (compute_integrity_hmac E r)"
  by (simp add: row_of_record_def)

lemma signature_of_saved: "times_ok E \<Longrightarrow> signature_ok E (row_of_record E r)"
  by (simp add: signature_ok_def record_of_row_of_record)

text \<open>What the integrity check reads as the cached license, if it accepts it.\<close>

definition cached :: "externals \<Rightarrow> desk \<Rightarrow> local_license option" where
  "cached E d = (case dk_license d of
     Some row \<Rightarrow> if signature_ok E row then Some (record_of_row E row) else None
   | None \<Rightarrow> None)"

definition tampered :: "externals \<Rightarrow> desk \<Rightarrow> bool" where
  "tampered E d \<longleftrightarrow> (\<exists>row. dk_license d = Some row \<and> \<not> signature_ok E row)"

lemma consumed_simps [simp]:
  "dk_license (consumed d) = dk_license d" "dk_device (consumed d) = dk_device d"
  "dk_log (consumed d) = dk_log d" "dk_faults (consumed d) = tl (dk_faults d)"
  by (simp_all add: consumed_def)

lemma healthy_desk: "dk_faults d = [] \<Longrightarrow> \<not> next_fails d \<and> consumed d = d"
  by (cases d) (simp add: next_fails_def consumed_def)

lemma load_eq:
  "load_local_license E d =
    (if next_fails d then Inl ''load_local_license''
     else if tampered E d then Inl tampered_error else Inr (cached E d), consumed d)"
  by (auto simp: load_local_license_def desk_try_def sqlite_def desk_ok_def desk_bail_def tampered_def
      cached_def split: option.split)

lemma save_eq:
  "save_local_license E r d =
    (if next_fails d then (Inl ''save_local_license'', consumed d)
     else (Inr (), (consumed d)\<lparr>dk_license := Some (row_of_record E r)\<rparr>))"
  by (simp add: save_local_license_def sqlite_def)

lemma cached_cong: "dk_license d = dk_license d' \<Longrightarrow> cached E d = cached E d'"
  and tampered_cong: "dk_license d = dk_license d' \<Longrightarrow> tampered E d = tampered E d'"
  by (simp_all add: cached_def tampered_def)

lemma cached_consumed [simp]: "cached E (consumed d) = cached E d" "tampered E (consumed d) = tampered E d"
  by (simp_all add: cached_cong [of "consumed d" d] tampered_cong [of "consumed d" d])

lemma cached_saved: "times_ok E \<Longrightarrow> dk_license d = Some (row_of_record E r) \<Longrightarrow>
    cached E d = Some r \<and> \<not> tampered E d"
  by (simp add: cached_def tampered_def signature_of_saved record_of_row_of_record)

text \<open>Advancing the watermark: at most the watermark of the cached license changes, and only forward.\<close>

definition raised :: "timestamp \<Rightarrow> local_license \<Rightarrow> local_license" where
  "raised now r = (if should_advance (ll_highest_seen_clock r) now
     then r\<lparr>ll_highest_seen_clock := Some now\<rparr> else r)"

lemma advance_license:
  "dk_license (after (advance_clock_watermark E now) d) = dk_license d
    \<or> (\<exists>r. cached E d = Some r \<and> should_advance (ll_highest_seen_clock r) now
         \<and> dk_license (after (advance_clock_watermark E now) d) = Some (row_of_record E (raised now r)))"
  unfolding after_def advance_clock_watermark_def
  by (auto simp: desk_try_def load_eq save_eq desk_ok_def raised_def split: option.split)

lemma advance_healthy:
  assumes "dk_faults d = []" and "cached E d = Some r"
  shows "after (advance_clock_watermark E now) d =
    (if should_advance (ll_highest_seen_clock r) now
     then d\<lparr>dk_license := Some (row_of_record E (raised now r))\<rparr> else d)"
proof -
  have "\<not> tampered E d" using assms(2) by (auto simp: cached_def tampered_def split: option.splits if_splits)
  then show ?thesis
    using healthy_desk [OF assms(1)] assms(2)
    by (simp add: after_def advance_clock_watermark_def desk_try_def load_eq save_eq desk_ok_def raised_def)
qed

lemma advance_rest:
  "dk_device (after (advance_clock_watermark E now) d) = dk_device d"
  "dk_log (after (advance_clock_watermark E now) d) = dk_log d"
  "dk_faults d = [] \<Longrightarrow> dk_faults (after (advance_clock_watermark E now) d) = []"
  by (auto simp: after_def advance_clock_watermark_def desk_try_def load_eq save_eq desk_ok_def
      split: option.split)

lemma device_info_license:
  "dk_license (after (get_or_create_device_info E) d) = dk_license d"
  by (auto simp: after_def get_or_create_device_info_def desk_try_def load_device_info_def sqlite_def
      desk_ok_def Let_def split: option.split)

lemma log_license: "dk_license (after (log_validation res onl det) d) = dk_license d"
  by (simp add: after_def log_validation_def sqlite_def)

end
