(* ===== verification/DesktopLicense.thy ===== *)
theory DesktopLicense
  imports DesktopStore
begin

text \<open>
  \<open>src/license/validation.rs\<close> and \<open>src/license/mod.rs\<close> of the desktop application: deriving the
  license status online and offline, checking it, enforcing it, and activating a key. \<open>now\<close> is what
  \<open>Utc::now()\<close> returns in the call. \<open>debug_build\<close> is \<open>cfg!(debug_assertions)\<close>.
\<close>

datatype license_state =
    NotActivated
  | StActive
  | ActiveOfflineGrace int
  | GracePeriodExpired
  | StSuspended
  | StExpired

fun is_licensed :: "license_state \<Rightarrow> bool" where
  "is_licensed StActive = True"
| "is_licensed (ActiveOfflineGrace _) = True"
| "is_licensed _ = False"

text \<open>\<open>{status:?}\<close>.\<close>

fun state_debug :: "license_state \<Rightarrow> string" where
  "state_debug NotActivated = ''NotActivated''"
| "state_debug StActive = ''Active''"
| "state_debug (ActiveOfflineGrace n) = ''ActiveOfflineGrace { days_remaining: '' @ int_str n @ '' }''"
| "state_debug GracePeriodExpired = ''GracePeriodExpired''"
| "state_debug StSuspended = ''Suspended''"
| "state_debug StExpired = ''Expired''"

text \<open>\<open>TimeDelta::num_days\<close> rounds towards zero.\<close>

definition num_days :: "duration \<Rightarrow> int" where
  "num_days d = (if 0 \<le> d then d div duration_days 1 else - ((- d) div duration_days 1))"

definition derive_offline_status ::
  "int \<Rightarrow> timestamp option \<Rightarrow> timestamp option \<Rightarrow> timestamp \<Rightarrow> license_state" where
  "derive_offline_status grace last_validated watermark now =
    (case last_validated of
       None \<Rightarrow> NotActivated
     | Some validated \<Rightarrow>
        if (case watermark of Some w \<Rightarrow> now < w | None \<Rightarrow> False) then GracePeriodExpired
        else
          let elapsed = max (num_days (now - validated)) 0 in
          if elapsed \<le> grace then ActiveOfflineGrace (max (grace - elapsed) 0) else GracePeriodExpired)"

definition status_from_server_response :: "string \<Rightarrow> license_state" where
  "status_from_server_response s =
    (if s = ''active'' then StActive
     else if s = ''suspended'' then StSuspended
     else StExpired)"

text \<open>The branch below \<open>Err(_)\<close>: no answer from the server this time.\<close>

definition offline_status :: "local_license \<Rightarrow> timestamp \<Rightarrow> license_state" where
  "offline_status r now =
    (if ll_status r = ''revoked'' \<or> ll_status r = ''suspended'' then GracePeriodExpired
     else derive_offline_status (ll_grace_period_days r) (ll_last_validated_at r) (ll_highest_seen_clock r) now)"

definition validated_record :: "externals \<Rightarrow> local_license \<Rightarrow> validate_license_response \<Rightarrow> timestamp \<Rightarrow> local_license" where
  "validated_record E r resp now = r\<lparr>ll_status := vsp_status resp,
     ll_expires_at := parse_ts E (vsp_expires_at resp),
     ll_grace_period_days := vsp_grace_period_days resp, ll_last_validated_at := Some now\<rparr>"

definition validate_request :: "externals \<Rightarrow> string \<Rightarrow> device_info \<Rightarrow> timestamp \<Rightarrow> validate_license_request" where
  "validate_request E lid dev now = \<lparr> vlq_license_id = lid, vlq_device_id = di_device_id dev,
     vlq_machine_fingerprint = di_machine_fingerprint dev, vlq_client_clock = ext_to_rfc3339 E now \<rparr>"

definition check_status ::
  "externals \<Rightarrow> license_api \<Rightarrow> timestamp \<Rightarrow> desk \<Rightarrow> license_state \<times> desk" where
  "check_status E api now d0 =
    (let d1 = after (advance_clock_watermark E now) d0 in
     case load_local_license E d1 of
       (Inl e, d2) \<Rightarrow> (GracePeriodExpired, after (log_validation ''GracePeriodExpired'' False
          (''failed to read local license state: '' @ e)) d2)
     | (Inr None, d2) \<Rightarrow>
         (NotActivated, after (log_validation ''NotActivated'' False ''no local license record'') d2)
     | (Inr (Some r), d2) \<Rightarrow>
        (case ll_license_id r of
           None \<Rightarrow> (NotActivated, after (log_validation ''NotActivated'' False
             ''record exists but was never activated'') d2)
         | Some lid \<Rightarrow>
            (case get_or_create_device_info E d2 of
               (Inl e, d3) \<Rightarrow> (GracePeriodExpired, after (log_validation ''GracePeriodExpired'' False
                  (''failed to read device identity: '' @ e)) d3)
             | (Inr device, d3) \<Rightarrow>
                (case api_validate api (validate_request E lid device now) of
                   Inr resp \<Rightarrow>
                     let st = status_from_server_response (vsp_status resp);
                         d4 = after (save_local_license E (validated_record E r resp now)) d3 in
                     (st, after (log_validation (state_debug st) True ''server validation succeeded'') d4)
                 | Inl _ \<Rightarrow>
                     let st = offline_status r now in
                     (st, after (log_validation (state_debug st) False ''offline or server unreachable'') d3)))))"

subsection \<open>Enforcement\<close>

definition should_enforce :: bool where
  "should_enforce = True"

datatype enforcement_outcome = Allowed | Blocked string bool

definition clear_local_activation :: "externals \<Rightarrow> unit desk_action" where
  "clear_local_activation E = save_local_license E not_activated"

text \<open>The em dash of the messages, in UTF-8.\<close>

definition em_dash :: string where
  "em_dash = [CHR 0xE2, CHR 0x80, CHR 0x94]"

text \<open>\<open>describe\<close>; chrono's \<open>%d %b %Y\<close> form of the expiry is an argument.\<close>

definition describe :: "(timestamp \<Rightarrow> string) \<Rightarrow> license_state \<Rightarrow> local_license option \<Rightarrow> string" where
  "describe show_date status r =
    (let tier = (case Option.bind r ll_subscription_type of Some t \<Rightarrow> t | None \<Rightarrow> ''unknown plan'');
         expires = map_option show_date (Option.bind r ll_expires_at) in
     case status of
       NotActivated \<Rightarrow> ''Not activated. Enter a license key below to activate.''
     | StActive \<Rightarrow>
        (case expires of
           Some e \<Rightarrow> ''Active ('' @ tier @ '') '' @ em_dash @ '' valid until '' @ e @ ''.''
         | None \<Rightarrow> ''Active ('' @ tier @ '').'')
     | ActiveOfflineGrace n \<Rightarrow> ''Active ('' @ tier @ '') '' @ em_dash @ '' running offline, '' @ int_str n
         @ '' day(s) left before revalidation is required.''
     | GracePeriodExpired \<Rightarrow> ''Offline grace period has expired. Connect to the internet to revalidate, or renew your subscription.''
     | StSuspended \<Rightarrow> ''Suspended (e.g. a payment issue). Contact support to resolve '' @ em_dash @ '' no reactivation needed once resolved.''
     | StExpired \<Rightarrow> ''Expired. Renew your subscription and activate the new license key below.'')"

definition enforce ::
  "externals \<Rightarrow> (timestamp \<Rightarrow> string) \<Rightarrow> license_api \<Rightarrow> timestamp \<Rightarrow> desk \<Rightarrow> enforcement_outcome \<times> desk" where
  "enforce E show_date api now d0 =
    (case check_status E api now d0 of (st, d1) \<Rightarrow>
      if \<not> should_enforce \<or> is_licensed st then (Allowed, d1)
      else
        (case load_local_license E d1 of (loaded, d2) \<Rightarrow>
          let r = (case loaded of Inr r \<Rightarrow> r | Inl _ \<Rightarrow> None);
              revoked = (case r of Some r \<Rightarrow> ll_status r = ''revoked'' | None \<Rightarrow> False);
              d3 = (if revoked then after (clear_local_activation E) d2 else d2) in
          (Blocked (describe show_date st r) revoked, d3)))"

subsection \<open>Activation\<close>

definition dev_test_license_key :: string where
  "dev_test_license_key = ''DEV-BSP-TEST-0001''"

definition dev_test_record :: "timestamp \<Rightarrow> local_license" where
  "dev_test_record now = \<lparr> ll_customer_id = Some ''dev_test_customer'', ll_license_id = Some ''dev_test_license'',
     ll_license_key = Some dev_test_license_key, ll_subscription_type = Some ''lifetime (dev/test)'',
     ll_status = ''active'', ll_expires_at = None, ll_last_validated_at = Some now,
     ll_grace_period_days = 3650, ll_highest_seen_clock = Some now \<rparr>"

definition activated_record :: "externals \<Rightarrow> string \<Rightarrow> activate_license_response \<Rightarrow> timestamp \<Rightarrow> local_license" where
  "activated_record E key resp now = \<lparr> ll_customer_id = Some (asp_customer_id resp),
     ll_license_id = Some (asp_license_id resp), ll_license_key = Some key,
     ll_subscription_type = Some (asp_subscription_type resp), ll_status = asp_status resp,
     ll_expires_at = parse_ts E (asp_expires_at resp), ll_last_validated_at = Some now,
     ll_grace_period_days = asp_grace_period_days resp, ll_highest_seen_clock = Some now \<rparr>"

text \<open>\<open>str::trim\<close> on ASCII text.\<close>

definition is_space :: "char \<Rightarrow> bool" where
  "is_space c \<longleftrightarrow> (let n = (of_char c :: nat) in n = 32 \<or> (9 \<le> n \<and> n \<le> 13))"

definition trim :: "string \<Rightarrow> string" where
  "trim s = rev (dropWhile is_space (rev (dropWhile is_space s)))"

definition activate ::
  "externals \<Rightarrow> bool \<Rightarrow> license_api \<Rightarrow> timestamp \<Rightarrow> string \<Rightarrow> desk \<Rightarrow> (client_error + license_state) \<times> desk" where
  "activate E debug_build api now key d0 =
    (if debug_build \<and> trim key = dev_test_license_key then
       (case save_local_license E (dev_test_record now) d0 of
          (Inl e, d1) \<Rightarrow> (Inl (ServerError (''dev/test activation succeeded but failed to persist locally: '' @ e)), d1)
        | (Inr _, d1) \<Rightarrow> (Inr StActive, after (log_validation ''Active'' False
            ''dev/test license key activated locally (debug build only, no server contacted)'') d1))
     else
       (case get_or_create_device_info E d0 of
          (Inl e, d1) \<Rightarrow> (Inl (ServerError (''failed to read device identity: '' @ e)), d1)
        | (Inr device, d1) \<Rightarrow>
           (case api_activate api \<lparr> alq_license_key = key, alq_device_id = di_device_id device,
                alq_machine_fingerprint = di_machine_fingerprint device,
                alq_device_label = fi_computer_name (fingerprint_collect E) \<rparr> of
              Inl e \<Rightarrow> (Inl e, d1)
            | Inr resp \<Rightarrow>
               (case save_local_license E (activated_record E key resp now) d1 of
                  (Inl e, d2) \<Rightarrow> (Inl (ServerError (''activation succeeded but failed to persist locally: '' @ e)), d2)
                | (Inr _, d2) \<Rightarrow>
                    let st = status_from_server_response (asp_status resp) in
                    (Inr st, after (log_validation (state_debug st) True ''activation succeeded'') d2)))))"

end
