(* ===== verification/DesktopFacts.thy ===== *)
theory DesktopFacts
  imports DesktopLicense Transitions
begin

text \<open>
  What the license check of the desktop application guarantees: when it lets the application run,
  that an offline period that has ended stays ended whatever the clock is set to afterwards, that
  a revocation locks the installation until the next activation, that an edited record is refused,
  and where these guarantees stop.
\<close>

subsection \<open>Days\<close>

lemma num_days_le: "num_days d \<le> n \<Longrightarrow> d < duration_days (n + 1)"
proof -
  assume n: "num_days d \<le> n"
  have "d < duration_days (num_days d + 1)"
  proof (cases "0 \<le> d")
    case True
    then show ?thesis
      using mult_div_mod_eq [of 86400000000 d] pos_mod_bound [of 86400000000 d]
      by (simp add: num_days_def duration_days_def)
  next
    case False
    then have "d < 0" by simp
    moreover have "duration_days (- num_days d) \<le> - d"
      using False mult_div_mod_eq [of 86400000000 "- d"] pos_mod_sign [of 86400000000 "- d"]
      by (simp add: num_days_def duration_days_def)
    ultimately show ?thesis by (simp add: duration_days_def)
  qed
  also have "\<dots> \<le> duration_days (n + 1)" using n by simp
  finally show ?thesis .
qed

lemma num_days_less: "0 \<le> d \<Longrightarrow> d < duration_days (n + 1) \<Longrightarrow> num_days d \<le> n"
  by (simp add: num_days_def duration_days_def)

text \<open>The window in which an offline installation may run.\<close>

definition grace_ends :: "local_license \<Rightarrow> timestamp option" where
  "grace_ends r = map_option (\<lambda>v. v + duration_days (ll_grace_period_days r + 1)) (ll_last_validated_at r)"

lemma offline_licensed:
  assumes "is_licensed (offline_status r now)"
  shows "ll_status r \<notin> {''revoked'', ''suspended''}"
    "\<exists>e. grace_ends r = Some e \<and> now < e"
    "ll_highest_seen_clock r = Some w \<Longrightarrow> w \<le> now"
proof -
  from assms have st: "ll_status r \<notin> {''revoked'', ''suspended''}"
    by (auto simp: offline_status_def)
  with assms obtain v where v: "ll_last_validated_at r = Some v"
    "num_days (now - v) \<le> ll_grace_period_days r"
    and w: "ll_highest_seen_clock r = Some w \<Longrightarrow> w \<le> now" for w
    by (auto simp: offline_status_def derive_offline_status_def Let_def split: option.splits if_splits)
  show "ll_status r \<notin> {''revoked'', ''suspended''}" by (fact st)
  show "\<exists>e. grace_ends r = Some e \<and> now < e"
    using num_days_le [OF v(2)] by (simp add: grace_ends_def v(1))
  show "ll_highest_seen_clock r = Some w \<Longrightarrow> w \<le> now" by (fact w)
qed

lemma offline_grants:
  assumes "ll_status r \<notin> {''revoked'', ''suspended''}" and "ll_last_validated_at r = Some v"
    and "v \<le> now" and "now < v + duration_days (ll_grace_period_days r + 1)"
    and "\<And>w. ll_highest_seen_clock r = Some w \<Longrightarrow> w \<le> now"
  shows "\<exists>n. offline_status r now = ActiveOfflineGrace n \<and> 0 \<le> n \<and> n \<le> ll_grace_period_days r"
proof -
  have days: "num_days (now - v) \<le> ll_grace_period_days r" "0 \<le> num_days (now - v)"
    using assms(3,4) num_days_less [of "now - v" "ll_grace_period_days r"]
    by (simp_all add: num_days_def duration_days_def pos_imp_zdiv_nonneg_iff)
  have "\<not> (case ll_highest_seen_clock r of Some w \<Rightarrow> now < w | None \<Rightarrow> False)"
    using assms(5) by (auto split: option.split)
  with assms(1,2) days show ?thesis
    by (auto simp: offline_status_def derive_offline_status_def Let_def)
qed

subsection \<open>The branches of a check\<close>

lemma cached_not_tampered: "cached E d = Some r \<Longrightarrow> \<not> tampered E d"
  by (auto simp: cached_def tampered_def split: option.splits if_splits)

definition ticked :: "externals \<Rightarrow> timestamp \<Rightarrow> desk \<Rightarrow> desk" where
  "ticked E now d = after (advance_clock_watermark E now) d"

lemma device_info_run:
  "get_or_create_device_info E d = (res, d') \<Longrightarrow> dk_license d' = dk_license d"
  using device_info_license [of E d] by (simp add: after_def)

lemma save_license:
  "dk_license (after (save_local_license E r) d) = dk_license d
    \<or> dk_license (after (save_local_license E r) d) = Some (row_of_record E r)"
  by (simp add: after_def save_eq)

lemma check_cases:
  assumes run: "check_status E api now d = (st, d')"
  obtains (unread) "st = GracePeriodExpired" "dk_license d' = dk_license (ticked E now d)"
  | (absent) "st = NotActivated" "dk_license d' = dk_license (ticked E now d)"
      "\<not> tampered E (ticked E now d)" "Option.bind (cached E (ticked E now d)) ll_license_id = None"
  | (online) r lid dev resp where "\<not> tampered E (ticked E now d)"
      "cached E (ticked E now d) = Some r" "ll_license_id r = Some lid"
      "api_validate api (validate_request E lid dev now) = Inr resp"
      "st = status_from_server_response (vsp_status resp)"
      "dk_license d' = dk_license (ticked E now d)
        \<or> dk_license d' = Some (row_of_record E (validated_record E r resp now))"
  | (offline) r lid dev e where "\<not> tampered E (ticked E now d)"
      "cached E (ticked E now d) = Some r" "ll_license_id r = Some lid"
      "api_validate api (validate_request E lid dev now) = Inl e"
      "st = offline_status r now" "dk_license d' = dk_license (ticked E now d)"
proof -
  let ?d1 = "ticked E now d"
  note defs = check_status_def ticked_def [symmetric] load_eq Let_def
  show ?thesis
  proof (cases "next_fails ?d1 \<or> tampered E ?d1")
    case True
    with run show ?thesis
      by (intro unread) (auto simp: defs log_license split: if_splits)
  next
    case False
    show ?thesis
    proof (cases "Option.bind (cached E ?d1) ll_license_id")
      case None
      with False run show ?thesis
        by (intro absent) (auto simp: defs log_license split: option.splits)
    next
      case (Some lid)
      then obtain r where r: "cached E ?d1 = Some r" "ll_license_id r = Some lid"
        by (cases "cached E ?d1") auto
      obtain res d3 where dev: "get_or_create_device_info E (consumed ?d1) = (res, d3)"
        by (cases "get_or_create_device_info E (consumed ?d1)")
      have d3: "dk_license d3 = dk_license ?d1" using device_info_run [OF dev] by simp
      show ?thesis
      proof (cases res)
        case (Inl e)
        with False r run dev d3 show ?thesis
          by (intro unread) (auto simp: defs log_license)
      next
        case (Inr dv)
        show ?thesis
        proof (cases "api_validate api (validate_request E lid dv now)")
          case api: (Inl e)
          with False r run dev d3 Inr show ?thesis
            by (intro offline [of r lid dv e]) (auto simp: defs log_license)
        next
          case api: (Inr resp)
          with False r run dev d3 Inr save_license [of E "validated_record E r resp now" d3] show ?thesis
            by (intro online [of r lid dv resp]) (auto simp: defs log_license)
        qed
      qed
    qed
  qed
qed

text \<open>What the watermark step leaves in the cache.\<close>

lemma ticked_cached:
  assumes "times_ok E"
  shows "cached E (ticked E now d) = cached E d
    \<or> (\<exists>r. cached E d = Some r \<and> cached E (ticked E now d) = Some (raised now r))"
  using advance_license [of E now d] cached_cong [of "ticked E now d" d E] cached_saved [OF assms]
  by (auto simp: ticked_def)

lemma ticked_tampered:
  assumes "times_ok E"
  shows "tampered E (ticked E now d) = tampered E d"
proof -
  have "tampered E d \<Longrightarrow> cached E d = None" by (auto simp: tampered_def cached_def)
  with advance_license [of E now d] tampered_cong [of "ticked E now d" d E] cached_saved [OF assms]
  show ?thesis by (auto simp: ticked_def)
qed

lemma raised_fields [simp]:
  "ll_license_id (raised now r) = ll_license_id r" "ll_status (raised now r) = ll_status r"
  "ll_last_validated_at (raised now r) = ll_last_validated_at r"
  "ll_grace_period_days (raised now r) = ll_grace_period_days r" "grace_ends (raised now r) = grace_ends r"
  "ll_expires_at (raised now r) = ll_expires_at r"
  by (simp_all add: raised_def grace_ends_def)

lemma raised_watermark:
  "ll_highest_seen_clock r = Some w \<Longrightarrow> \<exists>w'. ll_highest_seen_clock (raised now r) = Some w' \<and> w \<le> w'"
  by (auto simp: raised_def should_advance_def)

lemma raised_reaches: "\<exists>w. ll_highest_seen_clock (raised now r) = Some w \<and> now \<le> w"
  by (auto simp: raised_def should_advance_def split: option.splits)


subsection \<open>When the application may run\<close>


subsection \<open>Runs of an installation\<close>

datatype desk_label = Enforced license_api timestamp enforcement_outcome | Disturbed

text \<open>
  An installation over time: the enforcement call of the start-up gate and of the daily timer, at
  whatever clock value and with whatever server, and disturbances that leave the cached license
  alone (database faults, the device row, the log).
\<close>

inductive desk_step :: "externals \<Rightarrow> (timestamp \<Rightarrow> string) \<Rightarrow> desk_label \<Rightarrow> desk \<Rightarrow> desk \<Rightarrow> bool"
  for E show_date where
  step_enforce: "enforce E show_date api now d = (out, d') \<Longrightarrow> desk_step E show_date (Enforced api now out) d d'"
| step_disturb: "dk_license d' = dk_license d \<Longrightarrow> desk_step E show_date Disturbed d d'"

inductive_cases desk_step_enforcedE: "desk_step E show_date (Enforced api now out) d d'"

definition unreachable :: "license_api \<Rightarrow> bool" where
  "unreachable api \<longleftrightarrow> (\<forall>q. \<exists>e. api_validate api q = Inl e)"

definition offline_label :: "desk_label \<Rightarrow> bool" where
  "offline_label l = (case l of Enforced api _ _ \<Rightarrow> unreachable api | Disturbed \<Rightarrow> True)"

definition keeps_out :: "desk_label \<Rightarrow> bool" where
  "keeps_out l = (case l of Enforced _ _ out \<Rightarrow> out \<noteq> Allowed | Disturbed \<Rightarrow> True)"

lemma enforce_cases:
  assumes "enforce E show_date api now d = (out, d')"
  obtains (entered) st where "check_status E api now d = (st, d')" "is_licensed st" "out = Allowed"
  | (refused) st d1 reason revoked where "check_status E api now d = (st, d1)" "\<not> is_licensed st"
      "out = Blocked reason revoked"
      "revoked \<longleftrightarrow> \<not> next_fails d1 \<and> \<not> tampered E d1 \<and> (\<exists>r. cached E d1 = Some r \<and> ll_status r = ''revoked'')"
      "dk_license d' = dk_license d1
        \<or> revoked \<and> dk_license d' = Some (row_of_record E not_activated)"
proof -
  obtain st d1 where c: "check_status E api now d = (st, d1)" by fastforce
  show ?thesis
  proof (cases "is_licensed st")
    case True
    with assms c show ?thesis by (intro entered) (simp_all add: enforce_def)
  next
    case False
    have lic: "dk_license (if b then after (clear_local_activation E) (consumed d1) else consumed d1) = dk_license d1
        \<or> b \<and> dk_license (if b then after (clear_local_activation E) (consumed d1) else consumed d1)
          = Some (row_of_record E not_activated)" for b
      using save_license [of E not_activated "consumed d1"] by (simp add: clear_local_activation_def)
    have loaded: "(case if a then Inl x else if b then Inl y else Inr z of Inr r \<Rightarrow> r | Inl _ \<Rightarrow> None)
        = (if a \<or> b then None else z)" for a b and x y :: string and z :: "local_license option"
      by simp
    note run = assms [unfolded enforce_def c prod.case load_eq Let_def loaded, symmetric]
    show ?thesis
    proof (rule refused [OF c False])
      let ?r = "if next_fails d1 \<or> tampered E d1 then None else cached E d1"
      let ?b = "case ?r of Some r \<Rightarrow> ll_status r = ''revoked'' | None \<Rightarrow> False"
      show "out = Blocked (describe show_date st ?r) ?b"
        using run False by (simp add: should_enforce_def)
      show "?b \<longleftrightarrow> \<not> next_fails d1 \<and> \<not> tampered E d1
          \<and> (\<exists>r. cached E d1 = Some r \<and> ll_status r = ''revoked'')"
        by (auto split: option.split)
      have "d' = (if ?b then after (clear_local_activation E) (consumed d1) else consumed d1)"
        using run False by (simp add: should_enforce_def)
      then show "dk_license d' = dk_license d1 \<or> ?b \<and> dk_license d' = Some (row_of_record E not_activated)"
        using lic [of ?b] by simp
    qed
  qed
qed

subsection \<open>An ended offline period stays ended\<close>

definition record_spent :: "timestamp \<Rightarrow> local_license \<Rightarrow> bool" where
  "record_spent t r \<longleftrightarrow> ll_license_id r = None
     \<or> (\<exists>w. ll_highest_seen_clock r = Some w \<and> t \<le> w) \<and> (\<forall>e. grace_ends r = Some e \<longrightarrow> e \<le> t)"

definition spent :: "externals \<Rightarrow> timestamp \<Rightarrow> desk \<Rightarrow> bool" where
  "spent E t d \<longleftrightarrow> times_ok E \<and> (\<forall>r. cached E d = Some r \<longrightarrow> record_spent t r)"

lemma raised_spent: "record_spent t r \<Longrightarrow> record_spent t (raised now r)"
  unfolding record_spent_def by (auto dest!: raised_watermark [of r _ now] intro: order_trans)

lemma spent_same: "dk_license d' = dk_license d \<Longrightarrow> spent E t d' = spent E t d"
  by (simp add: spent_def cached_cong [of d' d])

lemma spent_ticked: "spent E t d \<Longrightarrow> spent E t (ticked E now d)"
  using ticked_cached [of E now d] by (auto simp: spent_def raised_spent)

lemma not_activated_cached:
  "times_ok E \<Longrightarrow> dk_license d = Some (row_of_record E not_activated) \<Longrightarrow> cached E d = Some not_activated"
  using cached_saved by blast

lemma not_activated_spent: "record_spent t not_activated"
  by (simp add: record_spent_def not_activated_def)

lemma spent_check:
  assumes "spent E t d" and "unreachable api" and run: "check_status E api now d = (st, d')"
  shows "spent E t d' \<and> \<not> is_licensed st"
proof -
  note ticked = spent_ticked [OF assms(1), of now]
  from run show ?thesis
  proof (cases rule: check_cases)
    case (offline r lid dev e)
    have "record_spent t r" using ticked offline(2) by (simp add: spent_def)
    then have "\<not> is_licensed (offline_status r now)"
      using offline_licensed [of r now] offline(3) by (fastforce simp: record_spent_def)
    with offline ticked show ?thesis by (simp add: spent_same [of d' "ticked E now d"])
  next
    case (online r lid dev resp)
    with assms(2) show ?thesis by (auto simp: unreachable_def) (metis Inr_not_Inl)+
  qed (use ticked in \<open>simp_all add: spent_same [of d' "ticked E now d"]\<close>)
qed

lemma spent_enforce:
  assumes "spent E t d" and "unreachable api" and "enforce E show_date api now d = (out, d')"
  shows "spent E t d' \<and> out \<noteq> Allowed"
  using assms(3)
proof (cases rule: enforce_cases)
  case (entered st)
  with spent_check [OF assms(1,2)] show ?thesis by blast
next
  case (refused st d1 reason revoked)
  have d1: "spent E t d1" using spent_check [OF assms(1,2) refused(1)] by simp
  then have "times_ok E" by (simp add: spent_def)
  then have "dk_license d' = Some (row_of_record E not_activated) \<Longrightarrow> spent E t d'"
    by (simp add: spent_def not_activated_cached not_activated_spent)
  with refused d1 show ?thesis by (auto simp: spent_same [of d' d1])
qed

lemma spent_step:
  assumes "desk_step E show_date l d d'" and "offline_label l" and "spent E t d"
  shows "spent E t d' \<and> keeps_out l"
  using assms(1)
proof (cases rule: desk_step.cases)
  case (step_enforce api now out)
  with assms(2,3) spent_enforce [of E t d api show_date now out d'] show ?thesis
    by (simp add: offline_label_def keeps_out_def)
next
  case step_disturb
  with assms(3) spent_same [of d' d E t] show ?thesis by (simp add: keeps_out_def)
qed

interpretation spent: monitored "desk_step E show_date" offline_label "spent E t" keeps_out
  for E show_date t
  by unfold_locales (simp_all add: spent_step)

text \<open>C15: the offline ratchet. Once a check without an answer from the server has seen a clock at or
  past the end of the grace period, the application stays closed at every later check without an
  answer, whatever the clock is set back to, however often it is asked and whatever local database
  statements then fail; only a server that answers, or a new activation, opens it again.\<close>

theorem offline_expiry_is_final:
  assumes "times_ok E" and "dk_faults d = []" and "unreachable api"
    and "cached E d = Some r" and "grace_ends r = Some e" and "e \<le> now"
    and "enforce E show_date api now d = (out, d1)"
    and "trace (desk_step E show_date) ls d1 d2" and "list_all offline_label ls"
  shows "out \<noteq> Allowed \<and> list_all keeps_out ls"
proof -
  have "cached E (ticked E now d) = Some (raised now r)"
    using advance_healthy [OF assms(2,4), of now] assms(1,4) cached_saved [OF assms(1)]
    by (auto simp: ticked_def raised_def)
  then have ticked: "spent E now (ticked E now d)"
    using raised_reaches [of now r] assms(1,5,6) by (auto simp: spent_def record_spent_def)
  obtain st d3 where c: "check_status E api now d = (st, d3)" by fastforce
  then have st: "spent E now d3 \<and> \<not> is_licensed st"
  proof (cases rule: check_cases)
    case (offline r' lid dev er)
    have "record_spent now r'" using ticked offline(2) by (simp add: spent_def)
    then have "\<not> is_licensed (offline_status r' now)"
      using offline_licensed [of r' now] offline(3) by (fastforce simp: record_spent_def)
    with offline ticked show ?thesis by (simp add: spent_same [of d3 "ticked E now d"])
  next
    case (online r' lid dev resp)
    with assms(3) show ?thesis by (auto simp: unreachable_def) (metis Inr_not_Inl)+
  qed (use ticked in \<open>simp_all add: spent_same [of d3 "ticked E now d"]\<close>)
  from assms(7) have "spent E now d1 \<and> out \<noteq> Allowed"
  proof (cases rule: enforce_cases)
    case (refused st' d4 reason revoked)
    with c st have "spent E now d4" by simp
    moreover have "dk_license d1 = Some (row_of_record E not_activated) \<Longrightarrow> spent E now d1"
      using assms(1) by (simp add: spent_def not_activated_cached not_activated_spent)
    ultimately show ?thesis using refused by (auto simp: spent_same [of d1 d4])
  qed (use c st in auto)
  with spent.all_good [OF assms(8,9)] show ?thesis by blast
qed

subsection \<open>A revocation locks the installation\<close>

definition locked :: "externals \<Rightarrow> desk \<Rightarrow> bool" where
  "locked E d \<longleftrightarrow> times_ok E \<and> (\<forall>r. cached E d = Some r \<longrightarrow> ll_license_id r = None)"

lemma locked_same: "dk_license d' = dk_license d \<Longrightarrow> locked E d' = locked E d"
  by (simp add: locked_def cached_cong [of d' d])

lemma locked_ticked: "locked E d \<Longrightarrow> locked E (ticked E now d)"
  using ticked_cached [of E now d] by (auto simp: locked_def)

lemma locked_check:
  assumes "locked E d" and "check_status E api now d = (st, d')"
  shows "locked E d' \<and> \<not> is_licensed st"
  using assms(2)
proof (cases rule: check_cases)
  case (online r lid dev resp)
  then show ?thesis using locked_ticked [OF assms(1), of now] by (simp add: locked_def)
next
  case (offline r lid dev e)
  then show ?thesis using locked_ticked [OF assms(1), of now] by (simp add: locked_def)
qed (use locked_ticked [OF assms(1), of now] locked_same [of d' "ticked E now d"] in simp_all)

lemma not_activated_locked:
  "times_ok E \<Longrightarrow> dk_license d = Some (row_of_record E not_activated) \<Longrightarrow> locked E d"
  by (simp add: locked_def not_activated_cached) (simp add: not_activated_def)

lemma locked_enforce:
  assumes "locked E d" and "enforce E show_date api now d = (out, d')"
  shows "locked E d' \<and> out \<noteq> Allowed"
  using assms(2)
proof (cases rule: enforce_cases)
  case (entered st)
  with locked_check [OF assms(1)] show ?thesis by blast
next
  case (refused st d1 reason revoked)
  have d1: "locked E d1" using locked_check [OF assms(1) refused(1)] by simp
  then have "times_ok E" by (simp add: locked_def)
  with refused d1 not_activated_locked show ?thesis by (auto simp: locked_same [of d' d1])
qed

lemma locked_step:
  assumes "desk_step E show_date l d d'" and "locked E d"
  shows "locked E d' \<and> keeps_out l"
  using assms(1)
proof (cases rule: desk_step.cases)
  case (step_enforce api now out)
  with assms(2) locked_enforce [of E d show_date api now out d'] show ?thesis
    by (simp add: keeps_out_def)
next
  case step_disturb
  with assms(2) locked_same [of d' d E] show ?thesis by (simp add: keeps_out_def)
qed

interpretation locked: monitored "desk_step E show_date" "\<lambda>_. True" "locked E" keeps_out
  for E show_date
  by unfold_locales (simp_all add: locked_step)

text \<open>A healthy check that reaches the server.\<close>

lemma device_info_healthy:
  assumes "dk_faults d = []"
  shows "\<exists>dev d'. get_or_create_device_info E d = (Inr dev, d') \<and> dk_faults d' = []"
  using healthy_desk [OF assms] assms
  by (auto simp: get_or_create_device_info_def load_device_info_def sqlite_def desk_try_def desk_ok_def
      next_fails_def Let_def split: option.split)

definition answers :: "license_api \<Rightarrow> validate_license_response \<Rightarrow> bool" where
  "answers api resp \<longleftrightarrow> (\<forall>q. api_validate api q = Inr resp)"

lemma ticked_healthy:
  assumes "times_ok E" and "dk_faults d = []" and "cached E d = Some r"
  shows "cached E (ticked E now d) = Some (raised now r)" "\<not> tampered E (ticked E now d)"
    "dk_faults (ticked E now d) = []"
proof -
  show "cached E (ticked E now d) = Some (raised now r)"
    using advance_healthy [OF assms(2,3), of now] assms(1,3) cached_saved [OF assms(1)]
    by (auto simp: ticked_def raised_def)
  then show "\<not> tampered E (ticked E now d)" by (rule cached_not_tampered)
  show "dk_faults (ticked E now d) = []" using advance_rest(3) [OF assms(2)] by (simp add: ticked_def)
qed

lemma log_healthy:
  "dk_faults d = [] \<Longrightarrow> dk_faults (after (log_validation res onl det) d) = []"
  using healthy_desk [of d] by (simp add: after_def log_validation_def sqlite_def)

lemma check_online_healthy:
  assumes "times_ok E" and "dk_faults d = []" and "cached E d = Some r" and "ll_license_id r = Some lid"
    and "answers api resp" and "check_status E api now d = (st, d')"
  shows "st = status_from_server_response (vsp_status resp)
    \<and> dk_license d' = Some (row_of_record E (validated_record E (raised now r) resp now))
    \<and> dk_faults d' = []"
proof -
  note t = ticked_healthy [OF assms(1-3), of now]
  have c: "consumed (ticked E now d) = ticked E now d" "\<not> next_fails (ticked E now d)"
    using healthy_desk [OF t(3)] by simp_all
  obtain dev d3 where dev: "get_or_create_device_info E (ticked E now d) = (Inr dev, d3)" "dk_faults d3 = []"
    using device_info_healthy [OF t(3)] by blast
  have "check_status E api now d = (status_from_server_response (vsp_status resp),
      after (log_validation (state_debug (status_from_server_response (vsp_status resp))) True
        ''server validation succeeded'')
        (after (save_local_license E (validated_record E (raised now r) resp now)) d3))"
    using assms(4,5)
    by (simp add: check_status_def ticked_def [symmetric] load_eq answers_def Let_def t c dev(1))
  moreover have "after (save_local_license E x) d3 = d3\<lparr>dk_license := Some (row_of_record E x)\<rparr>" for x
    using healthy_desk [OF dev(2)] by (simp add: after_def save_eq)
  ultimately show ?thesis using assms(6) dev(2) by (auto simp: log_license log_healthy)
qed

lemma enforce_revoked:
  assumes "times_ok E" and c: "check_status E api now d = (st, d3)" and "\<not> is_licensed st"
    and d3: "cached E d3 = Some r" "dk_faults d3 = []" and "ll_status r = ''revoked''"
    and e: "enforce E show_date api now d = (out, d1)"
  shows "(\<exists>reason. out = Blocked reason True) \<and> cached E d1 = Some not_activated \<and> locked E d1"
proof -
  note h = healthy_desk [OF d3(2)] and nt = cached_not_tampered [OF d3(1)]
  have "out = Blocked (describe show_date st (Some r)) True"
      "d1 = d3\<lparr>dk_license := Some (row_of_record E not_activated)\<rparr>"
    using e assms(3,6)
    by (simp_all add: enforce_def should_enforce_def load_eq Let_def clear_local_activation_def after_def
        save_eq c d3 h nt)
  then show ?thesis
    using not_activated_locked [OF assms(1)] not_activated_cached [OF assms(1)] by simp
qed

text \<open>A revocation locks the installation. When the server answers \<open>revoked\<close> to a check and the local
  database works, the application is closed with the revocation notice, the cached activation is
  cleared, and it stays closed at every later check, with any clock, any server answer and any
  database failures, until a key is activated again.\<close>

lemma revocation_locks_out:
  assumes "times_ok E" and "dk_faults d = []" and "cached E d = Some r" and "ll_license_id r = Some lid"
    and "answers api resp" and "vsp_status resp = ''revoked''"
    and "enforce E show_date api now d = (out, d1)"
    and "trace (desk_step E show_date) ls d1 d2"
  shows "(\<exists>reason. out = Blocked reason True) \<and> cached E d1 = Some not_activated \<and> list_all keeps_out ls"
proof -
  let ?r = "validated_record E (raised now r) resp now"
  obtain st d3 where c: "check_status E api now d = (st, d3)" by fastforce
  note check = check_online_healthy [OF assms(1-5) c]
  have "\<not> is_licensed st" using check assms(6) by (simp add: status_from_server_response_def)
  moreover have "cached E d3 = Some ?r" "dk_faults d3 = []" using check cached_saved [OF assms(1)] by simp_all
  moreover have "ll_status ?r = ''revoked''" by (simp add: validated_record_def assms(6))
  ultimately show ?thesis
    using enforce_revoked [OF assms(1) c _ _ _ _ assms(7)] locked.all_good [OF assms(8)]
    by (simp add: list_all_iff)
qed

subsection \<open>Edited records\<close>

text \<open>C16: a cached record that no longer matches its signature closes the application, whatever the
  clock, whatever the server answers and whatever database statements fail, and the check never
  repairs or replaces such a record.\<close>

theorem tampered_record_fails_closed:
  assumes "times_ok E" and "tampered E d"
  shows "fst (check_status E api now d) = GracePeriodExpired
    \<and> (\<exists>reason. fst (enforce E show_date api now d) = Blocked reason False)
    \<and> dk_license (snd (enforce E show_date api now d)) = dk_license d"
proof -
  obtain st d1 where c: "check_status E api now d = (st, d1)" by fastforce
  have t: "tampered E (ticked E now d)" using ticked_tampered [OF assms(1)] assms(2) by simp
  have none: "cached E d = None" using assms(2) by (auto simp: tampered_def cached_def)
  have lic: "dk_license (ticked E now d) = dk_license d"
    using advance_license [of E now d] none by (simp add: ticked_def)
  from c t have st: "st = GracePeriodExpired" "dk_license d1 = dk_license d"
    using lic by (cases rule: check_cases, simp_all)+
  obtain out d2 where e: "enforce E show_date api now d = (out, d2)" by fastforce
  then have "(\<exists>reason. out = Blocked reason False) \<and> dk_license d2 = dk_license d"
  proof (cases rule: enforce_cases)
    case (refused st' d1' reason revoked)
    with c st assms(2) tampered_cong [of d1 d E] show ?thesis by auto
  qed (use c st in auto)
  with c st e show ?thesis by simp
qed

text \<open>
  The signature does not cover the clock watermark, and a row without a signature is accepted: an
  edit of those columns goes through the integrity check.
\<close>

definition edit_watermark :: "string option \<Rightarrow> desk \<Rightarrow> desk" where
  "edit_watermark w d = d\<lparr>dk_license := map_option (\<lambda>row. row\<lparr>row_highest_seen_clock := w\<rparr>) (dk_license d)\<rparr>"

definition strip_signature :: "(license_row \<Rightarrow> license_row) \<Rightarrow> desk \<Rightarrow> desk" where
  "strip_signature edit d =
    d\<lparr>dk_license := map_option (\<lambda>row. (edit row)\<lparr>row_integrity_hmac := None\<rparr>) (dk_license d)\<rparr>"

lemma edit_watermark_cached:
  assumes "cached E d = Some r"
  shows "cached E (edit_watermark w d) = Some (r\<lparr>ll_highest_seen_clock := parse_ts E w\<rparr>)"
  using assms
  by (auto simp: cached_def edit_watermark_def signature_ok_def record_of_row_def compute_integrity_hmac_def
      integrity_payload_def split: option.splits if_splits)

lemma check_offline_healthy:
  assumes "times_ok E" and "dk_faults d = []" and "cached E d = Some r" and "ll_license_id r = Some lid"
    and "unreachable api"
  shows "fst (check_status E api now d) = offline_status (raised now r) now"
proof -
  obtain st d' where c: "check_status E api now d = (st, d')" by fastforce
  note t = ticked_healthy [OF assms(1-3), of now]
  obtain dev d3 where dev: "get_or_create_device_info E (ticked E now d) = (Inr dev, d3)"
    using device_info_healthy [OF t(3)] by blast
  have h: "consumed (ticked E now d) = ticked E now d" "\<not> next_fails (ticked E now d)"
    using healthy_desk [OF t(3)] by simp_all
  obtain e where "api_validate api (validate_request E lid dev now) = Inl e"
    using assms(5) unfolding unreachable_def by blast
  then show ?thesis
    using assms(4) by (simp add: check_status_def ticked_def [symmetric] load_eq Let_def t h dev)
qed

text \<open>The clock watermark is not tamper-evident. In an offline installation whose clock is behind
  the watermark the application is closed; erasing the watermark in the database, which no check
  notices, opens it again for as long as the clock stays before the end of the grace period.\<close>

lemma erased_watermark_reopens:
  assumes "times_ok E" and "dk_faults d = []" and "unreachable api"
    and "cached E d = Some r" and "ll_license_id r = Some lid"
    and "ll_status r \<notin> {''revoked'', ''suspended''}" and "ll_last_validated_at r = Some v" and "v \<le> now"
    and "grace_ends r = Some e" and "now < e"
    and "ll_highest_seen_clock r = Some w" and "now < w"
  shows "fst (check_status E api now d) = GracePeriodExpired
    \<and> \<not> tampered E (edit_watermark None d)
    \<and> is_licensed (fst (check_status E api now (edit_watermark None d)))"
proof -
  have "raised now r = r" using assms(11,12) by (simp add: raised_def should_advance_def)
  then have one: "fst (check_status E api now d) = GracePeriodExpired"
    using check_offline_healthy [OF assms(1,2,4,5,3), of now] assms(6,7,11,12)
    by (auto simp: offline_status_def derive_offline_status_def)
  let ?d = "edit_watermark None d" and ?r = "r\<lparr>ll_highest_seen_clock := None\<rparr>"
  have c: "cached E ?d = Some ?r" using edit_watermark_cached [OF assms(4), of None] by (simp add: parse_ts_def)
  have two: "\<not> tampered E ?d" using c by (rule cached_not_tampered)
  have "now < v + duration_days (ll_grace_period_days r + 1)" using assms(7,9,10) by (simp add: grace_ends_def)
  then obtain n where "offline_status (raised now ?r) now = ActiveOfflineGrace n"
    using offline_grants [of "raised now ?r" v now] assms(6,7,8) by (auto simp: raised_def should_advance_def)
  moreover have "dk_faults ?d = []" using assms(2) by (simp add: edit_watermark_def)
  ultimately have "is_licensed (fst (check_status E api now ?d))"
    using check_offline_healthy [OF assms(1) _ c, of lid api now] assms(3,5) by simp
  with one two show ?thesis by blast
qed

subsection \<open>An expired license offline\<close>

text \<open>An expired license runs again offline. When the server answers a check with \<open>expired\<close> (or any
  status other than \<open>active\<close>, \<open>suspended\<close> and \<open>revoked\<close>), the application is closed; at the next check
  without an answer it is open again, until the grace days counted from that very answer run out.\<close>

lemma expired_license_runs_offline:
  assumes "times_ok E" and "dk_faults d = []" and "cached E d = Some r" and "ll_license_id r = Some lid"
    and "answers api resp" and "vsp_status resp \<notin> {''active'', ''suspended'', ''revoked''}"
    and "\<And>w. ll_highest_seen_clock r = Some w \<Longrightarrow> w \<le> now"
    and "enforce E show_date api now d = (out, d1)"
    and "unreachable offline" and "now \<le> later"
    and "later < now + duration_days (vsp_grace_period_days resp + 1)"
  shows "(\<exists>reason. out = Blocked reason False)
    \<and> fst (enforce E show_date offline later (d1\<lparr>dk_faults := []\<rparr>)) = Allowed"
proof -
  let ?r = "validated_record E (raised now r) resp now" and ?d = "d1\<lparr>dk_faults := []\<rparr>"
  obtain st d3 where c: "check_status E api now d = (st, d3)" by fastforce
  note check = check_online_healthy [OF assms(1-5) c]
  have d3: "cached E d3 = Some ?r" "\<not> tampered E d3" using check cached_saved [OF assms(1)] by simp_all
  have st: "\<not> is_licensed st" "ll_status ?r = vsp_status resp"
    using check assms(6) by (auto simp: status_from_server_response_def validated_record_def)
  from assms(8) have out: "(\<exists>reason. out = Blocked reason False) \<and> dk_license d1 = dk_license d3"
  proof (cases rule: enforce_cases)
    case (refused st' d3' reason revoked)
    with c d3 st assms(6) show ?thesis by auto
  qed (use c st in auto)
  then have d1: "cached E ?d = Some ?r" using d3(1) cached_cong [of ?d d3 E] by simp
  have wm: "ll_highest_seen_clock (raised later ?r) = Some w \<Longrightarrow> w \<le> later" for w
    using assms(7,10) by (force simp: validated_record_def raised_def should_advance_def split: option.splits if_splits)
  have "\<exists>n. offline_status (raised later ?r) later = ActiveOfflineGrace n \<and> 0 \<le> n \<and> n \<le> ll_grace_period_days (raised later ?r)"
    using assms(6,10,11) st(2) by (intro offline_grants [of _ now]) (auto simp: validated_record_def wm)
  then have "is_licensed (offline_status (raised later ?r) later)" by auto
  moreover have "ll_license_id ?r = Some lid" using assms(4) by (simp add: validated_record_def)
  ultimately have "is_licensed (fst (check_status E offline later ?d))"
    using check_offline_healthy [OF assms(1) _ d1, of lid offline later] assms(9) by simp
  then have "fst (enforce E show_date offline later ?d) = Allowed"
    by (cases "check_status E offline later ?d") (simp add: enforce_def)
  with out show ?thesis by blast
qed

subsection \<open>Activation\<close>

text \<open>An activation that fails, whether at the server or at the local database, leaves the cached
  license as it was; one that succeeds was either accepted by the server for exactly the key that
  was entered, and its terms are what is cached, or is the development key in a debug build.\<close>

lemma activation_all_or_nothing:
  assumes "times_ok E" and run: "activate E debug_build api now key d = (res, d')"
  shows "case res of
      Inl _ \<Rightarrow> dk_license d' = dk_license d
    | Inr st \<Rightarrow>
        (\<exists>q resp. api_activate api q = Inr resp \<and> alq_license_key q = key
           \<and> st = status_from_server_response (asp_status resp)
           \<and> cached E d' = Some (activated_record E key resp now))
        \<or> debug_build \<and> trim key = dev_test_license_key \<and> cached E d' = Some (dev_test_record now)"
proof (cases "debug_build \<and> trim key = dev_test_license_key")
  case dev_key: True
  show ?thesis
  proof (cases "next_fails d")
    case True
    with run dev_key show ?thesis by (auto simp: activate_def save_eq)
  next
    case False
    then have "dk_license d' = Some (row_of_record E (dev_test_record now))" "res = Inr StActive"
      using run dev_key by (auto simp: activate_def save_eq log_license)
    with dev_key cached_saved [OF assms(1)] show ?thesis by simp
  qed
next
  case key: False
  obtain dres d1 where dev: "get_or_create_device_info E d = (dres, d1)" by fastforce
  note d1 = device_info_run [OF dev]
  note run' = run [unfolded activate_def if_not_P [OF key] dev prod.case]
  show ?thesis
  proof (cases dres)
    case (Inl e)
    with run' d1 show ?thesis by auto
  next
    case (Inr device)
    let ?q = "\<lparr> alq_license_key = key, alq_device_id = di_device_id device,
      alq_machine_fingerprint = di_machine_fingerprint device,
      alq_device_label = fi_computer_name (fingerprint_collect E) \<rparr>"
    show ?thesis
    proof (cases "api_activate api ?q")
      case api: (Inl e)
      with run' d1 Inr show ?thesis by auto
    next
      case api: (Inr resp)
      note run'' = run' [unfolded Inr sum.case api]
      show ?thesis
      proof (cases "next_fails d1")
        case True
        with run'' d1 show ?thesis by (auto simp: save_eq)
      next
        case False
        with run'' have "dk_license d' = Some (row_of_record E (activated_record E key resp now))"
          "res = Inr (status_from_server_response (asp_status resp))"
          by (auto simp: save_eq log_license Let_def)
        with cached_saved [OF assms(1)] api show ?thesis by (auto intro!: exI [of _ ?q])
      qed
    qed
  qed
qed

end
