(* ===== verification/EndToEnd.thy ===== *)
theory EndToEnd
  imports RouteFacts DesktopFacts LicenseFacts AdminFacts
begin

text \<open>
  The desktop's license check against the server's routes: the request the client builds, the
  handler that answers it, and what the client then caches and decides. Both databases answer; the
  client's \<open>externals\<close> and the server's \<open>server_env\<close> are two installations of the same libraries
  where a statement says so.
\<close>

text \<open>An installation the server can recognise: a readable cached license, and the device row sent along.\<close>

definition activated_desk :: "externals \<Rightarrow> desk \<Rightarrow> local_license \<Rightarrow> string \<Rightarrow> device_info_row \<Rightarrow> bool" where
  "activated_desk E d r lid dev \<longleftrightarrow> times_ok E \<and> dk_faults d = [] \<and> cached E d = Some r
     \<and> ll_license_id r = Some lid \<and> dk_device d = Some dev"

definition info_of_row :: "device_info_row \<Rightarrow> device_info" where
  "info_of_row row = \<lparr> di_device_id = drw_device_id row, di_machine_fingerprint = drw_machine_fingerprint row,
     di_fingerprint_inputs = or_empty (drw_fingerprint_inputs row) \<rparr>"

lemma check_run:
  assumes "activated_desk E d r lid dev"
  shows "check_status E api now d =
    (let t = ticked E now d; r' = raised now r in
     case api_validate api (validate_request E lid (info_of_row dev) now) of
       Inr resp \<Rightarrow>
         (status_from_server_response (vsp_status resp),
          after (log_validation (state_debug (status_from_server_response (vsp_status resp))) True
            ''server validation succeeded'') (t\<lparr>dk_license := Some (row_of_record E (validated_record E r' resp now))\<rparr>))
     | Inl _ \<Rightarrow>
         (offline_status r' now,
          after (log_validation (state_debug (offline_status r' now)) False ''offline or server unreachable'') t))"
proof -
  have a: "times_ok E" "dk_faults d = []" "cached E d = Some r" "ll_license_id r = Some lid" "dk_device d = Some dev"
    using assms by (simp_all add: activated_desk_def)
  note t = ticked_healthy [OF a(1-3), of now]
  note h = healthy_desk [OF t(3)]
  have dev: "get_or_create_device_info E (ticked E now d) = (Inr (info_of_row dev), ticked E now d)"
    using h a(5) advance_rest(1) [of E now d]
    by (simp add: get_or_create_device_info_def load_device_info_def sqlite_def desk_try_def desk_ok_def
        info_of_row_def ticked_def)
  have "after (save_local_license E x) (ticked E now d) = (ticked E now d)\<lparr>dk_license := Some (row_of_record E x)\<rparr>" for x
    using h by (simp add: after_def save_eq)
  then show ?thesis
    using a(4) by (simp add: check_status_def ticked_def [symmetric] load_eq Let_def t h dev split: sum.split)
qed

text \<open>The route's answer to the client's request.\<close>

lemma server_validates:
  assumes "faults w = []" and "in_i64 lid" and "srv_parse_uuid S (di_device_id dev) = Some did"
  shows "api_validate (server_api S w) (validate_request E (int_str lid) dev now) =
    (case entitled_device lid did None (db w) of
       None \<Rightarrow> Inl ClDeviceNotActivated
     | Some (l, x) \<Rightarrow>
         if dev_machine_fingerprint x = di_machine_fingerprint dev
         then Inr \<lparr> vsp_status = license_status_as_str (effective_status l (utc_now w)),
           vsp_expires_at = map_option (srv_to_rfc3339 S) (lic_expires_at l),
           vsp_grace_period_days = lic_grace_period_days l, vsp_server_time = srv_to_rfc3339 S (utc_now w),
           vsp_fingerprint_matched = True \<rparr>
         else Inl (client_view ApDeviceMismatch))"
  using assms
  by (simp add: server_api_def route_validate_def validate_request_def given_run parse_license_id_def
      parse_i64_int_str parse_device_id_def optional_owner_user_id_def await_run await_as_def return_run
      license_validate_healthy now_then_def validated_def validation_logged_def Let_def
      split: option.split prod.split)

text \<open>C17: what the server knows is what the desktop does. When an activated installation reaches the
  server and its device is active for the license there with the same fingerprint, the check
  reports the license's effective status at the server's clock, runs exactly if that is active, and
  caches the server's status, expiry and grace period as of now.\<close>

theorem desktop_follows_server:
  assumes "activated_desk E d r (int_str lid) dev" and "in_i64 lid"
    and "srv_parse_uuid S (drw_device_id dev) = Some did" and "srv_to_rfc3339 S = ext_to_rfc3339 E"
    and "faults w = []" and "entitled_device lid did None (db w) = Some (l, x)"
    and "dev_machine_fingerprint x = drw_machine_fingerprint dev"
  shows "is_licensed (fst (check_status E (server_api S w) now d)) = (effective_status l (utc_now w) = LicActive)
    \<and> cached E (snd (check_status E (server_api S w) now d)) = Some ((raised now r)\<lparr>
        ll_status := license_status_as_str (effective_status l (utc_now w)),
        ll_expires_at := lic_expires_at l, ll_grace_period_days := lic_grace_period_days l,
        ll_last_validated_at := Some now\<rparr>)"
proof -
  let ?st = "license_status_as_str (effective_status l (utc_now w))"
  let ?resp = "\<lparr> vsp_status = ?st, vsp_expires_at = map_option (srv_to_rfc3339 S) (lic_expires_at l),
    vsp_grace_period_days = lic_grace_period_days l, vsp_server_time = srv_to_rfc3339 S (utc_now w),
    vsp_fingerprint_matched = True \<rparr>"
  let ?r = "validated_record E (raised now r) ?resp now"
  have times: "times_ok E" using assms(1) by (simp add: activated_desk_def)
  have api: "api_validate (server_api S w) (validate_request E (int_str lid) (info_of_row dev) now) = Inr ?resp"
    using server_validates [OF assms(5,2), of S "info_of_row dev" did E now] assms(3,6,7)
    by (simp add: info_of_row_def)
  note run = check_run [OF assms(1), of "server_api S w" now, unfolded api Let_def]
  have "is_licensed (status_from_server_response ?st) = (effective_status l (utc_now w) = LicActive)"
    by (cases "effective_status l (utc_now w)") (simp_all add: status_from_server_response_def)
  moreover have "cached E (snd (check_status E (server_api S w) now d)) = Some ?r"
    using cached_saved [OF times, of _ ?r] unfolding run by (simp add: log_license)
  moreover have "parse_ts E (vsp_expires_at ?resp) = lic_expires_at l"
    using parse_ts_printed [OF times] by (simp add: assms(4))
  ultimately show ?thesis unfolding run by (simp add: validated_record_def)
qed

text \<open>But a refusal is taken for silence. When the server refuses the installation outright, because its
  device was deactivated, the license was deleted or taken over by another machine, the client
  treats the answer like a lost connection: the application keeps running for the rest of the grace
  period.\<close>

lemma refusal_taken_for_silence:
  assumes "activated_desk E d r (int_str lid) dev" and "in_i64 lid"
    and "srv_parse_uuid S (drw_device_id dev) = Some did" and "faults w = []"
    and "entitled_device lid did None (db w) = None
      \<or> (\<exists>l x. entitled_device lid did None (db w) = Some (l, x)
           \<and> dev_machine_fingerprint x \<noteq> drw_machine_fingerprint dev)"
    and "ll_status r = ''active''" and "ll_last_validated_at r = Some v" and "v \<le> now"
    and "now < v + duration_days (ll_grace_period_days r + 1)"
    and "\<And>t. ll_highest_seen_clock r = Some t \<Longrightarrow> t \<le> now"
  shows "(\<exists>e. fst (route_validate S (\<lambda>_. None) (validate_request E (int_str lid) (info_of_row dev) now) w) = Inl e
        \<and> e \<in> {ApDeviceNotActivated, ApDeviceMismatch})
    \<and> fst (enforce E show_date (server_api S w) now d) = Allowed"
proof -
  have refused: "\<exists>e. fst (route_validate S (\<lambda>_. None) (validate_request E (int_str lid) (info_of_row dev) now) w) = Inl e
      \<and> e \<in> {ApDeviceNotActivated, ApDeviceMismatch}"
    using assms(2-5)
    by (auto simp: info_of_row_def route_validate_def validate_request_def given_run parse_license_id_def
        parse_i64_int_str parse_device_id_def optional_owner_user_id_def await_run await_as_def return_run
        license_validate_healthy Let_def split: option.split prod.split)
  then obtain e where api: "api_validate (server_api S w) (validate_request E (int_str lid) (info_of_row dev) now) = Inl e"
    by (auto simp: server_api_def)
  have "\<exists>n. offline_status (raised now r) now = ActiveOfflineGrace n \<and> 0 \<le> n \<and> n \<le> ll_grace_period_days (raised now r)"
    using assms(6-10)
    by (intro offline_grants [of _ v]) (auto simp: raised_def should_advance_def split: if_splits)
  then have "is_licensed (fst (check_status E (server_api S w) now d))"
    using check_run [OF assms(1), of "server_api S w" now] by (auto simp: api Let_def)
  then have "fst (enforce E show_date (server_api S w) now d) = Allowed"
    by (cases "check_status E (server_api S w) now d") (simp add: enforce_def)
  with refused show ?thesis by blast
qed

text \<open>C18: from the admin console to the desktop. After an admin revoked a license, the next check of an
  activated installation that reaches the server closes the application and clears its activation,
  and every later check keeps it closed, whatever the clock, the server and the local database do.\<close>

theorem admin_revocation_reaches_desktop:
  assumes "activated_desk E d r (int_str lid) dev" and "in_i64 lid"
    and "srv_parse_uuid S (drw_device_id dev) = Some did" and "faults w = []"
    and "entitled_device lid did None (db w) = Some (l, x)"
    and "dev_machine_fingerprint x = drw_machine_fingerprint dev"
    and "admin_revoke_license lid reason w = (r1, w1)"
    and "enforce E show_date (server_api S (w1\<lparr>utc_now := t\<rparr>)) now d = (out, d1)"
    and "trace (desk_step E show_date) ls d1 d2"
  shows "(\<exists>notice. out = Blocked notice True) \<and> cached E d1 = Some not_activated \<and> list_all keeps_out ls"
proof -
  let ?l = "revoked_now (utc_now w) reason l" and ?w = "w1\<lparr>utc_now := t\<rparr>"
  have "find (\<lambda>l. lic_id l = lid) (licenses (db w)) = Some l"
    using assms(5) by (auto simp: entitled_device_def entitled_license_def split: option.splits if_splits)
  then have w1: "w1 = with_license lid (revoked_now (utc_now w) reason) w"
    using assms(7) by (simp add: admin_revoke_license_healthy assms(4))
  have "entitled_device lid did None (db ?w) = Some (?l, x)"
    using entitled_with_license [OF assms(5), of "revoked_now (utc_now w) reason"]
    by (simp add: w1 revoked_now_def)
  moreover have "effective_status ?l t = LicRevoked" by (simp add: effective_status_def revoked_now_def)
  moreover have "faults ?w = []" using assms(4) by (simp add: w1 with_license_def)
  ultimately obtain resp where api: "api_validate (server_api S ?w)
      (validate_request E (int_str lid) (info_of_row dev) now) = Inr resp" "vsp_status resp = ''revoked''"
    using server_validates [of ?w lid S "info_of_row dev" did E now] assms(2,3,6)
    by (simp add: info_of_row_def)
  have times: "times_ok E" using assms(1) by (simp add: activated_desk_def)
  obtain st d3 where c: "check_status E (server_api S ?w) now d = (st, d3)" by fastforce
  note run = check_run [OF assms(1), of "server_api S ?w" now, unfolded api(1) Let_def c, simplified]
  have faults: "dk_faults (ticked E now d) = []"
    using assms(1) ticked_healthy [of E d r now] by (simp add: activated_desk_def)
  have "\<not> is_licensed st" using run api(2) by (simp add: status_from_server_response_def)
  moreover have "cached E d3 = Some (validated_record E (raised now r) resp now)"
    using run cached_saved [OF times, of d3] by (simp add: log_license)
  moreover have "dk_faults d3 = []" using run faults by (simp add: log_healthy)
  moreover have "ll_status (validated_record E (raised now r) resp now) = ''revoked''"
    by (simp add: validated_record_def api(2))
  ultimately show ?thesis
    using enforce_revoked [OF times c _ _ _ _ assms(8)] locked.all_good [OF assms(9)]
    by (simp add: list_all_iff)
qed

end
