(* ===== verification/SamplesDesktop.thy ===== *)
theory SamplesDesktop
  imports SamplesServer EndToEnd
begin

text \<open>
  Witnesses for the properties of the routes, of the desktop's license check and of the two
  together. The externals are small concrete functions: times are written in binary, the digests
  are the bytes themselves.
\<close>

text \<open>Times in binary, lowest digit first, so that they evaluate without unary numbers.\<close>

fun time_bits :: "int \<Rightarrow> string" where
  "time_bits t = (if t \<le> 0 then [] else (if t mod 2 = 1 then CHR ''1'' else CHR ''0'') # time_bits (t div 2))"

declare time_bits.simps [simp del]

definition bits_value :: "string \<Rightarrow> int" where
  "bits_value s = foldr (\<lambda>c n. 2 * n + (if c = CHR ''1'' then 1 else 0)) s 0"

lemma bits_value_time_bits: "0 \<le> t \<Longrightarrow> bits_value (time_bits t) = t"
proof (induction t rule: time_bits.induct)
  case (1 t)
  show ?case
  proof (cases "t = 0")
    case True
    then show ?thesis by (simp add: time_bits.simps [of 0] bits_value_def)
  next
    case False
    with 1 have "bits_value (time_bits (t div 2)) = t div 2" by simp
    with False 1 show ?thesis
      by (simp add: time_bits.simps [of t] bits_value_def) presburger
  qed
qed

definition sample_show_time :: "timestamp \<Rightarrow> string" where
  "sample_show_time t = (if t < 0 then CHR ''-'' # time_bits (- t) else CHR ''+'' # time_bits t)"

fun sample_parse_time :: "string \<Rightarrow> timestamp option" where
  "sample_parse_time [] = None"
| "sample_parse_time (c # s) = Some (if c = CHR ''-'' then - bits_value s else bits_value s)"

definition sample_externals :: externals where
  "sample_externals = \<lparr> ext_hmac = (\<lambda>key msg. byte_digest msg), ext_base64 = hex_encode,
     ext_sha256 = byte_digest, ext_to_rfc3339 = sample_show_time, ext_parse_rfc3339 = sample_parse_time,
     ext_environment = (\<lambda>_. None), ext_random = replicate 16 0x5A \<rparr>"

lemma sample_times: "times_ok sample_externals"
  by (simp add: times_ok_def sample_externals_def sample_show_time_def bits_value_time_bits)

definition sample_record :: local_license where
  "sample_record = \<lparr> ll_customer_id = Some ''1'', ll_license_id = Some (int_str 1), ll_license_key = Some ''KEY-1'',
     ll_subscription_type = Some ''monthly'', ll_status = ''active'', ll_expires_at = Some 5000,
     ll_last_validated_at = Some 100, ll_grace_period_days = 7, ll_highest_seen_clock = Some 900 \<rparr>"

definition sample_row :: license_row where
  "sample_row = row_of_record sample_externals sample_record"

definition sample_device_info :: device_info_row where
  "sample_device_info = \<lparr> drw_device_id = ''dev-17'', drw_machine_fingerprint = ''fp-1'',
     drw_fingerprint_inputs = None \<rparr>"

definition sample_desk :: desk where
  "sample_desk = \<lparr> dk_license = Some sample_row, dk_device = Some sample_device_info, dk_log = [], dk_faults = [] \<rparr>"

lemma sample_cached: "cached sample_externals sample_desk = Some sample_record"
  using cached_saved [OF sample_times, of sample_desk sample_record]
  by (simp add: sample_desk_def sample_row_def)

lemma sample_desk_healthy: "dk_faults sample_desk = []"
  by (simp add: sample_desk_def)

lemma sample_record_fields:
  "ll_license_id sample_record = Some (int_str 1)" "ll_status sample_record = ''active''"
  "ll_last_validated_at sample_record = Some 100" "ll_highest_seen_clock sample_record = Some 900"
  "ll_grace_period_days sample_record = 7"
  "grace_ends sample_record = Some (100 + duration_days 8)"
  by (simp_all add: sample_record_def grace_ends_def)

lemma sample_offline: "unreachable offline_client"
  by (simp add: unreachable_def offline_client_def)

text \<open>A day of the calendar, in the model's microseconds.\<close>

abbreviation day :: int where
  "day \<equiv> 86400000000"

definition sample_date :: "timestamp \<Rightarrow> string" where
  "sample_date t = sample_show_time t"

subsection \<open>The desktop alone\<close>


abbreviation offline_run :: "timestamp \<Rightarrow> desk \<Rightarrow> enforcement_outcome \<times> desk" where
  "offline_run now d \<equiv> enforce sample_externals sample_date offline_client now d"

abbreviation expired_desk :: desk where
  "expired_desk \<equiv> snd (offline_run (9 * day) sample_desk)"

lemma offline_trace:
  "trace (desk_step sample_externals sample_date)
    [Enforced offline_client 1000 (fst (offline_run 1000 d))] d (snd (offline_run 1000 d))"
  by (rule trace_one, rule step_enforce) simp

theorem offline_expiry_is_final_witness:
  "fst (offline_run (9 * day) sample_desk) \<noteq> Allowed
    \<and> fst (offline_run 1000 expired_desk) \<noteq> Allowed
    \<and> fst (offline_run 1000 sample_desk) = Allowed"
proof -
  have run: "offline_run (9 * day) sample_desk = (fst (offline_run (9 * day) sample_desk), expired_desk)"
    by simp
  have ends: "100 + duration_days 8 \<le> 9 * day" by (simp add: duration_days_def)
  have "fst (offline_run 1000 sample_desk) = Allowed" by code_simp
  moreover have "list_all offline_label [Enforced offline_client 1000 (fst (offline_run 1000 expired_desk))]"
    by (simp add: offline_label_def sample_offline)
  note offline_expiry_is_final [OF sample_times sample_desk_healthy sample_offline sample_cached
      sample_record_fields(6) ends run offline_trace this]
  ultimately show ?thesis by (simp add: keeps_out_def)
qed

definition says :: "string \<Rightarrow> license_api" where
  "says st = offline_client\<lparr>api_validate := (\<lambda>_. Inr \<lparr> vsp_status = st, vsp_expires_at = None,
     vsp_grace_period_days = 7, vsp_server_time = [], vsp_fingerprint_matched = True \<rparr>)\<rparr>"

lemma says_answers: "answers (says st) \<lparr> vsp_status = st, vsp_expires_at = None,
    vsp_grace_period_days = 7, vsp_server_time = [], vsp_fingerprint_matched = True \<rparr>"
  by (simp add: answers_def says_def)

abbreviation told :: "string \<Rightarrow> timestamp \<Rightarrow> desk \<Rightarrow> enforcement_outcome \<times> desk" where
  "told st now d \<equiv> enforce sample_externals sample_date (says st) now d"

lemma revocation_locks_out_example:
  "(\<exists>reason. fst (told ''revoked'' 1000 sample_desk) = Blocked reason True)
    \<and> cached sample_externals (snd (told ''revoked'' 1000 sample_desk)) = Some not_activated
    \<and> list_all keeps_out [Enforced offline_client 1000
        (fst (offline_run 1000 (snd (told ''revoked'' 1000 sample_desk))))]"
  by (rule revocation_locks_out [OF sample_times sample_desk_healthy sample_cached sample_record_fields(1)
      says_answers [of "''revoked''"] _ _ offline_trace]) simp_all

definition edited_desk :: desk where
  "edited_desk = sample_desk\<lparr>dk_license := Some (sample_row\<lparr>row_status := ''suspended''\<rparr>)\<rparr>"

theorem tampered_record_fails_closed_witness:
  "fst (check_status sample_externals (says ''active'') 1000 edited_desk) = GracePeriodExpired
    \<and> (\<exists>reason. fst (told ''active'' 1000 edited_desk) = Blocked reason False)
    \<and> dk_license (snd (told ''active'' 1000 edited_desk)) = dk_license edited_desk"
proof (rule tampered_record_fails_closed [OF sample_times])
  have "\<not> signature_ok sample_externals (sample_row\<lparr>row_status := ''suspended''\<rparr>)" by code_simp
  then show "tampered sample_externals edited_desk" by (simp add: tampered_def edited_desk_def)
qed

lemma erased_watermark_reopens_example:
  "fst (check_status sample_externals offline_client 500 sample_desk) = GracePeriodExpired
    \<and> \<not> tampered sample_externals (edit_watermark None sample_desk)
    \<and> is_licensed (fst (check_status sample_externals offline_client 500 (edit_watermark None sample_desk)))"
  by (rule erased_watermark_reopens [OF sample_times sample_desk_healthy sample_offline sample_cached
      sample_record_fields(1) _ sample_record_fields(3) _ sample_record_fields(6) _ sample_record_fields(4)])
    (simp_all add: sample_record_fields duration_days_def)

lemma expired_license_runs_offline_example:
  "(\<exists>reason. fst (told ''expired'' 1000 sample_desk) = Blocked reason False)
    \<and> fst (offline_run (5 * day) ((snd (told ''expired'' 1000 sample_desk))\<lparr>dk_faults := []\<rparr>)) = Allowed"
  by (rule expired_license_runs_offline [OF sample_times sample_desk_healthy sample_cached
      sample_record_fields(1) says_answers [of "''expired''"] _ _ prod.collapse [symmetric] sample_offline])
    (simp_all add: sample_record_fields duration_days_def)

lemma activation_all_or_nothing_example:
  "dk_license (snd (activate sample_externals False offline_client 1000 ''KEY-9'' sample_desk))
    = dk_license sample_desk"
proof -
  have "fst (activate sample_externals False offline_client 1000 ''KEY-9'' sample_desk)
      = Inl NoServerConfigured" by code_simp
  then have "activate sample_externals False offline_client 1000 ''KEY-9'' sample_desk
      = (Inl NoServerConfigured, snd (activate sample_externals False offline_client 1000 ''KEY-9'' sample_desk))"
    by (simp add: prod_eq_iff)
  from activation_all_or_nothing [OF sample_times this] show ?thesis by simp
qed

subsection \<open>The routes\<close>

text \<open>
  A server whose libraries are the sample functions: one device id parses, a body is accepted as a
  webhook with its text as the event, and nothing is drawn or verified at random.
\<close>

definition sample_server :: server_env where
  "sample_server = \<lparr> srv_sha256 = byte_digest, srv_hmac = (\<lambda>key msg. byte_digest msg),
     srv_verify = plain_verify, srv_dummy_hash = ''none'', srv_random = [1, 171], srv_draw = (\<lambda>_. 0),
     srv_provider = (\<lambda>_. Inl ''down''), srv_parse_uuid = (\<lambda>s. if s = ''dev-17'' then Some 17 else None),
     srv_show_uuid = (\<lambda>_. ''dev-17''), srv_to_rfc3339 = sample_show_time, srv_parse_rfc3339 = sample_parse_time,
     srv_db_error = (\<lambda>_. ''failed''), srv_webhook_secret = Some ''s'',
     srv_parse_webhook = (\<lambda>s. Inr \<lparr> rwp_event = s, rwp_payload = JNull \<rparr>) \<rparr>"

abbreviation no_headers :: headers where
  "no_headers \<equiv> \<lambda>_. None"

lemma admin_routes_guarded_example:
  "turned_away (route_revoke_license sample_server no_headers ''1'' None) sample_world
    \<and> turned_away (route_restore_license sample_server no_headers ''1'') sample_world
    \<and> turned_away (route_deactivate_device sample_server no_headers ''1'') sample_world"
proof -
  have "\<not> admin_request sample_server no_headers sample_world"
    by (simp add: admin_request_def session_request_def bearer_def)
  from admin_routes_guarded [OF this] show ?thesis by simp
qed

lemma account_routes_guarded_example:
  "turned_away (route_logout sample_server no_headers) staffed_world
    \<and> turned_away (route_subscription sample_server no_headers) staffed_world
    \<and> turned_away (route_create_checkout_session sample_server no_headers \<lparr> ccq_plan_type = ''monthly'' \<rparr>) staffed_world"
  by (rule account_routes_guarded) (simp add: session_request_def bearer_def)

lemma webhook_route_authenticated_example:
  "route_webhook sample_server no_headers ''x'' sample_world = (Inl ApUnauthorized, sample_world)"
  using webhook_route_authenticated [of sample_server no_headers "''x''" sample_world]
  by (simp add: webhook_signed_def)

subsection \<open>The desktop and the server\<close>

lemma sample_activated_desk:
  "activated_desk sample_externals sample_desk sample_record (int_str 1) sample_device_info"
  using sample_times sample_desk_healthy sample_cached
  by (simp add: activated_desk_def sample_record_fields sample_desk_def)

lemma sample_parses: "srv_parse_uuid sample_server (drw_device_id sample_device_info) = Some 17"
  by (simp add: sample_server_def sample_device_info_def)

lemma sample_times_agree: "srv_to_rfc3339 sample_server = ext_to_rfc3339 sample_externals"
  by (simp add: sample_server_def sample_externals_def)

lemma one_in_i64: "in_i64 1"
  by code_simp

lemma sample_entitled_any: "entitled_device 1 17 None (db sample_world) = Some (sample_license, sample_device)"
  by code_simp

lemma sample_fingerprint: "dev_machine_fingerprint sample_device = drw_machine_fingerprint sample_device_info"
  by code_simp

theorem desktop_follows_server_witness:
  "is_licensed (fst (check_status sample_externals (server_api sample_server sample_world) 2000 sample_desk))
    \<and> map_option ll_expires_at
        (cached sample_externals (snd (check_status sample_externals (server_api sample_server sample_world) 2000 sample_desk)))
      = Some (Some 5000)"
proof -
  have "effective_status sample_license (utc_now sample_world) = LicActive"
    "lic_expires_at sample_license = Some 5000" by code_simp+
  with desktop_follows_server [OF sample_activated_desk one_in_i64 sample_parses sample_times_agree
      sample_healthy sample_entitled_any sample_fingerprint] show ?thesis by simp
qed

abbreviation taken_away :: world where
  "taken_away \<equiv> sample_world\<lparr>db := sample_tables\<lparr>devices := []\<rparr>\<rparr>"

lemma refusal_taken_for_silence_example:
  "fst (enforce sample_externals sample_date (server_api sample_server taken_away) 2000 sample_desk) = Allowed"
  by (rule refusal_taken_for_silence [OF sample_activated_desk one_in_i64 sample_parses _ _
      sample_record_fields(2,3), THEN conjunct2])
    (simp_all add: sample_healthy sample_record_fields duration_days_def entitled_device_def
      device_row_def split: option.split)

abbreviation revoked_there :: "(admin_operation_error + license) \<times> world" where
  "revoked_there \<equiv> admin_revoke_license 1 (Some ''fraud'') sample_world"

abbreviation checked_after :: "enforcement_outcome \<times> desk" where
  "checked_after \<equiv> enforce sample_externals sample_date
     (server_api sample_server (snd revoked_there\<lparr>utc_now := 1500\<rparr>)) 2000 sample_desk"

theorem admin_revocation_reaches_desktop_witness:
  "keeps_out (Enforced offline_client 1000 (fst (offline_run 1000 (snd checked_after))))"
proof -
  have revoke: "admin_revoke_license 1 (Some ''fraud'') sample_world = (fst revoked_there, snd revoked_there)"
    by simp
  have check: "enforce sample_externals sample_date
      (server_api sample_server (snd revoked_there\<lparr>utc_now := 1500\<rparr>)) 2000 sample_desk
    = (fst checked_after, snd checked_after)"
    by simp
  from admin_revocation_reaches_desktop [OF sample_activated_desk one_in_i64 sample_parses sample_healthy
      sample_entitled_any sample_fingerprint revoke check offline_trace]
  show ?thesis by simp
qed

end
