(* ===== verification/Text.thy ===== *)
theory Text
  imports Prelude
begin

text \<open>
  Text as the desktop application's parsers see it: a list of Unicode scalar values (Rust's
  \<open>chars()\<close>), with the operations of \<open>str\<close> and \<open>char\<close> that the parsers use. Unicode's tables
  (decimal digits, word characters, case mappings) are an argument of what uses them; white space is
  the fixed set of \<open>char::is_whitespace\<close>.
\<close>

type_synonym chars = "int list"

definition lit :: "string \<Rightarrow> chars" where
  "lit s = map of_char s"

lemma lit_simps [simp]: "lit [] = []" "lit (c # s) = of_char c # lit s"
  by (simp_all add: lit_def)

lemma lit_append [simp]: "lit (s @ t) = lit s @ lit t"
  by (simp add: lit_def)

subsection \<open>Characters\<close>

definition ascii_digit :: "int \<Rightarrow> bool" where
  "ascii_digit c \<longleftrightarrow> 48 \<le> c \<and> c \<le> 57"

definition ascii_upper :: "int \<Rightarrow> bool" where
  "ascii_upper c \<longleftrightarrow> 65 \<le> c \<and> c \<le> 90"

definition ascii_lower :: "int \<Rightarrow> bool" where
  "ascii_lower c \<longleftrightarrow> 97 \<le> c \<and> c \<le> 122"

definition ascii_alpha :: "int \<Rightarrow> bool" where
  "ascii_alpha c \<longleftrightarrow> ascii_upper c \<or> ascii_lower c"

definition ascii_alnum :: "int \<Rightarrow> bool" where
  "ascii_alnum c \<longleftrightarrow> ascii_digit c \<or> ascii_alpha c"

definition to_ascii_lower :: "int \<Rightarrow> int" where
  "to_ascii_lower c = (if ascii_upper c then c + 32 else c)"

definition white :: "int \<Rightarrow> bool" where
  "white c \<longleftrightarrow> 9 \<le> c \<and> c \<le> 13 \<or> c = 32 \<or> c = 0x85 \<or> c = 0xA0 \<or> c = 0x1680
     \<or> 0x2000 \<le> c \<and> c \<le> 0x200A \<or> c = 0x2028 \<or> c = 0x2029 \<or> c = 0x202F \<or> c = 0x205F \<or> c = 0x3000"

lemma digit_not_white: "ascii_digit c \<Longrightarrow> \<not> white c"
  by (auto simp: ascii_digit_def white_def)

text \<open>The Unicode tables of the regex crate and the standard library.\<close>

record unicode =
  uni_digit :: "int \<Rightarrow> bool"
  uni_word :: "int \<Rightarrow> bool"
  uni_upper :: "int \<Rightarrow> chars"
  uni_lower :: "int \<Rightarrow> chars"
  uni_alnum :: "int \<Rightarrow> bool"
  uni_alpha :: "int \<Rightarrow> bool"

text \<open>What the tables say of the ASCII range.\<close>

definition unicode_ok :: "unicode \<Rightarrow> bool" where
  "unicode_ok U \<longleftrightarrow> (\<forall>c. 0 \<le> c \<and> c < 128 \<longrightarrow>
     (uni_digit U c \<longleftrightarrow> ascii_digit c) \<and> (uni_word U c \<longleftrightarrow> ascii_alnum c \<or> c = 95)
     \<and> uni_lower U c = [to_ascii_lower c]
     \<and> uni_upper U c = [if ascii_lower c then c - 32 else c]
     \<and> (uni_alnum U c \<longleftrightarrow> ascii_alnum c) \<and> (uni_alpha U c \<longleftrightarrow> ascii_alpha c))"

definition ascii_tables :: unicode where
  "ascii_tables = \<lparr> uni_digit = ascii_digit, uni_word = (\<lambda>c. ascii_alnum c \<or> c = 95),
     uni_upper = (\<lambda>c. [if ascii_lower c then c - 32 else c]), uni_lower = (\<lambda>c. [to_ascii_lower c]), uni_alnum = ascii_alnum, uni_alpha = ascii_alpha \<rparr>"

lemma ascii_tables_ok: "unicode_ok ascii_tables"
  by (simp add: unicode_ok_def ascii_tables_def)

definition to_uppercase :: "unicode \<Rightarrow> chars \<Rightarrow> chars" where
  "to_uppercase U s = concat (map (uni_upper U) s)"

definition to_lowercase :: "unicode \<Rightarrow> chars \<Rightarrow> chars" where
  "to_lowercase U s = concat (map (uni_lower U) s)"

definition eq_ignore_ascii_case :: "chars \<Rightarrow> chars \<Rightarrow> bool" where
  "eq_ignore_ascii_case a b \<longleftrightarrow> map to_ascii_lower a = map to_ascii_lower b"

text \<open>The length of a character in UTF-8, and of a \<open>str\<close> (its \<open>len()\<close>).\<close>

definition utf8_len :: "int \<Rightarrow> nat" where
  "utf8_len c = (if c < 0x80 then 1 else if c < 0x800 then 2 else if c < 0x10000 then 3 else 4)"

definition byte_len :: "chars \<Rightarrow> nat" where
  "byte_len s = sum_list (map utf8_len s)"

lemma byte_len_digits: "list_all ascii_digit s \<Longrightarrow> byte_len s = length s"
  by (induction s) (auto simp: byte_len_def utf8_len_def ascii_digit_def)

subsection \<open>Slicing\<close>

definition trim_start :: "chars \<Rightarrow> chars" where
  "trim_start s = dropWhile white s"

definition trim_end :: "chars \<Rightarrow> chars" where
  "trim_end s = rev (dropWhile white (rev s))"

definition trimmed :: "chars \<Rightarrow> chars" where
  "trimmed s = trim_end (trim_start s)"

lemma dropWhile_hd: "s \<noteq> [] \<Longrightarrow> \<not> p (hd s) \<Longrightarrow> dropWhile p s = s"
  by (cases s) simp_all

lemma trimmed_id:
  assumes "s \<noteq> []" and "\<not> white (hd s)" and "\<not> white (last s)"
  shows "trimmed s = s"
  using assms by (simp add: trimmed_def trim_start_def trim_end_def dropWhile_hd hd_rev)

lemma trimmed_Nil [simp]: "trimmed [] = []"
  by (simp add: trimmed_def trim_start_def trim_end_def)

lemma trimmed_no_white: "(\<And>c. c \<in> set s \<Longrightarrow> \<not> white c) \<Longrightarrow> trimmed s = s"
  by (cases "s = []") (auto intro: trimmed_id)

lemma set_trimmed: "set (trimmed s) \<subseteq> set s"
proof -
  have "set (dropWhile p t) \<subseteq> set t" for p and t :: chars by (induction t) auto
  from this [of white "rev (dropWhile white s)"] this [of white s] show ?thesis
    by (simp add: trimmed_def trim_start_def trim_end_def)
qed

lemma trimmed_idem [simp]: "trimmed (trimmed s) = trimmed s"
proof (cases "trimmed s = []")
  case False
  let ?a = "dropWhile white s"
  have t: "trimmed s = rev (dropWhile white (rev ?a))" by (simp add: trimmed_def trim_start_def trim_end_def)
  with False have ne: "dropWhile white (rev ?a) \<noteq> []" by simp
  then have "\<not> white (last (trimmed s))" unfolding t last_rev by (rule hd_dropWhile)
  moreover have "?a = trimmed s @ rev (takeWhile white (rev ?a))"
    unfolding t rev_append [symmetric] by simp
  then have "hd ?a = hd (trimmed s)" "?a \<noteq> []" using False by (metis hd_append2, metis append_is_Nil_conv)
  then have "\<not> white (hd (trimmed s))" using hd_dropWhile [of white s] by simp
  ultimately show ?thesis using False by (intro trimmed_id)
qed simp

text \<open>The characters of the first \<open>n\<close> bytes.\<close>

fun take_bytes :: "nat \<Rightarrow> chars \<Rightarrow> chars" where
  "take_bytes n [] = []"
| "take_bytes n (c # s) = (if utf8_len c \<le> n then c # take_bytes (n - utf8_len c) s else [])"

text \<open>\<open>split\<close> at every character of a set: one piece more than separators.\<close>

fun split_at :: "(int \<Rightarrow> bool) \<Rightarrow> chars \<Rightarrow> chars list" where
  "split_at p [] = [[]]"
| "split_at p (c # s) =
    (if p c then [] # split_at p s
     else (case split_at p s of [] \<Rightarrow> [[c]] | w # ws \<Rightarrow> (c # w) # ws))"

lemma split_at_not_Nil [simp]: "split_at p s \<noteq> []"
  by (induction s) (auto split: list.split)

lemma split_at_none: "(\<And>c. c \<in> set s \<Longrightarrow> \<not> p c) \<Longrightarrow> split_at p s = [s]"
  by (induction s) auto

lemma split_at_append:
  assumes "\<And>c. c \<in> set a \<Longrightarrow> \<not> p c" and "p x"
  shows "split_at p (a @ x # s) = a # split_at p s"
  using assms by (induction a) auto

definition split_whitespace :: "chars \<Rightarrow> chars list" where
  "split_whitespace s = filter (\<lambda>w. w \<noteq> []) (split_at white s)"

fun join_with :: "chars \<Rightarrow> chars list \<Rightarrow> chars" where
  "join_with sep [] = []"
| "join_with sep [w] = w"
| "join_with sep (w # v # ws) = w @ sep @ join_with sep (v # ws)"

fun has_prefix :: "chars \<Rightarrow> chars \<Rightarrow> bool" where
  "has_prefix [] s = True"
| "has_prefix (p # ps) [] = False"
| "has_prefix (p # ps) (c # s) = (p = c \<and> has_prefix ps s)"

text \<open>\<open>contains\<close> a substring.\<close>

fun has_part :: "chars \<Rightarrow> chars \<Rightarrow> bool" where
  "has_part p [] = (p = [])"
| "has_part p (c # s) = (has_prefix p (c # s) \<or> has_part p s)"

text \<open>\<open>rfind\<close> of a nonempty pattern: the byte offset of its last occurrence.\<close>

fun rfind_part :: "chars \<Rightarrow> chars \<Rightarrow> nat option" where
  "rfind_part p [] = None"
| "rfind_part p (c # s) =
    (case rfind_part p s of
       Some i \<Rightarrow> Some (utf8_len c + i)
     | None \<Rightarrow> if has_prefix p (c # s) then Some 0 else None)"

text \<open>\<open>replace\<close> of a nonempty pattern: leftmost occurrences that do not overlap.\<close>

fun drop_parts :: "chars \<Rightarrow> nat \<Rightarrow> chars \<Rightarrow> chars" where
  "drop_parts p k [] = []"
| "drop_parts p (Suc k) (c # s) = drop_parts p k s"
| "drop_parts p 0 (c # s) =
    (if has_prefix p (c # s) then drop_parts p (length p - 1) s else c # drop_parts p 0 s)"


subsection \<open>Decimal numbers\<close>

function dec :: "int \<Rightarrow> chars" where
  "dec n = (if n < 10 then [48 + n] else dec (n div 10) @ [48 + n mod 10])"
  by auto
termination by (relation "measure nat") auto

declare dec.simps [simp del]

definition dec_value :: "chars \<Rightarrow> int" where
  "dec_value s = foldl (\<lambda>v c. 10 * v + (c - 48)) 0 s"

definition ascii_digits :: "chars \<Rightarrow> bool" where
  "ascii_digits s \<longleftrightarrow> s \<noteq> [] \<and> list_all ascii_digit s"

lemma dec_value_simps [simp]:
  "dec_value [] = 0" "dec_value (s @ [c]) = 10 * dec_value s + (c - 48)"
  by (simp_all add: dec_value_def)

lemma dec_value_append: "dec_value (s @ t) = dec_value s * 10 ^ length t + dec_value t"
proof (induction t rule: rev_induct)
  case (snoc c t)
  have "dec_value (s @ t @ [c]) = 10 * dec_value (s @ t) + (c - 48)"
    using dec_value_simps(2) [of "s @ t" c] by simp
  with snoc show ?case by (simp add: algebra_simps)
qed simp

lemma dec_digits: "0 \<le> n \<Longrightarrow> ascii_digits (dec n) \<and> dec_value (dec n) = n"
proof (induction n rule: dec.induct)
  case (1 n)
  show ?case
  proof (cases "n < 10")
    case True
    have "dec_value ([] @ [48 + n]) = n" by (simp only: dec_value_simps)
    with True 1 show ?thesis by (simp add: dec.simps [of n] ascii_digits_def ascii_digit_def)
  next
    case False
    then have "dec n = dec (n div 10) @ [48 + n mod 10]" by (simp add: dec.simps [of n])
    with 1 False show ?thesis by (simp add: ascii_digits_def ascii_digit_def)
  qed
qed

lemma dec_simps [simp]:
  assumes "0 \<le> n"
  shows "ascii_digits (dec n)" and "dec_value (dec n) = n" and "list_all ascii_digit (dec n)"
  using dec_digits [OF assms] by (simp_all add: ascii_digits_def)

lemma dec_not_Nil [simp]: "dec n \<noteq> []"
  by (simp add: dec.simps [of n])

lemma dec_length: "0 \<le> n \<Longrightarrow> 0 < k \<Longrightarrow> length (dec n) \<le> k \<longleftrightarrow> n < 10 ^ k"
proof (induction n arbitrary: k rule: dec.induct)
  case (1 n)
  show ?case
  proof (cases "n < 10")
    case True
    have "(10::int) ^ 1 \<le> 10 ^ k" using 1(3) by (intro power_increasing) simp_all
    with True 1(3) show ?thesis by (simp add: dec.simps [of n])
  next
    case False
    then have len: "length (dec n) = Suc (length (dec (n div 10)))" by (simp add: dec.simps [of n])
    from 1(3) obtain j where k: "k = Suc j" by (cases k) simp_all
    show ?thesis
    proof (cases "j = 0")
      case True
      with False len k show ?thesis by simp
    next
      case j: False
      have "length (dec (n div 10)) \<le> j \<longleftrightarrow> n div 10 < 10 ^ j" using 1 False j by simp
      moreover have "n div 10 < 10 ^ j \<longleftrightarrow> n < 10 * 10 ^ j" by presburger
      ultimately show ?thesis using len k by simp
    qed
  qed
qed

lemma dec_value_bound: "list_all ascii_digit s \<Longrightarrow> 0 \<le> dec_value s \<and> dec_value s < 10 ^ length s"
proof (induction s rule: rev_induct)
  case (snoc c s)
  then have "48 \<le> c" "c \<le> 57" "0 \<le> dec_value s" "dec_value s < 10 ^ length s"
    by (simp_all add: ascii_digit_def)
  then show ?case by simp
qed simp

text \<open>\<open>{:02}\<close> of a number below a hundred.\<close>

definition dec2 :: "int \<Rightarrow> chars" where
  "dec2 n = [48 + n div 10, 48 + n mod 10]"

lemma dec2_simps:
  assumes "0 \<le> n" and "n < 100"
  shows "list_all ascii_digit (dec2 n)" and "dec_value (dec2 n) = n" and "length (dec2 n) = 2"
  using assms by (auto simp: dec2_def ascii_digit_def dec_value_def)

text \<open>\<open>parse::<u32>()\<close> and \<open>parse::<i32>()\<close>.\<close>

definition parse_u32 :: "chars \<Rightarrow> int option" where
  "parse_u32 s = (let d = (case s of c # t \<Rightarrow> if c = 43 then t else s | [] \<Rightarrow> []) in
     if ascii_digits d \<and> dec_value d < 2 ^ 32 then Some (dec_value d) else None)"

definition parse_i32 :: "chars \<Rightarrow> int option" where
  "parse_i32 s =
     (let signed = (case s of c # t \<Rightarrow> if c = 43 then (1, t) else if c = 45 then (- 1, t) else (1, s) | [] \<Rightarrow> (1, []));
          v = fst signed * dec_value (snd signed) in
      if ascii_digits (snd signed) \<and> - (2 ^ 31) \<le> v \<and> v < 2 ^ 31 then Some v else None)"

lemma parse_digits:
  assumes "ascii_digits s" and "dec_value s < 2 ^ 31"
  shows "parse_u32 s = Some (dec_value s)" and "parse_i32 s = Some (dec_value s)"
  using assms dec_value_bound [of s]
  by (cases s; simp add: parse_u32_def parse_i32_def ascii_digits_def ascii_digit_def Let_def)+

end
