(* ===== verification/Float64.thy ===== *)
theory Float64
  imports Text Complex_Main
begin

text \<open>
  Rust's \<open>f64\<close>: IEEE 754 binary64 with rounding to nearest, ties to even. A finite value is its sign
  and its exact rational magnitude; an operation computes the exact result and rounds it to the
  nearest multiple of the unit in the last place of its binade. The relative error of a rounding and
  the values that are not rounded at all are what the parsers' properties rest on.
\<close>

datatype f64 = NaN | Infinite bool | Finite bool rat

subsection \<open>Rounding\<close>

function binade_up :: "rat \<Rightarrow> int" where
  "binade_up x = (if x < 2 then 0 else 1 + binade_up (x / 2))"
  by auto
termination
proof (relation "measure (\<lambda>x. nat (ceiling x))", goal_cases)
  case (2 x)
  then have "ceiling (x / 2) \<le> ceiling (x - 1)" by (intro ceiling_mono) (simp add: field_simps)
  moreover have "0 < ceiling x" using 2 by simp
  ultimately show ?case by simp
qed simp

function binade_down :: "rat \<Rightarrow> int" where
  "binade_down x = (if x \<le> 0 \<or> 1 \<le> x then 0 else binade_down (2 * x) - 1)"
  by auto
termination
proof (relation "measure (\<lambda>x. nat (ceiling (1 / x) - 1))", goal_cases)
  case (2 x)
  then have x: "0 < x" "x < 1" by auto
  then have lo: "1 < ceiling (1 / x)" by (simp add: less_ceiling_iff)
  have "ceiling (1 / (2 * x)) < ceiling (1 / x)"
  proof (cases "x \<le> 1 / 2")
    case True
    then have "ceiling (1 / (2 * x)) \<le> ceiling (1 / x - 1)"
      using x by (intro ceiling_mono) (auto simp: field_simps)
    then show ?thesis by simp
  next
    case False
    then have "ceiling (1 / (2 * x)) = 1" using x by (intro ceiling_unique) (auto simp: field_simps)
    with lo show ?thesis by simp
  qed
  with lo show ?case by simp
qed simp

declare binade_up.simps [simp del] binade_down.simps [simp del]

text \<open>The exponent \<open>e\<close> with \<open>2 ^ e \<le> x < 2 ^ (e + 1)\<close>.\<close>

definition binade :: "rat \<Rightarrow> int" where
  "binade x = (if 1 \<le> x then binade_up x else binade_down x)"

definition two_to :: "int \<Rightarrow> rat" where
  "two_to e = (if 0 \<le> e then 2 ^ nat e else 1 / 2 ^ nat (- e))"

definition half_even :: "rat \<Rightarrow> int" where
  "half_even x = (let n = floor x; r = x - of_int n in
     if r < 1 / 2 \<or> r = 1 / 2 \<and> even n then n else n + 1)"

definition unit_of :: "rat \<Rightarrow> rat" where
  "unit_of x = two_to (max (binade x) (- 1022) - 52)"

definition nearest :: "rat \<Rightarrow> rat" where
  "nearest x = (let q = unit_of x in of_int (half_even (x / q)) * q)"

text \<open>The double of an exact result; \<open>z\<close> is the sign of an exact zero.\<close>

definition rounded :: "bool \<Rightarrow> rat \<Rightarrow> f64" where
  "rounded z x = (if x = 0 then Finite z 0
     else let m = nearest \<bar>x\<bar> in if 2 ^ 1024 \<le> m then Infinite (x < 0) else Finite (x < 0) m)"

subsection \<open>Operations\<close>

definition signed_rat :: "bool \<Rightarrow> rat \<Rightarrow> rat" where
  "signed_rat s m = (if s then - m else m)"

fun f64_add :: "f64 \<Rightarrow> f64 \<Rightarrow> f64" where
  "f64_add NaN y = NaN"
| "f64_add x NaN = NaN"
| "f64_add (Infinite s) (Infinite t) = (if s = t then Infinite s else NaN)"
| "f64_add (Infinite s) (Finite t n) = Infinite s"
| "f64_add (Finite s m) (Infinite t) = Infinite t"
| "f64_add (Finite s m) (Finite t n) = rounded (s \<and> t) (signed_rat s m + signed_rat t n)"

fun f64_neg :: "f64 \<Rightarrow> f64" where
  "f64_neg NaN = NaN"
| "f64_neg (Infinite s) = Infinite (\<not> s)"
| "f64_neg (Finite s m) = Finite (\<not> s) m"

definition f64_sub :: "f64 \<Rightarrow> f64 \<Rightarrow> f64" where
  "f64_sub x y = f64_add x (f64_neg y)"

fun f64_mul :: "f64 \<Rightarrow> f64 \<Rightarrow> f64" where
  "f64_mul NaN y = NaN"
| "f64_mul x NaN = NaN"
| "f64_mul (Infinite s) (Infinite t) = Infinite (s \<noteq> t)"
| "f64_mul (Infinite s) (Finite t n) = (if n = 0 then NaN else Infinite (s \<noteq> t))"
| "f64_mul (Finite s m) (Infinite t) = (if m = 0 then NaN else Infinite (s \<noteq> t))"
| "f64_mul (Finite s m) (Finite t n) = rounded (s \<noteq> t) (signed_rat s m * signed_rat t n)"

fun f64_div :: "f64 \<Rightarrow> f64 \<Rightarrow> f64" where
  "f64_div NaN y = NaN"
| "f64_div x NaN = NaN"
| "f64_div (Infinite s) (Infinite t) = NaN"
| "f64_div (Infinite s) (Finite t n) = Infinite (s \<noteq> t)"
| "f64_div (Finite s m) (Infinite t) = Finite (s \<noteq> t) 0"
| "f64_div (Finite s m) (Finite t n) =
     (if n = 0 then if m = 0 then NaN else Infinite (s \<noteq> t)
      else rounded (s \<noteq> t) (signed_rat s m / signed_rat t n))"

fun f64_abs :: "f64 \<Rightarrow> f64" where
  "f64_abs NaN = NaN"
| "f64_abs (Infinite s) = Infinite False"
| "f64_abs (Finite s m) = Finite False m"

text \<open>\<open>round\<close>: halves away from zero; the result needs no rounding of its own.\<close>

fun f64_round :: "f64 \<Rightarrow> f64" where
  "f64_round NaN = NaN"
| "f64_round (Infinite s) = Infinite s"
| "f64_round (Finite s m) = Finite s (of_int (floor (m + 1 / 2)))"

fun is_finite :: "f64 \<Rightarrow> bool" where
  "is_finite (Finite s m) = True"
| "is_finite x = False"

text \<open>\<open>partial_cmp\<close> by the sign of the difference.\<close>

fun f64_cmp :: "f64 \<Rightarrow> f64 \<Rightarrow> int option" where
  "f64_cmp NaN y = None"
| "f64_cmp x NaN = None"
| "f64_cmp (Infinite s) (Infinite t) = Some (if s = t then 0 else if s then - 1 else 1)"
| "f64_cmp (Infinite s) (Finite t n) = Some (if s then - 1 else 1)"
| "f64_cmp (Finite s m) (Infinite t) = Some (if t then 1 else - 1)"
| "f64_cmp (Finite s m) (Finite t n) =
     Some (if signed_rat s m < signed_rat t n then - 1 else if signed_rat s m = signed_rat t n then 0 else 1)"

definition f64_less :: "f64 \<Rightarrow> f64 \<Rightarrow> bool" where
  "f64_less x y = (f64_cmp x y = Some (- 1))"

definition f64_eq :: "f64 \<Rightarrow> f64 \<Rightarrow> bool" where
  "f64_eq x y = (f64_cmp x y = Some 0)"

definition f64_le :: "f64 \<Rightarrow> f64 \<Rightarrow> bool" where
  "f64_le x y = (f64_less x y \<or> f64_eq x y)"

text \<open>\<open>max\<close> and \<open>min\<close> ignore a NaN operand.\<close>

definition f64_max :: "f64 \<Rightarrow> f64 \<Rightarrow> f64" where
  "f64_max x y = (if x = NaN then y else if y = NaN then x else if f64_less x y then y else x)"

definition f64_min :: "f64 \<Rightarrow> f64 \<Rightarrow> f64" where
  "f64_min x y = (if x = NaN then y else if y = NaN then x else if f64_less y x then y else x)"

text \<open>\<open>as u64\<close> truncates and saturates.\<close>

fun f64_as_u64 :: "f64 \<Rightarrow> int" where
  "f64_as_u64 NaN = 0"
| "f64_as_u64 (Infinite s) = (if s then 0 else 2 ^ 64 - 1)"
| "f64_as_u64 (Finite s m) = (if s then 0 else min (floor m) (2 ^ 64 - 1))"

text \<open>A literal of the source, and \<open>as f64\<close> of an integer.\<close>

definition f64_of :: "rat \<Rightarrow> f64" where
  "f64_of x = rounded False x"

definition f64_zero :: f64 where
  "f64_zero = Finite False 0"

lemma f64_of_0 [simp]: "f64_of 0 = f64_zero"
  by (simp add: f64_of_def rounded_def f64_zero_def)


subsection \<open>The error of a rounding\<close>

lemma two_to_powi: "two_to e = 2 powi e"
  by (simp add: two_to_def power_int_def field_simps)

lemma two_to_pos [simp]: "0 < two_to e"
  by (simp add: two_to_powi)

lemma two_to_add: "two_to (a + b) = two_to a * two_to b"
  by (simp add: two_to_powi power_int_add)

lemma binade_up_bounds: "1 \<le> x \<Longrightarrow> 0 \<le> binade_up x \<and> two_to (binade_up x) \<le> x \<and> x < 2 * two_to (binade_up x)"
proof (induction x rule: binade_up.induct)
  case (1 x)
  show ?case
  proof (cases "x < 2")
    case True
    with 1(2) show ?thesis by (simp add: binade_up.simps [of x] two_to_def)
  next
    case False
    have "binade_up x = 1 + binade_up (x / 2)" using False by (simp add: binade_up.simps [of x])
    moreover have "two_to (1 + e) = 2 * two_to e" for e
      using two_to_add [of 1 e] by (simp add: two_to_def [of 1])
    ultimately show ?thesis using 1 False by auto
  qed
qed

lemma binade_down_bounds:
  "0 < x \<Longrightarrow> x < 1 \<Longrightarrow> binade_down x < 0 \<and> two_to (binade_down x) \<le> x \<and> x < 2 * two_to (binade_down x)"
proof (induction x rule: binade_down.induct)
  case (1 x)
  have step: "binade_down x = binade_down (2 * x) - 1" using 1(2,3) by (simp add: binade_down.simps [of x])
  have half: "two_to (e - 1) = two_to e / 2" for e
    using two_to_add [of "e - 1" 1] by (simp add: two_to_def [of 1])
  show ?case
  proof (cases "2 * x < 1")
    case True
    with 1 have "binade_down (2 * x) < 0" "two_to (binade_down (2 * x)) \<le> 2 * x"
      "2 * x < 2 * two_to (binade_down (2 * x))" by simp_all
    then show ?thesis unfolding step half by simp
  next
    case False
    then have "binade_down (2 * x) = 0" by (simp add: binade_down.simps [of "2 * x"])
    with False 1(3) step half [of 0] show ?thesis by (simp add: two_to_def [of 0])
  qed
qed

lemma binade_bounds:
  assumes "0 < x"
  shows "two_to (binade x) \<le> x" and "x < 2 * two_to (binade x)"
  using assms binade_up_bounds [of x] binade_down_bounds [of x] by (auto simp: binade_def)

lemma half_even_error: "\<bar>of_int (half_even x) - x\<bar> \<le> 1 / 2"
proof -
  have "of_int (floor x) \<le> x" "x < of_int (floor x) + 1" by linarith+
  then show ?thesis by (auto simp: half_even_def Let_def abs_le_iff)
qed

lemma half_even_int [simp]: "half_even (of_int n) = n"
  by (simp add: half_even_def)

lemma nearest_unit: "\<bar>nearest x - x\<bar> \<le> unit_of x / 2"
proof -
  let ?q = "unit_of x"
  have q: "0 < ?q" by (simp add: unit_of_def)
  have "nearest x - x = (of_int (half_even (x / ?q)) - x / ?q) * ?q"
    using q by (simp add: nearest_def Let_def field_simps)
  then have "\<bar>nearest x - x\<bar> = \<bar>of_int (half_even (x / ?q)) - x / ?q\<bar> * ?q"
    using q by (simp add: abs_mult)
  also have "\<dots> \<le> 1 / 2 * ?q" using half_even_error [of "x / ?q"] q by (intro mult_right_mono) auto
  finally show ?thesis by simp
qed

lemma nearest_error:
  assumes "two_to (- 1022) \<le> x"
  shows "\<bar>nearest x - x\<bar> \<le> x / 2 ^ 53"
proof -
  let ?q = "unit_of x"
  have pos: "0 < x" using assms two_to_pos [of "- 1022"] by linarith
  have "two_to (max (binade x) (- 1022)) \<le> x" using binade_bounds(1) [OF pos] assms by (simp add: max_def)
  moreover have "two_to (max (binade x) (- 1022)) = ?q * 2 ^ 52"
    unfolding unit_of_def using two_to_add [of "max (binade x) (- 1022) - 52" 52] by (simp add: two_to_def [of 52])
  ultimately have "?q \<le> x / 2 ^ 52" by (simp add: field_simps)
  then show ?thesis using nearest_unit [of x] by simp
qed

lemma nearest_nonneg: "0 \<le> x \<Longrightarrow> 0 \<le> nearest x"
proof -
  assume x: "0 \<le> x"
  have q: "0 < unit_of x" by (simp add: unit_of_def)
  with x have "0 \<le> half_even (x / unit_of x)" by (simp add: half_even_def Let_def)
  with q show ?thesis by (simp add: nearest_def Let_def)
qed

text \<open>Below one the absolute error is small, underflow included.\<close>

lemma nearest_small:
  assumes "0 < x" and "x < 1"
  shows "\<bar>nearest x - x\<bar> \<le> 1 / 4"
proof -
  have "binade x < 0" using assms binade_down_bounds [of x] by (simp add: binade_def)
  then have e: "max (binade x) (- 1022) - 52 < 0" by simp
  then obtain j where j: "nat (- (max (binade x) (- 1022) - 52)) = Suc j"
    by (metis Suc_pred neg_0_less_iff_less zero_less_nat_eq)
  have "unit_of x = 1 / 2 ^ Suc j" using e unfolding unit_of_def two_to_def j [symmetric] by simp
  moreover have "(1::rat) / 2 ^ Suc j \<le> 1 / 2" by (simp add: field_simps)
  ultimately have "unit_of x \<le> 1 / 2" by simp
  with nearest_unit [of x] show ?thesis by linarith
qed

lemma nearest_multiple:
  assumes "x = of_int n * unit_of x"
  shows "nearest x = x"
proof -
  have "0 < unit_of x" by (simp add: unit_of_def)
  with assms have "x / unit_of x = of_int n" by (simp add: field_simps)
  with assms show ?thesis by (simp add: nearest_def Let_def)
qed

text \<open>Whole numbers up to \<open>2 ^ 53\<close> are doubles.\<close>

lemma nearest_int:
  assumes "0 < n" and "n \<le> 2 ^ 53"
  shows "nearest (of_int n) = of_int n"
proof -
  let ?x = "of_int n :: rat" let ?e = "binade ?x"
  have one: "1 \<le> ?x" using assms(1) by simp
  have e: "0 \<le> ?e" "two_to ?e \<le> ?x" "?x < 2 * two_to ?e"
    using binade_up_bounds [OF one] one by (simp_all add: binade_def)
  have unit: "unit_of ?x = two_to (?e - 52)" using e(1) by (simp add: unit_of_def max_def)
  have le: "?e \<le> 53"
  proof (rule ccontr)
    assume "\<not> ?e \<le> 53"
    then have "(2::rat) ^ 54 \<le> 2 ^ nat ?e" by (intro power_increasing) auto
    moreover have "?x \<le> 2 ^ 53" using assms(2) by (metis of_int_le_iff of_int_numeral of_int_power)
    moreover have "2 ^ nat ?e \<le> ?x" using e(1,2) by (simp add: two_to_def)
    ultimately have "(2::rat) ^ 54 \<le> 2 ^ 53" by linarith
    then show False by simp
  qed
  have "\<exists>m::int. ?x = of_int m * two_to (?e - 52)"
  proof (cases "?e = 53")
    case True
    have "(2::rat) ^ 53 \<le> ?x" using e True by (simp add: two_to_def)
    then have "n = 2 ^ 53" using assms(2) by (metis antisym of_int_le_iff of_int_numeral of_int_power)
    with True show ?thesis by (intro exI [of _ "2 ^ 52"]) (simp add: two_to_def)
  next
    case False
    then have "two_to (52 - ?e) = 2 ^ nat (52 - ?e)" "two_to (52 - ?e) * two_to (?e - 52) = 1"
      using le two_to_add [of "52 - ?e" "?e - 52"] by (simp_all add: two_to_def)
    then show ?thesis by (intro exI [of _ "n * 2 ^ nat (52 - ?e)"]) (simp add: mult.assoc)
  qed
  then obtain m :: int where "?x = of_int m * unit_of ?x" unfolding unit by blast
  then show ?thesis by (rule nearest_multiple)
qed

text \<open>Ordinary numbers: away from underflow and overflow.\<close>

lemma rounded_ordinary:
  assumes "two_to (- 1022) \<le> \<bar>x\<bar>" and "\<bar>x\<bar> \<le> 2 ^ 1000"
  shows "rounded z x = Finite (x < 0) (nearest \<bar>x\<bar>)"
proof -
  have "\<bar>x\<bar> / 2 ^ 53 \<le> \<bar>x\<bar>" by (simp add: field_simps)
  then have "nearest \<bar>x\<bar> \<le> 2 * \<bar>x\<bar>" using nearest_error [OF assms(1)] by linarith
  also have "\<dots> \<le> 2 ^ Suc 1000" using assms(2) unfolding power_Suc by linarith
  also have "\<dots> < 2 ^ 1024" by (intro power_strict_increasing) simp_all
  finally have "nearest \<bar>x\<bar> < 2 ^ 1024" .
  moreover have "x \<noteq> 0" using assms(1) two_to_pos by (metis abs_zero leD)
  ultimately show ?thesis by (simp add: rounded_def Let_def)
qed

end
