(* ===== verification/FloatText.thy ===== *)
theory FloatText
  imports Float64
begin

text \<open>
  Doubles and text: \<open>parse::<f64>()\<close> with the grammar of the standard library's documentation, and
  the \<open>{:.k}\<close> form of a double.
\<close>

fun read_sign :: "chars \<Rightarrow> bool \<times> chars" where
  "read_sign [] = (False, [])"
| "read_sign (c # s) = (if c = 43 then (False, s) else if c = 45 then (True, s) else (False, c # s))"

text \<open>An exponent: nothing, or \<open>e\<close>, an optional sign and digits.\<close>

definition read_exponent :: "chars \<Rightarrow> int option" where
  "read_exponent s =
    (case s of
       [] \<Rightarrow> Some 0
     | c # t \<Rightarrow>
        let (negative, d) = read_sign t in
        if (c = 101 \<or> c = 69) \<and> ascii_digits d
        then Some (if negative then - dec_value d else dec_value d) else None)"

definition read_number :: "chars \<Rightarrow> rat option" where
  "read_number s =
    (let whole = takeWhile ascii_digit s; rest = dropWhile ascii_digit s;
         point = (case rest of c # t \<Rightarrow> c = 46 | [] \<Rightarrow> False);
         frac = (if point then takeWhile ascii_digit (tl rest) else []);
         tail = (if point then dropWhile ascii_digit (tl rest) else rest) in
     if whole = [] \<and> frac = [] then None
     else map_option (\<lambda>e. of_int (dec_value (whole @ frac)) * 10 powi (e - int (length frac))) (read_exponent tail))"

definition with_sign :: "bool \<Rightarrow> f64 \<Rightarrow> f64" where
  "with_sign s x = (if s then f64_neg x else x)"

definition parse_f64 :: "chars \<Rightarrow> f64 option" where
  "parse_f64 raw =
    (let (negative, s) = read_sign raw in
     if eq_ignore_ascii_case s (lit ''inf'') \<or> eq_ignore_ascii_case s (lit ''infinity'') then Some (Infinite negative)
     else if eq_ignore_ascii_case s (lit ''nan'') then Some NaN
     else map_option (\<lambda>q. with_sign negative (rounded False q)) (read_number s))"

definition zero_padded :: "nat \<Rightarrow> chars \<Rightarrow> chars" where
  "zero_padded k s = replicate (k - length s) 48 @ s"

definition format_fixed :: "nat \<Rightarrow> f64 \<Rightarrow> chars" where
  "format_fixed k x =
    (case x of
       NaN \<Rightarrow> lit ''NaN''
     | Infinite s \<Rightarrow> (if s then lit ''-inf'' else lit ''inf'')
     | Finite s m \<Rightarrow>
        let n = half_even (m * 10 ^ k) in
        (if s then [45] else []) @ dec (n div 10 ^ k)
          @ (if k = 0 then [] else 46 # zero_padded k (dec (n mod 10 ^ k))))"

lemma takeWhile_digits [simp]:
  assumes "list_all ascii_digit s"
  shows "takeWhile ascii_digit (s @ t) = s @ takeWhile ascii_digit t"
    and "dropWhile ascii_digit (s @ t) = dropWhile ascii_digit t"
    and "takeWhile ascii_digit s = s" and "dropWhile ascii_digit s = []"
  using assms by (simp_all add: list_all_iff)

lemma point_not_digit [simp]: "\<not> ascii_digit 46"
  by (simp add: ascii_digit_def)

text \<open>Digits, a point and digits.\<close>

lemma read_decimal:
  assumes "list_all ascii_digit a" and "a \<noteq> []" and "list_all ascii_digit b"
  shows "read_number (a @ 46 # b) = Some (of_int (dec_value (a @ b)) / 10 ^ length b)"
    and "read_number a = Some (of_int (dec_value a))"
  using assms by (simp_all add: read_number_def read_exponent_def Let_def power_int_minus field_simps)

lemma number_not_word:
  assumes "s \<noteq> []" and "ascii_digit (hd s)"
  shows "\<not> eq_ignore_ascii_case s (lit ''inf'')" and "\<not> eq_ignore_ascii_case s (lit ''infinity'')"
    and "\<not> eq_ignore_ascii_case s (lit ''nan'')"
  using assms
  by (cases s; auto simp: eq_ignore_ascii_case_def to_ascii_lower_def ascii_upper_def ascii_digit_def)+

lemma parse_decimal:
  assumes "list_all ascii_digit a" and "a \<noteq> []" and "list_all ascii_digit b"
  shows "parse_f64 ((if negative then [45] else []) @ a @ 46 # b)
    = Some (with_sign negative (rounded False (of_int (dec_value (a @ b)) / 10 ^ length b)))"
proof -
  obtain c a' where a: "a = c # a'" "ascii_digit c" using assms(1,2) by (cases a) simp_all
  then have "read_sign ((if negative then [45] else []) @ a @ 46 # b) = (negative, a @ 46 # b)"
    by (simp add: ascii_digit_def)
  moreover have "hd (a @ 46 # b) = c" using a by simp
  ultimately show ?thesis
    using read_decimal(1) [OF assms] number_not_word [of "a @ 46 # b"] a(2)
    by (simp add: parse_f64_def)
qed

end
