(* ===== verification/Patterns.thy ===== *)
theory Patterns
  imports Text
begin

text \<open>
  The regular expressions the parsers are written with. A pattern is a term whose shape is that of
  the source's pattern; \<open>runs\<close> lists the ways it can match at a position in the order of preference
  the regex crate documents (the leftmost match, and among those at one position the one a
  backtracking matcher would find first), and \<open>find_match\<close> takes the first. A state is the text before the
  position (last character first), the text after it and the groups captured so far.
\<close>

datatype rx =
    Chr "int \<Rightarrow> bool"
  | Emp
  | Cat rx rx
  | Alt rx rx
  | Many rx
  | Grp nat rx
  | AtStart
  | AtEnd
  | Edge "int \<Rightarrow> bool"

type_synonym rx_state = "chars \<times> chars \<times> (nat \<times> chars) list"

fun star_runs :: "(rx_state \<Rightarrow> rx_state list) \<Rightarrow> nat \<Rightarrow> rx_state \<Rightarrow> rx_state list" where
  "star_runs f 0 st = [st]"
| "star_runs f (Suc n) st =
    concat (map (\<lambda>st'. if length (fst (snd st')) < length (fst (snd st)) then star_runs f n st' else []) (f st))
    @ [st]"

definition at_edge :: "(int \<Rightarrow> bool) \<Rightarrow> chars \<Rightarrow> chars \<Rightarrow> bool" where
  "at_edge word pre rest \<longleftrightarrow>
    (case pre of [] \<Rightarrow> False | c # _ \<Rightarrow> word c) \<noteq> (case rest of [] \<Rightarrow> False | c # _ \<Rightarrow> word c)"

primrec runs :: "rx \<Rightarrow> rx_state \<Rightarrow> rx_state list" where
  "runs (Chr p) = (\<lambda>(pre, rest, caps).
     case rest of [] \<Rightarrow> [] | c # s \<Rightarrow> if p c then [(c # pre, s, caps)] else [])"
| "runs Emp = (\<lambda>st. [st])"
| "runs (Cat r1 r2) = (\<lambda>st. concat (map (runs r2) (runs r1 st)))"
| "runs (Alt r1 r2) = (\<lambda>st. runs r1 st @ runs r2 st)"
| "runs (Many r) = (\<lambda>st. star_runs (runs r) (length (fst (snd st))) st)"
| "runs (Grp k r) = (\<lambda>(pre, rest, caps).
     map (\<lambda>(pre', rest', caps'). (pre', rest', (k, take (length rest - length rest') rest) # caps'))
       (runs r (pre, rest, caps)))"
| "runs AtStart = (\<lambda>(pre, rest, caps). if pre = [] then [(pre, rest, caps)] else [])"
| "runs AtEnd = (\<lambda>(pre, rest, caps). if rest = [] then [(pre, rest, caps)] else [])"
| "runs (Edge word) = (\<lambda>(pre, rest, caps). if at_edge word pre rest then [(pre, rest, caps)] else [])"

text \<open>Derived forms: \<open>r+\<close>, \<open>r?\<close>, \<open>r{n}\<close>, \<open>r{m,n}\<close>, \<open>r{n,}\<close>, a sequence, a literal, a literal under \<open>(?i)\<close>.\<close>

definition Some1 :: "rx \<Rightarrow> rx" where
  "Some1 r = Cat r (Many r)"

definition Opt :: "rx \<Rightarrow> rx" where
  "Opt r = Alt r Emp"

fun Rep :: "nat \<Rightarrow> rx \<Rightarrow> rx" where
  "Rep 0 r = Emp"
| "Rep (Suc n) r = Cat r (Rep n r)"

fun UpTo :: "nat \<Rightarrow> rx \<Rightarrow> rx" where
  "UpTo 0 r = Emp"
| "UpTo (Suc n) r = Opt (Cat r (UpTo n r))"

definition Between :: "nat \<Rightarrow> nat \<Rightarrow> rx \<Rightarrow> rx" where
  "Between m n r = Cat (Rep m r) (UpTo (n - m) r)"

definition AtLeast :: "nat \<Rightarrow> rx \<Rightarrow> rx" where
  "AtLeast n r = Cat (Rep n r) (Many r)"

fun Cats :: "rx list \<Rightarrow> rx" where
  "Cats [] = Emp"
| "Cats [r] = r"
| "Cats (r # s # rs) = Cat r (Cats (s # rs))"

fun Alts :: "rx list \<Rightarrow> rx" where
  "Alts [] = Chr (\<lambda>_. False)"
| "Alts [r] = r"
| "Alts (r # s # rs) = Alt r (Alts (s # rs))"

definition Is :: "char \<Rightarrow> rx" where
  "Is c = Chr (\<lambda>x. x = of_char c)"

definition AnyOf :: "string \<Rightarrow> rx" where
  "AnyOf cs = Chr (\<lambda>x. x \<in> set (lit cs))"

definition Lits :: "string \<Rightarrow> rx" where
  "Lits cs = Cats (map Is cs)"

text \<open>Two characters outside ASCII fold onto ASCII letters: the long s and the Kelvin sign.\<close>

definition fold_case :: "int \<Rightarrow> int" where
  "fold_case x = (if x = 0x17F then 115 else if x = 0x212A then 107 else to_ascii_lower x)"

definition LitsI :: "string \<Rightarrow> rx" where
  "LitsI cs = Cats (map (\<lambda>c. Chr (\<lambda>x. fold_case x = to_ascii_lower (of_char c))) cs)"

text \<open>\<open>.\<close> is any character but the line feed.\<close>

definition Dot :: rx where
  "Dot = Chr (\<lambda>x. x \<noteq> 10)"

definition Blank :: rx where
  "Blank = Chr white"

text \<open>\<open>\b\<close> and \<open>\d\<close>.\<close>

definition Word :: "unicode \<Rightarrow> rx" where
  "Word U = Edge (uni_word U)"

definition Digit :: "unicode \<Rightarrow> rx" where
  "Digit U = Chr (uni_digit U)"

text \<open>A match: the text before it, its own text, the text after it, and its groups.\<close>

type_synonym rx_match = "chars \<times> chars \<times> chars \<times> (nat \<times> chars) list"

fun find_match :: "rx \<Rightarrow> chars \<Rightarrow> chars \<Rightarrow> rx_match option" where
  "find_match r pre [] =
    (case runs r (pre, [], []) of (_, rest, caps) # _ \<Rightarrow> Some (rev pre, [], rest, caps) | [] \<Rightarrow> None)"
| "find_match r pre (c # s) =
    (case runs r (pre, c # s, []) of
       (_, rest, caps) # _ \<Rightarrow> Some (rev pre, take (Suc (length s) - length rest) (c # s), rest, caps)
     | [] \<Rightarrow> find_match r (c # pre) s)"

definition is_match :: "rx \<Rightarrow> chars \<Rightarrow> bool" where
  "is_match r s \<longleftrightarrow> find_match r [] s \<noteq> None"

definition captures :: "rx \<Rightarrow> chars \<Rightarrow> (nat \<Rightarrow> chars option) option" where
  "captures r s = map_option (\<lambda>(_, _, _, caps). map_of caps) (find_match r [] s)"

text \<open>\<open>replace\<close>: the first match only.\<close>

definition replace_first :: "rx \<Rightarrow> ((nat \<Rightarrow> chars option) \<Rightarrow> chars) \<Rightarrow> chars \<Rightarrow> chars" where
  "replace_first r by_caps s =
    (case find_match r [] s of
       None \<Rightarrow> s
     | Some (front, _, rest, caps) \<Rightarrow> front @ by_caps (map_of caps) @ rest)"

text \<open>
  \<open>find_iter\<close> of a pattern that matches no empty text: the text before each match with the match, and the
  text after the last one. Every match is a character at least, so the length of the text is fuel enough.
\<close>

fun pieces :: "rx \<Rightarrow> nat \<Rightarrow> chars \<Rightarrow> chars \<Rightarrow> (chars \<times> chars) list \<times> chars" where
  "pieces r 0 pre s = ([], s)"
| "pieces r (Suc n) pre s =
    (case find_match r pre s of
       None \<Rightarrow> ([], s)
     | Some (front, m, rest, _) \<Rightarrow>
        let (found, tail) = pieces r n (rev (front @ m)) rest in ((drop (length pre) front, m) # found, tail))"

definition find_pieces :: "rx \<Rightarrow> chars \<Rightarrow> (chars \<times> chars) list \<times> chars" where
  "find_pieces r s = pieces r (length s) [] s"

text \<open>\<open>captures_iter\<close> of a pattern that matches no empty text.\<close>

fun captures_from :: "rx \<Rightarrow> nat \<Rightarrow> chars \<Rightarrow> chars \<Rightarrow> (nat \<Rightarrow> chars option) list" where
  "captures_from r 0 pre s = []"
| "captures_from r (Suc n) pre s =
    (case find_match r pre s of
       None \<Rightarrow> []
     | Some (front, m, rest, caps) \<Rightarrow> map_of caps # captures_from r n (rev (front @ m)) rest)"

definition captures_iter :: "rx \<Rightarrow> chars \<Rightarrow> (nat \<Rightarrow> chars option) list" where
  "captures_iter r s = captures_from r (length s) [] s"

definition cap_text :: "(nat \<Rightarrow> chars option) \<Rightarrow> nat \<Rightarrow> chars" where
  "cap_text g k = (case g k of Some s \<Rightarrow> s | None \<Rightarrow> [])"

text \<open>\<open>replace_all\<close> by a space.\<close>

definition blank_out :: "rx \<Rightarrow> chars \<Rightarrow> chars" where
  "blank_out r s = (let (found, tail) = find_pieces r s in concat (map (\<lambda>(before, _). before @ [32]) found) @ tail)"

subsection \<open>What a match is\<close>

text \<open>A match consumes a prefix of the text, and only characters that the pattern's classes allow.\<close>

primrec inside :: "(int \<Rightarrow> bool) \<Rightarrow> rx \<Rightarrow> bool" where
  "inside p (Chr q) = (\<forall>x. q x \<longrightarrow> p x)"
| "inside p Emp = True"
| "inside p (Cat r1 r2) = (inside p r1 \<and> inside p r2)"
| "inside p (Alt r1 r2) = (inside p r1 \<and> inside p r2)"
| "inside p (Many r) = inside p r"
| "inside p (Grp k r) = inside p r"
| "inside p AtStart = True"
| "inside p AtEnd = True"
| "inside p (Edge word) = True"

lemma inside_True [simp]: "inside (\<lambda>_. True) r"
  by (induction r) simp_all

definition consumes :: "(int \<Rightarrow> bool) \<Rightarrow> rx_state \<Rightarrow> rx_state \<Rightarrow> bool" where
  "consumes p st st' \<longleftrightarrow>
    (\<exists>u. fst (snd st) = u @ fst (snd st') \<and> fst st' = rev u @ fst st \<and> list_all p u)"

lemma consumes_refl [simp]: "consumes p st st"
  by (simp add: consumes_def)

lemma consumes_trans: "consumes p a b \<Longrightarrow> consumes p b c \<Longrightarrow> consumes p a c"
  unfolding consumes_def
proof (elim exE conjE)
  fix u v
  assume "fst (snd a) = u @ fst (snd b)" "fst b = rev u @ fst a" "list_all p u"
    "fst (snd b) = v @ fst (snd c)" "fst c = rev v @ fst b" "list_all p v"
  then show "\<exists>u. fst (snd a) = u @ fst (snd c) \<and> fst c = rev u @ fst a \<and> list_all p u"
    by (intro exI [of _ "u @ v"]) simp
qed

lemma star_runs_consume:
  assumes "\<And>st st'. st' \<in> set (f st) \<Longrightarrow> consumes p st st'"
  shows "st' \<in> set (star_runs f n st) \<Longrightarrow> consumes p st st'"
proof (induction n arbitrary: st)
  case (Suc n)
  then show ?case by (auto split: if_splits intro: consumes_trans assms)
qed simp

lemma runs_consume: "inside p r \<Longrightarrow> st' \<in> set (runs r st) \<Longrightarrow> consumes p st st'"
proof (induction r arbitrary: st st')
  case (Chr q)
  then obtain pre c s caps where "st = (pre, c # s, caps)" "st' = (c # pre, s, caps)" "q c"
    by (cases st; cases "fst (snd st)") (auto split: if_splits)
  with Chr show ?case by (auto simp: consumes_def intro: exI [of _ "[c]"])
next
  case (Cat r1 r2)
  then obtain mid where "mid \<in> set (runs r1 st)" "st' \<in> set (runs r2 mid)"
    by (auto simp del: split_paired_Ex)
  with Cat have "consumes p st mid" "consumes p mid st'" by simp_all
  then show ?case by (rule consumes_trans)
next
  case (Many r)
  then show ?case by (auto intro: star_runs_consume [of "runs r"])
next
  case (Grp k r)
  obtain pre rest caps where st: "st = (pre, rest, caps)" by (cases st)
  with Grp.prems obtain caps' where "(fst st', fst (snd st'), caps') \<in> set (runs r st)" by auto
  with Grp have "consumes p st (fst st', fst (snd st'), caps')" by simp
  then show ?case by (simp add: consumes_def)
qed (auto split: if_splits)

lemma runs_suffix:
  assumes "(pre', rest', caps') \<in> set (runs r (pre, rest, caps))"
  shows "\<exists>u. rest = u @ rest' \<and> pre' = rev u @ pre"
  using runs_consume [OF inside_True assms] by (auto simp: consumes_def)

lemma find_match_parts:
  assumes "find_match r pre s = Some (front, m, rest, caps)"
  shows "front @ m @ rest = rev pre @ s"
  using assms
proof (induction s arbitrary: pre)
  case Nil
  then obtain p q k sts where run: "runs r (pre, [], []) = (p, q, k) # sts"
    and parts: "front = rev pre" "m = []" "rest = q"
    by (auto split: list.splits)
  then have "(p, q, k) \<in> set (runs r (pre, [], []))" by simp
  then have "q = []" using runs_suffix by blast
  with parts show ?case by simp
next
  case (Cons c s)
  note prems = Cons.prems and IH = Cons.IH
  show ?case
  proof (cases "runs r (pre, c # s, [])")
    case Nil
    with prems IH [of "c # pre"] show ?thesis by simp
  next
    case (Cons st sts)
    obtain p q k where st: "st = (p, q, k)" by (cases st)
    have "(p, q, k) \<in> set (runs r (pre, c # s, []))" using Cons st by simp
    then obtain u where u: "c # s = u @ q" using runs_suffix by blast
    then have "take (Suc (length s) - length q) (c # s) = u"
      by (metis add_diff_cancel_right' append_eq_conv_conj length_Cons length_append)
    moreover have "rev pre = front \<and> take (Suc (length s) - length q) (c # s) = m \<and> q = rest"
      using prems unfolding find_match.simps Cons st list.case prod.case option.inject prod.inject by blast
    ultimately show ?thesis using u by metis
  qed
qed

text \<open>A pattern that matches nowhere.\<close>

lemma find_match_None:
  assumes "\<And>u v. s = u @ v \<Longrightarrow> runs r (rev u @ pre, v, []) = []"
  shows "find_match r pre s = None"
  using assms
proof (induction s arbitrary: pre)
  case Nil
  from Nil [of "[]" "[]"] show ?case by simp
next
  case (Cons c s)
  have "find_match r (c # pre) s = None"
  proof (rule Cons.IH)
    fix u v assume "s = u @ v"
    with Cons.prems [of "c # u" v] show "runs r (rev u @ c # pre, v, []) = []" by simp
  qed
  with Cons.prems [of "[]" "c # s"] show ?case by simp
qed

lemma replace_first_none: "find_match r [] s = None \<Longrightarrow> replace_first r f s = s"
  by (simp add: replace_first_def)

text \<open>A pattern that starts with \<open>^\<close> is tried at the start only.\<close>

lemma find_anchored:
  "find_match (Cat AtStart r) [] s =
    (case runs r ([], s, []) of
       [] \<Rightarrow> None
     | (_, rest, caps) # _ \<Rightarrow> Some ([], take (length s - length rest) s, rest, caps))"
proof -
  have later: "find_match (Cat AtStart r) (c # pre) t = None" for c pre t
    by (rule find_match_None) simp
  show ?thesis
  proof (cases s)
    case Nil
    then show ?thesis by (simp split: list.split)
  next
    case (Cons c t)
    then show ?thesis by (simp add: later split: list.split)
  qed
qed

end
