(* ===== verification/AmountParser.thy ===== *)
theory AmountParser
  imports FloatText Patterns
begin

text \<open>
  \<open>src/parser/amount_parser.rs\<close>: reading a monetary amount from a cell of a statement, and printing
  one in the Indian grouping of lakhs and crores.
\<close>

subsection \<open>Reading\<close>

definition re_ref_id :: "unicode \<Rightarrow> rx" where
  "re_ref_id U = Cats [AtStart, AtLeast 10 (Chr (uni_digit U)), AtEnd]"

definition re_cr_dr_suffix :: "unicode \<Rightarrow> rx" where
  "re_cr_dr_suffix U = Cats [Many Blank, Grp 1 (Alts [LitsI ''CR'', LitsI ''DR'']), Edge (uni_word U), Many Dot, AtEnd]"

definition re_rs_prefix :: rx where
  "re_rs_prefix = Cats [AtStart, LitsI ''Rs'', Opt (Is CHR ''.'')]"

definition re_negative_parens :: rx where
  "re_negative_parens = Cats [Is CHR ''('', Grp 1 (Some1 (Chr (\<lambda>x. x \<noteq> of_char CHR '')''))), Is CHR '')'']"

definition max_amount :: f64 where
  "max_amount = f64_of 2000000000"

datatype cell_value = CellEmpty | CellNumber f64 | CellText chars

definition round2 :: "f64 \<Rightarrow> f64" where
  "round2 f = f64_div (f64_round (f64_mul f (f64_of 100))) (f64_of 100)"

definition parse_float :: "f64 \<Rightarrow> f64 option" where
  "parse_float f =
    (if \<not> is_finite f \<or> f64_eq f f64_zero then None
     else if f64_less max_amount (f64_abs f) then None
     else Some (round2 f))"

text \<open>The loop that drops at most two stray characters at the end.\<close>

fun strip_junk :: "nat \<Rightarrow> chars \<Rightarrow> chars" where
  "strip_junk 0 s = s"
| "strip_junk (Suc n) s =
    (if parse_f64 s = None \<and> s \<noteq> [] \<and> \<not> ascii_digit (last s) then strip_junk n (butlast s) else s)"

definition too_many_decimals :: "chars \<Rightarrow> bool" where
  "too_many_decimals s \<longleftrightarrow>
    (case dropWhile (\<lambda>c. c \<noteq> 46) s of [] \<Rightarrow> False | _ # places \<Rightarrow> 2 < byte_len places)"

definition accept_number :: "chars \<Rightarrow> f64 option" where
  "accept_number s =
    (if 10 < length (filter ascii_digit s) then None
     else if too_many_decimals s then None
     else case parse_f64 s of
       None \<Rightarrow> None
     | Some n \<Rightarrow>
        if f64_eq n f64_zero then None
        else if f64_less max_amount (f64_abs n) then None
        else Some (round2 n))"

text \<open>Steps 1 to 6: the text with currency signs, separators and sign conventions removed.\<close>

definition cleaned_amount :: "unicode \<Rightarrow> chars \<Rightarrow> chars" where
  "cleaned_amount U s =
    (let s1 = replace_first (re_cr_dr_suffix U) (\<lambda>_. []) s;
         s2 = filter (\<lambda>c. c \<noteq> 0x20B9 \<and> \<not> white c) s1;
         s3 = replace_first re_rs_prefix (\<lambda>_. []) s2;
         s4 = filter (\<lambda>c. c \<noteq> 44) s3;
         s5 = (if has_prefix (lit ''(-)'') s4 then 45 # drop 3 s4 else s4);
         s6 = replace_first re_negative_parens (\<lambda>caps. 45 # the (caps 1)) s5 in
     trimmed s6)"

definition parse_str :: "unicode \<Rightarrow> chars \<Rightarrow> f64 option" where
  "parse_str U raw =
    (let s = trimmed raw in
     if is_match (re_ref_id U) s then None
     else let t = cleaned_amount U s in
       if t = [] \<or> t = [45] then None
       else if eq_ignore_ascii_case t (lit ''nil'') \<or> eq_ignore_ascii_case t (lit ''n/a'') then None
       else accept_number (strip_junk 2 t))"

definition parse_amount :: "unicode \<Rightarrow> cell_value \<Rightarrow> f64 option" where
  "parse_amount U v = (case v of
     CellEmpty \<Rightarrow> None | CellNumber f \<Rightarrow> parse_float f | CellText s \<Rightarrow> parse_str U s)"

definition parse_amount_str :: "unicode \<Rightarrow> chars \<Rightarrow> f64 option" where
  "parse_amount_str U s = (if trimmed s = [] then None else parse_str U s)"

text \<open>\<open>CellValue::from\<close> of a text.\<close>

definition cell_of_text :: "chars \<Rightarrow> cell_value" where
  "cell_of_text s = (if trimmed s = [] then CellEmpty else CellText s)"

subsection \<open>Printing\<close>

text \<open>Pairs of digits are cut off from the right until nothing is left.\<close>

function cut_pairs :: "chars \<Rightarrow> chars list \<Rightarrow> chars list" where
  "cut_pairs rest groups =
    (if rest = [] then groups
     else let start = length rest - min (length rest) 2 in
       cut_pairs (take start rest) (groups @ [drop start rest]))"
  by auto
termination
  by (relation "measure (\<lambda>(rest, _). length rest)") (auto simp: min_def length_greater_0_conv [symmetric] simp del: length_greater_0_conv)

declare cut_pairs.simps [simp del]

definition format_indian_int :: "int \<Rightarrow> chars" where
  "format_indian_int n =
    (if n = 0 then lit ''0''
     else let s = dec n; len = length s in
       if len \<le> 3 then s
       else join_with [44] (rev (cut_pairs (take (len - 3) s) [drop (len - 3) s])))"

definition format_indian :: "f64 \<Rightarrow> chars" where
  "format_indian v =
    (let paise = f64_as_u64 (f64_round (f64_mul (f64_abs v) (f64_of 100))) in
     (if f64_less v f64_zero then [45] else []) @ format_indian_int (paise div 100)
       @ 46 # zero_padded 2 (dec (paise mod 100)))"

definition fmt_amount :: "f64 option \<Rightarrow> chars" where
  "fmt_amount val = (case val of None \<Rightarrow> [] | Some v \<Rightarrow> format_indian v)"

end
