(* ===== verification/AmountFacts.thy ===== *)
theory AmountFacts
  imports AmountParser
begin

text \<open>
  What is read and printed of a monetary amount. An amount is the double nearest to a number of
  paise; rounding to two places leaves it alone, and reading what was printed gives it back, up to
  the parser's limit of ten digits.
\<close>

subsection \<open>Doubles of paise\<close>

definition amount :: "bool \<Rightarrow> int \<Rightarrow> f64" where
  "amount s n = Finite s (if n = 0 then 0 else nearest (of_int n / 100))"

lemma tiny [simp]: "two_to (- 1022) \<le> 1 / 100"
proof -
  have "(2::rat) ^ 7 \<le> 2 ^ 1022" by (intro power_increasing) simp_all
  then show ?thesis by (simp add: two_to_def field_simps)
qed

lemma big: "x \<le> 10 ^ 20 \<Longrightarrow> x \<le> (2::rat) ^ 1000"
proof -
  have "(10::rat) ^ 20 \<le> 2 ^ 70" by simp
  also have "\<dots> \<le> (2::rat) ^ 1000" by (intro power_increasing) simp_all
  finally show "x \<le> 10 ^ 20 \<Longrightarrow> x \<le> (2::rat) ^ 1000" by linarith
qed

lemma rounded_plain:
  assumes "1 / 100 \<le> x" and "x \<le> 10 ^ 20"
  shows "rounded z (signed_rat s x) = Finite s (nearest x)"
proof -
  have "\<bar>signed_rat s x\<bar> = x" "signed_rat s x < 0 \<longleftrightarrow> s" using assms(1) by (auto simp: signed_rat_def)
  with rounded_ordinary [of "signed_rat s x" z] assms big [OF assms(2)] order_trans [OF tiny]
  show ?thesis by simp
qed

lemma nearest_close:
  assumes "1 / 100 \<le> x"
  shows "\<bar>nearest x - x\<bar> \<le> x / 2 ^ 53"
  using nearest_error [of x] order_trans [OF tiny assms] by simp

lemma close_rounded:
  assumes "1 / 100 \<le> x" and "x \<le> 100"
  shows "\<exists>m. rounded False x = Finite False m \<and> \<bar>m - x\<bar> \<le> 1 / 10000"
proof -
  have "signed_rat False x = x" "x \<le> 10 ^ 20" using assms by (simp_all add: signed_rat_def)
  then have "rounded False x = Finite False (nearest x)" using rounded_plain [OF assms(1), of False False] by simp
  moreover have "x / 2 ^ 53 \<le> 1 / 10000" using assms by (simp add: field_simps)
  ultimately show ?thesis using nearest_close [OF assms(1)] by auto
qed

lemma f64_of_close:
  assumes "1 / 100 \<le> x" and "x \<le> 100"
  obtains m where "f64_of x = Finite False m" and "\<bar>m - x\<bar> \<le> 1 / 10000"
  using close_rounded [OF assms] by (auto simp: f64_of_def)

lemma f64_of_int:
  assumes "0 < n" and "n \<le> 2 ^ 53"
  shows "f64_of (of_int n) = Finite False (of_int n)"
proof -
  have "of_int n \<le> (2 ^ 53 :: rat)" using assms(2) by (metis of_int_le_iff of_int_numeral of_int_power)
  then have "of_int n \<le> (10 ^ 20 :: rat)" by (rule order_trans) simp
  with rounded_plain [of "of_int n" False False] nearest_int [OF assms] assms(1) show ?thesis
    by (simp add: f64_of_def signed_rat_def order_trans [of _ 1])
qed

lemma f64_of_numerals [simp]:
  "f64_of 100 = Finite False 100" "f64_of 2000000000 = Finite False 2000000000"
  using f64_of_int [of 100] f64_of_int [of 2000000000] by simp_all

lemma max_amount_value [simp]: "max_amount = Finite False 2000000000"
  by (simp add: max_amount_def)

lemma floor_half [simp]: "floor (1 / 2 :: rat) = 0"
  by (rule floor_unique) simp_all

text \<open>An amount times a hundred is less than half a paisa off.\<close>

lemma paise_of_amount:
  assumes "0 \<le> n" and "n \<le> 10 ^ 12"
  shows "f64_round (f64_mul (amount s n) (f64_of 100)) = Finite s (of_int n)"
proof (cases "n = 0")
  case True
  then show ?thesis by (simp add: amount_def rounded_def signed_rat_def)
next
  case False
  let ?q = "of_int n :: rat" let ?v = "nearest (?q / 100)" let ?e = "?q / 2 ^ 53"
  have n: "1 \<le> ?q" "?q \<le> 10 ^ 12" using assms False by (simp_all add: order_trans [of _ "of_int (10 ^ 12)"])
  then have e: "?e \<le> 1 / 8" "0 \<le> ?e" by (simp_all add: field_simps)
  have "\<bar>?v - ?q / 100\<bar> \<le> ?q / 100 / 2 ^ 53" using nearest_close [of "?q / 100"] n by simp
  then have v: "\<bar>?v * 100 - ?q\<bar> \<le> ?e" by (simp add: abs_le_iff field_simps)
  have b: "?v * 100 \<le> 2 * ?q" "1 / 100 \<le> ?v * 100" using v n e by linarith+
  have "?v * 100 \<le> 10 ^ 20" using b(1) n(2) by simp
  moreover have "\<bar>nearest (?v * 100) - ?v * 100\<bar> \<le> ?v * 100 / 2 ^ 53" by (rule nearest_close [OF b(2)])
  moreover have "?v * 100 / 2 ^ 53 \<le> 2 * ?e" using b(1) by (simp add: field_simps)
  ultimately have "\<bar>nearest (?v * 100) - ?q\<bar> < 1 / 2" using v e by linarith
  then have "floor (nearest (?v * 100) + 1 / 2) = n" by (intro floor_unique) linarith+
  moreover have "f64_mul (amount s n) (f64_of 100) = Finite s (nearest (?v * 100))"
    using rounded_plain [OF b(2), of s s] \<open>?v * 100 \<le> 10 ^ 20\<close> False
    by (cases s) (simp_all add: amount_def signed_rat_def)
  ultimately show ?thesis by simp
qed

lemma of_paise:
  assumes "0 \<le> n" and "n \<le> 10 ^ 12"
  shows "f64_div (Finite s (of_int n)) (f64_of 100) = amount s n"
    and "with_sign s (rounded False (of_int n / 100)) = amount s n"
proof -
  have "n \<noteq> 0 \<Longrightarrow> 1 / 100 \<le> (of_int n / 100 :: rat)" "(of_int n / 100 :: rat) \<le> 10 ^ 20"
    using assms by (simp_all add: order_trans [of _ "of_int (10 ^ 12)"])
  note r = rounded_plain [OF this]
  have "signed_rat s (of_int n) / 100 = signed_rat s (of_int n / 100)" by (simp add: signed_rat_def)
  with r [of s s] show "f64_div (Finite s (of_int n)) (f64_of 100) = amount s n"
    by (cases "n = 0") (simp_all add: amount_def rounded_def signed_rat_def)
  show "with_sign s (rounded False (of_int n / 100)) = amount s n"
    using r [of False False]
    by (cases "n = 0") (simp_all add: amount_def with_sign_def rounded_def [of False 0] signed_rat_def)
qed

lemma round2_amount: "0 \<le> n \<Longrightarrow> n \<le> 10 ^ 12 \<Longrightarrow> round2 (amount s n) = amount s n"
  by (simp add: round2_def paise_of_amount of_paise(1) del: f64_of_numerals)

text \<open>Whatever is rounded to two places and not too large is an amount.\<close>

lemma round2_is_amount:
  assumes "0 \<le> m" and "m \<le> of_int b" and "1 \<le> b" and "b \<le> 2000000000"
  shows "\<exists>n. 0 \<le> n \<and> n \<le> 100 * b \<and> round2 (Finite s m) = amount s n"
proof -
  have b: "1 \<le> (of_int b :: rat)" "(of_int b :: rat) \<le> 2000000000"
    using assms(3,4) by (simp_all add: order_trans [of _ "of_int 2000000000"])
  obtain y where y: "f64_mul (Finite s m) (f64_of 100) = Finite s y" "0 \<le> y" "y < 100 * of_int b + 1 / 2"
  proof (cases "m * 100 < 1 / 100")
    case small: True
    show ?thesis
    proof (cases "m = 0")
      case True
      then have "f64_mul (Finite s m) (f64_of 100) = Finite s 0" by (cases s) (simp_all add: rounded_def signed_rat_def)
      with that [of 0] b(1) show ?thesis by simp
    next
      case False
      then have m: "0 < m * 100" "m * 100 < 1" using assms(1) small by simp_all
      then have "nearest (m * 100) < 2" using nearest_small [of "m * 100"] by linarith
      moreover from this have "nearest (m * 100) < 2 ^ 1024" by (rule less_le_trans) simp
      moreover have "signed_rat s m < 0 \<longleftrightarrow> s" "signed_rat s m \<noteq> 0" "\<bar>signed_rat s m * 100\<bar> = m * 100"
        using m by (auto simp: signed_rat_def)
      ultimately show ?thesis
        using that [of "nearest (m * 100)"] nearest_nonneg [of "m * 100"] m b(1)
        by (simp add: rounded_def signed_rat_def [of False])
    qed
  next
    case False
    then have mul: "f64_mul (Finite s m) (f64_of 100) = Finite s (nearest (m * 100))"
      using rounded_plain [of "m * 100" s s] assms(2) b(2) by (cases s) (simp_all add: signed_rat_def)
    have m: "m \<le> 2000000000" using assms(2) b(2) by linarith
    have "\<bar>nearest (m * 100) - m * 100\<bar> \<le> m * 100 / 2 ^ 53"
      using False by (intro nearest_close) simp
    moreover have "m * 100 / 2 ^ 53 \<le> 1 / 4" using m by (simp add: field_simps)
    ultimately have "nearest (m * 100) \<le> m * 100 + 1 / 4" by linarith
    then have "nearest (m * 100) < 100 * of_int b + 1 / 2" using assms(2) by simp
    with that [OF mul] nearest_nonneg [of "m * 100"] assms(1) show ?thesis by simp
  qed
  let ?n = "floor (y + 1 / 2)"
  have "0 \<le> ?n" using y(2) by simp
  moreover have "y + 1 / 2 < of_int (100 * b + 1)" using y(3) by simp
  then have "?n < 100 * b + 1" by (simp only: floor_less_iff)
  ultimately have n: "0 \<le> ?n" "?n \<le> 100 * b" "?n \<le> 1000000000000" using assms(4) by linarith+
  have "(1000000000000::int) = 10 ^ 12" by simp
  with n(3) have "?n \<le> 10 ^ 12" by (simp only:)
  with n(1) have "round2 (Finite s m) = amount s ?n"
    unfolding round2_def y(1) f64_round.simps by (intro of_paise(1))
  with n show ?thesis by blast
qed

subsection \<open>The printed form\<close>

lemma filter_join: "filter (\<lambda>c. c \<noteq> 44) (join_with [44] ws) = concat (map (filter (\<lambda>c. c \<noteq> 44)) ws)"
  by (induction "[44::int]" ws rule: join_with.induct) simp_all

lemma set_join: "set (join_with sep ws) \<subseteq> set sep \<union> set (concat ws)"
  by (induction sep ws rule: join_with.induct) auto

lemma concat_cut_pairs: "concat (rev (cut_pairs rest groups)) = rest @ concat (rev groups)"
proof (induction rest groups rule: cut_pairs.induct)
  case (1 rest groups)
  show ?case
  proof (cases "rest = []")
    case True
    then show ?thesis by (simp add: cut_pairs.simps [of "[]"])
  next
    case False
    with 1 [OF False refl] show ?thesis by (simp add: cut_pairs.simps [of rest] Let_def)
  qed
qed

lemma cut_pairs_nonempty:
  "list_all (\<lambda>w. w \<noteq> []) groups \<Longrightarrow> list_all (\<lambda>w. w \<noteq> []) (cut_pairs rest groups)"
proof (induction rest groups rule: cut_pairs.induct)
  case (1 rest groups)
  show ?case
  proof (cases "rest = []")
    case True
    with 1(2) show ?thesis by (simp add: cut_pairs.simps [of "[]"])
  next
    case False
    then have "0 < length rest" by simp
    then have "length rest - min (length rest) 2 < length rest" by linarith
    with 1 False show ?thesis by (simp add: cut_pairs.simps [of rest] Let_def)
  qed
qed

definition digit_or_comma :: "int \<Rightarrow> bool" where
  "digit_or_comma c \<longleftrightarrow> ascii_digit c \<or> c = 44"

lemma join_hd:
  assumes "ws \<noteq> []" and "list_all (\<lambda>w. w \<noteq> []) ws"
  shows "join_with sep ws \<noteq> [] \<and> hd (join_with sep ws) = hd (concat ws)"
  using assms by (cases "(sep, ws)" rule: join_with.cases) (auto simp: hd_append)

text \<open>The grouping only inserts commas: between digits, never in front.\<close>

lemma indian_int:
  assumes "0 \<le> n"
  shows "filter (\<lambda>c. c \<noteq> 44) (format_indian_int n) = dec n"
    and "list_all digit_or_comma (format_indian_int n)"
    and "format_indian_int n \<noteq> []" and "ascii_digit (hd (format_indian_int n))"
proof -
  have no_comma: "filter (\<lambda>c. c \<noteq> 44) w = w" if "list_all ascii_digit w" for w
    using that by (induction w) (auto simp: ascii_digit_def)
  let ?s = "dec n"
  let ?ws = "rev (cut_pairs (take (length ?s - 3) ?s) [drop (length ?s - 3) ?s])"
  have digits: "list_all ascii_digit ?s" using assms by simp
  have all: "concat ?ws = ?s" by (simp add: concat_cut_pairs)
  consider "n = 0" | "n \<noteq> 0" "length ?s \<le> 3" | "n \<noteq> 0" "3 < length ?s" by linarith
  then have "filter (\<lambda>c. c \<noteq> 44) (format_indian_int n) = dec n
    \<and> list_all digit_or_comma (format_indian_int n)
    \<and> format_indian_int n \<noteq> [] \<and> ascii_digit (hd (format_indian_int n))"
  proof cases
    case 1
    then show ?thesis by (simp add: format_indian_int_def dec.simps [of 0] digit_or_comma_def ascii_digit_def)
  next
    case 2
    then have "format_indian_int n = ?s" by (simp add: format_indian_int_def)
    moreover have "ascii_digit (hd ?s)" using digits by (cases ?s) (auto simp: dec_not_Nil [unfolded neq_Nil_conv])
    ultimately show ?thesis using digits no_comma [OF digits] by (auto simp: list_all_iff digit_or_comma_def)
  next
    case 3
    then have form: "format_indian_int n = join_with [44] ?ws"
      by (simp add: format_indian_int_def Let_def)
    have "filter (\<lambda>c. c \<noteq> 44) w = w" if "w \<in> set ?ws" for w
    proof (rule no_comma)
      from that have "set w \<subseteq> set (concat ?ws)" by (simp only: set_concat) blast
      then have "set w \<subseteq> set ?s" by (simp only: all)
      with digits show "list_all ascii_digit w" by (auto simp: list_all_iff)
    qed
    then have "map (filter (\<lambda>c. c \<noteq> 44)) ?ws = ?ws" by (intro map_idI)
    then have "filter (\<lambda>c. c \<noteq> 44) (join_with [44] ?ws) = ?s" by (simp only: filter_join all)
    moreover have "list_all digit_or_comma (join_with [44] ?ws)"
      using set_join [of "[44]" ?ws] digits unfolding all by (auto simp: list_all_iff digit_or_comma_def)
    moreover have "?ws \<noteq> []" using all by (metis concat.simps(1) dec_not_Nil)
    then have "join_with [44] ?ws \<noteq> [] \<and> hd (join_with [44] ?ws) = hd ?s"
      using join_hd [of ?ws "[44]"] cut_pairs_nonempty [of "[drop (length ?s - 3) ?s]"] 3(2)
      unfolding all by (simp add: list_all_rev)
    moreover have "ascii_digit (hd ?s)" using digits by (cases ?s) auto
    ultimately show ?thesis unfolding form by simp
  qed
  then show "filter (\<lambda>c. c \<noteq> 44) (format_indian_int n) = dec n"
    and "list_all digit_or_comma (format_indian_int n)"
    and "format_indian_int n \<noteq> []" and "ascii_digit (hd (format_indian_int n))" by simp_all
qed

lemma amount_size:
  assumes "0 < n"
  shows "0 < nearest (of_int n / 100)" and "nearest (of_int n / 100) \<le> of_int n / 50"
proof -
  let ?x = "of_int n / 100 :: rat"
  have "\<bar>nearest ?x - ?x\<bar> \<le> ?x / 2 ^ 53" using assms by (intro nearest_close) simp
  moreover have "?x / 2 ^ 53 < ?x" using assms by (simp add: field_simps)
  ultimately show "0 < nearest ?x" and "nearest ?x \<le> of_int n / 50" by linarith+
qed

lemma printed_amount:
  assumes "0 \<le> n" and "n \<le> 10 ^ 12"
  shows "fmt_amount (Some (amount s n)) =
    (if s \<and> n \<noteq> 0 then [45] else []) @ format_indian_int (n div 100) @ 46 # dec2 (n mod 100)"
proof -
  have "f64_abs (amount s n) = amount False n" by (simp add: amount_def)
  moreover have "f64_as_u64 (Finite False (of_int n)) = n" using assms by simp
  moreover have "f64_less (amount s n) f64_zero \<longleftrightarrow> s \<and> n \<noteq> 0"
  proof (cases "n = 0")
    case True
    then show ?thesis by (simp add: amount_def f64_less_def f64_zero_def signed_rat_def)
  next
    case False
    then have "0 < nearest (of_int n / 100)" using amount_size(1) [of n] assms(1) by simp
    with False show ?thesis by (auto simp: amount_def f64_less_def f64_zero_def signed_rat_def)
  qed
  moreover have "zero_padded 2 (dec (n mod 100)) = dec2 (n mod 100)"
    by (simp add: zero_padded_def dec2_def dec.simps [of "n mod 100"] dec.simps [of "n mod 100 div 10"] div_less_iff_less_mult)
  ultimately show ?thesis
    using paise_of_amount [OF assms, of False] by (simp add: fmt_amount_def format_indian_def Let_def)
qed

subsection \<open>Reading it back\<close>

text \<open>The characters of a printed amount.\<close>

definition plain :: "int \<Rightarrow> bool" where
  "plain c \<longleftrightarrow> ascii_digit c \<or> c = 44 \<or> c = 45 \<or> c = 46"

lemma plain_not:
  assumes "plain c"
  shows "\<not> white c" and "fold_case c \<noteq> 99" and "fold_case c \<noteq> 100" and "fold_case c \<noteq> 114"
    and "c \<noteq> 40" and "c \<noteq> 0x20B9"
  using assms by (auto simp: plain_def ascii_digit_def white_def fold_case_def to_ascii_lower_def ascii_upper_def)

lemma plain_trimmed: "list_all plain s \<Longrightarrow> trimmed s = s"
  by (rule trimmed_no_white) (auto simp: list_all_iff plain_not)

lemma lower_letters [simp]:
  "to_ascii_lower 67 = 99" "to_ascii_lower 68 = 100" "to_ascii_lower 82 = 114"
  by (simp_all add: to_ascii_lower_def ascii_upper_def)

lemma Cat_Nil: "(\<And>st'. st' \<in> set (runs a st) \<Longrightarrow> runs b st' = []) \<Longrightarrow> runs (Cat a b) st = []"
  by simp

lemma no_cr_dr:
  assumes "list_all plain s"
  shows "replace_first (re_cr_dr_suffix U) f s = s"
proof (rule replace_first_none, rule find_match_None)
  fix u v assume "s = u @ v"
  then have v: "list_all plain v" using assms by simp
  let ?tail = "Cats [Grp 1 (Alts [LitsI ''CR'', LitsI ''DR'']), Edge (uni_word U), Many Dot, AtEnd]"
  have "runs (Cat (Many Blank) ?tail) (rev u @ [], v, []) = []"
  proof (rule Cat_Nil)
    fix st' assume "st' \<in> set (runs (Many Blank) (rev u @ [], v, []))"
    from runs_consume [OF inside_True this] obtain w where "v = w @ fst (snd st')"
      by (auto simp: consumes_def)
    with v have "list_all plain (fst (snd st'))" by (metis list_all_append)
    then show "runs ?tail st' = []"
      by (cases st'; cases "fst (snd st')") (auto simp: LitsI_def plain_not)
  qed
  then show "runs (re_cr_dr_suffix U) (rev u @ [], v, []) = []" by (simp add: re_cr_dr_suffix_def)
qed

lemma no_rs_prefix:
  assumes "list_all plain s"
  shows "replace_first re_rs_prefix f s = s"
proof (rule replace_first_none, rule find_match_None)
  fix u v assume "s = u @ v"
  with assms have "list_all plain v" by simp
  then show "runs re_rs_prefix (rev u @ [], v, []) = []"
    by (cases v) (auto simp: re_rs_prefix_def LitsI_def plain_not)
qed

lemma no_parens:
  assumes "list_all plain s"
  shows "replace_first re_negative_parens f s = s"
proof (rule replace_first_none, rule find_match_None)
  fix u v assume "s = u @ v"
  with assms have "list_all plain v" by simp
  then show "runs re_negative_parens (rev u @ [], v, []) = []"
    by (cases v) (auto simp: re_negative_parens_def Is_def plain_not)
qed

lemma not_ref_id:
  assumes "c \<in> set s" and "\<not> uni_digit U c"
  shows "\<not> is_match (re_ref_id U) s"
proof -
  have "find_match (re_ref_id U) [] s = None"
  proof (rule find_match_None)
    fix u v assume s: "s = u @ v"
    let ?digits = "AtLeast 10 (Chr (uni_digit U))"
    have "runs (Cat AtStart (Cat ?digits AtEnd)) (rev u @ [], v, []) = []"
    proof (rule Cat_Nil, rule Cat_Nil)
      fix st1 st2
      assume "st1 \<in> set (runs AtStart (rev u @ [], v, []))" and st2: "st2 \<in> set (runs ?digits st1)"
      then have st1: "st1 = ([], s, [])" using s by (auto split: if_splits)
      have "inside (uni_digit U) ?digits" by (simp add: AtLeast_def eval_nat_numeral)
      from runs_consume [OF this st2] obtain w where "s = w @ fst (snd st2)" "list_all (uni_digit U) w"
        by (auto simp: consumes_def st1)
      with assms have "fst (snd st2) \<noteq> []" by (auto simp: list_all_iff)
      then show "runs AtEnd st2 = []" by (cases st2) simp
    qed
    then show "runs (re_ref_id U) (rev u @ [], v, []) = []" by (simp add: re_ref_id_def)
  qed
  then show ?thesis by (simp add: is_match_def)
qed

lemma cleaned_plain:
  assumes "list_all plain s"
  shows "cleaned_amount U s = filter (\<lambda>c. c \<noteq> 44) s"
proof -
  let ?t = "filter (\<lambda>c. c \<noteq> 44) s"
  have t: "list_all plain ?t" using assms by (simp add: list_all_iff)
  have "filter (\<lambda>c. c \<noteq> 0x20B9 \<and> \<not> white c) s = s"
    using assms plain_not by (intro filter_True) (simp add: list_all_iff)
  moreover have "\<not> has_prefix (lit ''(-)'') ?t" using t by (cases ?t) (auto simp: plain_not)
  moreover have "trimmed ?t = ?t" by (rule plain_trimmed [OF t])
  ultimately show ?thesis
    unfolding cleaned_amount_def Let_def no_cr_dr [OF assms] no_rs_prefix [OF assms]
    using no_rs_prefix [OF assms] by (simp add: no_parens [OF t])
qed

lemma read_plain_decimal:
  fixes s :: bool
  assumes "0 \<le> n" and "n \<le> 10 ^ 12" and "unicode_ok U"
  defines "t \<equiv> (if s then [45] else []) @ dec (n div 100) @ 46 # dec2 (n mod 100)"
  shows "accept_number (strip_junk 2 t) = (if 0 < n \<and> n < 10 ^ 10 then Some (amount s n) else None)"
    and "t \<noteq> []" and "t \<noteq> [45]" and "\<not> eq_ignore_ascii_case t (lit ''nil'')"
    and "\<not> eq_ignore_ascii_case t (lit ''n/a'')"
proof -
  let ?a = "dec (n div 100)" and ?b = "dec2 (n mod 100)"
  have r: "0 \<le> n div 100" using assms(1) by simp
  have m: "0 \<le> n mod 100" "n mod 100 < 100" by simp_all
  have b: "list_all ascii_digit ?b" "length ?b = 2" "dec_value ?b = n mod 100" using dec2_simps [OF m] by simp_all
  have last: "ascii_digit (last t)" using m by (simp add: t_def dec2_def ascii_digit_def)
  have keep: "strip_junk 2 t = t" using last by (simp add: numeral_2_eq_2)
  have count: "length (filter ascii_digit t) = length ?a + 2"
  proof -
    have "list_all ascii_digit ?a" using r by simp
    then have "filter ascii_digit ?a = ?a" "filter ascii_digit ?b = ?b"
      using b(1) by (simp_all add: list_all_iff)
    then show ?thesis using b(2) by (simp add: t_def ascii_digit_def)
  qed
  have few: "10 < length ?a + 2 \<longleftrightarrow> 10 ^ 10 \<le> n"
    using dec_length [OF r, of 8] by (simp add: not_le [symmetric]) linarith
  have "dropWhile (\<lambda>c. c \<noteq> 46) (?a @ 46 # ?b) = 46 # ?b"
  proof (subst dropWhile_append2)
    fix c assume "c \<in> set ?a"
    then show "c \<noteq> 46" using dec_simps(3) [OF r] by (auto simp: list_all_iff ascii_digit_def)
  qed simp
  then have "dropWhile (\<lambda>c. c \<noteq> 46) t = 46 # ?b" by (simp add: t_def)
  moreover have "byte_len ?b = 2" using b by (simp add: byte_len_digits)
  ultimately have places: "\<not> too_many_decimals t" by (simp add: too_many_decimals_def)
  have total: "dec_value (?a @ ?b) = n"
    using r b by (simp add: dec_value_append)
  have parsed: "parse_f64 t = Some (amount s n)"
    using parse_decimal [of ?a ?b s] r b of_paise(2) [OF assms(1,2), of s] total
    by (simp add: t_def)
  have zero: "f64_eq (amount s n) f64_zero \<longleftrightarrow> n = 0"
    using amount_size(1) [of n] assms(1) by (auto simp: amount_def f64_eq_def f64_zero_def signed_rat_def)
  have small: "n < 10 ^ 10 \<Longrightarrow> \<not> f64_less max_amount (f64_abs (amount s n))"
  proof -
    assume "n < 10 ^ 10"
    then have "(of_int n :: rat) < 10 ^ 10" by (metis of_int_less_iff of_int_numeral of_int_power)
    with amount_size [of n] assms(1) show ?thesis
      by (cases "n = 0") (simp_all add: amount_def f64_less_def signed_rat_def)
  qed
  show "accept_number (strip_junk 2 t) = (if 0 < n \<and> n < 10 ^ 10 then Some (amount s n) else None)"
    unfolding keep accept_number_def count few parsed
    using places zero small assms(1) round2_amount [OF assms(1,2), of s] by auto
  have "hd t \<noteq> 110 \<and> hd t \<noteq> 78" using r by (cases ?a) (auto simp: t_def ascii_digit_def dest: dec_simps(3))
  then show "\<not> eq_ignore_ascii_case t (lit ''nil'')" "\<not> eq_ignore_ascii_case t (lit ''n/a'')"
    by (cases t; auto simp: eq_ignore_ascii_case_def to_ascii_lower_def ascii_upper_def split: if_splits)+
  show "t \<noteq> []" "t \<noteq> [45]" by (cases s; simp add: t_def append_eq_Cons_conv)+
qed

text \<open>C21: printing and reading an amount. What \<open>fmt_amount\<close> prints for the double nearest to a whole
  number of paise is read back as exactly that double, if the amount is not zero and below ten
  crore rupees; every larger amount up to the parser's own limit of two hundred crore, once printed,
  is refused, for it has more than ten digits.\<close>

theorem amount_roundtrip:
  assumes "unicode_ok U" and "0 \<le> n" and "n \<le> 200000000000"
  shows "parse_amount_str U (fmt_amount (Some (amount s n)))
    = (if 0 < n \<and> n < 10 ^ 10 then Some (amount s n) else None)"
proof -
  have n: "n \<le> 10 ^ 12" using assms(3) by simp
  have r: "0 \<le> n div 100" using assms(2) by simp
  let ?neg = "s \<and> n \<noteq> 0"
  let ?int = "format_indian_int (n div 100)" and ?b = "dec2 (n mod 100)"
  let ?text = "(if ?neg then [45] else []) @ ?int @ 46 # ?b"
  note int = indian_int [OF r]
  have b: "list_all ascii_digit ?b" using dec2_simps(1) [of "n mod 100"] by simp
  have "list_all plain ?int" using int(2) by (auto simp: list_all_iff digit_or_comma_def plain_def)
  moreover have "list_all plain ?b" using b by (auto simp: list_all_iff plain_def)
  ultimately have plain: "list_all plain ?text" by (simp add: plain_def)
  have "trimmed ?text = ?text"
    by (rule plain_trimmed [OF plain])
  moreover have "\<not> is_match (re_ref_id U) ?text"
    using assms(1) by (intro not_ref_id [of 46]) (simp_all add: unicode_ok_def ascii_digit_def)
  moreover have "cleaned_amount U ?text = (if ?neg then [45] else []) @ dec (n div 100) @ 46 # ?b"
    unfolding cleaned_plain [OF plain] using int(1) b by (auto simp: list_all_iff ascii_digit_def filter_id_conv)
  moreover have "amount ?neg n = amount s n \<or> n = 0" by auto
  ultimately show ?thesis
    using read_plain_decimal [OF assms(2) n assms(1), of ?neg]
    unfolding printed_amount [OF assms(2) n] parse_amount_str_def parse_str_def Let_def by auto
qed

lemma parsed_nonneg: "parse_f64 s = Some (Finite b m) \<Longrightarrow> 0 \<le> m"
proof -
  have "0 \<le> m'" if "rounded z q = Finite b' m'" for z q b' m'
    using that nearest_nonneg [of "\<bar>q\<bar>"] by (auto simp: rounded_def Let_def split: if_splits)
  moreover have "with_sign z x = Finite b m \<Longrightarrow> \<exists>b'. x = Finite b' m" for x z
    by (cases x) (auto simp: with_sign_def split: if_splits)
  ultimately show "parse_f64 s = Some (Finite b m) \<Longrightarrow> 0 \<le> m"
    by (fastforce simp: parse_f64_def split: prod.splits if_splits)
qed

lemma accepted_is_amount:
  assumes "\<not> f64_less max_amount (f64_abs x)" and "\<And>s m. x = Finite s m \<Longrightarrow> 0 \<le> m"
  shows "x = NaN \<or> (\<exists>s n. 0 \<le> n \<and> n \<le> 200000000000 \<and> round2 x = amount s n)"
proof (cases x)
  case (Finite s m)
  with assms have "0 \<le> m" "m \<le> 2000000000"
    by (auto simp: f64_less_def signed_rat_def split: if_splits)
  with round2_is_amount [of m 2000000000 s] Finite show ?thesis by auto
qed (use assms(1) in \<open>auto simp: f64_less_def\<close>)

text \<open>C22: an amount read from a cell is the double nearest to a whole number of paise of at most two
  hundred crore rupees, or it is no number at all; a numeric cell never gives the latter, but the
  text \<open>nan\<close> does.\<close>

theorem parse_amount_bounds:
  assumes "\<And>s m. v = CellNumber (Finite s m) \<Longrightarrow> 0 \<le> m" and "parse_amount U v = Some x"
  shows "(x = NaN \<and> (\<exists>t. v = CellText t)) \<or> (\<exists>s n. 0 \<le> n \<and> n \<le> 200000000000 \<and> x = amount s n)"
proof (cases v)
  case CellEmpty
  with assms(2) show ?thesis by (simp add: parse_amount_def)
next
  case (CellNumber f)
  with assms(2) have "\<not> f64_less max_amount (f64_abs f)" "f \<noteq> NaN" "x = round2 f"
    by (auto simp: parse_amount_def parse_float_def split: if_splits)
  with accepted_is_amount [of f] assms(1) CellNumber show ?thesis by blast
next
  case (CellText t)
  with assms(2) obtain s n where n: "parse_f64 s = Some n" "\<not> f64_less max_amount (f64_abs n)" "x = round2 n"
    by (auto simp: parse_amount_def parse_str_def accept_number_def Let_def split: if_splits option.splits)
  have "round2 NaN = NaN" by (simp add: round2_def)
  with accepted_is_amount [OF n(2)] parsed_nonneg n CellText show ?thesis by blast
qed

text \<open>A cell that says \<open>nan\<close> is an amount, for the limit is checked by a comparison.\<close>

lemma nan_is_accepted: "parse_amount_str ascii_tables (lit ''nan'') = Some NaN"
proof -
  have "trimmed [110, 97, 110] = [110, 97, 110]" by (rule trimmed_no_white) (auto simp: white_def)
  moreover have "replace_first (re_cr_dr_suffix ascii_tables) f [110, 97, 110] = [110, 97, 110]" for f
    by (simp add: replace_first_def re_cr_dr_suffix_def LitsI_def fold_case_def to_ascii_lower_def
        ascii_upper_def Blank_def white_def)
  moreover have "replace_first re_rs_prefix f [110, 97, 110] = [110, 97, 110]"
    "replace_first re_negative_parens f [110, 97, 110] = [110, 97, 110]" for f
    by (simp_all add: replace_first_def re_rs_prefix_def re_negative_parens_def LitsI_def Is_def fold_case_def
        to_ascii_lower_def ascii_upper_def)
  moreover have "\<not> is_match (re_ref_id ascii_tables) [110, 97, 110]"
    by (rule not_ref_id [of 110]) (simp_all add: ascii_tables_def ascii_digit_def)
  moreover have "parse_f64 [110, 97, 110] = Some NaN"
    by (simp add: parse_f64_def eq_ignore_ascii_case_def to_ascii_lower_def ascii_upper_def)
  ultimately show ?thesis
    by (simp add: parse_amount_str_def parse_str_def cleaned_amount_def accept_number_def
        numeral_2_eq_2 too_many_decimals_def ascii_digit_def white_def eq_ignore_ascii_case_def
        to_ascii_lower_def ascii_upper_def f64_eq_def f64_less_def round2_def)
qed

end
