(* ===== verification/DateParser.thy ===== *)
theory DateParser
  imports FloatText Patterns
begin

text \<open>
  \<open>src/parser/date_parser.rs\<close>: reading a transaction date in any of the forms statements use, with
  repair of characters an OCR engine confuses, and the forms dates are printed in. The calendar is
  chrono's and a parameter: the day number of a date that exists (days since 1970), and the date of a
  day number.
\<close>

record calendar =
  cal_day :: "int \<Rightarrow> int \<Rightarrow> int \<Rightarrow> int option"
  cal_date :: "int \<Rightarrow> int \<times> int \<times> int"

text \<open>A \<open>NaiveDate\<close> is its year, month, day and day number.\<close>

record naive_date =
  nd_year :: int
  nd_month :: int
  nd_day :: int
  nd_number :: int

definition from_ymd_opt :: "calendar \<Rightarrow> int \<Rightarrow> int \<Rightarrow> int \<Rightarrow> naive_date option" where
  "from_ymd_opt C y m d =
    map_option (\<lambda>n. \<lparr> nd_year = y, nd_month = m, nd_day = d, nd_number = n \<rparr>) (cal_day C y m d)"

definition year_min :: int where
  "year_min = 2000"

definition year_max :: int where
  "year_max = 2099"

definition excel_min :: f64 where
  "excel_min = f64_of 36526"

definition excel_max :: f64 where
  "excel_max = f64_of 54789"

subsection \<open>Patterns\<close>

definition Letter :: rx where
  "Letter = Chr ascii_alpha"

definition re_time_suffix :: "unicode \<Rightarrow> rx" where
  "re_time_suffix U = Cats [Many Blank, Between 1 2 (Digit U), Is CHR '':'', Rep 2 (Digit U),
     Opt (Cat (Is CHR '':'') (Rep 2 (Digit U))), Many Dot, AtEnd]"

definition re_ddmmyyyy :: "unicode \<Rightarrow> rx" where
  "re_ddmmyyyy U = Cats [AtStart, Grp 1 (Between 1 2 (Digit U)), AnyOf ''/-.'',
     Grp 2 (Between 1 2 (Digit U)), AnyOf ''/-.'', Grp 3 (Between 2 4 (Digit U)), AtEnd]"

definition SepOrBlank :: rx where
  "SepOrBlank = Chr (\<lambda>x. white x \<or> x \<in> set (lit ''-/.''))"

definition re_dd_mon_yyyy :: "unicode \<Rightarrow> rx" where
  "re_dd_mon_yyyy U = Cats [AtStart, Grp 1 (Between 1 2 (Digit U)), SepOrBlank,
     Grp 2 (AtLeast 3 Letter), SepOrBlank, Grp 3 (Between 2 4 (Digit U)), AtEnd]"

definition re_ddmonyyyy_nosep :: "unicode \<Rightarrow> rx" where
  "re_ddmonyyyy_nosep U = Cats [AtStart, Grp 1 (Between 1 2 (Digit U)), Grp 2 (AtLeast 3 Letter),
     Grp 3 (Between 2 4 (Digit U)), AtEnd]"

definition re_iso :: "unicode \<Rightarrow> rx" where
  "re_iso U = Cats [AtStart, Grp 1 (Rep 4 (Digit U)), AnyOf ''/-'', Grp 2 (Between 1 2 (Digit U)),
     AnyOf ''/-'', Grp 3 (Between 1 2 (Digit U)), AtEnd]"

definition re_compact8 :: rx where
  "re_compact8 = Cats [AtStart, Rep 8 (Chr ascii_digit), AtEnd]"

definition re_ocr_sep :: rx where
  "re_ocr_sep = Some1 (Chr (\<lambda>x. x \<in> set (lit ''/-.'') \<or> white x))"

subsection \<open>Results\<close>

record parsed_date =
  pd_display :: chars
  pd_ts :: int
  pd_valid :: bool

definition parsed_ok :: "chars \<Rightarrow> int \<Rightarrow> parsed_date" where
  "parsed_ok display ts = \<lparr> pd_display = display, pd_ts = ts, pd_valid = True \<rparr>"

definition parsed_fail :: "chars \<Rightarrow> parsed_date" where
  "parsed_fail display = \<lparr> pd_display = display, pd_ts = 0, pd_valid = False \<rparr>"

definition year_ok :: "int \<Rightarrow> bool" where
  "year_ok y \<longleftrightarrow> year_min \<le> y \<and> y \<le> year_max"

text \<open>\<open>{:02}\<close>: at least two digits.\<close>

definition fmt_display :: "naive_date \<Rightarrow> chars" where
  "fmt_display dt = zero_padded 2 (dec (nd_day dt)) @ [47] @ zero_padded 2 (dec (nd_month dt))
     @ [47] @ dec (nd_year dt)"

definition date_to_ts :: "naive_date \<Rightarrow> int" where
  "date_to_ts dt = nd_number dt * 86400000"

definition ok_date :: "naive_date \<Rightarrow> parsed_date" where
  "ok_date dt = parsed_ok (fmt_display dt) (date_to_ts dt)"

subsection \<open>One form after the other\<close>

definition month_num :: "unicode \<Rightarrow> chars \<Rightarrow> int option" where
  "month_num U s =
    (let t = to_lowercase U s in
     if t \<in> {lit ''jan'', lit ''january''} then Some 1
     else if t \<in> {lit ''feb'', lit ''february''} then Some 2
     else if t \<in> {lit ''mar'', lit ''march''} then Some 3
     else if t \<in> {lit ''apr'', lit ''april''} then Some 4
     else if t = lit ''may'' then Some 5
     else if t \<in> {lit ''jun'', lit ''june''} then Some 6
     else if t \<in> {lit ''jul'', lit ''july''} then Some 7
     else if t \<in> {lit ''aug'', lit ''august''} then Some 8
     else if t \<in> {lit ''sep'', lit ''september''} then Some 9
     else if t \<in> {lit ''oct'', lit ''october''} then Some 10
     else if t \<in> {lit ''nov'', lit ''november''} then Some 11
     else if t \<in> {lit ''dec'', lit ''december''} then Some 12
     else None)"

definition make_date :: "calendar \<Rightarrow> chars \<Rightarrow> int \<Rightarrow> chars \<Rightarrow> naive_date option" where
  "make_date C dd mm yy =
    (case (parse_u32 dd, parse_i32 yy) of
       (Some d, Some raw) \<Rightarrow>
         let y = (if byte_len yy \<le> 2 then 2000 + raw else raw) in
         if year_ok y then from_ymd_opt C y mm d else None
     | _ \<Rightarrow> None)"

text \<open>Tries the next form when this one gives no date.\<close>

definition or_else :: "'a option \<Rightarrow> 'a option \<Rightarrow> 'a option" where
  "or_else a b = (case a of None \<Rightarrow> b | Some x \<Rightarrow> Some x)"

definition by_numbers :: "calendar \<Rightarrow> unicode \<Rightarrow> chars \<Rightarrow> naive_date option" where
  "by_numbers C U s =
    Option.bind (captures (re_ddmmyyyy U) s) (\<lambda>g.
    Option.bind (parse_u32 (the (g 2))) (\<lambda>mm. make_date C (the (g 1)) mm (the (g 3))))"

definition by_month_name :: "calendar \<Rightarrow> unicode \<Rightarrow> rx \<Rightarrow> chars \<Rightarrow> naive_date option" where
  "by_month_name C U r s =
    Option.bind (captures r s) (\<lambda>g.
    Option.bind (month_num U (the (g 2))) (\<lambda>mm. make_date C (the (g 1)) mm (the (g 3))))"

text \<open>The last two forms: a number that does not parse ends the whole attempt with \<open>None\<close>.\<close>

definition by_iso :: "calendar \<Rightarrow> chars \<Rightarrow> chars \<Rightarrow> chars \<Rightarrow> naive_date option option" where
  "by_iso C yy mm dd =
    (case (parse_i32 yy, parse_u32 mm, parse_u32 dd) of
       (Some y, Some m, Some d) \<Rightarrow> Some (if year_ok y then from_ymd_opt C y m d else None)
     | _ \<Rightarrow> None)"

definition by_compact :: "calendar \<Rightarrow> chars \<Rightarrow> naive_date option" where
  "by_compact C s =
    (if is_match re_compact8 s
     then Option.bind (by_iso C (take 4 s) (take 2 (drop 4 s)) (take 2 (drop 6 s))) (\<lambda>x. x)
     else None)"

definition parse_date :: "calendar \<Rightarrow> unicode \<Rightarrow> chars \<Rightarrow> parsed_date option" where
  "parse_date C U raw =
    (let s0 = trimmed raw in
     if s0 = [] then None
     else
       let s = join_with [32] (split_whitespace s0) in
       map_option ok_date
         (or_else (by_numbers C U s)
         (or_else (by_month_name C U (re_dd_mon_yyyy U) s)
         (or_else (by_month_name C U (re_ddmonyyyy_nosep U) s)
           (case captures (re_iso U) s of
              None \<Rightarrow> by_compact C s
            | Some g \<Rightarrow>
               (case by_iso C (the (g 1)) (the (g 2)) (the (g 3)) of
                  None \<Rightarrow> None
                | Some (Some dt) \<Rightarrow> Some dt
                | Some None \<Rightarrow> by_compact C s))))))"

subsection \<open>Repair\<close>

definition ocr_noise :: "int \<Rightarrow> bool" where
  "ocr_noise c \<longleftrightarrow> c \<in> set (lit ''OoIlSZBGq'')"

definition repair_char :: "int \<Rightarrow> int" where
  "repair_char c =
    (if c \<in> set (lit ''Oo'') then 48
     else if c \<in> set (lit ''Il'') then 49
     else if c = of_char CHR ''S'' then 53
     else if c = of_char CHR ''Z'' then 50
     else if c = of_char CHR ''B'' then 56
     else if c = of_char CHR ''G'' then 54
     else if c = of_char CHR ''q'' then 57
     else c)"

definition repair_token :: "chars \<Rightarrow> chars" where
  "repair_token tok =
    (if byte_len tok \<le> 4 \<and> list_all (\<lambda>c. ascii_digit c \<or> ocr_noise c) tok then map repair_char tok else tok)"

definition repair_ocr_chars :: "chars \<Rightarrow> chars" where
  "repair_ocr_chars s =
    (let (found, tail) = find_pieces re_ocr_sep s in
     concat (map (\<lambda>(tok, sep). repair_token tok @ sep) found) @ repair_token tail)"

subsection \<open>The entry points\<close>

definition normalize_transaction_date :: "calendar \<Rightarrow> unicode \<Rightarrow> chars \<Rightarrow> parsed_date" where
  "normalize_transaction_date C U raw =
    (let original = trimmed raw in
     case parse_date C U original of
       Some pd \<Rightarrow> pd
     | None \<Rightarrow>
        let stripped = trimmed (replace_first (re_time_suffix U) (\<lambda>_. []) original) in
        case (if stripped \<noteq> original then parse_date C U stripped else None) of
          Some pd \<Rightarrow> pd
        | None \<Rightarrow>
           let repaired = repair_ocr_chars original in
           case (if repaired \<noteq> original then parse_date C U repaired else None) of
             Some pd \<Rightarrow> pd
           | None \<Rightarrow> parsed_fail original)"

definition normalize_excel_date :: "calendar \<Rightarrow> f64 \<Rightarrow> parsed_date option" where
  "normalize_excel_date C serial =
    (if \<not> (f64_le excel_min serial \<and> f64_le serial excel_max) then None
     else case serial of
       Finite s m \<Rightarrow>
         Option.bind (cal_day C 1899 12 30) (\<lambda>epoch.
         let n = epoch + floor m; (y, mo, d) = cal_date C n in
         if year_ok y then Some (ok_date \<lparr> nd_year = y, nd_month = mo, nd_day = d, nd_number = n \<rparr>) else None)
     | _ \<Rightarrow> None)"

definition is_valid_date_str :: "calendar \<Rightarrow> unicode \<Rightarrow> chars \<Rightarrow> bool" where
  "is_valid_date_str C U s \<longleftrightarrow> parse_date C U (trimmed s) \<noteq> None"

text \<open>\<open>splitn(3, '/')\<close>: the third part keeps its separators.\<close>

fun splitn :: "nat \<Rightarrow> int \<Rightarrow> chars \<Rightarrow> chars list" where
  "splitn 0 sep s = []"
| "splitn (Suc 0) sep s = [s]"
| "splitn (Suc (Suc n)) sep s =
    (let a = takeWhile (\<lambda>c. c \<noteq> sep) s in
     case dropWhile (\<lambda>c. c \<noteq> sep) s of [] \<Rightarrow> [a] | _ # rest \<Rightarrow> a # splitn (Suc n) sep rest)"

definition display_to_ts :: "calendar \<Rightarrow> chars \<Rightarrow> int" where
  "display_to_ts C s =
    (case splitn 3 47 s of
       [dd, mm, yy] \<Rightarrow>
         (case (parse_u32 dd, parse_u32 mm, parse_i32 yy) of
            (Some d, Some m, Some y) \<Rightarrow> (case from_ymd_opt C y m d of Some dt \<Rightarrow> date_to_ts dt | None \<Rightarrow> 0)
          | _ \<Rightarrow> 0)
     | _ \<Rightarrow> 0)"

text \<open>\<open>{:0>2}\<close> pads with zeros on the left to two characters.\<close>

definition tally_date :: "chars \<Rightarrow> chars" where
  "tally_date s =
    (case split_at (\<lambda>c. c = 47 \<or> c = 45) s of
       [a, b, c] \<Rightarrow>
         if byte_len c = 4 then c @ zero_padded 2 b @ zero_padded 2 a
         else if byte_len a = 4 then a @ zero_padded 2 b @ zero_padded 2 c
         else s
     | _ \<Rightarrow> s)"

end
