(* ===== verification/DateFacts.thy ===== *)
theory DateFacts
  imports DateParser
begin

text \<open>
  Reading dates back: a date's display form and its Tally form are read as the date, whatever is
  recognised is an existing date of the years 2000 to 2099 in display form, and normalising twice
  changes nothing.
\<close>

subsection \<open>Forms of digits\<close>

definition std_digits :: "unicode \<Rightarrow> int list \<Rightarrow> bool" where
  "std_digits U ds \<longleftrightarrow> list_all (\<lambda>c. ascii_digit c \<and> uni_digit U c \<and> \<not> white c \<and> c \<noteq> 47 \<and> c \<noteq> 45 \<and> c \<noteq> 46) ds"

lemma std_digitsI: "unicode_ok U \<Longrightarrow> list_all ascii_digit ds \<Longrightarrow> std_digits U ds"
  by (auto simp: std_digits_def list_all_iff unicode_ok_def ascii_digit_def white_def)

lemma separators:
  assumes "unicode_ok U"
  shows "\<not> uni_digit U 47" "\<not> uni_digit U 45" "\<not> uni_digit U 46" "\<not> ascii_digit 47" "\<not> white 47"
  using assms by (simp_all add: unicode_ok_def ascii_digit_def white_def)

lemma captures_anchored:
  "captures (Cat AtStart r) s =
    (case runs r ([], s, []) of [] \<Rightarrow> None | (_, _, caps) # _ \<Rightarrow> Some (map_of caps))"
  by (simp add: captures_def find_anchored split: list.split prod.split)

lemma slashed_captures:
  assumes "unicode_ok U" and "std_digits U [a, b, c, e, f, g, h, i]"
  shows "captures (re_ddmmyyyy U) [a, b, 47, c, e, 47, f, g, h, i] = Some [1 \<mapsto> [a, b], 2 \<mapsto> [c, e], 3 \<mapsto> [f, g, h, i]]"
  using assms(2) separators [OF assms(1)]
  by (simp add: re_ddmmyyyy_def captures_anchored Between_def AnyOf_def Digit_def Opt_def std_digits_def
      eval_nat_numeral fun_eq_iff)

text \<open>Eight digits have no separator, and no letter after them.\<close>

lemma compact_captures:
  assumes "unicode_ok U" and "std_digits U [a, b, c, e, f, g, h, i]"
  shows "captures (re_ddmmyyyy U) [a, b, c, e, f, g, h, i] = None"
    and "captures (re_dd_mon_yyyy U) [a, b, c, e, f, g, h, i] = None"
    and "captures (re_ddmonyyyy_nosep U) [a, b, c, e, f, g, h, i] = None"
    and "captures (re_iso U) [a, b, c, e, f, g, h, i] = None"
    and "is_match re_compact8 [a, b, c, e, f, g, h, i]"
proof -
  have letter: "\<not> ascii_alpha x" if "ascii_digit x" for x
    using that by (auto simp: ascii_alpha_def ascii_upper_def ascii_lower_def ascii_digit_def)
  note facts = assms(2) [unfolded std_digits_def list.pred_inject]
  show "captures (re_ddmmyyyy U) [a, b, c, e, f, g, h, i] = None"
    "captures (re_dd_mon_yyyy U) [a, b, c, e, f, g, h, i] = None"
    "captures (re_ddmonyyyy_nosep U) [a, b, c, e, f, g, h, i] = None"
    "captures (re_iso U) [a, b, c, e, f, g, h, i] = None"
    using facts letter
    by (simp_all add: re_ddmmyyyy_def re_dd_mon_yyyy_def re_ddmonyyyy_nosep_def re_iso_def captures_anchored
        Between_def AtLeast_def AnyOf_def SepOrBlank_def Letter_def Digit_def Opt_def eval_nat_numeral)
  show "is_match re_compact8 [a, b, c, e, f, g, h, i]"
    using facts by (simp add: re_compact8_def is_match_def find_anchored eval_nat_numeral)
qed

subsection \<open>Printed dates\<close>

definition year4 :: "int \<Rightarrow> chars" where
  "year4 y = 50 # 48 # dec2 (y - 2000)"

lemma year4_simps:
  assumes "year_ok y"
  shows "dec y = year4 y" and "list_all ascii_digit (year4 y)" and "dec_value (year4 y) = y"
    and "length (year4 y) = 4"
proof -
  have y: "2000 \<le> y" "y \<le> 2099" using assms by (simp_all add: year_ok_def year_min_def year_max_def)
  obtain z where z: "y = 2000 + z" "0 \<le> z" "z < 100" using y by (intro that [of "y - 2000"]) simp_all
  have q: "y div 10 = 200 + z div 10" "y mod 10 = z mod 10"
    using div_mult_self4 [of 10 200 z] mod_mult_self4 [of 10 200 z] z(1) by simp_all
  have "0 \<le> z div 10" "z div 10 < 10" using z by simp_all
  then have r: "(200 + z div 10) div 10 = 20" "(200 + z div 10) mod 10 = z div 10"
    using div_mult_self4 [of 10 20 "z div 10"] mod_mult_self4 [of 10 20 "z div 10"] by simp_all
  have "dec y = dec (200 + z div 10) @ [48 + z mod 10]"
    using y q by (subst dec.simps) simp
  moreover have "dec (200 + z div 10) = dec 20 @ [48 + z div 10]"
    using r \<open>0 \<le> z div 10\<close> by (subst dec.simps) simp
  moreover have "dec 20 = [50, 48]" by (simp add: dec.simps [of 20] dec.simps [of 2])
  ultimately show "dec y = year4 y" using z(1) by (simp add: year4_def dec2_def)
  have n: "0 \<le> y - 2000" "y - 2000 < 100" using y by simp_all
  show "list_all ascii_digit (year4 y)" "length (year4 y) = 4"
    using dec2_simps [OF n] by (simp_all add: year4_def ascii_digit_def)
  have "dec_value ([50, 48] @ dec2 (y - 2000)) = y"
    unfolding dec_value_append using dec2_simps [OF n] by (simp add: dec_value_def)
  then show "dec_value (year4 y) = y" by (simp add: year4_def)
qed

lemma padded_dec2:
  assumes "0 \<le> n" and "n < 100"
  shows "zero_padded 2 (dec n) = dec2 n" and "zero_padded 2 (dec2 n) = dec2 n"
proof -
  have "dec n = (if n < 10 then [48 + n] else [48 + n div 10, 48 + n mod 10])"
    using assms by (simp add: dec.simps [of n] dec.simps [of "n div 10"]) presburger
  then show "zero_padded 2 (dec n) = dec2 n" using assms by (simp add: zero_padded_def dec2_def)
qed (simp add: zero_padded_def dec2_def)

text \<open>A date of the calendar in the parser's range.\<close>

definition proper_date :: "calendar \<Rightarrow> naive_date \<Rightarrow> bool" where
  "proper_date C dt \<longleftrightarrow> cal_day C (nd_year dt) (nd_month dt) (nd_day dt) = Some (nd_number dt)
     \<and> year_ok (nd_year dt) \<and> 1 \<le> nd_month dt \<and> nd_month dt \<le> 12 \<and> 1 \<le> nd_day dt \<and> nd_day dt \<le> 31"

lemma display_form:
  assumes "proper_date C dt"
  shows "fmt_display dt = dec2 (nd_day dt) @ 47 # dec2 (nd_month dt) @ 47 # year4 (nd_year dt)"
  using assms padded_dec2(1) [of "nd_day dt"] padded_dec2(1) [of "nd_month dt"] year4_simps(1)
  by (simp add: proper_date_def fmt_display_def)

lemma parts_of_date:
  assumes "proper_date C dt"
  shows "list_all ascii_digit (dec2 (nd_day dt))" "list_all ascii_digit (dec2 (nd_month dt))"
    "list_all ascii_digit (year4 (nd_year dt))"
    and "parse_u32 (dec2 (nd_day dt)) = Some (nd_day dt)" "parse_u32 (dec2 (nd_month dt)) = Some (nd_month dt)"
    "parse_i32 (year4 (nd_year dt)) = Some (nd_year dt)"
    and "byte_len (year4 (nd_year dt)) = 4"
    and "from_ymd_opt C (nd_year dt) (nd_month dt) (nd_day dt) = Some dt"
proof -
  have d: "0 \<le> nd_day dt" "nd_day dt < 100" and m: "0 \<le> nd_month dt" "nd_month dt < 100"
    and y: "year_ok (nd_year dt)" using assms by (simp_all add: proper_date_def)
  note ds = dec2_simps [OF d] and ms = dec2_simps [OF m] and ys = year4_simps [OF y]
  show "list_all ascii_digit (dec2 (nd_day dt))" "list_all ascii_digit (dec2 (nd_month dt))"
    "list_all ascii_digit (year4 (nd_year dt))" using ds ms ys by simp_all
  have "dec2 n \<noteq> []" "year4 n \<noteq> []" for n by (simp_all add: dec2_def year4_def)
  then have digits: "ascii_digits (dec2 (nd_day dt))" "ascii_digits (dec2 (nd_month dt))"
    "ascii_digits (year4 (nd_year dt))" using ds ms ys by (simp_all add: ascii_digits_def)
  have "nd_year dt < 2 ^ 31" "nd_day dt < 2 ^ 31" "nd_month dt < 2 ^ 31"
    using y d m by (simp_all add: year_ok_def year_max_def)
  then show "parse_u32 (dec2 (nd_day dt)) = Some (nd_day dt)" "parse_u32 (dec2 (nd_month dt)) = Some (nd_month dt)"
    "parse_i32 (year4 (nd_year dt)) = Some (nd_year dt)"
    using parse_digits [OF digits(1)] parse_digits [OF digits(2)] parse_digits [OF digits(3)] ds ms ys by simp_all
  show "byte_len (year4 (nd_year dt)) = 4" using ys by (simp add: byte_len_digits)
  show "from_ymd_opt C (nd_year dt) (nd_month dt) (nd_day dt) = Some dt"
    using assms by (simp add: from_ymd_opt_def proper_date_def)
qed

lemma two_chars: "\<exists>a b. dec2 n = [a, b]" and four_chars: "\<exists>a b c e. year4 n = [a, b, c, e]"
  by (simp_all add: dec2_def year4_def)

lemma parse_without_white:
  assumes "\<And>c. c \<in> set s \<Longrightarrow> \<not> white c"
  shows "trimmed s = s" and "split_whitespace s = (if s = [] then [] else [s])"
  using trimmed_no_white [OF assms] split_at_none [OF assms] by (simp_all add: split_whitespace_def)

lemma parse_date_plain:
  assumes "\<And>c. c \<in> set s \<Longrightarrow> \<not> white c" and "s \<noteq> []"
  shows "parse_date C U s = map_option ok_date
    (or_else (by_numbers C U s)
    (or_else (by_month_name C U (re_dd_mon_yyyy U) s)
    (or_else (by_month_name C U (re_ddmonyyyy_nosep U) s)
      (case captures (re_iso U) s of
         None \<Rightarrow> by_compact C s
       | Some g \<Rightarrow>
          (case by_iso C (the (g 1)) (the (g 2)) (the (g 3)) of
             None \<Rightarrow> None | Some (Some dt) \<Rightarrow> Some dt | Some None \<Rightarrow> by_compact C s)))))"
  using parse_without_white [OF assms(1)] assms(2) by (simp add: parse_date_def)

lemma parse_display:
  assumes "unicode_ok U" and "proper_date C dt"
  shows "parse_date C U (fmt_display dt) = Some (ok_date dt)" and "trimmed (fmt_display dt) = fmt_display dt"
proof -
  note form = display_form [OF assms(2)] and parts = parts_of_date [OF assms(2)]
  obtain a b c e f g h i where
    two: "dec2 (nd_day dt) = [a, b]" "dec2 (nd_month dt) = [c, e]" "year4 (nd_year dt) = [f, g, h, i]"
    using two_chars four_chars by metis
  have std: "std_digits U [a, b, c, e, f, g, h, i]"
    using parts(1-3) std_digitsI [OF assms(1), of "[a, b, c, e, f, g, h, i]"] by (simp add: two)
  let ?s = "[a, b, 47, c, e, 47, f, g, h, i]"
  have s: "fmt_display dt = ?s" by (simp add: form two)
  have black: "\<not> white x" if "x \<in> set ?s" for x
    using that std separators(5) [OF assms(1)] by (auto simp: std_digits_def)
  show "trimmed (fmt_display dt) = fmt_display dt" unfolding s by (rule parse_without_white(1) [OF black])
  have "by_numbers C U ?s = Some dt"
    using slashed_captures [OF assms(1) std] parts two assms(2)
    by (simp add: by_numbers_def make_date_def proper_date_def)
  then show "parse_date C U (fmt_display dt) = Some (ok_date dt)"
    unfolding s by (subst parse_date_plain [OF black]) (simp_all add: or_else_def)
qed

lemma tally_of_display:
  assumes "proper_date C dt"
  shows "tally_date (fmt_display dt) = year4 (nd_year dt) @ dec2 (nd_month dt) @ dec2 (nd_day dt)"
proof -
  note form = display_form [OF assms] and parts = parts_of_date [OF assms]
  have sep: "\<not> (c = 47 \<or> c = 45)" if "list_all ascii_digit w" "c \<in> set w" for c w
    using that by (auto simp: list_all_iff ascii_digit_def)
  have "split_at (\<lambda>c. c = 47 \<or> c = 45) (fmt_display dt)
      = [dec2 (nd_day dt), dec2 (nd_month dt), year4 (nd_year dt)]"
    unfolding form
    using split_at_append [OF sep [OF parts(1)], where x = 47 and s = "dec2 (nd_month dt) @ 47 # year4 (nd_year dt)"]
      split_at_append [OF sep [OF parts(2)], where x = 47 and s = "year4 (nd_year dt)"] split_at_none [OF sep [OF parts(3)]]
    by simp
  moreover have "zero_padded 2 (dec2 n) = dec2 n" for n by (simp add: zero_padded_def dec2_def)
  ultimately show ?thesis using parts(7) by (simp add: tally_date_def)
qed

lemma parse_tally:
  assumes "unicode_ok U" and "proper_date C dt"
  shows "parse_date C U (tally_date (fmt_display dt)) = Some (ok_date dt)"
    and "trimmed (tally_date (fmt_display dt)) = tally_date (fmt_display dt)"
proof -
  note parts = parts_of_date [OF assms(2)]
  obtain a b c e f g h i where
    two: "dec2 (nd_day dt) = [h, i]" "dec2 (nd_month dt) = [f, g]" "year4 (nd_year dt) = [a, b, c, e]"
    using two_chars four_chars by metis
  have std: "std_digits U [a, b, c, e, f, g, h, i]"
    using parts(1-3) std_digitsI [OF assms(1), of "[a, b, c, e, f, g, h, i]"] by (simp add: two)
  let ?s = "[a, b, c, e, f, g, h, i]"
  have s: "tally_date (fmt_display dt) = ?s" by (simp add: tally_of_display [OF assms(2)] two)
  have black: "\<not> white x" if "x \<in> set ?s" for x using that std by (auto simp: std_digits_def)
  show "trimmed (tally_date (fmt_display dt)) = tally_date (fmt_display dt)"
    unfolding s by (rule parse_without_white(1) [OF black])
  have "by_iso C [a, b, c, e] [f, g] [h, i] = Some (Some dt)"
    using parts two assms(2) by (simp add: by_iso_def proper_date_def)
  then have "by_compact C ?s = Some dt"
    using compact_captures(5) [OF assms(1) std] by (simp add: by_compact_def eval_nat_numeral)
  moreover have "by_numbers C U ?s = None" "by_month_name C U (re_dd_mon_yyyy U) ?s = None"
    "by_month_name C U (re_ddmonyyyy_nosep U) ?s = None" "captures (re_iso U) ?s = None"
    using compact_captures [OF assms(1) std] by (simp_all add: by_numbers_def by_month_name_def)
  ultimately show "parse_date C U (tally_date (fmt_display dt)) = Some (ok_date dt)"
    unfolding s by (subst parse_date_plain [OF black]) (simp_all add: or_else_def)
qed

lemma normalize_parsed:
  assumes "trimmed s = s" and "parse_date C U s = Some pd"
  shows "normalize_transaction_date C U s = pd"
  using assms by (simp add: normalize_transaction_date_def)

lemma date_roundtrip_display:
  assumes "unicode_ok U" and "proper_date C dt"
  shows "normalize_transaction_date C U (fmt_display dt) = ok_date dt"
  by (rule normalize_parsed [OF parse_display(2,1) [OF assms]])

text \<open>C23: every date of the calendar in the years 2000 to 2099 is read back from its display form and from
  the form the Tally export gives that, with its timestamp, and \<open>display_to_ts\<close> agrees.\<close>

theorem date_roundtrip:
  assumes "unicode_ok U" and "proper_date C dt"
  shows "normalize_transaction_date C U (fmt_display dt) = ok_date dt
    \<and> normalize_transaction_date C U (tally_date (fmt_display dt)) = ok_date dt
    \<and> display_to_ts C (fmt_display dt) = date_to_ts dt"
proof (intro conjI)
  show "normalize_transaction_date C U (fmt_display dt) = ok_date dt"
    by (rule date_roundtrip_display [OF assms])
  show "normalize_transaction_date C U (tally_date (fmt_display dt)) = ok_date dt"
    by (rule normalize_parsed [OF parse_tally(2,1) [OF assms]])
  note parts = parts_of_date [OF assms(2)]
  have sep: "c \<noteq> 47" if "list_all ascii_digit w" "c \<in> set w" for c w
    using that by (auto simp: list_all_iff ascii_digit_def)
  have "splitn 3 47 (dec2 (nd_day dt) @ 47 # dec2 (nd_month dt) @ 47 # year4 (nd_year dt))
      = [dec2 (nd_day dt), dec2 (nd_month dt), year4 (nd_year dt)]"
    using sep [OF parts(1)] sep [OF parts(2)] by (simp add: eval_nat_numeral takeWhile_append dropWhile_append)
  then show "display_to_ts C (fmt_display dt) = date_to_ts dt"
    using parts by (simp add: display_to_ts_def display_form [OF assms(2)])
qed

subsection \<open>Nothing else is recognised\<close>

text \<open>chrono's calendar has twelve months of at most thirty-one days.\<close>

definition calendar_ok :: "calendar \<Rightarrow> bool" where
  "calendar_ok C \<longleftrightarrow> (\<forall>y m d n. cal_day C y m d = Some n \<longrightarrow> 1 \<le> m \<and> m \<le> 12 \<and> 1 \<le> d \<and> d \<le> 31)"

definition found_date :: "calendar \<Rightarrow> naive_date \<Rightarrow> bool" where
  "found_date C dt \<longleftrightarrow> year_ok (nd_year dt) \<and> cal_day C (nd_year dt) (nd_month dt) (nd_day dt) = Some (nd_number dt)"

lemma found_proper: "calendar_ok C \<Longrightarrow> found_date C dt \<Longrightarrow> proper_date C dt"
  by (auto simp: calendar_ok_def found_date_def proper_date_def)

lemma found_from_ymd: "year_ok y \<Longrightarrow> from_ymd_opt C y m d = Some dt \<Longrightarrow> found_date C dt"
  by (auto simp: from_ymd_opt_def found_date_def)

lemma found_make_date: "make_date C dd mm yy = Some dt \<Longrightarrow> found_date C dt"
  by (auto simp: make_date_def Let_def intro: found_from_ymd split: option.splits if_splits)

lemma found_by:
  "by_numbers C U s = Some dt \<Longrightarrow> found_date C dt"
  "by_month_name C U r s = Some dt \<Longrightarrow> found_date C dt"
  "by_iso C a b c = Some (Some dt) \<Longrightarrow> found_date C dt"
  "by_compact C s = Some dt \<Longrightarrow> found_date C dt"
proof -
  show iso: "by_iso C a b c = Some (Some dt) \<Longrightarrow> found_date C dt" for a b c
    by (auto simp: by_iso_def intro: found_from_ymd split: option.splits if_splits)
  show "by_numbers C U s = Some dt \<Longrightarrow> found_date C dt" "by_month_name C U r s = Some dt \<Longrightarrow> found_date C dt"
    by (auto simp: by_numbers_def by_month_name_def bind_eq_Some_conv intro: found_make_date)
  show "by_compact C s = Some dt \<Longrightarrow> found_date C dt"
    by (auto simp: by_compact_def bind_eq_Some_conv intro: iso split: if_splits)
qed

lemma found_parse: "parse_date C U s = Some pd \<Longrightarrow> \<exists>dt. found_date C dt \<and> pd = ok_date dt"
  by (auto simp: parse_date_def Let_def or_else_def dest: found_by split: if_splits option.splits)

lemma normalize_found:
  "(\<exists>dt. found_date C dt \<and> normalize_transaction_date C U raw = ok_date dt)
    \<or> normalize_transaction_date C U raw = parsed_fail (trimmed raw)"
  unfolding normalize_transaction_date_def Let_def
  by (auto split: option.split dest: found_parse)

text \<open>Whatever text is given, the result is either a date of the calendar within 2000 to 2099, in its
  display form and with its timestamp, or the trimmed text marked invalid with timestamp 0; and
  normalising the display text again gives the same result.\<close>

lemma date_normal_form:
  assumes "unicode_ok U" and "calendar_ok C"
  shows "((\<exists>dt. proper_date C dt \<and> normalize_transaction_date C U raw = ok_date dt)
      \<or> normalize_transaction_date C U raw = parsed_fail (trimmed raw))
    \<and> normalize_transaction_date C U (pd_display (normalize_transaction_date C U raw))
      = normalize_transaction_date C U raw"
proof (rule disjE [OF normalize_found [of C U raw]])
  assume "\<exists>dt. found_date C dt \<and> normalize_transaction_date C U raw = ok_date dt"
  then obtain dt where dt: "found_date C dt" "normalize_transaction_date C U raw = ok_date dt" by blast
  then have "proper_date C dt" using found_proper [OF assms(2)] by simp
  moreover from date_roundtrip_display [OF assms(1) this]
  have "normalize_transaction_date C U (pd_display (ok_date dt)) = ok_date dt"
    by (simp add: ok_date_def parsed_ok_def)
  ultimately show ?thesis using dt(2) by auto
next
  assume fails: "normalize_transaction_date C U raw = parsed_fail (trimmed raw)"
  have "normalize_transaction_date C U (trimmed raw) = normalize_transaction_date C U raw"
    by (simp add: normalize_transaction_date_def)
  with fails show ?thesis by (simp add: parsed_fail_def)
qed

end
