(* ===== verification/StableSort.thy ===== *)
theory StableSort
  imports Text "HOL-Library.Multiset"
begin

text \<open>
  \<open>slice::sort_by\<close>: a stable sort by a comparison. An element is placed behind those that come before it
  by the comparison and in front of its equals. Where the comparison is that of a rank, the result is
  sorted by rank and elements of equal rank keep their order.
\<close>

fun insert_by :: "('a \<Rightarrow> 'a \<Rightarrow> bool) \<Rightarrow> 'a \<Rightarrow> 'a list \<Rightarrow> 'a list" where
  "insert_by earlier x [] = [x]"
| "insert_by earlier x (y # ys) = (if earlier y x then y # insert_by earlier x ys else x # y # ys)"

definition stable_sort :: "('a \<Rightarrow> 'a \<Rightarrow> bool) \<Rightarrow> 'a list \<Rightarrow> 'a list" where
  "stable_sort earlier xs = foldr (insert_by earlier) xs []"

lemma stable_sort_simps [simp]:
  "stable_sort earlier [] = []"
  "stable_sort earlier (x # xs) = insert_by earlier x (stable_sort earlier xs)"
  by (simp_all add: stable_sort_def)

lemma mset_insert_by [simp]: "mset (insert_by earlier x ys) = add_mset x (mset ys)"
  by (induction ys) auto

lemma mset_stable_sort [simp]: "mset (stable_sort earlier xs) = mset xs"
  by (induction xs) auto

lemma set_stable_sort [simp]: "set (stable_sort earlier xs) = set xs"
  by (rule mset_eq_setD) simp

lemma length_stable_sort [simp]: "length (stable_sort earlier xs) = length xs"
  by (rule mset_eq_length) simp

locale ranked =
  fixes earlier :: "'a \<Rightarrow> 'a \<Rightarrow> bool" and rank :: "'a \<Rightarrow> 'r::linorder" and proper :: "'a \<Rightarrow> bool"
  assumes earlier_rank: "proper x \<Longrightarrow> proper y \<Longrightarrow> earlier x y \<longleftrightarrow> rank x < rank y"
begin

lemma sorted_insert:
  assumes "list_all proper (x # ys)" and "sorted (map rank ys)"
  shows "sorted (map rank (insert_by earlier x ys))"
  using assms
proof (induction ys)
  case (Cons y ys)
  have "set (insert_by earlier x ys) = insert x (set ys)"
    using mset_insert_by [of earlier x ys] by (metis set_mset_add_mset_insert set_mset_mset)
  with Cons earlier_rank [of y x] show ?case by (auto simp: list_all_iff)
qed simp

lemma sorted_by_rank: "list_all proper xs \<Longrightarrow> sorted (map rank (stable_sort earlier xs))"
  by (induction xs) (simp_all add: sorted_insert list_all_iff)

lemma insert_keeps_equals:
  assumes "list_all proper (x # ys)" and "sorted (map rank ys)"
  shows "filter (\<lambda>y. rank y = r) (insert_by earlier x ys) = filter (\<lambda>y. rank y = r) (x # ys)"
  using assms earlier_rank by (induction ys) (auto simp: list_all_iff)

lemma keeps_equals:
  "list_all proper xs \<Longrightarrow> filter (\<lambda>y. rank y = r) (stable_sort earlier xs) = filter (\<lambda>y. rank y = r) xs"
proof (induction xs)
  case (Cons x xs)
  then have "list_all proper (x # stable_sort earlier xs)" by (simp add: list_all_iff)
  with Cons show ?case using sorted_by_rank [of xs] by (simp add: insert_keeps_equals)
qed simp

lemma later_not_earlier:
  assumes "list_all proper xs"
  shows "sorted_wrt (\<lambda>x y. \<not> earlier y x) (stable_sort earlier xs)"
proof -
  have "sorted_wrt (\<lambda>x y. rank x \<le> rank y) (stable_sort earlier xs)"
    using sorted_by_rank [OF assms] by (simp add: sorted_map)
  moreover have "\<not> earlier y x" if "x \<in> set xs" "y \<in> set xs" "rank x \<le> rank y" for x y
    using that assms by (simp add: list_all_iff earlier_rank not_less)
  ultimately show ?thesis by (elim sorted_wrt_mono_rel [rotated]) simp
qed

end

end
