(* ===== verification/BankMatching.thy ===== *)
theory BankMatching
  imports DateParser AmountParser StableSort
begin

text \<open>
  \<open>src/reconciliation.rs\<close>: matching bank transactions against the vouchers of a Tally export. Pairs
  are scored by amount, date, narration and reference, and assigned greedily from the best score down.
  Hash sets of tokens are lists without repetition, as only their sizes are used; scores are doubles.
\<close>

datatype match_status = Matched | Likely | Possible | Unmatched

fun match_status_as_str :: "match_status \<Rightarrow> chars" where
  "match_status_as_str Matched = lit ''Matched''"
| "match_status_as_str Likely = lit ''Likely''"
| "match_status_as_str Possible = lit ''Possible''"
| "match_status_as_str Unmatched = lit ''Unmatched''"

record voucher =
  vch_date :: chars
  vch_amount :: f64
  vch_narration :: chars
  vch_voucher_no :: chars
  vch_voucher_type :: chars
  vch_ledger :: chars

record bank_entry =
  be_date :: chars
  be_amount :: f64
  be_narration :: chars
  be_reference :: chars

record recon_config =
  rc_date_fuzzy_days :: int
  rc_amount_fuzzy_pct :: f64
  rc_narr_similarity_min :: f64
  rc_auto_accept_above :: f64
  rc_flag_below_confidence :: f64

definition recon_config_new :: "int \<Rightarrow> f64 \<Rightarrow> recon_config" where
  "recon_config_new days pct = \<lparr> rc_date_fuzzy_days = days, rc_amount_fuzzy_pct = pct,
     rc_narr_similarity_min = f64_of (55 / 100), rc_auto_accept_above = f64_of (90 / 100),
     rc_flag_below_confidence = f64_of (40 / 100) \<rparr>"

record match_pair =
  mp_bank_idx :: nat
  mp_voucher_idx :: nat
  mp_score :: f64
  mp_status :: match_status

record recon_report =
  rr_matches :: "match_pair list"
  rr_unmatched_bank :: "nat list"
  rr_unmatched_vouchers :: "nat list"

definition status_count :: "match_status \<Rightarrow> recon_report \<Rightarrow> nat" where
  "status_count st r = length (filter (\<lambda>m. mp_status m = st) (rr_matches r))"

subsection \<open>Narrations\<close>

definition tokenize :: "unicode \<Rightarrow> chars \<Rightarrow> chars list" where
  "tokenize U s =
    remdups (filter (\<lambda>t. 4 \<le> length t)
      (split_whitespace (map (\<lambda>c. if ascii_alnum c then c else 32) (to_uppercase U s))))"

definition narr_similarity :: "unicode \<Rightarrow> chars \<Rightarrow> chars \<Rightarrow> f64" where
  "narr_similarity U a b =
    (let sa = tokenize U a; sb = tokenize U b in
     if sa = [] \<or> sb = [] then f64_zero
     else
       let common = length (filter (\<lambda>t. t \<in> set sb) sa) in
       f64_div (f64_of (of_nat common)) (f64_of (of_nat (length sa + length sb - common))))"

subsection \<open>Amounts and dates\<close>

definition amount_match :: "f64 \<Rightarrow> f64 \<Rightarrow> f64 \<Rightarrow> bool" where
  "amount_match a0 b0 fuzz_pct =
    (let a = f64_abs a0; b = f64_abs b0 in
     if f64_eq a f64_zero \<and> f64_eq b f64_zero then True
     else if f64_eq a f64_zero \<or> f64_eq b f64_zero then False
     else f64_le (f64_abs (f64_sub a b)) (f64_mul (f64_max a b) (f64_div fuzz_pct (f64_of 100))))"

definition days_diff :: "calendar \<Rightarrow> unicode \<Rightarrow> chars \<Rightarrow> chars \<Rightarrow> f64 option" where
  "days_diff C U a b =
    (let pa = normalize_transaction_date C U a; pb = normalize_transaction_date C U b in
     if \<not> pd_valid pa \<or> \<not> pd_valid pb then None
     else Some (f64_div (f64_of (of_int \<bar>pd_ts pa - pd_ts pb\<bar>)) (f64_of 86400000)))"

subsection \<open>Scores\<close>

definition amount_points :: "recon_config \<Rightarrow> f64 \<Rightarrow> f64 \<Rightarrow> f64" where
  "amount_points cfg a b =
    (if amount_match a b f64_zero then f64_of (40 / 100)
     else if amount_match a b (rc_amount_fuzzy_pct cfg) then f64_of (30 / 100)
     else f64_of (10 / 100))"

definition date_points :: "recon_config \<Rightarrow> f64 \<Rightarrow> f64 option" where
  "date_points cfg days =
    (if f64_eq days f64_zero then Some (f64_of (40 / 100))
     else if f64_le days (f64_of 1) then Some (f64_of (30 / 100))
     else if f64_le days (f64_of (of_int (rc_date_fuzzy_days cfg))) then Some (f64_of (20 / 100))
     else if f64_le days (f64_of (of_int (rc_date_fuzzy_days cfg * 2))) then Some (f64_of (5 / 100))
     else None)"

definition add_narration :: "recon_config \<Rightarrow> f64 \<Rightarrow> f64 \<Rightarrow> f64" where
  "add_narration cfg narr score =
    (if f64_le (f64_of (80 / 100)) narr then f64_add score (f64_of (20 / 100))
     else if f64_le (rc_narr_similarity_min cfg) narr then f64_add score (f64_mul narr (f64_of (15 / 100)))
     else score)"

definition add_reference :: "chars \<Rightarrow> chars \<Rightarrow> f64 \<Rightarrow> f64" where
  "add_reference reference voucher_no score =
    (let bref = trimmed reference; vref = trimmed voucher_no in
     if bref \<noteq> [] \<and> vref \<noteq> [] \<and> bref = vref then f64_add score (f64_of (20 / 100)) else score)"

definition score_match :: "calendar \<Rightarrow> unicode \<Rightarrow> recon_config \<Rightarrow> bank_entry \<Rightarrow> voucher \<Rightarrow> f64" where
  "score_match C U cfg bank vch =
    (if \<not> amount_match (be_amount bank) (vch_amount vch) (f64_mul (rc_amount_fuzzy_pct cfg) (f64_of 2))
     then f64_zero
     else
       let score = f64_add f64_zero (amount_points cfg (be_amount bank) (vch_amount vch)) in
       case days_diff C U (be_date bank) (vch_date vch) of
         None \<Rightarrow> f64_zero
       | Some days \<Rightarrow>
          (case date_points cfg days of
             None \<Rightarrow> f64_zero
           | Some points \<Rightarrow>
              round2 (f64_min (add_reference (be_reference bank) (vch_voucher_no vch)
                (add_narration cfg (narr_similarity U (be_narration bank) (vch_narration vch))
                  (f64_add score points))) (f64_of 1))))"

definition status_from_score :: "recon_config \<Rightarrow> f64 \<Rightarrow> match_status" where
  "status_from_score cfg score =
    (if f64_le (rc_auto_accept_above cfg) score then Matched
     else if f64_le (rc_flag_below_confidence cfg) score then Likely
     else if f64_less f64_zero score then Possible
     else Unmatched)"

subsection \<open>Greedy assignment\<close>

type_synonym candidate = "nat \<times> nat \<times> f64"

text \<open>Stable sort with the best score first.\<close>

definition beats :: "candidate \<Rightarrow> candidate \<Rightarrow> bool" where
  "beats x y = f64_less (snd (snd y)) (snd (snd x))"

definition sort_candidates :: "candidate list \<Rightarrow> candidate list" where
  "sort_candidates xs = stable_sort beats xs"

definition candidates :: "(bank_entry \<Rightarrow> voucher \<Rightarrow> f64) \<Rightarrow> bank_entry list \<Rightarrow> voucher list \<Rightarrow> candidate list" where
  "candidates score bank vouchers =
    concat (map (\<lambda>bi. map (\<lambda>vi. (bi, vi, score (bank ! bi) (vouchers ! vi)))
        (filter (\<lambda>vi. f64_less f64_zero (score (bank ! bi) (vouchers ! vi))) [0..<length vouchers]))
      [0..<length bank])"

text \<open>The loop over the sorted candidates, with the two vectors of used flags.\<close>

fun assign :: "recon_config \<Rightarrow> candidate list \<Rightarrow> bool list \<Rightarrow> bool list
    \<Rightarrow> match_pair list \<times> bool list \<times> bool list" where
  "assign cfg [] bank_used voucher_used = ([], bank_used, voucher_used)"
| "assign cfg ((bi, vi, score) # cs) bank_used voucher_used =
    (if bank_used ! bi \<or> voucher_used ! vi then assign cfg cs bank_used voucher_used
     else
       let (ms, bu, vu) = assign cfg cs (bank_used[bi := True]) (voucher_used[vi := True]) in
       (\<lparr> mp_bank_idx = bi, mp_voucher_idx = vi, mp_score = score,
          mp_status = status_from_score cfg score \<rparr> # ms, bu, vu))"

definition reconcile :: "calendar \<Rightarrow> unicode \<Rightarrow> recon_config \<Rightarrow> bank_entry list \<Rightarrow> voucher list \<Rightarrow> recon_report" where
  "reconcile C U cfg bank vouchers =
    (let cs = sort_candidates (candidates (score_match C U cfg) bank vouchers);
         (ms, bu, vu) = assign cfg cs (replicate (length bank) False) (replicate (length vouchers) False) in
     \<lparr> rr_matches = ms,
       rr_unmatched_bank = filter (\<lambda>i. \<not> bu ! i) [0..<length bank],
       rr_unmatched_vouchers = filter (\<lambda>i. \<not> vu ! i) [0..<length vouchers] \<rparr>)"

subsection \<open>The Tally export\<close>

fun position :: "('a \<Rightarrow> bool) \<Rightarrow> 'a list \<Rightarrow> nat option" where
  "position p [] = None"
| "position p (x # xs) = (if p x then Some 0 else map_option Suc (position p xs))"

definition cell_at :: "chars list \<Rightarrow> nat option \<Rightarrow> chars" where
  "cell_at row idx = (case idx of None \<Rightarrow> [] | Some i \<Rightarrow> if i < length row then row ! i else [])"

definition tally_amount :: "unicode \<Rightarrow> chars \<Rightarrow> f64" where
  "tally_amount U raw =
    (let cleaned = filter (\<lambda>c. c \<notin> {0x20B9, 44, 32}) raw;
         s = drop_parts (lit ''DR'') 0 (drop_parts (lit ''CR'') 0 (to_uppercase U cleaned)) in
     f64_abs (case parse_f64 (trimmed s) of None \<Rightarrow> f64_zero | Some x \<Rightarrow> x))"

definition tally_voucher ::
  "unicode \<Rightarrow> nat \<Rightarrow> nat \<Rightarrow> nat option \<Rightarrow> nat option \<Rightarrow> nat option \<Rightarrow> nat option \<Rightarrow> nat option
    \<Rightarrow> chars list \<Rightarrow> voucher option" where
  "tally_voucher U date_col narr_col amt_col credit_col voucher_col type_col ledger_col row =
    (let raw_date = cell_at row (Some date_col); raw_narr = cell_at row (Some narr_col) in
     if trimmed raw_date = [] then None
     else
       let raw_amt = cell_at row amt_col;
           amt = (if trimmed raw_amt \<noteq> [] then tally_amount U raw_amt else tally_amount U (cell_at row credit_col)) in
       if f64_le amt f64_zero \<and> trimmed raw_narr = [] then None
       else Some \<lparr> vch_date = trimmed raw_date, vch_amount = amt, vch_narration = trimmed raw_narr,
         vch_voucher_no = trimmed (cell_at row voucher_col), vch_voucher_type = trimmed (cell_at row type_col),
         vch_ledger = trimmed (cell_at row ledger_col) \<rparr>)"

definition parse_tally_grid :: "unicode \<Rightarrow> chars list list \<Rightarrow> voucher list" where
  "parse_tally_grid U rows =
    (if length rows < 2 then []
     else
       let header = map (to_lowercase U) (hd rows);
           col = (\<lambda>name. position (has_part (lit name)) header);
           narr_col = or_else (col ''particular'') (or_else (col ''narration'') (col ''description''));
           amt_col = or_else (col ''amount'') (col ''debit'') in
       case (col ''date'', narr_col) of
         (Some d, Some n) \<Rightarrow>
           map the (filter (\<lambda>v. v \<noteq> None)
             (map (tally_voucher U d n amt_col (col ''credit'') (col ''voucher'') (col ''type'') (col ''ledger''))
               (tl rows)))
       | _ \<Rightarrow> [])"

subsection \<open>The report as CSV\<close>

definition csv_field :: "chars \<Rightarrow> chars" where
  "csv_field s = [34] @ concat (map (\<lambda>c. if c = 34 then [34, 34] else [c]) s) @ [34]"

definition csv_line :: "chars list \<Rightarrow> chars" where
  "csv_line cells = join_with [44] (map csv_field cells)"

definition csv_header :: chars where
  "csv_header = lit ''Match Status,Bank Date,Bank Amount,Bank Narration,Voucher Date,Voucher Amount,Voucher Narration,Voucher No,Confidence''"

definition report_to_csv :: "bank_entry list \<Rightarrow> voucher list \<Rightarrow> recon_report \<Rightarrow> chars" where
  "report_to_csv bank vouchers report =
    join_with [10] (csv_header
      # map (\<lambda>m. let b = bank ! mp_bank_idx m; v = vouchers ! mp_voucher_idx m in
          csv_line [match_status_as_str (mp_status m), be_date b, format_fixed 2 (be_amount b), be_narration b,
            vch_date v, format_fixed 2 (vch_amount v), vch_narration v, vch_voucher_no v,
            format_fixed 0 (f64_mul (mp_score m) (f64_of 100)) @ lit ''%'']) (rr_matches report)
      @ map (\<lambda>bi. let b = bank ! bi in
          csv_line [lit ''UNMATCHED-BANK'', be_date b, format_fixed 2 (be_amount b), be_narration b,
            [], [], [], [], lit ''0%'']) (rr_unmatched_bank report)
      @ map (\<lambda>vi. let v = vouchers ! vi in
          csv_line [lit ''MISSING-IN-BANK'', [], [], [], vch_date v, format_fixed 2 (vch_amount v),
            vch_narration v, vch_voucher_no v, lit ''0%'']) (rr_unmatched_vouchers report))"

end
