(* ===== verification/MatchingFacts.thy ===== *)
theory MatchingFacts
  imports BankMatching AmountFacts
begin

text \<open>
  Scores and the assignment: a score is a whole percentage, the report is a matching that accounts for
  every transaction and every voucher, and no pair that was left apart could both do better together.
\<close>

subsection \<open>Scores\<close>

definition upto :: "rat \<Rightarrow> f64 \<Rightarrow> bool" where
  "upto b x \<longleftrightarrow> (\<exists>m. x = Finite False m \<and> 0 \<le> m \<and> m \<le> b)"

lemma upto_mono: "upto b x \<Longrightarrow> b \<le> c \<Longrightarrow> upto c x"
  by (auto simp: upto_def)

lemma upto_zero [simp]: "0 \<le> b \<Longrightarrow> upto b f64_zero"
  by (simp add: upto_def f64_zero_def)

lemma upto_rounded:
  assumes "0 \<le> x" and "x \<le> 100"
  shows "upto (2 * x + 1) (rounded False x)"
proof (cases "x = 0")
  case True
  then show ?thesis by (simp add: upto_def rounded_def)
next
  case False
  have le: "nearest x \<le> 2 * x + 1"
  proof (cases "x < 1")
    case True
    with False assms(1) have "\<bar>nearest x - x\<bar> \<le> 1 / 4" by (intro nearest_small) simp_all
    with assms(1) show ?thesis by linarith
  next
    case False
    then have "\<bar>nearest x - x\<bar> \<le> x / 2 ^ 53" by (intro nearest_close) simp
    moreover have "x / 2 ^ 53 \<le> x" using assms(1) by (simp add: field_simps)
    ultimately show ?thesis using assms(1) by linarith
  qed
  then have "nearest x < 2 ^ 8" using assms(2) by simp
  also have "(2::rat) ^ 8 < 2 ^ 1024" by (intro power_strict_increasing) simp_all
  finally show ?thesis using False le assms(1) nearest_nonneg [OF assms(1)]
    by (simp add: upto_def rounded_def Let_def)
qed

lemma upto_of: "0 \<le> x \<Longrightarrow> x \<le> b \<Longrightarrow> b \<le> 100 \<Longrightarrow> upto (2 * b + 1) (f64_of x)"
  using upto_rounded [of x] by (auto simp: f64_of_def intro: upto_mono)

lemma upto_add:
  assumes "upto a x" and "upto b y" and "a + b \<le> 100"
  shows "upto (2 * (a + b) + 1) (f64_add x y)"
proof -
  from assms(1,2) obtain m n where mn: "x = Finite False m" "y = Finite False n" "0 \<le> m" "0 \<le> n" "m \<le> a" "n \<le> b"
    by (auto simp: upto_def)
  with assms(3) have "upto (2 * (m + n) + 1) (rounded False (m + n))" by (intro upto_rounded) auto
  then show ?thesis using mn by (auto simp: signed_rat_def elim: upto_mono)
qed

definition nonneg :: "f64 \<Rightarrow> bool" where
  "nonneg x \<longleftrightarrow> x = NaN \<or> x = Infinite False \<or> (\<exists>m. x = Finite False m \<and> 0 \<le> m)"

lemma nonneg_of: "0 \<le> x \<Longrightarrow> nonneg (f64_of x)"
  using nearest_nonneg [of x] by (auto simp: nonneg_def f64_of_def rounded_def Let_def)

lemma nonneg_div: "nonneg x \<Longrightarrow> nonneg y \<Longrightarrow> nonneg (f64_div x y)"
proof -
  have "nonneg (rounded False (a / b))" if "0 \<le> a" "0 \<le> b" for a b
    using nonneg_of [of "a / b"] that by (simp add: f64_of_def)
  then show "nonneg x \<Longrightarrow> nonneg y \<Longrightarrow> nonneg (f64_div x y)"
    unfolding nonneg_def [of x] nonneg_def [of y]
    by (elim disjE exE) (auto simp: signed_rat_def nonneg_def)
qed

lemma nonneg_similarity: "nonneg (narr_similarity U a b)"
proof -
  have "0 \<le> (of_nat n :: rat)" for n by simp
  note of_count = nonneg_of [OF this]
  show ?thesis
    using nonneg_div [OF of_count of_count]
    by (auto simp: narr_similarity_def Let_def nonneg_def f64_zero_def)
qed

lemma f64_of_1 [simp]: "f64_of 1 = Finite False 1"
  using f64_of_int [of 1] by simp

lemma points_size:
  "upto 3 (amount_points cfg a b)" "date_points cfg days = Some p \<Longrightarrow> upto 3 p"
  using upto_of [of "40 / 100" 1] upto_of [of "30 / 100" 1] upto_of [of "20 / 100" 1]
    upto_of [of "10 / 100" 1] upto_of [of "5 / 100" 1]
  by (auto simp: amount_points_def date_points_def split: if_splits)

lemma narration_size:
  assumes "upto 21 score" and "nonneg narr"
  shows "upto 81 (add_narration cfg narr score)"
proof -
  have fifth: "upto 3 (f64_of (20 / 100))" and four: "upto 3 (f64_of (80 / 100))"
    and weight: "upto 3 (f64_of (15 / 100))"
    using upto_of [of "20 / 100" 1] upto_of [of "80 / 100" 1] upto_of [of "15 / 100" 1] by simp_all
  have part: "upto 19 (f64_mul narr (f64_of (15 / 100)))"
    if narr: "\<not> f64_le (f64_of (80 / 100)) narr" "narr \<noteq> NaN"
  proof -
    from four obtain e where e: "f64_of (80 / 100) = Finite False e" "e \<le> 3" by (auto simp: upto_def)
    from weight obtain f where f: "f64_of (15 / 100) = Finite False f" "0 \<le> f" "f \<le> 3"
      by (auto simp: upto_def)
    from assms(2) narr e obtain m where m: "narr = Finite False m" "0 \<le> m" "m < e"
      by (auto simp: nonneg_def f64_le_def f64_less_def f64_eq_def signed_rat_def split: if_splits)
    then have "m * f \<le> 3 * 3" using e f by (intro mult_mono) auto
    with m f have "upto (2 * (m * f) + 1) (rounded False (m * f))" by (intro upto_rounded) auto
    with \<open>m * f \<le> 3 * 3\<close> have "upto 19 (rounded False (m * f))" by (elim upto_mono) (simp add: mult.commute)
    with m f show ?thesis by (simp add: signed_rat_def)
  qed
  have "f64_le x NaN = False" for x by (cases x) (simp_all add: f64_le_def f64_less_def f64_eq_def)
  then show ?thesis
    using upto_add [OF assms(1) fifth] upto_add [OF assms(1) part] upto_mono [OF assms(1), of 81]
    by (auto simp: add_narration_def elim: upto_mono)
qed

lemma reference_size: "upto 81 score \<Longrightarrow> upto 200 (add_reference r v score)"
  using upto_add [of 81 score 3 "f64_of (20 / 100)"] upto_of [of "20 / 100" 1]
  by (auto simp: add_reference_def Let_def elim: upto_mono)

lemma amount_zero: "amount False 0 = f64_zero"
  by (simp add: amount_def f64_zero_def)

lemma score_is_percentage:
  "\<exists>n. 0 \<le> n \<and> n \<le> 100 \<and> score_match C U cfg bank vch = amount False n"
proof -
  have none: "\<exists>n. 0 \<le> n \<and> n \<le> 100 \<and> f64_zero = amount False n"
    using amount_zero by (intro exI [of _ 0]) simp
  have some: "\<exists>n. 0 \<le> n \<and> n \<le> 100 \<and> round2 (f64_min total (f64_of 1)) = amount False n"
    if "upto 200 total" for total
  proof -
    from that obtain t where t: "total = Finite False t" "0 \<le> t" by (auto simp: upto_def)
    obtain m where m: "f64_min total (f64_of 1) = Finite False m" "0 \<le> m" "m \<le> 1"
    proof (cases "1 < t")
      case True
      with t that [of 1] show ?thesis by (simp add: f64_min_def f64_less_def signed_rat_def)
    next
      case False
      with t that [of t] show ?thesis by (simp add: f64_min_def f64_less_def signed_rat_def)
    qed
    with round2_is_amount [of m 1 False] show ?thesis by auto
  qed
  have sum: "upto 21 (f64_add (f64_add f64_zero (amount_points cfg a b)) p)"
    if "date_points cfg days = Some p" for a b days p
    using upto_add [OF upto_add [OF upto_zero [of 0] points_size(1)] points_size(2) [OF that]] by simp
  show ?thesis
    unfolding score_match_def Let_def
    using none some [OF reference_size [OF narration_size [OF sum nonneg_similarity]]]
    by (auto split: option.split)
qed

subsection \<open>Sorting\<close>

definition worth :: "candidate \<Rightarrow> rat" where
  "worth x = (case snd (snd x) of Finite s m \<Rightarrow> signed_rat s m | _ \<Rightarrow> 0)"

definition finite_scores :: "candidate list \<Rightarrow> bool" where
  "finite_scores cs \<longleftrightarrow> list_all (\<lambda>x. is_finite (snd (snd x))) cs"

lemma beats_worth:
  assumes "is_finite (snd (snd x))" and "is_finite (snd (snd y))"
  shows "beats x y \<longleftrightarrow> worth y < worth x"
  using assms by (cases "snd (snd x)"; cases "snd (snd y)") (auto simp: beats_def f64_less_def worth_def)

interpretation by_score: ranked beats "\<lambda>x. - worth x" "\<lambda>x. is_finite (snd (snd x))"
  by unfold_locales (simp add: beats_worth)

lemma set_sort [simp]: "set (sort_candidates xs) = set xs"
  by (simp add: sort_candidates_def)

lemma sorted_candidates:
  "finite_scores xs \<Longrightarrow> sorted_wrt (\<lambda>a b. worth b \<le> worth a) (sort_candidates xs)"
  using by_score.sorted_by_rank [of xs] by (simp add: finite_scores_def sort_candidates_def sorted_map)

subsection \<open>The assignment\<close>

definition in_range :: "nat \<Rightarrow> nat \<Rightarrow> candidate list \<Rightarrow> bool" where
  "in_range nb nv cs \<longleftrightarrow> list_all (\<lambda>(bi, vi, _). bi < nb \<and> vi < nv) cs"

text \<open>What the loop leaves: used flags are exactly those set before or by a match, and nobody is matched twice.\<close>

lemma assign_uses:
  assumes "assign cfg cs bu vu = (ms, bu', vu')" and "in_range (length bu) (length vu) cs"
  shows "length bu' = length bu \<and> length vu' = length vu
    \<and> (\<forall>i < length bu. bu' ! i \<longleftrightarrow> bu ! i \<or> i \<in> set (map mp_bank_idx ms))
    \<and> (\<forall>i < length vu. vu' ! i \<longleftrightarrow> vu ! i \<or> i \<in> set (map mp_voucher_idx ms))
    \<and> distinct (map mp_bank_idx ms) \<and> distinct (map mp_voucher_idx ms)
    \<and> (\<forall>m \<in> set ms. \<not> bu ! mp_bank_idx m \<and> \<not> vu ! mp_voucher_idx m
         \<and> (mp_bank_idx m, mp_voucher_idx m, mp_score m) \<in> set cs
         \<and> mp_status m = status_from_score cfg (mp_score m))"
  using assms
proof (induction cs arbitrary: bu vu ms bu' vu')
  case (Cons c cs)
  obtain bi vi sc where c: "c = (bi, vi, sc)" by (cases c)
  show ?case
  proof (cases "bu ! bi \<or> vu ! vi")
    case True
    with Cons c show ?thesis by (fastforce simp: in_range_def)
  next
    case False
    obtain ms1 where rec: "assign cfg cs (bu[bi := True]) (vu[vi := True]) = (ms1, bu', vu')"
      and ms: "ms = \<lparr> mp_bank_idx = bi, mp_voucher_idx = vi, mp_score = sc, mp_status = status_from_score cfg sc \<rparr> # ms1"
      using Cons.prems(1) c False by (auto split: prod.splits)
    have range: "bi < length bu" "vi < length vu" "in_range (length (bu[bi := True])) (length (vu[vi := True])) cs"
      using Cons.prems(2) c by (simp_all add: in_range_def)
    note IH = Cons.IH [OF rec range(3)]
    have apart: "mp_bank_idx m \<noteq> bi \<and> mp_voucher_idx m \<noteq> vi" if "m \<in> set ms1" for m
      using IH that range by auto
    have old: "\<not> bu ! mp_bank_idx m \<and> \<not> vu ! mp_voucher_idx m" if "m \<in> set ms1" for m
      using IH that apart [OF that] by (metis nth_list_update_neq)
    show ?thesis
      using IH apart old False range by (auto simp: ms c nth_list_update)
  qed
qed simp

text \<open>Every candidate is taken, or one of its sides is by a candidate at least as good.\<close>

lemma assign_greedy:
  assumes "assign cfg cs bu vu = (ms, bu', vu')" and "sorted_wrt (\<lambda>a b. worth b \<le> worth a) cs"
    and "in_range (length bu) (length vu) cs" and "(bi, vi, sc) \<in> set cs"
  shows "bu ! bi \<or> vu ! vi \<or> (\<exists>m \<in> set ms. (mp_bank_idx m = bi \<or> mp_voucher_idx m = vi)
    \<and> worth (bi, vi, sc) \<le> worth (mp_bank_idx m, mp_voucher_idx m, mp_score m))"
  using assms
proof (induction cs arbitrary: bu vu ms bu' vu')
  case (Cons c cs)
  obtain b v s where c: "c = (b, v, s)" by (cases c)
  show ?case
  proof (cases "bu ! b \<or> vu ! v")
    case True
    then have skip: "assign cfg cs bu vu = (ms, bu', vu')" using Cons.prems(1) c by simp
    show ?thesis
    proof (cases "(bi, vi, sc) = c")
      case True
      with \<open>bu ! b \<or> vu ! v\<close> c show ?thesis by auto
    next
      case False
      then show ?thesis
        using Cons.IH [OF skip] Cons.prems(2-4) by (simp add: in_range_def)
    qed
  next
    case False
    obtain ms1 where rec: "assign cfg cs (bu[b := True]) (vu[v := True]) = (ms1, bu', vu')"
      and ms: "ms = \<lparr> mp_bank_idx = b, mp_voucher_idx = v, mp_score = s, mp_status = status_from_score cfg s \<rparr> # ms1"
      using Cons.prems(1) c False by (auto split: prod.splits)
    have here: "worth (bi, vi, sc) \<le> worth (b, v, s)" using Cons.prems(2,4) c by auto
    show ?thesis
    proof (cases "(bi, vi, sc) = c \<or> b = bi \<or> v = vi")
      case True
      with here ms c show ?thesis by auto
    next
      case False
      then have "(bi, vi, sc) \<in> set cs" using Cons.prems(4) by auto
      moreover have "in_range (length (bu[b := True])) (length (vu[v := True])) cs"
        using Cons.prems(3) by (simp add: in_range_def)
      ultimately have "bu[b := True] ! bi \<or> vu[v := True] ! vi
        \<or> (\<exists>m \<in> set ms1. (mp_bank_idx m = bi \<or> mp_voucher_idx m = vi)
            \<and> worth (bi, vi, sc) \<le> worth (mp_bank_idx m, mp_voucher_idx m, mp_score m))"
        using Cons.IH [OF rec] Cons.prems(2) by auto
      with False ms show ?thesis by (auto simp: nth_list_update)
    qed
  qed
qed simp

subsection \<open>The report\<close>

lemma candidates_set:
  "(bi, vi, sc) \<in> set (candidates score bank vouchers) \<longleftrightarrow>
    bi < length bank \<and> vi < length vouchers \<and> sc = score (bank ! bi) (vouchers ! vi) \<and> f64_less f64_zero sc"
  by (auto simp: candidates_def)

lemma score_finite: "is_finite (score_match C U cfg b v)"
  using score_is_percentage [of C U cfg b v] by (auto simp: amount_def)

definition sorted_pairs :: "calendar \<Rightarrow> unicode \<Rightarrow> recon_config \<Rightarrow> bank_entry list \<Rightarrow> voucher list \<Rightarrow> candidate list" where
  "sorted_pairs C U cfg bank vouchers = sort_candidates (candidates (score_match C U cfg) bank vouchers)"

lemma sorted_pairs_facts:
  shows "in_range (length bank) (length vouchers) (sorted_pairs C U cfg bank vouchers)"
    and "sorted_wrt (\<lambda>a b. worth b \<le> worth a) (sorted_pairs C U cfg bank vouchers)"
proof -
  have "finite_scores (candidates (score_match C U cfg) bank vouchers)"
    using score_finite candidates_set [of _ _ _ "score_match C U cfg" bank vouchers]
    by (auto simp: finite_scores_def list_all_iff)
  then show "sorted_wrt (\<lambda>a b. worth b \<le> worth a) (sorted_pairs C U cfg bank vouchers)"
    unfolding sorted_pairs_def by (rule sorted_candidates)
  show "in_range (length bank) (length vouchers) (sorted_pairs C U cfg bank vouchers)"
    by (auto simp: in_range_def list_all_iff sorted_pairs_def candidates_set)
qed

text \<open>Each side is accounted for once: matched or listed as unmatched.\<close>

definition accounts_for :: "nat list \<Rightarrow> nat list \<Rightarrow> nat \<Rightarrow> bool" where
  "accounts_for matched unmatched n \<longleftrightarrow> distinct (matched @ unmatched) \<and> set (matched @ unmatched) = {..<n}"

lemma accounts:
  assumes "distinct matched" and "set matched \<subseteq> {..<n}" and "\<forall>i < n. used ! i \<longleftrightarrow> i \<in> set matched"
  shows "accounts_for matched (filter (\<lambda>i. \<not> used ! i) [0..<n]) n"
  using assms by (auto simp: accounts_for_def)

lemma reconcile_run:
  obtains ms bu vu where
    "assign cfg (sorted_pairs C U cfg bank vouchers) (replicate (length bank) False)
        (replicate (length vouchers) False) = (ms, bu, vu)"
    and "reconcile C U cfg bank vouchers = \<lparr> rr_matches = ms,
       rr_unmatched_bank = filter (\<lambda>i. \<not> bu ! i) [0..<length bank],
       rr_unmatched_vouchers = filter (\<lambda>i. \<not> vu ! i) [0..<length vouchers] \<rparr>"
  by (cases "assign cfg (sorted_pairs C U cfg bank vouchers) (replicate (length bank) False)
        (replicate (length vouchers) False)") (auto simp: reconcile_def sorted_pairs_def)

text \<open>C19: a reconciliation report accounts for every bank transaction and every voucher exactly once, as
  half of one matched pair or as unmatched, and each pair carries its score, which is positive, and
  the status of that score.\<close>

theorem report_is_a_matching:
  "accounts_for (map mp_bank_idx (rr_matches (reconcile C U cfg bank vouchers)))
      (rr_unmatched_bank (reconcile C U cfg bank vouchers)) (length bank)
   \<and> accounts_for (map mp_voucher_idx (rr_matches (reconcile C U cfg bank vouchers)))
      (rr_unmatched_vouchers (reconcile C U cfg bank vouchers)) (length vouchers)
   \<and> list_all (\<lambda>m. mp_score m = score_match C U cfg (bank ! mp_bank_idx m) (vouchers ! mp_voucher_idx m)
        \<and> f64_less f64_zero (mp_score m) \<and> mp_status m = status_from_score cfg (mp_score m))
      (rr_matches (reconcile C U cfg bank vouchers))"
proof -
  obtain ms bu vu where run: "assign cfg (sorted_pairs C U cfg bank vouchers)
      (replicate (length bank) False) (replicate (length vouchers) False) = (ms, bu, vu)"
    and report: "reconcile C U cfg bank vouchers = \<lparr> rr_matches = ms,
       rr_unmatched_bank = filter (\<lambda>i. \<not> bu ! i) [0..<length bank],
       rr_unmatched_vouchers = filter (\<lambda>i. \<not> vu ! i) [0..<length vouchers] \<rparr>"
    by (rule reconcile_run)
  have range: "in_range (length (replicate (length bank) False)) (length (replicate (length vouchers) False))
      (sorted_pairs C U cfg bank vouchers)"
    using sorted_pairs_facts(1) by simp
  note uses = assign_uses [OF run range]
  have members: "mp_bank_idx m < length bank \<and> mp_voucher_idx m < length vouchers
      \<and> mp_score m = score_match C U cfg (bank ! mp_bank_idx m) (vouchers ! mp_voucher_idx m)
      \<and> f64_less f64_zero (mp_score m) \<and> mp_status m = status_from_score cfg (mp_score m)" if "m \<in> set ms" for m
    using uses that by (auto simp: sorted_pairs_def candidates_set)
  have pairs: "list_all (\<lambda>m. mp_score m = score_match C U cfg (bank ! mp_bank_idx m) (vouchers ! mp_voucher_idx m)
      \<and> f64_less f64_zero (mp_score m) \<and> mp_status m = status_from_score cfg (mp_score m)) ms"
    unfolding list_all_iff using members by blast
  have "accounts_for (map mp_bank_idx ms) (filter (\<lambda>i. \<not> bu ! i) [0..<length bank]) (length bank)"
    "accounts_for (map mp_voucher_idx ms) (filter (\<lambda>i. \<not> vu ! i) [0..<length vouchers]) (length vouchers)"
    using uses members by (intro accounts; auto)+
  with pairs show ?thesis unfolding report recon_report.simps by blast
qed

text \<open>C20: the assignment is greedy-stable. If a transaction and a voucher could be matched at all, one of
  them is in a reported pair whose score is not below theirs.\<close>

theorem no_better_pair_left:
  assumes "bi < length bank" and "vi < length vouchers"
    and "f64_less f64_zero (score_match C U cfg (bank ! bi) (vouchers ! vi))"
  shows "\<exists>m \<in> set (rr_matches (reconcile C U cfg bank vouchers)).
    (mp_bank_idx m = bi \<or> mp_voucher_idx m = vi)
    \<and> \<not> f64_less (mp_score m) (score_match C U cfg (bank ! bi) (vouchers ! vi))"
proof -
  let ?sc = "score_match C U cfg (bank ! bi) (vouchers ! vi)"
  obtain ms bu vu where run: "assign cfg (sorted_pairs C U cfg bank vouchers)
      (replicate (length bank) False) (replicate (length vouchers) False) = (ms, bu, vu)"
    and report: "reconcile C U cfg bank vouchers = \<lparr> rr_matches = ms,
       rr_unmatched_bank = filter (\<lambda>i. \<not> bu ! i) [0..<length bank],
       rr_unmatched_vouchers = filter (\<lambda>i. \<not> vu ! i) [0..<length vouchers] \<rparr>"
    by (rule reconcile_run)
  have range: "in_range (length (replicate (length bank) False)) (length (replicate (length vouchers) False))
      (sorted_pairs C U cfg bank vouchers)"
    using sorted_pairs_facts(1) by simp
  have "(bi, vi, ?sc) \<in> set (sorted_pairs C U cfg bank vouchers)"
    using assms by (simp add: sorted_pairs_def candidates_set)
  from assign_greedy [OF run sorted_pairs_facts(2) range this] assms(1,2)
  obtain m where m: "m \<in> set ms" "mp_bank_idx m = bi \<or> mp_voucher_idx m = vi"
    and worth: "worth (bi, vi, ?sc) \<le> worth (mp_bank_idx m, mp_voucher_idx m, mp_score m)"
    by auto
  have "is_finite (mp_score m)"
    using assign_uses [OF run range] m(1) score_finite by (auto simp: sorted_pairs_def candidates_set)
  then have "\<not> beats (bi, vi, ?sc) (mp_bank_idx m, mp_voucher_idx m, mp_score m)"
    using worth score_finite by (simp add: beats_worth)
  with m report show ?thesis by (auto simp: beats_def)
qed

end
