(* ===== verification/SamplesParsing.thy ===== *)
theory SamplesParsing
  imports AmountFacts DateFacts MatchingFacts
begin

text \<open>
  Inputs on which the facts about amounts, dates and matching apply: the ASCII tables, a calendar of
  twelve months of thirty-one days, and one bank entry against two vouchers.
\<close>

definition plain_calendar :: calendar where
  "plain_calendar = \<lparr>
     cal_day = (\<lambda>y m d. if 1 \<le> m \<and> m \<le> 12 \<and> 1 \<le> d \<and> d \<le> 31 then Some (372 * (y - 1970) + 31 * (m - 1) + (d - 1)) else None),
     cal_date = (\<lambda>n. (1970 + n div 372, n mod 372 div 31 + 1, n mod 31 + 1)) \<rparr>"

definition independence_day :: naive_date where
  "independence_day = \<lparr> nd_year = 2024, nd_month = 8, nd_day = 15, nd_number = 20319 \<rparr>"

lemma independence_day_proper: "proper_date plain_calendar independence_day"
  by (simp add: proper_date_def plain_calendar_def independence_day_def year_ok_def year_min_def year_max_def)

theorem amount_roundtrip_witness:
  "parse_amount_str ascii_tables (fmt_amount (Some (amount True 12345678))) = Some (amount True 12345678)"
  using amount_roundtrip [OF ascii_tables_ok, of 12345678 True] by simp

theorem parse_amount_bounds_witness:
  "parse_amount ascii_tables (CellNumber (Finite True 2000000000)) = Some (round2 (Finite True 2000000000))
   \<and> (\<exists>s n. 0 \<le> n \<and> n \<le> 200000000000 \<and> round2 (Finite True 2000000000) = amount s n)"
proof -
  have accepted: "parse_amount ascii_tables (CellNumber (Finite True 2000000000)) = Some (round2 (Finite True 2000000000))"
    by (simp add: parse_amount_def parse_float_def f64_zero_def f64_less_def f64_eq_def signed_rat_def)
  from parse_amount_bounds [OF _ accepted] show ?thesis by (simp add: accepted)
qed

theorem date_roundtrip_witness:
  "normalize_transaction_date plain_calendar ascii_tables (fmt_display independence_day) = ok_date independence_day"
  using date_roundtrip [OF ascii_tables_ok independence_day_proper] by simp

lemma plain_calendar_ok: "calendar_ok plain_calendar"
  by (auto simp: calendar_ok_def plain_calendar_def split: if_splits)

lemma date_normal_form_example:
  "normalize_transaction_date plain_calendar ascii_tables
     (pd_display (normalize_transaction_date plain_calendar ascii_tables (lit ''15-O8-2024'')))
   = normalize_transaction_date plain_calendar ascii_tables (lit ''15-O8-2024'')"
  using date_normal_form [OF ascii_tables_ok plain_calendar_ok, of "lit ''15-O8-2024''"] by simp

subsection \<open>One bank entry and a voucher of the same day\<close>

lemma two_fifths:
  obtains a b c where "f64_of (40 / 100) = Finite False a" "f64_add f64_zero (Finite False a) = Finite False b"
    "f64_add (Finite False b) (Finite False a) = Finite False c" "79 / 100 \<le> c" "c \<le> 81 / 100"
proof -
  obtain a where a: "f64_of (40 / 100) = Finite False a" "\<bar>a - 40 / 100\<bar> \<le> 1 / 10000"
    using close_rounded [of "40 / 100"] by (auto simp: f64_of_def)
  then have "1 / 100 \<le> a" "a \<le> 100" by linarith+
  from close_rounded [OF this] obtain b where b: "rounded False a = Finite False b" "\<bar>b - a\<bar> \<le> 1 / 10000" by auto
  have "1 / 100 \<le> b + a" "b + a \<le> 100" using a b by linarith+
  from close_rounded [OF this] obtain c where c: "rounded False (b + a) = Finite False c" "\<bar>c - (b + a)\<bar> \<le> 1 / 10000" by auto
  have "79 / 100 \<le> c" "c \<le> 81 / 100" using a b c by linarith+
  with a(1) b(1) c(1) that [of a b c] show ?thesis by (simp add: f64_zero_def signed_rat_def)
qed

definition sample_entry :: bank_entry where
  "sample_entry = \<lparr> be_date = fmt_display independence_day, be_amount = f64_zero, be_narration = [], be_reference = [] \<rparr>"

definition sample_voucher :: "chars \<Rightarrow> voucher" where
  "sample_voucher no = \<lparr> vch_date = fmt_display independence_day, vch_amount = f64_zero, vch_narration = [],
     vch_voucher_no = no, vch_voucher_type = lit ''Payment'', vch_ledger = [] \<rparr>"

lemma zero_days: "f64_div (f64_of (of_int \<bar>x - x\<bar>)) (f64_of 86400000) = f64_zero"
  using f64_of_int [of 86400000] by (simp add: f64_zero_def rounded_def signed_rat_def)

lemma no_similarity: "narr_similarity U [] s = f64_zero"
  by (simp add: narr_similarity_def tokenize_def split_whitespace_def to_uppercase_def)

lemma no_narration: "add_narration (recon_config_new 3 f64_zero) f64_zero score = score"
proof -
  obtain a where "f64_of (80 / 100) = Finite False a" "\<bar>a - 80 / 100\<bar> \<le> 1 / 10000"
    using close_rounded [of "80 / 100"] by (auto simp: f64_of_def)
  moreover obtain b where "f64_of (55 / 100) = Finite False b" "\<bar>b - 55 / 100\<bar> \<le> 1 / 10000"
    using close_rounded [of "55 / 100"] by (auto simp: f64_of_def)
  ultimately show ?thesis
    by (auto simp: add_narration_def recon_config_new_def f64_le_def f64_less_def f64_eq_def f64_zero_def signed_rat_def abs_le_iff)
qed

lemma sample_scores:
  "f64_less f64_zero (score_match plain_calendar ascii_tables (recon_config_new 3 f64_zero) sample_entry (sample_voucher no))"
proof -
  obtain a b c where abc: "f64_of (40 / 100) = Finite False a" "f64_add f64_zero (Finite False a) = Finite False b"
    "f64_add (Finite False b) (Finite False a) = Finite False c" "79 / 100 \<le> c" "c \<le> 81 / 100"
    by (rule two_fifths)
  have "normalize_transaction_date plain_calendar ascii_tables (fmt_display independence_day) = ok_date independence_day"
    by (rule date_roundtrip_display [OF ascii_tables_ok independence_day_proper])
  then have days: "days_diff plain_calendar ascii_tables (fmt_display independence_day) (fmt_display independence_day) = Some f64_zero"
    using zero_days by (simp add: days_diff_def ok_date_def parsed_ok_def)
  have match: "amount_match f64_zero f64_zero z" for z
    by (simp add: amount_match_def f64_zero_def f64_eq_def)
  have zero: "f64_eq f64_zero f64_zero" by (simp add: f64_zero_def f64_eq_def)
  have min: "f64_min (Finite False c) (Finite False 1) = Finite False c"
    using abc(4,5) by (simp add: f64_min_def f64_less_def signed_rat_def)
  have part: "f64_of (2 / 5) = Finite False a" using abc(1) by simp
  have score: "score_match plain_calendar ascii_tables (recon_config_new 3 f64_zero) sample_entry (sample_voucher no)
      = round2 (Finite False c)"
    by (simp add: score_match_def sample_entry_def sample_voucher_def match amount_points_def days date_points_def zero
        part abc no_similarity no_narration add_reference_def min del: f64_add.simps)
  have "1 / 100 \<le> c * 100" "c * 100 \<le> 100" using abc(4,5) by simp_all
  from close_rounded [OF this] obtain m where m: "rounded False (c * 100) = Finite False m" "\<bar>m - c * 100\<bar> \<le> 1 / 10000" by auto
  let ?n = "floor (m + 1 / 2)"
  have "1 \<le> m + 1 / 2" "m + 1 / 2 < 1000" using m(2) abc(4,5) by linarith+
  then have n: "0 < ?n" "?n \<le> 10 ^ 12" by (simp_all add: floor_le_iff)
  have "round2 (Finite False c) = amount False ?n"
    using m(1) n of_paise(1) [of ?n False] by (simp add: round2_def signed_rat_def)
  moreover have "0 < nearest (of_int ?n / 100)"
  proof -
    define x :: rat where "x = of_int ?n / 100"
    with n(1) have "1 / 100 \<le> x" by (simp add: x_def)
    moreover from nearest_close [OF this] have "x - x / 2 ^ 53 \<le> nearest x" by linarith
    moreover have "x / 2 ^ 53 \<le> x / 2" using calculation(1) by (simp add: field_simps)
    ultimately have "0 < nearest x" by linarith
    then show ?thesis unfolding x_def .
  qed
  ultimately show ?thesis unfolding score using n(1) by (simp add: amount_def f64_less_def f64_zero_def signed_rat_def)
qed

theorem no_better_pair_left_witness:
  "\<exists>m \<in> set (rr_matches (reconcile plain_calendar ascii_tables (recon_config_new 3 f64_zero)
      [sample_entry] [sample_voucher (lit ''V1''), sample_voucher (lit ''V2'')])).
     mp_bank_idx m = 0 \<or> mp_voucher_idx m = 1"
  using no_better_pair_left [of 0 "[sample_entry]" 1 "[sample_voucher (lit ''V1''), sample_voucher (lit ''V2'')]"]
    sample_scores by fastforce

end
