(* ===== verification/Transactions.thy ===== *)
theory Transactions
  imports FloatText "HOL-Library.Word"
begin

text \<open>
  \<open>src/parser/mod.rs\<close>: the transaction every part of the desktop application passes on, its status and
  voucher type, the column map of a sheet, the result of parsing a statement, and the fingerprint of a
  transaction. The fingerprint prints doubles with \<open>{}\<close>: the shortest decimal that reads back.
\<close>

subsection \<open>The shortest decimal of a double\<close>

text \<open>The exponent \<open>e\<close> with \<open>10 ^ e \<le> x < 10 ^ (e + 1)\<close>, found from a power of ten below.\<close>

fun decade_from :: "nat \<Rightarrow> int \<Rightarrow> rat \<Rightarrow> int" where
  "decade_from 0 e x = e"
| "decade_from (Suc n) e x = (if 10 powi (e + 1) \<le> x then decade_from n (e + 1) x else e)"

definition decade :: "rat \<Rightarrow> int" where
  "decade x = decade_from 640 (- 324) x"

text \<open>The numbers of \<open>k\<close> digits on both sides of \<open>x\<close> that round to it, the closer one first.\<close>

definition decimals_of :: "nat \<Rightarrow> rat \<Rightarrow> (int \<times> int) list" where
  "decimals_of k x =
    (let e = decade x - int k + 1; q = x / 10 powi e; lo = floor q; hi = ceiling q;
         order = (if q - of_int lo \<le> of_int hi - q then [lo, hi] else [hi, lo]) in
     map (\<lambda>n. (n, e)) (filter (\<lambda>n. nearest (of_int n * 10 powi e) = x) order))"

fun shortest_from :: "nat \<Rightarrow> nat \<Rightarrow> rat \<Rightarrow> int \<times> int" where
  "shortest_from 0 k x = (half_even (x / 10 powi (decade x - 16)), decade x - 16)"
| "shortest_from (Suc n) k x =
    (case decimals_of k x of c # _ \<Rightarrow> c | [] \<Rightarrow> shortest_from n (k + 1) x)"

definition strip_zeros :: "chars \<Rightarrow> chars" where
  "strip_zeros s = rev (dropWhile (\<lambda>c. c = 48) (rev s))"

definition plain_decimal :: "int \<times> int \<Rightarrow> chars" where
  "plain_decimal = (\<lambda>(n, e).
     if 0 \<le> e then dec (n * 10 ^ nat e)
     else
       let k = nat (- e); places = strip_zeros (zero_padded k (dec (n mod 10 ^ k))) in
       dec (n div 10 ^ k) @ (if places = [] then [] else 46 # places))"

definition format_shortest :: "f64 \<Rightarrow> chars" where
  "format_shortest x =
    (case x of
       NaN \<Rightarrow> lit ''NaN''
     | Infinite s \<Rightarrow> (if s then lit ''-inf'' else lit ''inf'')
     | Finite s m \<Rightarrow>
        (if s then [45] else []) @ (if m = 0 then lit ''0'' else plain_decimal (shortest_from 17 1 m)))"

text \<open>\<open>{:x}\<close>.\<close>

definition hex_char :: "int \<Rightarrow> int" where
  "hex_char d = (if d < 10 then 48 + d else 87 + d)"

function hex :: "int \<Rightarrow> chars" where
  "hex n = (if n < 16 then [hex_char n] else hex (n div 16) @ [hex_char (n mod 16)])"
  by auto
termination by (relation "measure nat") auto

declare hex.simps [simp del]

subsection \<open>Status and voucher type\<close>

datatype transaction_status = Unreviewed | Classified | Manual | Suspense | NeedsReview

fun transaction_status_display :: "transaction_status \<Rightarrow> chars" where
  "transaction_status_display Unreviewed = lit ''unreviewed''"
| "transaction_status_display Classified = lit ''classified''"
| "transaction_status_display Manual = lit ''manual''"
| "transaction_status_display Suspense = lit ''suspense''"
| "transaction_status_display NeedsReview = lit ''needs_review''"

datatype voucher_type = VchUnknown | VchPayment | VchReceipt | VchContra | VchJournal | VchSales | VchPurchase

fun voucher_type_display :: "voucher_type \<Rightarrow> chars" where
  "voucher_type_display VchUnknown = []"
| "voucher_type_display VchPayment = lit ''Payment''"
| "voucher_type_display VchReceipt = lit ''Receipt''"
| "voucher_type_display VchContra = lit ''Contra''"
| "voucher_type_display VchJournal = lit ''Journal''"
| "voucher_type_display VchSales = lit ''Sales''"
| "voucher_type_display VchPurchase = lit ''Purchase''"

subsection \<open>The column map\<close>

record column_map =
  cm_date :: int
  cm_narration :: int
  cm_reference :: int
  cm_debit :: int
  cm_credit :: int
  cm_balance :: int
  cm_debit_credit :: int

definition column_map_default :: column_map where
  "column_map_default = \<lparr> cm_date = - 1, cm_narration = - 1, cm_reference = - 1, cm_debit = - 1,
     cm_credit = - 1, cm_balance = - 1, cm_debit_credit = - 1 \<rparr>"

definition has_date :: "column_map \<Rightarrow> bool" where
  "has_date m \<longleftrightarrow> 0 \<le> cm_date m"

definition has_amount :: "column_map \<Rightarrow> bool" where
  "has_amount m \<longleftrightarrow> 0 \<le> cm_debit m \<or> 0 \<le> cm_credit m \<or> 0 \<le> cm_debit_credit m"

definition is_usable :: "column_map \<Rightarrow> bool" where
  "is_usable m \<longleftrightarrow> has_date m \<and> has_amount m"

subsection \<open>Transactions\<close>

record transaction =
  txn_id :: chars
  txn_import_id :: "int option"
  txn_date :: chars
  txn_date_ts :: int
  txn_narration :: chars
  txn_reference :: chars
  txn_debit :: "f64 option"
  txn_credit :: "f64 option"
  txn_balance :: "f64 option"
  txn_vendor :: chars
  txn_account_head :: chars
  txn_txn_type :: voucher_type
  txn_confidence :: f64
  txn_status :: transaction_status
  txn_classification_source :: chars
  txn_tags :: "chars list"
  txn_bank_name :: chars
  txn_account_no :: chars
  txn_is_opening_balance :: bool
  txn_dup_flag :: bool
  txn_prev_balance :: "f64 option"
  txn_balance_ok :: "bool option"
  txn_gst_rate :: "f64 option"
  txn_gst_amount :: "f64 option"
  txn_gst_type :: "chars option"

definition transaction_new :: "chars \<Rightarrow> transaction" where
  "transaction_new i = \<lparr> txn_id = i, txn_import_id = None, txn_date = [], txn_date_ts = 0, txn_narration = [],
     txn_reference = [], txn_debit = None, txn_credit = None, txn_balance = None, txn_vendor = [],
     txn_account_head = [], txn_txn_type = VchUnknown, txn_confidence = f64_zero, txn_status = Unreviewed,
     txn_classification_source = [], txn_tags = [], txn_bank_name = [], txn_account_no = [],
     txn_is_opening_balance = False, txn_dup_flag = False, txn_prev_balance = None, txn_balance_ok = None,
     txn_gst_rate = None, txn_gst_amount = None, txn_gst_type = None \<rparr>"

definition hash_amount :: "f64 option \<Rightarrow> chars" where
  "hash_amount v = (case v of None \<Rightarrow> lit ''null'' | Some x \<Rightarrow> format_shortest x)"

definition rolling_hash :: "chars \<Rightarrow> 32 word" where
  "rolling_hash s = foldl (\<lambda>h c. 31 * h + word_of_int c) 0 s"

definition transaction_hash :: "transaction \<Rightarrow> chars" where
  "transaction_hash t =
    hex (uint (rolling_hash (txn_date t @ 124 # txn_narration t @ 124 # hash_amount (txn_debit t)
      @ 124 # hash_amount (txn_credit t))))"

record parse_result =
  pr_transactions :: "transaction list"
  pr_opening_balance :: "f64 option"
  pr_closing_balance :: "f64 option"
  pr_bank_name :: chars
  pr_account_no :: chars
  pr_source_name :: chars
  pr_col_map :: column_map
  pr_header_row_idx :: nat
  pr_noise_row_count :: nat
  pr_rejected_row_count :: nat

definition parse_result_empty :: "chars \<Rightarrow> parse_result" where
  "parse_result_empty source = \<lparr> pr_transactions = [], pr_opening_balance = None, pr_closing_balance = None,
     pr_bank_name = [], pr_account_no = [], pr_source_name = source, pr_col_map = column_map_default,
     pr_header_row_idx = 0, pr_noise_row_count = 0, pr_rejected_row_count = 0 \<rparr>"

end
