(* ===== verification/TallyGroups.thy ===== *)
theory TallyGroups
  imports Transactions
begin

text \<open>
  \<open>src/tally_group_engine.rs\<close>: the Tally group of a ledger, from keywords in its name, with the amount and
  direction as a fallback. The scores are kept in a \<open>HashMap\<close>, whose iteration order differs from run to
  run: the order is an argument, a function that arranges the entries.
\<close>

subsection \<open>Groups\<close>

definition group_capital_account :: chars where
  "group_capital_account = lit ''Capital Account''"

definition group_reserves :: chars where
  "group_reserves = lit ''Reserves & Surplus''"

definition group_loans :: chars where
  "group_loans = lit ''Loans (Liability)''"

definition group_bank_od :: chars where
  "group_bank_od = lit ''Bank OD A/c''"

definition group_sundry_creditors :: chars where
  "group_sundry_creditors = lit ''Sundry Creditors''"

definition group_duties_taxes :: chars where
  "group_duties_taxes = lit ''Duties & Taxes''"

definition group_provisions :: chars where
  "group_provisions = lit ''Provisions''"

definition group_sales_accounts :: chars where
  "group_sales_accounts = lit ''Sales Accounts''"

definition group_direct_income :: chars where
  "group_direct_income = lit ''Direct Income''"

definition group_indirect_income :: chars where
  "group_indirect_income = lit ''Indirect Income''"

definition group_purchase_accounts :: chars where
  "group_purchase_accounts = lit ''Purchase Accounts''"

definition group_direct_expenses :: chars where
  "group_direct_expenses = lit ''Direct Expenses''"

definition group_indirect_expenses :: chars where
  "group_indirect_expenses = lit ''Indirect Expenses''"

definition group_fixed_assets :: chars where
  "group_fixed_assets = lit ''Fixed Assets''"

definition group_investments :: chars where
  "group_investments = lit ''Investments''"

definition group_loans_advances :: chars where
  "group_loans_advances = lit ''Loans & Advances (Asset)''"

definition group_sundry_debtors :: chars where
  "group_sundry_debtors = lit ''Sundry Debtors''"

definition group_stock_in_trade :: chars where
  "group_stock_in_trade = lit ''Stock-in-Trade''"

definition group_cash_in_hand :: chars where
  "group_cash_in_hand = lit ''Cash-in-Hand''"

definition group_bank_accounts :: chars where
  "group_bank_accounts = lit ''Bank Accounts''"

definition group_deposits :: chars where
  "group_deposits = lit ''Deposits (Asset)''"

subsection \<open>Keywords\<close>

type_synonym keyword_entry = "string list \<times> chars \<times> int"

definition keyword_income :: "keyword_entry list" where
  "keyword_income = [
    ([''sales'', ''sale'', ''revenue'', ''turnover'', ''gross receipt''], group_sales_accounts, 10),
    ([''service income'', ''service revenue'', ''consulting income'', ''fees income'',
     ''income from service''], group_direct_income, 10),
    ([''commission income'', ''brokerage income'', ''agency income'', ''referral income''],
     group_indirect_income, 10),
    ([''interest income'', ''interest received'', ''bank interest'', ''fd interest'',
     ''interest on loan''], group_indirect_income, 10),
    ([''rental income'', ''rent income'', ''lease income'', ''sublease income''], group_indirect_income,
     10),
    ([''dividend income'', ''dividend received''], group_indirect_income, 10),
    ([''misc income'', ''miscellaneous income'', ''other income'', ''sundry income''],
     group_indirect_income, 8),
    ([''grant income'', ''subsidy income'', ''export incentive''], group_indirect_income, 8),
    ([''purchase'', ''purchases'', ''raw material'', ''stock purchase'', ''goods purchase'', ''import''],
     group_purchase_accounts, 10)]"

definition keyword_office :: "keyword_entry list" where
  "keyword_office = [
    ([''salary'', ''salaries'', ''wage'', ''wages'', ''payroll'', ''stipend'', ''remuneration''],
     group_indirect_expenses, 10),
    ([''rent'', ''office rent'', ''shop rent'', ''godown rent'', ''rental expense'', ''lease expense''],
     group_indirect_expenses, 10),
    ([''telephone'', ''mobile'', ''phone bill'', ''landline'', ''sim''], group_indirect_expenses, 9),
    ([''internet'', ''broadband'', ''data plan'', ''wifi'', ''leased line'', ''connectivity''],
     group_indirect_expenses, 9),
    ([''electricity'', ''power bill'', ''utility bill'', ''msedcl'', ''bescom'', ''tneb''],
     group_indirect_expenses, 9),
    ([''bank charge'', ''bank fee'', ''bank commission'', ''processing fee'', ''annual fee'',
     ''service charge'', ''maintenance charge'', ''sms charge'', ''ecs charge''],
     group_indirect_expenses, 9),
    ([''professional fee'', ''consultancy'', ''audit fee'', ''legal fee'', ''advocate fee'', ''ca fee'',
     ''cs fee'', ''notary'', ''registration fee''], group_indirect_expenses, 9),
    ([''insurance'', ''premium'', ''mediclaim'', ''policy'', ''life insurance'', ''vehicle insurance''],
     group_indirect_expenses, 9),
    ([''travel'', ''travelling'', ''tour'', ''conveyance'', ''cab'', ''taxi'', ''ola'', ''uber'',
     ''irctc'', ''airline'', ''train ticket'', ''flight''], group_indirect_expenses, 9)]"

definition keyword_running :: "keyword_entry list" where
  "keyword_running = [
    ([''advertisement'', ''advertising'', ''marketing'', ''promotion'', ''digital ad'', ''facebook ad'',
     ''google ad'', ''hoarding'', ''banner''], group_indirect_expenses, 9),
    ([''printing'', ''stationery'', ''office supply'', ''paper'', ''ink'', ''toner''],
     group_indirect_expenses, 8),
    ([''repair'', ''maintenance'', ''amc'', ''annual maintenance'', ''service contract'',
     ''housekeeping'', ''pest control''], group_indirect_expenses, 8),
    ([''fuel'', ''petrol'', ''diesel'', ''cng'', ''hp fuel'', ''bpcl'', ''hpcl''],
     group_indirect_expenses, 8),
    ([''food'', ''meal'', ''canteen'', ''lunch'', ''dinner'', ''tea'', ''refreshment'', ''snack''],
     group_indirect_expenses, 8)]"

definition keyword_supplies :: "keyword_entry list" where
  "keyword_supplies = [
    ([''medical'', ''medicine'', ''pharmacy'', ''hospital'', ''doctor'', ''clinic'', ''health''],
     group_indirect_expenses, 8),
    ([''grocery'', ''vegetable'', ''kirana'', ''supermarket'', ''bigbasket'', ''blinkit''],
     group_indirect_expenses, 7),
    ([''software'', ''subscription'', ''saas'', ''app'', ''license'', ''domain'', ''hosting'', ''aws'',
     ''azure'', ''google cloud'', ''github'', ''notion''], group_indirect_expenses, 8),
    ([''vehicle'', ''car expense'', ''two wheeler'', ''bike service'', ''vehicle maintenance''],
     group_indirect_expenses, 8),
    ([''courier'', ''freight'', ''logistics'', ''shipping'', ''delivery charge'', ''cargo''],
     group_indirect_expenses, 8)]"

definition keyword_welfare :: "keyword_entry list" where
  "keyword_welfare = [
    ([''staff welfare'', ''employee welfare'', ''birthday'', ''outing'', ''team lunch''],
     group_indirect_expenses, 7),
    ([''security'', ''guard'', ''watchman'', ''cctv'', ''security service''], group_indirect_expenses, 7),
    ([''cleaning'', ''sweeping'', ''housekeeping'', ''janitorial''], group_indirect_expenses, 7),
    ([''miscellaneous'', ''misc expense'', ''sundry expense'', ''petty'', ''petty cash''],
     group_indirect_expenses, 6),
    ([''office expense'', ''office cost'', ''admin expense'', ''administrative''],
     group_indirect_expenses, 7)]"

definition keyword_production :: "keyword_entry list" where
  "keyword_production = [
    ([''production'', ''manufacturing'', ''factory'', ''job work'', ''conversion'',
     ''packing material''], group_direct_expenses, 10),
    ([''labour'', ''direct labour'', ''contract labour'', ''labour charge''], group_direct_expenses, 9)]"

definition keyword_duties :: "keyword_entry list" where
  "keyword_duties = [
    ([''gst payable'', ''cgst payable'', ''sgst payable'', ''igst payable'', ''gst liability''],
     group_duties_taxes, 10),
    ([''tds payable'', ''tds deducted'', ''tax deducted'', ''income tax payable'', ''advance tax''],
     group_duties_taxes, 10),
    ([''professional tax'', ''pt payable'', ''esic'', ''provident fund'', ''pf payable'', ''epf''],
     group_duties_taxes, 9),
    ([''customs duty'', ''import duty'', ''excise'', ''cess''], group_duties_taxes, 9),
    ([''creditor'', ''supplier'', ''vendor payable'', ''accounts payable'', ''trade payable''],
     group_sundry_creditors, 10)]"

definition keyword_current_assets :: "keyword_entry list" where
  "keyword_current_assets = [
    ([''debtor'', ''customer receivable'', ''accounts receivable'', ''trade receivable''],
     group_sundry_debtors, 10),
    ([''cash'', ''petty cash'', ''cash in hand''], group_cash_in_hand, 10),
    ([''bank account'', ''current account'', ''savings account'', ''hdfc'', ''icici'', ''sbi'',
     ''axis''], group_bank_accounts, 8)]"

definition keyword_fixed_assets :: "keyword_entry list" where
  "keyword_fixed_assets = [
    ([''computer'', ''laptop'', ''desktop'', ''server'', ''printer'', ''scanner'', ''hardware''],
     group_fixed_assets, 9),
    ([''furniture'', ''office furniture'', ''chair'', ''table'', ''cabinet'', ''rack''],
     group_fixed_assets, 9),
    ([''machinery'', ''equipment'', ''plant'', ''motor'', ''generator''], group_fixed_assets, 9),
    ([''vehicle'', ''car'', ''bike'', ''truck'', ''van'', ''bus'', ''four wheeler''], group_fixed_assets,
     9),
    ([''building'', ''land'', ''property'', ''office building'', ''warehouse''], group_fixed_assets, 9),
    ([''intangible'', ''patent'', ''trademark'', ''copyright'', ''goodwill''], group_fixed_assets, 8)]"

definition keyword_funds :: "keyword_entry list" where
  "keyword_funds = [
    ([''investment'', ''mutual fund'', ''share'', ''equity'', ''bonds'', ''debenture'', ''nsc'', ''ppf'',
     ''fd''], group_investments, 9),
    ([''advance'', ''loan given'', ''loan to staff'', ''advance to employee'', ''security deposit'',
     ''refundable deposit''], group_loans_advances, 9),
    ([''deposit'', ''security deposit'', ''earnest money'', ''margin money''], group_deposits, 8),
    ([''loan'', ''term loan'', ''working capital loan'', ''overdraft'', ''od limit'', ''cc limit'',
     ''borrowing'', ''credit facility'', ''emi'', ''mortgage''], group_loans, 9),
    ([''capital'', ''owner capital'', ''proprietor capital'', ''partner capital'', ''share capital''],
     group_capital_account, 10),
    ([''reserve'', ''surplus'', ''retained earning'', ''profit reserve'', ''general reserve''],
     group_reserves, 10)]"

definition keyword_map :: "keyword_entry list" where
  "keyword_map = keyword_income @ keyword_office @ keyword_running @ keyword_supplies @ keyword_welfare
     @ keyword_production @ keyword_duties @ keyword_current_assets @ keyword_fixed_assets @ keyword_funds"

subsection \<open>Scores\<close>

type_synonym group_score = "chars \<times> int"

text \<open>\<open>*scores.entry(group).or_insert(0) += points\<close>\<close>

fun add_points :: "chars \<Rightarrow> int \<Rightarrow> group_score list \<Rightarrow> group_score list" where
  "add_points g p [] = [(g, p)]"
| "add_points g p ((h, q) # rest) = (if h = g then (h, q + p) # rest else (h, q) # add_points g p rest)"

definition keyword_points :: "int \<Rightarrow> string \<Rightarrow> int" where
  "keyword_points weight k = weight + int (length k) div 5"

definition score_entry :: "chars \<Rightarrow> keyword_entry \<Rightarrow> group_score list \<Rightarrow> group_score list" where
  "score_entry nl entry scores =
    (case entry of (kws, g, weight) \<Rightarrow>
      fold (\<lambda>k acc. if has_part (lit k) nl then add_points g (keyword_points weight k) acc else acc) kws scores)"

definition score_head :: "unicode \<Rightarrow> chars \<Rightarrow> group_score list" where
  "score_head U head_name = fold (score_entry (to_lowercase U (trimmed head_name))) keyword_map []"

text \<open>\<open>max_by_key\<close>: the last of the largest.\<close>

fun max_by_score :: "group_score list \<Rightarrow> group_score option" where
  "max_by_score [] = None"
| "max_by_score (x # xs) =
    (case max_by_score xs of None \<Rightarrow> Some x | Some y \<Rightarrow> if snd y < snd x then Some x else Some y)"

definition min_confidence :: f64 where
  "min_confidence = f64_of (3 / 10)"

definition group_confidence :: "int list \<Rightarrow> f64" where
  "group_confidence vals =
    (if 1 < length vals
     then f64_min (f64_div (f64_of (of_int (vals ! 0))) (f64_of (of_int (vals ! 0 + vals ! 1)))) (f64_of (99 / 100))
     else f64_of (90 / 100))"

definition scored_group :: "(group_score list \<Rightarrow> group_score list) \<Rightarrow> group_score list \<Rightarrow> chars option" where
  "scored_group iter scores =
    (case max_by_score (iter scores) of
       None \<Rightarrow> None
     | Some (g, _) \<Rightarrow>
        if f64_le min_confidence (group_confidence (rev (sort (map snd (iter scores))))) then Some g else None)"

subsection \<open>Groups of ledgers\<close>

definition direction_group :: "bool \<Rightarrow> f64 \<Rightarrow> chars" where
  "direction_group is_credit amount =
    (if f64_le (f64_of 10000) amount \<and> \<not> is_credit then group_sundry_creditors
     else if f64_le (f64_of 10000) amount \<and> is_credit then group_sundry_debtors
     else if \<not> is_credit \<and> f64_less amount (f64_of 5000) then group_indirect_expenses
     else if is_credit then group_indirect_income
     else group_indirect_expenses)"

definition classify_group ::
  "(group_score list \<Rightarrow> group_score list) \<Rightarrow> unicode \<Rightarrow> chars \<Rightarrow> bool \<Rightarrow> f64
    \<Rightarrow> (chars \<Rightarrow> chars option) option \<Rightarrow> chars" where
  "classify_group iter U account_head is_credit amount overrides =
    (case (case overrides of None \<Rightarrow> None | Some ovr \<Rightarrow> ovr (to_lowercase U (trimmed account_head))) of
       Some g \<Rightarrow> g
     | None \<Rightarrow>
        (case scored_group iter (score_head U account_head) of
           Some g \<Rightarrow> g
         | None \<Rightarrow> direction_group is_credit amount))"

definition party_group :: "chars \<Rightarrow> chars \<Rightarrow> bool \<Rightarrow> chars option" where
  "party_group account_head vendor is_receipt =
    (if trimmed account_head = [] \<and> trimmed vendor \<noteq> []
     then Some (if is_receipt then group_sundry_debtors else group_sundry_creditors)
     else None)"

text \<open>Every call fills a map of its own, so the order may differ from one transaction to the next.\<close>

definition classify_batch ::
  "(nat \<Rightarrow> group_score list \<Rightarrow> group_score list) \<Rightarrow> unicode \<Rightarrow> (chars \<times> chars \<times> bool \<times> f64) list
    \<Rightarrow> (chars \<Rightarrow> chars option) option \<Rightarrow> chars list" where
  "classify_batch iter U transactions overrides =
    map (\<lambda>(i, head, _, cr, amt). classify_group (iter i) U head cr amt overrides)
      (zip [0..<length transactions] transactions)"

end
