(* ===== verification/TallyFacts.thy ===== *)
theory TallyFacts
  imports TallyGroups AmountFacts "HOL-Library.Multiset"
begin

text \<open>
  The group of a ledger: the score of a group is the total of its keywords in the name, the confidence
  bound never rejects a group, and with a single best group the iteration order of the map does not
  matter; with two it decides.
\<close>

subsection \<open>Scores\<close>

definition keyword_hits :: "chars \<Rightarrow> keyword_entry list \<Rightarrow> group_score list" where
  "keyword_hits nl entries =
    concat (map (\<lambda>(kws, g, weight). map (\<lambda>k. (g, keyword_points weight k)) (filter (\<lambda>k. has_part (lit k) nl) kws)) entries)"

definition add_hit :: "group_score \<Rightarrow> group_score list \<Rightarrow> group_score list" where
  "add_hit h = add_points (fst h) (snd h)"

lemma fold_if_filter: "fold (\<lambda>k acc. if P k then f k acc else acc) ks = fold f (filter P ks)"
  by (induction ks) (auto simp: fun_eq_iff)

lemma score_entry_hits: "score_entry nl e = fold add_hit (keyword_hits nl [e])"
  by (cases e) (simp add: score_entry_def keyword_hits_def fun_eq_iff fold_if_filter fold_map comp_def add_hit_def)

lemma keyword_hits_Cons: "keyword_hits nl (e # es) = keyword_hits nl [e] @ keyword_hits nl es"
  by (simp add: keyword_hits_def)

lemma fold_score_entry: "fold (score_entry nl) es scores = fold add_hit (keyword_hits nl es) scores"
proof (induction es arbitrary: scores)
  case (Cons e es)
  then show ?case by (simp add: keyword_hits_Cons [of nl e es] score_entry_hits)
qed (simp add: keyword_hits_def)

lemma add_points_lookup:
  "map_of (add_points g p xs) h =
    (if h = g then Some ((case map_of xs g of None \<Rightarrow> 0 | Some q \<Rightarrow> q) + p) else map_of xs h)"
  by (induction xs) auto

lemma add_points_keys: "distinct (map fst xs) \<Longrightarrow> distinct (map fst (add_points g p xs))"
proof (induction xs)
  case (Cons x xs)
  have "fst ` set (add_points g p ys) \<subseteq> insert g (fst ` set ys)" for ys
    by (induction ys rule: add_points.induct) auto
  with Cons show ?case by (cases x) auto
qed simp

lemma add_hits_lookup:
  "map_of (fold add_hit hits xs) g =
    (if g \<in> fst ` set hits \<or> map_of xs g \<noteq> None
     then Some ((case map_of xs g of None \<Rightarrow> 0 | Some q \<Rightarrow> q) + sum_list (map snd (filter (\<lambda>h. fst h = g) hits)))
     else None)"
  by (induction hits arbitrary: xs) (auto simp: add_hit_def add_points_lookup)

lemma score_head_keys: "distinct (map fst (score_head U head))"
proof -
  have "distinct (map fst xs) \<Longrightarrow> distinct (map fst (fold add_hit hits xs))" for hits xs
    by (induction hits arbitrary: xs) (simp_all add: add_hit_def add_points_keys)
  then show ?thesis by (simp add: score_head_def fold_score_entry)
qed

text \<open>The points of a group are the total of the points of its keywords in the name.\<close>

definition hits_of :: "unicode \<Rightarrow> chars \<Rightarrow> group_score list" where
  "hits_of U head = keyword_hits (to_lowercase U (trimmed head)) keyword_map"

lemma score_of_group:
  "map_of (score_head U head) g =
    (if g \<in> fst ` set (hits_of U head)
     then Some (sum_list (map snd (filter (\<lambda>h. fst h = g) (hits_of U head)))) else None)"
  by (simp add: score_head_def fold_score_entry add_hits_lookup hits_of_def)

lemma score_head_Nil: "score_head U head = [] \<longleftrightarrow> hits_of U head = []"
proof
  assume "score_head U head = []"
  then have "g \<notin> fst ` set (hits_of U head)" for g
    using score_of_group [of U head g] by (metis map_of.simps(1) option.distinct(1))
  then show "hits_of U head = []" by (metis image_is_empty list.set_intros(1) neq_Nil_conv image_eqI)
next
  assume "hits_of U head = []"
  then show "score_head U head = []" by (simp add: score_head_def fold_score_entry hits_of_def)
qed

subsection \<open>Bounds of the scores\<close>

definition keyword_total :: "keyword_entry list \<Rightarrow> int" where
  "keyword_total entries = sum_list (map (\<lambda>(kws, _, w). sum_list (map (keyword_points w) kws)) entries)"

lemma keyword_total_value: "keyword_total keyword_map \<le> 100000"
  by code_simp

definition entry_positive :: "keyword_entry \<Rightarrow> bool" where
  "entry_positive e = (case e of (kws, _, w) \<Rightarrow> 0 < w)"

lemma keywords_positive: "list_all entry_positive keyword_map"
  by code_simp

lemma hits_positive:
  assumes "list_all entry_positive es" and "h \<in> set (keyword_hits nl es)"
  shows "0 < snd h"
  using assms by (auto simp: keyword_hits_def keyword_points_def list_all_iff entry_positive_def)

lemma hits_total:
  assumes "list_all entry_positive es"
  shows "sum_list (map snd (filter P (keyword_hits nl es))) \<le> keyword_total es"
  using assms
proof (induction es)
  case (Cons e es)
  obtain kws g w where e: "e = (kws, g, w)" by (cases e)
  have w: "0 < w" using Cons(2) by (simp add: e entry_positive_def)
  have "sum_list (map snd (filter P (map (\<lambda>k. (g, keyword_points w k)) (filter (\<lambda>k. has_part (lit k) nl) ks))))
      \<le> sum_list (map (keyword_points w) ks)" for ks
    using w by (induction ks) (auto simp: keyword_points_def)
  with Cons show ?case by (simp add: keyword_hits_def keyword_total_def e add_mono)
qed (simp add: keyword_hits_def keyword_total_def)

lemma score_bounds:
  assumes "(g, s) \<in> set (score_head U head)"
  shows "0 < s" and "s \<le> 100000"
proof -
  have "map_of (score_head U head) g = Some s" using assms score_head_keys by simp
  then have g: "g \<in> fst ` set (hits_of U head)"
    and s: "s = sum_list (map snd (filter (\<lambda>h. fst h = g) (hits_of U head)))"
    by (auto simp: score_of_group split: if_splits)
  let ?hs = "filter (\<lambda>h. fst h = g) (hits_of U head)"
  have pos: "0 < snd h" if "h \<in> set (hits_of U head)" for h
    using hits_positive [OF keywords_positive] that by (simp add: hits_of_def)
  have "?hs \<noteq> []" using g by (auto simp: filter_empty_conv)
  then obtain h hs where hs: "?hs = h # hs" by (cases ?hs) auto
  have "set ?hs \<subseteq> set (hits_of U head)" by auto
  with pos have "0 < snd x" if "x \<in> set (h # hs)" for x using that hs by (metis subsetD)
  then have all: "0 < snd h" "list_all (\<lambda>x. 0 < snd x) hs" by (simp_all add: list_all_iff)
  have "0 \<le> sum_list (map snd ys)" if "list_all (\<lambda>x. 0 < snd x) ys" for ys :: "group_score list"
    using that by (induction ys) simp_all
  with all have "0 < snd h" "0 \<le> sum_list (map snd hs)" by simp_all
  then show "0 < s" unfolding s hs by simp
  have "s \<le> keyword_total keyword_map"
    unfolding s hits_of_def by (rule hits_total [OF keywords_positive])
  with keyword_total_value show "s \<le> 100000" by linarith
qed

subsection \<open>The confidence bound rejects nothing\<close>

lemma confidence_enough:
  assumes "0 < b" and "b \<le> a" and "a \<le> 100000"
  shows "f64_le min_confidence (f64_min (f64_div (f64_of (of_int a)) (f64_of (of_int (a + b)))) (f64_of (99 / 100)))"
proof -
  let ?x = "of_int a / of_int (a + b) :: rat"
  have ab: "0 < (of_int a :: rat)" "(of_int b :: rat) \<le> of_int a" "0 < (of_int b :: rat)" using assms by simp_all
  then have x: "1 / 2 \<le> ?x" "?x \<le> 1" by (simp_all add: field_simps)
  have ints: "f64_of (of_int a) = Finite False (of_int a)" "f64_of (of_int (a + b)) = Finite False (of_int (a + b))"
    using assms f64_of_int [of a] f64_of_int [of "a + b"] by simp_all
  have "1 / 100 \<le> ?x" "?x \<le> 100" using x by linarith+
  then obtain q where q: "f64_of ?x = Finite False q" "\<bar>q - ?x\<bar> \<le> 1 / 10000" by (rule f64_of_close)
  have "f64_div (f64_of (of_int a)) (f64_of (of_int (a + b))) = Finite False q"
    using q(1) ab unfolding ints by (simp add: f64_of_def signed_rat_def)
  moreover obtain c where c: "f64_of (99 / 100) = Finite False c" "\<bar>c - 99 / 100\<bar> \<le> 1 / 10000" by (rule f64_of_close [of "99 / 100"]) simp_all
  moreover obtain d where d: "f64_of (3 / 10) = Finite False d" "\<bar>d - 3 / 10\<bar> \<le> 1 / 10000" by (rule f64_of_close [of "3 / 10"]) simp_all
  moreover have "d < q" "d < c" using q(2) c(2) d(2) x by linarith+
  ultimately show ?thesis
    by (simp add: min_confidence_def f64_min_def f64_le_def f64_less_def signed_rat_def)
qed

lemma single_confidence: "f64_le min_confidence (f64_of (90 / 100))"
proof -
  obtain c where c: "f64_of (90 / 100) = Finite False c" "\<bar>c - 90 / 100\<bar> \<le> 1 / 10000" by (rule f64_of_close [of "90 / 100"]) simp_all
  obtain d where d: "f64_of (3 / 10) = Finite False d" "\<bar>d - 3 / 10\<bar> \<le> 1 / 10000" by (rule f64_of_close [of "3 / 10"]) simp_all
  have "d < c" using c(2) d(2) by linarith
  then show ?thesis unfolding min_confidence_def c(1) d(1) by (simp add: f64_le_def f64_less_def signed_rat_def)
qed

text \<open>The confidence of any scores is enough: the best is at least half of the best two.\<close>

lemma gate_open:
  assumes "list_all (\<lambda>v. 0 < v \<and> v \<le> 100000) vals" and "vals \<noteq> []"
  shows "f64_le min_confidence (group_confidence (rev (sort vals)))"
proof (cases "1 < length vals")
  case True
  let ?vs = "rev (sort vals)"
  have len: "1 < length ?vs" using True by simp
  have "sorted_wrt (\<ge>) ?vs" by (simp add: sorted_wrt_rev)
  then have "?vs ! 1 \<le> ?vs ! 0" using len by (auto dest: sorted_wrt_nth_less)
  moreover have "?vs ! 0 \<in> set vals" "?vs ! 1 \<in> set vals"
    using nth_mem [of 0 ?vs] nth_mem [of 1 ?vs] len less_trans [OF zero_less_one len] unfolding set_rev set_sort by blast+
  ultimately show ?thesis
    using confidence_enough [of "?vs ! 1" "?vs ! 0"] len assms(1) by (simp add: group_confidence_def list_all_iff)
next
  case False
  then show ?thesis using single_confidence by (simp add: group_confidence_def)
qed

lemma max_by_score_best:
  "xs \<noteq> [] \<Longrightarrow> \<exists>x. max_by_score xs = Some x \<and> x \<in> set xs \<and> list_all (\<lambda>y. snd y \<le> snd x) xs"
proof (induction xs)
  case (Cons x xs)
  show ?case
  proof (cases "xs = []")
    case False
    with Cons(1) obtain y where "max_by_score xs = Some y" "y \<in> set xs" "list_all (\<lambda>z. snd z \<le> snd y) xs" by blast
    then show ?thesis by (cases "snd y < snd x") (auto simp: list_all_iff)
  qed simp
qed simp

lemma scored_group_best:
  assumes "mset (iter scores) = mset scores" and "scores \<noteq> []"
    and "list_all (\<lambda>x. 0 < snd x \<and> snd x \<le> 100000) scores"
  shows "\<exists>g s. scored_group iter scores = Some g \<and> (g, s) \<in> set scores \<and> list_all (\<lambda>x. snd x \<le> s) scores"
proof -
  have same: "set (iter scores) = set scores" using assms(1) by (rule mset_eq_setD)
  with assms(2) have "iter scores \<noteq> []" by auto
  from max_by_score_best [OF this] obtain g s where
    best: "max_by_score (iter scores) = Some (g, s)" "(g, s) \<in> set scores" "list_all (\<lambda>x. snd x \<le> s) scores"
    using same by (auto simp: list_all_iff)
  have "f64_le min_confidence (group_confidence (rev (sort (map snd (iter scores)))))"
    using assms(3) same \<open>iter scores \<noteq> []\<close> by (intro gate_open) (auto simp: list_all_iff)
  with best show ?thesis by (auto simp: scored_group_def)
qed

lemma scores_in_bounds: "list_all (\<lambda>x. 0 < snd x \<and> snd x \<le> 100000) (score_head U head)"
  using score_bounds by (fastforce simp: list_all_iff)

subsection \<open>Groups\<close>

text \<open>C27: a ledger whose name holds a keyword, and which the user has not placed himself, gets a group of the
  highest score whatever the iteration order of the map is; the score of a group is the total of the points
  of its keywords in the name. So the confidence bound rejects no ledger.\<close>

theorem keyword_group_is_best:
  assumes "mset (iter (score_head U head)) = mset (score_head U head)" and "hits_of U head \<noteq> []"
  shows "\<exists>g s. classify_group iter U head is_credit amt None = g
    \<and> s = sum_list (map snd (filter (\<lambda>h. fst h = g) (hits_of U head)))
    \<and> list_all (\<lambda>h. sum_list (map snd (filter (\<lambda>h'. fst h' = fst h) (hits_of U head))) \<le> s) (hits_of U head)
    \<and> g \<in> fst ` set (hits_of U head)"
proof -
  have "score_head U head \<noteq> []" using assms(2) by (simp add: score_head_Nil)
  from scored_group_best [of iter, OF assms(1) this scores_in_bounds] obtain g s where
    best: "scored_group iter (score_head U head) = Some g" "(g, s) \<in> set (score_head U head)"
      "list_all (\<lambda>x. snd x \<le> s) (score_head U head)" by blast
  have look: "map_of (score_head U head) h = Some q \<longleftrightarrow> (h, q) \<in> set (score_head U head)" for h q
    using score_head_keys by simp
  from best(2) have s: "g \<in> fst ` set (hits_of U head)"
    "s = sum_list (map snd (filter (\<lambda>h. fst h = g) (hits_of U head)))"
    using look [of g s] by (auto simp: score_of_group split: if_splits)
  have "sum_list (map snd (filter (\<lambda>h'. fst h' = fst h) (hits_of U head))) \<le> s" if "h \<in> set (hits_of U head)" for h
  proof -
    have "map_of (score_head U head) (fst h) = Some (sum_list (map snd (filter (\<lambda>h'. fst h' = fst h) (hits_of U head))))"
      using that by (simp add: score_of_group)
    with look best(3) show ?thesis by (fastforce simp: list_all_iff)
  qed
  with best(1) s show ?thesis by (auto simp: classify_group_def list_all_iff)
qed

text \<open>The classification of a ledger named "cash sale" depends on the iteration order: both groups score ten.\<close>

lemma cash_sale_scores:
  "score_head ascii_tables (lit ''Cash Sale'') = [(group_sales_accounts, 10), (group_cash_in_hand, 10)]"
  by code_simp

lemma cash_sale_depends_on_order:
  "classify_group (\<lambda>s. s) ascii_tables (lit ''Cash Sale'') True x None = group_cash_in_hand
   \<and> classify_group rev ascii_tables (lit ''Cash Sale'') True x None = group_sales_accounts"
proof -
  have gate: "f64_le min_confidence (group_confidence [10, 10])"
    using gate_open [of "[10, 10]"] by simp
  then show ?thesis unfolding classify_group_def scored_group_def cash_sale_scores by simp
qed

lemma cash_sale_hits: "hits_of ascii_tables (lit ''Cash Sale'') \<noteq> []"
  using score_head_Nil [of ascii_tables "lit ''Cash Sale''"] unfolding cash_sale_scores by simp

theorem keyword_group_is_best_witness:
  "classify_group rev ascii_tables (lit ''Cash Sale'') True f64_zero None
     \<in> fst ` set (hits_of ascii_tables (lit ''Cash Sale''))"
  using keyword_group_is_best [of rev ascii_tables "lit ''Cash Sale''" True f64_zero, OF mset_rev cash_sale_hits] by blast

end
