(* ===== verification/GstEngine.thy ===== *)
theory GstEngine
  imports Transactions Patterns AmountParser AmountFacts
begin

text \<open>
  \<open>src/gst_engine.rs\<close>: what a transaction's text says of goods and services tax. Rate, component, tax
  numbers and known vendors are looked up in the text, and the tax portion of the amount is estimated.
\<close>

subsection \<open>Patterns\<close>

definition whole_word :: "unicode \<Rightarrow> string \<Rightarrow> rx" where
  "whole_word U w = Cats [Word U, LitsI w, Word U]"

text \<open>\<open>\b18\s*%?\s*(gst|tax)\b|gst\s*@?\s*18\b\<close>\<close>

definition rate_pattern :: "unicode \<Rightarrow> string \<Rightarrow> rx" where
  "rate_pattern U ds = Alt
     (Cats [Word U, LitsI ds, Many Blank, Opt (Is CHR ''%''), Many Blank,
        Grp 1 (Alts [LitsI ''gst'', LitsI ''tax'']), Word U])
     (Cats [LitsI ''gst'', Many Blank, Opt (Is CHR ''@''), Many Blank, LitsI ds, Word U])"

definition rate_patterns :: "unicode \<Rightarrow> (f64 \<times> rx) list" where
  "rate_patterns U = [(f64_of 28, rate_pattern U ''28''), (f64_of 18, rate_pattern U ''18''),
     (f64_of 12, rate_pattern U ''12''), (f64_of 5, rate_pattern U ''5'')]"

definition re_igst :: "unicode \<Rightarrow> rx" where
  "re_igst U = whole_word U ''IGST''"

definition re_cgst :: "unicode \<Rightarrow> rx" where
  "re_cgst U = whole_word U ''CGST''"

definition re_sgst :: "unicode \<Rightarrow> rx" where
  "re_sgst U = Alt (whole_word U ''SGST'') (whole_word U ''UTGST'')"

definition re_gst_mention :: "unicode \<Rightarrow> rx" where
  "re_gst_mention U = Alts (map (whole_word U) [''GST'', ''IGST'', ''CGST'', ''SGST''])"

definition re_gstin :: rx where
  "re_gstin = Cats [Rep 2 (Chr ascii_digit), Rep 5 (Chr ascii_upper), Rep 4 (Chr ascii_digit), Chr ascii_upper,
     Chr (\<lambda>c. ascii_upper c \<or> 49 \<le> c \<and> c \<le> 57), Is CHR ''Z'', Chr (\<lambda>c. ascii_digit c \<or> ascii_upper c)]"

subsection \<open>Known vendors\<close>

record vendor_gst =
  vg_kw :: "string list"
  vg_rate :: f64
  vg_gst_type :: chars
  vg_expense :: chars

definition vendor_gst_map :: "vendor_gst list" where
  "vendor_gst_map = [
    \<lparr> vg_kw = [''AIRTEL'', ''JIO'', ''BSNL'', ''VODAFONE'', ''VI '', ''IDEA'', ''TATA TELE''],
      vg_rate = f64_of 18, vg_gst_type = lit ''CGST+SGST'', vg_expense = lit ''Telephone Expense'' \<rparr>,
    \<lparr> vg_kw = [''INTERNET'', ''BROADBAND'', ''FIBER'', ''EXCITEL'', ''HATHWAY'', ''ACT FIBER'',
      ''RAILWIRE''],
      vg_rate = f64_of 18, vg_gst_type = lit ''CGST+SGST'', vg_expense = lit ''Internet Charges'' \<rparr>,
    \<lparr> vg_kw = [''MICROSOFT'', ''GOOGLE'', ''AWS'', ''AMAZON WEB'', ''AZURE'', ''ZOHO'',
      ''SALESFORCE'', ''FRESHDESK'', ''HUBSPOT'', ''QUICKBOOKS'', ''NOTION'', ''SLACK'', ''ZOOM'',
      ''WEBEX''],
      vg_rate = f64_of 18, vg_gst_type = lit ''CGST+SGST'', vg_expense = lit ''Software Expense'' \<rparr>,
    \<lparr> vg_kw = [''MSEDCL'', ''BESCOM'', ''TNEB'', ''KSEB'', ''CESC'', ''WBSEDCL'',
      ''TORRENT POWER'', ''ADANI ELECTRICITY'', ''ELECTRICITY BOARD'', ''POWER SUPPLY''],
      vg_rate = f64_of 5, vg_gst_type = lit ''CGST+SGST'', vg_expense = lit ''Electricity Charges'' \<rparr>,
    \<lparr> vg_kw = [''INSURANCE'', ''LIC'', ''SBI LIFE'', ''HDFC LIFE'', ''ICICI PRU'', ''MAX LIFE'',
      ''BAJAJ ALLIANZ'', ''STAR HEALTH'', ''MEDICLAIM'', ''POLICY''],
      vg_rate = f64_of 18, vg_gst_type = lit ''CGST+SGST'', vg_expense = lit ''Insurance Premium'' \<rparr>,
    \<lparr> vg_kw = [''CONSULTANT'', ''AUDIT'', ''LEGAL'', ''ADVOCATE'', ''CHARTERED'', ''CA FIRM'',
      ''LAWYER''],
      vg_rate = f64_of 18, vg_gst_type = lit ''CGST+SGST'', vg_expense = lit ''Professional Fees'' \<rparr>,
    \<lparr> vg_kw = [''RENT'', ''OFFICE RENT'', ''SHOP RENT'', ''RENTAL'', ''LANDLORD''],
      vg_rate = f64_of 18, vg_gst_type = lit ''CGST+SGST'', vg_expense = lit ''Rent'' \<rparr>,
    \<lparr> vg_kw = [''COURIER'', ''DTDC'', ''BLUEDART'', ''DELHIVERY'', ''AMAZON SHIP'', ''LOGISTIC'',
      ''TRANSPORT'', ''FREIGHT''],
      vg_rate = f64_of 5, vg_gst_type = lit ''CGST+SGST'', vg_expense = lit ''Courier & Freight'' \<rparr>,
    \<lparr> vg_kw = [''SWIGGY'', ''ZOMATO'', ''RESTAURANT'', ''HOTEL'', ''CAFE'', ''DHABA'',
      ''BARBEQUE''],
      vg_rate = f64_of 5, vg_gst_type = lit ''CGST+SGST'', vg_expense = lit ''Food Expense'' \<rparr>,
    \<lparr> vg_kw = [''PETROL'', ''DIESEL'', ''BPCL'', ''HPCL'', ''INDIAN OIL'', ''HP PETRO'',
      ''FUEL PUMP''],
      vg_rate = f64_of 0, vg_gst_type = lit ''EXEMPT'', vg_expense = lit ''Fuel Expense'' \<rparr>,
    \<lparr> vg_kw = [''UBER'', ''OLA'', ''RAPIDO'', ''MERU'', ''TAXISURE''],
      vg_rate = f64_of 5, vg_gst_type = lit ''CGST+SGST'', vg_expense = lit ''Travelling Expense'' \<rparr>,
    \<lparr> vg_kw = [''FACEBOOK ADS'', ''GOOGLE ADS'', ''META ADS'', ''INSTAGRAM ADS'',
      ''LINKEDIN ADS''],
      vg_rate = f64_of 18, vg_gst_type = lit ''CGST+SGST'', vg_expense = lit ''Advertisement Expense'' \<rparr>]"

subsection \<open>Detection\<close>

definition detect_rate :: "unicode \<Rightarrow> chars \<Rightarrow> f64 option" where
  "detect_rate U s = map_option fst (find (\<lambda>(_, re). is_match re s) (rate_patterns U))"

definition detect_component :: "unicode \<Rightarrow> chars \<Rightarrow> chars option" where
  "detect_component U s =
    (if is_match (re_igst U) s then Some (lit ''IGST'')
     else if is_match (re_cgst U) s \<or> is_match (re_sgst U) s then Some (lit ''CGST+SGST'')
     else None)"

text \<open>The first occurrence of every match, in order.\<close>

fun first_seen :: "chars list \<Rightarrow> chars list \<Rightarrow> chars list" where
  "first_seen seen [] = []"
| "first_seen seen (x # xs) = (if x \<in> set seen then first_seen seen xs else x # first_seen (x # seen) xs)"

definition extract_gstins :: "chars \<Rightarrow> chars list" where
  "extract_gstins s = first_seen [] (map snd (fst (find_pieces re_gstin s)))"

definition vendor_match :: "chars \<Rightarrow> vendor_gst option" where
  "vendor_match text_upper = find (\<lambda>v. list_ex (\<lambda>k. has_part (lit k) text_upper) (vg_kw v)) vendor_gst_map"

definition suggest_ledger :: "chars \<Rightarrow> f64 \<Rightarrow> bool \<Rightarrow> chars option" where
  "suggest_ledger gst_type rate is_expense =
    (if gst_type = lit ''EXEMPT'' \<or> f64_eq rate f64_zero then None
     else if gst_type = lit ''IGST'' then
       Some (lit (if is_expense then ''IGST Input ('' else ''IGST Output ('') @ format_shortest rate @ lit ''%)'')
     else
       let half = format_shortest (f64_div rate (f64_of 2)) in
       Some (if is_expense then lit ''CGST Input ('' @ half @ lit ''%) + SGST Input ('' @ half @ lit ''%)''
             else lit ''CGST Output ('' @ half @ lit ''%) + SGST Output ('' @ half @ lit ''%)''))"

record gst_analysis =
  ga_gst_rate :: "f64 option"
  ga_gst_type :: "chars option"
  ga_gst_amount :: "f64 option"
  ga_gstins :: "chars list"
  ga_expense_ledger :: "chars option"
  ga_suggested_ledger :: "chars option"
  ga_confidence :: f64

definition or_option :: "'a option \<Rightarrow> 'a option \<Rightarrow> 'a option" where
  "or_option a b = (case a of None \<Rightarrow> b | Some x \<Rightarrow> Some x)"

definition gst_estimate :: "f64 option \<Rightarrow> f64 option \<Rightarrow> f64 option" where
  "gst_estimate base rate =
    (case (base, rate) of
       (Some b, Some r) \<Rightarrow>
         if f64_less f64_zero r then Some (round2 (f64_div (f64_mul b r) (f64_add (f64_of 100) r))) else None
     | _ \<Rightarrow> None)"

definition add_signal :: "bool \<Rightarrow> rat \<Rightarrow> f64 \<Rightarrow> f64" where
  "add_signal present weight confidence =
    (if present then f64_add confidence (f64_of weight) else confidence)"

definition analyse :: "unicode \<Rightarrow> chars \<Rightarrow> chars \<Rightarrow> chars \<Rightarrow> f64 option \<Rightarrow> f64 option \<Rightarrow> gst_analysis option" where
  "analyse U narration reference vendor debit credit =
    (let all_text = narration @ 32 # reference @ 32 # vendor;
         is_expense = (debit \<noteq> None \<and> credit = None);
         gstins = extract_gstins all_text;
         component = detect_component U all_text;
         rate_from_txt = detect_rate U all_text;
         vendor_hit = vendor_match (to_uppercase U all_text);
         gst_mentioned = is_match (re_gst_mention U) all_text in
     if \<not> gst_mentioned \<and> vendor_hit = None \<and> gstins = [] \<and> rate_from_txt = None then None
     else
       let gst_rate = or_option rate_from_txt (map_option vg_rate vendor_hit);
           gst_type = or_option component (or_option (map_option vg_gst_type vendor_hit)
             (if gst_rate \<noteq> None then Some (lit ''CGST+SGST'') else None)) in
       Some \<lparr> ga_gst_rate = gst_rate, ga_gst_type = gst_type,
         ga_gst_amount = gst_estimate (or_option debit credit) gst_rate,
         ga_gstins = gstins,
         ga_expense_ledger = map_option vg_expense vendor_hit,
         ga_suggested_ledger = (case (gst_type, gst_rate) of
            (Some gt, Some r) \<Rightarrow> suggest_ledger gt r is_expense | _ \<Rightarrow> None),
         ga_confidence = f64_min (round2
            (add_signal gst_mentioned (10 / 100) (add_signal (vendor_hit \<noteq> None) (15 / 100)
            (add_signal (rate_from_txt \<noteq> None) (20 / 100) (add_signal (component \<noteq> None) (20 / 100)
            (add_signal (gstins \<noteq> []) (35 / 100) f64_zero)))))) (f64_of (99 / 100)) \<rparr>)"

section \<open>The estimate\<close>

text \<open>
  The estimate of the tax portion: within a rounding of the exact share of the amount, for every rate the
  engine knows; and a vendor keyword inside another word.
\<close>

lemma rounded_fine:
  assumes "1 / 10 ^ 6 \<le> x" and "x \<le> 10 ^ 20"
  shows "rounded z x = Finite False (nearest x)" and "\<bar>nearest x - x\<bar> \<le> x / 2 ^ 53"
proof -
  have "(10::rat) ^ 6 \<le> 2 ^ 1022"
    by (rule order_trans [of _ "2 ^ 20"]) (simp, intro power_increasing, simp_all)
  then have "two_to (- 1022) \<le> 1 / 10 ^ 6" by (simp add: two_to_def field_simps)
  with assms(1) have tiny: "two_to (- 1022) \<le> x" by linarith
  with assms rounded_ordinary [of x z] big [OF assms(2)] show "rounded z x = Finite False (nearest x)" by simp
  show "\<bar>nearest x - x\<bar> \<le> x / 2 ^ 53" by (rule nearest_error [OF tiny])
qed

lemma round2_near:
  assumes "1 / 10 ^ 4 \<le> x" and "x \<le> 10 ^ 10"
  obtains k where "round2 (Finite False x) = amount False k" and "0 \<le> k"
    and "of_int k \<le> 100 * x + 501 / 1000" and "100 * x - 501 / 1000 \<le> of_int k"
proof -
  have b: "1 / 10 ^ 6 \<le> x * 100" "x * 100 \<le> 10 ^ 20" using assms by simp_all
  let ?y = "nearest (x * 100)" let ?k = "floor (?y + 1 / 2)"
  have y: "\<bar>?y - x * 100\<bar> \<le> x * 100 / 2 ^ 53" by (rule rounded_fine(2) [OF b])
  have "f64_mul (Finite False x) (f64_of 100) = Finite False ?y"
    using rounded_fine(1) [OF b] by (simp add: signed_rat_def)
  then have r: "round2 (Finite False x) = f64_div (Finite False (of_int ?k)) (f64_of 100)"
    by (simp add: round2_def del: f64_of_numerals)
  have k: "of_int ?k \<le> ?y + 1 / 2" "?y - 1 / 2 < of_int ?k" by linarith+
  have e: "x * 100 / 2 ^ 53 \<le> 1 / 1000" using assms(2) by simp
  have "of_int ?k \<le> 100 * x + 501 / 1000" "100 * x - 501 / 1000 \<le> of_int ?k" using y e k by linarith+
  moreover have "0 \<le> ?y" using nearest_nonneg [of "x * 100"] b(1) by simp
  then have "0 \<le> ?k" by simp
  moreover have "round2 (Finite False x) = amount False ?k" if "?k \<le> 10 ^ 12"
    unfolding r using of_paise(1) [of ?k False] that calculation by simp
  moreover have "?k \<le> 10 ^ 12"
  proof -
    have "?y + 1 / 2 < of_int (10 ^ 12 + 1)" using y e assms(2) unfolding abs_le_iff by simp
    then have "?k < 10 ^ 12 + 1" by (simp only: floor_less_iff)
    then show ?thesis by simp
  qed
  ultimately show ?thesis using that by blast
qed

text \<open>The tax portion of an amount of \<open>n\<close> paise.\<close>

lemma gst_share:
  fixes r :: rat
  assumes n: "1 \<le> (q::rat)" "q \<le> 10 ^ 12" and r: "r \<in> {5, 12, 18, 28}"
  defines "b \<equiv> nearest (q / 100)" and "p \<equiv> nearest (nearest (q / 100) * r)"
  defines "d \<equiv> nearest (p / (100 + r))"
  shows "rounded False (b * r) = Finite False p" and "rounded False (p / (100 + r)) = Finite False d"
    and "1 / 10 ^ 4 \<le> d" and "d \<le> 10 ^ 10"
    and "100 * d \<le> q * r / (100 + r) + 1 / 100" and "q * r / (100 + r) - 1 / 100 \<le> 100 * d"
proof -
  have 1: "1 / 10 ^ 6 \<le> q / 100" "q / 100 \<le> 10 ^ 20" using n by simp_all
  have b: "\<bar>b - q / 100\<bar> \<le> q / 100 / 2 ^ 53" unfolding b_def by (rule rounded_fine(2) [OF 1])
  then have b: "b \<le> q / 100 + q / 100 / 2 ^ 53" "q / 100 - q / 100 / 2 ^ 53 \<le> b" by linarith+
  have 2: "1 / 10 ^ 6 \<le> b * r" "b * r \<le> 10 ^ 20" using b n r by auto
  show "rounded False (b * r) = Finite False p"
    using rounded_fine(1) [OF 2] by (simp add: p_def b_def)
  have p: "\<bar>p - b * r\<bar> \<le> b * r / 2 ^ 53" using rounded_fine(2) [OF 2] by (simp add: p_def b_def)
  then have p: "p \<le> b * r + b * r / 2 ^ 53" "b * r - b * r / 2 ^ 53 \<le> p" by linarith+
  have 3: "1 / 10 ^ 6 \<le> p / (100 + r)" "p / (100 + r) \<le> 10 ^ 20" using b p n r by auto
  show "rounded False (p / (100 + r)) = Finite False d"
    using rounded_fine(1) [OF 3] by (simp add: d_def)
  have d: "\<bar>d - p / (100 + r)\<bar> \<le> p / (100 + r) / 2 ^ 53" using rounded_fine(2) [OF 3] by (simp add: d_def)
  then have d: "d \<le> p / (100 + r) + p / (100 + r) / 2 ^ 53" "p / (100 + r) - p / (100 + r) / 2 ^ 53 \<le> d" by linarith+
  show "1 / 10 ^ 4 \<le> d" "d \<le> 10 ^ 10" "100 * d \<le> q * r / (100 + r) + 1 / 100"
    "q * r / (100 + r) - 1 / 100 \<le> 100 * d"
    using b p d n r by (auto simp: abs_le_iff)
qed

text \<open>For an amount of up to a thousand crore rupees and each rate of the tables, the estimated tax is a
  whole number of paise within 0.52 paisa of the exact share of the amount; so it is at most the amount.\<close>

lemma gst_estimate_close:
  assumes "1 \<le> n" and "n \<le> 10 ^ 12" and "r \<in> {5, 12, 18, 28}"
  shows "\<exists>k. gst_estimate (Some (amount False n)) (Some (f64_of (of_int r))) = Some (amount False k)
    \<and> 0 \<le> k \<and> k \<le> n
    \<and> of_int n * of_int r / (100 + of_int r) - (52 / 100 :: rat) \<le> of_int k
    \<and> of_int k \<le> of_int n * of_int r / (100 + of_int r) + (52 / 100 :: rat)"
proof -
  let ?q = "of_int n :: rat" let ?r = "of_int r :: rat"
  have q: "1 \<le> ?q" "?q \<le> 10 ^ 12" using assms(1,2) by (simp_all add: order_trans [of _ "of_int (10 ^ 12)"])
  have r: "?r \<in> {5, 12, 18, 28}" using assms(3) by auto
  define p where "p = nearest (nearest (?q / 100) * ?r)"
  define d where "d = nearest (p / (100 + ?r))"
  note share = gst_share [OF q r, folded p_def, folded d_def]
  have of_r: "f64_of ?r = Finite False ?r" using f64_of_int [of r] assms(3) by auto
  have sum: "f64_add (f64_of 100) (Finite False ?r) = Finite False (100 + ?r)"
    using f64_of_int [of "100 + r"] assms(3) unfolding f64_of_numerals by (auto simp: f64_of_def signed_rat_def)
  have n0: "n \<noteq> 0" using assms(1) by simp
  have pos: "0 < ?r" using r by auto
  have "f64_mul (amount False n) (Finite False ?r) = Finite False p"
    using share(1) n0 by (simp add: amount_def signed_rat_def)
  moreover have "f64_div (Finite False p) (Finite False (100 + ?r)) = Finite False d"
    using share(2) pos by (simp add: signed_rat_def)
  moreover have "f64_less f64_zero (Finite False ?r)" using pos by (simp add: f64_less_def f64_zero_def signed_rat_def)
  ultimately have est: "gst_estimate (Some (amount False n)) (Some (f64_of ?r)) = Some (round2 (Finite False d))"
    by (simp add: gst_estimate_def of_r sum del: f64_mul.simps f64_div.simps f64_add.simps f64_of_numerals)
  obtain k where k: "round2 (Finite False d) = amount False k" "0 \<le> k"
    "of_int k \<le> 100 * d + 501 / 1000" "100 * d - 501 / 1000 \<le> of_int k"
    by (rule round2_near [OF share(3,4)])
  have close: "?q * ?r / (100 + ?r) - 52 / 100 \<le> of_int k" "of_int k \<le> ?q * ?r / (100 + ?r) + 52 / 100"
    using k(3,4) share(5,6) by linarith+
  have "?q * ?r / (100 + ?r) + 52 / 100 < ?q + 1" using q r by auto
  with close(2) have "of_int k < (of_int (n + 1) :: rat)" by simp
  then have "k \<le> n" by (simp only: of_int_less_iff)
  with est k(1,2) close show ?thesis by auto
qed

lemma gst_estimate_close_example:
  "\<exists>k. gst_estimate (Some (amount False 11800)) (Some (f64_of 18)) = Some (amount False k) \<and> k = 1800"
proof -
  from gst_estimate_close [of 11800 18] obtain k where k:
    "gst_estimate (Some (amount False 11800)) (Some (f64_of 18)) = Some (amount False k)"
    "(1800 :: rat) - 52 / 100 \<le> of_int k" "of_int k \<le> (1800 :: rat) + 52 / 100" by auto
  then have "of_int 1799 < (of_int k :: rat)" "(of_int k :: rat) < of_int 1801" by simp_all
  then have "1799 < k" "k < 1801" by (simp_all only: of_int_less_iff)
  then have "k = 1800" by simp
  with k(1) show ?thesis by simp
qed

text \<open>A keyword is found inside another word: a current account counts as rent with eighteen per cent.\<close>

lemma current_is_rent:
  "map_option (\<lambda>v. (vg_kw v, vg_expense v)) (vendor_match (lit ''CURRENT ACCOUNT''))
     = Some ([''RENT'', ''OFFICE RENT'', ''SHOP RENT'', ''RENTAL'', ''LANDLORD''], lit ''Rent'')"
  by (simp add: vendor_match_def vendor_gst_map_def)

end
