(* ===== verification/TextSafety.thy ===== *)
theory TextSafety
  imports Text
begin

text \<open>
  \<open>src/text_safety.rs\<close>: slicing at byte offsets. A \<open>str\<close> is the UTF-8 encoding of its characters; the
  functions work on its bytes, and what they find is a boundary between two characters.
\<close>

subsection \<open>UTF-8\<close>

definition utf8 :: "int \<Rightarrow> int list" where
  "utf8 c =
    (if c < 0x80 then [c]
     else if c < 0x800 then [0xC0 + c div 64, 0x80 + c mod 64]
     else if c < 0x10000 then [0xE0 + c div 4096, 0x80 + c div 64 mod 64, 0x80 + c mod 64]
     else [0xF0 + c div 262144, 0x80 + c div 4096 mod 64, 0x80 + c div 64 mod 64, 0x80 + c mod 64])"

definition as_bytes :: "chars \<Rightarrow> int list" where
  "as_bytes s = concat (map utf8 s)"

definition is_char_boundary :: "chars \<Rightarrow> nat \<Rightarrow> bool" where
  "is_char_boundary s i \<longleftrightarrow> i = 0 \<or> i = length (as_bytes s)
     \<or> i < length (as_bytes s) \<and> \<not> (0x80 \<le> as_bytes s ! i \<and> as_bytes s ! i < 0xC0)"

subsection \<open>The helpers\<close>

fun floor_from :: "chars \<Rightarrow> nat \<Rightarrow> nat" where
  "floor_from s 0 = 0"
| "floor_from s (Suc i) = (if \<not> is_char_boundary s (Suc i) then floor_from s i else Suc i)"

definition floor_char_boundary :: "chars \<Rightarrow> nat \<Rightarrow> nat" where
  "floor_char_boundary s idx = floor_from s (min idx (length (as_bytes s)))"

definition safe_prefix :: "chars \<Rightarrow> nat \<Rightarrow> int list" where
  "safe_prefix s max_bytes = take (floor_char_boundary s max_bytes) (as_bytes s)"

definition bytes_eq_ignore_case :: "int list \<Rightarrow> int list \<Rightarrow> bool" where
  "bytes_eq_ignore_case a b \<longleftrightarrow> map to_ascii_lower a = map to_ascii_lower b"

definition find_ascii_ci :: "chars \<Rightarrow> chars \<Rightarrow> nat option" where
  "find_ascii_ci s pat =
    (let sb = as_bytes s; pb = as_bytes pat in
     if pb = [] \<or> length sb < length pb then None
     else find (\<lambda>i. is_char_boundary s i \<and> bytes_eq_ignore_case (take (length pb) (drop i sb)) pb)
       [0..<length sb - length pb + 1])"

subsection \<open>Characters and bytes\<close>

definition scalar :: "int \<Rightarrow> bool" where
  "scalar c \<longleftrightarrow> 0 \<le> c \<and> c < 0x110000"

lemma as_bytes_simps [simp]:
  "as_bytes [] = []" "as_bytes (c # s) = utf8 c @ as_bytes s" "as_bytes (s @ t) = as_bytes s @ as_bytes t"
  by (simp_all add: as_bytes_def)

lemma utf8_length [simp]: "length (utf8 c) = utf8_len c"
  by (simp add: utf8_def utf8_len_def)

lemma as_bytes_length [simp]: "length (as_bytes s) = byte_len s"
  by (induction s) (simp_all add: byte_len_def)

lemma byte_len_simps [simp]: "byte_len [] = 0" "byte_len (c # s) = utf8_len c + byte_len s"
  "byte_len (s @ t) = byte_len s + byte_len t"
  by (simp_all add: byte_len_def)

lemma utf8_len_pos [simp]: "0 < utf8_len c" "utf8_len c \<noteq> 0"
  by (simp_all add: utf8_len_def)

definition trail :: "int \<Rightarrow> bool" where
  "trail b \<longleftrightarrow> 0x80 \<le> b \<and> b < 0xC0"

lemma utf8_shape:
  assumes "scalar c"
  shows "\<exists>b bs. utf8 c = b # bs \<and> \<not> trail b \<and> list_all trail bs"
proof -
  have "0 \<le> c mod 64" "c mod 64 < 64" "0 \<le> c div 64 mod 64" "c div 64 mod 64 < 64"
    "0 \<le> c div 4096 mod 64" "c div 4096 mod 64 < 64" by simp_all
  then show ?thesis using assms by (auto simp: utf8_def trail_def scalar_def)
qed

lemma boundary_Cons:
  assumes "list_all scalar (c # s)"
  shows "is_char_boundary (c # s) i \<longleftrightarrow> i = 0 \<or> utf8_len c \<le> i \<and> is_char_boundary s (i - utf8_len c)"
proof -
  obtain b bs where c: "utf8 c = b # bs" "\<not> trail b" "list_all trail bs"
    using utf8_shape [of c] assms by auto
  have len: "utf8_len c = Suc (length bs)" using utf8_length [of c] c(1) by simp
  have start: "s \<noteq> [] \<Longrightarrow> \<not> trail (as_bytes s ! 0)"
    using utf8_shape [of "hd s"] assms by (cases s) (auto simp: list_all_iff)
  consider "i = 0" | "0 < i" "i < utf8_len c" | "utf8_len c \<le> i" by linarith
  then show ?thesis
  proof cases
    case 2
    then obtain j where j: "i = Suc j" "j < length bs" using len by (cases i) auto
    then have "trail (as_bytes (c # s) ! i)" using c by (simp add: nth_append list_all_length)
    with 2 show ?thesis by (simp add: is_char_boundary_def trail_def)
  next
    case 3
    then obtain j where j: "i = utf8_len c + j" by (auto simp: le_iff_add)
    have nth: "as_bytes (c # s) ! i = as_bytes s ! j" using j by (simp add: nth_append)
    show ?thesis
    proof (cases "j = 0")
      case True
      with start nth j show ?thesis by (cases "s = []") (auto simp: is_char_boundary_def trail_def)
    next
      case False
      with nth j show ?thesis by (auto simp: is_char_boundary_def)
    qed
  qed (simp add: is_char_boundary_def)
qed

text \<open>The boundaries are the lengths of the prefixes.\<close>

lemma boundary_prefix:
  "list_all scalar s \<Longrightarrow> is_char_boundary s i \<longleftrightarrow> (\<exists>k \<le> length s. i = byte_len (take k s))"
proof (induction s arbitrary: i)
  case (Cons c s)
  have "(\<exists>k \<le> length (c # s). i = byte_len (take k (c # s)))
      \<longleftrightarrow> i = 0 \<or> (\<exists>k \<le> length s. i = utf8_len c + byte_len (take k s))" (is "?a \<longleftrightarrow> ?b")
  proof
    assume ?a
    then obtain k where k: "k \<le> length (c # s)" "i = byte_len (take k (c # s))" by blast
    then show ?b by (cases k) auto
  next
    assume ?b
    then show ?a
    proof
      assume "\<exists>k \<le> length s. i = utf8_len c + byte_len (take k s)"
      then obtain k where "k \<le> length s" "i = utf8_len c + byte_len (take k s)" by blast
      then show ?a by (intro exI [of _ "Suc k"]) simp
    qed (auto intro: exI [of _ 0])
  qed
  with Cons boundary_Cons [OF Cons(2), of i] show ?case by (auto simp: le_iff_add)
qed (simp add: is_char_boundary_def)

section \<open>The offsets are safe\<close>

text \<open>
  The byte offsets are safe to slice at: a safe prefix is the longest run of whole characters that fits,
  and the search over bytes finds what the search over characters finds.
\<close>

subsection \<open>The longest prefix\<close>

lemma floor_from_spec:
  "floor_from s i \<le> i \<and> is_char_boundary s (floor_from s i)
   \<and> (\<forall>j. floor_from s i < j \<and> j \<le> i \<longrightarrow> \<not> is_char_boundary s j)"
proof (induction i)
  case 0
  show ?case by (auto simp: is_char_boundary_def)
next
  case (Suc i)
  then show ?case by (auto simp: le_Suc_eq)
qed

text \<open>A safe prefix is made of whole characters, is no longer than asked for, and one character more would
  be too long.\<close>

lemma safe_prefix_longest:
  assumes "list_all scalar s"
  shows "\<exists>k \<le> length s. safe_prefix s n = as_bytes (take k s) \<and> byte_len (take k s) \<le> n
    \<and> (k = length s \<or> n < byte_len (take (Suc k) s))"
proof -
  let ?i = "min n (byte_len s)" let ?f = "floor_from s ?i"
  note spec = floor_from_spec [of s ?i]
  from spec boundary_prefix [OF assms] obtain k where k: "k \<le> length s" "?f = byte_len (take k s)" by blast
  have "as_bytes s = as_bytes (take k s) @ as_bytes (drop k s)"
    unfolding as_bytes_simps(3) [symmetric] by simp
  then have "take (byte_len (take k s)) (as_bytes s) = as_bytes (take k s)" by (metis append_eq_conv_conj as_bytes_length)
  then have "safe_prefix s n = as_bytes (take k s)"
    using k(2) by (simp add: safe_prefix_def floor_char_boundary_def)
  moreover have "byte_len (take k s) \<le> n" using spec k(2) by simp
  moreover have "n < byte_len (take (Suc k) s)" if "k \<noteq> length s"
  proof (rule ccontr)
    assume "\<not> n < byte_len (take (Suc k) s)"
    moreover have "byte_len (take j s) \<le> byte_len s" for j
      using byte_len_simps(3) [of "take j s" "drop j s"] by simp
    ultimately have "byte_len (take (Suc k) s) \<le> ?i" by simp
    moreover have "take (Suc k) s = take k s @ [s ! k]" using that k(1) by (intro take_Suc_conv_app_nth) simp
    then have "?f < byte_len (take (Suc k) s)" using k(2) by simp
    moreover have "is_char_boundary s (byte_len (take (Suc k) s))"
      using boundary_prefix [OF assms] that k(1) by (metis Suc_leI le_neq_implies_less)
    ultimately show False using spec by blast
  qed
  ultimately show ?thesis using k(1) by blast
qed

subsection \<open>Searching\<close>

definition ci_prefix :: "chars \<Rightarrow> chars \<Rightarrow> bool" where
  "ci_prefix pat s = has_prefix (map to_ascii_lower pat) (map to_ascii_lower s)"

text \<open>The search as a walk over the characters, counting bytes.\<close>

fun char_find :: "chars \<Rightarrow> chars \<Rightarrow> nat option" where
  "char_find pat [] = None"
| "char_find pat (c # s) =
    (if ci_prefix pat (c # s) then Some 0 else map_option (\<lambda>i. utf8_len c + i) (char_find pat s))"

lemma utf8_parts:
  assumes "scalar c"
  obtains c0 c1 c2 c3 where "c = 64 * (64 * (64 * c3 + c2) + c1) + c0"
    and "0 \<le> c0" "c0 < 64" "0 \<le> c1" "c1 < 64" "0 \<le> c2" "c2 < 64" "0 \<le> c3"
    and "c < 0x800 \<longrightarrow> c1 < 32 \<and> c2 = 0 \<and> c3 = 0" and "c < 0x10000 \<longrightarrow> c2 < 16 \<and> c3 = 0"
    and "utf8 c = (if c < 0x80 then [c] else if c < 0x800 then [0xC0 + c1, 0x80 + c0]
       else if c < 0x10000 then [0xE0 + c2, 0x80 + c1, 0x80 + c0]
       else [0xF0 + c3, 0x80 + c2, 0x80 + c1, 0x80 + c0])"
proof -
  define x where "x = c div 64" define y where "y = x div 64" define z where "z = y div 64"
  have c: "0 \<le> c" using assms by (simp add: scalar_def)
  have div: "c div 4096 = y" "c div 262144 = z"
    using zdiv_zmult2_eq [of 64 c 64] zdiv_zmult2_eq [of 64 c 4096]
    unfolding x_def y_def z_def by simp_all
  have split: "c = 64 * x + c mod 64" "x = 64 * y + x mod 64" "y = 64 * z + y mod 64"
    by (simp_all add: x_def y_def z_def)
  have pos: "0 \<le> x" "0 \<le> y" "0 \<le> z"
    using c by (simp_all add: x_def y_def z_def pos_imp_zdiv_nonneg_iff)
  have mods: "0 \<le> c mod 64" "c mod 64 < 64" "0 \<le> x mod 64" "x mod 64 < 64" "0 \<le> y mod 64" "y mod 64 < 64" by simp_all
  have less: "c < 0x800 \<longrightarrow> x mod 64 < 32 \<and> y mod 64 = 0 \<and> z = 0" "c < 0x10000 \<longrightarrow> y mod 64 < 16 \<and> z = 0"
    using split pos mods by linarith+
  have "c < 0x800 \<Longrightarrow> y = 0" "c < 0x10000 \<Longrightarrow> y = y mod 64" using less split(3) by linarith+
  then have whole: "c < 0x800 \<Longrightarrow> x = x mod 64" "c < 0x10000 \<Longrightarrow> y = y mod 64"
    using split(2) by linarith+
  show thesis
  proof (rule that)
    show "c = 64 * (64 * (64 * z + y mod 64) + x mod 64) + c mod 64" using split by simp
    show "utf8 c = (if c < 0x80 then [c] else if c < 0x800 then [0xC0 + x mod 64, 0x80 + c mod 64]
         else if c < 0x10000 then [0xE0 + y mod 64, 0x80 + x mod 64, 0x80 + c mod 64]
         else [0xF0 + z, 0x80 + y mod 64, 0x80 + x mod 64, 0x80 + c mod 64])"
      using whole by (simp add: utf8_def div x_def [symmetric])
  qed (use less pos in simp_all)
qed

lemma utf8_inj:
  assumes "utf8 c @ x = utf8 d @ y" and "scalar c" and "scalar d"
  shows "c = d \<and> x = y"
proof -
  obtain c0 c1 c2 c3 where c: "c = 64 * (64 * (64 * c3 + c2) + c1) + c0"
    "0 \<le> c0" "c0 < 64" "0 \<le> c1" "c1 < 64" "0 \<le> c2" "c2 < 64" "0 \<le> c3"
    "c < 0x800 \<longrightarrow> c1 < 32 \<and> c2 = 0 \<and> c3 = 0" "c < 0x10000 \<longrightarrow> c2 < 16 \<and> c3 = 0"
    "utf8 c = (if c < 0x80 then [c] else if c < 0x800 then [0xC0 + c1, 0x80 + c0]
       else if c < 0x10000 then [0xE0 + c2, 0x80 + c1, 0x80 + c0]
       else [0xF0 + c3, 0x80 + c2, 0x80 + c1, 0x80 + c0])"
    by (rule utf8_parts [OF assms(2)])
  obtain d0 d1 d2 d3 where d: "d = 64 * (64 * (64 * d3 + d2) + d1) + d0"
    "0 \<le> d0" "d0 < 64" "0 \<le> d1" "d1 < 64" "0 \<le> d2" "d2 < 64" "0 \<le> d3"
    "d < 0x800 \<longrightarrow> d1 < 32 \<and> d2 = 0 \<and> d3 = 0" "d < 0x10000 \<longrightarrow> d2 < 16 \<and> d3 = 0"
    "utf8 d = (if d < 0x80 then [d] else if d < 0x800 then [0xC0 + d1, 0x80 + d0]
       else if d < 0x10000 then [0xE0 + d2, 0x80 + d1, 0x80 + d0]
       else [0xF0 + d3, 0x80 + d2, 0x80 + d1, 0x80 + d0])"
    by (rule utf8_parts [OF assms(3)])
  have eq: "utf8 c @ x = utf8 d @ y" by (rule assms(1))
  have "c = d"
  proof (cases "c < 0x80 \<or> d < 0x80")
    case True
    then show ?thesis using eq c(2-10) d(2-10) unfolding c(11) d(11) by (auto split: if_splits)
  next
    case False
    have "c0 = d0 \<and> c1 = d1 \<and> c2 = d2 \<and> c3 = d3"
      using eq False c(2-10) d(2-10) unfolding c(11) d(11) by (auto split: if_splits)
    then show ?thesis unfolding c(1) d(1) by simp
  qed
  with eq show ?thesis by simp
qed

lemma utf8_lower: "scalar c \<Longrightarrow> map to_ascii_lower (utf8 c) = utf8 (to_ascii_lower c)"
proof -
  assume "scalar c"
  moreover have "to_ascii_lower b = b" if "128 \<le> b" for b using that by (simp add: to_ascii_lower_def ascii_upper_def)
  moreover have "0 \<le> c div 64" "0 \<le> c div 4096" "0 \<le> c div 262144" using \<open>scalar c\<close> by (simp_all add: scalar_def pos_imp_zdiv_nonneg_iff)
  ultimately show ?thesis
    by (auto simp: utf8_def) (auto simp: to_ascii_lower_def ascii_upper_def)
qed

lemma scalar_lower: "scalar c \<Longrightarrow> scalar (to_ascii_lower c)"
  by (simp add: scalar_def to_ascii_lower_def ascii_upper_def)

lemma as_bytes_lower: "list_all scalar s \<Longrightarrow> map to_ascii_lower (as_bytes s) = as_bytes (map to_ascii_lower s)"
  by (induction s) (simp_all add: utf8_lower)

lemma has_prefix_bytes:
  "list_all scalar p \<Longrightarrow> list_all scalar s \<Longrightarrow>
    has_prefix p s \<longleftrightarrow> (\<exists>r. as_bytes s = as_bytes p @ r)"
proof (induction p s rule: has_prefix.induct)
  case (2 p ps)
  then show ?case using utf8_length [of p] by (auto simp del: utf8_length)
next
  case (3 p ps c s)
  have "(\<exists>r. utf8 c @ as_bytes s = utf8 p @ as_bytes ps @ r) \<longleftrightarrow> c = p \<and> (\<exists>r. as_bytes s = as_bytes ps @ r)"
    using utf8_inj [of c "as_bytes s" p] 3(2,3) by auto
  with 3 show ?case by auto
qed simp

lemma match_at:
  assumes "list_all scalar s" and "list_all scalar pat" and "byte_len pat \<le> byte_len s"
  shows "bytes_eq_ignore_case (take (byte_len pat) (as_bytes s)) (as_bytes pat) \<longleftrightarrow> ci_prefix pat s"
proof -
  have "ci_prefix pat s \<longleftrightarrow> (\<exists>r. map to_ascii_lower (as_bytes s) = map to_ascii_lower (as_bytes pat) @ r)"
    unfolding ci_prefix_def as_bytes_lower [OF assms(1)] as_bytes_lower [OF assms(2)]
    using assms by (intro has_prefix_bytes) (auto simp: list_all_iff scalar_lower)
  also have "\<dots> \<longleftrightarrow> take (byte_len pat) (map to_ascii_lower (as_bytes s)) = map to_ascii_lower (as_bytes pat)"
    by (metis append_eq_conv_conj append_take_drop_id as_bytes_length length_map)
  finally show ?thesis by (simp add: bytes_eq_ignore_case_def take_map)
qed

lemma ci_prefix_length: "ci_prefix pat s \<Longrightarrow> list_all scalar s \<Longrightarrow> list_all scalar pat \<Longrightarrow> byte_len pat \<le> byte_len s"
proof -
  assume *: "ci_prefix pat s" "list_all scalar s" "list_all scalar pat"
  then have "\<exists>r. as_bytes (map to_ascii_lower s) = as_bytes (map to_ascii_lower pat) @ r"
    unfolding ci_prefix_def by (subst (asm) has_prefix_bytes) (auto simp: list_all_iff scalar_lower)
  then obtain r where "as_bytes (map to_ascii_lower s) = as_bytes (map to_ascii_lower pat) @ r" by blast
  then have "length (as_bytes (map to_ascii_lower s)) = length (as_bytes (map to_ascii_lower pat)) + length r"
    by (simp only: length_append)
  then have "length (as_bytes (map to_ascii_lower pat)) \<le> length (as_bytes (map to_ascii_lower s))" by simp
  moreover have "length (as_bytes (map to_ascii_lower t)) = byte_len t" if "list_all scalar t" for t
    using as_bytes_lower [OF that] by (metis as_bytes_length length_map)
  ultimately show ?thesis using * by simp
qed

text \<open>The least offset, on both sides.\<close>

definition found_at :: "chars \<Rightarrow> chars \<Rightarrow> nat \<Rightarrow> bool" where
  "found_at s pat i \<longleftrightarrow> (\<exists>k \<le> length s. i = byte_len (take k s) \<and> ci_prefix pat (drop k s))"

lemma found_at_Cons:
  "found_at (c # s) pat i \<longleftrightarrow> i = 0 \<and> ci_prefix pat (c # s) \<or> utf8_len c \<le> i \<and> found_at s pat (i - utf8_len c)"
proof
  assume "found_at (c # s) pat i"
  then obtain k where "k \<le> length (c # s)" "i = byte_len (take k (c # s))" "ci_prefix pat (drop k (c # s))"
    by (auto simp: found_at_def)
  then show "i = 0 \<and> ci_prefix pat (c # s) \<or> utf8_len c \<le> i \<and> found_at s pat (i - utf8_len c)"
    by (cases k) (auto simp: found_at_def)
next
  assume "i = 0 \<and> ci_prefix pat (c # s) \<or> utf8_len c \<le> i \<and> found_at s pat (i - utf8_len c)"
  then show "found_at (c # s) pat i"
  proof
    assume "utf8_len c \<le> i \<and> found_at s pat (i - utf8_len c)"
    then obtain k where "k \<le> length s" "i = utf8_len c + byte_len (take k s)" "ci_prefix pat (drop k s)"
      by (auto simp: found_at_def)
    then show ?thesis by (auto simp: found_at_def intro!: exI [of _ "Suc k"])
  qed (auto simp: found_at_def intro!: exI [of _ 0])
qed

lemma char_find_least:
  "pat \<noteq> [] \<Longrightarrow>
    (case char_find pat s of
       None \<Rightarrow> \<forall>i. \<not> found_at s pat i
     | Some i \<Rightarrow> found_at s pat i \<and> (\<forall>j < i. \<not> found_at s pat j))"
proof (induction s)
  case Nil
  then show ?case by (cases pat) (simp_all add: found_at_def ci_prefix_def)
next
  case (Cons c s)
  then show ?case
    by (auto simp: found_at_Cons [of c s pat] split: option.splits)
qed

lemma find_upt_None: "find P [0..<n] = None \<longleftrightarrow> (\<forall>i < n. \<not> P i)"
  by (auto simp: find_None_iff)

lemma find_upt_Some: "find P [0..<n] = Some i \<Longrightarrow> i < n \<and> P i \<and> (\<forall>j < i. \<not> P j)"
  by (auto simp: find_Some_iff)

lemma least_unique: "P (i::nat) \<Longrightarrow> (\<And>j. j < i \<Longrightarrow> \<not> P j) \<Longrightarrow> P i' \<Longrightarrow> (\<And>j. j < i' \<Longrightarrow> \<not> P j) \<Longrightarrow> i = i'"
  by (meson linorder_neqE_nat)

text \<open>The case-insensitive search over bytes finds exactly the first character position at which the pattern
  stands, as its byte offset; so the offset is a boundary of the text itself.\<close>

lemma find_ascii_ci_is_char_find:
  assumes "list_all scalar s" and "list_all scalar pat" and "pat \<noteq> []"
  shows "find_ascii_ci s pat = char_find pat s"
proof -
  let ?P = "\<lambda>i. is_char_boundary s i \<and> bytes_eq_ignore_case (take (byte_len pat) (drop i (as_bytes s))) (as_bytes pat)"
  have pat: "as_bytes pat \<noteq> []" using assms(3) utf8_length [of "hd pat"] by (cases pat) (auto simp del: utf8_length)
  have at: "i \<le> byte_len s - byte_len pat \<and> byte_len pat \<le> byte_len s \<and> ?P i \<longleftrightarrow> found_at s pat i" for i
  proof -
    have drop: "drop (byte_len (take k s)) (as_bytes s) = as_bytes (drop k s)"
      and len: "byte_len s = byte_len (take k s) + byte_len (drop k s)"
      and sc: "list_all scalar (drop k s)" for k
      using as_bytes_simps(3) [of "take k s" "drop k s"] byte_len_simps(3) [of "take k s" "drop k s"] assms(1)
      by (simp_all add: list_all_iff) (metis in_set_dropD)
    have fits: "byte_len pat \<le> byte_len (drop k s)" if "ci_prefix pat (drop k s)" for k
      by (rule ci_prefix_length [OF that sc assms(2)])
    show ?thesis
    proof
      assume *: "i \<le> byte_len s - byte_len pat \<and> byte_len pat \<le> byte_len s \<and> ?P i"
      then obtain k where k: "k \<le> length s" "i = byte_len (take k s)" using boundary_prefix [OF assms(1)] by blast
      then have "byte_len pat \<le> byte_len (drop k s)" using * len [of k] by linarith
      from match_at [OF sc assms(2) this] * k drop [of k] have "ci_prefix pat (drop k s)" by simp
      with k show "found_at s pat i" by (auto simp: found_at_def)
    next
      assume "found_at s pat i"
      then obtain k where k: "k \<le> length s" "i = byte_len (take k s)" "ci_prefix pat (drop k s)"
        by (auto simp: found_at_def)
      note fit = fits [OF k(3)]
      then have "i \<le> byte_len s - byte_len pat" "byte_len pat \<le> byte_len s" using len [of k] k(2) by linarith+
      moreover have "?P i"
        using match_at [OF sc assms(2) fit] k drop [of k] boundary_prefix [OF assms(1)] by auto
      ultimately show "i \<le> byte_len s - byte_len pat \<and> byte_len pat \<le> byte_len s \<and> ?P i" by blast
    qed
  qed
  have def_find: "find_ascii_ci s pat =
      (if byte_len s < byte_len pat then None else find ?P [0..<byte_len s - byte_len pat + 1])"
    using pat by (simp add: find_ascii_ci_def Let_def)
  show ?thesis
  proof (cases "find_ascii_ci s pat")
    case None
    then have "\<not> (i \<le> byte_len s - byte_len pat \<and> byte_len pat \<le> byte_len s \<and> ?P i)" for i
      unfolding def_find by (cases "byte_len s < byte_len pat") (auto simp only: find_upt_None if_True if_False not_less less_Suc_eq_le Suc_eq_plus1 [symmetric])
    then have "\<not> found_at s pat i" for i using at by blast
    with char_find_least [OF assms(3), of s] None show ?thesis by (auto split: option.splits)
  next
    case (Some i)
    then have fits: "byte_len pat \<le> byte_len s" by (auto simp: def_find split: if_splits)
    with Some have "find ?P [0..<byte_len s - byte_len pat + 1] = Some i" by (simp add: def_find)
    from find_upt_Some [OF this] have i: "i \<le> byte_len s - byte_len pat" "?P i" "\<forall>j < i. \<not> ?P j" by auto
    then have "found_at s pat i" using at [of i] fits by blast
    moreover have "\<not> found_at s pat j" if "j < i" for j using at [of j] i(3) that by blast
    ultimately show ?thesis
      using char_find_least [OF assms(3), of s] Some
      by (auto split: option.splits intro: least_unique [of "found_at s pat"])
  qed
qed

subsection \<open>Examples\<close>

definition rupee_text :: chars where
  "rupee_text = 0x20B9 # lit ''100 Total''"

lemma safe_prefix_longest_example:
  "\<exists>k \<le> length rupee_text. safe_prefix rupee_text 4 = as_bytes (take k rupee_text) \<and> byte_len (take k rupee_text) \<le> 4"
proof -
  have "list_all scalar rupee_text" by (simp add: rupee_text_def scalar_def)
  from safe_prefix_longest [OF this, of 4] show ?thesis by blast
qed

lemma find_ascii_ci_is_char_find_example: "find_ascii_ci rupee_text (lit ''total'') = Some 7"
proof -
  have "list_all scalar rupee_text" "list_all scalar (lit ''total'')" by (simp_all add: rupee_text_def scalar_def)
  from find_ascii_ci_is_char_find [OF this] show ?thesis
    by (simp add: rupee_text_def ci_prefix_def to_ascii_lower_def ascii_upper_def utf8_len_def)
qed

end
