(* ===== verification/RowBuilder.thy ===== *)
theory RowBuilder
  imports Float64 StableSort "HOL-Library.Product_Lexorder"
begin

text \<open>
  \<open>src/parser/row_builder.rs\<close>: the text items of a PDF page, clustered into rows by their height on the
  page. Sorting compares doubles; two that do not compare (a NaN) count as equal.
\<close>

record pdf_item =
  pi_x :: f64
  pi_text :: chars
  pi_w :: f64

record raw_pdf_item =
  ri_text :: chars
  ri_x :: f64
  ri_y :: f64
  ri_w :: f64

definition raw_pdf_item_new :: "chars \<Rightarrow> f64 \<Rightarrow> f64 \<Rightarrow> f64 \<Rightarrow> raw_pdf_item" where
  "raw_pdf_item_new s x y w = \<lparr> ri_text = s, ri_x = x, ri_y = y, ri_w = w \<rparr>"

definition into_pdf_item :: "raw_pdf_item \<Rightarrow> pdf_item" where
  "into_pdf_item r = \<lparr> pi_x = ri_x r, pi_text = ri_text r, pi_w = ri_w r \<rparr>"

definition above_or_left :: "raw_pdf_item \<Rightarrow> raw_pdf_item \<Rightarrow> bool" where
  "above_or_left a b \<longleftrightarrow> f64_less (ri_y a) (ri_y b)
     \<or> \<not> f64_less (ri_y b) (ri_y a) \<and> f64_less (ri_x a) (ri_x b)"

definition left_of :: "pdf_item \<Rightarrow> pdf_item \<Rightarrow> bool" where
  "left_of a b \<longleftrightarrow> f64_less (pi_x a) (pi_x b)"

text \<open>The loop over the sorted items, with the height of the current row and its items so far.\<close>

fun cluster :: "f64 \<Rightarrow> f64 \<Rightarrow> pdf_item list \<Rightarrow> raw_pdf_item list \<Rightarrow> pdf_item list list" where
  "cluster tol cur_y cur_row [] = (if cur_row = [] then [] else [stable_sort left_of cur_row])"
| "cluster tol cur_y cur_row (item # items) =
    (if f64_le (f64_abs (f64_sub (ri_y item) cur_y)) tol
     then cluster tol cur_y (cur_row @ [into_pdf_item item]) items
     else (if cur_row = [] then [] else [stable_sort left_of cur_row])
       @ cluster tol (ri_y item) [into_pdf_item item] items)"

definition cluster_into_rows :: "raw_pdf_item list \<Rightarrow> f64 \<Rightarrow> pdf_item list list" where
  "cluster_into_rows items y_tolerance =
    (if items = [] then []
     else
       let sorted_items = stable_sort above_or_left items in
       cluster y_tolerance (ri_y (hd sorted_items)) [] sorted_items)"

subsection \<open>Rows\<close>

text \<open>Comparison of finite doubles is that of their values.\<close>

fun f64_value :: "f64 \<Rightarrow> rat" where
  "f64_value (Finite s m) = signed_rat s m"
| "f64_value x = 0"

lemma f64_less_value: "is_finite x \<Longrightarrow> is_finite y \<Longrightarrow> f64_less x y \<longleftrightarrow> f64_value x < f64_value y"
  by (cases x; cases y) (auto simp: f64_less_def)

interpretation by_x: ranked left_of "\<lambda>i. f64_value (pi_x i)" "\<lambda>i. is_finite (pi_x i)"
  by unfold_locales (simp add: left_of_def f64_less_value)

interpretation by_height: ranked above_or_left "\<lambda>i. (f64_value (ri_y i), f64_value (ri_x i))"
  "\<lambda>i. is_finite (ri_y i) \<and> is_finite (ri_x i)"
  by unfold_locales (auto simp: above_or_left_def f64_less_value less_prod_def)

lemma cluster_items:
  "mset (concat (cluster tol y row items)) = mset row + mset (map into_pdf_item items)"
  by (induction tol y row items rule: cluster.induct) auto

lemma cluster_nonempty: "list_all (\<lambda>row. row \<noteq> []) (cluster tol y row items)"
proof (induction tol y row items rule: cluster.induct)
  have "stable_sort left_of xs = [] \<longleftrightarrow> xs = []" for xs by (metis length_0_conv length_stable_sort)
  then show "list_all (\<lambda>row. row \<noteq> []) (cluster tol y row [])" for tol y row by simp
  case (2 tol y row item items)
  with \<open>\<And>xs. stable_sort left_of xs = [] \<longleftrightarrow> xs = []\<close> show ?case by auto
qed

definition row_sorted :: "pdf_item list \<Rightarrow> bool" where
  "row_sorted row \<longleftrightarrow> sorted_wrt (\<lambda>a b. \<not> f64_less (pi_x b) (pi_x a)) row"

lemma cluster_sorted:
  assumes "list_all (\<lambda>i. is_finite (pi_x i)) row" and "list_all (\<lambda>i. is_finite (ri_x i)) items"
  shows "list_all row_sorted (cluster tol y row items)"
proof -
  have row: "row_sorted (stable_sort left_of xs)" if "list_all (\<lambda>i. is_finite (pi_x i)) xs" for xs
    using by_x.later_not_earlier [OF that] by (simp add: row_sorted_def left_of_def)
  show ?thesis
    using assms
  proof (induction tol y row items rule: cluster.induct)
    case (2 tol y r item items)
    then show ?case using row [of r] by (auto simp: into_pdf_item_def)
  qed (simp add: row)
qed

text \<open>Clustering loses, adds and splits no item of the page, gives no empty row, and orders every row
  from left to right, when the positions are numbers.\<close>

lemma rows_are_the_items:
  assumes "list_all (\<lambda>i. is_finite (ri_x i)) items"
  shows "mset (concat (cluster_into_rows items tol)) = mset (map into_pdf_item items)
    \<and> list_all (\<lambda>row. row \<noteq> [] \<and> row_sorted row) (cluster_into_rows items tol)"
proof (cases "items = []")
  case False
  let ?s = "stable_sort above_or_left items"
  have rows: "cluster_into_rows items tol = cluster tol (ri_y (hd ?s)) [] ?s"
    using False by (simp add: cluster_into_rows_def Let_def)
  have "mset (map into_pdf_item ?s) = mset (map into_pdf_item items)" by simp
  then have "mset (concat (cluster_into_rows items tol)) = mset (map into_pdf_item items)"
    unfolding rows cluster_items by simp
  moreover have "list_all row_sorted (cluster_into_rows items tol)"
    unfolding rows using assms by (intro cluster_sorted) (simp_all add: list_all_iff)
  ultimately show ?thesis
    unfolding rows using cluster_nonempty by (auto simp: list_all_iff)
qed (simp add: cluster_into_rows_def)

definition sample_items :: "raw_pdf_item list" where
  "sample_items = [raw_pdf_item_new (lit ''b'') (Finite False 90) (Finite False 100) (Finite False 8),
     raw_pdf_item_new (lit ''c'') (Finite False 10) (Finite False 120) (Finite False 8),
     raw_pdf_item_new (lit ''a'') (Finite False 10) (Finite False 103) (Finite False 8)]"

lemma rows_are_the_items_example:
  "mset (concat (cluster_into_rows sample_items (Finite False 5))) = mset (map into_pdf_item sample_items)"
proof -
  have "list_all (\<lambda>i. is_finite (ri_x i)) sample_items" by (simp add: sample_items_def raw_pdf_item_new_def)
  from rows_are_the_items [OF this] show ?thesis by blast
qed

end
