(* ===== verification/NoiseFilter.thy ===== *)
theory NoiseFilter
  imports Patterns
begin

text \<open>
  \<open>src/parser/noise_filter.rs\<close>: rows of a statement that are no transactions, by the shape of their
  narration: totals and balances, page markers, repeated headers. The two pattern sets are lists.
\<close>

text \<open>\<open>^\<close>, the parts, and a word boundary.\<close>

definition Line :: "unicode \<Rightarrow> rx list \<Rightarrow> rx" where
  "Line U parts = Cats (AtStart # parts @ [Word U])"

definition Blanks :: rx where
  "Blanks = Many Blank"

definition Balance :: rx where
  "Balance = Alts [Lits ''balance'', Lits ''bal'']"

definition totals_patterns :: "unicode \<Rightarrow> rx list" where
  "totals_patterns U = [
     Line U [Opt (Cat (Lits ''grand'') Blanks), Lits ''total''],
     Line U [Lits ''sub'', Opt (Chr (\<lambda>x. white x \<or> x = 45)), Lits ''total''],
     Line U [Lits ''closing'', Blanks, Balance],
     Line U [Lits ''opening'', Blanks, Balance],
     Line U [Lits ''brought'', Some1 Blank, Lits ''forward''],
     Line U [Lits ''balance'', Some1 Blank, Lits ''brought'', Some1 Blank, Lits ''forward''],
     Line U [Lits ''b'', Blanks, Chr (\<lambda>x. x = 47 \<or> x = 92), Blanks, AnyOf ''fd''],
     Line U [Lits ''balance'', Blanks,
       Alts [Lits ''c/f'', Lits ''b/f'', Cats [Lits ''carried'', Blanks, Lits ''forward''], Lits ''bf'', Lits ''cf'']],
     Line U [Lits ''carried'', Some1 Blank, Lits ''forward''],
     Line U [Lits ''c/f''],
     Line U [Lits ''b/f''],
     Line U [Lits ''balance'', Some1 Blank, Lits ''as'', Some1 Blank, Alts [Lits ''on'', Lits ''at'', Lits ''of'']],
     Line U [Lits ''available'', Blanks, Lits ''balance''],
     Line U [Lits ''ledger'', Blanks, Lits ''balance''],
     Line U [Lits ''total'', Blanks, Lits ''balance''],
     Line U [Lits ''statement'', Blanks, Alts [Lits ''of'', Lits ''summary'']],
     Line U [Lits ''op'', Opt (Is CHR ''.''), Blanks, Balance],
     Line U [Lits ''prev'', Opt (Lits ''ious''), Blanks, Alts [Lits ''balance'', Lits ''bal'', Lits ''closing'']],
     Line U [Lits ''balance'', Blanks, Alts [Lits ''forward'', Lits ''fwd'']],
     Line U [Lits ''net'', Blanks, Balance],
     Cats [Word U, Lits ''page'', Blanks, Lits ''total'', Word U],
     Cats [AtStart, Lits ''page'', Some1 Blank, Some1 (Digit U),
       Opt (Cats [Some1 Blank, Lits ''of'', Some1 Blank, Some1 (Digit U)]), AtEnd],
     Cats [AtStart, Some1 (Digit U), Some1 Blank, Lits ''of'', Some1 Blank, Some1 (Digit U), AtEnd],
     Cats [AtStart, Some1 (Chr (\<lambda>x. ascii_lower x \<or> white x)), Lits ''bank'', Some1 Blank, Some1 (Digit U),
       Some1 (Is CHR ''x''), Some1 (Digit U), AtEnd],
     Cats [AtStart, Some1 (Chr (\<lambda>x. ascii_lower x \<or> white x)), Lits ''bank'', Some1 Blank,
       AtLeast 10 (Digit U), AtEnd]]"

definition hdrs_patterns :: "unicode \<Rightarrow> rx list" where
  "hdrs_patterns U =
     map (\<lambda>w. Line U [Lits w]) [''date'', ''narration'', ''particulars'', ''description'']
   @ map (\<lambda>w. Line U [Lits w, Blanks, Alts [Lits ''date'', Lits ''details'', Lits ''id'', Lits ''no'']])
       [''transaction'', ''tran'']
   @ map (\<lambda>w. Line U [Lits w]) [''debit'', ''credit'', ''balance'', ''amount'', ''withdrawal'', ''deposit'',
       ''chq'', ''cheque'', ''reference'', ''remarks'']
   @ map (\<lambda>w. Line U [Lits w, Opt (Is CHR ''.''), Blanks, Lits ''no'']) [''s'', ''sr'', ''sl'']
   @ [Line U [Lits ''serial'', Blanks, Alts [Lits ''no'', Lits ''number'']],
      Cats [AtStart, Lits ''receipt'', Word U, Opt (Is CHR ''?''), AtEnd],
      Cats [AtStart, Some1 (Chr (\<lambda>x. x \<in> {0x2713, 0x2717, 0x2714, 0x2718})), AtEnd]]"

definition is_noise_row :: "unicode \<Rightarrow> chars \<Rightarrow> bool" where
  "is_noise_row U narration =
    (let nl = trimmed (to_lowercase U narration) in
     nl \<noteq> [] \<and> (list_ex (\<lambda>r. is_match r nl) (totals_patterns U) \<or> list_ex (\<lambda>r. is_match r nl) (hdrs_patterns U)))"

end
