(* ===== verification/RateLimit.thy ===== *)
theory RateLimit
  imports Text Routes
begin

text \<open>
  \<open>server/src/rate_limit.rs\<close>: whose budget a request is charged to, and the two middlewares that refuse a
  request over budget. The budgets are those of the governor crate: checking a key is a parameter, a
  function on its state. Addresses, their textual form and their networks belong to the standard library
  and the ipnet crate and are parameters too.
\<close>

definition login_requests_per_minute :: nat where
  "login_requests_per_minute = 5"

definition device_requests_per_minute :: nat where
  "device_requests_per_minute = 30"

record ('ip, 'net) address_env =
  net_contains :: "'net \<Rightarrow> 'ip \<Rightarrow> bool"
  parse_ip :: "chars \<Rightarrow> 'ip option"

definition is_trusted_proxy :: "('ip, 'net) address_env \<Rightarrow> 'net list \<Rightarrow> 'ip \<Rightarrow> bool" where
  "is_trusted_proxy E trusted_proxies ip \<longleftrightarrow> list_ex (\<lambda>net. net_contains E net ip) trusted_proxies"

definition resolve_client_ip :: "('ip, 'net) address_env \<Rightarrow> 'ip \<Rightarrow> 'net list \<Rightarrow> chars option \<Rightarrow> 'ip" where
  "resolve_client_ip E peer_ip trusted_proxies forwarded_for =
    (if \<not> is_trusted_proxy E trusted_proxies peer_ip then peer_ip
     else case forwarded_for of
       None \<Rightarrow> peer_ip
     | Some header \<Rightarrow>
        (case find (\<lambda>ip. \<not> is_trusted_proxy E trusted_proxies ip)
            (List.map_filter (\<lambda>entry. parse_ip E (trimmed entry)) (rev (split_at (\<lambda>c. c = 44) header))) of
           Some ip \<Rightarrow> ip
         | None \<Rightarrow> peer_ip))"

text \<open>A keyed limiter: checking a key tells whether it is within budget, and charges it.\<close>

type_synonym ('k, 's) limiter = "'k \<Rightarrow> 's \<Rightarrow> bool \<times> 's"

definition login_rate_limit ::
  "('ip, 'net) address_env \<Rightarrow> ('ip, 's) limiter \<Rightarrow> 'net list \<Rightarrow> 'ip option \<Rightarrow> chars option
    \<Rightarrow> (api_error, 'a) action \<Rightarrow> 's \<Rightarrow> (api_error, 'a) action \<times> 's" where
  "login_rate_limit E check_key trusted_proxies peer forwarded_for handler s =
    (case peer of
       None \<Rightarrow> (handler, s)
     | Some addr \<Rightarrow>
        let (within_budget, s') = check_key (resolve_client_ip E addr trusted_proxies forwarded_for) s in
        (if within_budget then handler else return_err ApRateLimited, s'))"

definition extract_device_id :: "(string \<Rightarrow> json option) \<Rightarrow> string \<Rightarrow> string option" where
  "extract_device_id parse_json bytes =
    Option.bind (parse_json bytes) (\<lambda>v. Option.bind (json_get ''device_id'' v) json_as_str)"

text \<open>A body that could not be read reaches the handler as an empty one.\<close>

definition device_rate_limit ::
  "(string \<Rightarrow> json option) \<Rightarrow> (string, 's) limiter \<Rightarrow> string option
    \<Rightarrow> (string \<Rightarrow> (api_error, 'a) action) \<Rightarrow> 's \<Rightarrow> (api_error, 'a) action \<times> 's" where
  "device_rate_limit parse_json check_key body handler s =
    (case body of
       None \<Rightarrow> (handler [], s)
     | Some bytes \<Rightarrow>
        (case extract_device_id parse_json bytes of
           None \<Rightarrow> (handler bytes, s)
         | Some device_id \<Rightarrow>
            let (within_budget, s') = check_key device_id s in
            (if within_budget then handler bytes else return_err ApRateLimited, s')))"

subsection \<open>Who is charged\<close>

lemma untrusted_peer: "\<not> is_trusted_proxy E trusted peer \<Longrightarrow> resolve_client_ip E peer trusted h = peer"
  by (simp add: resolve_client_ip_def)

lemma split_at_last:
  assumes "\<And>c. c \<in> set w \<Longrightarrow> \<not> p c" and "p x"
  shows "\<exists>ws. split_at p (s @ x # w) = ws @ [w]"
proof (induction s)
  case Nil
  then show ?case using assms by (auto simp: split_at_none)
next
  case (Cons c s)
  then obtain ws where ws: "split_at p (s @ x # w) = ws @ [w]" by blast
  show ?case
  proof (cases "p c")
    case True
    with ws show ?thesis by (auto intro: exI [of _ "[] # ws"])
  next
    case False
    show ?thesis
    proof (cases ws)
      case Nil
      have "length (split_at p (s @ x # w)) \<ge> 2"
        using assms by (induction s) (auto simp: split_at_none split: list.split)
      with ws Nil show ?thesis by simp
    next
      case (Cons v vs)
      with ws False show ?thesis by (auto intro: exI [of _ "(c # v) # vs"])
    qed
  qed
qed

text \<open>The address a login is charged to cannot be chosen by the client. A peer outside the trusted networks is
  charged itself, whatever header it sends; behind a trusted proxy, the address the proxy appended is
  charged, whatever the client put in front of it.\<close>

lemma client_ip_unforgeable:
  assumes "parse_ip E (trimmed hop) = Some client" and "\<not> is_trusted_proxy E trusted client"
    and "list_all (\<lambda>c. c \<noteq> 44) hop"
  shows "resolve_client_ip E peer trusted (Some (forged @ 44 # hop))
      = (if is_trusted_proxy E trusted peer then client else peer)
    \<and> resolve_client_ip E peer trusted (Some hop)
      = (if is_trusted_proxy E trusted peer then client else peer)"
proof -
  have no_sep: "\<not> c = 44" if "c \<in> set hop" for c using assms(3) that by (auto simp: list_all_iff)
  obtain ws where "split_at (\<lambda>c. c = 44) (forged @ 44 # hop) = ws @ [hop]"
    using split_at_last [of hop "\<lambda>c. c = 44" 44 forged] no_sep by blast
  with assms(1,2) split_at_none [of hop "\<lambda>c. c = 44"] no_sep show ?thesis
    by (simp add: resolve_client_ip_def map_filter_def)
qed

subsection \<open>An example\<close>

text \<open>Addresses as numbers of one digit; the proxies are those below three.\<close>

definition digit_addresses :: "(int, int) address_env" where
  "digit_addresses = \<lparr> net_contains = (\<lambda>n ip. ip < n),
     parse_ip = (\<lambda>s. case s of [c] \<Rightarrow> if ascii_digit c then Some (c - 48) else None | _ \<Rightarrow> None) \<rparr>"

lemma client_ip_unforgeable_example:
  "resolve_client_ip digit_addresses 1 [3] (Some (lit ''9, 8'' @ 44 # lit '' 7'')) = 7
   \<and> resolve_client_ip digit_addresses 5 [3] (Some (lit ''9, 8'' @ 44 # lit '' 7'')) = 5"
proof -
  have "parse_ip digit_addresses (trimmed (lit '' 7'')) = Some 7" "list_all (\<lambda>c. c \<noteq> 44) (lit '' 7'')"
    "\<not> is_trusted_proxy digit_addresses [3] 7"
    by (simp_all add: digit_addresses_def trimmed_def trim_start_def trim_end_def white_def ascii_digit_def is_trusted_proxy_def)
  then show ?thesis
    using client_ip_unforgeable [of digit_addresses "lit '' 7''" 7 "[3]" 1 "lit ''9, 8''"]
      client_ip_unforgeable [of digit_addresses "lit '' 7''" 7 "[3]" 5 "lit ''9, 8''"]
    by (simp add: is_trusted_proxy_def digit_addresses_def del: lit_simps)
qed

end
