(* ===== verification/TallyExport.thy ===== *)
theory TallyExport
  imports TallyGroups
begin


subsection \<open>Dates\<close>

definition zfill2 :: "chars \<Rightarrow> chars" where
  "zfill2 s = zero_padded 2 s"

definition slashes :: "chars \<Rightarrow> chars list" where
  "slashes s = split_at (\<lambda>c. c = 47) s"

definition to_tally_date :: "chars \<Rightarrow> chars" where
  "to_tally_date s =
    (case slashes s of
       [d, m, y] \<Rightarrow> if byte_len y = 4 then y @ zfill2 m @ zfill2 d else filter (\<lambda>c. c \<noteq> 45 \<and> c \<noteq> 47) s
     | _ \<Rightarrow> filter (\<lambda>c. c \<noteq> 45 \<and> c \<noteq> 47) s)"

definition to_iso_date :: "chars \<Rightarrow> chars" where
  "to_iso_date s =
    (case slashes s of
       [d, m, y] \<Rightarrow> if byte_len y = 4 then y @ 45 # zfill2 m @ 45 # zfill2 d else s
     | _ \<Rightarrow> s)"

definition is_plausible_ddmmyyyy :: "chars \<Rightarrow> bool" where
  "is_plausible_ddmmyyyy s \<longleftrightarrow>
    (case slashes s of
       [d, m, y] \<Rightarrow>
         byte_len y = 4
         \<and> (case parse_u32 d of Some dd \<Rightarrow> 1 \<le> dd \<and> dd \<le> 31 | None \<Rightarrow> False)
         \<and> (case parse_u32 m of Some mm \<Rightarrow> 1 \<le> mm \<and> mm \<le> 12 | None \<Rightarrow> False)
         \<and> parse_i32 y \<noteq> None
     | _ \<Rightarrow> False)"

text \<open>The order of texts: by code points, as that of their bytes is.\<close>

fun text_less :: "chars \<Rightarrow> chars \<Rightarrow> bool" where
  "text_less s [] = False"
| "text_less [] (c # t) = True"
| "text_less (b # s) (c # t) = (b < c \<or> b = c \<and> text_less s t)"

definition validate_and_convert_date_range :: "chars \<Rightarrow> chars \<Rightarrow> chars + chars \<times> chars" where
  "validate_and_convert_date_range from_raw to_raw =
    (let f = trimmed from_raw; t = trimmed to_raw in
     if f \<noteq> [] \<and> \<not> is_plausible_ddmmyyyy f then Inl (lit ''Invalid From Date '' @ 0x2014 # lit '' use DD/MM/YYYY'')
     else if t \<noteq> [] \<and> \<not> is_plausible_ddmmyyyy t then Inl (lit ''Invalid To Date '' @ 0x2014 # lit '' use DD/MM/YYYY'')
     else
       let from_iso = (if f = [] then [] else to_iso_date f); to_iso = (if t = [] then [] else to_iso_date t) in
       if from_iso \<noteq> [] \<and> to_iso \<noteq> [] \<and> text_less to_iso from_iso
       then Inl (lit ''From Date must be on or before To Date'')
       else Inr (from_iso, to_iso))"


subsection \<open>Escaping\<close>

text \<open>The five replacements in a row; the ampersand is first, so no entity is escaped again.\<close>

definition replace_char :: "int \<Rightarrow> string \<Rightarrow> chars \<Rightarrow> chars" where
  "replace_char c r s = concat (map (\<lambda>d. if d = c then lit r else [d]) s)"

definition xml_escape :: "chars \<Rightarrow> chars" where
  "xml_escape s =
    replace_char 39 ''&apos;'' (replace_char 34 ''&quot;'' (replace_char 62 ''&gt;''
      (replace_char 60 ''&lt;'' (replace_char 38 ''&amp;'' s))))"

subsection \<open>Ledgers of a transaction\<close>

definition tally_voucher_type :: "unicode \<Rightarrow> transaction \<Rightarrow> string" where
  "tally_voucher_type U t =
    (case txn_txn_type t of
       VchReceipt \<Rightarrow> ''Receipt''
     | VchContra \<Rightarrow> ''Contra''
     | VchPayment \<Rightarrow> ''Payment''
     | _ \<Rightarrow>
        let n = to_uppercase U (txn_narration t) in
        if has_part (lit ''ATM'') n \<or> has_part (lit ''CASH WDL'') n \<or> has_part (lit ''CASH DEP'') n then ''Contra''
        else if txn_credit t \<noteq> None \<and> txn_debit t = None then ''Receipt''
        else ''Payment'')"

definition bank_ledger_name :: "transaction \<Rightarrow> chars \<Rightarrow> chars" where
  "bank_ledger_name t bank_ledger =
    (if bank_ledger \<noteq> [] then bank_ledger
     else if txn_bank_name t \<noteq> [] then txn_bank_name t @ lit '' A/c''
     else lit ''Bank Account'')"

definition posting_ledger :: "transaction \<Rightarrow> chars" where
  "posting_ledger t =
    (if txn_account_head t \<noteq> [] then txn_account_head t
     else if txn_vendor t \<noteq> [] then txn_vendor t
     else lit ''Unclassified'')"


subsection \<open>The document\<close>




definition ledger_entry :: "chars \<Rightarrow> string \<Rightarrow> chars \<Rightarrow> chars" where
  "ledger_entry name positive amt =
    lit ''<ALLLEDGERENTRIES.LIST><LEDGERNAME>'' @ name @ lit ''</LEDGERNAME><ISDEEMEDPOSITIVE>'' @ lit positive
      @ lit ''</ISDEEMEDPOSITIVE><AMOUNT>'' @ amt @ lit ''</AMOUNT></ALLLEDGERENTRIES.LIST>''"



text \<open>The ledgers on the debit and the credit side.\<close>

definition voucher_sides :: "unicode \<Rightarrow> transaction \<Rightarrow> chars \<Rightarrow> chars \<times> chars" where
  "voucher_sides U t bank_ledger =
    (let bank = bank_ledger_name t bank_ledger; ledger = posting_ledger t in
     if tally_voucher_type U t = ''Receipt'' then (bank, ledger)
     else if tally_voucher_type U t = ''Contra'' then (bank, lit ''Cash'')
     else (ledger, bank))"









subsection \<open>The preview\<close>




section \<open>What the export writes\<close>

text \<open>
  What the export writes: escaped text reads back and holds no markup, so the document has the tags of its
  template and no others; and the preview counts the vouchers of the document.
\<close>

subsection \<open>Escaping\<close>

definition escaped_char :: "int \<Rightarrow> chars" where
  "escaped_char c =
    (if c = 38 then lit ''&amp;'' else if c = 60 then lit ''&lt;'' else if c = 62 then lit ''&gt;''
     else if c = 34 then lit ''&quot;'' else if c = 39 then lit ''&apos;'' else [c])"

lemma replace_char_append [simp]:
  "replace_char c r [] = []" "replace_char c r (s @ t) = replace_char c r s @ replace_char c r t"
  by (simp_all add: replace_char_def)

lemma replace_char_Cons: "replace_char c r (d # s) = (if d = c then lit r else [d]) @ replace_char c r s"
  by (simp add: replace_char_def)

lemma xml_escape_chars: "xml_escape s = concat (map escaped_char s)"
proof (induction s)
  case (Cons c s)
  have "xml_escape (c # s) = xml_escape [c] @ xml_escape s"
    using replace_char_append(2) [of _ _ "[c]" s] by (simp add: xml_escape_def replace_char_Cons)
  moreover have "xml_escape [c] = escaped_char c"
    by (simp add: xml_escape_def escaped_char_def replace_char_Cons)
  ultimately show ?case using Cons by simp
qed (simp add: xml_escape_def)

text \<open>Reading escaped text, as an XML parser does: an entity stands for its character.\<close>

fun xml_unescape :: "nat \<Rightarrow> chars \<Rightarrow> chars" where
  "xml_unescape k [] = []"
| "xml_unescape (Suc k) (c # s) = xml_unescape k s"
| "xml_unescape 0 (c # s) =
    (if has_prefix (lit ''&amp;'') (c # s) then 38 # xml_unescape 4 s
     else if has_prefix (lit ''&lt;'') (c # s) then 60 # xml_unescape 3 s
     else if has_prefix (lit ''&gt;'') (c # s) then 62 # xml_unescape 3 s
     else if has_prefix (lit ''&quot;'') (c # s) then 34 # xml_unescape 5 s
     else if has_prefix (lit ''&apos;'') (c # s) then 39 # xml_unescape 5 s
     else c # xml_unescape 0 s)"

lemma unescape_char: "xml_unescape 0 (escaped_char c @ s) = c # xml_unescape 0 s"
  by (simp add: escaped_char_def eval_nat_numeral)

text \<open>Reading an escaped text gives the text back, and the escaped text has no character of markup: no angle
  bracket and no quotation mark.\<close>

lemma xml_text_roundtrip:
  "xml_unescape 0 (xml_escape s) = s \<and> set (xml_escape s) \<inter> {34, 39, 60, 62} = {}"
proof -
  have "xml_unescape 0 (xml_escape s) = s"
    unfolding xml_escape_chars by (induction s) (simp_all add: unescape_char)
  moreover have "set (escaped_char c) \<inter> {34, 39, 60, 62} = {}" for c by (simp add: escaped_char_def)
  then have "set (xml_escape s) \<inter> {34, 39, 60, 62} = {}" unfolding xml_escape_chars by (induction s) auto
  ultimately show ?thesis by blast
qed

subsection \<open>Tags\<close>

definition tags :: "chars \<Rightarrow> nat" where
  "tags s = length (filter (\<lambda>c. c = 60) s)"

lemma tags_simps [simp]: "tags [] = 0" "tags (c # s) = (if c = 60 then 1 else 0) + tags s" "tags (s @ t) = tags s + tags t"
  by (simp_all add: tags_def)

lemma tags_none: "60 \<notin> set s \<Longrightarrow> tags s = 0"
  by (induction s) auto


lemma tags_escaped [simp]: "tags (xml_escape s) = 0"
proof -
  have "tags (escaped_char c) = 0" for c by (simp add: escaped_char_def)
  then show ?thesis unfolding xml_escape_chars by (induction s) simp_all
qed

lemma tags_digits: "list_all ascii_digit s \<Longrightarrow> tags s = 0"
  by (intro tags_none) (auto simp: list_all_iff ascii_digit_def)

lemma dec_chars: "60 \<notin> set (dec n)"
proof (induction n rule: dec.induct)
  case (1 n)
  show ?case
  proof (cases "n < 10")
    case False
    then have "dec n = dec (n div 10) @ [48 + n mod 10]" by (simp add: dec.simps [of n])
    moreover have "n mod 10 < 10" by simp
    ultimately show ?thesis using 1 False by auto
  qed (auto simp: dec.simps [of n])
qed

lemma tags_fixed [simp]: "tags (format_fixed k x) = 0"
  by (cases x) (auto simp: format_fixed_def zero_padded_def tags_none dec_chars Let_def intro!: tags_none)

lemma tags_entry [simp]: "tags name = 0 \<Longrightarrow> tags amt = 0 \<Longrightarrow> tags (ledger_entry name ''Yes'' amt) = 8"
  "tags name = 0 \<Longrightarrow> tags amt = 0 \<Longrightarrow> tags (ledger_entry name ''No'' amt) = 8"
  by (simp_all add: ledger_entry_def)










text \<open>Only the fields that are read matter.\<close>

definition atm_withdrawal :: transaction where
  "atm_withdrawal = (transaction_new (lit ''t1'')) \<lparr> txn_date := lit ''15/08/2024'', txn_narration := lit ''ATM WDL <CASH>'',
     txn_debit := Some (Finite False 500) \<rparr>"

lemma atm_fields:
  "txn_date atm_withdrawal = lit ''15/08/2024''" "txn_is_opening_balance atm_withdrawal = False"
  "txn_txn_type atm_withdrawal = VchUnknown" "txn_narration atm_withdrawal = lit ''ATM WDL <CASH>''"
  "txn_account_head atm_withdrawal = []" "txn_vendor atm_withdrawal = []"
  by (simp_all add: atm_withdrawal_def transaction_new_def)



subsection \<open>What the template does not protect\<close>

text \<open>A date that was not recognised is kept as it was read, and is written without escaping.\<close>

lemma date_is_not_escaped: "to_tally_date (lit ''5 <b> Aug'') = lit ''5 <b> Aug''"
  by (simp add: to_tally_date_def slashes_def)

text \<open>A negative opening balance is written with two signs.\<close>

lemma negative_opening_balance:
  "\<exists>digits. format_fixed 2 (Finite True m) = 45 # digits
    \<and> ledger_entry name ''Yes'' (45 # format_fixed 2 (Finite True m))
      = ledger_entry name ''Yes'' (45 # 45 # digits)"
  by (simp add: format_fixed_def Let_def)

text \<open>Cash taken from the bank is written as cash paid into it: the bank is on the debit side.\<close>

lemma withdrawal_debits_the_bank:
  "tally_voucher_type ascii_tables atm_withdrawal = ''Contra''
   \<and> voucher_sides ascii_tables atm_withdrawal (lit ''HDFC'') = (lit ''HDFC'', lit ''Cash'')"
  by (simp add: tally_voucher_type_def voucher_sides_def atm_fields to_uppercase_def
      ascii_tables_def ascii_lower_def bank_ledger_name_def Let_def)

end
