(* ===== verification/Classifier.thy ===== *)
theory Classifier
  imports GstEngine TextSafety
begin

text \<open>
  \<open>src/classifier.rs\<close>: the classification of transactions by stored rules, keywords and names taken from
  the narration; GST tags; and the detection of duplicates. The buckets of the last pass of duplicate
  detection are kept in a \<open>HashMap\<close>, whose iteration order is an argument.
\<close>

subsection \<open>Rules\<close>

record classification_rule =
  cr_id :: int
  cr_client_id :: int
  cr_pattern :: chars
  cr_vendor :: chars
  cr_account_head :: chars
  cr_txn_type :: chars

definition is_locked_from_auto_classify :: "transaction \<Rightarrow> bool" where
  "is_locked_from_auto_classify t \<longleftrightarrow>
     txn_status t = Manual \<or> txn_status t = Suspense
   \<or> txn_classification_source t = lit ''user'' \<or> txn_classification_source t = lit ''ai''
   \<or> txn_status t = Classified \<and> f64_le (f64_of 1) (txn_confidence t)"

definition combined_narration_and_reference :: "transaction \<Rightarrow> chars" where
  "combined_narration_and_reference t =
    (if txn_reference t = [] then txn_narration t else txn_narration t @ 32 # txn_reference t)"

text \<open>\<open>(?i)\b(?:(?:UPI|...)[A-Z]{0,10})?[0-9]{6,}\<close>\<close>

definition glued_ref_prefix :: "unicode \<Rightarrow> rx" where
  "glued_ref_prefix U = Cats [Word U,
     Opt (Cat (Alts (map LitsI [''UPI'', ''NEFT'', ''RTGS'', ''IMPS'', ''INFT'', ''NACH'', ''ECS'', ''ACH'', ''BBPS'']))
       (UpTo 10 (Chr (\<lambda>c. ascii_lower (fold_case c))))),
     AtLeast 6 (Chr ascii_digit)]"

definition digit_run :: rx where
  "digit_run = AtLeast 6 (Chr ascii_digit)"

definition generic_prefixes :: "string list" where
  "generic_prefixes = [''UPI'', ''NEFT'', ''RTGS'', ''IMPS'', ''INFT'', ''NACH'', ''ECS'', ''ACH'', ''BBPS'',
     ''CHQ'', ''ATM'', ''POS'']"

definition derive_rule_pattern :: "unicode \<Rightarrow> transaction \<Rightarrow> chars option" where
  "derive_rule_pattern U t =
    (let stripped = blank_out digit_run (blank_out (glued_ref_prefix U) (combined_narration_and_reference t));
         pattern = take 40 (to_uppercase U (trimmed (join_with [32] (split_whitespace stripped)))) in
     if pattern = [] \<or> pattern \<in> set (map lit generic_prefixes) then None else Some pattern)"

definition looks_like_reference_number :: "chars \<Rightarrow> bool" where
  "looks_like_reference_number r \<longleftrightarrow> 4 \<le> length (filter ascii_digit r)"

definition apply_rules :: "unicode \<Rightarrow> chars \<Rightarrow> classification_rule list \<Rightarrow> classification_rule option" where
  "apply_rules U upper rules =
    find (\<lambda>r. cr_pattern r \<noteq> [] \<and> has_part (to_uppercase U (cr_pattern r)) upper) rules"

subsection \<open>Names of parties\<close>

definition skip_words :: "string list" where
  "skip_words = 
    [''NEFT'', ''RTGS'', ''IMPS'', ''UPI'', ''INFT'', ''NACH'', ''ECS'', ''ACH'', ''BBPS'', ''CR'',
     ''DR'', ''CREDIT'', ''DEBIT'', ''INWARD'', ''OUTWARD'', ''BY'', ''TO'', ''FROM'', ''VIA'',
     ''FOR'', ''PER'', ''OF'', ''AT'', ''ON'', ''IN'', ''REF'', ''UTR'', ''TXN'', ''NO'', ''NUMBER'',
     ''TRF'', ''TRANSFER'', ''PAYMENT'', ''RECEIVED'', ''PAID'', ''SENT'', ''P2P'', ''P2M'', ''P2B'',
     ''P2A'', ''ONLINE'', ''NET'', ''BANKING'', ''INB'', ''MB'', ''BANK'', ''BRANCH'', ''IFSC'',
     ''CHQ'', ''CHEQUE'', ''DEP'', ''DEPOSIT'', ''WDL'', ''WITHDRAWAL'', ''WITH'', ''INT'',
     ''INTEREST'', ''CLG'', ''CLEARING'', ''CL'', ''SB'', ''CA'', ''OD'', ''FD'', ''RD'', ''SAVINGS'',
     ''CURRENT'', ''A/C'', ''AC'', ''ACCT'', ''ACCOUNT'', ''AMT'', ''AMOUNT'', ''BAL'', ''BALANCE'',
     ''CHRGS'', ''CHGS'', ''CHARGES'', ''CHARGE'', ''LEVY'']"

definition bank_abbr :: "string list" where
  "bank_abbr = 
    [''HDFC'', ''HDFCBANK'', ''ICICI'', ''ICICIB'', ''SBI'', ''SBIN'', ''AXIS'', ''AXISB'', ''KOTAK'',
     ''PNB'', ''BOI'', ''BOB'', ''IOB'', ''CANARA'', ''UNION'', ''IDBI'', ''YES'', ''RBL'',
     ''FEDERAL'', ''INDUSIND'', ''UCO'', ''PAYTM'', ''PHONEPE'', ''GPAY'']"

definition is_in :: "chars \<Rightarrow> string list \<Rightarrow> bool" where
  "is_in s ws \<longleftrightarrow> list_ex (\<lambda>w. s = lit w) ws"

definition is_junk :: "unicode \<Rightarrow> chars \<Rightarrow> bool" where
  "is_junk U s \<longleftrightarrow>
     byte_len s < 2
   \<or> is_in (trimmed (to_uppercase U s)) skip_words
   \<or> list_all ascii_digit s
   \<or> 64 \<in> set s
   \<or> byte_len s = 11 \<and> list_all ascii_alpha (take 4 s) \<and> take 1 (drop 4 s) = [48]
   \<or> 14 \<le> byte_len s \<and> list_all ascii_alnum s
   \<or> byte_len s \<le> 2 \<and> list_all ascii_alpha s"

definition is_bank_abbr :: "unicode \<Rightarrow> chars \<Rightarrow> bool" where
  "is_bank_abbr U s \<longleftrightarrow> is_in (trimmed (to_uppercase U s)) bank_abbr"

definition part_score :: "unicode \<Rightarrow> chars \<Rightarrow> int" where
  "part_score U p =
    (let words = split_whitespace p in
     int (length words) * 3
     - (if list_ex ascii_digit p then 2 else 0)
     - (if is_bank_abbr U p \<or> words \<noteq> [] \<and> is_bank_abbr U (hd words) then 6 else 0)
     - (if length words = 1 \<and> 10 < byte_len p \<and> list_all ascii_alnum p then 3 else 0))"

text \<open>The first part of the highest score, from three up.\<close>

fun best_part :: "unicode \<Rightarrow> (chars \<times> int) option \<Rightarrow> chars list \<Rightarrow> (chars \<times> int) option" where
  "best_part U best [] = best"
| "best_part U best (p # ps) =
    (let score = part_score U p in
     best_part U
       (if 3 \<le> score \<and> (case best of None \<Rightarrow> True | Some (_, b) \<Rightarrow> b < score) then Some (p, score) else best) ps)"

definition cut_page :: "chars \<Rightarrow> chars" where
  "cut_page s =
    (case find_ascii_ci s (lit ''page '') of
       Some pos \<Rightarrow> if 0 < pos then trimmed (take_bytes pos s) else s
     | None \<Rightarrow> s)"

definition cut_suffix :: "unicode \<Rightarrow> string \<Rightarrow> chars \<Rightarrow> chars" where
  "cut_suffix U tail s =
    (case rfind_part (lit tail) (to_lowercase U s) of
       Some pos \<Rightarrow> if 2 < pos then trimmed (take_bytes pos s) else s
     | None \<Rightarrow> s)"

definition normalize_vendor_name :: "unicode \<Rightarrow> chars \<Rightarrow> chars" where
  "normalize_vendor_name U name =
    (let s1 = cut_page (trimmed name);
         s2 = fold (cut_suffix U) [''L PROP'', ''PROPR'', ''PROPRIETOR''] s1;
         words = split_whitespace s2;
         s3 = (if 1 < length words \<and> byte_len (last words) \<le> 2 \<and> list_all ascii_upper (last words)
               then join_with [32] (butlast words) else s2);
         ws = split_whitespace s3;
         s4 = (if ws \<noteq> [] \<and> 6 \<le> byte_len (last ws) \<and> list_all ascii_digit (last ws)
               then join_with [32] (butlast ws) else s3);
         s5 = join_with [32] (split_whitespace s4) in
     if 40 < byte_len s5 then trimmed (take_bytes 40 s5) else s5)"

definition is_ref_code :: "chars \<Rightarrow> bool" where
  "is_ref_code w \<longleftrightarrow> 9 \<le> byte_len w \<and> list_ex ascii_digit w \<and> list_all ascii_alnum w"

definition starts_name :: "unicode \<Rightarrow> chars \<Rightarrow> bool" where
  "starts_name U w \<longleftrightarrow> \<not> is_in (to_uppercase U w) skip_words \<and> \<not> list_all ascii_digit w
     \<and> 64 \<notin> set w \<and> \<not> is_ref_code w"

definition ends_name :: "unicode \<Rightarrow> chars \<Rightarrow> bool" where
  "ends_name U w \<longleftrightarrow> is_in (to_uppercase U w) skip_words \<or> list_all ascii_digit w \<or> is_ref_code w"

definition extract_party_name :: "unicode \<Rightarrow> chars \<Rightarrow> chars" where
  "extract_party_name U raw =
    (let narration = (if is_match (glued_ref_prefix U) raw then blank_out (glued_ref_prefix U) raw else raw);
         parts = split_at (\<lambda>c. c \<in> set (lit ''/-|:'')) narration;
         best = (if 1 < length parts
                 then best_part U None (filter (\<lambda>p. p \<noteq> [] \<and> \<not> is_junk U p) (map trimmed parts)) else None) in
     case best of
       Some (name, _) \<Rightarrow> normalize_vendor_name U name
     | None \<Rightarrow>
        let name_words = takeWhile (\<lambda>w. \<not> ends_name U w)
              (take 6 (dropWhile (\<lambda>w. \<not> starts_name U w) (split_whitespace narration))) in
        if name_words = [] then [] else normalize_vendor_name U (join_with [32] name_words))"

subsection \<open>Keywords\<close>

datatype kw_vendor =
    FixedVendor string
  | BankLedger
  | VendorByKeyword "(string list \<times> string) list" string

type_synonym kw_rule = "string list \<times> kw_vendor \<times> string \<times> voucher_type"

definition kw_bank_and_tax :: "kw_rule list" where
  "kw_bank_and_tax = [
    ([''ATM WDL'', ''ATM-WDL'', ''ATM CASH'', ''ATM/'', ''CASH WITHDRAWAL'', ''CASH WDL'',
        ''CASH DEP''],
       FixedVendor ''Self'', ''Cash'', VchContra),
    ([''INTEREST CREDITED'', ''INT.CR'', ''INTEREST CR'', ''INT CR'', ''INTEREST CREDIT'',
        ''FD INTEREST'', ''FD MATURITY'', ''RD MATURITY'', ''INTEREST ON FD''],
       BankLedger, ''Interest Income'', VchReceipt),
    ([''INTEREST CHARGED'', ''INT.DEB'', ''INTEREST DR'', ''INTEREST DEBIT'', ''BANK CHARGES'',
        ''SERVICE CHARGE'', ''SMS CHARGES'', ''ANNUAL FEE'', ''LEDGER FOLIO'', ''CHGS RECOVERED'',
        ''MIN BAL CHGS'', ''PROCESSING FEE'', ''ACCOUNT MAINTENANCE'', ''DEBIT CARD FEE'',
        ''CREDIT CARD FEE'', ''LOCKER CHARGES''],
       BankLedger, ''Bank Charges'', VchPayment),
    ([''GST PAYMENT'', ''GST PMT'', ''IGST PMT'', ''CGST PMT'', ''SGST PMT'', ''NSDL GST'',
        ''GST CHALLAN''],
       FixedVendor ''Government (GST)'', ''GST Payable'', VchPayment),
    ([''INCOME TAX'', ''ADVANCE TAX'', ''SELF ASSESSMENT TAX'', ''TDS PAYMENT'', ''TDS PMT'',
        ''CHALLAN 280'', ''ITNS 280'', ''TRACES TDS'', ''TAX DEDUCTED''],
       FixedVendor ''Income Tax Dept'', ''Income Tax Payable'', VchPayment),
    ([''SALARY'', ''SAL/'', ''SAL-'', ''SALARY CREDIT'', ''PAYROLL'', ''WAGES''],
       FixedVendor ''Staff'', ''Salaries'', VchPayment),
    ([''RENT'', ''RENTAL'', ''LEASE PAYMENT'', ''RENT PAYMENT''],
       FixedVendor ''Landlord'', ''Rent'', VchPayment),
    ([''PETROL'', ''DIESEL'', ''FUEL'', ''BPCL'', ''HPCL'', ''IOCL'', ''INDIAN OIL'',
        ''BHARAT PETRO'', ''SHELL INDIA'', ''HP PUMP'', ''RELIANCE PETRO''],
       FixedVendor ''Fuel Station'', ''Fuel Expense'', VchPayment)]"

definition kw_utilities :: "kw_rule list" where
  "kw_utilities = [
    ([''AIRTEL'', ''VODAFONE'', ''VODAFON'', ''VI/'', ''JIO'', ''BSNL'', ''MTNL'', ''TATASKY'',
        ''DISH TV'', ''BROADBAND'', ''JIOFIBER'', ''TATA SKY''],
       VendorByKeyword [([''AIRTEL''], ''Airtel''), ([''JIO''], ''Jio''), ([''BSNL''], ''BSNL''),
         ([''VODAFONE'', ''VI/''], ''Vodafone'')] ''Telecom'', ''Telephone Expense'', VchPayment),
    ([''MSEDCL'', ''BESCOM'', ''BSES'', ''TNEB'', ''WBSEDCL'', ''TORRENT POWER'', ''TPDDL'',
        ''TANGEDCO'', ''ELECTRICITY'', ''ELECTRIC BILL'', ''POWER BILL''],
       FixedVendor ''Electricity Board'', ''Electricity Charges'', VchPayment),
    ([''LIC PREMIUM'', ''LIC/'', ''HDFC LIFE'', ''MAX LIFE'', ''ICICI PRU'', ''STAR HEALTH'',
        ''NIVA BUPA'', ''NEW INDIA ASSURANCE'', ''UNITED INDIA'', ''ORIENTAL INS'',
        ''INSURANCE PREMIUM'', ''INS PREM''],
       FixedVendor ''Insurance Co'', ''Insurance Premium'', VchPayment),
    ([''SWIGGY'', ''ZOMATO'', ''UBER EATS'', ''DUNZO''],
       VendorByKeyword [([''SWIGGY''], ''Swiggy''), ([''ZOMATO''], ''Zomato'')] ''Food Delivery'',
         ''Food Expense'', VchPayment)]"

definition kw_food :: "kw_rule list" where
  "kw_food = [
    ([''BREAD'', ''BAKERY'', ''BISCUIT'', ''CANTEEN'', ''TIFFIN'', ''LUNCH'', ''DINNER'',
        ''BREAKFAST'', ''SNACKS'', ''CHAI'', ''TEA STALL'', ''FOOD'', ''RESTAURANT'', ''HOTEL DINING'',
        ''MESS'', ''DHABA'', ''CAFE'', ''HALDIRAM'', ''DOMINOS'', ''PIZZA HUT'', ''MCDONALDS'',
        ''KFC'', ''SUBWAY'', ''BURGER KING'', ''STARBUCKS'', ''CHAAYOS'', ''COFFEE'', ''SHEVPURI'',
        ''SHEV PURI''],
       FixedVendor ''Food / Dining'', ''Food Expense'', VchPayment),
    ([''BIGBASKET'', ''BIG BAZAAR'', ''DMART'', ''D-MART'', ''RELIANCE FRESH'', ''RELIANCE SMART'',
        ''MORE MEGASTORE'', ''STAR BAZAAR'', ''JIOMART'', ''GROFERS'', ''BLINKIT'', ''ZEPTO'',
        ''INSTAMART'', ''MILKBASKET'', ''GROCERY'', ''KIRANA'', ''SABZI'', ''VEGETABLE'', ''FRUITS'',
        ''DAIRY'', ''MILK'', ''PANEER'', ''GHEE'', ''OIL'', ''RICE'', ''WHEAT'', ''ATTA'', ''PULSES'',
        ''MASALA'', ''SPICES'', ''PROVISION'', ''BHAJI'', ''PAPAD'', ''DAHI''],
       FixedVendor ''Grocery / Kirana'', ''Grocery Expense'', VchPayment)]"

definition kw_household :: "kw_rule list" where
  "kw_household = [
    ([''PARLOUR'', ''PARLOR'', ''SALON'', ''HAIRCOLOUR'', ''HAIR COLOUR'', ''HAIRCUT'', ''BEAUTY''],
       FixedVendor ''Personal Care'', ''Personal Care Expense'', VchPayment),
    ([''COURIER'', ''SPEEDPOST'', ''SPEED POST'', ''DTDC'', ''BLUEDART'', ''BLUE DART'', ''FEDEX'',
        ''DELHIVERY'', ''POSTAGE''],
       FixedVendor ''Courier Service'', ''Courier & Postage Expense'', VchPayment),
    ([''PHOTOCOPY'', ''XEROX'', ''STATIONERY'', ''PRINTOUT'', ''PRINTING''],
       FixedVendor ''Stationery Shop'', ''Printing & Stationery Expense'', VchPayment),
    ([''MEDPLUS'', ''APOLLO PHARMACY'', ''NETMEDS'', ''TATA 1MG'', ''1MG'', ''PHARMEASY'',
        ''HEALTHKART'', ''PRACTO'', ''LYBRATE''],
       FixedVendor ''Medical'', ''Medical Expense'', VchPayment)]"

definition kw_services :: "kw_rule list" where
  "kw_services = [
    ([''AMAZON'', ''FLIPKART'', ''MYNTRA'', ''MEESHO'', ''SNAPDEAL'', ''NYKAA'', ''AJIO'',
        ''SHOPCLUES''],
       VendorByKeyword [([''AMAZON''], ''Amazon''), ([''FLIPKART''], ''Flipkart''), ([''MYNTRA''],
         ''Myntra''), ([''MEESHO''], ''Meesho'')] ''Online Shopping'', ''Office Expense'', VchPayment),
    ([''GOOGLE'', ''MICROSOFT'', ''ZOOM'', ''DROPBOX'', ''CANVA'', ''ADOBE'', ''SLACK'', ''NOTION'',
        ''GODADDY'', ''BLUEHOST'', ''HOSTINGER'', ''GSUITE'', ''WORKSPACE'', ''OFFICE 365'', ''AWS'',
        ''AZURE'', ''NETLIFY'', ''VERCEL''],
       VendorByKeyword [([''GOOGLE''], ''Google''), ([''MICROSOFT''], ''Microsoft''), ([''ZOOM''],
         ''Zoom''), ([''AWS''], ''Amazon AWS'')] ''Software'', ''Software Expense'', VchPayment),
    ([''UBER'', ''OLA CAB'', ''OLA/'', ''RAPIDO'', ''MERU''],
       VendorByKeyword [([''UBER''], ''Uber''), ([''OLA''], ''Ola'')] ''Transport'',
         ''Travelling Expense'', VchPayment)]"

definition kw_finance :: "kw_rule list" where
  "kw_finance = [
    ([''IRCTC'', ''RAILWAY'', ''INDIGO'', ''AIR INDIA'', ''MAKEMYTRIP'', ''YATRA'', ''CLEARTRIP'',
        ''GOIBIBO'', ''VISTARA'', ''SPICEJET'', ''AKASA''],
       FixedVendor ''Travel'', ''Travelling Expense'', VchPayment),
    ([''PROFESSIONAL FEES'', ''CONSULTING'', ''CA FEES'', ''AUDIT FEES'', ''LEGAL FEES'',
        ''ADVOCATE FEE'', ''CHARTERED ACCOUNTANT''],
       FixedVendor '''', ''Professional Fees'', VchPayment),
    ([''EMI'', ''LOAN EMI'', ''HOME LOAN EMI'', ''CAR LOAN'', ''PERSONAL LOAN'', ''BAJAJ FINSERV'',
        ''HDFC LOAN'', ''ICICI LOAN'', ''SBI LOAN''],
       FixedVendor ''Bank/NBFC'', ''Loan Account'', VchPayment),
    ([''MUTUAL FUND'', ''SIP'', ''ZERODHA'', ''GROWW'', ''UPSTOX'', ''ANGEL BROKING'',
        ''ICICIDIRECT'', ''HDFC SEC'', ''KOTAK SEC'', ''MOTILAL'', ''NUVAMA'', ''PAYTM MONEY''],
       FixedVendor ''Investment'', ''Investments'', VchPayment),
    ([''DIVIDEND'', ''DIVIDEND CREDIT''],
       FixedVendor ''Investment'', ''Dividend Income'', VchReceipt),
    ([''GOOGLE ADS'', ''FACEBOOK ADS'', ''META ADS'', ''INSTAGRAM ADS'', ''YOUTUBE ADS'',
        ''DIGITAL MARKETING''],
       FixedVendor ''Advertisement'', ''Advertisement Expense'', VchPayment)]"

definition kw_rules :: "kw_rule list" where
  "kw_rules = kw_bank_and_tax @ kw_utilities @ kw_food @ kw_household @ kw_services @ kw_finance"

definition has_any :: "chars \<Rightarrow> string list \<Rightarrow> bool" where
  "has_any upper ks \<longleftrightarrow> list_ex (\<lambda>k. has_part (lit k) upper) ks"

fun kw_vendor_name :: "chars \<Rightarrow> chars \<Rightarrow> kw_vendor \<Rightarrow> chars" where
  "kw_vendor_name upper bank_ledger (FixedVendor v) = lit v"
| "kw_vendor_name upper bank_ledger BankLedger = bank_ledger"
| "kw_vendor_name upper bank_ledger (VendorByKeyword choices otherwise) =
    (case find (\<lambda>(ks, _). has_any upper ks) choices of Some (_, v) \<Rightarrow> lit v | None \<Rightarrow> lit otherwise)"

record kw_result =
  kw_vendor :: chars
  kw_head :: chars
  kw_txn_type :: voucher_type

definition transfer_words :: "string list" where
  "transfer_words = [''NEFT'', ''INFT'', ''RTGS'', ''IMPS'', ''UPI'', ''NACH'', ''ECS'', ''ACH'', ''BBPS'']"

definition transfer_result :: "unicode \<Rightarrow> transaction \<Rightarrow> kw_result" where
  "transfer_result U t =
    (let party = extract_party_name U (combined_narration_and_reference t) in
     if txn_credit t \<noteq> None \<and> txn_debit t = None
     then \<lparr> kw_vendor = party, kw_head = (if party = [] then lit ''Sundry Debtors'' else party), kw_txn_type = VchReceipt \<rparr>
     else \<lparr> kw_vendor = party, kw_head = (if party = [] then lit ''Sundry Creditors'' else party), kw_txn_type = VchPayment \<rparr>)"

definition kw_match :: "unicode \<Rightarrow> chars \<Rightarrow> transaction \<Rightarrow> chars \<Rightarrow> kw_result option" where
  "kw_match U upper t bank_ledger =
    (case find (\<lambda>(ks, _). has_any upper ks) kw_rules of
       Some (_, v, h, tp) \<Rightarrow>
         Some \<lparr> kw_vendor = kw_vendor_name upper bank_ledger v, kw_head = lit h, kw_txn_type = tp \<rparr>
     | None \<Rightarrow> if has_any upper transfer_words then Some (transfer_result U t) else None)"

subsection \<open>Tags and voucher types\<close>

text \<open>
  A tax number among the bytes of the text. The loop goes over the byte offsets below \<open>len - 15\<close>; a
  window whose characters are all ASCII letters and digits is fifteen characters, so the window is
  taken in characters.
\<close>

definition gstin_shape :: "chars \<Rightarrow> bool" where
  "gstin_shape w \<longleftrightarrow> length w = 15 \<and> list_all ascii_digit (take 2 w) \<and> list_all ascii_alpha (take 5 (drop 2 w))
     \<and> list_all ascii_digit (take 4 (drop 7 w)) \<and> list_all ascii_alnum w"

fun gstin_within :: "chars \<Rightarrow> bool" where
  "gstin_within [] = False"
| "gstin_within (c # s) = (15 < byte_len (c # s) \<and> gstin_shape (take 15 (c # s)) \<or> gstin_within s)"

definition detect_gst :: "unicode \<Rightarrow> chars \<Rightarrow> chars \<Rightarrow> chars option" where
  "detect_gst U narration reference =
    (let n = to_uppercase U (narration @ 32 # reference); has = (\<lambda>k. has_part (lit k) n) in
     if has ''IGST'' \<or> has ''CGST'' \<or> has ''SGST'' then Some (lit ''GST'')
     else if has ''GST'' \<and> (has ''PAY'' \<or> has ''PMT'' \<or> has ''REFUND'' \<or> has ''CHALLAN'') then Some (lit ''GST'')
     else if gstin_within n then Some (lit ''GST'')
     else if has ''INCOME TAX'' \<or> has ''ADVANCE TAX'' \<or> has ''TDS PMT'' \<or> has ''TRACES'' \<or> has ''CHALLAN 28''
     then Some (lit ''TAX'')
     else None)"

definition atm_re :: "unicode \<Rightarrow> rx" where
  "atm_re U = Alts [Cats [Word U, Lits ''ATM'', Word U],
     Cats [Lits ''CASH'', Many Blank, Grp 1 (Alts [Lits ''DEP'', Lits ''WDL'', Lits ''WITHDRAWAL''])],
     Cats [Word U, Lits ''SELF'', Many Blank, Lits ''TRANSFER'', Word U]]"

definition infer_voucher_type :: "unicode \<Rightarrow> transaction \<Rightarrow> chars \<Rightarrow> voucher_type" where
  "infer_voucher_type U t upper =
    (if is_match (atm_re U) upper then VchContra
     else if txn_credit t \<noteq> None \<and> txn_debit t = None then VchReceipt
     else if txn_debit t \<noteq> None \<and> txn_credit t = None then VchPayment
     else VchUnknown)"

subsection \<open>One transaction\<close>

definition add_tag :: "string \<Rightarrow> transaction \<Rightarrow> transaction" where
  "add_tag g t = (if lit g \<in> set (txn_tags t) then t else t\<lparr>txn_tags := txn_tags t @ [lit g]\<rparr>)"

definition rule_type :: "chars \<Rightarrow> voucher_type \<Rightarrow> voucher_type" where
  "rule_type s old =
    (if s = lit ''Payment'' then VchPayment else if s = lit ''Receipt'' then VchReceipt
     else if s = lit ''Contra'' then VchContra else old)"

definition apply_rule :: "classification_rule \<Rightarrow> transaction \<Rightarrow> transaction" where
  "apply_rule r t = t\<lparr>
     txn_vendor := (if cr_vendor r \<noteq> [] then cr_vendor r else txn_vendor t),
     txn_account_head := (if cr_account_head r \<noteq> [] then cr_account_head r else txn_account_head t),
     txn_txn_type := rule_type (cr_txn_type r) (txn_txn_type t),
     txn_confidence := (if cr_client_id r = 0 then f64_of (6 / 10) else f64_of (9 / 10)),
     txn_status := Classified, txn_classification_source := lit ''rule'' \<rparr>"

definition apply_keyword :: "kw_result \<Rightarrow> transaction \<Rightarrow> transaction" where
  "apply_keyword kw t = t\<lparr> txn_vendor := kw_vendor kw, txn_account_head := kw_head kw, txn_txn_type := kw_txn_type kw,
     txn_confidence := f64_of (45 / 100), txn_status := Classified, txn_classification_source := lit ''keyword'' \<rparr>"

definition leave_unreviewed :: "chars \<Rightarrow> transaction \<Rightarrow> transaction" where
  "leave_unreviewed party t = t\<lparr> txn_vendor := (if party \<noteq> [] then party else txn_vendor t),
     txn_status := Unreviewed, txn_confidence := f64_zero, txn_classification_source := [] \<rparr>"

definition apply_gst :: "bool \<Rightarrow> gst_analysis \<Rightarrow> transaction \<Rightarrow> transaction" where
  "apply_gst gst_auto_ledgers gst t0 =
    (let t = add_tag ''GST'' t0 in
     t\<lparr> txn_account_head :=
          (if gst_auto_ledgers \<and> txn_account_head t = []
           then (case ga_expense_ledger gst of Some ledger \<Rightarrow> ledger | None \<Rightarrow> txn_account_head t)
           else txn_account_head t),
        txn_gst_rate := ga_gst_rate gst, txn_gst_amount := ga_gst_amount gst, txn_gst_type := ga_gst_type gst \<rparr>)"

definition assign_party ::
  "unicode \<Rightarrow> chars \<Rightarrow> classification_rule list \<Rightarrow> chars \<Rightarrow> chars \<Rightarrow> transaction \<Rightarrow> transaction" where
  "assign_party U bank_ledger rules combined upper t =
    (case apply_rules U upper rules of
       Some r \<Rightarrow> apply_rule r t
     | None \<Rightarrow>
        (case kw_match U upper t bank_ledger of
           Some kw \<Rightarrow> apply_keyword kw t
         | None \<Rightarrow> leave_unreviewed (extract_party_name U combined) t))"

definition infer_missing_type :: "unicode \<Rightarrow> chars \<Rightarrow> transaction \<Rightarrow> transaction" where
  "infer_missing_type U upper t =
    (if txn_txn_type t = VchUnknown then t\<lparr>txn_txn_type := infer_voucher_type U t upper\<rparr> else t)"

definition tag_taxes :: "unicode \<Rightarrow> transaction \<Rightarrow> transaction" where
  "tag_taxes U t =
    (case detect_gst U (txn_narration t) (txn_reference t) of
       None \<Rightarrow> t
     | Some tag \<Rightarrow> if tag \<in> set (txn_tags t) then t else t\<lparr>txn_tags := txn_tags t @ [tag]\<rparr>)"

definition surface_gst :: "unicode \<Rightarrow> bool \<Rightarrow> bool \<Rightarrow> transaction \<Rightarrow> transaction" where
  "surface_gst U gst_enabled gst_auto_ledgers t =
    (if \<not> gst_enabled then t
     else
       (case analyse U (txn_narration t) (txn_reference t) (txn_vendor t) (txn_debit t) (txn_credit t) of
          None \<Rightarrow> t
        | Some gst \<Rightarrow> apply_gst gst_auto_ledgers gst t))"

definition classify_one ::
  "unicode \<Rightarrow> chars \<Rightarrow> classification_rule list \<Rightarrow> bool \<Rightarrow> bool \<Rightarrow> transaction \<Rightarrow> transaction" where
  "classify_one U bank_ledger rules gst_enabled gst_auto_ledgers t =
    (let combined = combined_narration_and_reference t; upper = to_uppercase U combined in
     surface_gst U gst_enabled gst_auto_ledgers
       (tag_taxes U (infer_missing_type U upper (assign_party U bank_ledger rules combined upper t))))"

end
