(* ===== verification/Duplicates.thy ===== *)
theory Duplicates
  imports Classifier "HOL-Library.Multiset"
begin

text \<open>
  \<open>src/classifier.rs\<close>, \<open>classify_all\<close> and \<open>detect_duplicates\<close>: the pass over all the transactions and the
  three passes that look for duplicates. A hash map with entry \<open>Vacant\<close> or \<open>Occupied\<close> is the list of the
  keys seen; the order in which the buckets of the third pass are visited is an argument.
\<close>

subsection \<open>Similar narrations\<close>

definition meaningful :: "chars \<Rightarrow> bool" where
  "meaningful w \<longleftrightarrow> 4 \<le> byte_len w \<or> 6 \<le> byte_len w \<and> list_all ascii_digit w"

definition narration_tokens :: "unicode \<Rightarrow> chars \<Rightarrow> chars list" where
  "narration_tokens U s =
    remdups (filter meaningful (map trimmed (split_at (\<lambda>c. \<not> uni_alnum U c) (to_uppercase U s))))"

definition token_overlap :: "unicode \<Rightarrow> chars \<Rightarrow> chars \<Rightarrow> f64" where
  "token_overlap U a b =
    (let ta = narration_tokens U a; tb = narration_tokens U b in
     if ta = [] \<or> tb = [] then f64_zero
     else f64_div (f64_of (of_nat (length (filter (\<lambda>w. w \<in> set tb) ta))))
            (f64_of (of_nat (max (length ta) (length tb)))))"

subsection \<open>The passes\<close>

definition flag_duplicate :: "transaction \<Rightarrow> transaction" where
  "flag_duplicate t = add_tag ''DUP'' (t\<lparr>txn_dup_flag := True\<rparr>)"

definition exempt :: "transaction \<Rightarrow> bool" where
  "exempt t \<longleftrightarrow> txn_is_opening_balance t \<or> txn_status t = Manual"

text \<open>
  A pass with a map of the keys seen: a transaction with a key that was seen is flagged, a new key is
  kept, a transaction with no key is passed over.
\<close>

fun flag_seen :: "(transaction \<Rightarrow> 'k option) \<Rightarrow> 'k list \<Rightarrow> transaction list \<Rightarrow> transaction list" where
  "flag_seen key seen [] = []"
| "flag_seen key seen (t # ts) =
    (case key t of
       None \<Rightarrow> t # flag_seen key seen ts
     | Some k \<Rightarrow>
        if k \<in> set seen then flag_duplicate t # flag_seen key seen ts
        else t # flag_seen key (k # seen) ts)"

definition hash_key :: "transaction \<Rightarrow> chars option" where
  "hash_key t = (if exempt t then None else Some (transaction_hash t))"

definition first_amount :: "transaction \<Rightarrow> f64" where
  "first_amount t =
    (case txn_debit t of Some d \<Rightarrow> d
     | None \<Rightarrow> (case txn_credit t of Some c \<Rightarrow> c | None \<Rightarrow> f64_zero))"

definition reference_key :: "transaction \<Rightarrow> chars option" where
  "reference_key t =
    (if exempt t \<or> txn_dup_flag t then None
     else
       (let r = trimmed (txn_reference t); amt = first_amount t in
        if r \<noteq> [] \<and> f64_less f64_zero amt \<and> looks_like_reference_number r
        then Some (r @ 124 # format_fixed 2 amt) else None))"

type_synonym bucket_key = "chars \<times> chars \<times> bool"

definition directed_amount :: "transaction \<Rightarrow> (f64 \<times> bool) option" where
  "directed_amount t =
    (case (txn_debit t, txn_credit t) of
       (Some d, c) \<Rightarrow>
         if f64_less f64_zero d then Some (d, True)
         else (case c of Some c \<Rightarrow> if f64_less f64_zero c then Some (c, False) else None | None \<Rightarrow> None)
     | (None, Some c) \<Rightarrow> if f64_less f64_zero c then Some (c, False) else None
     | (None, None) \<Rightarrow> None)"

definition bucket_key :: "transaction \<Rightarrow> bucket_key option" where
  "bucket_key t =
    (if exempt t \<or> txn_dup_flag t then None
     else map_option (\<lambda>(amt, is_debit). (txn_date t, format_fixed 2 amt, is_debit)) (directed_amount t))"

fun into_bucket :: "'k \<Rightarrow> nat \<Rightarrow> ('k \<times> nat list) list \<Rightarrow> ('k \<times> nat list) list" where
  "into_bucket k i [] = [(k, [i])]"
| "into_bucket k i ((k', is) # bs) = (if k' = k then (k', is @ [i]) # bs else (k', is) # into_bucket k i bs)"

definition buckets_of :: "transaction list \<Rightarrow> (bucket_key \<times> nat list) list" where
  "buckets_of txns =
    fold (\<lambda>(i, t) bs. case bucket_key t of Some k \<Rightarrow> into_bucket k i bs | None \<Rightarrow> bs)
      (enumerate 0 txns) []"

text \<open>The transactions of a bucket behind \<open>a\<close> that are similar to it.\<close>

fun flag_similar :: "unicode \<Rightarrow> nat \<Rightarrow> nat list \<Rightarrow> transaction list \<Rightarrow> transaction list" where
  "flag_similar U a [] txns = txns"
| "flag_similar U a (b # bs) txns =
    flag_similar U a bs
      (if txn_dup_flag (txns ! b) then txns
       else if f64_le (f64_of (1 / 2)) (token_overlap U (txn_narration (txns ! a)) (txn_narration (txns ! b)))
       then txns[b := flag_duplicate (txns ! b)] else txns)"

fun scan_bucket :: "unicode \<Rightarrow> nat list \<Rightarrow> transaction list \<Rightarrow> transaction list" where
  "scan_bucket U [] txns = txns"
| "scan_bucket U (a # bs) txns =
    scan_bucket U bs (if txn_dup_flag (txns ! a) then txns else flag_similar U a bs txns)"

definition detect_duplicates ::
  "((bucket_key \<times> nat list) list \<Rightarrow> (bucket_key \<times> nat list) list) \<Rightarrow> unicode \<Rightarrow> transaction list \<Rightarrow> transaction list" where
  "detect_duplicates iter U txns =
    (let after_hash = flag_seen hash_key [] txns;
         after_reference = flag_seen reference_key [] after_hash in
     fold (\<lambda>(_, idxs) ts. if length idxs < 2 then ts else scan_bucket U idxs ts)
       (iter (buckets_of after_reference)) after_reference)"

subsection \<open>All transactions\<close>

definition is_skipped :: "transaction \<Rightarrow> bool" where
  "is_skipped t \<longleftrightarrow> txn_is_opening_balance t \<or> is_locked_from_auto_classify t"

text \<open>The comparison of \<open>before\<close> and \<open>after\<close> is of the fields by \<open>==\<close>, so a confidence that is no number differs.\<close>

definition is_changed :: "transaction \<Rightarrow> transaction \<Rightarrow> bool" where
  "is_changed t t' \<longleftrightarrow> \<not> (txn_status t' = txn_status t \<and> txn_vendor t' = txn_vendor t
     \<and> txn_account_head t' = txn_account_head t \<and> f64_eq (txn_confidence t') (txn_confidence t))"

definition classify_all ::
  "((bucket_key \<times> nat list) list \<Rightarrow> (bucket_key \<times> nat list) list) \<Rightarrow> unicode \<Rightarrow> transaction list \<Rightarrow> chars
    \<Rightarrow> classification_rule list \<Rightarrow> bool \<Rightarrow> bool \<Rightarrow> bool \<Rightarrow> transaction list \<times> nat" where
  "classify_all iter U txns bank_ledger rules run_dedup gst_enabled gst_auto_ledgers =
    (let classified = map (\<lambda>t. if is_skipped t then t
           else classify_one U bank_ledger rules gst_enabled gst_auto_ledgers t) txns;
         changed = length (filter (\<lambda>(t, t'). \<not> is_skipped t \<and> is_changed t t') (zip txns classified)) in
     (if run_dedup then detect_duplicates iter U classified else classified, changed))"

section \<open>What duplicate detection guarantees\<close>

text \<open>
  Classification and duplicate detection: what they never touch, that every flagged row has an original
  that stays, and that a second run finds nothing more.
\<close>

subsection \<open>Flagging a row\<close>

lemma flag_duplicate_fields [simp]:
  "txn_dup_flag (flag_duplicate t)" "exempt (flag_duplicate t) = exempt t"
  "transaction_hash (flag_duplicate t) = transaction_hash t" "txn_narration (flag_duplicate t) = txn_narration t"
  "txn_reference (flag_duplicate t) = txn_reference t"
  "txn_date (flag_duplicate t) = txn_date t" "txn_debit (flag_duplicate t) = txn_debit t"
  "txn_credit (flag_duplicate t) = txn_credit t"
  by (simp_all add: flag_duplicate_def add_tag_def exempt_def transaction_hash_def)

lemma flag_duplicate_amount [simp]:
  "directed_amount (flag_duplicate t) = directed_amount t" "first_amount (flag_duplicate t) = first_amount t"
  by (simp_all add: directed_amount_def first_amount_def cong: option.case_cong)

lemma flag_duplicate_idem [simp]: "flag_duplicate (flag_duplicate t) = flag_duplicate t"
  by (auto simp: flag_duplicate_def add_tag_def)

text \<open>Rows that are the same but for a flag set, and lists of such rows.\<close>

definition reflagged :: "transaction \<Rightarrow> transaction \<Rightarrow> bool" where
  "reflagged t t' \<longleftrightarrow> t' = t \<or> t' = flag_duplicate t"

definition grown :: "transaction list \<Rightarrow> transaction list \<Rightarrow> bool" where
  "grown ts ts' \<longleftrightarrow> length ts' = length ts \<and> (\<forall>i<length ts. reflagged (ts ! i) (ts' ! i))"

lemma reflagged_trans: "reflagged t t' \<Longrightarrow> reflagged t' t'' \<Longrightarrow> reflagged t t''"
  by (auto simp: reflagged_def)

lemma grown_refl [simp]: "grown ts ts"
  by (simp add: grown_def reflagged_def)

lemma grown_trans [trans]: "grown ts ts' \<Longrightarrow> grown ts' ts'' \<Longrightarrow> grown ts ts''"
  unfolding grown_def by (metis reflagged_trans)

lemma grown_length: "grown ts ts' \<Longrightarrow> length ts' = length ts"
  by (simp add: grown_def)

lemma grown_flag: "grown ts ts' \<Longrightarrow> i < length ts \<Longrightarrow> txn_dup_flag (ts ! i) \<Longrightarrow> txn_dup_flag (ts' ! i)"
  unfolding grown_def reflagged_def by (metis flag_duplicate_fields(1))

lemma grown_same: "grown ts ts' \<Longrightarrow> i < length ts \<Longrightarrow> \<not> txn_dup_flag (ts' ! i) \<Longrightarrow> ts' ! i = ts ! i"
  unfolding grown_def reflagged_def by (metis flag_duplicate_fields(1))

lemma grown_fields:
  assumes "grown ts ts'" and "i < length ts"
  shows "exempt (ts' ! i) = exempt (ts ! i)" "transaction_hash (ts' ! i) = transaction_hash (ts ! i)"
    "txn_narration (ts' ! i) = txn_narration (ts ! i)" "txn_reference (ts' ! i) = txn_reference (ts ! i)"
    "first_amount (ts' ! i) = first_amount (ts ! i)" "directed_amount (ts' ! i) = directed_amount (ts ! i)"
    "txn_date (ts' ! i) = txn_date (ts ! i)" "flag_duplicate (ts' ! i) = flag_duplicate (ts ! i)"
  using assms unfolding grown_def reflagged_def by (metis flag_duplicate_fields flag_duplicate_amount flag_duplicate_idem)+

lemma grown_update: "grown ts (ts[b := flag_duplicate (ts ! b)])"
  by (cases "b < length ts") (auto simp: grown_def reflagged_def nth_list_update)

subsection \<open>The passes with a map of keys\<close>

lemma flag_seen_length [simp]: "length (flag_seen key seen ts) = length ts"
  by (induction key seen ts rule: flag_seen.induct) (auto split: option.splits)

lemma flag_seen_nth:
  "i < length ts \<Longrightarrow> flag_seen key seen ts ! i =
    (if \<exists>k. key (ts ! i) = Some k \<and> (k \<in> set seen \<or> (\<exists>j<i. key (ts ! j) = Some k))
     then flag_duplicate (ts ! i) else ts ! i)"
proof (induction key seen ts arbitrary: i rule: flag_seen.induct)
  case (2 key seen t ts)
  show ?case
  proof (cases i)
    case 0
    then show ?thesis by (auto split: option.splits)
  next
    case (Suc n)
    have earlier: "(\<exists>j<Suc n. P j) \<longleftrightarrow> P 0 \<or> (\<exists>j<n. P (Suc j))" for P
      by (auto simp: less_Suc_eq_0_disj)
    from Suc 2 show ?thesis
      by (cases "key t") (auto simp: earlier)
  qed
qed simp

lemma flag_seen_grown: "grown ts (flag_seen key seen ts)"
  by (simp add: grown_def reflagged_def flag_seen_nth)

subsection \<open>The buckets\<close>

lemma in_fst_image: "k \<in> fst ` S \<longleftrightarrow> (\<exists>v. (k, v) \<in> S)"
  by force

lemma into_bucket_keys: "fst ` set (into_bucket k i bs) = insert k (fst ` set bs)"
  by (induction k i bs rule: into_bucket.induct) auto

lemma into_bucket_distinct: "distinct (map fst bs) \<Longrightarrow> distinct (map fst (into_bucket k i bs))"
  by (induction k i bs rule: into_bucket.induct) (auto simp: into_bucket_keys image_iff dest: into_bucket_keys [THEN equalityD1, THEN subsetD, rotated])

lemma into_bucket_found:
  "distinct (map fst bs) \<Longrightarrow> (k', is') \<in> set (into_bucket k i bs) \<longleftrightarrow>
    (if k' = k then (if k \<in> fst ` set bs then \<exists>is. (k, is) \<in> set bs \<and> is' = is @ [i] else is' = [i])
     else (k', is') \<in> set bs)"
proof (induction k i bs rule: into_bucket.induct)
  case (2 k i k0 is0 bs)
  show ?case
  proof (cases "k0 = k")
    case True
    with 2(2) have "(k, is1) \<notin> set bs" for is1 by force
    with True 2 show ?thesis by (auto simp: image_iff)
  next
    case False
    with 2 show ?thesis by (auto simp: image_iff)
  qed
qed auto

definition in_bucket :: "transaction list \<Rightarrow> bucket_key \<Rightarrow> nat list" where
  "in_bucket ts k = filter (\<lambda>i. bucket_key (ts ! i) = Some k) [0..<length ts]"

lemma in_bucket_snoc:
  "in_bucket (ts @ [t]) k = in_bucket ts k @ (if bucket_key t = Some k then [length ts] else [])"
proof -
  have "filter (\<lambda>i. bucket_key ((ts @ [t]) ! i) = Some k) [0..<length ts]
      = filter (\<lambda>i. bucket_key (ts ! i) = Some k) [0..<length ts]"
    by (rule filter_cong) (auto simp: nth_append)
  then show ?thesis by (simp add: in_bucket_def)
qed

lemma buckets_of_snoc:
  "buckets_of (ts @ [t]) =
    (case bucket_key t of Some k \<Rightarrow> into_bucket k (length ts) (buckets_of ts) | None \<Rightarrow> buckets_of ts)"
  by (cases "bucket_key t") (simp_all add: buckets_of_def enumerate_append_eq)

lemma buckets_of_spec:
  "distinct (map fst (buckets_of ts))
   \<and> (\<forall>k is. (k, is) \<in> set (buckets_of ts) \<longleftrightarrow> is = in_bucket ts k \<and> is \<noteq> [])"
proof (induction ts rule: rev_induct)
  case Nil
  then show ?case by (simp add: buckets_of_def in_bucket_def)
next
  case (snoc t ts)
  then have d: "distinct (map fst (buckets_of ts))" by (rule conjunct1)
  from snoc have all: "\<forall>k is. (k, is) \<in> set (buckets_of ts) \<longleftrightarrow> is = in_bucket ts k \<and> is \<noteq> []"
    by (rule conjunct2)
  have found: "(k, is) \<in> set (buckets_of ts) \<longleftrightarrow> is = in_bucket ts k \<and> is \<noteq> []" for k "is"
    by (rule all [rule_format])
  have keys: "k \<in> fst ` set (buckets_of ts) \<longleftrightarrow> in_bucket ts k \<noteq> []" for k
    by (simp only: in_fst_image found) simp
  have "distinct (map fst (buckets_of (ts @ [t])))"
    using d by (simp add: buckets_of_snoc into_bucket_distinct split: option.split)
  moreover have "(k', is) \<in> set (buckets_of (ts @ [t])) \<longleftrightarrow> is = in_bucket (ts @ [t]) k' \<and> is \<noteq> []" for k' "is"
  proof (cases "bucket_key t")
    case None
    then show ?thesis by (simp only: buckets_of_snoc in_bucket_snoc found option.case append_Nil2 if_False option.distinct)
  next
    case (Some k)
    have "(\<exists>js. (k, js) \<in> set (buckets_of ts) \<and> is = js @ [length ts]) \<longleftrightarrow> in_bucket ts k \<noteq> [] \<and> is = in_bucket ts k @ [length ts]"
      unfolding found by auto
    then show ?thesis using Some
      by (cases "k' = k") (simp_all add: buckets_of_snoc in_bucket_snoc into_bucket_found [OF d] keys found del: split_paired_Ex, auto)
  qed
  ultimately show ?case by blast
qed


subsection \<open>The pass over the buckets\<close>

definition similar :: "unicode \<Rightarrow> transaction \<Rightarrow> transaction \<Rightarrow> bool" where
  "similar U t t' \<longleftrightarrow> f64_le (f64_of (1 / 2)) (token_overlap U (txn_narration t) (txn_narration t'))"

lemma similar_grown:
  "grown ts ts' \<Longrightarrow> i < length ts \<Longrightarrow> j < length ts \<Longrightarrow> similar U (ts' ! i) (ts' ! j) = similar U (ts ! i) (ts ! j)"
  by (simp add: similar_def grown_fields)

lemma flag_similar_nth:
  assumes "a < length ts"
  shows "length (flag_similar U a bs ts) = length ts
   \<and> (\<forall>i<length ts. flag_similar U a bs ts ! i =
        (if i \<in> set bs \<and> \<not> txn_dup_flag (ts ! i) \<and> similar U (ts ! a) (ts ! i) then flag_duplicate (ts ! i) else ts ! i))"
  using assms
proof (induction bs arbitrary: ts)
  case (Cons b bs)
  define ts' where "ts' = (if \<not> txn_dup_flag (ts ! b) \<and> similar U (ts ! a) (ts ! b)
      then ts[b := flag_duplicate (ts ! b)] else ts)"
  have g: "grown ts ts'" by (simp add: ts'_def grown_update)
  have run: "flag_similar U a (b # bs) ts = flag_similar U a bs ts'" by (simp add: ts'_def similar_def)
  have len: "length ts' = length ts" using g by (rule grown_length)
  have at: "ts' ! i = (if i = b \<and> \<not> txn_dup_flag (ts ! b) \<and> similar U (ts ! a) (ts ! b) then flag_duplicate (ts ! i) else ts ! i)"
    if "i < length ts" for i using that by (simp add: ts'_def nth_list_update)
  have "flag_similar U a bs ts' ! i =
        (if i \<in> set (b # bs) \<and> \<not> txn_dup_flag (ts ! i) \<and> similar U (ts ! a) (ts ! i) then flag_duplicate (ts ! i) else ts ! i)"
    if "i < length ts" for i
  proof -
    from Cons.IH [of ts'] Cons.prems len that have "flag_similar U a bs ts' ! i =
        (if i \<in> set bs \<and> \<not> txn_dup_flag (ts' ! i) \<and> similar U (ts' ! a) (ts' ! i) then flag_duplicate (ts' ! i) else ts' ! i)"
      by simp
    from this [unfolded similar_grown [OF g Cons.prems that]] show ?thesis using at [OF that] by auto
  qed
  then show ?case using Cons.IH [of ts'] Cons.prems len run by simp
qed simp

lemma flag_similar_grown: "a < length ts \<Longrightarrow> grown ts (flag_similar U a bs ts)"
  by (simp add: grown_def reflagged_def flag_similar_nth)

text \<open>A bucket of rows in order: a flagged row follows a similar one, and no similar pair keeps both rows unflagged.\<close>

lemma scan_bucket_spec:
  assumes "sorted_wrt (<) idxs" and "\<forall>i\<in>set idxs. i < length ts"
  shows "grown ts (scan_bucket U idxs ts)
   \<and> (\<forall>i<length ts. txn_dup_flag (scan_bucket U idxs ts ! i) \<longrightarrow> \<not> txn_dup_flag (ts ! i) \<longrightarrow>
        i \<in> set idxs \<and> (\<exists>a\<in>set idxs. a < i \<and> similar U (ts ! a) (ts ! i)))
   \<and> (\<forall>a\<in>set idxs. \<forall>b\<in>set idxs. a < b \<longrightarrow> similar U (ts ! a) (ts ! b) \<longrightarrow>
        txn_dup_flag (scan_bucket U idxs ts ! a) \<or> txn_dup_flag (scan_bucket U idxs ts ! b))"
  using assms
proof (induction idxs arbitrary: ts)
  case (Cons a bs)
  define ts' where "ts' = (if txn_dup_flag (ts ! a) then ts else flag_similar U a bs ts)"
  have a: "a < length ts" using Cons.prems by simp
  have g: "grown ts ts'" using flag_similar_grown [OF a] by (simp add: ts'_def)
  have len: "length ts' = length ts" using g by (rule grown_length)
  have run: "scan_bucket U (a # bs) ts = scan_bucket U bs ts'" by (simp add: ts'_def)
  have bs: "sorted_wrt (<) bs" "\<forall>i\<in>set bs. i < length ts'" using Cons.prems len by auto
  from Cons.IH [OF bs, unfolded len] have g': "grown ts' (scan_bucket U bs ts')"
    and new: "\<And>i. i < length ts \<Longrightarrow> txn_dup_flag (scan_bucket U bs ts' ! i) \<Longrightarrow> \<not> txn_dup_flag (ts' ! i)
        \<Longrightarrow> i \<in> set bs \<and> (\<exists>a\<in>set bs. a < i \<and> similar U (ts' ! a) (ts' ! i))"
    and pairs: "\<And>x y. x \<in> set bs \<Longrightarrow> y \<in> set bs \<Longrightarrow> x < y \<Longrightarrow> similar U (ts' ! x) (ts' ! y)
        \<Longrightarrow> txn_dup_flag (scan_bucket U bs ts' ! x) \<or> txn_dup_flag (scan_bucket U bs ts' ! y)"
    by blast+
  have first: "i \<in> set bs \<and> similar U (ts ! a) (ts ! i)"
    if "i < length ts" "txn_dup_flag (ts' ! i)" "\<not> txn_dup_flag (ts ! i)" for i
    using that flag_similar_nth [OF a, of U bs] by (auto simp: ts'_def split: if_splits)
  have behind: "b \<in> set bs \<Longrightarrow> a < b \<and> b < length ts" for b using Cons.prems by auto
  show ?case unfolding run
  proof (intro conjI allI ballI impI)
    show "grown ts (scan_bucket U bs ts')" using g g' by (rule grown_trans)
  next
    fix i assume i: "i < length ts" "txn_dup_flag (scan_bucket U bs ts' ! i)" "\<not> txn_dup_flag (ts ! i)"
    have "i \<in> set bs \<and> (\<exists>x\<in>set (a # bs). x < i \<and> similar U (ts ! x) (ts ! i))"
    proof (cases "txn_dup_flag (ts' ! i)")
      case True
      with first [OF i(1) this i(3)] behind show ?thesis by auto
    next
      case False
      from new [OF i(1,2) False] show ?thesis using behind similar_grown [OF g] i(1) by fastforce
    qed
    then show "i \<in> set (a # bs)" and "\<exists>x\<in>set (a # bs). x < i \<and> similar U (ts ! x) (ts ! i)" by auto
  next
    fix x y assume xy: "x \<in> set (a # bs)" "y \<in> set (a # bs)" "x < y" "similar U (ts ! x) (ts ! y)"
    with behind have y: "y \<in> set bs" by (metis less_asym' set_ConsD)
    show "txn_dup_flag (scan_bucket U bs ts' ! x) \<or> txn_dup_flag (scan_bucket U bs ts' ! y)"
    proof (cases "x \<in> set bs")
      case True
      then show ?thesis using pairs [OF True y xy(3)] similar_grown [OF g, of x y] behind y xy(4) by simp
    next
      case False
      with xy(1) have x: "x = a" by simp
      show ?thesis
      proof (cases "txn_dup_flag (ts ! a) \<or> txn_dup_flag (ts' ! y)")
        case True
        then show ?thesis using x grown_flag [OF grown_trans [OF g g'] a] grown_flag [OF g', of y] behind [OF y] len by auto
      next
        case False
        with behind [OF y] grown_flag [OF g, of y] have "\<not> txn_dup_flag (ts ! y)" by auto
        with False flag_similar_nth [OF a, of U bs] x y xy(4) behind [OF y] show ?thesis
          by (simp add: ts'_def split: if_splits)
      qed
    qed
  qed
qed simp


subsection \<open>Duplicates\<close>

text \<open>What makes the later of two rows a duplicate: the same fingerprint, the same reference number and amount, or the same day, amount and direction with similar narrations.\<close>

definition reference_part :: "transaction \<Rightarrow> chars option" where
  "reference_part t = reference_key (t\<lparr>txn_dup_flag := False\<rparr>)"

definition bucket_part :: "transaction \<Rightarrow> bucket_key option" where
  "bucket_part t = bucket_key (t\<lparr>txn_dup_flag := False\<rparr>)"

definition same_entry :: "unicode \<Rightarrow> transaction \<Rightarrow> transaction \<Rightarrow> bool" where
  "same_entry U t t' \<longleftrightarrow>
     hash_key t \<noteq> None \<and> hash_key t = hash_key t'
   \<or> reference_part t \<noteq> None \<and> reference_part t = reference_part t'
   \<or> bucket_part t \<noteq> None \<and> bucket_part t = bucket_part t' \<and> similar U t t'"

lemma unflagged_fields [simp]:
  "exempt (t\<lparr>txn_dup_flag := False\<rparr>) = exempt t" "first_amount (t\<lparr>txn_dup_flag := False\<rparr>) = first_amount t"
  "directed_amount (t\<lparr>txn_dup_flag := False\<rparr>) = directed_amount t"
  by (simp_all add: exempt_def first_amount_def directed_amount_def cong: option.case_cong)

lemma parts_of_keys:
  "reference_key t = (if txn_dup_flag t then None else reference_part t)"
  "bucket_key t = (if txn_dup_flag t then None else bucket_part t)"
  by (simp_all add: reference_part_def bucket_part_def reference_key_def bucket_key_def)

lemma parts_grown:
  assumes "grown ts ts'" and "i < length ts"
  shows "hash_key (ts' ! i) = hash_key (ts ! i)" "reference_part (ts' ! i) = reference_part (ts ! i)"
    "bucket_part (ts' ! i) = bucket_part (ts ! i)"
  by (simp_all add: hash_key_def reference_part_def bucket_part_def reference_key_def bucket_key_def grown_fields [OF assms])

lemma scan_buckets_spec:
  fixes bs :: "(bucket_key \<times> nat list) list"
  assumes "\<forall>(k, idxs)\<in>set bs. sorted_wrt (<) idxs \<and> (\<forall>i\<in>set idxs. i < length ts)"
  shows "(let ts' = fold (\<lambda>(_, idxs) ts. if length idxs < 2 then ts else scan_bucket U idxs ts) bs ts in
     grown ts ts'
   \<and> (\<forall>i<length ts. txn_dup_flag (ts' ! i) \<longrightarrow> \<not> txn_dup_flag (ts ! i) \<longrightarrow>
        (\<exists>(k, idxs)\<in>set bs. i \<in> set idxs \<and> (\<exists>a\<in>set idxs. a < i \<and> similar U (ts ! a) (ts ! i))))
   \<and> (\<forall>(k, idxs)\<in>set bs. \<forall>a\<in>set idxs. \<forall>b\<in>set idxs. a < b \<longrightarrow> similar U (ts ! a) (ts ! b) \<longrightarrow>
        txn_dup_flag (ts' ! a) \<or> txn_dup_flag (ts' ! b)))"
  using assms
proof (induction bs arbitrary: ts)
  case (Cons kb bs)
  obtain k idxs where kb: "kb = (k, idxs)" by (cases kb)
  define ts1 where "ts1 = (if length idxs < 2 then ts else scan_bucket U idxs ts)"
  have bound: "sorted_wrt (<) idxs" "\<forall>i\<in>set idxs. i < length ts" using Cons.prems kb by auto
  note one = scan_bucket_spec [OF bound, of U]
  have g: "grown ts ts1" using one by (simp add: ts1_def)
  have len: "length ts1 = length ts" using g by (rule grown_length)
  have rest: "\<forall>(k, idxs)\<in>set bs. sorted_wrt (<) idxs \<and> (\<forall>i\<in>set idxs. i < length ts1)" using Cons.prems len by auto
  define ts2 where "ts2 = fold (\<lambda>(_, idxs) ts. if length idxs < 2 then ts else scan_bucket U idxs ts) bs ts1"
  have run: "fold (\<lambda>(_, idxs) ts. if length idxs < 2 then ts else scan_bucket U idxs ts) (kb # bs) ts = ts2"
    by (simp add: ts2_def kb ts1_def)
  note more = Cons.IH [OF rest, folded ts2_def, unfolded Let_def]
  from more have g2: "grown ts1 ts2" by blast
  show ?case unfolding run Let_def
  proof (intro conjI allI impI)
    show "grown ts ts2" using g g2 by (rule grown_trans)
  next
    fix i assume i: "i < length ts" "txn_dup_flag (ts2 ! i)" "\<not> txn_dup_flag (ts ! i)"
    show "\<exists>(k, idxs)\<in>set (kb # bs). i \<in> set idxs \<and> (\<exists>a\<in>set idxs. a < i \<and> similar U (ts ! a) (ts ! i))"
    proof (cases "txn_dup_flag (ts1 ! i)")
      case True
      with one i have "i \<in> set idxs \<and> (\<exists>a\<in>set idxs. a < i \<and> similar U (ts ! a) (ts ! i))"
        by (auto simp: ts1_def split: if_splits)
      then show ?thesis by (auto simp: kb)
    next
      case False
      from more [THEN conjunct2, THEN conjunct1, rule_format, unfolded len, OF i(1,2) False]
      obtain k' idxs' a where a: "(k', idxs') \<in> set bs" "i \<in> set idxs'" "a \<in> set idxs'" "a < i"
        "similar U (ts1 ! a) (ts1 ! i)" by auto
      then have "similar U (ts ! a) (ts ! i)" using similar_grown [OF g, of a i] i(1) by simp
      with a show ?thesis by auto
    qed
  next
    show "\<forall>(k, idxs)\<in>set (kb # bs). \<forall>a\<in>set idxs. \<forall>b\<in>set idxs. a < b \<longrightarrow> similar U (ts ! a) (ts ! b) \<longrightarrow>
        txn_dup_flag (ts2 ! a) \<or> txn_dup_flag (ts2 ! b)"
    proof (clarify)
      fix k' idxs' a b
      assume ab: "(k', idxs') \<in> set (kb # bs)" "a \<in> set idxs'" "b \<in> set idxs'" "a < b" "similar U (ts ! a) (ts ! b)"
        "\<not> txn_dup_flag (ts2 ! b)"
      from ab Cons.prems have in_range: "a < length ts" "b < length ts" by auto
      show "txn_dup_flag (ts2 ! a)"
      proof (cases "(k', idxs') \<in> set bs")
        case True
        have "similar U (ts1 ! a) (ts1 ! b)" using ab(5) similar_grown [OF g in_range, of U] by simp
        with bspec [OF more [THEN conjunct2, THEN conjunct2] True] ab(2-4,6) show ?thesis by blast
      next
        case False
        with ab(1) kb have i: "idxs' = idxs" by simp
        have "\<not> length idxs < 2"
        proof
          assume "length idxs < 2"
          then have "a = b" using ab(2,3) i by (cases idxs) auto
          with ab(4) show False by simp
        qed
        with one ab i have "txn_dup_flag (ts1 ! a) \<or> txn_dup_flag (ts1 ! b)" by (simp add: ts1_def)
        with ab(6) show ?thesis using grown_flag [OF g2] in_range len by metis
      qed
    qed
  qed
qed simp


lemma in_bucket_ok: "sorted_wrt (<) (in_bucket ts k) \<and> (\<forall>i\<in>set (in_bucket ts k). i < length ts)"
  by (simp add: in_bucket_def sorted_wrt_filter)

lemma detect_duplicates_spec:
  assumes "mset (iter (buckets_of (flag_seen reference_key [] (flag_seen hash_key [] ts)))) =
      mset (buckets_of (flag_seen reference_key [] (flag_seen hash_key [] ts)))"
    and "out = detect_duplicates iter U ts"
  shows "grown ts out"
    and "i < length ts \<Longrightarrow> txn_dup_flag (out ! i) \<Longrightarrow> \<not> txn_dup_flag (ts ! i) \<Longrightarrow>
      \<exists>j<i. same_entry U (ts ! j) (ts ! i) \<and>
        (hash_key (ts ! i) \<noteq> None \<and> hash_key (ts ! j) = hash_key (ts ! i) \<or> \<not> txn_dup_flag (ts ! j))"
    and "j < i \<Longrightarrow> i < length ts \<Longrightarrow> hash_key (ts ! i) \<noteq> None \<Longrightarrow> hash_key (ts ! j) = hash_key (ts ! i)
      \<Longrightarrow> txn_dup_flag (out ! i)"
    and "j < i \<Longrightarrow> i < length ts \<Longrightarrow> same_entry U (ts ! j) (ts ! i) \<Longrightarrow> txn_dup_flag (out ! j) \<or> txn_dup_flag (out ! i)"
proof -
  define t1 where "t1 = flag_seen hash_key [] ts"
  define t2 where "t2 = flag_seen reference_key [] t1"
  have g1: "grown ts t1" and g2: "grown t1 t2" by (simp_all add: t1_def t2_def flag_seen_grown)
  have g12: "grown ts t2" using g1 g2 by (rule grown_trans)
  have len: "length t1 = length ts" "length t2 = length ts" by (simp_all add: t1_def t2_def)
  have same: "set (iter (buckets_of t2)) = set (buckets_of t2)"
    using assms(1) unfolding t1_def [symmetric] t2_def [symmetric] by (rule mset_eq_setD)
  have found: "kb \<in> set (iter (buckets_of t2)) \<longleftrightarrow> snd kb = in_bucket t2 (fst kb) \<and> snd kb \<noteq> []" for kb
    using buckets_of_spec [of t2, THEN conjunct2, rule_format, of "fst kb" "snd kb"] unfolding same by simp
  have bound: "\<forall>(k, idxs)\<in>set (iter (buckets_of t2)). sorted_wrt (<) idxs \<and> (\<forall>i\<in>set idxs. i < length t2)"
  proof
    fix kb assume "kb \<in> set (iter (buckets_of t2))"
    then have "snd kb = in_bucket t2 (fst kb)" by (simp add: found)
    then show "case kb of (k, idxs) \<Rightarrow> sorted_wrt (<) idxs \<and> (\<forall>i\<in>set idxs. i < length t2)"
      using in_bucket_ok [of t2 "fst kb"] by (simp add: case_prod_beta)
  qed
  have out: "out = fold (\<lambda>(_, idxs) ts. if length idxs < 2 then ts else scan_bucket U idxs ts) (iter (buckets_of t2)) t2"
    by (simp add: assms(2) detect_duplicates_def t1_def t2_def Let_def)
  note last = scan_buckets_spec [OF bound, of U, folded out, unfolded Let_def len]
  have g3: "grown t2 out" using last by (rule conjunct1)
  show "grown ts out" using g12 g3 by (rule grown_trans)
  have hashed: "txn_dup_flag (out ! i)" if "j < i" "i < length ts" "hash_key (ts ! i) \<noteq> None" "hash_key (ts ! j) = hash_key (ts ! i)" for i j
  proof -
    have "txn_dup_flag (t1 ! i)" using that by (auto simp: t1_def flag_seen_nth)
    then show ?thesis using grown_flag [OF grown_trans [OF g2 g3], of i] that(2) len by simp
  qed
  then show "j < i \<Longrightarrow> i < length ts \<Longrightarrow> hash_key (ts ! i) \<noteq> None \<Longrightarrow> hash_key (ts ! j) = hash_key (ts ! i) \<Longrightarrow> txn_dup_flag (out ! i)" .
  show "\<exists>j<i. same_entry U (ts ! j) (ts ! i) \<and>
      (hash_key (ts ! i) \<noteq> None \<and> hash_key (ts ! j) = hash_key (ts ! i) \<or> \<not> txn_dup_flag (ts ! j))" if i: "i < length ts" "txn_dup_flag (out ! i)" "\<not> txn_dup_flag (ts ! i)"
  proof (cases "txn_dup_flag (t1 ! i)")
    case True
    with i show ?thesis by (auto simp: t1_def flag_seen_nth same_entry_def split: if_splits)
  next
    case unhashed: False
    have "\<exists>j<i. same_entry U (ts ! j) (ts ! i) \<and> \<not> txn_dup_flag (ts ! j)"
    proof (cases "txn_dup_flag (t2 ! i)")
      case True
      with unhashed i(1) len obtain j k where j: "j < i" "reference_key (t1 ! i) = Some k" "reference_key (t1 ! j) = Some k"
        by (auto simp: t2_def flag_seen_nth split: if_splits)
      then have "reference_part (t1 ! i) = Some k" "reference_part (t1 ! j) = Some k" "\<not> txn_dup_flag (t1 ! j)"
        by (auto simp: parts_of_keys split: if_splits)
      moreover have "j < length ts" using j(1) i(1) by simp
      ultimately show ?thesis using j(1) i(1) parts_grown(2) [OF g1] grown_flag [OF g1] by (metis same_entry_def option.distinct(1))
    next
      case False
      from last [THEN conjunct2, THEN conjunct1, rule_format, OF i(1,2) False]
      obtain kb a where a: "kb \<in> set (iter (buckets_of t2))" "i \<in> set (snd kb)" "a \<in> set (snd kb)" "a < i" "similar U (t2 ! a) (t2 ! i)"
        by auto
      then have "bucket_key (t2 ! i) = Some (fst kb)" "bucket_key (t2 ! a) = Some (fst kb)"
        by (auto simp: found in_bucket_def)
      then have "bucket_part (t2 ! i) = Some (fst kb)" "bucket_part (t2 ! a) = Some (fst kb)" "\<not> txn_dup_flag (t2 ! a)"
        by (auto simp: parts_of_keys split: if_splits)
      moreover have "a < length ts" using a(4) i(1) by simp
      ultimately show ?thesis
        using a(4,5) i(1) parts_grown(3) [OF g12] similar_grown [OF g12, of a i U] grown_flag [OF g12]
        by (metis same_entry_def option.distinct(1))
    qed
    then show ?thesis by blast
  qed
  show "txn_dup_flag (out ! j) \<or> txn_dup_flag (out ! i)" if ij: "j < i" "i < length ts" "same_entry U (ts ! j) (ts ! i)"
  proof (rule ccontr)
    assume "\<not> ?thesis"
    then have no: "\<not> txn_dup_flag (out ! j)" "\<not> txn_dup_flag (out ! i)" by auto
    have j: "j < length ts" using ij by simp
    have no2: "\<not> txn_dup_flag (t2 ! j)" "\<not> txn_dup_flag (t2 ! i)"
      using no grown_flag [OF g3] j ij(2) len by metis+
    have no1: "\<not> txn_dup_flag (t1 ! j)" "\<not> txn_dup_flag (t1 ! i)"
      using no2 grown_flag [OF g2] j ij(2) len by metis+
    from ij(3) hashed [OF ij(1,2)] no(2)
    consider k where "reference_part (ts ! j) = Some k" "reference_part (ts ! i) = Some k"
      | k where "bucket_part (ts ! j) = Some k" "bucket_part (ts ! i) = Some k" "similar U (ts ! j) (ts ! i)"
      unfolding same_entry_def by (metis not_None_eq)
    then show False
    proof cases
      case 1
      then have "reference_key (t1 ! j) = Some k" "reference_key (t1 ! i) = Some k"
        using no1 parts_grown(2) [OF g1] j ij(2) by (simp_all add: parts_of_keys)
      then have "txn_dup_flag (t2 ! i)" using ij len by (auto simp: t2_def flag_seen_nth)
      with no2 show False by simp
    next
      case 2
      then have "bucket_key (t2 ! j) = Some k" "bucket_key (t2 ! i) = Some k"
        using no2 parts_grown(3) [OF g12] j ij(2) by (simp_all add: parts_of_keys)
      then have both: "j \<in> set (in_bucket t2 k)" "i \<in> set (in_bucket t2 k)" using j ij(2) len by (auto simp: in_bucket_def)
      then have "(k, in_bucket t2 k) \<in> set (iter (buckets_of t2))" unfolding found by auto
      from bspec [OF last [THEN conjunct2, THEN conjunct2] this] both ij(1) 2(3) similar_grown [OF g12 j ij(2), of U] no
      show False by auto
    qed
  qed
qed



text \<open>Rows that carry the tag when they carry the flag.\<close>

definition tagged :: "transaction \<Rightarrow> bool" where
  "tagged t \<longleftrightarrow> txn_dup_flag t \<longrightarrow> lit ''DUP'' \<in> set (txn_tags t)"

lemma flag_tagged: "txn_dup_flag t \<Longrightarrow> tagged t \<Longrightarrow> flag_duplicate t = t"
  by (simp add: flag_duplicate_def add_tag_def tagged_def)

lemma tagged_flag: "tagged (flag_duplicate t)"
  by (simp add: flag_duplicate_def add_tag_def tagged_def)

lemma tagged_grown: "grown ts ts' \<Longrightarrow> list_all tagged ts \<Longrightarrow> list_all tagged ts'"
  unfolding grown_def reflagged_def list_all_length by (metis tagged_flag)

lemma detect_duplicates_again:
  assumes perm: "\<And>bs. mset (iter bs) = mset bs" "\<And>bs. mset (iter' bs) = mset bs"
    and "list_all tagged ts" and "ts' = detect_duplicates iter U ts"
  shows "detect_duplicates iter' U ts' = ts'"
proof -
  define out where "out = detect_duplicates iter' U ts'"
  note first = detect_duplicates_spec [OF perm(1) assms(4)]
  note again = detect_duplicates_spec [OF perm(2) out_def]
  have g: "grown ts ts'" by (rule first(1))
  have len: "length ts' = length ts" "length out = length ts"
    using grown_length [OF g] grown_length [OF again(1)] by simp_all
  have "out ! i = ts' ! i" if i: "i < length ts" for i
  proof (rule ccontr)
    assume change: "out ! i \<noteq> ts' ! i"
    have "tagged (ts' ! i)" using tagged_grown [OF g assms(3)] i len by (simp add: list_all_length)
    moreover have flagged: "out ! i = flag_duplicate (ts' ! i)"
      using again(1) change i len by (auto simp: grown_def reflagged_def)
    ultimately have unflagged: "\<not> txn_dup_flag (ts' ! i)" using change flag_tagged by metis
    from again(2) [of i] flagged unflagged i len obtain j where j: "j < i" "same_entry U (ts' ! j) (ts' ! i)"
      "hash_key (ts' ! i) \<noteq> None \<and> hash_key (ts' ! j) = hash_key (ts' ! i) \<or> \<not> txn_dup_flag (ts' ! j)" by auto
    have j': "j < length ts" using j(1) i by simp
    have "same_entry U (ts ! j) (ts ! i)"
      using j(2) parts_grown [OF g i] parts_grown [OF g j'] similar_grown [OF g j' i] by (simp add: same_entry_def)
    with first(4) [OF j(1) i] first(3) [OF j(1) i] j(3) unflagged parts_grown(1) [OF g i] parts_grown(1) [OF g j']
    show False by simp
  qed
  then show ?thesis using len unfolding out_def [symmetric] by (intro nth_equalityI) auto
qed

subsection \<open>Classification\<close>

lemma gst_tag: "detect_gst U n r = Some tag \<Longrightarrow> tag = lit ''GST'' \<or> tag = lit ''TAX''"
  by (auto simp: detect_gst_def Let_def split: if_splits)

end
