(* ===== verification/ClassifierFacts.thy ===== *)
theory ClassifierFacts
  imports Duplicates AmountFacts
begin

text \<open>
  Classification: what it never touches, that a row it has classified is open to the next run, and that
  the next run changes nothing.
\<close>

subsection \<open>What the classification reads and writes\<close>

text \<open>What no step of the classification writes.\<close>

definition imported :: "transaction \<Rightarrow> transaction" where
  "imported t = t\<lparr> txn_vendor := [], txn_account_head := [], txn_txn_type := VchUnknown, txn_confidence := f64_zero,
     txn_status := Unreviewed, txn_classification_source := [], txn_tags := [], txn_dup_flag := False,
     txn_gst_rate := None, txn_gst_amount := None, txn_gst_type := None \<rparr>"

lemma imported_fields:
  assumes "imported t' = imported t"
  shows "txn_narration t' = txn_narration t" "txn_reference t' = txn_reference t" "txn_debit t' = txn_debit t"
    "txn_credit t' = txn_credit t" "txn_is_opening_balance t' = txn_is_opening_balance t"
  using assms by (cases t; cases t'; simp add: imported_def)+

lemma imported_steps [simp]:
  "imported (apply_rule r t) = imported t" "imported (apply_keyword kw t) = imported t"
  "imported (leave_unreviewed p t) = imported t" "imported (add_tag g t) = imported t"
  "imported (apply_gst l gst t) = imported t" "imported (flag_duplicate t) = imported t"
  "imported (t\<lparr>txn_txn_type := v\<rparr>) = imported t" "imported (t\<lparr>txn_tags := tags\<rparr>) = imported t"
  by (simp_all add: imported_def apply_rule_def apply_keyword_def leave_unreviewed_def add_tag_def apply_gst_def
      flag_duplicate_def Let_def)

lemma imported_assign [simp]: "imported (assign_party U bank rules c u t) = imported t"
  by (simp add: assign_party_def split: option.split)

lemma imported_infer [simp]: "imported (infer_missing_type U u t) = imported t"
  by (simp add: infer_missing_type_def)

lemma imported_tags [simp]: "imported (tag_taxes U t) = imported t"
  by (simp add: tag_taxes_def split: option.split)

lemma imported_gst [simp]: "imported (surface_gst U e l t) = imported t"
  by (simp add: surface_gst_def split: option.split)

lemma imported_classify [simp]: "imported (classify_one U bank rules e l t) = imported t"
  by (simp add: classify_one_def Let_def)

text \<open>What the steps read of the imported row.\<close>

lemma combined_imported:
  "imported t' = imported t \<Longrightarrow> combined_narration_and_reference t' = combined_narration_and_reference t"
  using imported_fields [of t' t] by (simp add: combined_narration_and_reference_def)

lemma kw_match_imported:
  assumes "imported t' = imported t"
  shows "kw_match U upper t' bank = kw_match U upper t bank"
proof -
  have "transfer_result U t' = transfer_result U t"
    using imported_fields [OF assms] by (simp add: transfer_result_def combined_imported [OF assms])
  then show ?thesis by (simp only: kw_match_def)
qed

lemma infer_imported: "imported t' = imported t \<Longrightarrow> infer_voucher_type U t' upper = infer_voucher_type U t upper"
  using imported_fields [of t' t] by (simp add: infer_voucher_type_def)

subsection \<open>The row that the classification leaves\<close>

datatype decision = ByRule classification_rule | ByKeyword kw_result | ByParty chars

definition decision_of :: "unicode \<Rightarrow> chars \<Rightarrow> classification_rule list \<Rightarrow> transaction \<Rightarrow> decision" where
  "decision_of U bank rules t =
    (let combined = combined_narration_and_reference t; upper = to_uppercase U combined in
     case apply_rules U upper rules of
       Some r \<Rightarrow> ByRule r
     | None \<Rightarrow> (case kw_match U upper t bank of Some kw \<Rightarrow> ByKeyword kw | None \<Rightarrow> ByParty (extract_party_name U combined)))"

fun vendor_by :: "decision \<Rightarrow> chars \<Rightarrow> chars" where
  "vendor_by (ByRule r) v = (if cr_vendor r \<noteq> [] then cr_vendor r else v)"
| "vendor_by (ByKeyword kw) v = kw_vendor kw"
| "vendor_by (ByParty p) v = (if p \<noteq> [] then p else v)"

fun head_by :: "decision \<Rightarrow> chars \<Rightarrow> chars" where
  "head_by (ByRule r) h = (if cr_account_head r \<noteq> [] then cr_account_head r else h)"
| "head_by (ByKeyword kw) h = kw_head kw"
| "head_by (ByParty p) h = h"

fun type_by :: "decision \<Rightarrow> voucher_type \<Rightarrow> voucher_type" where
  "type_by (ByRule r) y = rule_type (cr_txn_type r) y"
| "type_by (ByKeyword kw) y = kw_txn_type kw"
| "type_by (ByParty p) y = y"

fun confidence_by :: "decision \<Rightarrow> f64" where
  "confidence_by (ByRule r) = (if cr_client_id r = 0 then f64_of (6 / 10) else f64_of (9 / 10))"
| "confidence_by (ByKeyword kw) = f64_of (45 / 100)"
| "confidence_by (ByParty p) = f64_zero"

fun status_by :: "decision \<Rightarrow> transaction_status" where
  "status_by (ByRule r) = Classified"
| "status_by (ByKeyword kw) = Classified"
| "status_by (ByParty p) = Unreviewed"

fun source_by :: "decision \<Rightarrow> chars" where
  "source_by (ByRule r) = lit ''rule''"
| "source_by (ByKeyword kw) = lit ''keyword''"
| "source_by (ByParty p) = []"

definition tag_in :: "chars \<Rightarrow> chars list \<Rightarrow> chars list" where
  "tag_in g gs = (if g \<in> set gs then gs else gs @ [g])"

definition opt_tag :: "chars option \<Rightarrow> chars list \<Rightarrow> chars list" where
  "opt_tag g gs = (case g of None \<Rightarrow> gs | Some g \<Rightarrow> tag_in g gs)"

definition analysed ::
  "unicode \<Rightarrow> bool \<Rightarrow> chars \<Rightarrow> chars \<Rightarrow> f64 option \<Rightarrow> f64 option \<Rightarrow> chars \<Rightarrow> gst_analysis option" where
  "analysed U enabled narration reference debit credit vendor =
    (if enabled then analyse U narration reference vendor debit credit else None)"

definition head_filled :: "bool \<Rightarrow> gst_analysis option \<Rightarrow> chars \<Rightarrow> chars" where
  "head_filled ledgers gst h =
    (case gst of None \<Rightarrow> h
     | Some g \<Rightarrow> if ledgers \<and> h = [] then (case ga_expense_ledger g of Some l \<Rightarrow> l | None \<Rightarrow> h) else h)"

lemma assign_party_record:
  assumes "d = decision_of U bank rules t" and "c = combined_narration_and_reference t"
  shows "assign_party U bank rules c (to_uppercase U c) t = t\<lparr> txn_vendor := vendor_by d (txn_vendor t),
     txn_account_head := head_by d (txn_account_head t), txn_txn_type := type_by d (txn_txn_type t),
     txn_confidence := confidence_by d, txn_status := status_by d, txn_classification_source := source_by d \<rparr>"
  unfolding assms
  by (cases t) (simp add: assign_party_def decision_of_def apply_rule_def apply_keyword_def leave_unreviewed_def
    Let_def split: option.split)

lemma infer_missing_record:
  "infer_missing_type U u t = t\<lparr> txn_txn_type := (if txn_txn_type t = VchUnknown then infer_voucher_type U t u else txn_txn_type t) \<rparr>"
  by (cases t) (simp add: infer_missing_type_def)

lemma tag_taxes_record:
  "tag_taxes U t = t\<lparr> txn_tags := opt_tag (detect_gst U (txn_narration t) (txn_reference t)) (txn_tags t) \<rparr>"
  by (cases t) (simp add: tag_taxes_def opt_tag_def tag_in_def split: option.split)

lemma surface_gst_record:
  assumes "g = analysed U e (txn_narration t) (txn_reference t) (txn_debit t) (txn_credit t) (txn_vendor t)"
  shows "surface_gst U e l t = t\<lparr> txn_account_head := head_filled l g (txn_account_head t),
     txn_tags := opt_tag (map_option (\<lambda>_. lit ''GST'') g) (txn_tags t),
     txn_gst_rate := (case g of None \<Rightarrow> txn_gst_rate t | Some a \<Rightarrow> ga_gst_rate a),
     txn_gst_amount := (case g of None \<Rightarrow> txn_gst_amount t | Some a \<Rightarrow> ga_gst_amount a),
     txn_gst_type := (case g of None \<Rightarrow> txn_gst_type t | Some a \<Rightarrow> ga_gst_type a) \<rparr>"
  unfolding assms
  by (cases t) (simp add: surface_gst_def analysed_def apply_gst_def add_tag_def head_filled_def opt_tag_def tag_in_def
    Let_def del: lit_simps split: option.split)

lemma classify_one_record:
  assumes "d = decision_of U bank rules t" and "v = vendor_by d (txn_vendor t)" and "g = analysed U e (txn_narration t) (txn_reference t) (txn_debit t) (txn_credit t) v"
    and "y = type_by d (txn_txn_type t)" and "u = to_uppercase U (combined_narration_and_reference t)"
  shows "classify_one U bank rules e l t = t\<lparr> txn_vendor := v,
     txn_account_head := head_filled l g (head_by d (txn_account_head t)),
     txn_txn_type := (if y = VchUnknown then infer_voucher_type U t u else y),
     txn_confidence := confidence_by d, txn_status := status_by d, txn_classification_source := source_by d,
     txn_tags := opt_tag (map_option (\<lambda>_. lit ''GST'') g) (opt_tag (detect_gst U (txn_narration t) (txn_reference t)) (txn_tags t)),
     txn_gst_rate := (case g of None \<Rightarrow> txn_gst_rate t | Some a \<Rightarrow> ga_gst_rate a),
     txn_gst_amount := (case g of None \<Rightarrow> txn_gst_amount t | Some a \<Rightarrow> ga_gst_amount a),
     txn_gst_type := (case g of None \<Rightarrow> txn_gst_type t | Some a \<Rightarrow> ga_gst_type a) \<rparr>"
proof -
  show ?thesis unfolding classify_one_def Let_def
    by (simp add: assign_party_record [OF refl refl] infer_missing_record tag_taxes_record surface_gst_record [OF refl]
        infer_voucher_type_def assms del: lit_simps cong: option.case_cong)
qed


subsection \<open>The classification once more\<close>

lemma vendor_by_idem: "vendor_by d (vendor_by d v) = vendor_by d v" by (cases d) auto
lemma type_by_idem: "type_by d (type_by d y) = type_by d y" by (cases d) (auto simp: rule_type_def)

lemma opt_tag_mem: "g \<in> set gs \<Longrightarrow> opt_tag (Some g) gs = gs" by (simp add: opt_tag_def tag_in_def)
lemma opt_tag_None [simp]: "opt_tag None gs = gs" by (simp add: opt_tag_def)

lemma set_opt_tag: "set (opt_tag g gs) = set gs \<union> set_option g"
  by (auto simp: opt_tag_def tag_in_def split: option.split)

lemma opt_tag_idem: "set_option g \<subseteq> set gs \<Longrightarrow> opt_tag g gs = gs"
  by (auto simp: opt_tag_def tag_in_def split: option.split)

lemma head_filled_idem: "head_filled l g (head_by d (head_filled l g (head_by d h))) = head_filled l g (head_by d h)"
  by (cases d) (auto simp: head_filled_def split: option.split)

lemma type_again:
  "(if type_by d (if type_by d y = VchUnknown then v else type_by d y) = VchUnknown then v
    else type_by d (if type_by d y = VchUnknown then v else type_by d y)) = (if type_by d y = VchUnknown then v else type_by d y)"
  by (cases d) (auto simp: rule_type_def)

text \<open>The row as it was classified, with tags and the duplicate flag added since.\<close>

lemma classified_again:
  assumes "t' = (classify_one U bank rules e l t)\<lparr>txn_tags := gs, txn_dup_flag := b\<rparr>"
    and "set (txn_tags (classify_one U bank rules e l t)) \<subseteq> set gs"
  shows "classify_one U bank rules e l t' = t'"
proof -
  define d v g y r where "d = decision_of U bank rules t" and "v = vendor_by d (txn_vendor t)"
    and "g = analysed U e (txn_narration t) (txn_reference t) (txn_debit t) (txn_credit t) v"
    and "y = type_by d (txn_txn_type t)" and "r = infer_voucher_type U t (to_uppercase U (combined_narration_and_reference t))"
  note one = classify_one_record [OF d_def v_def g_def y_def refl, of l, folded r_def]
  have same: "imported t' = imported t" using imported_classify [of U bank rules e l t] by (simp add: assms(1) imported_def)
  have d: "decision_of U bank rules t' = d"
    by (simp only: decision_of_def d_def combined_imported [OF same] kw_match_imported [OF same])
  have v: "vendor_by d (txn_vendor t') = v" by (simp add: assms(1) one v_def vendor_by_idem)
  have g: "analysed U e (txn_narration t') (txn_reference t') (txn_debit t') (txn_credit t') v = g"
    by (simp add: g_def imported_fields [OF same])
  have r: "infer_voucher_type U t' (to_uppercase U (combined_narration_and_reference t')) = r"
    by (simp only: r_def combined_imported [OF same] infer_imported [OF same])
  have tags: "set_option (detect_gst U (txn_narration t) (txn_reference t)) \<union> set_option (map_option (\<lambda>_. lit ''GST'') g) \<subseteq> set gs"
    using assms(2) by (simp add: one set_opt_tag del: lit_simps)
  have "txn_txn_type t' = (if y = VchUnknown then r else y)" by (simp add: assms(1) one)
  then have y: "(if type_by d (txn_txn_type t') = VchUnknown then r else type_by d (txn_txn_type t')) = txn_txn_type t'"
    unfolding y_def by (simp only: type_again)
  have h: "head_filled l g (head_by d (txn_account_head t')) = txn_account_head t'"
    by (simp add: assms(1) one head_filled_idem)
  have gs: "txn_tags t' = gs" "opt_tag (detect_gst U (txn_narration t) (txn_reference t)) gs = gs"
    "opt_tag (map_option (\<lambda>_. lit ''GST'') g) gs = gs"
    using tags by (simp_all add: assms(1) opt_tag_idem del: lit_simps)
  show ?thesis
    unfolding classify_one_record [OF d [symmetric] v [symmetric] g [symmetric] refl refl, of l] r imported_fields [OF same] y h gs
    by (rule transaction.equality) (simp_all add: assms(1) one split: option.split)
qed


lemma classified_flagged:
  assumes "t' = classify_one U bank rules e l t" and "reflagged t' t''"
  shows "classify_one U bank rules e l t'' = t''"
proof -
  have "t'' = t'\<lparr>txn_tags := txn_tags t'', txn_dup_flag := txn_dup_flag t''\<rparr>" "set (txn_tags t') \<subseteq> set (txn_tags t'')"
    using assms(2) by (auto simp: reflagged_def flag_duplicate_def add_tag_def)
  then show ?thesis unfolding assms(1) by (rule classified_again)
qed

lemma below_one:
  assumes "1 / 100 \<le> x" and "x \<le> 9 / 10"
  shows "\<not> f64_le (f64_of 1) (f64_of x)" "f64_eq (f64_of x) (f64_of x)"
proof -
  obtain m where "f64_of x = Finite False m" "\<bar>m - x\<bar> \<le> 1 / 10000" using f64_of_close [of x] assms by auto
  moreover have "f64_of 1 = Finite False 1" using f64_of_int [of 1] by simp
  ultimately show "\<not> f64_le (f64_of 1) (f64_of x)" "f64_eq (f64_of x) (f64_of x)"
    using assms by (auto simp: f64_le_def f64_less_def f64_eq_def signed_rat_def)
qed

lemma auto_confidence: "\<not> f64_le (f64_of 1) (confidence_by d)" "f64_eq (confidence_by d) (confidence_by d)"
proof -
  have "f64_of 1 = Finite False 1" using f64_of_int [of 1] by simp
  then have zero: "\<not> f64_le (f64_of 1) f64_zero" "f64_eq f64_zero f64_zero"
    by (simp_all add: f64_zero_def f64_le_def f64_less_def f64_eq_def signed_rat_def)
  show "\<not> f64_le (f64_of 1) (confidence_by d)" using zero by (cases d) (simp_all add: below_one)
  show "f64_eq (confidence_by d) (confidence_by d)" using zero by (cases d) (simp_all add: below_one)
qed

lemma auto_rows_stay_open:
  "is_skipped (classify_one U bank rules e l t) \<longleftrightarrow> txn_is_opening_balance t"
proof -
  have "status_by d \<noteq> Manual" "status_by d \<noteq> Suspense" "source_by d \<noteq> lit ''user''" "source_by d \<noteq> lit ''ai''" for d
    by (cases d; simp)+
  then show ?thesis
    using auto_confidence by (simp add: is_skipped_def is_locked_from_auto_classify_def classify_one_record [OF refl refl refl refl refl] del: lit_simps)
qed

lemma skipped_flag [simp]: "is_skipped (flag_duplicate t) = is_skipped t"
  by (simp add: is_skipped_def is_locked_from_auto_classify_def flag_duplicate_def add_tag_def)

lemma exempt_skipped: "exempt t \<Longrightarrow> is_skipped t"
  by (auto simp: exempt_def is_skipped_def is_locked_from_auto_classify_def)

lemma same_entry_not_exempt: "same_entry U t t' \<Longrightarrow> \<not> exempt t'"
  by (auto simp: same_entry_def hash_key_def reference_part_def reference_key_def bucket_part_def bucket_key_def split: if_splits)

definition after_rules :: "unicode \<Rightarrow> chars \<Rightarrow> classification_rule list \<Rightarrow> bool \<Rightarrow> bool \<Rightarrow> transaction \<Rightarrow> transaction" where
  "after_rules U bank rules e l t = (if is_skipped t then t else classify_one U bank rules e l t)"

lemma classify_all_run:
  "classify_all iter U ts bank rules dedup e l =
    (let ts1 = map (after_rules U bank rules e l) ts in
     (if dedup then detect_duplicates iter U ts1 else ts1,
      length (filter (\<lambda>(t, t'). \<not> is_skipped t \<and> is_changed t t') (zip ts ts1))))"
  by (simp add: classify_all_def Let_def after_rules_def [abs_def])

lemma grown_all:
  assumes "\<And>bs. mset (iter bs) = mset bs"
  shows "grown (map (after_rules U bank rules e l) ts) (fst (classify_all iter U ts bank rules dedup e l))"
  using detect_duplicates_spec(1) [of iter, OF assms refl] by (simp add: classify_all_run Let_def)

text \<open>A row after the pass, flagged or not, is left as it is by another pass.\<close>

lemma after_rules_again:
  assumes "reflagged (after_rules U bank rules e l t) t'"
  shows "after_rules U bank rules e l t' = t'"
proof (cases "is_skipped t")
  case True
  with assms have "is_skipped t'" by (auto simp: after_rules_def reflagged_def)
  then show ?thesis by (simp add: after_rules_def)
next
  case False
  then have "reflagged (classify_one U bank rules e l t) t'" using assms by (simp add: after_rules_def)
  from classified_flagged [OF refl this] show ?thesis by (simp add: after_rules_def)
qed

lemma tagged_classify: "tagged (classify_one U bank rules e l t) \<longleftrightarrow> tagged (t\<lparr>txn_tags := txn_tags (classify_one U bank rules e l t)\<rparr>)"
  by (simp add: tagged_def classify_one_record [OF refl refl refl refl refl])

lemma tagged_after: "tagged t \<Longrightarrow> tagged (after_rules U bank rules e l t)"
  by (auto simp: after_rules_def tagged_classify)
     (auto simp: tagged_def classify_one_record [OF refl refl refl refl refl] set_opt_tag)

text \<open>C25: Auto-classification never alters what was imported: dates, narrations, references, amounts and
  balances stay, a manual row or an opening balance stays as it is, and a row the user, the AI or a full
  confidence has settled changes at most in its duplicate mark.\<close>

theorem classification_keeps_the_import:
  assumes "\<And>bs. mset (iter bs) = mset bs" and "list_all tagged ts"
    and "classify_all iter U ts bank rules dedup e l = (ts', n)" and "i < length ts"
  shows "length ts' = length ts \<and> imported (ts' ! i) = imported (ts ! i)
    \<and> (exempt (ts ! i) \<longrightarrow> ts' ! i = ts ! i)
    \<and> (is_skipped (ts ! i) \<longrightarrow> ts' ! i = ts ! i \<or> ts' ! i = flag_duplicate (ts ! i))"
proof -
  let ?ts1 = "map (after_rules U bank rules e l) ts"
  have g: "grown ?ts1 ts'" using grown_all [OF assms(1), of U bank rules e l ts dedup] assms(3) by simp
  from g assms(4) have row: "ts' ! i = after_rules U bank rules e l (ts ! i) \<or> ts' ! i = flag_duplicate (after_rules U bank rules e l (ts ! i))"
    by (auto simp: grown_def reflagged_def)
  have "ts' ! i = ts ! i" if ex: "exempt (ts ! i)"
  proof -
    have one: "?ts1 ! i = ts ! i" using exempt_skipped [OF ex] assms(4) by (simp add: after_rules_def)
    have t: "tagged (ts ! i)" using assms(2,4) by (simp add: list_all_length)
    have "txn_dup_flag (ts' ! i) \<Longrightarrow> txn_dup_flag (ts ! i)"
    proof (rule ccontr)
      assume new: "txn_dup_flag (ts' ! i)" "\<not> txn_dup_flag (ts ! i)"
      then have "dedup" using assms(3) one by (cases dedup) (auto simp: classify_all_run Let_def)
      with assms(3) have "ts' = detect_duplicates iter U ?ts1" by (simp add: classify_all_run Let_def)
      from detect_duplicates_spec(2) [of iter, OF assms(1) this, of i] new one assms(4)
      obtain j where "same_entry U (?ts1 ! j) (?ts1 ! i)" by auto
      with same_entry_not_exempt ex one show False by metis
    qed
    with row exempt_skipped [OF ex] flag_tagged [OF _ t] show ?thesis by (auto simp: after_rules_def)
  qed
  moreover have "imported (ts' ! i) = imported (ts ! i)"
    using row by (auto simp: after_rules_def)
  ultimately show ?thesis using row grown_length [OF g] by (auto simp: after_rules_def)
qed

text \<open>C24: Auto-classification settles in one run: running it again on its own result, with the same rules and
  settings and whatever the order of the hash map, changes no row and reports no change.\<close>

theorem classification_settles:
  assumes "\<And>bs. mset (iter bs) = mset bs" and "\<And>bs. mset (iter' bs) = mset bs" and "list_all tagged ts"
    and "classify_all iter U ts bank rules dedup e l = (ts', n)"
  shows "classify_all iter' U ts' bank rules dedup e l = (ts', 0)"
proof -
  let ?ts1 = "map (after_rules U bank rules e l) ts"
  have g: "grown ?ts1 ts'" using grown_all [OF assms(1), of U bank rules e l ts dedup] assms(4) by simp
  have same: "map (after_rules U bank rules e l) ts' = ts'"
    using g by (intro nth_equalityI) (auto simp: grown_def intro!: after_rules_again)
  have "list_all tagged ?ts1" using assms(3) by (simp add: list_all_iff tagged_after)
  then have again: "dedup \<Longrightarrow> detect_duplicates iter' U ts' = ts'"
    using detect_duplicates_again [of iter iter' ?ts1 ts' U, OF assms(1,2)] assms(4) by (simp add: classify_all_run Let_def)
  have unchanged: "\<not> (\<not> is_skipped t \<and> is_changed t t')" if "(t, t') \<in> set (zip ts' ts')" for t t'
  proof
    assume skip: "\<not> is_skipped t \<and> is_changed t t'"
    from that have "t' = t" "t \<in> set ts'" by (auto simp: set_zip)
    with same skip have "classify_one U bank rules e l t = t" by (metis after_rules_def map_eq_conv map_ident)
    moreover have "txn_confidence (classify_one U bank rules e l t) = confidence_by (decision_of U bank rules t)"
      by (simp add: classify_one_record [OF refl refl refl refl refl])
    ultimately have "txn_confidence t = confidence_by (decision_of U bank rules t)" by simp
    with skip \<open>t' = t\<close> show False by (simp add: is_changed_def auto_confidence)
  qed
  then have "filter (\<lambda>(t, t'). \<not> is_skipped t \<and> is_changed t t') (zip ts' ts') = []"
    by (auto simp: filter_empty_conv)
  with again show ?thesis by (simp add: classify_all_run Let_def same)
qed


subsection \<open>A statement imported twice\<close>

definition coffee :: transaction where
  "coffee = (transaction_new (lit ''t1''))\<lparr> txn_date := lit ''15/08/2024'', txn_narration := lit ''UPI/COFFEE SHOP'',
     txn_debit := Some (Finite False 120) \<rparr>"

definition hand_entered :: transaction where
  "hand_entered = coffee\<lparr> txn_id := lit ''t2'', txn_status := Manual, txn_account_head := lit ''Staff Welfare'' \<rparr>"

lemma coffee_fields [simp]:
  "\<not> exempt coffee" "\<not> txn_dup_flag coffee" "exempt hand_entered" "\<not> txn_dup_flag hand_entered"
  by (simp_all add: coffee_def hand_entered_def transaction_new_def exempt_def)



theorem classification_keeps_the_import_witness:
  "fst (classify_all (\<lambda>bs. bs) ascii_tables [coffee, hand_entered] (lit ''Bank'') [] True True True) ! 1 = hand_entered"
  using classification_keeps_the_import [of "\<lambda>bs. bs" "[coffee, hand_entered]" ascii_tables "lit ''Bank''" "[]" True True True _ _ 1,
      OF _ _ surjective_pairing]
  by (simp add: tagged_def del: lit_simps)

theorem classification_settles_witness:
  "snd (classify_all rev ascii_tables (fst (classify_all (\<lambda>bs. bs) ascii_tables [coffee, coffee] (lit ''Bank'') [] True True True))
     (lit ''Bank'') [] True True True) = 0"
  using classification_settles [of "\<lambda>bs. bs" rev "[coffee, coffee]" ascii_tables "lit ''Bank''" "[]" True True True,
      OF _ _ _ surjective_pairing]
  by (simp add: tagged_def del: lit_simps)

subsection \<open>Texts the rules miss\<close>

text \<open>The endings of a firm's name are searched in upper case in a name in lower case.\<close>

lemma proprietor_suffix_is_kept: "cut_suffix ascii_tables ''L PROP'' (lit ''RAMESH STORES L PROP'') = lit ''RAMESH STORES L PROP''"
  by code_simp

text \<open>The window over the text stops one place before the last tax number that fits.\<close>

lemma final_tax_number_is_missed:
  "detect_gst ascii_tables (lit ''BILL'') (lit ''27ABCDE1234F1Z5'') = None
   \<and> detect_gst ascii_tables (lit ''BILL 27ABCDE1234F1Z5'') [] = Some (lit ''GST'')"
  by code_simp

text \<open>The pattern learned from a row with a reference number inside is not part of the row it was learned from.\<close>

lemma learned_rule_misses:
  "derive_rule_pattern ascii_tables (coffee\<lparr>txn_narration := lit ''UPI/123456/TEA''\<rparr>) = Some (lit ''UPI/ /TEA'')
   \<and> \<not> has_part (lit ''UPI/ /TEA'') (to_uppercase ascii_tables (lit ''UPI/123456/TEA''))"
  by code_simp

end
