(* ===== verification/NarrationCleaner.thy ===== *)
theory NarrationCleaner
  imports Patterns FloatText
begin

text \<open>
  \<open>src/narration_cleaner.rs\<close>: the type of a payment, its reference and its party read from the narration of
  the bank, the cleaned narration with its confidence, and the normal form of the name of a ledger.
\<close>

subsection \<open>Payment types\<close>

datatype payment_type = Upi | Neft | Rtgs | Imps | Nach | Atm | Pos | Cheque | Cash | Interest | Charges
  | Transfer | Salary | Emi | Dd | Swift | Other

fun payment_prefix :: "payment_type \<Rightarrow> string" where
  "payment_prefix Upi = ''UPI - ''"
| "payment_prefix Neft = ''NEFT - ''"
| "payment_prefix Rtgs = ''RTGS - ''"
| "payment_prefix Imps = ''IMPS - ''"
| "payment_prefix Nach = ''NACH/ACH - ''"
| "payment_prefix Atm = ''ATM Withdrawal''"
| "payment_prefix Pos = ''Card Payment - ''"
| "payment_prefix Cheque = ''Cheque - ''"
| "payment_prefix Cash = ''Cash''"
| "payment_prefix Interest = ''Interest''"
| "payment_prefix Charges = ''Bank Charges''"
| "payment_prefix Transfer = ''Transfer - ''"
| "payment_prefix Salary = ''Salary - ''"
| "payment_prefix Emi = ''EMI - ''"
| "payment_prefix Dd = ''Demand Draft - ''"
| "payment_prefix Swift = ''SWIFT Transfer - ''"
| "payment_prefix Other = []"

text \<open>The \<open>Debug\<close> name in upper case.\<close>

fun payment_debug :: "payment_type \<Rightarrow> string" where
  "payment_debug Upi = ''UPI''"
| "payment_debug Neft = ''NEFT''"
| "payment_debug Rtgs = ''RTGS''"
| "payment_debug Imps = ''IMPS''"
| "payment_debug Nach = ''NACH''"
| "payment_debug Atm = ''ATM''"
| "payment_debug Pos = ''POS''"
| "payment_debug Cheque = ''CHEQUE''"
| "payment_debug Cash = ''CASH''"
| "payment_debug Interest = ''INTEREST''"
| "payment_debug Charges = ''CHARGES''"
| "payment_debug Transfer = ''TRANSFER''"
| "payment_debug Salary = ''SALARY''"
| "payment_debug Emi = ''EMI''"
| "payment_debug Dd = ''DD''"
| "payment_debug Swift = ''SWIFT''"
| "payment_debug Other = ''OTHER''"

record narration_meta =
  nm_original :: chars
  nm_cleaned :: chars
  nm_txn_type :: chars
  nm_party :: chars
  nm_payment_ref :: chars
  nm_confidence :: f64

definition narration_display_is_generated :: "bool \<Rightarrow> narration_meta \<Rightarrow> bool" where
  "narration_display_is_generated narr_preserve meta \<longleftrightarrow>
     \<not> narr_preserve \<and> f64_le (f64_of (4 / 10)) (nm_confidence meta) \<and> nm_cleaned meta \<noteq> []"

subsection \<open>Word lists\<close>

definition vendor_dict :: "(string \<times> string) list" where
  "vendor_dict =
    [(''AMAZON SELLER'', ''Amazon Seller''), (''AMAZON'', ''Amazon''), (''FLIPKART'', ''Flipkart''),
     (''SWIGGY INSTAMART'', ''Swiggy''), (''SWIGGY'', ''Swiggy''), (''ZOMATO'', ''Zomato''),
     (''AIRTEL'', ''Airtel''), (''RELIANCE JIO'', ''Reliance Jio''), (''JIO'', ''Reliance Jio''),
     (''VODAFONE'', ''Vodafone''), (''BSNL'', ''BSNL''), (''MSEDCL'', ''MSEDCL''),
     (''BESCOM'', ''BESCOM''), (''LIC'', ''LIC of India''), (''ICICI PRU'', ''ICICI Prudential''),
     (''HDFC LIFE'', ''HDFC Life''), (''MAX LIFE'', ''Max Life Insurance''),
     (''STAR HEALTH'', ''Star Health Insurance''), (''FACEBOOK'', ''Meta (Facebook)''),
     (''GOOGLE'', ''Google''), (''NETFLIX'', ''Netflix''), (''HOTSTAR'', ''Disney+ Hotstar''),
     (''SPOTIFY'', ''Spotify''), (''MICROSOFT'', ''Microsoft''), (''APPLE'', ''Apple''),
     (''UBER'', ''Uber''), (''OLA'', ''Ola''), (''RAPIDO'', ''Rapido''), (''IRCTC'', ''IRCTC''),
     (''MAKEMYTRIP'', ''MakeMyTrip''), (''GOIBIBO'', ''Goibibo''), (''MYNTRA'', ''Myntra''),
     (''NYKAA'', ''Nykaa''), (''BIGBASKET'', ''BigBasket''), (''BLINKIT'', ''Blinkit''),
     (''ZEPTO'', ''Zepto''), (''PAYTM'', ''Paytm''), (''PHONEPE'', ''PhonePe''),
     (''RAZORPAY'', ''Razorpay''), (''CASHFREE'', ''Cashfree''), (''GPAY'', ''Google Pay''),
     (''GPY'', ''Google Pay''), (''BPCL'', ''BPCL''), (''HPCL'', ''HPCL''),
     (''INDIAN OIL'', ''Indian Oil''), (''TATA'', ''Tata''), (''ELECTRICITY'', ''Electricity Board''),
     (''DUNZO'', ''Dunzo''), (''JUSPAY'', ''Juspay'')]"

definition junk :: "string list" where
  "junk =
    [''NEFT'', ''RTGS'', ''IMPS'', ''UPI'', ''NACH'', ''ACH'', ''ECS'', ''ATM'', ''POS'', ''DD'',
     ''CHQ'', ''CLG'', ''CR'', ''DR'', ''CREDIT'', ''DEBIT'', ''INWARD'', ''OUTWARD'', ''TRF'',
     ''TRANSFER'', ''BY'', ''TO'', ''FROM'', ''VIA'', ''FOR'', ''PER'', ''OF'', ''AT'', ''ON'', ''IN'',
     ''AND'', ''THE'', ''REF'', ''UTR'', ''TXN'', ''NO'', ''NUM'', ''ID'', ''TRNF'', ''PAYMENT'',
     ''PAID'', ''PAY'', ''RECEIVED'', ''RECV'', ''RCV'', ''SENT'', ''SEND'', ''ONLINE'', ''NET'',
     ''BANKING'', ''INB'', ''MB'', ''MOB'', ''BANK'', ''BRANCH'', ''IFSC'', ''MICR'', ''SWIFT'',
     ''DEP'', ''DEPOSIT'', ''WDL'', ''WITHDRAWAL'', ''WITH'', ''INT'', ''INTEREST'', ''CLEARING'',
     ''AMT'', ''AMOUNT'', ''BAL'', ''BALANCE'', ''CHARGES'', ''CHRGS'', ''CHGS'', ''LEVY'', ''FEE'',
     ''FEES'', ''SB'', ''CA'', ''OD'', ''FD'', ''RD'', ''SAVINGS'', ''CURRENT'', ''AC'', ''ACCT'',
     ''ACCOUNT'', ''INR'', ''RS'', ''P2P'', ''P2M'', ''P2B'', ''P2A'']"

definition bank_tokens :: "string list" where
  "bank_tokens =
    [''HDFC'', ''HDFCBANK'', ''ICICI'', ''ICICIB'', ''SBI'', ''SBIN'', ''AXIS'', ''AXISB'', ''KOTAK'',
     ''PNB'', ''BOI'', ''BOB'', ''IOB'', ''CANARA'', ''UNION'', ''IDBI'', ''YES'', ''RBL'',
     ''FEDERAL'', ''INDUSIND'', ''UCO'', ''PAYTM'', ''PHONEPE'', ''GPAY'', ''CRED'']"

definition ledger_suffix_noise :: "string list" where
  "ledger_suffix_noise =
    [''LTD'', ''LIMITED'', ''PVT'', ''PRIVATE'', ''INC'', ''CORP'', ''CORPORATION'', ''LLC'', ''LLP'',
     ''INDIA'', ''INDIAN'', ''SERVICES'', ''SERVICE'', ''SOLUTIONS'', ''SOLUTION'', ''TECHNOLOGIES'',
     ''TECHNOLOGY'', ''TECH'', ''SYSTEMS'', ''SYSTEM'', ''ENTERPRISES'', ''ENTERPRISE'', ''GROUP'',
     ''HOLDINGS'', ''HOLDING'', ''PAY'', ''PAYMENT'', ''PAYMENTS'', ''SELLER'', ''SELLERS'',
     ''MARKETPLACE'', ''RETAIL'', ''STORE'', ''SHOP'', ''ONLINE'', ''DIGITAL'', ''MOBILE'',
     ''INSTAMART'', ''EXPRESS'', ''NOW'', ''QUICK'']"

definition ledger_biz_words :: "string list" where
  "ledger_biz_words =
    [''TRADERS'', ''TRADING'', ''TRADE'', ''INDUSTRIES'', ''INDUSTRY'', ''MANUFACTURING'',
     ''DISTRIBUTORS'', ''DISTRIBUTOR'', ''EXPORTERS'', ''EXPORTER'', ''IMPORTERS'', ''IMPORTER'',
     ''AGENCY'', ''AGENCIES'', ''CONTRACTORS'', ''CONTRACTOR'', ''DEVELOPERS'', ''DEVELOPER'',
     ''BUILDERS'', ''BUILDER'', ''CONSTRUCTIONS'', ''CONSTRUCTION'', ''ASSOCIATES'', ''ASSOCIATE'',
     ''PARTNERS'', ''PARTNER'', ''BROTHERS'', ''BROS'', ''CO'', ''COMPANY'', ''WORKS'',
     ''CONSULTANTS'', ''CONSULTANCY'', ''MART'', ''CENTRE'', ''CENTER'', ''HOUSE'', ''DEALERS'',
     ''DEALER'', ''SUPPLIERS'', ''SUPPLIER'', ''HOSPITAL'', ''CLINIC'', ''SCHOOL'', ''COLLEGE'',
     ''INSTITUTE'', ''FOUNDATION'', ''TRUST'', ''BANK'']"

definition in_words :: "chars \<Rightarrow> string list \<Rightarrow> bool" where
  "in_words w ws \<longleftrightarrow> list_ex (\<lambda>x. w = lit x) ws"

subsection \<open>Type and reference\<close>

definition type_words :: "(string list \<times> payment_type) list" where
  "type_words =
    [([''UPI''], Upi), ([''NEFT''], Neft), ([''RTGS''], Rtgs), ([''IMPS''], Imps),
     ([''NACH'', ''ACH'', ''ECS''], Nach), ([''ATM''], Atm), ([''POS'', ''SWIPE''], Pos),
     ([''CHQ'', ''CHEQUE'', ''CLG''], Cheque), ([''SALARY'', '' SAL ''], Salary), ([''EMI''], Emi),
     ([''INTEREST'', '' INT ''], Interest), ([''CHRG'', ''CHGS'', ''CHARGES'', ''LEVY''], Charges),
     ([''CASH''], Cash), ([''TRF'', ''TRANSFER''], Transfer), ([''SWIFT'', ''FOREIGN''], Swift),
     (['' DD '', ''DEMAND DRAFT''], Dd)]"

definition detect_type :: "unicode \<Rightarrow> chars \<Rightarrow> payment_type" where
  "detect_type U narr =
    (let up = to_uppercase U narr in
     case find (\<lambda>(ks, _). list_ex (\<lambda>k. has_part (lit k) up) ks) type_words of
       Some (_, ty) \<Rightarrow> ty | None \<Rightarrow> Other)"

definition UpperOrDigit :: rx where
  "UpperOrDigit = Chr (\<lambda>c. ascii_upper c \<or> ascii_digit c)"

definition ref_patterns :: "unicode \<Rightarrow> rx list" where
  "ref_patterns U =
    [Cats [Lits ''UTR'', Many (Chr (\<lambda>c. c = 58 \<or> white c)), Grp 1 (Between 10 22 UpperOrDigit)],
     Cats [Lits ''REF'', Many (Chr (\<lambda>c. c = 58 \<or> white c \<or> c = 35)), Grp 1 (Between 8 20 UpperOrDigit)],
     Cats [Word U, Grp 1 (Between 12 22 (Chr ascii_digit)), Word U],
     Cats [Alt (Lits ''CHQ'') (Lits ''CHEQUE''), Many (Chr (\<lambda>c. c = 58 \<or> white c)), Grp 1 (Between 6 9 (Chr ascii_digit))]]"

definition regex_first :: "rx \<Rightarrow> chars \<Rightarrow> chars option" where
  "regex_first r s = (case captures r s of None \<Rightarrow> None | Some caps \<Rightarrow> caps 1)"

fun first_ref :: "rx list \<Rightarrow> chars \<Rightarrow> chars" where
  "first_ref [] narr = []"
| "first_ref (r # rs) narr = (case regex_first r narr of Some c \<Rightarrow> c | None \<Rightarrow> first_ref rs narr)"

definition extract_ref :: "unicode \<Rightarrow> chars \<Rightarrow> chars" where
  "extract_ref U narr = first_ref (ref_patterns U) narr"

subsection \<open>Noise\<close>

definition url_re :: rx where
  "url_re = Cats [Lits ''http'', Opt (Is CHR ''s''), Lits ''://'', Some1 (Chr (\<lambda>c. \<not> white c))]"

definition handle_re :: "unicode \<Rightarrow> rx" where
  "handle_re U = Cats [Some1 (Chr (\<lambda>c. \<not> white c)), Is CHR ''@'', Some1 (Chr ascii_lower), Word U]"

definition keeps_segment :: "unicode \<Rightarrow> chars \<Rightarrow> bool" where
  "keeps_segment U p \<longleftrightarrow>
    (let up = trimmed (to_uppercase U p) in
     \<not> (up = [] \<or> byte_len up \<le> 1) \<and> \<not> in_words up junk \<and> \<not> list_all ascii_digit up
     \<and> \<not> (byte_len up = 11 \<and> list_all ascii_upper (take 4 up) \<and> take 1 (drop 4 up) = [48]))"

definition keeps_word :: "unicode \<Rightarrow> chars \<Rightarrow> bool" where
  "keeps_word U w \<longleftrightarrow>
    (let up = to_uppercase U w in
     up \<noteq> [] \<and> 1 < byte_len up \<and> \<not> list_all ascii_digit up \<and> \<not> in_words up junk)"

definition strip_noise :: "unicode \<Rightarrow> chars \<Rightarrow> chars" where
  "strip_noise U narr =
    (let s = blank_out (handle_re U) (blank_out url_re narr);
         parts = filter (\<lambda>p. p \<noteq> []) (map trimmed (split_at (\<lambda>c. c \<in> {47, 124, 92}) s));
         joined = join_with [32] (filter (keeps_segment U) parts);
         j1 = blank_out (Between 6 22 (Chr ascii_digit)) joined;
         j2 = blank_out (Cats [Word U, Between 2 4 (Chr ascii_upper), AtLeast 6 (Chr ascii_digit), Word U]) j1;
         j3 = blank_out (Cats [Word U, Rep 4 (Chr ascii_upper), Is CHR ''0'', Rep 6 UpperOrDigit, Word U]) j2 in
     join_with [32] (filter (keeps_word U) (split_whitespace j3)))"

subsection \<open>The party\<close>

definition word_score :: "unicode \<Rightarrow> chars \<Rightarrow> int" where
  "word_score U w =
    (let wu = to_uppercase U w in
     3 - (if in_words wu junk then 5 else 0) - (if in_words wu bank_tokens then 3 else 0)
       - (if w \<noteq> [] \<and> ascii_digit (hd w) then 4 else 0)
       + (if 5 < byte_len w then min (int (byte_len w) - 5) 3 else 0))"

definition span_at :: "unicode \<Rightarrow> chars list \<Rightarrow> chars list" where
  "span_at U ws = takeWhile (\<lambda>w. \<not> in_words (to_uppercase U w) junk \<and> \<not> list_all ascii_digit w) (take 5 ws)"

fun best_span :: "unicode \<Rightarrow> chars \<times> int \<Rightarrow> chars list \<Rightarrow> chars" where
  "best_span U (best, best_score) [] = best"
| "best_span U (best, best_score) (w # ws) =
    (let span = span_at U (w # ws); score = sum_list (map (word_score U) span) in
     best_span U (if best_score < score then (join_with [32] span, score) else (best, best_score)) ws)"

definition extract_party :: "unicode \<Rightarrow> chars \<Rightarrow> chars" where
  "extract_party U stripped =
    (if stripped = [] then []
     else
       (case find (\<lambda>(k, _). has_part (lit k) (to_uppercase U stripped)) vendor_dict of
          Some (_, canonical) \<Rightarrow> lit canonical
        | None \<Rightarrow>
           let ws = filter (\<lambda>w. 1 < byte_len w \<and> \<not> list_all ascii_digit w) (split_whitespace stripped) in
           if ws = [] then [] else take 40 (best_span U ([], 0) ws)))"

definition lower_words :: "string list" where
  "lower_words = [''of'', ''in'', ''at'', ''for'', ''and'', ''or'', ''by'', ''to'', ''the'', ''a'', ''an'']"

definition title_word :: "unicode \<Rightarrow> nat \<Rightarrow> chars \<Rightarrow> chars" where
  "title_word U i w =
    (if w = [] then w
     else if byte_len w \<le> 4 \<and> list_all ascii_upper w \<and> \<not> in_words (to_lowercase U w) lower_words then w
     else if in_words (to_lowercase U w) lower_words \<and> 0 < i then to_lowercase U w
     else (case w of [] \<Rightarrow> [] | c # s \<Rightarrow> to_uppercase U [c] @ to_lowercase U s))"

definition to_title_case :: "unicode \<Rightarrow> chars \<Rightarrow> chars" where
  "to_title_case U s = join_with [32] (map (\<lambda>(i, w). title_word U i w) (enumerate 0 (split_whitespace s)))"

subsection \<open>The name of a ledger\<close>

text \<open>The text before a hyphen that has a space at one side.\<close>

fun cut_location :: "chars \<Rightarrow> chars \<Rightarrow> chars option" where
  "cut_location pre [] = None"
| "cut_location pre (c # s) =
    (if c = 45 \<and> (take 1 pre = [32] \<or> take 1 s = [32]) then Some (trim_end (rev pre)) else cut_location (c # pre) s)"

definition strip_location_suffix :: "chars \<Rightarrow> chars" where
  "strip_location_suffix s = (case cut_location [] s of Some t \<Rightarrow> t | None \<Rightarrow> s)"

definition dict_name :: "chars \<Rightarrow> string option" where
  "dict_name name = map_option snd (find (\<lambda>(k, _). name = lit k \<or> has_prefix (lit k @ [32]) name) vendor_dict)"

text \<open>Words from the last one, while there is more than one.\<close>

fun drop_suffix_noise :: "chars list \<Rightarrow> chars list" where
  "drop_suffix_noise (w # v # ws) = (if in_words w ledger_suffix_noise then drop_suffix_noise (v # ws) else w # v # ws)"
| "drop_suffix_noise ws = ws"

text \<open>Order of strings: by bytes, which is by characters.\<close>

fun chars_less :: "chars \<Rightarrow> chars \<Rightarrow> bool" where
  "chars_less s [] = False"
| "chars_less [] (d # t) = True"
| "chars_less (c # s) (d # t) = (c < d \<or> c = d \<and> chars_less s t)"

definition rule_a :: "chars list \<Rightarrow> chars list" where
  "rule_a ws = (if 3 \<le> length ws then take 2 ws @ takeWhile (\<lambda>w. w \<notin> set (take 2 ws)) (drop 2 ws) else ws)"

definition is_business :: "chars list \<Rightarrow> bool" where
  "is_business ws \<longleftrightarrow> list_ex (\<lambda>w. in_words w ledger_biz_words) ws"

definition rule_b :: "chars list \<Rightarrow> chars list" where
  "rule_b ws = (if 3 \<le> length ws \<and> \<not> is_business ws then take 2 ws else ws)"

definition rule_c :: "chars list \<Rightarrow> chars list" where
  "rule_c ws =
    (case ws of
       [a, b] \<Rightarrow> if \<not> is_business ws \<and> chars_less a b then [b, a] else ws
     | _ \<Rightarrow> ws)"

definition normalize_ledger_name :: "unicode \<Rightarrow> chars \<Rightarrow> chars" where
  "normalize_ledger_name U raw =
    (if raw = [] then raw
     else
       let no_dots = filter (\<lambda>c. c \<noteq> 46) (strip_location_suffix raw); name_up = trimmed (to_uppercase U no_dots) in
       case dict_name name_up of
         Some canonical \<Rightarrow> lit canonical
       | None \<Rightarrow>
          let stripped = join_with [32] (rule_c (rule_b (rule_a (rev (drop_suffix_noise (rev (split_whitespace name_up)))))))
          in case dict_name stripped of Some canonical \<Rightarrow> lit canonical | None \<Rightarrow> to_title_case U stripped)"

subsection \<open>The cleaned narration\<close>

definition build_cleaned :: "chars \<Rightarrow> payment_type \<Rightarrow> chars \<Rightarrow> chars" where
  "build_cleaned party ty stripped =
    (let pre = lit (payment_prefix ty); name = (if party = [] then take 40 stripped else party) in
     if name = [] then lit ''Unknown''
     else if ty = Atm \<or> ty = Cash \<or> ty = Interest \<or> ty = Charges
     then (if party = [] then pre else pre @ lit '' - '' @ party)
     else (if pre = [] then name else pre @ name))"

definition narration_score :: "unicode \<Rightarrow> chars \<Rightarrow> chars \<Rightarrow> chars \<Rightarrow> payment_type \<Rightarrow> f64" where
  "narration_score U original cleaned party ty =
    (let add_if = (\<lambda>b w sc. if b then f64_add sc (f64_of w) else sc);
         up = to_uppercase U party;
         known = list_ex (\<lambda>(k, _). up = lit k \<or> has_prefix (lit k) up) vendor_dict;
         ratio = f64_div (f64_of (of_nat (byte_len cleaned))) (f64_of (of_nat (max (byte_len original) 1)));
         sc = add_if (f64_less ratio (f64_of (8 / 10))) (5 / 100)
               (add_if known (15 / 100)
                 (add_if (6 \<le> byte_len party) (10 / 100)
                   (add_if (3 \<le> byte_len party) (15 / 100)
                     (add_if (ty \<noteq> Other) (15 / 100) (f64_of (4 / 10)))))) in
     f64_div (f64_round (f64_mul sc (f64_of 100))) (f64_of 100))"

definition clean_with :: "unicode \<Rightarrow> chars \<Rightarrow> bool \<Rightarrow> narration_meta" where
  "clean_with U raw title_case =
    (let original = trimmed raw in
     if original = []
     then \<lparr> nm_original = original, nm_cleaned = [], nm_txn_type = lit ''OTHER'', nm_party = [], nm_payment_ref = [],
            nm_confidence = f64_zero \<rparr>
     else
       let ty = detect_type U original; ref = extract_ref U original; stripped = strip_noise U original;
           party_raw = extract_party U stripped;
           party = (if title_case then to_title_case U party_raw else party_raw);
           stripped_display = (if title_case then to_title_case U stripped else stripped);
           cleaned_str = build_cleaned party ty stripped_display;
           confidence = f64_min (narration_score U original cleaned_str party ty) (f64_of (99 / 100));
           final_cleaned = (if f64_le (f64_of (4 / 10)) confidence then join_with [32] (split_whitespace cleaned_str)
             else to_title_case U (take 60 original)) in
       \<lparr> nm_original = original, nm_cleaned = final_cleaned, nm_txn_type = lit (payment_debug ty), nm_party = party,
         nm_payment_ref = ref, nm_confidence = confidence \<rparr>)"

definition clean :: "unicode \<Rightarrow> chars \<Rightarrow> narration_meta" where
  "clean U raw = clean_with U raw True"

definition clean_batch_with :: "unicode \<Rightarrow> chars list \<Rightarrow> bool \<Rightarrow> narration_meta list" where
  "clean_batch_with U narrations title_case = map (\<lambda>n. clean_with U n title_case) narrations"

definition clean_batch :: "unicode \<Rightarrow> chars list \<Rightarrow> narration_meta list" where
  "clean_batch U narrations = clean_batch_with U narrations True"

end
