(* ===== verification/PartyMaster.thy ===== *)
theory PartyMaster
  imports NarrationCleaner Transactions StableSort
begin

text \<open>
  \<open>src/parser/party_master.rs\<close>: the names of one party are brought to one form. The names met are kept in a
  \<open>HashSet\<close> and the names by signature in a \<open>HashMap\<close>; the orders in which the two are iterated are arguments.
\<close>

definition category_words :: "string list" where
  "category_words = [''expense'', ''income'', ''payable'', ''receivable'', ''charges'', ''fee'', ''salary'', ''rent'',
     ''interest'', ''purchase'', ''tax'', ''cash'', ''contra'', ''provision'', ''allowance'', ''sundry debtors'',
     ''sundry creditors'']"

definition is_category_head :: "unicode \<Rightarrow> chars \<Rightarrow> bool" where
  "is_category_head U s \<longleftrightarrow> list_ex (\<lambda>kw. has_part (lit kw) (to_lowercase U s)) category_words"

text \<open>The upper-case words in order, joined by bars.\<close>

definition signature_of :: "unicode \<Rightarrow> chars \<Rightarrow> chars" where
  "signature_of U normalized = join_with [124] (stable_sort chars_less (map (to_uppercase U) (split_whitespace normalized)))"

definition min_partial_prefix_len :: nat where
  "min_partial_prefix_len = 4"

fun take_prefixed :: "chars \<Rightarrow> chars list \<Rightarrow> chars list option" where
  "take_prefixed st [] = None"
| "take_prefixed st (lt # lts) = (if has_prefix st lt then Some lts else map_option (Cons lt) (take_prefixed st lts))"

fun prefixes_distinct_tokens :: "chars list \<Rightarrow> chars list \<Rightarrow> bool" where
  "prefixes_distinct_tokens [] lts = True"
| "prefixes_distinct_tokens (st # sts) lts =
    (if length st < min_partial_prefix_len then False
     else (case take_prefixed st lts of Some rest \<Rightarrow> prefixes_distinct_tokens sts rest | None \<Rightarrow> False))"

definition is_partial_name_of :: "unicode \<Rightarrow> chars \<Rightarrow> chars \<Rightarrow> bool" where
  "is_partial_name_of U short long =
    (let sts = map (to_uppercase U) (split_whitespace short); lts = map (to_uppercase U) (split_whitespace long) in
     if sts = [] \<or> length lts \<le> length sts then False else prefixes_distinct_tokens sts lts)"

text \<open>The names of a transaction that take part: the vendor, and the head unless it is a category.\<close>

definition party_names :: "unicode \<Rightarrow> transaction \<Rightarrow> chars list" where
  "party_names U t =
    (if txn_is_opening_balance t then []
     else
       (let v = trimmed (txn_vendor t); h = trimmed (txn_account_head t) in
        (if v \<noteq> [] then [v] else []) @ (if 2 \<le> byte_len h \<and> \<not> is_category_head U h then [h] else [])))"

definition raw_set :: "unicode \<Rightarrow> transaction list \<Rightarrow> chars list" where
  "raw_set U txns = remdups (concat (map (party_names U) txns))"

text \<open>\<open>entry(sig).or_insert\<close>: the first form met stays.\<close>

fun sig_map :: "unicode \<Rightarrow> (chars \<times> chars) list \<Rightarrow> chars list \<Rightarrow> (chars \<times> chars) list" where
  "sig_map U m [] = m"
| "sig_map U m (raw # raws) =
    (if byte_len raw < 2 then sig_map U m raws
     else
       (let canonical = normalize_ledger_name U raw; sg = signature_of U canonical in
        sig_map U (if sg \<in> fst ` set m then m else m @ [(sg, canonical)]) raws))"

definition sig_weight :: "unicode \<Rightarrow> transaction list \<Rightarrow> chars \<Rightarrow> nat" where
  "sig_weight U txns sg =
    length (filter (\<lambda>n. signature_of U (normalize_ledger_name U n) = sg) (concat (map (party_names U) txns)))"

fun best_long :: "unicode \<Rightarrow> (chars \<Rightarrow> nat) \<Rightarrow> chars \<times> chars \<Rightarrow> (chars \<times> nat) option \<Rightarrow> (chars \<times> chars) list \<Rightarrow> chars option" where
  "best_long U weight short best [] = map_option fst best"
| "best_long U weight short best ((long_sig, long_canon) # longs) =
    (if fst short = long_sig \<or> \<not> is_partial_name_of U (snd short) long_canon then best_long U weight short best longs
     else
       (let w = weight long_sig in
        best_long U weight short
          (case best of
             None \<Rightarrow> Some (long_canon, w)
           | Some (best_canon, best_w) \<Rightarrow>
              if best_w < w \<or> w = best_w \<and> chars_less long_canon best_canon then Some (long_canon, w) else best)
          longs))"

definition resolved_name ::
  "unicode \<Rightarrow> (chars \<Rightarrow> nat) \<Rightarrow> (chars \<times> chars) list \<Rightarrow> (chars \<times> chars) list \<Rightarrow> chars \<Rightarrow> chars option" where
  "resolved_name U weight m sigs n =
    (let sg = signature_of U (normalize_ledger_name U n) in
     case map_of m sg of
       None \<Rightarrow> None
     | Some canon \<Rightarrow> (case best_long U weight (sg, canon) None sigs of Some long \<Rightarrow> Some long | None \<Rightarrow> Some canon))"

definition apply_names :: "unicode \<Rightarrow> (chars \<Rightarrow> chars option) \<Rightarrow> transaction \<Rightarrow> transaction" where
  "apply_names U resolve t =
    (if txn_is_opening_balance t then t
     else
       (let v = trimmed (txn_vendor t);
            t1 = (if v = [] then t else (case resolve v of Some c \<Rightarrow> t\<lparr>txn_vendor := c\<rparr> | None \<Rightarrow> t));
            h = trimmed (txn_account_head t1) in
        if 2 \<le> byte_len h \<and> \<not> is_category_head U h
        then (case resolve h of Some c \<Rightarrow> t1\<lparr>txn_account_head := c\<rparr> | None \<Rightarrow> t1) else t1))"

definition normalize_vendors ::
  "(chars list \<Rightarrow> chars list) \<Rightarrow> ((chars \<times> chars) list \<Rightarrow> (chars \<times> chars) list) \<Rightarrow> unicode \<Rightarrow> transaction list
    \<Rightarrow> transaction list \<times> nat" where
  "normalize_vendors set_order map_order U txns =
    (let m = sig_map U [] (set_order (raw_set U txns));
         resolve = resolved_name U (sig_weight U txns) m (map_order m);
         txns' = map (apply_names U resolve) txns in
     (txns', length (filter (\<lambda>(t, t'). txn_vendor t' \<noteq> txn_vendor t) (zip txns txns'))))"

end
