(* ===== verification/NarrationFacts.thy ===== *)
theory NarrationFacts
  imports PartyMaster AmountFacts
begin

text \<open>
  The cleaned narration is always taken to be confident; names of one party get one form; and what the normal
  form of a name does not give.
\<close>

subsection \<open>Confidence\<close>

text \<open>Two fifths, up to a rounding error, or more: every bonus is larger than the error of adding it.\<close>

definition at_least_base :: "rat \<Rightarrow> f64 \<Rightarrow> bool" where
  "at_least_base b x \<longleftrightarrow> (\<exists>m. x = Finite False m \<and> 3999 / 10000 \<le> m \<and> m \<le> b)"

lemma base_start: "at_least_base 1 (f64_of (4 / 10))"
proof -
  obtain m where m: "f64_of (4 / 10) = Finite False m" "\<bar>m - 4 / 10\<bar> \<le> 1 / 10000"
    using f64_of_close [of "4 / 10"] by auto
  then have "3999 / 10000 \<le> m" "m \<le> 1" by linarith+
  with m show ?thesis by (simp add: at_least_base_def)
qed

lemma base_add:
  assumes "at_least_base b x" and "1 / 100 \<le> w" and "w \<le> 1 / 2" and "b \<le> 10" and "b + 1 \<le> b'"
  shows "at_least_base b' (if c then f64_add x (f64_of w) else x)"
proof -
  obtain m where m: "x = Finite False m" "3999 / 10000 \<le> m" "m \<le> b" using assms(1) by (auto simp: at_least_base_def)
  obtain k where k: "f64_of w = Finite False k" "\<bar>k - w\<bar> \<le> 1 / 10000" using f64_of_close [of w] assms(2,3) by auto
  have "1 / 100 \<le> m + k" "m + k \<le> 100" using m k assms(2-4) by linarith+
  from close_rounded [OF this] obtain l where l: "rounded False (m + k) = Finite False l" "\<bar>l - (m + k)\<bar> \<le> 1 / 10000" by auto
  have "3999 / 10000 \<le> l" "l \<le> b'" using m k l assms(2,3,5) by linarith+
  then have "at_least_base b' (f64_add x (f64_of w))" using m k l by (simp add: at_least_base_def signed_rat_def)
  moreover have "at_least_base b' x" using m assms(5) by (auto simp: at_least_base_def)
  ultimately show ?thesis by simp
qed

lemma percentage_of_score:
  assumes "at_least_base 10 x"
  shows "f64_le (f64_of (4 / 10)) (f64_div (f64_round (f64_mul x (f64_of 100))) (f64_of 100))"
    and "is_finite (f64_div (f64_round (f64_mul x (f64_of 100))) (f64_of 100))"
proof -
  obtain m where m: "x = Finite False m" "3999 / 10000 \<le> m" "m \<le> 10" using assms by (auto simp: at_least_base_def)
  have hundred: "f64_of 100 = Finite False 100" using f64_of_int [of 100] by simp
  have near: "398 / 10 \<le> m * 100" "m * 100 \<le> 1001" using m(2,3) by linarith+
  then have "rounded False (m * 100) = Finite False (nearest (m * 100))"
    using rounded_plain [of "m * 100" False False] near by (simp add: signed_rat_def)
  moreover have "\<bar>nearest (m * 100) - m * 100\<bar> \<le> 1 / 10"
    using nearest_close [of "m * 100"] near by (simp add: field_simps)
  ultimately obtain p where p: "f64_mul x (f64_of 100) = Finite False p" "397 / 10 \<le> p" "p \<le> 1002"
    using m(1) hundred near by (force simp: signed_rat_def)
  define k where "k = floor (p + 1 / 2)"
  have k: "40 \<le> k" "k \<le> 1003" using p by (auto simp: k_def le_floor_iff floor_le_iff)
  have run: "f64_div (f64_round (f64_mul x (f64_of 100))) (f64_of 100) = rounded False (of_int k / 100)"
    using p hundred by (simp add: k_def signed_rat_def)
  obtain a where a: "f64_of (4 / 10) = Finite False a" "\<bar>a - 4 / 10\<bar> \<le> 1 / 10000" using f64_of_close [of "4 / 10"] by auto
  have "(of_int k :: rat) \<le> of_int 1003" using k(2) by (simp only: of_int_le_iff)
  moreover have "(of_int 40 :: rat) \<le> of_int k" using k(1) by (simp only: of_int_le_iff)
  ultimately obtain b where b: "rounded False (of_int k / 100) = Finite False b" "\<bar>b - of_int k / 100\<bar> \<le> 1 / 10000"
    using close_rounded [of "of_int k / 100"] by auto
  have "f64_le (f64_of (4 / 10)) (rounded False (of_int k / 100))"
  proof (cases "k = 40")
    case True
    then show ?thesis using a by (simp add: f64_of_def f64_le_def f64_less_def f64_eq_def)
  next
    case False
    then have "(of_int 41 :: rat) \<le> of_int k" using k(1) by (simp only: of_int_le_iff)
    then have "a < b" using a b by linarith
    then show ?thesis unfolding a(1) b(1) by (simp add: f64_le_def f64_less_def signed_rat_def)
  qed
  with run b show "f64_le (f64_of (4 / 10)) (f64_div (f64_round (f64_mul x (f64_of 100))) (f64_of 100))"
    and "is_finite (f64_div (f64_round (f64_mul x (f64_of 100))) (f64_of 100))" by simp_all
qed

lemma narration_score_bounds:
  "f64_le (f64_of (4 / 10)) (narration_score U original cleaned party ty)"
  "is_finite (narration_score U original cleaned party ty)"
proof -
  define x1 where "x1 = (if ty \<noteq> Other then f64_add (f64_of (4 / 10)) (f64_of (15 / 100)) else f64_of (4 / 10))"
  define x2 where "x2 = (if 3 \<le> byte_len party then f64_add x1 (f64_of (15 / 100)) else x1)"
  define x3 where "x3 = (if 6 \<le> byte_len party then f64_add x2 (f64_of (10 / 100)) else x2)"
  define x4 where "x4 = (if list_ex (\<lambda>(k, _). to_uppercase U party = lit k \<or> has_prefix (lit k) (to_uppercase U party)) vendor_dict
    then f64_add x3 (f64_of (15 / 100)) else x3)"
  define x5 where "x5 = (if f64_less (f64_div (f64_of (of_nat (byte_len cleaned))) (f64_of (of_nat (max (byte_len original) 1)))) (f64_of (8 / 10))
    then f64_add x4 (f64_of (5 / 100)) else x4)"
  have "at_least_base 2 x1" unfolding x1_def by (rule base_add [OF base_start]) simp_all
  then have "at_least_base 3 x2" unfolding x2_def by (rule base_add) simp_all
  then have "at_least_base 4 x3" unfolding x3_def by (rule base_add) simp_all
  then have "at_least_base 5 x4" unfolding x4_def by (rule base_add) simp_all
  then have "at_least_base 10 x5" unfolding x5_def by (rule base_add) simp_all
  moreover have "narration_score U original cleaned party ty = f64_div (f64_round (f64_mul x5 (f64_of 100))) (f64_of 100)"
    by (simp only: narration_score_def Let_def x1_def x2_def x3_def x4_def x5_def)
  ultimately show "f64_le (f64_of (4 / 10)) (narration_score U original cleaned party ty)"
    "is_finite (narration_score U original cleaned party ty)" using percentage_of_score by auto
qed


text \<open>The confidence of a cleaned narration is never below two fifths nor above 0.99, so the fallback for
  an uncertain narration is never taken: what is shown is the cleaned text, unless the setting keeps the original.\<close>

lemma cleaner_is_confident:
  fixes U :: unicode and raw :: chars and title_case :: bool
  assumes "trimmed raw \<noteq> []"
  defines "meta \<equiv> clean_with U raw title_case"
  shows "f64_le (f64_of (4 / 10)) (nm_confidence meta) \<and> f64_le (nm_confidence meta) (f64_of (99 / 100))
    \<and> nm_cleaned meta = join_with [32] (split_whitespace (build_cleaned (nm_party meta) (detect_type U (trimmed raw))
        ((if title_case then to_title_case U else id) (strip_noise U (trimmed raw)))))
    \<and> (narration_display_is_generated narr_preserve meta \<longleftrightarrow> \<not> narr_preserve \<and> nm_cleaned meta \<noteq> [])"
proof -
  obtain c where c: "f64_of (99 / 100) = Finite False c" "\<bar>c - 99 / 100\<bar> \<le> 1 / 10000" using f64_of_close [of "99 / 100"] by auto
  obtain a where a: "f64_of (4 / 10) = Finite False a" "\<bar>a - 4 / 10\<bar> \<le> 1 / 10000" using f64_of_close [of "4 / 10"] by auto
  have "a \<le> c" using a(2) c(2) by linarith
  have conf: "f64_le (f64_of (4 / 10)) (f64_min x (f64_of (99 / 100))) \<and> f64_le (f64_min x (f64_of (99 / 100))) (f64_of (99 / 100))"
    if low: "f64_le (f64_of (4 / 10)) x" and fin: "is_finite x" for x
  proof -
    obtain s m where x: "x = Finite s m" using fin by (cases x) auto
    show ?thesis using low \<open>a \<le> c\<close> unfolding x a(1) c(1)
      by (auto simp: f64_min_def f64_le_def f64_less_def f64_eq_def signed_rat_def split: if_splits)
  qed
  note bounds = conf [OF narration_score_bounds]
  show ?thesis using assms(1) bounds
    by (simp add: meta_def clean_with_def Let_def narration_display_is_generated_def)
qed

subsection \<open>One party, one name\<close>

lemma sig_map_keys:
  "fst ` set (sig_map U m raws) = fst ` set m \<union> {signature_of U (normalize_ledger_name U r) | r. r \<in> set raws \<and> 2 \<le> byte_len r}"
proof (induction U m raws rule: sig_map.induct)
  case (2 U m raw raws)
  then show ?case by (auto simp: Let_def not_less)
qed simp

lemma resolved_known:
  assumes "signature_of U (normalize_ledger_name U n) \<in> fst ` set m"
  shows "\<exists>c. resolved_name U weight m sigs n = Some c"
proof -
  obtain canon where "map_of m (signature_of U (normalize_ledger_name U n)) = Some canon"
    using assms by (metis map_of_eq_None_iff not_None_eq)
  then show ?thesis by (auto simp: resolved_name_def split: option.split)
qed

lemma resolved_cong:
  "signature_of U (normalize_ledger_name U n) = signature_of U (normalize_ledger_name U n')
    \<Longrightarrow> resolved_name U weight m sigs n = resolved_name U weight m sigs n'"
  by (simp add: resolved_name_def)

lemma apply_names_vendor:
  assumes "\<not> txn_is_opening_balance t" and "trimmed (txn_vendor t) \<noteq> []" and "resolve (trimmed (txn_vendor t)) = Some c"
  shows "txn_vendor (apply_names U resolve t) = c"
  using assms by (simp add: apply_names_def Let_def split: option.split)

text \<open>After the parties are unified, transactions whose vendors have the same words in their normal forms
  have the same vendor, in whatever order the hash map and the hash set are visited.\<close>

lemma one_party_one_name:
  fixes U :: unicode and txns :: "transaction list"
    and set_order :: "chars list \<Rightarrow> chars list" and map_order :: "(chars \<times> chars) list \<Rightarrow> (chars \<times> chars) list"
  assumes "\<And>xs. set (set_order xs) = set xs" and "i < length txns" and "j < length txns"
    and "\<not> txn_is_opening_balance (txns ! i)" and "\<not> txn_is_opening_balance (txns ! j)"
    and "2 \<le> byte_len (trimmed (txn_vendor (txns ! i)))" and "trimmed (txn_vendor (txns ! j)) \<noteq> []"
    and "signature_of U (normalize_ledger_name U (trimmed (txn_vendor (txns ! i))))
      = signature_of U (normalize_ledger_name U (trimmed (txn_vendor (txns ! j))))"
  defines "result \<equiv> fst (normalize_vendors set_order map_order U txns)"
  shows "txn_vendor (result ! i) = txn_vendor (result ! j)"
proof -
  let ?v = "\<lambda>k. trimmed (txn_vendor (txns ! k))"
  define m where "m = sig_map U [] (set_order (raw_set U txns))"
  define resolve where "resolve = resolved_name U (sig_weight U txns) m (map_order m)"
  have some: "?v i \<noteq> []" using assms(6) by (auto simp: byte_len_def)
  have "?v i \<in> set (party_names U (txns ! i))" using assms(4) some by (simp add: party_names_def Let_def)
  then have "?v i \<in> set (set_order (raw_set U txns))" using assms(1,2) by (auto simp: raw_set_def)
  then have "signature_of U (normalize_ledger_name U (?v i)) \<in> fst ` set m" using assms(6) by (auto simp: m_def sig_map_keys)
  then obtain c where c: "resolve (?v i) = Some c" unfolding resolve_def using resolved_known by blast
  then have "resolve (?v j) = Some c" using resolved_cong [OF assms(8)] by (simp add: resolve_def)
  with c apply_names_vendor [OF assms(4) some] apply_names_vendor [OF assms(5,7)] assms(2,3) show ?thesis
    by (simp add: result_def normalize_vendors_def Let_def m_def [symmetric] resolve_def [symmetric])
qed

definition paid_to :: "string \<Rightarrow> transaction" where
  "paid_to v = (transaction_new [])\<lparr>txn_vendor := lit v\<rparr>"

lemma paid_to_fields [simp]: "txn_vendor (paid_to v) = lit v" "\<not> txn_is_opening_balance (paid_to v)"
  by (simp_all add: paid_to_def transaction_new_def)

lemma cleaner_is_confident_example:
  "f64_le (nm_confidence (clean_with ascii_tables (lit ''UPI/TEA'') False)) (f64_of (99 / 100))"
proof -
  have "trimmed (lit ''UPI/TEA'') \<noteq> []" by code_simp
  from cleaner_is_confident [OF this, of ascii_tables False False] show ?thesis by blast
qed

lemma one_party_one_name_example:
  "txn_vendor (fst (normalize_vendors rev rev ascii_tables [paid_to ''Asha Mehta'', paid_to ''MEHTA ASHA'']) ! 0)
   = txn_vendor (fst (normalize_vendors rev rev ascii_tables [paid_to ''Asha Mehta'', paid_to ''MEHTA ASHA'']) ! 1)"
proof -
  have "2 \<le> byte_len (trimmed (lit ''Asha Mehta''))" "trimmed (lit ''MEHTA ASHA'') \<noteq> []"
    "signature_of ascii_tables (normalize_ledger_name ascii_tables (trimmed (lit ''Asha Mehta'')))
      = signature_of ascii_tables (normalize_ledger_name ascii_tables (trimmed (lit ''MEHTA ASHA'')))"
    by code_simp+
  with one_party_one_name [of rev 0 "[paid_to ''Asha Mehta'', paid_to ''MEHTA ASHA'']" 1 ascii_tables rev]
  show ?thesis by (simp del: lit_simps)
qed

subsection \<open>What the normal form does not give\<close>

text \<open>A canonical name of the dictionary need not be its own normal form.\<close>

lemma canonical_names_change_again:
  "normalize_ledger_name ascii_tables (lit ''GPAY'') = lit ''Google Pay''
   \<and> normalize_ledger_name ascii_tables (lit ''Google Pay'') = lit ''Google''"
  by code_simp

text \<open>Which of two forms of the name of a firm is taken depends on the order of the hash set.\<close>

lemma firm_name_depends_on_order:
  "txn_vendor (fst (normalize_vendors id id ascii_tables [paid_to ''Asha Traders'', paid_to ''Traders Asha'']) ! 0) = lit ''ASHA Traders''
   \<and> txn_vendor (fst (normalize_vendors rev id ascii_tables [paid_to ''Asha Traders'', paid_to ''Traders Asha'']) ! 0) = lit ''Traders ASHA''"
  by code_simp

end
