(* ===== verification/BalanceRules.thy ===== *)
theory BalanceRules
  imports Transactions AmountParser
begin

text \<open>
  \<open>src/parser/excel_parser.rs\<close>, the passes every parser of statements runs over its transactions: the balance
  before each row, duplicates within the sheet, swapped debits and credits, the check of the balances, and
  the row of the opening balance.
\<close>

definition has_amt :: "transaction \<Rightarrow> bool" where
  "has_amt t \<longleftrightarrow> txn_debit t \<noteq> None \<or> txn_credit t \<noteq> None"

definition or_zero :: "f64 option \<Rightarrow> f64" where
  "or_zero v = (case v of Some x \<Rightarrow> x | None \<Rightarrow> f64_zero)"

definition net_amount :: "transaction \<Rightarrow> f64" where
  "net_amount t = f64_sub (or_zero (txn_credit t)) (or_zero (txn_debit t))"

definition expected_balance :: "f64 \<Rightarrow> transaction \<Rightarrow> f64" where
  "expected_balance before_row t = round2 (f64_add (f64_sub before_row (or_zero (txn_debit t))) (or_zero (txn_credit t)))"

subsection \<open>The balance before each row\<close>

fun derived_opening :: "transaction list \<Rightarrow> f64 option" where
  "derived_opening [] = None"
| "derived_opening (t # ts) =
    (case txn_balance t of
       Some bal \<Rightarrow> if has_amt t then Some (round2 (f64_sub bal (net_amount t))) else derived_opening ts
     | None \<Rightarrow> derived_opening ts)"

fun stamp_prev :: "f64 option \<Rightarrow> transaction list \<Rightarrow> transaction list" where
  "stamp_prev run_bal [] = []"
| "stamp_prev run_bal (t # ts) =
    t\<lparr>txn_prev_balance := map_option round2 run_bal\<rparr> #
      stamp_prev
        (if \<not> has_amt t then (if txn_balance t \<noteq> None then txn_balance t else run_bal)
         else (case run_bal of
                 Some rb \<Rightarrow> (case txn_balance t of Some stated \<Rightarrow> Some stated | None \<Rightarrow> Some (expected_balance rb t))
               | None \<Rightarrow> (if txn_balance t \<noteq> None then txn_balance t else None))) ts"

definition compute_prev_balances :: "transaction list \<Rightarrow> f64 option \<Rightarrow> transaction list \<times> f64 option" where
  "compute_prev_balances txns opening_balance =
    (if txns = [] then (txns, opening_balance)
     else
       let op_bal = (case opening_balance of Some ob \<Rightarrow> Some ob | None \<Rightarrow> derived_opening txns) in
       (stamp_prev op_bal txns, op_bal))"

subsection \<open>Swapped debits and credits\<close>

definition tolerance :: "f64 \<Rightarrow> f64" where
  "tolerance amt = f64_max (f64_of 1) (f64_mul amt (f64_of (2 / 100)))"

definition redirect :: "f64 \<Rightarrow> transaction \<Rightarrow> transaction" where
  "redirect diff t =
    (case (txn_debit t, txn_credit t) of
       (Some dr, None) \<Rightarrow>
         if f64_less (f64_abs (f64_sub diff dr)) (tolerance dr) then t\<lparr>txn_credit := Some dr, txn_debit := None\<rparr> else t
     | (None, Some cr) \<Rightarrow>
         if f64_less (f64_abs (f64_add diff cr)) (tolerance cr) then t\<lparr>txn_debit := Some cr, txn_credit := None\<rparr> else t
     | _ \<Rightarrow> t)"

fun correct_from :: "f64 option \<Rightarrow> transaction list \<Rightarrow> transaction list" where
  "correct_from prev_bal [] = []"
| "correct_from prev_bal (t # ts) =
    (if txn_is_opening_balance t then t # correct_from (txn_balance t) ts
     else (case txn_balance t of
             None \<Rightarrow> t # correct_from prev_bal ts
           | Some bal \<Rightarrow>
              (case prev_bal of
                 None \<Rightarrow> t # correct_from (Some bal) ts
               | Some pb \<Rightarrow> redirect (round2 (f64_sub bal pb)) t # correct_from (Some bal) ts)))"

definition correct_debit_credit_by_balance :: "transaction list \<Rightarrow> transaction list" where
  "correct_debit_credit_by_balance txns = correct_from None txns"

subsection \<open>Rows met twice\<close>

definition dedup_key :: "transaction \<Rightarrow> chars" where
  "dedup_key t =
    (let num = (\<lambda>v. case v of Some x \<Rightarrow> format_shortest x | None \<Rightarrow> []) in
     txn_date t @ 124 # txn_narration t @ 124 # num (txn_debit t) @ 124 # num (txn_credit t) @ 124 # num (txn_balance t))"

fun dedup_from :: "chars list \<Rightarrow> transaction list \<Rightarrow> transaction list" where
  "dedup_from seen [] = []"
| "dedup_from seen (t # ts) =
    (if txn_is_opening_balance t then t # dedup_from seen ts
     else if dedup_key t \<in> set seen then dedup_from seen ts
     else t # dedup_from (dedup_key t # seen) ts)"

definition deduplicate_txns :: "transaction list \<Rightarrow> transaction list" where
  "deduplicate_txns txns = dedup_from [] txns"

subsection \<open>The check of the balances\<close>

fun validate_from :: "f64 option \<Rightarrow> transaction list \<Rightarrow> transaction list" where
  "validate_from prev_bal [] = []"
| "validate_from prev_bal (t # ts) =
    (if txn_balance t = None \<or> \<not> has_amt t
     then t # validate_from (if prev_bal = None then txn_balance t else prev_bal) ts
     else
       (case prev_bal of
          None \<Rightarrow> t\<lparr>txn_balance_ok := Some True\<rparr> # validate_from (txn_balance t) ts
        | Some pb \<Rightarrow>
           t\<lparr>txn_balance_ok := Some (\<not> f64_less (f64_of 1)
               (f64_abs (f64_sub (expected_balance pb t) (or_zero (txn_balance t)))))\<rparr>
             # validate_from (txn_balance t) ts))"

definition validate_balances :: "transaction list \<Rightarrow> f64 option \<Rightarrow> transaction list" where
  "validate_balances txns opening_balance = validate_from opening_balance txns"

subsection \<open>The opening balance\<close>

definition opening_row :: "transaction \<Rightarrow> f64 \<Rightarrow> chars \<Rightarrow> chars \<Rightarrow> transaction" where
  "opening_row first ob bank_name account_no =
    (transaction_new (lit ''opening_balance_'' @ transaction_hash first))
      \<lparr> txn_narration := lit ''Opening Balance'', txn_balance := Some ob, txn_bank_name := bank_name,
        txn_account_no := account_no, txn_is_opening_balance := True \<rparr>"

definition prepend_opening_balance_row :: "transaction list \<Rightarrow> f64 option \<Rightarrow> chars \<Rightarrow> chars \<Rightarrow> transaction list" where
  "prepend_opening_balance_row txns opening_balance bank_name account_no =
    (case txns of
       [] \<Rightarrow> txns
     | first # _ \<Rightarrow>
        (case (case txn_balance first of
                 Some bal \<Rightarrow> if has_amt first then Some (round2 (f64_sub bal (net_amount first))) else opening_balance
               | None \<Rightarrow> opening_balance) of
           None \<Rightarrow> txns
         | Some ob \<Rightarrow> opening_row first ob bank_name account_no # txns))"

end
