(* ===== verification/ColumnDetector.thy ===== *)
theory ColumnDetector
  imports AmountParser DateParser Transactions RowBuilder
begin

text \<open>
  \<open>src/parser/column_detector.rs\<close>: which column of a sheet, or which x-position of a page, holds the dates,
  narrations, references and amounts: by the words of a header row, or by the shape of the data.
\<close>

subsection \<open>Columns and their words\<close>

definition col_date :: "chars list" where
  "col_date =
    [lit ''date'', lit ''dt'', lit ''transaction date'', lit ''txn date'', lit ''tran date'',
     lit ''trans date'', lit ''value date'', lit ''value dt'', lit ''posting date'',
     lit ''booking date'', lit ''entry date'', lit ''transaction dt'', lit ''trans dt'',
     lit ''effective date'', lit ''process date'']"

definition col_narration :: "chars list" where
  "col_narration =
    [lit ''narration'', lit ''description'', lit ''particulars'', lit ''details'', lit ''remarks'',
     lit ''transaction description'', lit ''transaction remarks'', lit ''transaction narration'',
     lit ''transaction details'', lit ''tran description'', lit ''tran remarks'',
     lit ''transaction particulars'', lit ''transaction details/remarks'', lit ''tran particulars'',
     lit ''trans particulars'', lit ''chq/trn details'', lit ''trn description'',
     lit ''particulars of transaction'', lit ''payment details'', lit ''beneficiary details'',
     lit ''sender details'']"

definition col_reference :: "chars list" where
  "col_reference =
    [lit ''reference'', lit ''ref no'', lit ''ref number'', lit ''ref.no.'', lit ''chq/ref no'',
     lit ''chq/ref. no.'', lit ''cheque / ref no'', lit ''cheque/ref no'', lit ''chq / ref number'',
     lit ''ref / chq no'', lit ''chq./ref.no.'', lit ''chq.ref.no.'', lit ''chq./ref no.'',
     lit ''chq. / ref. no.'', lit ''cheque no'', lit ''cheque no.'', lit ''cheque number'',
     lit ''chq no'', lit ''chq no.'', lit ''chq.no.'', lit ''chq. no.'', lit ''chq./txn. no.'',
     lit ''chq./txn.no.'', lit ''chq/txn no'', lit ''chq/txn no.'', lit ''txn no'', lit ''txn no.'',
     lit ''txn. no.'', lit ''txn number'', lit ''chq.'', lit ''transaction id'', lit ''utr'',
     lit ''utr no'', lit ''utr no.'', lit ''utr number'', lit ''instrument no'',
     lit ''instrument no.'', lit ''instrument'', lit ''instruments'', lit ''tran id'',
     lit ''chq / instrument no'', lit ''chq/instrument no'', lit ''ref.no'', lit ''ref no.'',
     lit ''ref num'', lit ''ref'']"

definition col_debit :: "chars list" where
  "col_debit =
    [lit ''debit'', lit ''dr'', lit ''dr.'', lit ''withdrawal'', lit ''withdrawal amt'',
     lit ''withdrawal amount'', lit ''withdrawal amt.'', lit ''withdrawals'', lit ''debit amount'',
     lit ''dr amount'', lit ''dr amt'', lit ''debit amt'', lit ''withdrawal amt.(inr)'',
     lit ''withdrawal amt. (inr)'', lit ''withdrawal amount (inr)'', lit ''withdrawal (dr)'',
     lit ''withdrawal (dr.)'', lit ''withdrawal(dr)'', lit ''withdrawal(dr.)'', lit ''debit (inr)'',
     lit ''debit(dr)'', lit ''paid out'', lit ''amount debit'', lit ''debit amount (inr)'', lit ''w/d'']"

definition col_credit :: "chars list" where
  "col_credit =
    [lit ''credit'', lit ''cr'', lit ''cr.'', lit ''deposit'', lit ''deposit amt'',
     lit ''deposit amount'', lit ''deposit amt.'', lit ''deposits'', lit ''credit amount'',
     lit ''cr amount'', lit ''cr amt'', lit ''credit amt'', lit ''deposit amt.(inr)'',
     lit ''deposit amt. (inr)'', lit ''deposit amount (inr)'', lit ''deposit (cr)'',
     lit ''deposit (cr.)'', lit ''deposit(cr)'', lit ''deposit(cr.)'', lit ''credit (inr)'',
     lit ''credit(cr)'', lit ''paid in'', lit ''amount credit'', lit ''credit amount (inr)'']"

definition col_balance :: "chars list" where
  "col_balance =
    [lit ''balance'', lit ''bal'', lit ''closing balance'', lit ''running balance'',
     lit ''closing bal'', lit ''available balance'', lit ''balance amt'', lit ''bal amt'',
     lit ''balance (inr)'', lit ''closing balance (inr)'', lit ''balance(inr)'',
     lit ''outstanding balance'', lit ''total balance'', lit ''ledger balance'', lit ''total amount'',
     lit ''total amt'', lit ''total bal'', lit ''running total'', lit ''closing amount'',
     lit ''book balance'', lit ''net balance'']"

definition col_debitcredit :: "chars list" where
  "col_debitcredit =
    [lit ''debit/credit'', lit ''debit / credit'', lit ''debit/credit('' @ [0x20B9] @ lit '')'',
     lit ''debit / credit('' @ [0x20B9] @ lit '')'', lit ''debit/credit ('' @ [0x20B9] @ lit '')'',
     lit ''debit / credit ('' @ [0x20B9] @ lit '')'', lit ''debit/credit(inr)'',
     lit ''debit / credit(inr)'', lit ''debit/credit (inr)'', lit ''debit / credit (inr)'',
     lit ''dr/cr'', lit ''dr / cr'', lit ''dr/cr('' @ [0x20B9] @ lit '')'',
     lit ''dr / cr('' @ [0x20B9] @ lit '')'']"

datatype col_field = ColDate | ColNarration | ColReference | ColDebit | ColCredit | ColBalance | ColDebitCredit

definition assign_order :: "col_field list" where
  "assign_order = [ColDate, ColBalance, ColDebitCredit, ColDebit, ColCredit, ColNarration, ColReference]"

fun col_patterns :: "col_field \<Rightarrow> chars list" where
  "col_patterns ColDate = col_date"
| "col_patterns ColNarration = col_narration"
| "col_patterns ColReference = col_reference"
| "col_patterns ColDebit = col_debit"
| "col_patterns ColCredit = col_credit"
| "col_patterns ColBalance = col_balance"
| "col_patterns ColDebitCredit = col_debitcredit"

fun col_as_str :: "col_field \<Rightarrow> chars" where
  "col_as_str ColDate = lit ''date''"
| "col_as_str ColNarration = lit ''narration''"
| "col_as_str ColReference = lit ''reference''"
| "col_as_str ColDebit = lit ''debit''"
| "col_as_str ColCredit = lit ''credit''"
| "col_as_str ColBalance = lit ''balance''"
| "col_as_str ColDebitCredit = lit ''debitcredit''"

definition col_all :: "col_field list" where
  "col_all = [ColDate, ColNarration, ColReference, ColDebit, ColCredit, ColBalance, ColDebitCredit]"

record pdf_col_x =
  cx_date :: "f64 option"
  cx_narration :: "f64 option"
  cx_reference :: "f64 option"
  cx_debit :: "f64 option"
  cx_credit :: "f64 option"
  cx_balance :: "f64 option"
  cx_debit_credit :: "f64 option"

definition pdf_col_x_default :: pdf_col_x where
  "pdf_col_x_default = \<lparr> cx_date = None, cx_narration = None, cx_reference = None, cx_debit = None,
     cx_credit = None, cx_balance = None, cx_debit_credit = None \<rparr>"

fun col_x_get :: "pdf_col_x \<Rightarrow> col_field \<Rightarrow> f64 option" where
  "col_x_get m ColDate = cx_date m"
| "col_x_get m ColNarration = cx_narration m"
| "col_x_get m ColReference = cx_reference m"
| "col_x_get m ColDebit = cx_debit m"
| "col_x_get m ColCredit = cx_credit m"
| "col_x_get m ColBalance = cx_balance m"
| "col_x_get m ColDebitCredit = cx_debit_credit m"

fun col_x_set :: "col_field \<Rightarrow> f64 \<Rightarrow> pdf_col_x \<Rightarrow> pdf_col_x" where
  "col_x_set ColDate x m = m\<lparr>cx_date := Some x\<rparr>"
| "col_x_set ColNarration x m = m\<lparr>cx_narration := Some x\<rparr>"
| "col_x_set ColReference x m = m\<lparr>cx_reference := Some x\<rparr>"
| "col_x_set ColDebit x m = m\<lparr>cx_debit := Some x\<rparr>"
| "col_x_set ColCredit x m = m\<lparr>cx_credit := Some x\<rparr>"
| "col_x_set ColBalance x m = m\<lparr>cx_balance := Some x\<rparr>"
| "col_x_set ColDebitCredit x m = m\<lparr>cx_debit_credit := Some x\<rparr>"

definition col_x_detected :: "pdf_col_x \<Rightarrow> (col_field \<times> f64) list" where
  "col_x_detected m = concat (map (\<lambda>f. case col_x_get m f of Some x \<Rightarrow> [(f, x)] | None \<Rightarrow> []) col_all)"

definition col_x_is_usable :: "pdf_col_x \<Rightarrow> bool" where
  "col_x_is_usable m \<longleftrightarrow> cx_date m \<noteq> None \<and> cx_narration m \<noteq> None
     \<and> (cx_debit m \<noteq> None \<or> cx_credit m \<noteq> None \<or> cx_debit_credit m \<noteq> None)"

record pdf_header_result =
  ph_hdr_idx :: "nat option"
  ph_col_x :: pdf_col_x
  ph_hdr_row :: "pdf_item list"

text \<open>A range of x-positions; \<open>Infinite False\<close> is no right end.\<close>

record col_boundary =
  cb_field :: col_field
  cb_x_min :: f64
  cb_x_max :: f64

subsection \<open>Scores\<close>

definition normalize_cell :: "unicode \<Rightarrow> chars \<Rightarrow> chars" where
  "normalize_cell U s = join_with [32] (split_whitespace (to_lowercase U s))"

definition has_suffix :: "chars \<Rightarrow> chars \<Rightarrow> bool" where
  "has_suffix p s \<longleftrightarrow> has_prefix (rev p) (rev s)"

fun score_from :: "chars \<Rightarrow> nat \<Rightarrow> chars list \<Rightarrow> nat" where
  "score_from val best [] = best"
| "score_from val best (p # ps) =
    (if val = p then 100
     else score_from val
       (if has_prefix p val then max best 60
        else if has_suffix p val then max best 40
        else if 4 \<le> byte_len p \<and> has_part p val then max best 20
        else if 4 \<le> byte_len val \<and> has_prefix val p then max best 10 else best) ps)"

definition score_cell :: "chars \<Rightarrow> chars list \<Rightarrow> nat" where
  "score_cell val ps = (if val = [] \<or> byte_len val < 2 then 0 else score_from val 0 ps)"

subsection \<open>The columns of a sheet\<close>

definition col_score :: "unicode \<Rightarrow> chars list \<Rightarrow> col_field \<Rightarrow> nat \<Rightarrow> nat" where
  "col_score U row f c = score_cell (normalize_cell U (row ! c)) (col_patterns f)"

text \<open>A weaker match with the words of the combined column does not take a column that is exactly a debit or a credit.\<close>

definition steals_exact :: "(col_field \<Rightarrow> nat) \<Rightarrow> col_field \<Rightarrow> bool" where
  "steals_exact score f \<longleftrightarrow> f = ColDebitCredit \<and> score f < 100 \<and> (score ColDebit = 100 \<or> score ColCredit = 100)"

fun pick_col :: "(nat \<Rightarrow> nat) \<Rightarrow> (nat \<Rightarrow> bool) \<Rightarrow> nat option \<times> nat \<Rightarrow> nat list \<Rightarrow> nat option" where
  "pick_col score free (best_col, best_sc) [] = best_col"
| "pick_col score free (best_col, best_sc) (c # cs) =
    pick_col score free (if best_sc < score c \<and> free c then (Some c, score c) else (best_col, best_sc)) cs"

fun col_set :: "col_field \<Rightarrow> int \<Rightarrow> column_map \<Rightarrow> column_map" where
  "col_set ColDate c m = m\<lparr>cm_date := c\<rparr>"
| "col_set ColNarration c m = m\<lparr>cm_narration := c\<rparr>"
| "col_set ColReference c m = m\<lparr>cm_reference := c\<rparr>"
| "col_set ColDebit c m = m\<lparr>cm_debit := c\<rparr>"
| "col_set ColCredit c m = m\<lparr>cm_credit := c\<rparr>"
| "col_set ColBalance c m = m\<lparr>cm_balance := c\<rparr>"
| "col_set ColDebitCredit c m = m\<lparr>cm_debit_credit := c\<rparr>"

fun assign_cols :: "unicode \<Rightarrow> chars list \<Rightarrow> column_map \<times> nat list \<Rightarrow> col_field list \<Rightarrow> column_map" where
  "assign_cols U row (m, taken) [] = m"
| "assign_cols U row (m, taken) (f # fs) =
    (case pick_col (col_score U row f)
            (\<lambda>c. c \<notin> set taken \<and> \<not> steals_exact (\<lambda>g. col_score U row g c) f) (None, 9) [0..<length row] of
       Some c \<Rightarrow> assign_cols U row (col_set f (int c) m, c # taken) fs
     | None \<Rightarrow> assign_cols U row (m, taken) fs)"

definition detect_excel_cols :: "unicode \<Rightarrow> chars list \<Rightarrow> column_map" where
  "detect_excel_cols U row = assign_cols U row (column_map_default, []) assign_order"

subsection \<open>The header of a page\<close>

fun merge_from :: "f64 \<Rightarrow> pdf_item \<Rightarrow> pdf_item list \<Rightarrow> pdf_item list" where
  "merge_from gap_threshold cur [] = [cur]"
| "merge_from gap_threshold cur (item # items) =
    (if f64_le (f64_sub (pi_x item) (f64_add (pi_x cur) (pi_w cur))) gap_threshold
     then merge_from gap_threshold (cur\<lparr> pi_text := pi_text cur @ 32 # pi_text item,
            pi_w := f64_sub (f64_add (pi_x item) (pi_w item)) (pi_x cur) \<rparr>) items
     else cur # merge_from gap_threshold item items)"

definition merge_adjacent_items :: "pdf_item list \<Rightarrow> f64 \<Rightarrow> pdf_item list" where
  "merge_adjacent_items row gap_threshold = (case row of [] \<Rightarrow> [] | cur # items \<Rightarrow> merge_from gap_threshold cur items)"

definition field_best :: "unicode \<Rightarrow> pdf_item list \<Rightarrow> col_field \<Rightarrow> (f64 \<times> nat) option" where
  "field_best U items f =
    fold (\<lambda>item best. let sc = score_cell (normalize_cell U (pi_text item)) (col_patterns f) in
        if 0 < sc \<and> (case best of None \<Rightarrow> 0 | Some (_, s) \<Rightarrow> s) < sc then Some (pi_x item, sc) else best)
      items None"

fun assign_x :: "(col_field \<Rightarrow> (f64 \<times> nat) option) \<Rightarrow> pdf_col_x \<times> f64 list \<Rightarrow> col_field list \<Rightarrow> pdf_col_x" where
  "assign_x best (m, taken) [] = m"
| "assign_x best (m, taken) (f # fs) =
    (case best f of
       None \<Rightarrow> assign_x best (m, taken) fs
     | Some (x, sc) \<Rightarrow>
        if 10 \<le> sc \<and> x \<notin> set taken
           \<and> \<not> (f = ColDebitCredit \<and> sc < 100 \<and> (best ColDebit = Some (x, 100) \<or> best ColCredit = Some (x, 100)))
        then assign_x best (col_x_set f x m, x # taken) fs
        else assign_x best (m, taken) fs)"

definition item_near :: "f64 \<Rightarrow> pdf_item list \<Rightarrow> chars" where
  "item_near x row =
    (case find (\<lambda>it. f64_less (f64_abs (f64_sub (pi_x it) x)) (f64_of 15)) row of Some it \<Rightarrow> pi_text it | None \<Rightarrow> [])"

definition join_debit_credit :: "unicode \<Rightarrow> pdf_item list \<Rightarrow> pdf_col_x \<Rightarrow> pdf_col_x" where
  "join_debit_credit U row m =
    (case (cx_debit m, cx_credit m) of
       (Some dx, Some cx) \<Rightarrow>
         if f64_less (f64_abs (f64_sub cx dx)) (f64_of 120)
         then
           (let d = to_lowercase U (item_near dx row); c = to_lowercase U (item_near cx row); has = (\<lambda>k s. has_part (lit k) s) in
            if has ''debit'' d \<and> has ''credit'' c \<and> \<not> has ''withdrawal'' d \<and> \<not> has ''deposit'' d
               \<and> \<not> has ''withdrawal'' c \<and> \<not> has ''deposit'' c \<and> 47 \<in> set d
            then m\<lparr> cx_debit_credit := Some (f64_min dx cx), cx_debit := None, cx_credit := None \<rparr> else m)
         else m
     | _ \<Rightarrow> m)"

definition header_columns :: "unicode \<Rightarrow> pdf_item list \<Rightarrow> pdf_col_x" where
  "header_columns U row =
    (let items = row @ merge_adjacent_items row (f64_of 40) in
     join_debit_credit U row (assign_x (field_best U items) (pdf_col_x_default, []) assign_order))"

fun find_header_from :: "unicode \<Rightarrow> nat \<Rightarrow> pdf_item list list \<Rightarrow> pdf_header_result option" where
  "find_header_from U i [] = None"
| "find_header_from U i (row # rows) =
    (let m = header_columns U row in
     if col_x_is_usable m then Some \<lparr> ph_hdr_idx = Some i, ph_col_x = m, ph_hdr_row = row \<rparr>
     else find_header_from U (Suc i) rows)"

definition find_pdf_header :: "unicode \<Rightarrow> pdf_item list list \<Rightarrow> pdf_header_result option" where
  "find_pdf_header U rows = find_header_from U 0 (take 60 rows)"

subsection \<open>Boundaries and cells\<close>

fun dedup_near :: "f64 list \<Rightarrow> f64 list" where
  "dedup_near (a # b # xs) =
    (if f64_less (f64_abs (f64_sub b a)) (f64_of (1 / 1000)) then dedup_near (a # xs) else a # dedup_near (b # xs))"
| "dedup_near xs = xs"

definition midpoint :: "f64 \<Rightarrow> f64 \<Rightarrow> f64" where
  "midpoint a b = f64_round (f64_div (f64_add a b) (f64_of 2))"

text \<open>Sorting the columns compares their positions with \<open>unwrap\<close>: two columns of which one is no number is a panic.\<close>

definition calc_col_boundaries :: "pdf_col_x \<Rightarrow> pdf_item list \<Rightarrow> col_boundary list option" where
  "calc_col_boundaries col_x hdr_row =
    (let detected = col_x_detected col_x in
     if 2 \<le> length detected \<and> list_ex (\<lambda>(_, x). x = NaN) detected then None
     else
       let sorted_cols = stable_sort (\<lambda>a b. f64_less (snd a) (snd b)) detected;
           raw_fences = (if hdr_row \<noteq> [] then map pi_x hdr_row else map snd sorted_cols);
           fences = dedup_near (stable_sort f64_less raw_fences) in
       Some (map (\<lambda>(f, x). \<lparr> cb_field = f,
            cb_x_min = (case rev (filter (\<lambda>fx. f64_less fx x) fences) of left # _ \<Rightarrow> midpoint left x | [] \<Rightarrow> f64_zero),
            cb_x_max = (case find (\<lambda>fx. f64_less x fx) fences of Some right \<Rightarrow> midpoint x right | None \<Rightarrow> Infinite False) \<rparr>)
          sorted_cols))"

definition in_boundary :: "f64 \<Rightarrow> col_boundary \<Rightarrow> bool" where
  "in_boundary x b \<longleftrightarrow> f64_le (cb_x_min b) x \<and> f64_less x (cb_x_max b)"

definition bucket_texts :: "pdf_item list \<Rightarrow> col_boundary list \<Rightarrow> col_field \<Rightarrow> chars list" where
  "bucket_texts row bs f =
    map pi_text (filter (\<lambda>it. case find (in_boundary (pi_x it)) bs of Some b \<Rightarrow> cb_field b = f | None \<Rightarrow> False) row)"

definition is_monetary :: "col_field \<Rightarrow> bool" where
  "is_monetary f \<longleftrightarrow> f = ColDebit \<or> f = ColCredit \<or> f = ColBalance \<or> f = ColDebitCredit"

definition cell_value_of :: "calendar \<Rightarrow> unicode \<Rightarrow> col_field \<Rightarrow> chars list \<Rightarrow> chars" where
  "cell_value_of C U f texts =
    (if is_monetary f \<and> 1 < length texts
     then
       (let joined = join_with [32] texts in
        if parse_amount_str U joined \<noteq> None then joined
        else fold (\<lambda>t best. if parse_amount_str U t \<noteq> None then t else best) texts joined)
     else if f = ColDate \<and> 1 < length texts
     then
       (case find (\<lambda>t. is_valid_date_str C U (trimmed t)) texts of
          Some s \<Rightarrow> trimmed s | None \<Rightarrow> trimmed (texts ! 0))
     else trimmed (join_with [32] texts))"

text \<open>The cells as a list: a later boundary of the same field would overwrite an earlier one, but fields are distinct.\<close>

definition assign_cells :: "calendar \<Rightarrow> unicode \<Rightarrow> pdf_item list \<Rightarrow> col_boundary list \<Rightarrow> (col_field \<times> chars) list" where
  "assign_cells C U row bs = map (\<lambda>b. (cb_field b, cell_value_of C U (cb_field b) (bucket_texts row bs (cb_field b)))) bs"

subsection \<open>Columns by content\<close>

fun splitn_by :: "nat \<Rightarrow> (int \<Rightarrow> bool) \<Rightarrow> chars \<Rightarrow> chars list" where
  "splitn_by 0 sep s = []"
| "splitn_by (Suc 0) sep s = [s]"
| "splitn_by (Suc (Suc n)) sep s =
    (let a = takeWhile (\<lambda>c. \<not> sep c) s in
     case dropWhile (\<lambda>c. \<not> sep c) s of [] \<Rightarrow> [a] | _ # rest \<Rightarrow> a # splitn_by (Suc n) sep rest)"

definition is_date_text :: "chars \<Rightarrow> bool" where
  "is_date_text s \<longleftrightarrow>
    (let t = trimmed s in
     6 \<le> byte_len t \<and> byte_len t \<le> 10
     \<and> (case splitn_by 3 (\<lambda>c. c = 47 \<or> c = 45) t of
          [a, b, c] \<Rightarrow> list_all ascii_digit a \<and> list_all ascii_digit b \<and> list_all ascii_digit c \<and> 2 \<le> byte_len c
        | _ \<Rightarrow> False))"

definition is_balcr :: "unicode \<Rightarrow> chars \<Rightarrow> bool" where
  "is_balcr U s \<longleftrightarrow>
    (let t = trimmed s; lower = to_lowercase U t in
     (has_suffix (lit ''cr'') lower \<or> has_suffix (lit ''dr'') lower)
     \<and> (let body = trim_end (take (length t - 2) t) in body \<noteq> [] \<and> ascii_digit (last body)))"

definition is_plain_amount :: "unicode \<Rightarrow> chars \<Rightarrow> bool" where
  "is_plain_amount U s0 \<longleftrightarrow>
    (let t = trimmed s0;
         s1 = (if has_prefix (lit ''rs'') (to_lowercase U t)
               then trim_start (dropWhile (\<lambda>c. uni_alpha U c \<or> c = 46) t) else t);
         s = dropWhile (\<lambda>c. c = 45) s1;
         decimals = rev (takeWhile (\<lambda>c. c \<noteq> 46) (rev s)); int_part = rev (drop 1 (dropWhile (\<lambda>c. c \<noteq> 46) (rev s))) in
     46 \<in> set s \<and> list_all ascii_digit decimals \<and> decimals \<noteq> [] \<and> byte_len decimals \<le> 2
     \<and> list_all (\<lambda>c. ascii_digit c \<or> c = 44) int_part \<and> int_part \<noteq> [])"

definition count_int_digits :: "chars \<Rightarrow> nat" where
  "count_int_digits t = length (filter ascii_digit (takeWhile (\<lambda>c. c \<noteq> 46) (filter (\<lambda>c. c \<noteq> 44) t)))"

fun f64_as_i64 :: "f64 \<Rightarrow> int" where
  "f64_as_i64 NaN = 0"
| "f64_as_i64 (Infinite s) = (if s then - (2 ^ 63) else 2 ^ 63 - 1)"
| "f64_as_i64 (Finite s m) = (if s then max (- floor m) (- (2 ^ 63)) else min (floor m) (2 ^ 63 - 1))"

datatype item_kind = KindDate | KindAmtCr | KindAmount | KindRefAmt | KindText

definition item_kind_of :: "unicode \<Rightarrow> chars \<Rightarrow> item_kind option" where
  "item_kind_of U t =
    (if is_date_text t then Some KindDate
     else if is_balcr U t then Some KindAmtCr
     else if is_plain_amount U t then Some (if count_int_digits t \<le> 10 then KindAmount else KindRefAmt)
     else if 5 < byte_len t then Some KindText else None)"

definition bucket_x :: "pdf_item \<Rightarrow> int" where
  "bucket_x item = f64_as_i64 (f64_round (f64_div (pi_x item) (f64_of 10))) * 10"

text \<open>The items that count, each with its bucket and kind; an item of no kind opens its bucket all the same.\<close>

definition bucketed :: "unicode \<Rightarrow> pdf_item list list \<Rightarrow> (int \<times> item_kind option) list" where
  "bucketed U data_rows =
    map (\<lambda>item. (bucket_x item, item_kind_of U (trimmed (pi_text item))))
      (filter (\<lambda>item. trimmed (pi_text item) \<noteq> []) (concat data_rows))"

definition kind_count :: "(int \<times> item_kind option) list \<Rightarrow> int \<Rightarrow> item_kind \<Rightarrow> nat" where
  "kind_count items x k = length (filter (\<lambda>i. i = (x, Some k)) items)"

definition data_rows_of :: "pdf_item list list \<Rightarrow> pdf_item list list" where
  "data_rows_of rows = take 12 (filter (\<lambda>row. row \<noteq> [] \<and> is_date_text (trimmed (pi_text (hd row)))) (take 40 rows))"

definition least_of :: "f64 option list \<Rightarrow> f64" where
  "least_of xs = fold (\<lambda>x m. case x of Some v \<Rightarrow> f64_min m v | None \<Rightarrow> m) xs (Infinite False)"

definition opt_hd :: "'a list \<Rightarrow> 'a option" where
  "opt_hd xs = (case xs of x # _ \<Rightarrow> Some x | [] \<Rightarrow> None)"

definition opt_last :: "'a list \<Rightarrow> 'a option" where
  "opt_last xs = opt_hd (rev xs)"

definition infer_header_from_data :: "unicode \<Rightarrow> pdf_item list list \<Rightarrow> pdf_header_result option" where
  "infer_header_from_data U rows =
    (let data_rows = data_rows_of rows; items = bucketed U data_rows; keys = sort (remdups (map fst items));
         count = kind_count items; cols = (\<lambda>p. map (\<lambda>k. f64_of (of_int k)) (filter p keys)) in
     if length data_rows < 2 \<or> length keys < 2 then None
     else
       (case cols (\<lambda>k. 2 \<le> count k KindDate) of
          [] \<Rightarrow> None
        | date_x # _ \<Rightarrow>
           let balcr_cols = cols (\<lambda>k. 1 \<le> count k KindAmtCr);
               all_amt = cols (\<lambda>k. 1 \<le> count k KindAmount \<and> count k KindRefAmt = 0 \<and> f64_less date_x (f64_of (of_int k)));
               balance = (case opt_last balcr_cols of Some x \<Rightarrow> Some x | None \<Rightarrow> opt_last all_amt);
               txn_amt = filter (\<lambda>x. \<not> (case balance of Some b \<Rightarrow> f64_eq x b | None \<Rightarrow> False)) all_amt;
               n = length txn_amt;
               debit = (if 2 \<le> n then Some (txn_amt ! (n - 2)) else if n = 1 then Some (txn_amt ! 0) else None);
               credit = (if 2 \<le> n then Some (txn_amt ! (n - 1)) else None) in
           if n = 0 \<and> balance \<noteq> None then None
           else
             let nar_max_x = least_of [debit, credit, balance];
                 narration = opt_hd (cols (\<lambda>k. 2 \<le> count k KindText \<and> f64_less date_x (f64_of (of_int k))
                    \<and> f64_less (f64_of (of_int k)) nar_max_x));
                 ref_left = (case narration of Some x \<Rightarrow> x | None \<Rightarrow> date_x);
                 reference = opt_hd (cols (\<lambda>k. 1 \<le> count k KindRefAmt \<and> f64_less ref_left (f64_of (of_int k))
                    \<and> f64_less (f64_of (of_int k)) nar_max_x)) in
             if debit = None \<and> credit = None \<and> balance = None then None
             else Some \<lparr> ph_hdr_idx = None,
               ph_col_x = \<lparr> cx_date = Some date_x, cx_narration = narration, cx_reference = reference, cx_debit = debit,
                 cx_credit = credit, cx_balance = balance, cx_debit_credit = None \<rparr>, ph_hdr_row = [] \<rparr>))"

end
