(* ===== verification/EditDistance.thy ===== *)
theory EditDistance
  imports Text
begin

text \<open>
  The Levenshtein distance of \<open>bank_detection.rs\<close> and \<open>ocr_correction.rs\<close>: the table is filled row by row, each cell
  from the three before it. The distance is the least number of single insertions, deletions and substitutions,
  and replacing letters by characters the other word does not have never brings two words closer.
\<close>

subsection \<open>The table\<close>

text \<open>The rest of a row, from the row above and the cell to the left.\<close>

fun fill_row :: "int \<Rightarrow> chars \<Rightarrow> nat list \<Rightarrow> nat \<Rightarrow> nat list" where
  "fill_row x (y # ys) (diagonal # up # row) left =
    (let cell = (if x = y then diagonal else 1 + min (min up left) diagonal) in
     cell # fill_row x ys (up # row) cell)"
| "fill_row x ys row left = []"

definition next_row :: "chars \<Rightarrow> int \<Rightarrow> nat \<times> nat list \<Rightarrow> nat \<times> nat list" where
  "next_row b x = (\<lambda>(i, row). (Suc i, Suc i # fill_row x b row (Suc i)))"

definition dp_table_end :: "chars \<Rightarrow> chars \<Rightarrow> nat" where
  "dp_table_end a b = last (snd (fold (next_row b) a (0, [0..<Suc (length b)])))"

definition levenshtein :: "chars \<Rightarrow> chars \<Rightarrow> nat" where
  "levenshtein a b = (if a = [] then length b else if b = [] then length a else dp_table_end a b)"

subsection \<open>Edits\<close>

inductive edit_step :: "chars \<Rightarrow> chars \<Rightarrow> bool" where
  insertion: "edit_step xs (x # xs)"
| deletion: "edit_step (x # xs) xs"
| substitution: "edit_step (x # xs) (y # xs)"
| later: "edit_step xs ys \<Longrightarrow> edit_step (x # xs) (x # ys)"

fun edits :: "chars \<Rightarrow> chars \<Rightarrow> nat" where
  "edits [] ys = length ys"
| "edits (x # xs) [] = Suc (length xs)"
| "edits (x # xs) (y # ys) =
    (if x = y then edits xs ys else 1 + min (min (edits xs (y # ys)) (edits (x # xs) ys)) (edits xs ys))"

lemma edits_Nil [simp]: "edits xs [] = length xs"
  by (cases xs) simp_all

lemma edits_self [simp]: "edits xs xs = 0"
  by (induction xs) simp_all

lemma edits_sym: "edits xs ys = edits ys xs"
  by (induction xs ys rule: edits.induct) (auto simp: min.commute min.left_commute)

text \<open>One character more on either side changes the distance by at most one.\<close>

lemma edits_Cons:
  "edits (x # xs) ys \<le> Suc (edits xs ys) \<and> edits xs ys \<le> Suc (edits (x # xs) ys)
   \<and> edits xs (x # ys) \<le> Suc (edits xs ys) \<and> edits xs ys \<le> Suc (edits xs (x # ys))"
proof (induction "length xs + length ys" arbitrary: x xs ys rule: less_induct)
  case less
  have left: "edits (x # xs) ys \<le> Suc (edits xs ys) \<and> edits xs ys \<le> Suc (edits (x # xs) ys)"
  proof (cases ys)
    case (Cons y ys')
    with less [of xs ys' x] less [of xs ys' y] show ?thesis by (auto simp: min_def)
  qed simp
  have right: "edits xs (x # ys) \<le> Suc (edits xs ys) \<and> edits xs ys \<le> Suc (edits xs (x # ys))"
  proof (cases xs)
    case (Cons y xs')
    with less [of xs' ys x] less [of xs' ys y] show ?thesis by (auto simp: min_def)
  qed simp
  from left right show ?case by blast
qed

lemmas edits_Cons_le =
  edits_Cons [THEN conjunct1] edits_Cons [THEN conjunct2, THEN conjunct1]
  edits_Cons [THEN conjunct2, THEN conjunct2, THEN conjunct1] edits_Cons [THEN conjunct2, THEN conjunct2, THEN conjunct2]

lemma edits_substitution: "edits (x # xs) zs \<le> Suc (edits (y # xs) zs)"
proof (induction zs)
  case (Cons z zs)
  then show ?case
    using edits_Cons_le(1) [of z xs zs] edits_Cons_le(2) [of xs zs y] edits_Cons_le(4) [of xs zs z] edits_Cons_le(2) [of xs zs z]
    by (auto simp: min_def)
qed simp

lemma edits_later:
  assumes "\<And>zs. edits xs zs \<le> Suc (edits ys zs)"
  shows "edits (x # xs) zs \<le> Suc (edits (x # ys) zs)"
proof (induction zs)
  case Nil
  show ?case using assms [of "[]"] by simp
next
  case (Cons z zs)
  show ?case using Cons assms [of zs] assms [of "z # zs"] by (auto simp: min_def)
qed

lemma edits_step: "edit_step xs ys \<Longrightarrow> edits xs zs \<le> Suc (edits ys zs)"
proof (induction arbitrary: zs rule: edit_step.induct)
  case (later xs ys x)
  show ?case by (rule edits_later) (rule later.IH)
qed (simp_all add: edits_Cons_le edits_substitution)

lemma edits_least: "(edit_step ^^ n) xs ys \<Longrightarrow> edits xs ys \<le> n"
proof -
  have "(edit_step ^^ n) xs ys \<Longrightarrow> edits xs zs \<le> n + edits ys zs" for zs
  proof (induction n arbitrary: xs)
    case (Suc n)
    then obtain us where "edit_step xs us" "(edit_step ^^ n) us ys" by (meson relpowp_Suc_E2)
    with edits_step [of xs us zs] Suc.IH [of us] show ?case by simp
  qed simp
  from this [of ys] show "(edit_step ^^ n) xs ys \<Longrightarrow> edits xs ys \<le> n" by simp
qed

lemma steps_later: "(edit_step ^^ n) xs ys \<Longrightarrow> (edit_step ^^ n) (x # xs) (x # ys)"
  by (induction n arbitrary: ys) (auto intro: edit_step.later)

lemma step_then: "edit_step xs us \<Longrightarrow> (edit_step ^^ n) us ys \<Longrightarrow> (edit_step ^^ Suc n) xs ys"
  by (rule relpowp_Suc_I2)

lemma edits_reached: "(edit_step ^^ edits xs ys) xs ys"
proof (induction xs ys rule: edits.induct)
  case (1 ys)
  show ?case
  proof (induction ys)
    case (Cons y ys)
    have "(edit_step ^^ Suc (length ys)) [] (y # ys)" by (rule step_then [OF insertion steps_later]) (use Cons in simp)
    then show ?case by simp
  qed simp
next
  case (2 x xs)
  show ?case
  proof (induction xs arbitrary: x)
    case (Cons y xs)
    have "(edit_step ^^ Suc (Suc (length xs))) (x # y # xs) []"
      by (rule step_then [OF deletion]) (use Cons [of y] in simp)
    then show ?case by simp
  qed (auto intro: deletion)
next
  case (3 x xs y ys)
  show ?case
  proof (cases "x = y")
    case True
    with 3(1) show ?thesis by (simp add: steps_later)
  next
    case False
    have "(edit_step ^^ Suc (edits xs (y # ys))) (x # xs) (y # ys)"
      by (rule step_then [OF deletion 3(2) [OF False]])
    moreover have "(edit_step ^^ Suc (edits (x # xs) ys)) (x # xs) (y # ys)"
      by (rule step_then [OF insertion steps_later [OF 3(3) [OF False]]])
    moreover have "(edit_step ^^ Suc (edits xs ys)) (x # xs) (y # ys)"
      by (rule step_then [OF substitution steps_later [OF 3(4) [OF False]]])
    ultimately show ?thesis using False by (simp add: min_def)
  qed
qed

subsection \<open>The table computes the edits of the reversed words\<close>

fun prefix_edits :: "chars \<Rightarrow> chars \<Rightarrow> chars \<Rightarrow> nat list" where
  "prefix_edits p q [] = [edits p q]"
| "prefix_edits p q (y # ys) = edits p q # prefix_edits p (y # q) ys"

lemma fill_row_edits: "fill_row x ys (prefix_edits p q ys) (edits (x # p) q) = tl (prefix_edits (x # p) q ys)"
proof (induction ys arbitrary: q)
  case (Cons y ys)
  have row: "prefix_edits p (y # q) ys = edits p (y # q) # tl (prefix_edits p (y # q) ys)" for p by (cases ys) simp_all
  have cell: "(if x = y then edits p q else 1 + min (min (edits p (y # q)) (edits (x # p) q)) (edits p q)) = edits (x # p) (y # q)"
    by simp
  let ?cell = "edits (x # p) (y # q)"
  have "fill_row x (y # ys) (prefix_edits p q (y # ys)) (edits (x # p) q)
      = fill_row x (y # ys) (edits p q # edits p (y # q) # tl (prefix_edits p (y # q) ys)) (edits (x # p) q)"
    using row [of p] by simp
  also have "\<dots> = ?cell # fill_row x ys (edits p (y # q) # tl (prefix_edits p (y # q) ys)) ?cell"
    unfolding fill_row.simps cell Let_def ..
  also have "\<dots> = ?cell # fill_row x ys (prefix_edits p (y # q) ys) ?cell" using row [of p] by simp
  also have "\<dots> = ?cell # tl (prefix_edits (x # p) (y # q) ys)" unfolding Cons ..
  also have "\<dots> = prefix_edits (x # p) (y # q) ys" by (rule row [symmetric])
  finally show ?case by simp
qed simp

lemma next_row_edits: "next_row b x (length p, prefix_edits p [] b) = (length (x # p), prefix_edits (x # p) [] b)"
proof -
  have "prefix_edits (x # p) [] b = edits (x # p) [] # tl (prefix_edits (x # p) [] b)" by (cases b) simp_all
  with fill_row_edits [of x b p "[]"] show ?thesis by (simp add: next_row_def)
qed

lemma rows_edits: "fold (next_row b) a (length p, prefix_edits p [] b) = (length (rev a @ p), prefix_edits (rev a @ p) [] b)"
proof (induction a arbitrary: p)
  case (Cons x a)
  show ?case using Cons [of "x # p"] next_row_edits [of b x p] by simp
qed simp

lemma first_row: "[length q..<Suc (length q + length b)] = prefix_edits [] q b"
proof (induction b arbitrary: q)
  case (Cons y b)
  have "[length q..<Suc (length q + length (y # b))] = length q # [length (y # q)..<Suc (length (y # q) + length b)]"
    by (subst upt_conv_Cons) simp_all
  with Cons [of "y # q"] show ?case by simp
qed simp

lemma last_prefix_edits: "last (prefix_edits p q ys) = edits p (rev ys @ q)"
proof (induction ys arbitrary: q)
  case (Cons y ys)
  have "prefix_edits p (y # q) ys \<noteq> []" by (cases ys) simp_all
  with Cons [of "y # q"] show ?case by simp
qed simp

lemma dp_table_edits: "dp_table_end a b = edits (rev a) (rev b)"
  using rows_edits [of b a "[]"] first_row [of "[]" b] last_prefix_edits [of "rev a" "[]" b]
  by (simp add: dp_table_end_def)

lemma step_rev: "edit_step xs ys \<Longrightarrow> edit_step (rev xs) (rev ys)"
proof (induction rule: edit_step.induct)
  have shift: "edit_step us vs \<Longrightarrow> edit_step (ws @ us) (ws @ vs)" for us vs ws
    by (induction ws) (auto intro: edit_step.later)
  {
    case (insertion xs x)
    show ?case using shift [OF edit_step.insertion [of "[]" x], of "rev xs"] by simp
  next
    case (deletion x xs)
    show ?case using shift [OF edit_step.deletion [of x "[]"], of "rev xs"] by simp
  next
    case (substitution x xs y)
    show ?case using shift [OF edit_step.substitution [of x "[]" y], of "rev xs"] by simp
  next
    case (later xs ys x)
    have "edit_step us vs \<Longrightarrow> edit_step (us @ [x]) (vs @ [x])" for us vs
      by (induction rule: edit_step.induct) (auto intro: edit_step.intros)
    with later show ?case by simp
  }
qed

lemma steps_rev: "(edit_step ^^ n) xs ys \<Longrightarrow> (edit_step ^^ n) (rev xs) (rev ys)"
  by (induction n arbitrary: ys) (auto intro: step_rev)

lemma edits_rev: "edits (rev xs) (rev ys) = edits xs ys"
proof (rule antisym)
  show "edits (rev xs) (rev ys) \<le> edits xs ys" by (rule edits_least [OF steps_rev [OF edits_reached]])
  have "edits (rev (rev xs)) (rev (rev ys)) \<le> edits (rev xs) (rev ys)"
    by (rule edits_least [OF steps_rev [OF edits_reached]])
  then show "edits xs ys \<le> edits (rev xs) (rev ys)" by simp
qed

lemma levenshtein_edits: "levenshtein a b = edits a b"
  by (simp add: levenshtein_def dp_table_edits edits_rev)

text \<open>C33: the distance the table computes is the least number of insertions, deletions and substitutions of single
  characters that turn the first word into the second.\<close>

theorem levenshtein_is_edit_distance: "levenshtein a b = (LEAST n. (edit_step ^^ n) a b)"
  unfolding levenshtein_edits by (rule Least_equality [symmetric]) (simp_all add: edits_reached edits_least)

subsection \<open>Foreign characters\<close>

text \<open>Replacing characters by ones the other word does not have never brings the words closer.\<close>

lemma edits_foreign:
  "(\<And>c. c \<in> set a \<Longrightarrow> f c = c \<or> f c \<notin> set b) \<Longrightarrow> edits a b \<le> edits (map f a) b"
proof (induction a b rule: edits.induct)
  case (3 x xs y ys)
  have fx: "f x = x \<or> f x \<notin> set (y # ys)" using 3(5) by simp
  have sub: "edits xs (y # ys) \<le> edits (map f xs) (y # ys)" if "x \<noteq> y" using 3 that by simp
  show ?case
  proof (cases "f x = y")
    case True
    with fx have "x = y" by auto
    moreover have "edits xs ys \<le> edits (map f xs) ys" using 3(1) [OF \<open>x = y\<close>] 3(5) by auto
    ultimately show ?thesis using True by simp
  next
    case False
    show ?thesis
    proof (cases "x = y")
      case True
      have "edits xs ys \<le> edits (map f xs) ys" using 3(1) [OF True] 3(5) by auto
      moreover have "edits (map f xs) ys \<le> Suc (edits (map f xs) (y # ys))" by (rule edits_Cons_le(4))
      moreover have "edits (map f xs) ys \<le> Suc (edits (f x # map f xs) ys)" by (rule edits_Cons_le(2))
      ultimately show ?thesis using True False by (simp add: min_def)
    next
      case neq: False
      have "edits xs ys \<le> edits (map f xs) ys" "edits (x # xs) ys \<le> edits (map f (x # xs)) ys"
        using 3(4) [OF neq] 3(3) [OF neq] 3(5) by auto
      with sub [OF neq] False neq show ?thesis by (simp add: min_def)
    qed
  qed
qed simp_all

end
