(* ===== verification/BankDetection.thy ===== *)
theory BankDetection
  imports EditDistance Patterns Float64
begin

text \<open>
  \<open>src/parser/bank_detection.rs\<close>: which bank a statement is from, by the code of a branch, a web address, a phrase of
  the letterhead, a misread abbreviation, the name of the file or the codes in the narrations, each with its
  confidence; and the masked account number and other particulars of the statement.
\<close>

subsection \<open>Banks and their words\<close>

definition ifsc_map :: "(string \<times> string) list" where
  "ifsc_map =
    [(''HDFC'', ''HDFC Bank''), (''SBIN'', ''State Bank of India''), (''ICIC'', ''ICICI Bank''),
     (''UTIB'', ''Axis Bank''), (''KKBK'', ''Kotak Mahindra Bank''), (''PUNB'', ''Punjab National Bank''),
     (''BARB'', ''Bank of Baroda''), (''BKID'', ''Bank of India''), (''MAHB'', ''Bank of Maharashtra''),
     (''CNRB'', ''Canara Bank''), (''UBIN'', ''Union Bank of India''), (''IDFB'', ''IDFC First Bank''),
     (''IBKL'', ''IDBI Bank''), (''YESB'', ''YES Bank''), (''RATN'', ''RBL Bank''),
     (''FDRL'', ''Federal Bank''), (''INDB'', ''IndusInd Bank''), (''UCBA'', ''UCO Bank''),
     (''IOBA'', ''Indian Overseas Bank''), (''IDIB'', ''Indian Bank''), (''AUBL'', ''AU Small Finance Bank''),
     (''BDBL'', ''Bandhan Bank''), (''ESFB'', ''Equitas Small Finance Bank''),
     (''UJVN'', ''Ujjivan Small Finance Bank''), (''JSFB'', ''Jana Small Finance Bank''),
     (''DCBL'', ''DCB Bank''), (''KARB'', ''Karnataka Bank''), (''SIBL'', ''South Indian Bank''),
     (''CIUB'', ''City Union Bank''), (''TMBL'', ''Tamilnad Mercantile Bank''),
     (''LAVB'', ''Lakshmi Vilas Bank''), (''NNSB'', ''Nainital Bank''), (''JAKA'', ''J&K Bank''),
     (''PYTM'', ''Paytm Payments Bank''), (''AIRP'', ''Airtel Payments Bank''),
     (''FINO'', ''Fino Payments Bank''), (''IPPB'', ''India Post Payments Bank''),
     (''CBIN'', ''Central Bank of India''), (''PSIB'', ''Punjab and Sind Bank''),
     (''COSB'', ''Cosmos Co-operative Bank''), (''SRCB'', ''Saraswat Co-op Bank''),
     (''MCBL'', ''Mahanagar Co-operative Bank''), (''SCBL'', ''Standard Chartered Bank''),
     (''HSBC'', ''HSBC Bank''), (''CITI'', ''Citibank''), (''DEUT'', ''Deutsche Bank''),
     (''BNPA'', ''BNP Paribas''), (''RBIS'', ''Reserve Bank of India'')]"

definition phrases_national :: "(string \<times> nat \<times> string list) list" where
  "phrases_national =
    [(''HDFC Bank'', 10, [''hdfc bank'', ''hdfc bank ltd'', ''hdfc bank limited'', ''hdfcbank'', ''hdfcbk'',
       ''hdfcbank.com'']),
     (''State Bank of India'', 10, [''state bank of india'', ''sbi bank'', ''sbi branch'', ''sbi.co.in'',
       ''onlinesbi.com'', ''state bank'']),
     (''ICICI Bank'', 10, [''icici bank'', ''icici bank limited'', ''icicibank'', ''icicibank.com'']),
     (''Axis Bank'', 10, [''axis bank'', ''axis bank ltd'', ''axis bank limited'', ''axisbank'',
       ''axisbank.com'']),
     (''Kotak Mahindra Bank'', 10, [''kotak mahindra bank'', ''kotak mahindra'', ''kotakbank.com'',
       ''kotak bank'', ''kotak'']),
     (''Punjab National Bank'', 10, [''punjab national bank'', ''pnb.co.in'', ''pnbindia.in'', ''pnb bank'',
       ''pnb bank limited'']),
     (''Bank of Baroda'', 10, [''bank of baroda'', ''bankofbaroda.in'', ''bankofbaroda.com'']),
     (''Central Bank of India'', 10, [''central bank of india'', ''centralbankofindia.co.in'',
       ''central bank'']),
     (''Union Bank of India'', 10, [''union bank of india'', ''unionbankofindia.co.in'', ''union bank'']),
     (''Indian Overseas Bank'', 10, [''indian overseas bank'', ''iob.in'', ''iob bank'']),
     (''Indian Bank'', 9, [''indian bank'', ''indianbank.in'']),
     (''Bank of India'', 9, [''bank of india'', ''bankofindia.co.in'', ''bank of india ltd''])]"

definition phrases_private :: "(string \<times> nat \<times> string list) list" where
  "phrases_private =
    [(''Bank of Maharashtra'', 10, [''bank of maharashtra'', ''bankofmaharashtra.in'']),
     (''Canara Bank'', 10, [''canara bank'', ''canarabank.in'', ''canarabank.com'']),
     (''IDFC First Bank'', 10, [''idfc first bank'', ''idfcfirstbank.com'', ''idfc bank'']),
     (''IDBI Bank'', 10, [''idbi bank'', ''idbi.com'', ''industrial development bank'']),
     (''YES Bank'', 10, [''yes bank'', ''yes bank limited'', ''yesbank.in'']),
     (''RBL Bank'', 10, [''rbl bank'', ''rblbank.com'', ''ratnakar bank'']),
     (''Federal Bank'', 10, [''federal bank'', ''federalbank.co.in'', ''the federal bank'']),
     (''IndusInd Bank'', 10, [''indusind bank'', ''indusind.com'', ''induslnd bank'', ''indus ind bank'']),
     (''UCO Bank'', 10, [''uco bank'', ''ucobank.com'', ''united commercial bank'']),
     (''AU Small Finance Bank'', 10, [''au small finance bank'', ''aubank.in'', ''au sfb'', ''au bank'']),
     (''Bandhan Bank'', 10, [''bandhan bank'', ''bandhanbank.com'']),
     (''Punjab and Sind Bank'', 10, [''punjab and sind bank'', ''psbindia.com'']),
     (''South Indian Bank'', 10, [''south indian bank'', ''sib.co.in'', ''the south indian bank'']),
     (''Karnataka Bank'', 10, [''karnataka bank'', ''karnatakabank.com''])]"

definition phrases_cooperative :: "(string \<times> nat \<times> string list) list" where
  "phrases_cooperative =
    [(''City Union Bank'', 10, [''city union bank'', ''cityunionbank.com'']),
     (''Tamilnad Mercantile Bank'', 10, [''tamilnad mercantile'', ''tmb bank'', ''tmbank.in'']),
     (''Lakshmi Vilas Bank'', 10, [''lakshmi vilas bank'', ''lvbank.in'']),
     (''Nainital Bank'', 10, [''nainital bank'', ''nainitalbank.co.in'']),
     (''J&K Bank'', 10, [''jammu and kashmir bank'', ''j&k bank'', ''jkbank.com'', ''j & k bank'']),
     (''DCB Bank'', 10, [''dcb bank'', ''dcbbank.in'']),
     (''Equitas Small Finance Bank'', 10, [''equitas small finance'', ''equitas bank'', ''equitasbank.com'']),
     (''Ujjivan Small Finance Bank'', 10, [''ujjivan small finance'', ''ujjivan bank'']),
     (''Jana Small Finance Bank'', 10, [''jana small finance'', ''jana bank'', ''janabank.in'']),
     (''Cosmos Co-operative Bank'', 10, [''cosmos co-operative bank'', ''cosmos co operative bank'',
       ''cosmos bank'', ''cosmos co-op'', ''cosmosbank.com'', ''cosmos cooperative'']),
     (''Saraswat Co-op Bank'', 10, [''saraswat co op'', ''saraswat co-op'', ''saraswat bank'',
       ''saraswatbank.com'', ''saraswat cooperative'', ''saraswat'', ''scbl'']),
     (''Mahanagar Co-operative Bank'', 10, [''mahanagar co-operative bank'', ''mahanagar co operative bank'',
       ''mahanagar cooperative bank'', ''mahanagar co-op'', ''mahanagar co op'', ''mahanagar bank'',
       ''gs mahanagar'', ''mahanager co-operative bank'', ''mahanager co operative bank'',
       ''mahanager cooperative bank'', ''mahanager bank'']),
     (''Paytm Payments Bank'', 10, [''paytm payments bank'', ''paytmbank.com'', ''paytm bank'']),
     (''Airtel Payments Bank'', 10, [''airtel payments bank'', ''airtelbank.com'', ''airtel bank'']),
     (''Fino Payments Bank'', 10, [''fino payments bank'', ''finobank.com'']),
     (''India Post Payments Bank'', 10, [''india post payments bank'', ''ippb.gov.in'']),
     (''HSBC Bank'', 10, [''hsbc bank'', ''hsbc india'', ''hsbc.co.in'']),
     (''Standard Chartered Bank'', 10, [''standard chartered'', ''standardchartered.co.in'']),
     (''Citibank'', 10, [''citibank'', ''citi bank'', ''citiindia.com''])]"

definition ocr_abbrevs :: "(string \<times> string \<times> nat) list" where
  "ocr_abbrevs =
    [(''SBI'', ''State Bank of India'', 1), (''HDFC'', ''HDFC Bank'', 1), (''ICICI'', ''ICICI Bank'', 1),
     (''AXIS'', ''Axis Bank'', 1), (''PNB'', ''Punjab National Bank'', 1), (''BOB'', ''Bank of Baroda'', 1),
     (''BOI'', ''Bank of India'', 1), (''BOM'', ''Bank of Maharashtra'', 1),
     (''IOB'', ''Indian Overseas Bank'', 1), (''KOTAK'', ''Kotak Mahindra Bank'', 1),
     (''IDFC'', ''IDFC First Bank'', 1), (''IDBI'', ''IDBI Bank'', 1), (''UCO'', ''UCO Bank'', 1),
     (''CBI'', ''Central Bank of India'', 1), (''RBL'', ''RBL Bank'', 1), (''DCB'', ''DCB Bank'', 1),
     (''TMB'', ''Tamilnad Mercantile Bank'', 1), (''JKB'', ''J&K Bank'', 1),
     (''SIB'', ''South Indian Bank'', 1), (''KBL'', ''Karnataka Bank'', 1), (''CUB'', ''City Union Bank'', 1),
     (''MCBL'', ''Mahanagar Co-operative Bank'', 1)]"

definition struct_patterns :: "(string list \<times> string) list" where
  "struct_patterns =
    [([''hdfcbank.com'', ''hdfc.com''], ''HDFC Bank''),
     ([''sbi.co.in'', ''onlinesbi.com''], ''State Bank of India''), ([''icicibank.com''], ''ICICI Bank''),
     ([''axisbank.com''], ''Axis Bank''), ([''kotakbank.com''], ''Kotak Mahindra Bank''),
     ([''pnb.co.in'', ''pnbindia.in''], ''Punjab National Bank''), ([''bankofbaroda.in''], ''Bank of Baroda''),
     ([''bankofindia.co.in''], ''Bank of India''), ([''canarabank.in''], ''Canara Bank''),
     ([''unionbankofindia.co.in''], ''Union Bank of India''), ([''idfcfirstbank.com''], ''IDFC First Bank''),
     ([''yesbank.in''], ''YES Bank''), ([''rblbank.com''], ''RBL Bank''),
     ([''federalbank.co.in''], ''Federal Bank''), ([''indusind.com''], ''IndusInd Bank''),
     ([''aubank.in''], ''AU Small Finance Bank''), ([''bandhanbank.com''], ''Bandhan Bank''),
     ([''cosmosbank.com''], ''Cosmos Co-operative Bank''), ([''saraswatbank.com''], ''Saraswat Co-op Bank''),
     ([''jkbank.com''], ''J&K Bank'')]"
text \<open>A phrase with its weight in tenths.\<close>

definition phrase_map :: "(string \<times> nat \<times> string list) list" where
  "phrase_map = phrases_national @ phrases_private @ phrases_cooperative"

definition bank_of_code :: "chars \<Rightarrow> string option" where
  "bank_of_code code = map_option snd (find (\<lambda>(k, _). lit k = code) ifsc_map)"

subsection \<open>Patterns\<close>

text \<open>\<open>[A-Z]\<close> and \<open>[A-Z0-9]\<close> under \<open>(?i)\<close>.\<close>

definition letter_i :: "int \<Rightarrow> bool" where
  "letter_i c \<longleftrightarrow> ascii_lower (fold_case c)"

definition alnum_i :: "int \<Rightarrow> bool" where
  "alnum_i c \<longleftrightarrow> letter_i c \<or> ascii_digit c"

definition ifsc_re :: "unicode \<Rightarrow> rx" where
  "ifsc_re U = Cats [Word U, Grp 1 (Rep 4 (Chr letter_i)), Is CHR ''0'', Rep 6 (Chr alnum_i), Word U]"

definition ifsc_labeled_re :: rx where
  "ifsc_labeled_re = Cats [Alts [LitsI ''ifsc'', Cats [LitsI ''branch'', Many Blank, LitsI ''ifsc''],
       Cats [LitsI ''ifsc'', Many Blank, LitsI ''code'']],
     Many Blank, Opt (AnyOf '':-''), Many Blank, Grp 1 (Rep 4 (Chr letter_i)), Is CHR ''0'', Rep 6 (Chr alnum_i)]"

definition separators_re :: "string \<Rightarrow> rx" where
  "separators_re cs = Chr (\<lambda>c. white c \<or> c \<in> set (lit cs))"

definition acct_re :: rx where
  "acct_re = Cats [LitsI ''a'', Alts [LitsI ''ccount'', LitsI ''cct'', LitsI ''/c''], Many (separators_re ''.-''),
     Opt (Alts [LitsI ''no'', LitsI ''number'', LitsI ''num'', Is CHR ''#'']), Many (separators_re '':-''),
     Grp 1 (Between 6 20 (Chr ascii_digit))]"

definition ifsc_lbl_re :: rx where
  "ifsc_lbl_re = Cats [Alts [LitsI ''ifsc'', Cats [LitsI ''branch'', Some1 Blank, LitsI ''ifsc''],
       Cats [LitsI ''ifsc'', Some1 Blank, LitsI ''code'']],
     Many (separators_re '':-''), Grp 1 (Cats [Rep 4 (Chr letter_i), Is CHR ''0'', Rep 6 (Chr alnum_i)])]"

definition branch_re :: rx where
  "branch_re = Cats [Alt (Cats [LitsI ''branch'', Many Blank, Alt (LitsI ''name'') (Is CHR '':'')])
       (Cats [LitsI ''home'', Many Blank, LitsI ''branch'']),
     Some1 (separators_re '':-''), Grp 1 (Cat (Chr letter_i) (Between 2 49 (Chr (\<lambda>c. c \<noteq> 10 \<and> c \<noteq> 13 \<and> c \<noteq> 44))))]"

definition day_re :: "unicode \<Rightarrow> rx" where
  "day_re U = Cats [Between 1 2 (Digit U), AnyOf ''/-.'', Between 1 2 (Digit U), AnyOf ''/-.'', Between 2 4 (Digit U)]"

definition period_re :: "unicode \<Rightarrow> rx" where
  "period_re U = Cats [Alt (Cats [Alt (LitsI ''statement'') (LitsI ''from''), Many Blank,
         Opt (Alt (LitsI ''date'') (LitsI ''period'')), Some1 (separators_re '':-'')])
       (Cat (LitsI ''period'') (Some1 (separators_re '':-''))),
     Grp 1 (day_re U), Many Blank, Alt (LitsI ''to'') (Chr (\<lambda>c. c = 45 \<or> c = 0x2013)), Many Blank, Grp 2 (day_re U)]"

definition stmt_id_re :: rx where
  "stmt_id_re = Cats [LitsI ''statement'', Many Blank,
     Alts [LitsI ''id'', LitsI ''number'', Cat (LitsI ''ref'') (Opt (LitsI ''erence''))], Some1 (separators_re '':-''),
     Grp 1 (Between 6 30 (Chr (\<lambda>c. alnum_i c \<or> c = 47 \<or> c = 45)))]"

definition txn_ref_re :: "unicode \<Rightarrow> rx" where
  "txn_ref_re U = Cats [Word U,
     Alts (map LitsI [''UPI'', ''NEFT'', ''IMPS'', ''RTGS'', ''ECS'', ''NACH'', ''ACH'', ''POS'']),
     UpTo 3 (Chr letter_i), Opt (AnyOf '':-''), Opt (Is CHR ''/''),
     Between 6 100 (Chr (\<lambda>c. alnum_i c \<or> c \<in> set (lit ''@/.-'')))]"

subsection \<open>Words\<close>

definition misread_digit :: "int \<Rightarrow> int" where
  "misread_digit c = (if c = 79 \<or> c = 111 then 48 else if c = 108 then 49 else if c = 83 then 53 else if c = 90 then 50
     else if c = 66 then 56 else if c = 71 then 54 else if c = 73 then 49 else c)"

definition repair_abbrev :: "chars \<Rightarrow> chars" where
  "repair_abbrev tok = (if byte_len tok < 2 \<or> 8 < byte_len tok then tok else map misread_digit tok)"

definition norm_text :: "unicode \<Rightarrow> chars \<Rightarrow> chars" where
  "norm_text U s =
    join_with [32] (split_whitespace
      (map (\<lambda>c. if ascii_alnum c \<or> c = 46 \<or> c = 64 then c else 32) (to_lowercase U s)))"

definition extract_ifscs :: "unicode \<Rightarrow> chars \<Rightarrow> chars list" where
  "extract_ifscs U s = map (\<lambda>g. to_uppercase U (cap_text g 1)) (captures_iter (ifsc_re U) s)"

text \<open>The first occurrence of a phrase with no letter or digit on either side; the texts are ASCII, so a position
  counts characters and bytes alike.\<close>

fun find_word_from :: "chars \<Rightarrow> nat \<Rightarrow> chars \<Rightarrow> chars \<Rightarrow> nat option" where
  "find_word_from phrase i pre [] = None"
| "find_word_from phrase i pre (c # s) =
    (if has_prefix phrase (c # s)
        \<and> (case pre of [] \<Rightarrow> True | b # _ \<Rightarrow> \<not> ascii_alnum b)
        \<and> (case drop (length phrase) (c # s) of [] \<Rightarrow> True | a # _ \<Rightarrow> \<not> ascii_alnum a)
     then Some i else find_word_from phrase (Suc i) (c # pre) s)"

definition find_word_bounded :: "chars \<Rightarrow> chars \<Rightarrow> nat option" where
  "find_word_bounded s phrase = find_word_from phrase 0 [] s"

definition strip_transaction_references :: "unicode \<Rightarrow> chars \<Rightarrow> chars" where
  "strip_transaction_references U s = blank_out (txn_ref_re U) s"

subsection \<open>The ways to find a bank\<close>

record detect_hit =
  hit_bank :: string
  hit_confidence :: f64
  hit_method :: string
  hit_ifsc :: "chars option"

definition percent :: "nat \<Rightarrow> f64" where
  "percent n = f64_of (of_nat n / 100)"

definition phrase_confidence :: "nat \<Rightarrow> f64" where
  "phrase_confidence weight = f64_min (f64_mul (percent 95) (f64_of (of_nat weight / 10))) (percent 95)"

definition better_phrase ::
  "chars \<Rightarrow> string \<times> nat \<Rightarrow> string \<Rightarrow> (nat \<times> nat \<times> string) option \<Rightarrow> (nat \<times> nat \<times> string) option" where
  "better_phrase s entry phrase best =
    (case find_word_bounded s (lit phrase) of
       None \<Rightarrow> best
     | Some pos \<Rightarrow>
        (case best of
           Some (best_pos, _) \<Rightarrow> if pos < best_pos then Some (pos, snd entry, fst entry) else best
         | None \<Rightarrow> Some (pos, snd entry, fst entry)))"

definition best_phrase :: "chars \<Rightarrow> (nat \<times> nat \<times> string) option" where
  "best_phrase s = fold (\<lambda>(bank, weight, phrases) best. fold (better_phrase s (bank, weight)) phrases best) phrase_map None"

definition detect_by_phrase :: "chars \<Rightarrow> detect_hit option" where
  "detect_by_phrase s =
    map_option (\<lambda>(_, weight, bank). \<lparr> hit_bank = bank, hit_confidence = phrase_confidence weight,
        hit_method = ''phrase'', hit_ifsc = None \<rparr>) (best_phrase s)"

definition labeled_ifsc :: "unicode \<Rightarrow> chars \<Rightarrow> detect_hit option" where
  "labeled_ifsc U s =
    (case captures ifsc_labeled_re s of
       None \<Rightarrow> None
     | Some g \<Rightarrow>
        map_option (\<lambda>bank. \<lparr> hit_bank = bank, hit_confidence = percent 98, hit_method = ''ifsc_labeled'',
            hit_ifsc = map_option (\<lambda>(_, m, _, _). to_uppercase U m) (find_match (ifsc_re U) [] s) \<rparr>)
          (bank_of_code (to_uppercase U (cap_text g 1))))"

definition any_ifsc :: "unicode \<Rightarrow> chars \<Rightarrow> detect_hit option" where
  "any_ifsc U s =
    (case find (\<lambda>code. bank_of_code code \<noteq> None) (extract_ifscs U s) of
       None \<Rightarrow> None
     | Some code \<Rightarrow> Some \<lparr> hit_bank = the (bank_of_code code), hit_confidence = percent 80, hit_method = ''ifsc_any'',
         hit_ifsc = None \<rparr>)"

definition detect_by_ifsc :: "unicode \<Rightarrow> chars \<Rightarrow> detect_hit option" where
  "detect_by_ifsc U s = (case labeled_ifsc U s of Some h \<Rightarrow> Some h | None \<Rightarrow> any_ifsc U s)"

definition abbrev_near :: "chars \<Rightarrow> (string \<times> string \<times> nat) option" where
  "abbrev_near w = find (\<lambda>(abbrev, _, max_dist). levenshtein w (lit abbrev) \<le> max_dist) ocr_abbrevs"

definition raw_hit :: "chars \<Rightarrow> detect_hit option" where
  "raw_hit w =
    map_option (\<lambda>(abbrev, bank, _). \<lparr> hit_bank = bank, hit_confidence = (if w = lit abbrev then percent 85 else percent 72),
        hit_method = (if w = lit abbrev then ''abbrev_exact'' else ''abbrev_fuzzy''), hit_ifsc = None \<rparr>) (abbrev_near w)"

definition repaired_hit :: "chars \<Rightarrow> detect_hit option" where
  "repaired_hit w =
    (if repair_abbrev w \<noteq> w
     then map_option (\<lambda>(_, bank, _). \<lparr> hit_bank = bank, hit_confidence = percent 72,
        hit_method = ''abbrev_fuzzy_repaired'', hit_ifsc = None \<rparr>) (abbrev_near (repair_abbrev w))
     else None)"

fun fuzzy_words :: "chars list \<Rightarrow> detect_hit option" where
  "fuzzy_words [] = None"
| "fuzzy_words (w # ws) =
    (case raw_hit w of
       Some h \<Rightarrow> Some h
     | None \<Rightarrow> (case repaired_hit w of Some h \<Rightarrow> Some h | None \<Rightarrow> fuzzy_words ws))"

definition header_words :: "unicode \<Rightarrow> chars \<Rightarrow> chars list" where
  "header_words U s =
    filter (\<lambda>w. 3 \<le> byte_len w \<and> byte_len w \<le> 8) (split_at (\<lambda>c. c \<in> set (lit '' /'') \<or> c \<in> {92, 45, 124, 44, 46, 95, 64}) (to_uppercase U s))"

definition detect_by_fuzzy :: "unicode \<Rightarrow> chars \<Rightarrow> detect_hit option" where
  "detect_by_fuzzy U s = fuzzy_words (header_words U s)"

definition detect_by_filename :: "unicode \<Rightarrow> chars \<Rightarrow> detect_hit option" where
  "detect_by_filename U filename =
    map_option (\<lambda>h. \<lparr> hit_bank = hit_bank h, hit_confidence = f64_min (hit_confidence h) (percent 65),
        hit_method = ''filename'', hit_ifsc = None \<rparr>)
      (case detect_by_phrase (norm_text U filename) of Some h \<Rightarrow> Some h | None \<Rightarrow> detect_by_fuzzy U filename)"

text \<open>\<open>max_by_key\<close> over a hash map takes the last of the most frequent codes in the order \<open>by_hash\<close> of the map.\<close>

definition most_frequent :: "(chars list \<Rightarrow> chars list) \<Rightarrow> chars list \<Rightarrow> (chars \<times> nat) option" where
  "most_frequent by_hash codes =
    (case by_hash (remdups codes) of
       [] \<Rightarrow> None
     | k # ks \<Rightarrow>
        let best = fold (\<lambda>c b. if count_list codes c < count_list codes b then b else c) ks k in
        Some (best, count_list codes best))"

definition detect_by_narrations :: "(chars list \<Rightarrow> chars list) \<Rightarrow> unicode \<Rightarrow> chars list \<Rightarrow> detect_hit option" where
  "detect_by_narrations by_hash U narrations =
    (let codes = extract_ifscs U (join_with [32] (take 50 narrations)) in
     if narrations = [] \<or> codes = [] then None
     else
       (case most_frequent by_hash codes of
          None \<Rightarrow> None
        | Some (code, cnt) \<Rightarrow>
           if cnt < 2 then None
           else map_option (\<lambda>bank. \<lparr> hit_bank = bank, hit_confidence = percent 55, hit_method = ''narration_ifsc'',
               hit_ifsc = None \<rparr>) (bank_of_code code)))"

definition detect_by_structure :: "chars \<Rightarrow> detect_hit option" where
  "detect_by_structure s =
    map_option (\<lambda>(_, bank). \<lparr> hit_bank = bank, hit_confidence = percent 95, hit_method = ''domain'', hit_ifsc = None \<rparr>)
      (find (\<lambda>(alts, _). is_match (Alts (map LitsI alts)) s) struct_patterns)"

subsection \<open>The particulars of a statement\<close>

record statement_meta =
  sm_account_no :: chars
  sm_ifsc :: chars
  sm_branch :: chars
  sm_statement_period :: chars
  sm_statement_id :: chars

definition masked :: "chars \<Rightarrow> chars" where
  "masked raw =
    (if 8 < length raw then take 4 raw @ replicate (length raw - 8) 88 @ drop (length raw - 4) raw else raw)"

definition meta_of :: "rx \<Rightarrow> ((nat \<Rightarrow> chars option) \<Rightarrow> chars) \<Rightarrow> chars \<Rightarrow> chars" where
  "meta_of r f s = (case captures r s of Some g \<Rightarrow> f g | None \<Rightarrow> [])"

definition extract_meta :: "unicode \<Rightarrow> chars \<Rightarrow> statement_meta" where
  "extract_meta U s =
    \<lparr> sm_account_no = meta_of acct_re (\<lambda>g. masked (trimmed (cap_text g 1))) s,
      sm_ifsc = meta_of ifsc_lbl_re (\<lambda>g. trimmed (cap_text g 1)) s,
      sm_branch = meta_of branch_re (\<lambda>g. join_with [32] (split_whitespace (cap_text g 1))) s,
      sm_statement_period = meta_of (period_re U) (\<lambda>g. cap_text g 1 @ lit '' to '' @ cap_text g 2) s,
      sm_statement_id = meta_of stmt_id_re (\<lambda>g. trimmed (cap_text g 1)) s \<rparr>"

subsection \<open>Detection\<close>

record bank_detection_result =
  bd_bank_name :: chars
  bd_confidence :: f64
  bd_method :: string
  bd_account_no :: chars
  bd_ifsc :: chars
  bd_branch :: chars
  bd_statement_period :: chars
  bd_statement_id :: chars
  bd_needs_review :: bool
  bd_source_file :: chars

record detect_options =
  do_text :: chars
  do_header_text :: chars
  do_filename :: chars
  do_narrations :: "chars list"

definition below :: "nat \<Rightarrow> detect_hit option \<Rightarrow> bool" where
  "below n result \<longleftrightarrow> (case result of None \<Rightarrow> True | Some r \<Rightarrow> f64_less (hit_confidence r) (percent n))"

definition update_hit :: "detect_hit option \<Rightarrow> detect_hit option \<Rightarrow> detect_hit option" where
  "update_hit hit result =
    (case hit of
       None \<Rightarrow> result
     | Some h \<Rightarrow>
        (case result of
           None \<Rightarrow> Some h
         | Some r \<Rightarrow> if f64_less (hit_confidence r) (hit_confidence h) then Some h else result))"

definition phrase_in_full :: "unicode \<Rightarrow> chars \<Rightarrow> detect_hit option" where
  "phrase_in_full U s =
    map_option (\<lambda>h. h\<lparr>hit_confidence := f64_min (hit_confidence h) (percent 80), hit_method := ''phrase_full''\<rparr>)
      (detect_by_phrase (norm_text U (strip_transaction_references U s)))"

definition tier :: "nat \<Rightarrow> detect_hit option \<Rightarrow> detect_hit option \<Rightarrow> detect_hit option" where
  "tier n hit result = (if below n result then update_hit hit result else result)"

definition best_hit :: "(chars list \<Rightarrow> chars list) \<Rightarrow> unicode \<Rightarrow> detect_options \<Rightarrow> detect_hit option" where
  "best_hit by_hash U opts =
    (let header = do_header_text opts; labeled = (if header = [] then None else detect_by_ifsc U header);
         r1 = update_hit labeled None;
         r2 = tier 95 (detect_by_structure (do_text opts)) r1;
         r3 = tier 95 (detect_by_phrase (norm_text U header)) r2;
         r4 = tier 75 (detect_by_fuzzy U header) r3;
         r5 = tier 82 (phrase_in_full U (do_text opts)) r4;
         r6 = tier 70 (detect_by_filename U (do_filename opts)) r5;
         r7 = tier 60 (detect_by_narrations by_hash U (do_narrations opts)) r6 in
     case labeled of
       Some h \<Rightarrow> if f64_le (percent 98) (hit_confidence h) then update_hit labeled r7 else r7
     | None \<Rightarrow> r7)"

definition detect_bank :: "(chars list \<Rightarrow> chars list) \<Rightarrow> unicode \<Rightarrow> detect_options \<Rightarrow> bank_detection_result" where
  "detect_bank by_hash U opts =
    (let result = best_hit by_hash U opts;
         meta = extract_meta U (if do_text opts \<noteq> [] then do_text opts else do_header_text opts);
         bank_name = (case result of Some r \<Rightarrow> lit (hit_bank r) | None \<Rightarrow> []);
         confidence = (case result of Some r \<Rightarrow> hit_confidence r | None \<Rightarrow> f64_zero) in
     \<lparr> bd_bank_name = bank_name, bd_confidence = confidence,
       bd_method = (case result of Some r \<Rightarrow> hit_method r | None \<Rightarrow> ''none''), bd_account_no = sm_account_no meta,
       bd_ifsc = (case Option.bind result hit_ifsc of Some i \<Rightarrow> i | None \<Rightarrow> sm_ifsc meta), bd_branch = sm_branch meta,
       bd_statement_period = sm_statement_period meta, bd_statement_id = sm_statement_id meta,
       bd_needs_review = (f64_less confidence (percent 60) \<and> bank_name \<noteq> []), bd_source_file = do_filename opts \<rparr>)"

definition match_bank :: "unicode \<Rightarrow> chars \<Rightarrow> chars" where
  "match_bank U s =
    (case detect_by_phrase (norm_text U s) of
       Some h \<Rightarrow> lit (hit_bank h)
     | None \<Rightarrow>
        (case detect_by_ifsc U s of
           Some h \<Rightarrow> lit (hit_bank h)
         | None \<Rightarrow> (case detect_by_fuzzy U s of Some h \<Rightarrow> lit (hit_bank h) | None \<Rightarrow> [])))"

end
