(* ===== verification/ExcelParser.thy ===== *)
theory ExcelParser
  imports BalanceRules ColumnDetector NoiseFilter BankDetection
begin

text \<open>
  \<open>src/parser/excel_parser.rs\<close>: the transactions of a sheet. A sheet is the grid of its cells; the file reader
  (calamine) is not modelled, so a workbook is the list of its sheets.
\<close>

subsection \<open>Cells\<close>

datatype grid_cell = EmptyCell | SerialCell f64 | NumberCell f64 | TextCell chars

definition max_header_scan :: nat where "max_header_scan = 50"
definition content_sample :: nat where "content_sample = 15"
definition excel_date_min :: f64 where "excel_date_min = f64_of 36526"
definition excel_date_max :: f64 where "excel_date_max = f64_of 54789"

definition re_cr_suffix :: "unicode \<Rightarrow> rx" where
  "re_cr_suffix U = Cats [Word U, LitsI ''Cr'', Opt (Is CHR ''.''), Many Blank, AtEnd]"

definition re_dr_suffix :: "unicode \<Rightarrow> rx" where
  "re_dr_suffix U = Cats [Word U, LitsI ''Dr'', Opt (Is CHR ''.''), Many Blank, AtEnd]"

definition re_opening_bal :: rx where
  "re_opening_bal = Cats [LitsI ''opening'', Many Blank, Alt (LitsI ''balance'') (LitsI ''bal'')]"

definition re_closing_bal :: rx where
  "re_closing_bal = Cats [LitsI ''closing'', Many Blank, Alt (LitsI ''balance'') (LitsI ''bal'')]"

fun as_detect_str :: "grid_cell \<Rightarrow> chars" where
  "as_detect_str EmptyCell = []"
| "as_detect_str (SerialCell f) = format_shortest f"
| "as_detect_str (NumberCell f) = format_shortest f"
| "as_detect_str (TextCell s) = s"

fun as_date :: "calendar \<Rightarrow> unicode \<Rightarrow> grid_cell \<Rightarrow> parsed_date" where
  "as_date C U EmptyCell = \<lparr> pd_display = [], pd_ts = 0, pd_valid = False \<rparr>"
| "as_date C U (SerialCell f) =
    (case normalize_excel_date C f of Some pd \<Rightarrow> pd | None \<Rightarrow> normalize_transaction_date C U (format_shortest f))"
| "as_date C U (NumberCell f) =
    (case (if f64_less excel_date_min f \<and> f64_less f excel_date_max then normalize_excel_date C f else None) of
       Some pd \<Rightarrow> pd | None \<Rightarrow> normalize_transaction_date C U (format_shortest f))"
| "as_date C U (TextCell s) = normalize_transaction_date C U s"

fun as_amount :: "unicode \<Rightarrow> grid_cell \<Rightarrow> f64 option" where
  "as_amount U EmptyCell = None"
| "as_amount U (SerialCell f) = None"
| "as_amount U (NumberCell f) = parse_amount U (CellNumber f)"
| "as_amount U (TextCell s) = parse_amount_str U s"

fun raw_str :: "grid_cell \<Rightarrow> chars" where
  "raw_str EmptyCell = []"
| "raw_str (SerialCell f) = format_shortest f"
| "raw_str (NumberCell f) = format_shortest f"
| "raw_str (TextCell s) = s"

type_synonym grid = "grid_cell list list"

subsection \<open>Columns by content\<close>

record col_stats =
  cs_total :: nat
  cs_date_cnt :: nat
  cs_num_cnt :: nat
  cs_txt_cnt :: nat
  cs_avg_len :: f64

definition column_values :: "grid \<Rightarrow> nat \<Rightarrow> chars list" where
  "column_values sample c = filter (\<lambda>v. v \<noteq> []) (map (\<lambda>row. if c < length row then raw_str (row ! c) else []) sample)"

definition stats_of :: "calendar \<Rightarrow> unicode \<Rightarrow> grid \<Rightarrow> nat \<Rightarrow> col_stats" where
  "stats_of C U sample c =
    (let vals = column_values sample c; total = max (length vals) 1;
         is_date = (\<lambda>v. pd_valid (normalize_transaction_date C U v)); is_num = (\<lambda>v. parse_amount_str U v \<noteq> None) in
     \<lparr> cs_total = total, cs_date_cnt = length (filter is_date vals), cs_num_cnt = length (filter is_num vals),
       cs_txt_cnt = length (filter (\<lambda>v. v \<noteq> [] \<and> \<not> is_num v \<and> \<not> is_date v) vals),
       cs_avg_len = f64_div (f64_of (of_nat (sum_list (map byte_len vals)))) (f64_of (of_nat total)) \<rparr>)"

text \<open>\<open>max_by\<close>: the last of the greatest.\<close>

fun last_max :: "('a \<Rightarrow> 'a \<Rightarrow> bool) \<Rightarrow> 'a list \<Rightarrow> 'a option" where
  "last_max lt [] = None"
| "last_max lt (x # xs) =
    Some (fold (\<lambda>y best. if lt y best then best else y) xs x)"

definition claimed :: "column_map \<Rightarrow> int list" where
  "claimed m = filter (\<lambda>v. 0 \<le> v) [cm_date m, cm_narration m, cm_reference m, cm_debit m, cm_credit m, cm_balance m, cm_debit_credit m]"

definition fill_by_count ::
  "nat \<Rightarrow> (nat \<Rightarrow> col_stats) \<Rightarrow> (col_stats \<Rightarrow> bool) \<Rightarrow> (col_stats \<Rightarrow> nat) \<Rightarrow> int list \<Rightarrow> nat option" where
  "fill_by_count n stats enough key taken =
    last_max (\<lambda>a b. key (stats a) < key (stats b)) (filter (\<lambda>c. int c \<notin> set taken \<and> enough (stats c)) [0..<n])"

definition fill_date :: "nat \<Rightarrow> (nat \<Rightarrow> col_stats) \<Rightarrow> column_map \<times> int list \<Rightarrow> column_map \<times> int list" where
  "fill_date n stats = (\<lambda>(m, taken).
    if cm_date m < 0
    then (case fill_by_count n stats (\<lambda>s. cs_total s < cs_date_cnt s * 2) cs_date_cnt taken of
            Some c \<Rightarrow> (m\<lparr>cm_date := int c\<rparr>, int c # taken) | None \<Rightarrow> (m, taken))
    else (m, taken))"

definition fill_balance :: "nat \<Rightarrow> (nat \<Rightarrow> col_stats) \<Rightarrow> column_map \<times> int list \<Rightarrow> column_map \<times> int list" where
  "fill_balance n stats = (\<lambda>(m, taken).
    if cm_balance m < 0
    then (case fill_by_count n stats (\<lambda>s. cs_total s * 7 < cs_num_cnt s * 10) cs_num_cnt taken of
            Some c \<Rightarrow> (m\<lparr>cm_balance := int c\<rparr>, int c # taken) | None \<Rightarrow> (m, taken))
    else (m, taken))"

definition fill_amounts :: "nat \<Rightarrow> (nat \<Rightarrow> col_stats) \<Rightarrow> column_map \<times> int list \<Rightarrow> column_map \<times> int list" where
  "fill_amounts n stats = (\<lambda>(m, taken).
    if cm_debit m < 0 \<and> cm_credit m < 0
    then (case filter (\<lambda>c. int c \<notin> set taken \<and> cs_total (stats c) * 3 < cs_num_cnt (stats c) * 10) [0..<n] of
            a # b # _ \<Rightarrow> (m\<lparr>cm_debit := int a, cm_credit := int b\<rparr>, int a # int b # taken)
          | [a] \<Rightarrow> (m\<lparr>cm_debit := int a\<rparr>, int a # taken)
          | [] \<Rightarrow> (m, taken))
    else (m, taken))"

definition fill_narration :: "nat \<Rightarrow> (nat \<Rightarrow> col_stats) \<Rightarrow> column_map \<times> int list \<Rightarrow> column_map" where
  "fill_narration n stats = (\<lambda>(m, taken).
    if cm_narration m < 0
    then (case last_max (\<lambda>a b. f64_less (cs_avg_len (stats a)) (cs_avg_len (stats b)))
                 (filter (\<lambda>c. int c \<notin> set taken \<and> cs_total (stats c) * 3 < cs_txt_cnt (stats c) * 10) [0..<n]) of
            Some c \<Rightarrow> m\<lparr>cm_narration := int c\<rparr> | None \<Rightarrow> m)
    else m)"

definition sample_rows :: "grid \<Rightarrow> nat \<Rightarrow> grid" where
  "sample_rows g hdr_idx = take content_sample (filter (list_ex (\<lambda>c. c \<noteq> EmptyCell)) (drop (hdr_idx + 1) g))"

definition detect_cols_from_content :: "calendar \<Rightarrow> unicode \<Rightarrow> grid \<Rightarrow> nat \<Rightarrow> column_map \<Rightarrow> column_map" where
  "detect_cols_from_content C U g hdr_idx existing =
    (let sample = sample_rows g hdr_idx in
     if length sample < 3 then existing
     else
       let n = fold max (map length sample) 0; stats = stats_of C U sample in
       fill_narration n stats (fill_amounts n stats (fill_balance n stats (fill_date n stats (existing, claimed existing)))))"

subsection \<open>The header\<close>

fun find_header_row :: "unicode \<Rightarrow> nat \<Rightarrow> (nat \<times> column_map) option \<Rightarrow> grid \<Rightarrow> (nat \<times> column_map) option" where
  "find_header_row U i candidate [] = candidate"
| "find_header_row U i candidate (row # rows) =
    (let m = detect_excel_cols U (map as_detect_str row) in
     if has_date m \<and> 0 \<le> cm_narration m \<and> has_amount m then Some (i, m)
     else find_header_row U (Suc i)
       (if candidate = None \<and> has_date m \<and> has_amount m then Some (i, m) else candidate) rows)"

subsection \<open>Rows\<close>

definition cell_get :: "grid_cell list \<Rightarrow> int \<Rightarrow> grid_cell" where
  "cell_get row c = (if 0 \<le> c \<and> nat c < length row then row ! nat c else EmptyCell)"

definition stripped_number :: "chars \<Rightarrow> chars" where
  "stripped_number s = filter (\<lambda>c. c \<noteq> 0x20B9 \<and> \<not> white c \<and> c \<noteq> 44) s"

definition row_amounts :: "unicode \<Rightarrow> column_map \<Rightarrow> grid_cell list \<Rightarrow> f64 option \<times> f64 option" where
  "row_amounts U m row =
    (let raw = cell_get row (cm_debit_credit m) in
     if raw_str raw \<noteq> []
     then (case as_amount U raw of
             None \<Rightarrow> (None, None)
           | Some signed_amt \<Rightarrow>
              if f64_less signed_amt f64_zero \<or> take 1 (stripped_number (raw_str raw)) = [45]
              then (Some (f64_abs signed_amt), None) else (None, Some signed_amt))
     else (as_amount U (cell_get row (cm_debit m)), as_amount U (cell_get row (cm_credit m))))"

definition negative_to_abs :: "f64 option \<times> f64 option \<Rightarrow> f64 option \<times> f64 option" where
  "negative_to_abs = (\<lambda>(debit, credit).
    case (debit, credit) of
      (Some dr, None) \<Rightarrow> (if f64_less dr f64_zero then Some (f64_abs dr) else debit, credit)
    | (None, Some cr) \<Rightarrow> (debit, if f64_less cr f64_zero then Some (f64_abs cr) else credit)
    | _ \<Rightarrow> (debit, credit))"

definition plus_to_credit :: "column_map \<Rightarrow> grid_cell list \<Rightarrow> f64 option \<times> f64 option \<Rightarrow> f64 option \<times> f64 option" where
  "plus_to_credit m row = (\<lambda>(debit, credit).
    if debit \<noteq> None \<and> credit = None \<and> cm_credit m < 0
       \<and> take 1 (stripped_number (raw_str (cell_get row (cm_debit m)))) = [43]
    then (None, debit) else (debit, credit))"

definition suffix_direction :: "unicode \<Rightarrow> column_map \<Rightarrow> grid_cell list \<Rightarrow> f64 option \<times> f64 option \<Rightarrow> f64 option \<times> f64 option" where
  "suffix_direction U m row = (\<lambda>(debit, credit).
    let (d1, c1) = (if debit \<noteq> None \<and> credit = None \<and> is_match (re_cr_suffix U) (raw_str (cell_get row (cm_debit m)))
           then (None, debit) else (debit, credit)) in
    if c1 \<noteq> None \<and> d1 = None \<and> is_match (re_dr_suffix U) (raw_str (cell_get row (cm_credit m)))
    then (c1, None) else (d1, c1))"

record sheet_state =
  ss_txns :: "transaction list"
  ss_opening :: "f64 option"
  ss_closing :: "f64 option"

definition has_word :: "chars \<Rightarrow> string list \<Rightarrow> bool" where
  "has_word s ws \<longleftrightarrow> list_ex (\<lambda>w. has_part (lit w) s) ws"

definition append_narration :: "chars \<Rightarrow> transaction list \<Rightarrow> transaction list" where
  "append_narration narration txns =
    (case rev txns of
       [] \<Rightarrow> txns
     | prev # before_it \<Rightarrow> rev before_it @ [prev\<lparr>txn_narration := txn_narration prev @ 32 # narration\<rparr>])"

definition sheet_transaction ::
  "unicode \<Rightarrow> column_map \<Rightarrow> nat \<Rightarrow> grid_cell list \<Rightarrow> parsed_date \<Rightarrow> chars \<Rightarrow> f64 option \<times> f64 option \<Rightarrow> f64 option \<Rightarrow> nat \<Rightarrow> transaction" where
  "sheet_transaction U m i row nd narration amounts balance n =
    (let (debit, credit) = suffix_direction U m row (plus_to_credit m row (negative_to_abs amounts)) in
     (transaction_new (lit ''t_'' @ dec (int i) @ 95 # dec (int n)))
       \<lparr> txn_date := pd_display nd, txn_date_ts := pd_ts nd, txn_narration := narration,
         txn_reference := trimmed (raw_str (cell_get row (cm_reference m))),
         txn_debit := debit, txn_credit := credit, txn_balance := balance \<rparr>)"

definition sheet_row :: "calendar \<Rightarrow> unicode \<Rightarrow> column_map \<Rightarrow> nat \<times> grid_cell list \<Rightarrow> sheet_state \<Rightarrow> sheet_state" where
  "sheet_row C U m = (\<lambda>(i, row) st.
    let narration = trimmed (raw_str (cell_get row (cm_narration m))); nd = as_date C U (cell_get row (cm_date m));
        amounts = row_amounts U m row; (debit, credit) = amounts;
        balance = as_amount U (cell_get row (cm_balance m)); nl = to_lowercase U narration;
        balance_only = (balance \<noteq> None \<and> debit = None \<and> credit = None) in
    if \<not> pd_valid nd \<and> narration = [] \<and> debit = None \<and> credit = None \<and> balance = None then st
    else if balance_only \<and> ss_closing st = None \<and> has_word nl [''closing'', ''c/f'', ''carried forward'']
    then st\<lparr>ss_closing := balance\<rparr>
    else if balance_only \<and> ss_opening st = None
      \<and> (narration = [] \<or> has_word nl [''opening'', ''brought forward'', ''b/f'', ''b/d''])
    then st\<lparr>ss_opening := balance\<rparr>
    else if is_noise_row U narration then st
    else if \<not> pd_valid nd \<and> narration \<noteq> [] \<and> debit = None \<and> credit = None
    then st\<lparr>ss_txns := append_narration narration (ss_txns st)\<rparr>
    else if \<not> pd_valid nd then st
    else if debit = None \<and> credit = None then st
    else st\<lparr>ss_txns := ss_txns st @ [sheet_transaction U m i row nd narration amounts balance (length (ss_txns st))]\<rparr>)"

subsection \<open>The sheet\<close>

definition row_text :: "grid_cell list \<Rightarrow> chars" where
  "row_text row = join_with [32] (map raw_str row)"

definition row_positive_amounts :: "unicode \<Rightarrow> grid_cell list \<Rightarrow> f64 list" where
  "row_positive_amounts U row =
    filter (\<lambda>a. f64_less f64_zero a) (concat (map (\<lambda>c. case as_amount U c of Some a \<Rightarrow> [a] | None \<Rightarrow> []) row))"

definition pre_header_balance :: "unicode \<Rightarrow> rx \<Rightarrow> (f64 list \<Rightarrow> f64) \<Rightarrow> grid \<Rightarrow> f64 option" where
  "pre_header_balance U label pick rows =
    (case find (\<lambda>row. is_match label (to_lowercase U (row_text row)) \<and> row_positive_amounts U row \<noteq> []) rows of
       Some row \<Rightarrow> Some (pick (row_positive_amounts U row)) | None \<Rightarrow> None)"

definition sheet_rows :: "calendar \<Rightarrow> unicode \<Rightarrow> grid \<Rightarrow> nat \<Rightarrow> column_map \<Rightarrow> sheet_state" where
  "sheet_rows C U g hdr_idx m =
    (let scanned = fold (sheet_row C U m) (drop (hdr_idx + 1) (enumerate 0 g)) \<lparr> ss_txns = [], ss_opening = None, ss_closing = None \<rparr>;
         above = take hdr_idx g in
     scanned\<lparr> ss_opening := (if ss_opening scanned = None then pre_header_balance U re_opening_bal hd above else ss_opening scanned),
       ss_closing := (if ss_closing scanned = None then pre_header_balance U re_closing_bal last above else ss_closing scanned) \<rparr>)"

definition finish_sheet :: "transaction list \<Rightarrow> f64 option \<Rightarrow> transaction list \<times> f64 option" where
  "finish_sheet txns op0 =
    (let (stamped, op) = compute_prev_balances txns op0 in
     (prepend_opening_balance_row
        (validate_balances (correct_debit_credit_by_balance (deduplicate_txns stamped)) op) op [] [], op))"

definition extract_sheet_from_grid :: "calendar \<Rightarrow> unicode \<Rightarrow> grid \<Rightarrow> chars \<Rightarrow> parse_result option" where
  "extract_sheet_from_grid C U g sheet_name =
    (case find_header_row U 0 None (take max_header_scan g) of
       None \<Rightarrow> None
     | Some (hdr_idx, m0) \<Rightarrow>
        let m = detect_cols_from_content C U g hdr_idx m0 in
        if \<not> is_usable m then None
        else
          let st = sheet_rows C U g hdr_idx m; (txns, op) = finish_sheet (ss_txns st) (ss_opening st) in
          Some \<lparr> pr_transactions = txns, pr_opening_balance = op, pr_closing_balance = ss_closing st, pr_bank_name = [],
            pr_account_no = [], pr_source_name = sheet_name, pr_col_map = m, pr_header_row_idx = hdr_idx,
            pr_noise_row_count = 0, pr_rejected_row_count = 0 \<rparr>)"

text \<open>\<open>parse_excel_file\<close> over the sheets that could be read, before the bank is looked for.\<close>

fun first_sheet :: "calendar \<Rightarrow> unicode \<Rightarrow> (chars \<times> grid) list \<Rightarrow> (parse_result \<times> grid) option" where
  "first_sheet C U [] = None"
| "first_sheet C U ((sheet_name, g) # sheets) =
    (case extract_sheet_from_grid C U g sheet_name of
       Some result \<Rightarrow>
         if list_ex (\<lambda>t. \<not> txn_is_opening_balance t) (pr_transactions result) then Some (result, g) else first_sheet C U sheets
     | None \<Rightarrow> first_sheet C U sheets)"

section \<open>The workbook\<close>

text \<open>
  \<open>src/parser/excel_parser.rs\<close>, \<open>parse_excel_file\<close>: the first sheet with a real transaction, with the bank it is found to be
  from. The workbook is what calamine read: the sheets with their grids, \<open>None\<close> for one that could not be read.
\<close>

definition grid_text :: "grid \<Rightarrow> chars" where
  "grid_text rows = join_with [10] (map row_text rows)"

definition detect_options_of :: "parse_result \<Rightarrow> grid \<Rightarrow> chars \<Rightarrow> detect_options" where
  "detect_options_of result g filename =
    \<lparr> do_text = grid_text g, do_header_text = grid_text (take (pr_header_row_idx result) g), do_filename = filename,
      do_narrations = map txn_narration (filter (\<lambda>t. \<not> txn_is_opening_balance t) (pr_transactions result)) \<rparr>"

definition with_bank :: "bank_detection_result \<Rightarrow> transaction \<Rightarrow> transaction" where
  "with_bank d t = t\<lparr> txn_bank_name := (if txn_bank_name t = [] then bd_bank_name d else txn_bank_name t),
     txn_account_no := (if txn_account_no t = [] then bd_account_no d else txn_account_no t) \<rparr>"

definition apply_bank_detection ::
  "(chars list \<Rightarrow> chars list) \<Rightarrow> unicode \<Rightarrow> grid \<Rightarrow> chars \<Rightarrow> parse_result \<Rightarrow> parse_result" where
  "apply_bank_detection by_hash U g filename result =
    (let detected = detect_bank by_hash U (detect_options_of result g filename) in
     result\<lparr> pr_bank_name := bd_bank_name detected, pr_account_no := bd_account_no detected,
       pr_transactions := map (with_bank detected) (pr_transactions result) \<rparr>)"

definition parse_excel_file ::
  "(chars list \<Rightarrow> chars list) \<Rightarrow> calendar \<Rightarrow> unicode \<Rightarrow> chars \<Rightarrow> (chars \<times> grid option) list \<Rightarrow> parse_result option" where
  "parse_excel_file by_hash C U filename sheets =
    map_option (\<lambda>(result, g). apply_bank_detection by_hash U g filename result)
      (first_sheet C U (concat (map (\<lambda>(n, g). case g of Some rows \<Rightarrow> [(n, rows)] | None \<Rightarrow> []) sheets)))"

end
