(* ===== verification/Paise.thy ===== *)
theory Paise
  imports AmountFacts
begin

text \<open>
  Sums and differences of amounts in doubles, rounded to two places as the parsers do, are the sums and
  differences of whole paise: up to ten thousand crore rupees no error of a double reaches half a paisa.
\<close>

subsection \<open>The error of one operation\<close>

lemma nearest_abs_error:
  assumes "0 \<le> x"
  shows "\<bar>nearest x - x\<bar> \<le> x / 2 ^ 53 + 1 / 1000000000"
proof (cases "two_to (- 1022) \<le> x")
  case True
  from nearest_error [OF this] show ?thesis by simp
next
  case small: False
  show ?thesis
  proof (cases "x = 0")
    case True
    then show ?thesis by (simp add: nearest_def half_even_def)
  next
    case False
    with assms have pos: "0 < x" by simp
    have "two_to (binade x) \<le> x" by (rule binade_bounds(1) [OF pos])
    with small have less: "two_to (binade x) < two_to (- 1022)" by linarith
    have "binade x < - 1022"
    proof (rule ccontr)
      assume "\<not> binade x < - 1022"
      then have "(2::rat) powi (- 1022) \<le> 2 powi binade x" by (intro power_int_increasing) simp_all
      with less show False by (simp add: two_to_powi)
    qed
    then have "unit_of x = two_to (- 1074)" by (simp add: unit_of_def)
    also have "\<dots> \<le> 1 / 10 ^ 9"
    proof -
      have "(10::rat) ^ 9 \<le> 2 ^ 1074" by (rule order_trans [of _ "2 ^ 30"]) (simp, intro power_increasing, simp_all)
      then show ?thesis by (simp add: two_to_def field_simps)
    qed
    finally show ?thesis using nearest_unit [of x] assms by simp
  qed
qed

lemma rounded_value:
  assumes "\<bar>v\<bar> \<le> 1000000000000"
  obtains s m where "rounded z v = Finite s m" and "0 \<le> m" and "\<bar>signed_rat s m - v\<bar> \<le> \<bar>v\<bar> / 2 ^ 53 + 1 / 1000000000"
proof (cases "v = 0")
  case True
  with that [of z 0] show ?thesis by (simp add: rounded_def signed_rat_def)
next
  case False
  let ?m = "nearest \<bar>v\<bar>"
  have e: "\<bar>?m - \<bar>v\<bar>\<bar> \<le> \<bar>v\<bar> / 2 ^ 53 + 1 / 1000000000" by (rule nearest_abs_error) simp
  have "\<bar>v\<bar> / 2 ^ 53 \<le> 1 / 10" using assms by simp
  then have "?m \<le> 2 * 1000000000000" using e assms by linarith
  also have "(2 * 1000000000000 :: rat) \<le> 2 ^ 41" by simp
  also have "(2 ^ 41 :: rat) < 2 ^ 1024" by (intro power_strict_increasing) simp_all
  finally have "rounded z v = Finite (v < 0) ?m" using False by (simp add: rounded_def Let_def)
  moreover have "signed_rat (v < 0) ?m - v = (if v < 0 then - (?m - \<bar>v\<bar>) else ?m - \<bar>v\<bar>)"
    by (simp add: signed_rat_def)
  ultimately show ?thesis using that [of "v < 0" ?m] e nearest_nonneg [of "\<bar>v\<bar>"] by (simp split: if_splits)
qed

subsection \<open>Whole paise\<close>

definition to_paise :: "f64 \<Rightarrow> int" where
  "to_paise x = (case x of Finite s m \<Rightarrow> (let n = floor (m * 100 + 1 / 2) in if s then - n else n) | _ \<Rightarrow> 0)"

definition whole_paise :: "f64 \<Rightarrow> bool" where
  "whole_paise x \<longleftrightarrow> (case x of Finite s m \<Rightarrow> \<bar>to_paise x\<bar> \<le> 1000000000000 \<and> x = amount s \<bar>to_paise x\<bar> | _ \<Rightarrow> False)"

lemma amount_times_100:
  assumes "0 \<le> n" and "n \<le> 1000000000000"
  shows "\<exists>m. amount s n = Finite s m \<and> \<bar>m * 100 - of_int n\<bar> \<le> 2 / 10000 \<and> 0 \<le> m"
proof (cases "n = 0")
  case True
  then show ?thesis by (simp add: amount_def)
next
  case False
  let ?q = "of_int n :: rat"
  have n: "1 \<le> ?q" "?q \<le> 1000000000000" using assms False by (simp_all add: order_trans [of _ "of_int (1000000000000)"])
  then have e: "\<bar>nearest (?q / 100) - ?q / 100\<bar> \<le> ?q / 100 / 2 ^ 53" using nearest_close [of "?q / 100"] by simp
  have "?q / 100 / 2 ^ 53 \<le> 2 / 1000000" using n(2) by simp
  with e have "\<bar>nearest (?q / 100) * 100 - ?q\<bar> \<le> 2 / 10000" unfolding abs_le_iff by simp
  with False nearest_nonneg [of "?q / 100"] n(1) show ?thesis by (simp add: amount_def)
qed

lemma to_paise_amount [simp]: "0 \<le> n \<Longrightarrow> n \<le> 1000000000000 \<Longrightarrow> to_paise (amount s n) = (if s then - n else n)"
proof -
  assume n: "0 \<le> n" "n \<le> 1000000000000"
  then obtain m where m: "amount s n = Finite s m" "\<bar>m * 100 - of_int n\<bar> \<le> 2 / 10000"
    using amount_times_100 by blast
  then have "floor (m * 100 + 1 / 2) = n" by (intro floor_unique) linarith+
  with m(1) show ?thesis by (simp add: to_paise_def)
qed

lemma whole_paise_amount [simp]: "0 \<le> n \<Longrightarrow> n \<le> 1000000000000 \<Longrightarrow> whole_paise (amount s n)"
proof -
  assume n: "0 \<le> n" "n \<le> 1000000000000"
  then obtain m where m: "amount s n = Finite s m" using amount_times_100 by blast
  have "\<bar>to_paise (amount s n)\<bar> = n" using to_paise_amount [OF n, of s] n(1) by auto
  with m n show "whole_paise (amount s n)" by (simp add: whole_paise_def)
qed

lemma whole_paise_cases:
  assumes "whole_paise x"
  obtains s n where "x = amount s n" and "0 \<le> n" and "n \<le> 1000000000000" and "to_paise x = (if s then - n else n)"
proof (cases x)
  case (Finite s m)
  with assms have "\<bar>to_paise x\<bar> \<le> 1000000000000" "x = amount s \<bar>to_paise x\<bar>" by (simp_all add: whole_paise_def)
  moreover from this have "to_paise x = (if s then - \<bar>to_paise x\<bar> else \<bar>to_paise x\<bar>)"
    using to_paise_amount [of "\<bar>to_paise x\<bar>" s] by simp
  ultimately show ?thesis using that by (metis abs_ge_zero)
qed (use assms in \<open>simp_all add: whole_paise_def\<close>)

lemma whole_paise_value:
  assumes "whole_paise x"
  obtains s m where "x = Finite s m" and "0 \<le> m" and "\<bar>signed_rat s m - of_int (to_paise x) / 100\<bar> \<le> 2 / 1000000"
    and "\<bar>of_int (to_paise x) / 100 :: rat\<bar> \<le> 10000000000"
proof -
  obtain s n where n: "x = amount s n" "0 \<le> n" "n \<le> 1000000000000" "to_paise x = (if s then - n else n)"
    using whole_paise_cases [OF assms] by blast
  obtain m where m: "amount s n = Finite s m" "\<bar>m * 100 - of_int n\<bar> \<le> 2 / 10000" "0 \<le> m"
    using amount_times_100 [OF n(2,3)] by blast
  have "\<bar>m - of_int n / 100\<bar> \<le> 2 / 1000000" using m(2) by linarith
  then have "\<bar>signed_rat s m - of_int (to_paise x) / 100\<bar> \<le> 2 / 1000000"
  proof (cases s)
    case True
    then have "signed_rat s m - of_int (to_paise x) / 100 = - (m - of_int n / 100)"
      using n(4) by (simp add: signed_rat_def)
    then show ?thesis using \<open>\<bar>m - of_int n / 100\<bar> \<le> 2 / 1000000\<close> by linarith
  next
    case False
    then show ?thesis using n(4) \<open>\<bar>m - of_int n / 100\<bar> \<le> 2 / 1000000\<close> by (simp only: signed_rat_def if_False)
  qed
  moreover have "of_int n \<le> (1000000000000 :: rat)" using n(3) by (metis of_int_le_iff of_int_numeral of_int_power)
  then have "\<bar>of_int (to_paise x) / 100 :: rat\<bar> \<le> 10000000000" using n(2,4) by (simp add: abs_le_iff)
  ultimately show ?thesis using that m n(1) by metis
qed

lemma to_paise_round2:
  assumes "0 \<le> m" and "\<bar>signed_rat s m - of_int n / 100\<bar> \<le> 1 / 250" and "\<bar>n\<bar> \<le> 1000000000000"
  shows "to_paise (round2 (Finite s m)) = n \<and> whole_paise (round2 (Finite s m))"
proof -
  have "of_int \<bar>n\<bar> \<le> (1000000000000 :: rat)" using assms(3) by (metis of_int_le_iff of_int_numeral of_int_power)
  then have big: "\<bar>of_int n\<bar> \<le> (1000000000000 :: rat)" by simp
  have sign: "n = (if s then - \<bar>n\<bar> else \<bar>n\<bar>)"
  proof (rule ccontr)
    assume "n \<noteq> (if s then - \<bar>n\<bar> else \<bar>n\<bar>)"
    then have "(s \<and> 1 \<le> n) \<or> (\<not> s \<and> n \<le> - 1)" by (auto split: if_splits)
    moreover have "1 \<le> n \<Longrightarrow> 1 \<le> (of_int n :: rat)" "n \<le> - 1 \<Longrightarrow> (of_int n :: rat) \<le> - 1"
      by linarith+
    ultimately consider "s" "1 \<le> (of_int n :: rat)" | "\<not> s" "(of_int n :: rat) \<le> - 1" by blast
    then show False
    proof cases
      case 1
      with assms(2) have "\<bar>- m - of_int n / 100\<bar> \<le> 1 / 250" by (simp add: signed_rat_def)
      with 1(2) assms(1) show False by linarith
    next
      case 2
      with assms(2) have "\<bar>m - of_int n / 100\<bar> \<le> 1 / 250" by (simp add: signed_rat_def)
      with 2(2) assms(1) show False by linarith
    qed
  qed
  have m: "\<bar>m * 100 - of_int \<bar>n\<bar>\<bar> \<le> 2 / 5"
  proof (cases s)
    case True
    with assms(2) sign have "\<bar>- m + of_int \<bar>n\<bar> / 100\<bar> \<le> 1 / 250" by (simp add: signed_rat_def)
    then show ?thesis by linarith
  next
    case False
    with assms(2) sign have "\<bar>m - of_int \<bar>n\<bar> / 100\<bar> \<le> 1 / 250" by (simp add: signed_rat_def)
    then show ?thesis by linarith
  qed
  then have mb: "m * 100 \<le> 2 * 1000000000000" using big unfolding of_int_abs by linarith
  let ?v = "signed_rat s m * 100"
  have av: "\<bar>?v\<bar> = m * 100" using assms(1) by (auto simp: signed_rat_def)
  have "\<exists>y. f64_mul (Finite s m) (f64_of 100) = Finite s y \<and> \<bar>y - m * 100\<bar> \<le> m * 100 / 2 ^ 53 + 1 / 1000000000"
  proof (cases "m = 0")
    case True
    then show ?thesis by (cases s) (simp_all add: rounded_def signed_rat_def)
  next
    case False
    let ?y = "nearest (m * 100)"
    have e: "\<bar>?y - m * 100\<bar> \<le> m * 100 / 2 ^ 53 + 1 / 1000000000" by (rule nearest_abs_error) (use assms(1) in simp)
    have "m * 100 / 2 ^ 53 \<le> 1 / 10" using mb by simp
    then have "?y \<le> 4 * 1000000000000" using e mb by linarith
    also have "(4 * 1000000000000 :: rat) \<le> 2 ^ 42" by simp
    also have "(2 ^ 42 :: rat) < 2 ^ 1024" by (intro power_strict_increasing) simp_all
    finally have "rounded s ?v = Finite s ?y"
      using False assms(1) by (auto simp: rounded_def Let_def signed_rat_def)
    with e show ?thesis by (cases s) (auto simp: signed_rat_def)
  qed
  then obtain y where y: "f64_mul (Finite s m) (f64_of 100) = Finite s y"
    "\<bar>y - m * 100\<bar> \<le> m * 100 / 2 ^ 53 + 1 / 1000000000" by blast
  have "m * 100 / 2 ^ 53 + 1 / 1000000000 < 1 / 20" using mb by simp
  with y(2) m have "\<bar>y - of_int \<bar>n\<bar>\<bar> < 1 / 2" by linarith
  then have "floor (y + 1 / 2) = \<bar>n\<bar>" by (intro floor_unique) linarith+
  then have "round2 (Finite s m) = amount s \<bar>n\<bar>"
    unfolding round2_def y(1) f64_round.simps using of_paise(1) [of "\<bar>n\<bar>" s] assms(3) by simp
  then show ?thesis using assms(3) sign by simp
qed

subsection \<open>Sums and differences\<close>

lemma paise_combination:
  assumes "whole_paise x" and "whole_paise y" and "whole_paise z"
    and "\<bar>to_paise x - to_paise y + to_paise z\<bar> \<le> 1000000000000"
  shows "to_paise (round2 (f64_add (f64_sub x y) z)) = to_paise x - to_paise y + to_paise z
    \<and> whole_paise (round2 (f64_add (f64_sub x y) z))"
proof -
  obtain s1 m1 where 1: "x = Finite s1 m1" "\<bar>signed_rat s1 m1 - of_int (to_paise x) / 100\<bar> \<le> 2 / 1000000"
    "\<bar>of_int (to_paise x) / 100 :: rat\<bar> \<le> 10000000000" using whole_paise_value [OF assms(1)] by metis
  obtain s2 m2 where 2: "y = Finite s2 m2" "\<bar>signed_rat s2 m2 - of_int (to_paise y) / 100\<bar> \<le> 2 / 1000000"
    "\<bar>of_int (to_paise y) / 100 :: rat\<bar> \<le> 10000000000" using whole_paise_value [OF assms(2)] by metis
  obtain s3 m3 where 3: "z = Finite s3 m3" "\<bar>signed_rat s3 m3 - of_int (to_paise z) / 100\<bar> \<le> 2 / 1000000"
    "\<bar>of_int (to_paise z) / 100 :: rat\<bar> \<le> 10000000000" using whole_paise_value [OF assms(3)] by metis
  let ?d = "signed_rat s1 m1 - signed_rat s2 m2"
  have d: "\<bar>?d\<bar> \<le> 3 * 10000000000" "\<bar>?d - (of_int (to_paise x) / 100 - of_int (to_paise y) / 100)\<bar> \<le> 4 / 1000000"
    using 1(2,3) 2(2,3) by linarith+
  have neg: "signed_rat (\<not> s2) m2 = - signed_rat s2 m2" by (simp add: signed_rat_def)
  have "\<bar>?d\<bar> \<le> 1000000000000" using d(1) by linarith
  then obtain s m where r: "rounded (s1 \<and> \<not> s2) ?d = Finite s m"
    "\<bar>signed_rat s m - ?d\<bar> \<le> \<bar>?d\<bar> / 2 ^ 53 + 1 / 1000000000" by (rule rounded_value)
  have e: "\<bar>?d\<bar> / 2 ^ 53 \<le> 4 / 1000000" using d(1) by simp
  let ?t = "signed_rat s m + signed_rat s3 m3"
  have t: "\<bar>?t\<bar> \<le> 5 * 10000000000"
    "\<bar>?t - (of_int (to_paise x) / 100 - of_int (to_paise y) / 100 + of_int (to_paise z) / 100)\<bar> \<le> 2 / 100000"
    using d e r(2) 3(2,3) by linarith+
  have "\<bar>?t\<bar> \<le> 1000000000000" using t(1) by linarith
  then obtain s' m' where r': "rounded (s \<and> s3) ?t = Finite s' m'" "0 \<le> m'"
    "\<bar>signed_rat s' m' - ?t\<bar> \<le> \<bar>?t\<bar> / 2 ^ 53 + 1 / 1000000000" by (rule rounded_value)
  have e': "\<bar>?t\<bar> / 2 ^ 53 \<le> 1 / 100000" using t(1) by simp
  have sum: "f64_add (f64_sub x y) z = Finite s' m'"
    using r(1) r'(1) by (simp add: 1(1) 2(1) 3(1) f64_sub_def neg)
  have "\<bar>signed_rat s' m' - of_int (to_paise x - to_paise y + to_paise z) / 100\<bar> \<le> 1 / 250"
    unfolding of_int_add of_int_diff add_divide_distrib diff_divide_distrib using t(2) r'(3) e' by linarith
  from to_paise_round2 [OF r'(2) this assms(4)] show ?thesis unfolding sum .
qed

lemma whole_paise_zero [simp]: "whole_paise f64_zero" "to_paise f64_zero = 0"
proof -
  have "f64_zero = amount False 0" by (simp add: f64_zero_def amount_def)
  moreover have "whole_paise (amount False 0)" "to_paise (amount False 0) = 0"
    using whole_paise_amount [of 0 False] to_paise_amount [of 0 False] by simp_all
  ultimately show "whole_paise f64_zero" "to_paise f64_zero = 0" by simp_all
qed

text \<open>Of an amount and its sign nothing is lost: the rounded difference of two is the difference of their paise.\<close>

lemma paise_difference:
  assumes "whole_paise x" and "whole_paise y" and "\<bar>to_paise x - to_paise y\<bar> \<le> 1000000000000"
  shows "to_paise (round2 (f64_sub x y)) = to_paise x - to_paise y \<and> whole_paise (round2 (f64_sub x y))"
proof -
  obtain s1 m1 where 1: "x = Finite s1 m1" "\<bar>signed_rat s1 m1 - of_int (to_paise x) / 100\<bar> \<le> 2 / 1000000"
    "\<bar>of_int (to_paise x) / 100 :: rat\<bar> \<le> 10000000000" using whole_paise_value [OF assms(1)] by metis
  obtain s2 m2 where 2: "y = Finite s2 m2" "\<bar>signed_rat s2 m2 - of_int (to_paise y) / 100\<bar> \<le> 2 / 1000000"
    "\<bar>of_int (to_paise y) / 100 :: rat\<bar> \<le> 10000000000" using whole_paise_value [OF assms(2)] by metis
  let ?d = "signed_rat s1 m1 - signed_rat s2 m2"
  have d: "\<bar>?d\<bar> \<le> 3 * 10000000000" "\<bar>?d - (of_int (to_paise x) / 100 - of_int (to_paise y) / 100)\<bar> \<le> 4 / 1000000"
    using 1(2,3) 2(2,3) by linarith+
  have neg: "signed_rat (\<not> s2) m2 = - signed_rat s2 m2" by (simp add: signed_rat_def)
  have "\<bar>?d\<bar> \<le> 1000000000000" using d(1) by linarith
  then obtain s m where r: "rounded (s1 \<and> \<not> s2) ?d = Finite s m" "0 \<le> m"
    "\<bar>signed_rat s m - ?d\<bar> \<le> \<bar>?d\<bar> / 2 ^ 53 + 1 / 1000000000" by (rule rounded_value)
  have e: "\<bar>?d\<bar> / 2 ^ 53 \<le> 4 / 1000000" using d(1) by simp
  have diff: "f64_sub x y = Finite s m" using r(1) by (simp add: 1(1) 2(1) f64_sub_def neg)
  have "\<bar>signed_rat s m - of_int (to_paise x - to_paise y) / 100\<bar> \<le> 1 / 250"
    unfolding of_int_diff diff_divide_distrib using d(2) r(3) e by linarith
  from to_paise_round2 [OF r(2) this assms(3)] show ?thesis unfolding diff .
qed

lemma f64_sub_close:
  assumes "x = Finite s1 m1" and "y = Finite s2 m2" and "\<bar>signed_rat s1 m1 - signed_rat s2 m2\<bar> \<le> 100000000000"
  obtains s m where "f64_sub x y = Finite s m" and "0 \<le> m"
    and "\<bar>signed_rat s m - (signed_rat s1 m1 - signed_rat s2 m2)\<bar> \<le> 1 / 50000"
proof -
  let ?d = "signed_rat s1 m1 - signed_rat s2 m2"
  have neg: "signed_rat (\<not> s2) m2 = - signed_rat s2 m2" by (simp add: signed_rat_def)
  have "\<bar>?d\<bar> \<le> 1000000000000" using assms(3) by linarith
  then obtain s m where r: "rounded (s1 \<and> \<not> s2) ?d = Finite s m" "0 \<le> m"
    "\<bar>signed_rat s m - ?d\<bar> \<le> \<bar>?d\<bar> / 2 ^ 53 + 1 / 1000000000" by (rule rounded_value)
  have "\<bar>?d\<bar> / 2 ^ 53 \<le> 1 / 80000" using assms(3) by simp
  with r(3) have "\<bar>signed_rat s m - ?d\<bar> \<le> 1 / 50000" by linarith
  moreover have "f64_sub x y = Finite s m" using r(1) by (simp add: assms(1,2) f64_sub_def neg)
  ultimately show ?thesis using that r(2) by blast
qed

lemma paise_of_net:
  assumes "whole_paise x" and "whole_paise y" and "whole_paise z"
    and "\<bar>to_paise x - (to_paise y - to_paise z)\<bar> \<le> 1000000000000"
  shows "to_paise (round2 (f64_sub x (f64_sub y z))) = to_paise x - (to_paise y - to_paise z)
    \<and> whole_paise (round2 (f64_sub x (f64_sub y z)))"
proof -
  obtain s1 m1 where 1: "x = Finite s1 m1" "\<bar>signed_rat s1 m1 - of_int (to_paise x) / 100\<bar> \<le> 2 / 1000000"
    "\<bar>of_int (to_paise x) / 100 :: rat\<bar> \<le> 10000000000" using whole_paise_value [OF assms(1)] by metis
  obtain s2 m2 where 2: "y = Finite s2 m2" "\<bar>signed_rat s2 m2 - of_int (to_paise y) / 100\<bar> \<le> 2 / 1000000"
    "\<bar>of_int (to_paise y) / 100 :: rat\<bar> \<le> 10000000000" using whole_paise_value [OF assms(2)] by metis
  obtain s3 m3 where 3: "z = Finite s3 m3" "\<bar>signed_rat s3 m3 - of_int (to_paise z) / 100\<bar> \<le> 2 / 1000000"
    "\<bar>of_int (to_paise z) / 100 :: rat\<bar> \<le> 10000000000" using whole_paise_value [OF assms(3)] by metis
  have "\<bar>signed_rat s2 m2 - signed_rat s3 m3\<bar> \<le> 100000000000" using 2(2,3) 3(2,3) by linarith
  then obtain s m where r: "f64_sub y z = Finite s m"
    "\<bar>signed_rat s m - (signed_rat s2 m2 - signed_rat s3 m3)\<bar> \<le> 1 / 50000"
    using f64_sub_close [OF 2(1) 3(1)] by metis
  have "\<bar>signed_rat s1 m1 - signed_rat s m\<bar> \<le> 100000000000" using 1(2,3) 2(2,3) 3(2,3) r(2) by linarith
  then obtain s' m' where r': "f64_sub x (f64_sub y z) = Finite s' m'" "0 \<le> m'"
    "\<bar>signed_rat s' m' - (signed_rat s1 m1 - signed_rat s m)\<bar> \<le> 1 / 50000"
    using f64_sub_close [OF 1(1) r(1)] by metis
  have "\<bar>signed_rat s' m' - of_int (to_paise x - (to_paise y - to_paise z)) / 100\<bar> \<le> 1 / 250"
    unfolding of_int_diff diff_divide_distrib using 1(2) 2(2) 3(2) r(2) r'(3) by linarith
  from to_paise_round2 [OF r'(2) this assms(4)] show ?thesis unfolding r'(1) .
qed

text \<open>The distance of two amounts, before any rounding to two places.\<close>

lemma distance_close:
  assumes "whole_paise x" and "whole_paise y"
  obtains m where "f64_abs (f64_sub x y) = Finite False m" and "0 \<le> m"
    and "\<bar>m - of_int \<bar>to_paise x - to_paise y\<bar> / 100\<bar> \<le> 1 / 10000"
proof -
  obtain s1 m1 where 1: "x = Finite s1 m1" "\<bar>signed_rat s1 m1 - of_int (to_paise x) / 100\<bar> \<le> 2 / 1000000"
    "\<bar>of_int (to_paise x) / 100 :: rat\<bar> \<le> 10000000000" using whole_paise_value [OF assms(1)] by metis
  obtain s2 m2 where 2: "y = Finite s2 m2" "\<bar>signed_rat s2 m2 - of_int (to_paise y) / 100\<bar> \<le> 2 / 1000000"
    "\<bar>of_int (to_paise y) / 100 :: rat\<bar> \<le> 10000000000" using whole_paise_value [OF assms(2)] by metis
  have "\<bar>signed_rat s1 m1 - signed_rat s2 m2\<bar> \<le> 100000000000" using 1(2,3) 2(2,3) by linarith
  then obtain s m where r: "f64_sub x y = Finite s m" "0 \<le> m"
    "\<bar>signed_rat s m - (signed_rat s1 m1 - signed_rat s2 m2)\<bar> \<le> 1 / 50000"
    using f64_sub_close [OF 1(1) 2(1)] by metis
  have "\<bar>signed_rat s m\<bar> = m" using r(2) by (simp add: signed_rat_def)
  moreover have "of_int \<bar>to_paise x - to_paise y\<bar> / 100 = \<bar>of_int (to_paise x) / 100 - of_int (to_paise y) / (100 :: rat)\<bar>"
    by (simp add: diff_divide_distrib [symmetric])
  ultimately have "\<bar>m - of_int \<bar>to_paise x - to_paise y\<bar> / 100\<bar> \<le> 1 / 10000"
    using 1(2) 2(2) r(3) by linarith
  with r that show ?thesis by simp
qed

end
