(* ===== verification/BalanceFacts.thy ===== *)
theory BalanceFacts
  imports BalanceRules Paise "HOL-Library.Sublist"
begin

text \<open>
  The passes over the balances compute in doubles what the statement says in paise: the balance before each row
  and the check of the stated balances agree with whole numbers, a row whose direction is swapped is the one
  the balances contradict, and removing repeated rows keeps one of each.
\<close>

subsection \<open>Rows in paise\<close>

definition money :: "f64 \<Rightarrow> bool" where
  "money x \<longleftrightarrow> whole_paise x \<and> \<bar>to_paise x\<bar> \<le> 300000000000"

definition in_money :: "f64 option \<Rightarrow> bool" where
  "in_money v \<longleftrightarrow> (case v of Some x \<Rightarrow> money x | None \<Rightarrow> True)"

definition row_in_money :: "transaction \<Rightarrow> bool" where
  "row_in_money t \<longleftrightarrow> in_money (txn_debit t) \<and> in_money (txn_credit t) \<and> in_money (txn_balance t)"

definition paise :: "f64 option \<Rightarrow> int option" where
  "paise v = map_option to_paise v"

definition moved :: "transaction \<Rightarrow> int" where
  "moved t = to_paise (or_zero (txn_credit t)) - to_paise (or_zero (txn_debit t))"

lemma in_money_simps [simp]: "in_money None" "in_money (Some x) = money x"
  by (simp_all add: in_money_def)

lemma paise_simps [simp]: "paise None = None" "paise (Some x) = Some (to_paise x)"
  by (simp_all add: paise_def)

lemma paise_is_None [simp]: "paise v = None \<longleftrightarrow> v = None"
  by (simp add: paise_def)

lemma money_or_zero: "in_money v \<Longrightarrow> whole_paise (or_zero v) \<and> \<bar>to_paise (or_zero v)\<bar> \<le> 300000000000"
  by (cases v) (simp_all add: or_zero_def money_def)

lemma row_money:
  assumes "row_in_money t"
  shows "whole_paise (or_zero (txn_debit t))" "whole_paise (or_zero (txn_credit t))"
    "\<bar>to_paise (or_zero (txn_debit t))\<bar> \<le> 300000000000" "\<bar>to_paise (or_zero (txn_credit t))\<bar> \<le> 300000000000"
  using assms money_or_zero by (auto simp: row_in_money_def)

lemma expected_exact:
  assumes "row_in_money t" and "whole_paise x" and "\<bar>to_paise x + moved t\<bar> \<le> 1000000000000"
  shows "to_paise (expected_balance x t) = to_paise x + moved t \<and> whole_paise (expected_balance x t)"
  using paise_combination [OF assms(2) row_money(1,2) [OF assms(1)]] assms(3)
  by (simp add: expected_balance_def moved_def algebra_simps)

lemma round2_whole:
  assumes "whole_paise x"
  shows "round2 x = x"
proof -
  obtain s n where "x = amount s n" "0 \<le> n" "n \<le> 1000000000000" using whole_paise_cases [OF assms] by metis
  with round2_amount [of n s] show ?thesis by simp
qed

subsection \<open>The balance before each row\<close>

text \<open>The statement's own arithmetic: a stated balance is believed, and where none is stated the row's amount moves
  the balance on.\<close>

fun running :: "int option \<Rightarrow> transaction list \<Rightarrow> int option list" where
  "running p [] = []"
| "running p (t # ts) =
    p # running (case paise (txn_balance t) of
                   Some b \<Rightarrow> Some b
                 | None \<Rightarrow> (if has_amt t then map_option (\<lambda>q. q + moved t) p else p)) ts"

definition within_limit :: "int option \<Rightarrow> bool" where
  "within_limit v \<longleftrightarrow> (case v of Some p \<Rightarrow> \<bar>p\<bar> \<le> 1000000000000 | None \<Rightarrow> True)"

definition whole_opt :: "f64 option \<Rightarrow> bool" where
  "whole_opt v \<longleftrightarrow> (case v of Some x \<Rightarrow> whole_paise x | None \<Rightarrow> True)"

lemma stamps_exact:
  assumes "list_all row_in_money ts" and "whole_opt run" and "list_all within_limit (running (paise run) ts)"
  shows "map (\<lambda>t. paise (txn_prev_balance t)) (stamp_prev run ts) = running (paise run) ts"
  using assms
proof (induction ts arbitrary: run)
  case (Cons t ts)
  have head: "paise (map_option round2 run) = paise run"
    using Cons.prems(2) by (cases run) (simp_all add: whole_opt_def round2_whole)
  define nxt where "nxt = (if \<not> has_amt t then (if txn_balance t \<noteq> None then txn_balance t else run)
     else (case run of
             Some rb \<Rightarrow> (case txn_balance t of Some stated \<Rightarrow> Some stated | None \<Rightarrow> Some (expected_balance rb t))
           | None \<Rightarrow> (if txn_balance t \<noteq> None then txn_balance t else None)))"
  define nxtp where "nxtp = (case paise (txn_balance t) of
                   Some b \<Rightarrow> Some b
                 | None \<Rightarrow> (if has_amt t then map_option (\<lambda>q. q + moved t) (paise run) else paise run))"
  have row: "row_in_money t" "list_all row_in_money ts" using Cons.prems(1) by simp_all
  have lim: "list_all within_limit (running nxtp ts)" using Cons.prems(3) by (simp add: nxtp_def)
  have "ts = [] \<or> whole_opt nxt \<and> paise nxt = nxtp"
  proof (cases ts)
    case (Cons u us)
    with lim have nlim: "within_limit nxtp" by simp
    show ?thesis
    proof (cases "txn_balance t")
      case (Some b)
      with row(1) have "whole_paise b" by (simp add: row_in_money_def money_def)
      with Some show ?thesis by (cases run) (simp_all add: nxt_def nxtp_def whole_opt_def)
    next
      case None
      then show ?thesis
        using Cons.prems(2) nlim expected_exact [OF row(1)]
        by (cases run; cases "has_amt t") (simp_all add: nxt_def nxtp_def whole_opt_def within_limit_def)
    qed
  qed simp
  then show ?case
  proof
    assume "ts = []"
    with head show ?thesis by simp
  next
    assume n: "whole_opt nxt \<and> paise nxt = nxtp"
    with Cons.IH [OF row(2), of nxt] lim have "map (\<lambda>t. paise (txn_prev_balance t)) (stamp_prev nxt ts) = running nxtp ts"
      by simp
    with head show ?thesis by (simp add: nxt_def nxtp_def)
  qed
qed simp

subsection \<open>The opening balance\<close>

fun opening_paise :: "transaction list \<Rightarrow> int option" where
  "opening_paise [] = None"
| "opening_paise (t # ts) =
    (case paise (txn_balance t) of
       Some b \<Rightarrow> (if has_amt t then Some (b - moved t) else opening_paise ts)
     | None \<Rightarrow> opening_paise ts)"

lemma derived_exact:
  assumes "row_in_money t" and "txn_balance t = Some b"
  shows "to_paise (round2 (f64_sub b (net_amount t))) = to_paise b - moved t"
    and "whole_paise (round2 (f64_sub b (net_amount t)))"
proof -
  have b: "whole_paise b" "\<bar>to_paise b\<bar> \<le> 300000000000" using assms by (simp_all add: row_in_money_def money_def)
  have "\<bar>to_paise b - (to_paise (or_zero (txn_credit t)) - to_paise (or_zero (txn_debit t)))\<bar> \<le> 1000000000000"
    using b(2) row_money(3,4) [OF assms(1)] by linarith
  from paise_of_net [OF b(1) row_money(2,1) [OF assms(1)] this]
  show "to_paise (round2 (f64_sub b (net_amount t))) = to_paise b - moved t"
    "whole_paise (round2 (f64_sub b (net_amount t)))"
    by (simp_all add: net_amount_def moved_def)
qed

lemma derived_opening_exact:
  "list_all row_in_money ts \<Longrightarrow> paise (derived_opening ts) = opening_paise ts \<and> whole_opt (derived_opening ts)"
  by (induction ts) (auto simp: derived_exact whole_opt_def split: option.splits)

text \<open>C30: for a sheet whose amounts are whole paise of at most three hundred crore rupees, the opening balance that
  is derived and the balance stamped before each row are exactly those of the paise, as long as no balance passes a
  thousand crore: no rounding error of the doubles reaches a stamp.\<close>

theorem prev_balances_exact:
  assumes "list_all row_in_money txns" and "whole_opt opening"
    and "list_all within_limit
      (running (if opening = None then opening_paise txns else paise opening) txns)"
  shows "paise (snd (compute_prev_balances txns opening)) = (if opening = None then opening_paise txns else paise opening)
    \<and> map (\<lambda>t. paise (txn_prev_balance t)) (fst (compute_prev_balances txns opening))
        = running (if opening = None then opening_paise txns else paise opening) txns"
proof -
  define ob where "ob = (case opening of Some b \<Rightarrow> Some b | None \<Rightarrow> derived_opening txns)"
  have ob: "paise ob = (if opening = None then opening_paise txns else paise opening)" "whole_opt ob"
    using derived_opening_exact [OF assms(1)] assms(2) by (auto simp: ob_def split: option.splits)
  show ?thesis
  proof (cases "txns = []")
    case False
    then have "compute_prev_balances txns opening = (stamp_prev ob txns, ob)"
      by (simp add: compute_prev_balances_def ob_def Let_def)
    with stamps_exact [OF assms(1) ob(2)] assms(3) ob(1) show ?thesis by simp
  qed (simp add: compute_prev_balances_def)
qed

subsection \<open>The check of the balances\<close>

text \<open>How far each stated balance is from the one the row before gives; \<open>None\<close> where nothing is checked.\<close>

fun drifts :: "int option \<Rightarrow> transaction list \<Rightarrow> int option list" where
  "drifts p [] = []"
| "drifts p (t # ts) =
    (case paise (txn_balance t) of
       Some b \<Rightarrow>
         if has_amt t then (case p of Some q \<Rightarrow> Some (q + moved t - b) | None \<Rightarrow> Some 0) # drifts (Some b) ts
         else None # drifts (if p = None then Some b else p) ts
     | None \<Rightarrow> None # drifts p ts)"

definition verdict :: "bool option \<Rightarrow> bool option \<Rightarrow> int option \<Rightarrow> bool" where
  "verdict before_it ok drift \<longleftrightarrow>
    (case drift of
       None \<Rightarrow> ok = before_it
     | Some d \<Rightarrow> ok = Some (\<bar>d\<bar> < 100) \<or> \<bar>d\<bar> = 100 \<and> ok = Some True)"

lemma one_rupee: "f64_of 1 = Finite False 1"
  using f64_of_int [of 1] by simp

lemma over_one_rupee:
  assumes "whole_paise x" and "whole_paise y"
  shows "\<bar>to_paise x - to_paise y\<bar> < 100 \<Longrightarrow> \<not> f64_less (f64_of 1) (f64_abs (f64_sub x y))"
    and "100 < \<bar>to_paise x - to_paise y\<bar> \<Longrightarrow> f64_less (f64_of 1) (f64_abs (f64_sub x y))"
proof -
  let ?n = "\<bar>to_paise x - to_paise y\<bar>"
  obtain m where m: "f64_abs (f64_sub x y) = Finite False m" "\<bar>m - of_int ?n / 100\<bar> \<le> 1 / 10000"
    using distance_close [OF assms] by metis
  define k :: rat where "k = of_int ?n"
  note m = m(1) m(2) [folded k_def]
  {
    assume "?n < 100"
    then have "k \<le> 99" unfolding k_def by linarith
    then have "m < 1" using m(2) by linarith
    with m(1) show "\<not> f64_less (f64_of 1) (f64_abs (f64_sub x y))"
      by (simp add: one_rupee f64_less_def signed_rat_def)
  next
    assume "100 < ?n"
    then have "101 \<le> k" unfolding k_def by linarith
    then have "1 < m" using m(2) by linarith
    with m(1) show "f64_less (f64_of 1) (f64_abs (f64_sub x y))"
      by (simp add: one_rupee f64_less_def signed_rat_def)
  }
qed

lemma checked_row:
  assumes "row_in_money t" and "txn_balance t = Some b" and "money p"
  shows "let d = to_paise p + moved t - to_paise b;
      ok = \<not> f64_less (f64_of 1) (f64_abs (f64_sub (expected_balance p t) b))
    in (\<bar>d\<bar> < 100 \<longrightarrow> ok) \<and> (100 < \<bar>d\<bar> \<longrightarrow> \<not> ok)"
proof -
  have p: "whole_paise p" "\<bar>to_paise p\<bar> \<le> 300000000000" using assms(3) by (simp_all add: money_def)
  have b: "whole_paise b" using assms(1,2) by (simp add: row_in_money_def money_def)
  have "\<bar>to_paise p + moved t\<bar> \<le> 1000000000000" using p(2) row_money(3,4) [OF assms(1)] by (simp add: moved_def)
  from expected_exact [OF assms(1) p(1) this] over_one_rupee [OF _ b, of "expected_balance p t"]
  show ?thesis by (simp add: Let_def)
qed

lemma validated:
  "list_all row_in_money ts \<Longrightarrow> in_money p \<Longrightarrow>
    list_all2 (\<lambda>(t, t') drift. verdict (txn_balance_ok t) (txn_balance_ok t') drift)
      (zip ts (validate_from p ts)) (drifts (paise p) ts)"
proof (induction ts arbitrary: p)
  case (Cons t ts)
  have row: "row_in_money t" "list_all row_in_money ts" using Cons.prems(1) by simp_all
  show ?case
  proof (cases "txn_balance t")
    case None
    with Cons.IH [OF row(2) Cons.prems(2)] show ?thesis by (cases p) (simp_all add: verdict_def)
  next
    case (Some b)
    then have b: "in_money (Some b)" using row(1) by (simp add: row_in_money_def)
    show ?thesis
    proof (cases "has_amt t")
      case False
      with Some Cons.IH [OF row(2) b] Cons.IH [OF row(2) Cons.prems(2)] show ?thesis
        by (cases p) (simp_all add: verdict_def)
    next
      case True
      show ?thesis
      proof (cases p)
        case None
        with True Some Cons.IH [OF row(2) b] show ?thesis by (simp add: verdict_def)
      next
        case (Some q)
        with Cons.prems(2) have "money q" by simp
        from checked_row [OF row(1) \<open>txn_balance t = Some b\<close> this] True Some \<open>txn_balance t = Some b\<close> Cons.IH [OF row(2) b]
        show ?thesis by (auto simp: verdict_def Let_def or_zero_def)
      qed
    qed
  qed
qed simp

text \<open>C31: the check of a sheet's balances flags a row exactly when the stated balance is more than one rupee from what
  the paise of the row before and the row's own amount give, and passes it when it is closer; only a row off by
  exactly one rupee depends on how the doubles round. A row without a balance or an amount is not judged.\<close>

theorem balance_check_exact:
  assumes "list_all row_in_money txns" and "in_money opening"
  shows "list_all2 (\<lambda>(t, t') drift. verdict (txn_balance_ok t) (txn_balance_ok t') drift)
      (zip txns (validate_balances txns opening)) (drifts (paise opening) txns)"
  unfolding validate_balances_def by (rule validated [OF assms])

subsection \<open>Swapped directions\<close>

definition only_debit :: "transaction \<Rightarrow> int option" where
  "only_debit t = (case (txn_debit t, txn_credit t) of (Some d, None) \<Rightarrow> Some (to_paise d) | _ \<Rightarrow> None)"

definition only_credit :: "transaction \<Rightarrow> int option" where
  "only_credit t = (case (txn_debit t, txn_credit t) of (None, Some c) \<Rightarrow> Some (to_paise c) | _ \<Rightarrow> None)"

definition swapped :: "transaction \<Rightarrow> transaction" where
  "swapped t = t\<lparr>txn_debit := txn_credit t, txn_credit := txn_debit t\<rparr>"

text \<open>The change of the balance from the last one stated, where both are known.\<close>

fun changes :: "int option \<Rightarrow> transaction list \<Rightarrow> int option list" where
  "changes p [] = []"
| "changes p (t # ts) =
    (if txn_is_opening_balance t then None # changes (paise (txn_balance t)) ts
     else (case paise (txn_balance t) of
             None \<Rightarrow> None # changes p ts
           | Some b \<Rightarrow> map_option (\<lambda>q. b - q) p # changes (Some b) ts))"

definition direction_settled :: "transaction \<Rightarrow> transaction \<Rightarrow> int option \<Rightarrow> bool" where
  "direction_settled t t' change \<longleftrightarrow>
    (case change of
       None \<Rightarrow> t' = t
     | Some d \<Rightarrow> (t' = t \<or> t' = swapped t)
        \<and> (case only_debit t of
             Some a \<Rightarrow> (\<bar>d - a\<bar> < 100 \<longrightarrow> t' = swapped t) \<and> (\<bar>d + a\<bar> \<le> 100 \<longrightarrow> 150 \<le> a \<longrightarrow> t' = t)
           | None \<Rightarrow> True)
        \<and> (case only_credit t of
             Some a \<Rightarrow> (\<bar>d + a\<bar> < 100 \<longrightarrow> t' = swapped t) \<and> (\<bar>d - a\<bar> \<le> 100 \<longrightarrow> 150 \<le> a \<longrightarrow> t' = t)
           | None \<Rightarrow> True))"

lemma two_percent:
  assumes "whole_paise a" and "0 \<le> to_paise a"
  obtains m where "tolerance a = Finite False m" and "1 \<le> m" and "m \<le> max 1 (21 / 1000 * (of_int (to_paise a) / 100) + 1 / 1000)"
proof -
  obtain s x where x: "a = Finite s x" "0 \<le> x" "\<bar>signed_rat s x - of_int (to_paise a) / 100\<bar> \<le> 2 / 1000000"
    "\<bar>of_int (to_paise a) / 100 :: rat\<bar> \<le> 10000000000" using whole_paise_value [OF assms(1)] by metis
  obtain c where c: "f64_of (2 / 100) = Finite False c" "\<bar>c - 2 / 100\<bar> \<le> 1 / 10000"
    using f64_of_close [of "2 / 100"] by auto
  let ?v = "signed_rat s x" let ?p = "of_int (to_paise a) / 100 :: rat"
  have p: "0 \<le> ?p" using assms(2) by simp
  have cb: "0 \<le> c" "c \<le> 201 / 10000" using c(2) by linarith+
  have up: "?v * c \<le> 201 / 10000 * (?p + 2 / 1000000)"
  proof (cases "0 \<le> ?v")
    case True
    then have "?v * c \<le> ?v * (201 / 10000)" using cb(2) by (rule mult_left_mono [rotated])
    moreover have "?v \<le> ?p + 2 / 1000000" using x(3) by linarith
    then have "?v * (201 / 10000) \<le> (?p + 2 / 1000000) * (201 / 10000)" by (rule mult_right_mono) simp
    ultimately show ?thesis by (simp only: mult.commute [of "201 / 10000"])
  next
    case False
    then have "?v * c \<le> 0" using cb(1) by (intro mult_nonpos_nonneg) simp_all
    moreover have "0 \<le> 201 / 10000 * (?p + 2 / 1000000)" using p by simp
    ultimately show ?thesis by (rule order_trans)
  qed
  have "\<bar>?v\<bar> \<le> 20000000000" using x(3,4) by linarith
  then have "\<bar>?v * c\<bar> \<le> 20000000000 * (201 / 10000)"
    unfolding abs_mult using cb by (intro mult_mono) simp_all
  then have vc: "\<bar>?v * c\<bar> \<le> 1000000000" by linarith
  then have "\<bar>?v * c\<bar> \<le> 1000000000000" by linarith
  then obtain s' y where y: "rounded (s \<noteq> False) (?v * c) = Finite s' y" "0 \<le> y"
    "\<bar>signed_rat s' y - ?v * c\<bar> \<le> \<bar>?v * c\<bar> / 2 ^ 53 + 1 / 1000000000" by (rule rounded_value)
  have "\<bar>?v * c\<bar> / 2 ^ 53 \<le> 1 / 100000" using vc by simp
  define q where "q = ?p"
  have "signed_rat s' y \<le> 201 / 10000 * (q + 2 / 1000000) + 1 / 50000"
  proof -
    have "y1 \<le> u" if "\<bar>y1 - w\<bar> \<le> e + 1 / 1000000000" "e \<le> 1 / 100000" "w \<le> u - 1 / 50000" for y1 w e u :: rat
      using that by linarith
    from this [OF y(3) \<open>\<bar>?v * c\<bar> / 2 ^ 53 \<le> 1 / 100000\<close>] up [folded q_def] show ?thesis by simp
  qed
  moreover have "0 \<le> q" using p by (simp add: q_def)
  ultimately have "signed_rat s' y \<le> 21 / 1000 * q + 1 / 1000" by (simp add: field_simps)
  then have le: "signed_rat s' y \<le> 21 / 1000 * ?p + 1 / 1000" unfolding q_def .
  have mul: "f64_mul a (f64_of (2 / 100)) = Finite s' y"
    unfolding x(1) c(1) using y(1) by (simp add: signed_rat_def [of False])
  show ?thesis
  proof (cases "1 < signed_rat s' y")
    case True
    then have "\<not> s'" using y(2) by (auto simp: signed_rat_def)
    with True have "tolerance a = Finite False y" "1 \<le> y" "y \<le> 21 / 1000 * ?p + 1 / 1000"
      using le unfolding tolerance_def mul by (simp_all add: one_rupee f64_max_def f64_less_def signed_rat_def)
    with that [of y] show ?thesis by (simp add: le_max_iff_disj)
  next
    case False
    then have "tolerance a = Finite False 1"
      unfolding tolerance_def mul by (auto simp: one_rupee f64_max_def f64_less_def signed_rat_def)
    with that [of 1] show ?thesis by simp
  qed
qed

lemma redirect_test:
  assumes "whole_paise d" and "whole_paise a" and "0 \<le> to_paise a"
  shows "\<bar>to_paise d - to_paise a\<bar> < 100 \<Longrightarrow> f64_less (f64_abs (f64_sub d a)) (tolerance a)"
    and "\<bar>to_paise d + to_paise a\<bar> \<le> 100 \<Longrightarrow> 150 \<le> to_paise a \<Longrightarrow> \<not> f64_less (f64_abs (f64_sub d a)) (tolerance a)"
proof -
  let ?n = "\<bar>to_paise d - to_paise a\<bar>"
  obtain m where m: "f64_abs (f64_sub d a) = Finite False m" "\<bar>m - of_int ?n / 100\<bar> \<le> 1 / 10000"
    using distance_close [OF assms(1,2)] by metis
  obtain t where t: "tolerance a = Finite False t" "1 \<le> t"
    "t \<le> max 1 (21 / 1000 * (of_int (to_paise a) / 100) + 1 / 1000)"
    using two_percent [OF assms(2,3)] by metis
  define k :: rat where "k = of_int ?n"
  define q :: rat where "q = of_int (to_paise a)"
  note m = m(1) m(2) [folded k_def] and t = t(1,2) t(3) [folded q_def]
  {
    assume "?n < 100"
    then have "k \<le> 99" unfolding k_def by linarith
    then have "m < t" using m(2) t(2) by linarith
    with m(1) t(1) show "f64_less (f64_abs (f64_sub d a)) (tolerance a)" by (simp add: f64_less_def signed_rat_def)
  next
    assume n: "\<bar>to_paise d + to_paise a\<bar> \<le> 100" "150 \<le> to_paise a"
    then have "2 * to_paise a - 100 \<le> ?n" by linarith
    then have "of_int (2 * to_paise a - 100) \<le> k" unfolding k_def by (simp only: of_int_le_iff)
    then have k: "2 * q - 100 \<le> k" by (simp add: q_def)
    have "150 \<le> q" using n(2) by (simp add: q_def)
    with k m(2) have "1 \<le> m" "21 / 1000 * (q / 100) + 1 / 1000 \<le> m" by linarith+
    then have "t \<le> m" using t(3) by simp
    with m(1) t(1) show "\<not> f64_less (f64_abs (f64_sub d a)) (tolerance a)" by (simp add: f64_less_def signed_rat_def)
  }
qed

lemma neg_whole: "whole_paise d \<Longrightarrow> whole_paise (f64_neg d) \<and> to_paise (f64_neg d) = - to_paise d"
  by (cases d) (auto simp: whole_paise_def to_paise_def Let_def amount_def)

lemma abs_rounded_minus: "f64_abs (rounded z (- v)) = f64_abs (rounded z' v)"
  by (simp add: rounded_def Let_def)

lemma abs_of_add: "is_finite d \<Longrightarrow> is_finite c \<Longrightarrow> f64_abs (f64_add d c) = f64_abs (f64_sub (f64_neg d) c)"
proof -
  assume "is_finite d" "is_finite c"
  then obtain s m t n where f: "d = Finite s m" "c = Finite t n" by (metis is_finite.elims(2))
  have "signed_rat (\<not> s) m + signed_rat (\<not> t) n = - (signed_rat s m + signed_rat t n)" by (simp add: signed_rat_def)
  then show ?thesis
    using abs_rounded_minus [of "\<not> s \<and> \<not> t" "signed_rat s m + signed_rat t n" "s \<and> t"] f by (simp add: f64_sub_def)
qed

lemma redirected:
  assumes "row_in_money t" and "whole_paise diff"
    and "list_all (\<lambda>v. case v of Some x \<Rightarrow> 0 \<le> to_paise x | None \<Rightarrow> True) [txn_debit t, txn_credit t]"
  shows "direction_settled t (redirect diff t) (Some (to_paise diff))"
proof (cases "txn_debit t")
  case debit: (Some a)
  show ?thesis
  proof (cases "txn_credit t")
    case None
    have a: "whole_paise a" "0 \<le> to_paise a" using assms(1,3) debit by (simp_all add: row_in_money_def money_def)
    from redirect_test [OF assms(2) a] debit None show ?thesis
      by (auto simp: direction_settled_def redirect_def only_debit_def only_credit_def swapped_def)
  qed (use debit in \<open>simp add: direction_settled_def redirect_def only_debit_def only_credit_def\<close>)
next
  case debit: None
  show ?thesis
  proof (cases "txn_credit t")
    case (Some a)
    have a: "whole_paise a" "0 \<le> to_paise a" using assms(1,3) Some by (simp_all add: row_in_money_def money_def)
    have fin: "is_finite diff" "is_finite a"
      using assms(2) a(1) by (auto simp: whole_paise_def split: f64.splits)
    have "\<bar>to_paise (f64_neg diff) - to_paise a\<bar> = \<bar>to_paise diff + to_paise a\<bar>"
      "\<bar>to_paise (f64_neg diff) + to_paise a\<bar> = \<bar>to_paise diff - to_paise a\<bar>"
      using neg_whole [OF assms(2)] by simp_all
    with redirect_test [OF conjunct1 [OF neg_whole [OF assms(2)]] a] abs_of_add [OF fin] debit Some show ?thesis
      by (auto simp: direction_settled_def redirect_def only_debit_def only_credit_def swapped_def)
  qed (use debit in \<open>simp add: direction_settled_def redirect_def only_debit_def only_credit_def\<close>)
qed

definition no_negatives :: "transaction \<Rightarrow> bool" where
  "no_negatives t \<longleftrightarrow> list_all (\<lambda>v. case v of Some x \<Rightarrow> 0 \<le> to_paise x | None \<Rightarrow> True) [txn_debit t, txn_credit t]"

lemma corrected:
  "list_all row_in_money ts \<Longrightarrow> list_all no_negatives ts \<Longrightarrow> in_money p \<Longrightarrow>
    list_all2 (\<lambda>(t, t') change. direction_settled t t' change) (zip ts (correct_from p ts)) (changes (paise p) ts)"
proof (induction ts arbitrary: p)
  case (Cons t ts)
  have row: "row_in_money t" "list_all row_in_money ts" "no_negatives t" "list_all no_negatives ts"
    using Cons.prems(1,2) by simp_all
  have next_ok: "in_money (txn_balance t)" using row(1) by (simp add: row_in_money_def)
  show ?case
  proof (cases "txn_is_opening_balance t \<or> txn_balance t = None")
    case True
    with Cons.IH [OF row(2,4) next_ok] Cons.IH [OF row(2,4) Cons.prems(3)] show ?thesis
      by (auto simp: direction_settled_def)
  next
    case False
    then obtain b where b: "txn_balance t = Some b" "\<not> txn_is_opening_balance t" by auto
    show ?thesis
    proof (cases p)
      case None
      with b Cons.IH [OF row(2,4) next_ok] show ?thesis by (simp add: direction_settled_def)
    next
      case (Some q)
      with Cons.prems(3) next_ok b have "whole_paise b" "whole_paise q" "\<bar>to_paise b\<bar> \<le> 300000000000"
        "\<bar>to_paise q\<bar> \<le> 300000000000" by (simp_all add: money_def)
      moreover from this have "\<bar>to_paise b - to_paise q\<bar> \<le> 1000000000000" by linarith
      ultimately have "to_paise (round2 (f64_sub b q)) = to_paise b - to_paise q" "whole_paise (round2 (f64_sub b q))"
        using paise_difference by blast+
      with redirected [OF row(1), of "round2 (f64_sub b q)"] row(3) Some b Cons.IH [OF row(2,4) next_ok]
      show ?thesis by (simp add: no_negatives_def)
    qed
  qed
qed simp

text \<open>The correction of directions only ever swaps the debit and the credit of a row. A row is swapped when the other
  reading agrees with the change of the stated balance to within a rupee, and is left alone when it agrees as
  it stands and its amount is at least one and a half rupees.\<close>

lemma direction_correction_follows_balances:
  assumes "list_all row_in_money txns" and "list_all no_negatives txns"
  shows "list_all2 (\<lambda>(t, t') change. direction_settled t t' change)
    (zip txns (correct_debit_credit_by_balance txns)) (changes None txns)"
  unfolding correct_debit_credit_by_balance_def using corrected [OF assms, of None] by simp

text \<open>Below fifty paise a debit that agrees with the balances is turned into a credit.\<close>

lemma small_debit_is_flipped:
  assumes "whole_paise diff" and "whole_paise a" and "txn_debit t = Some a" and "txn_credit t = None"
    and "to_paise diff = - to_paise a" and "0 \<le> to_paise a" and "to_paise a < 50"
  shows "redirect diff t = swapped t"
proof -
  have "\<bar>to_paise diff - to_paise a\<bar> < 100" using assms(5-7) by simp
  from redirect_test(1) [OF assms(1,2,6) this] assms(3,4) show ?thesis by (simp add: redirect_def swapped_def)
qed

subsection \<open>Rows met twice\<close>

definition real_rows :: "transaction list \<Rightarrow> transaction list" where
  "real_rows ts = filter (\<lambda>t. \<not> txn_is_opening_balance t) ts"

lemma dedup_keys:
  "distinct (map dedup_key (real_rows (dedup_from seen ts)))
   \<and> dedup_key ` set (real_rows (dedup_from seen ts)) = dedup_key ` set (real_rows ts) - set seen"
proof (induction ts arbitrary: seen)
  case (Cons t ts)
  show ?case
    using Cons.IH [of seen] Cons.IH [of "dedup_key t # seen"] by (auto simp: real_rows_def)
qed (simp add: real_rows_def)

lemma dedup_synthetic:
  "filter txn_is_opening_balance (dedup_from seen ts) = filter txn_is_opening_balance ts"
  by (induction ts arbitrary: seen) simp_all

lemma dedup_subseq: "subseq (dedup_from seen ts) ts"
  by (induction ts arbitrary: seen) (auto intro: list_emb_Cons)

lemma dedup_fixpoint:
  "distinct (map dedup_key (real_rows ts)) \<Longrightarrow> dedup_key ` set (real_rows ts) \<inter> set seen = {} \<Longrightarrow> dedup_from seen ts = ts"
  by (induction ts arbitrary: seen) (auto simp: real_rows_def)

text \<open>Removing repeated rows keeps, in their order, the opening rows and exactly one row of each date, narration
  and amounts: no key is kept twice, none is lost, and doing it again changes nothing.\<close>

lemma deduplicate_keeps_one_of_each:
  "distinct (map dedup_key (real_rows (deduplicate_txns ts)))
   \<and> dedup_key ` set (real_rows (deduplicate_txns ts)) = dedup_key ` set (real_rows ts)
   \<and> filter txn_is_opening_balance (deduplicate_txns ts) = filter txn_is_opening_balance ts
   \<and> subseq (deduplicate_txns ts) ts
   \<and> deduplicate_txns (deduplicate_txns ts) = deduplicate_txns ts"
  using dedup_keys [of "[]" ts] dedup_synthetic [of "[]" ts] dedup_subseq [of "[]" ts]
    dedup_fixpoint [of "dedup_from [] ts" "[]"]
  by (simp add: deduplicate_txns_def)

subsection \<open>A statement\<close>

text \<open>Two rows of a statement: a debit of 250 rupees leaves 750, a credit of 100 leaves 850.\<close>

definition statement_rows :: "transaction list" where
  "statement_rows =
    [(transaction_new (lit ''t_1_0''))\<lparr>txn_debit := Some (amount False 25000), txn_balance := Some (amount False 75000)\<rparr>,
     (transaction_new (lit ''t_2_1''))\<lparr>txn_credit := Some (amount False 10000), txn_balance := Some (amount False 85000)\<rparr>]"

lemma statement_rows_ok: "list_all row_in_money statement_rows" "list_all no_negatives statement_rows"
  by (simp_all add: statement_rows_def row_in_money_def no_negatives_def money_def transaction_new_def)

lemma statement_paise:
  "opening_paise statement_rows = Some 100000"
  "running (Some 100000) statement_rows = [Some 100000, Some 75000]"
  "drifts (Some 100000) statement_rows = [Some 0, Some 0]"
  by (simp_all add: statement_rows_def transaction_new_def has_amt_def moved_def or_zero_def)

theorem prev_balances_exact_witness:
  "paise (snd (compute_prev_balances statement_rows None)) = Some 100000
    \<and> map (\<lambda>t. paise (txn_prev_balance t)) (fst (compute_prev_balances statement_rows None)) = [Some 100000, Some 75000]"
  using prev_balances_exact [OF statement_rows_ok(1), of None] statement_paise
  by (simp add: whole_opt_def within_limit_def)

theorem balance_check_exact_witness:
  "list_all2 (\<lambda>(t, t') drift. verdict (txn_balance_ok t) (txn_balance_ok t') drift)
     (zip statement_rows (validate_balances statement_rows (Some (amount False 100000)))) [Some 0, Some 0]"
  using balance_check_exact [OF statement_rows_ok(1), of "Some (amount False 100000)"] statement_paise
  by (simp add: money_def)

lemma direction_correction_follows_balances_example:
  "list_all2 (\<lambda>(t, t') change. direction_settled t t' change)
     (zip statement_rows (correct_debit_credit_by_balance statement_rows)) [None, Some 10000]"
proof -
  have "changes None statement_rows = [None, Some 10000]"
    by (simp add: statement_rows_def transaction_new_def)
  then show ?thesis using direction_correction_follows_balances [OF statement_rows_ok] by simp
qed

end
