(* ===== verification/ColumnFacts.thy ===== *)
theory ColumnFacts
  imports ColumnDetector
begin

text \<open>
  The columns a header row gives: each field has a column of the row that really says its name, no column serves
  two fields, and a field goes without one only when nothing was left for it.
\<close>

subsection \<open>Reading a column map\<close>

fun col_get :: "column_map \<Rightarrow> col_field \<Rightarrow> int" where
  "col_get m ColDate = cm_date m"
| "col_get m ColNarration = cm_narration m"
| "col_get m ColReference = cm_reference m"
| "col_get m ColDebit = cm_debit m"
| "col_get m ColCredit = cm_credit m"
| "col_get m ColBalance = cm_balance m"
| "col_get m ColDebitCredit = cm_debit_credit m"

lemma col_get_set [simp]: "col_get (col_set f c m) g = (if g = f then c else col_get m g)"
  by (cases f; cases g) simp_all

lemma col_get_default [simp]: "col_get column_map_default f = - 1"
  by (cases f) (simp_all add: column_map_default_def)

subsection \<open>The choice of one column\<close>

lemma pick_none:
  "pick_col score free (b, s) cs = None \<Longrightarrow> b = None \<and> (\<forall>d \<in> set cs. free d \<longrightarrow> score d \<le> s)"
proof (induction cs arbitrary: b s)
  case (Cons e es)
  show ?case
  proof (cases "s < score e \<and> free e")
    case True
    with Cons.prems have "pick_col score free (Some e, score e) es = None" by simp
    then have False using Cons.IH by blast
    then show ?thesis ..
  next
    case False
    with Cons.prems have "pick_col score free (b, s) es = None" by auto
    with Cons.IH have "b = None" "\<forall>d \<in> set es. free d \<longrightarrow> score d \<le> s" by blast+
    with False show ?thesis by auto
  qed
qed simp

lemma pick_some:
  "pick_col score free (b, s) cs = Some c \<Longrightarrow> (\<And>d. b = Some d \<Longrightarrow> s = score d) \<Longrightarrow>
    (b = Some c \<or> c \<in> set cs \<and> free c \<and> s < score c) \<and> s \<le> score c
    \<and> (\<forall>d \<in> set cs. free d \<longrightarrow> score d \<le> score c)"
proof (induction cs arbitrary: b s)
  case (Cons e es)
  show ?case
  proof (cases "s < score e \<and> free e")
    case True
    with Cons.prems(1) have "pick_col score free (Some e, score e) es = Some c" by simp
    from Cons.IH [OF this] have "Some e = Some c \<or> c \<in> set es \<and> free c \<and> score e < score c" "score e \<le> score c"
      "\<forall>d \<in> set es. free d \<longrightarrow> score d \<le> score c" by simp_all
    with True show ?thesis by auto
  next
    case False
    with Cons.prems(1) have "pick_col score free (b, s) es = Some c" by auto
    note ih = Cons.IH [OF this Cons.prems(2)]
    then have "free e \<Longrightarrow> score e \<le> score c" using False by linarith
    with ih show ?thesis by auto
  qed
qed simp

lemma picked:
  assumes "pick_col score free (None, s) cs = Some c"
  shows "c \<in> set cs" and "free c" and "s < score c" and "\<And>d. d \<in> set cs \<Longrightarrow> free d \<Longrightarrow> score d \<le> score c"
  using pick_some [OF assms] by auto

lemma not_picked: "pick_col score free (None, s) cs = None \<Longrightarrow> d \<in> set cs \<Longrightarrow> free d \<Longrightarrow> score d \<le> s"
  using pick_none [of score free None s cs] by auto

subsection \<open>The whole row\<close>

definition fits_field :: "unicode \<Rightarrow> chars list \<Rightarrow> col_field \<Rightarrow> nat \<Rightarrow> bool" where
  "fits_field U row f c \<longleftrightarrow> c < length row \<and> 10 \<le> col_score U row f c \<and> \<not> steals_exact (\<lambda>g. col_score U row g c) f"

definition columns_fit :: "unicode \<Rightarrow> chars list \<Rightarrow> col_field list \<Rightarrow> column_map \<Rightarrow> nat list \<Rightarrow> bool" where
  "columns_fit U row todo m taken \<longleftrightarrow>
    (\<forall>f. col_get m f = - 1 \<or> (\<exists>c \<in> set taken. col_get m f = int c \<and> fits_field U row f c))
    \<and> (\<forall>f \<in> set todo. col_get m f = - 1)
    \<and> (\<forall>f g. col_get m f = col_get m g \<longrightarrow> f = g \<or> col_get m f = - 1)
    \<and> (\<forall>f. f \<notin> set todo \<longrightarrow> col_get m f = - 1 \<longrightarrow> (\<forall>c. fits_field U row f c \<longrightarrow> c \<in> set taken))
    \<and> (\<forall>c \<in> set taken. \<exists>f. col_get m f = int c)"

lemma columns_fit_take:
  assumes "columns_fit U row (f # fs) m taken" and "f \<notin> set fs" and "fits_field U row f c" and "c \<notin> set taken"
  shows "columns_fit U row fs (col_set f (int c) m) (c # taken)"
proof -
  have fresh: "col_get m g \<noteq> int c" for g
  proof
    assume "col_get m g = int c"
    moreover have "col_get m g = - 1 \<or> (\<exists>c \<in> set taken. col_get m g = int c)"
      using assms(1) unfolding columns_fit_def by blast
    ultimately show False using assms(4) by auto
  qed
  show ?thesis unfolding columns_fit_def
  proof (intro conjI)
    show "\<forall>g. col_get (col_set f (int c) m) g = - 1
        \<or> (\<exists>d \<in> set (c # taken). col_get (col_set f (int c) m) g = int d \<and> fits_field U row g d)"
    proof
      fix g
      have "col_get m g = - 1 \<or> (\<exists>d \<in> set taken. col_get m g = int d \<and> fits_field U row g d)"
        using assms(1) unfolding columns_fit_def by blast
      then show "col_get (col_set f (int c) m) g = - 1
        \<or> (\<exists>d \<in> set (c # taken). col_get (col_set f (int c) m) g = int d \<and> fits_field U row g d)"
        using assms(3) by (cases "g = f") auto
    qed
    show "\<forall>g \<in> set fs. col_get (col_set f (int c) m) g = - 1"
      using assms(1,2) unfolding columns_fit_def by auto
    show "\<forall>g h. col_get (col_set f (int c) m) g = col_get (col_set f (int c) m) h
        \<longrightarrow> g = h \<or> col_get (col_set f (int c) m) g = - 1"
    proof (intro allI impI)
      fix g h assume eq: "col_get (col_set f (int c) m) g = col_get (col_set f (int c) m) h"
      have old: "col_get m g = col_get m h \<Longrightarrow> g = h \<or> col_get m g = - 1"
        using assms(1) unfolding columns_fit_def by blast
      show "g = h \<or> col_get (col_set f (int c) m) g = - 1"
        using eq old fresh [of g] fresh [of h] by (auto split: if_splits)
    qed
    show "\<forall>g. g \<notin> set fs \<longrightarrow> col_get (col_set f (int c) m) g = - 1
        \<longrightarrow> (\<forall>d. fits_field U row g d \<longrightarrow> d \<in> set (c # taken))"
      using assms(1) unfolding columns_fit_def by simp
    show "\<forall>d \<in> set (c # taken). \<exists>g. col_get (col_set f (int c) m) g = int d"
    proof
      fix d assume "d \<in> set (c # taken)"
      then consider "d = c" | "d \<in> set taken" by auto
      then show "\<exists>g. col_get (col_set f (int c) m) g = int d"
      proof cases
        case 2
        then obtain g where g: "col_get m g = int d" using assms(1) unfolding columns_fit_def by blast
        moreover have "col_get m f = - 1" using assms(1) unfolding columns_fit_def by simp
        ultimately have "g \<noteq> f" by auto
        with g show ?thesis by (intro exI [of _ g]) simp
      qed (intro exI [of _ f], simp)
    qed
  qed
qed

lemma columns_fit_skip:
  assumes "columns_fit U row (f # fs) m taken" and "\<And>c. fits_field U row f c \<Longrightarrow> c \<in> set taken"
  shows "columns_fit U row fs m taken"
proof -
  have "\<forall>g. g \<notin> set fs \<longrightarrow> col_get m g = - 1 \<longrightarrow> (\<forall>c. fits_field U row g c \<longrightarrow> c \<in> set taken)"
  proof (intro allI impI)
    fix g c assume g: "g \<notin> set fs" "col_get m g = - 1" "fits_field U row g c"
    show "c \<in> set taken"
    proof (cases "g = f")
      case True
      with assms(2) g(3) show ?thesis by simp
    next
      case False
      with g assms(1) show ?thesis unfolding columns_fit_def by simp
    qed
  qed
  moreover have "\<forall>g \<in> set fs. col_get m g = - 1" using assms(1) unfolding columns_fit_def by simp
  ultimately show ?thesis using assms(1) unfolding columns_fit_def by blast
qed

lemma assign_cols_fit:
  "columns_fit U row fs m taken \<Longrightarrow> distinct fs \<Longrightarrow> \<exists>taken'. columns_fit U row [] (assign_cols U row (m, taken) fs) taken'"
proof (induction fs arbitrary: m taken)
  case (Cons f fs)
  let ?free = "\<lambda>c. c \<notin> set taken \<and> \<not> steals_exact (\<lambda>g. col_score U row g c) f"
  show ?case
  proof (cases "pick_col (col_score U row f) ?free (None, 9) [0..<length row]")
    case None
    have "c \<in> set taken" if "fits_field U row f c" for c
      using not_picked [OF None, of c] that by (auto simp: fits_field_def)
    from Cons.IH [OF columns_fit_skip [OF Cons.prems(1) this]] Cons.prems(2) None show ?thesis by simp
  next
    case (Some c)
    have "fits_field U row f c" "c \<notin> set taken" using picked(1-3) [OF Some] by (auto simp: fits_field_def)
    from Cons.IH [OF columns_fit_take [OF Cons.prems(1) _ this]] Cons.prems(2) Some show ?thesis by simp
  qed
qed auto

lemma detect_fit: "\<exists>taken. columns_fit U row [] (detect_excel_cols U row) taken"
proof -
  have "columns_fit U row assign_order column_map_default []"
    unfolding columns_fit_def by (auto simp: assign_order_def) (metis col_field.exhaust)
  from assign_cols_fit [OF this] show ?thesis by (simp add: detect_excel_cols_def assign_order_def)
qed

text \<open>C32: in the columns a header row gives, a field has no column or one of the row whose words match it, two fields
  never share a column, and a field has none only when every column that matches it serves another field.\<close>

theorem header_columns_fit:
  "col_get (detect_excel_cols U row) f \<in> insert (- 1) (int ` {c. fits_field U row f c})
   \<and> inj_on (col_get (detect_excel_cols U row)) {g. col_get (detect_excel_cols U row) g \<noteq> - 1}
   \<and> (if col_get (detect_excel_cols U row) f = - 1 then int ` {c. fits_field U row f c} else {})
       \<subseteq> range (col_get (detect_excel_cols U row))"
proof (intro conjI)
  obtain taken where fit: "columns_fit U row [] (detect_excel_cols U row) taken" using detect_fit by blast
  show "col_get (detect_excel_cols U row) f \<in> insert (- 1) (int ` {c. fits_field U row f c})"
    using fit unfolding columns_fit_def by blast
  show "inj_on (col_get (detect_excel_cols U row)) {g. col_get (detect_excel_cols U row) g \<noteq> - 1}"
    using fit unfolding columns_fit_def inj_on_def by blast
  show "(if col_get (detect_excel_cols U row) f = - 1 then int ` {c. fits_field U row f c} else {})
       \<subseteq> range (col_get (detect_excel_cols U row))"
    using fit unfolding columns_fit_def by (auto simp: image_def) (metis)
qed

subsection \<open>Scores\<close>

lemma score_le: "b \<le> 60 \<Longrightarrow> score_from val b ps \<le> 60 \<or> score_from val b ps = 100"
  by (induction ps arbitrary: b) auto

lemma score_exact: "b \<le> 60 \<Longrightarrow> score_from val b ps = 100 \<longleftrightarrow> val \<in> set ps"
proof (induction ps arbitrary: b)
  case (Cons p ps)
  then show ?case by auto
qed auto

text \<open>The full score is an exact match, and only that.\<close>

lemma score_cell_exact: "2 \<le> byte_len val \<Longrightarrow> score_cell val ps = 100 \<longleftrightarrow> val \<in> set ps"
  using score_exact [of 0 val ps] by (cases val) (simp_all add: score_cell_def byte_len_def)

end
