(* ===== verification/ExcelFacts.thy ===== *)
theory ExcelFacts
  imports ExcelParser BalanceFacts ColumnFacts DateFacts
begin

text \<open>
  What the transactions of a sheet are: each has an identifier of its own, a date of the years 2000 to 2099 and an
  amount, in the order of the sheet's rows, behind at most one row for the opening balance.
\<close>

subsection \<open>What the later passes leave alone\<close>

definition same_row :: "transaction \<Rightarrow> transaction \<Rightarrow> bool" where
  "same_row t t' \<longleftrightarrow> txn_id t' = txn_id t \<and> txn_date t' = txn_date t \<and> txn_date_ts t' = txn_date_ts t
     \<and> txn_narration t' = txn_narration t \<and> txn_balance t' = txn_balance t
     \<and> txn_is_opening_balance t' = txn_is_opening_balance t \<and> has_amt t' = has_amt t"

lemma same_row_refl [simp]: "same_row t t"
  by (simp add: same_row_def)







subsection \<open>Rows of a sheet\<close>

















subsection \<open>The whole sheet\<close>





end
