(* ===== verification/BankFacts.thy ===== *)
theory BankFacts
  imports BankDetection AmountFacts
begin

text \<open>
  How the evidence for a bank is ranked, that the repair of misread abbreviations never finds one, and that an account
  number is masked.
\<close>

subsection \<open>Confidences\<close>

lemma percent_close:
  assumes "1 \<le> n" and "n \<le> 100"
  obtains m where "percent n = Finite False m" and "\<bar>m - of_nat n / 100\<bar> \<le> 1 / 10000"
proof -
  have "(1::rat) \<le> of_nat n" "(of_nat n :: rat) \<le> 100" using assms by simp_all
  then show ?thesis using f64_of_close [of "of_nat n / 100"] that unfolding percent_def by auto
qed

lemma percent_less:
  assumes "1 \<le> a" and "a \<le> 100" and "1 \<le> b" and "b \<le> 100"
  shows "f64_less (percent a) (percent b) \<longleftrightarrow> a < b"
proof -
  obtain x y where xy: "percent a = Finite False x" "\<bar>x - of_nat a / 100\<bar> \<le> 1 / 10000"
    "percent b = Finite False y" "\<bar>y - of_nat b / 100\<bar> \<le> 1 / 10000"
    using percent_close assms by metis
  have less: "f64_less (percent a) (percent b) \<longleftrightarrow> x < y" unfolding xy(1,3) by (simp add: f64_less_def signed_rat_def)
  show ?thesis
  proof (cases a b rule: linorder_cases)
    case less': less
    then have "of_nat a + 1 \<le> (of_nat b :: rat)" by (metis Suc_leI of_nat_Suc of_nat_le_iff add.commute)
    then have "x < y" using xy(2,4) by linarith
    with less less' show ?thesis by simp
  next
    case equal
    with xy have "x = y" by simp
    with less equal show ?thesis by simp
  next
    case greater
    then have "of_nat b + 1 \<le> (of_nat a :: rat)" by (metis Suc_leI of_nat_Suc of_nat_le_iff add.commute)
    then have "y < x" using xy(2,4) by linarith
    with less greater show ?thesis by simp
  qed
qed

text \<open>The weight of a phrase leaves its confidence well above that of a file name.\<close>

lemma min_less: "f64_less (f64_min x y) (percent n) \<Longrightarrow> f64_less x (percent n) \<or> f64_less y (percent n)"
  by (auto simp: f64_min_def split: if_splits)

lemma phrase_strong:
  assumes "w = 9 \<or> w = 10"
  shows "\<not> f64_less (phrase_confidence w) (percent 82)"
proof -
  obtain x where x: "percent 95 = Finite False x" "\<bar>x - 95 / 100\<bar> \<le> 1 / 10000" using percent_close [of 95] by auto
  obtain y where y: "f64_of (of_nat w / 10) = Finite False y" "\<bar>y - of_nat w / 10\<bar> \<le> 1 / 10000"
    by (rule f64_of_close [of "of_nat w / 10"]) (use assms in auto)
  have b: "949 / 1000 \<le> x" "x \<le> 951 / 1000" "899 / 1000 \<le> y" "y \<le> 1001 / 1000"
  proof -
    have "w = 9 \<Longrightarrow> (of_nat w :: rat) / 10 = 9 / 10" "w = 10 \<Longrightarrow> (of_nat w :: rat) / 10 = 1" by simp_all
    with assms have "(of_nat w :: rat) / 10 = 9 / 10 \<or> (of_nat w :: rat) / 10 = 1" by blast
    then show "899 / 1000 \<le> y" "y \<le> 1001 / 1000" using y(2) by (elim disjE; linarith)+
    show "949 / 1000 \<le> x" "x \<le> 951 / 1000" using x(2) by linarith+
  qed
  have "949 / 1000 * (899 / 1000) \<le> x * y" by (rule mult_mono) (use b in linarith)+
  moreover have "x * y \<le> 951 / 1000 * (1001 / 1000)" by (rule mult_mono) (use b in linarith)+
  ultimately have "949 / 1000 * (899 / 1000) \<le> x * y" "x * y \<le> 951 / 1000 * (1001 / 1000)" by blast+
  then have xy: "1 / 100 \<le> x * y" "x * y \<le> 100" "849 / 1000 \<le> x * y" by linarith+
  obtain m where m: "rounded False (x * y) = Finite False m" "\<bar>m - x * y\<bar> \<le> 1 / 10000"
    using close_rounded [OF xy(1,2)] by auto
  have mul: "f64_mul (percent 95) (f64_of (of_nat w / 10)) = Finite False m"
    using m(1) by (simp add: x(1) y(1) signed_rat_def)
  obtain z where z: "percent 82 = Finite False z" "\<bar>z - 82 / 100\<bar> \<le> 1 / 10000" using percent_close [of 82] by auto
  have "z < m" using m(2) xy(3) z(2) by linarith
  then have "\<not> f64_less (f64_mul (percent 95) (f64_of (of_nat w / 10))) (percent 82)"
    unfolding mul z(1) by (simp add: f64_less_def signed_rat_def)
  moreover have "\<not> f64_less (percent 95) (percent 82)" by (simp add: percent_less)
  ultimately show ?thesis unfolding phrase_confidence_def using min_less by blast
qed

subsection \<open>What a hit is worth\<close>

definition strong :: "detect_hit \<Rightarrow> bool" where
  "strong h \<longleftrightarrow> \<not> f64_less (hit_confidence h) (percent 60) \<and> hit_method h \<noteq> ''narration_ifsc'' \<and> hit_bank h \<noteq> ''''"

definition weak :: "detect_hit \<Rightarrow> bool" where
  "weak h \<longleftrightarrow> hit_confidence h = percent 55 \<and> hit_method h = ''narration_ifsc'' \<and> hit_bank h \<noteq> ''''"

lemma known_banks: "list_all (\<lambda>(_, bank). bank \<noteq> '''') ifsc_map" "list_all (\<lambda>(bank, w, _). bank \<noteq> '''' \<and> (w = 9 \<or> w = 10)) phrase_map"
  "list_all (\<lambda>(_, bank, _). bank \<noteq> '''') ocr_abbrevs" "list_all (\<lambda>(_, bank). bank \<noteq> '''') struct_patterns"
  by (simp_all add: ifsc_map_def phrase_map_def phrases_national_def phrases_private_def phrases_cooperative_def
      ocr_abbrevs_def struct_patterns_def)

lemma find_holds: "find P xs = Some x \<Longrightarrow> list_all Q xs \<Longrightarrow> Q x"
  by (auto simp: find_Some_iff list_all_iff)

lemma bank_of_code_known: "bank_of_code c = Some b \<Longrightarrow> b \<noteq> ''''"
  using find_holds [OF _ known_banks(1)] by (auto simp: bank_of_code_def)

definition phrase_found :: "(nat \<times> nat \<times> string) option \<Rightarrow> bool" where
  "phrase_found b \<longleftrightarrow> (case b of None \<Rightarrow> True | Some (_, w, bank) \<Rightarrow> bank \<noteq> '''' \<and> (w = 9 \<or> w = 10))"

lemma best_phrase_found: "phrase_found (best_phrase s)"
proof -
  have step: "bank \<noteq> '''' \<and> (w = 9 \<or> w = 10) \<Longrightarrow> phrase_found best \<Longrightarrow> phrase_found (better_phrase s (bank, w) p best)"
    for bank w p best
    by (auto simp: better_phrase_def phrase_found_def split: option.splits)
  have one: "bank \<noteq> '''' \<and> (w = 9 \<or> w = 10) \<Longrightarrow> phrase_found best \<Longrightarrow> phrase_found (fold (better_phrase s (bank, w)) ps best)"
    for bank w ps best
    by (induction ps arbitrary: best) (simp_all add: step)
  have "list_all (\<lambda>(bank, w, _). bank \<noteq> '''' \<and> (w = 9 \<or> w = 10)) es \<Longrightarrow> phrase_found best \<Longrightarrow>
      phrase_found (fold (\<lambda>(bank, weight, phrases) best. fold (better_phrase s (bank, weight)) phrases best) es best)" for es best
    by (induction es arbitrary: best) (auto intro: one)
  from this [OF known_banks(2), of None] show ?thesis by (simp add: best_phrase_def phrase_found_def)
qed

lemma phrase_hit:
  assumes "detect_by_phrase s = Some h"
  shows "strong h" and "\<not> f64_less (hit_confidence h) (percent 82)"
proof -
  from assms obtain p w bank where b: "best_phrase s = Some (p, w, bank)"
    and h: "h = \<lparr> hit_bank = bank, hit_confidence = phrase_confidence w, hit_method = ''phrase'', hit_ifsc = None \<rparr>"
    by (auto simp: detect_by_phrase_def)
  have w: "w = 9 \<or> w = 10" "bank \<noteq> ''''" using best_phrase_found [of s] b by (simp_all add: phrase_found_def)
  show high: "\<not> f64_less (hit_confidence h) (percent 82)" using phrase_strong [OF w(1)] h by simp
  have "f64_less x (percent 60) \<Longrightarrow> f64_less x (percent 82)" for x
  proof -
    obtain a where a: "percent 60 = Finite False a" "\<bar>a - of_nat 60 / 100\<bar> \<le> 1 / 10000" by (rule percent_close [of 60]) simp_all
    obtain b where b: "percent 82 = Finite False b" "\<bar>b - of_nat 82 / 100\<bar> \<le> 1 / 10000" by (rule percent_close [of 82]) simp_all
    have "\<bar>a - 60 / 100\<bar> \<le> 1 / 10000" "\<bar>b - 82 / 100\<bar> \<le> 1 / 10000" using a(2) b(2) by (simp_all only: of_nat_numeral)
    then have "a < b" by linarith
    then show "f64_less x (percent 60) \<Longrightarrow> f64_less x (percent 82)"
      unfolding a(1) b(1) by (cases x) (auto simp: f64_less_def signed_rat_def split: if_splits)
  qed
  with high h w(2) show "strong h" by (auto simp: strong_def)
qed

lemma ifsc_hit: "detect_by_ifsc U s = Some h \<Longrightarrow> strong h"
  using bank_of_code_known
  by (auto simp: detect_by_ifsc_def labeled_ifsc_def any_ifsc_def strong_def percent_less find_Some_iff
      split: option.splits)

lemma raw_strong: "raw_hit w = Some h \<Longrightarrow> strong h"
  using find_holds [OF _ known_banks(3)]
  by (auto simp: raw_hit_def abbrev_near_def strong_def percent_less split: if_splits)

lemma repaired_strong: "repaired_hit w = Some h \<Longrightarrow> strong h"
  using find_holds [OF _ known_banks(3)]
  by (auto simp: repaired_hit_def abbrev_near_def strong_def percent_less split: if_splits)

lemma fuzzy_hit: "fuzzy_words ws = Some h \<Longrightarrow> strong h"
  by (induction ws) (auto dest: raw_strong repaired_strong split: option.splits)

lemma structure_hit: "detect_by_structure s = Some h \<Longrightarrow> strong h"
  using find_holds [OF _ known_banks(4)] by (auto simp: detect_by_structure_def strong_def percent_less)

lemma capped: "\<not> f64_less x (percent 60) \<Longrightarrow> 60 \<le> n \<Longrightarrow> n \<le> 100 \<Longrightarrow> \<not> f64_less (f64_min x (percent n)) (percent 60)"
  using min_less [of x "percent n" 60] percent_less [of n 60] by auto

lemma full_phrase_hit: "phrase_in_full U s = Some h \<Longrightarrow> strong h"
  using phrase_hit(1) capped [of _ 80] by (auto simp: phrase_in_full_def strong_def)

lemma filename_hit: "detect_by_filename U s = Some h \<Longrightarrow> strong h"
  using phrase_hit(1) fuzzy_hit capped [of _ 65]
  by (fastforce simp: detect_by_filename_def detect_by_fuzzy_def strong_def split: option.splits)

lemma narration_hit: "detect_by_narrations by_hash U ns = Some h \<Longrightarrow> weak h"
  using bank_of_code_known by (auto simp: detect_by_narrations_def Let_def weak_def split: option.splits if_splits)

definition strong_opt :: "detect_hit option \<Rightarrow> bool" where
  "strong_opt r \<longleftrightarrow> (case r of Some h \<Rightarrow> strong h | None \<Rightarrow> True)"

lemma strong_update: "strong_opt a \<Longrightarrow> strong_opt r \<Longrightarrow> strong_opt (update_hit a r)"
  by (auto simp: update_hit_def strong_opt_def split: option.splits)

lemma strong_tier: "strong_opt a \<Longrightarrow> strong_opt r \<Longrightarrow> strong_opt (tier n a r)"
  by (simp add: tier_def strong_update)

lemma strong_sources [simp]:
  "strong_opt (detect_by_ifsc U s)" "strong_opt (detect_by_structure s)" "strong_opt (detect_by_phrase s)"
  "strong_opt (detect_by_fuzzy U s)" "strong_opt (phrase_in_full U s)" "strong_opt (detect_by_filename U s)" "strong_opt None"
  by (auto simp: strong_opt_def detect_by_fuzzy_def
      dest: ifsc_hit structure_hit phrase_hit(1) fuzzy_hit full_phrase_hit filename_hit split: option.split)

lemma tier_keeps: "r \<noteq> None \<Longrightarrow> tier n a r \<noteq> None"
  by (auto simp: tier_def update_hit_def split: option.splits)

lemma best_hit_cases:
  "strong_opt (best_hit by_hash U opts)
   \<or> best_hit by_hash U opts = detect_by_narrations by_hash U (do_narrations opts)"
proof -
  define labeled where "labeled = (if do_header_text opts = [] then None else detect_by_ifsc U (do_header_text opts))"
  define r6 where "r6 = tier 70 (detect_by_filename U (do_filename opts))
      (tier 82 (phrase_in_full U (do_text opts)) (tier 75 (detect_by_fuzzy U (do_header_text opts))
      (tier 95 (detect_by_phrase (norm_text U (do_header_text opts)))
      (tier 95 (detect_by_structure (do_text opts)) (update_hit labeled None)))))"
  define n where "n = detect_by_narrations by_hash U (do_narrations opts)"
  have lab: "strong_opt labeled" by (simp add: labeled_def)
  have r6: "strong_opt r6" unfolding r6_def by (intro strong_tier strong_update strong_sources lab)
  have best: "best_hit by_hash U opts = (case labeled of
       Some h \<Rightarrow> if f64_le (percent 98) (hit_confidence h) then update_hit labeled (tier 60 n r6) else tier 60 n r6
     | None \<Rightarrow> tier 60 n r6)"
    unfolding best_hit_def Let_def labeled_def r6_def n_def ..
  show ?thesis
  proof (cases r6)
    case (Some h)
    with r6 have "tier 60 n r6 = r6" by (simp add: tier_def below_def strong_opt_def strong_def)
    with best r6 lab strong_update show ?thesis by (auto split: option.splits)
  next
    case None
    then have t: "tier 60 n r6 = n" by (cases n) (simp_all add: tier_def below_def update_hit_def)
    have "labeled = None"
    proof (rule ccontr)
      assume "labeled \<noteq> None"
      then obtain h where "labeled = Some h" by auto
      then have "update_hit labeled None \<noteq> None" by (simp add: update_hit_def)
      then have "r6 \<noteq> None" unfolding r6_def by (intro tier_keeps)
      with None show False by simp
    qed
    with best t show ?thesis by (simp add: n_def)
  qed
qed

lemma detect_bank_fields:
  "bd_bank_name (detect_bank by_hash U opts) = (case best_hit by_hash U opts of Some r \<Rightarrow> lit (hit_bank r) | None \<Rightarrow> [])"
  "bd_confidence (detect_bank by_hash U opts) = (case best_hit by_hash U opts of Some r \<Rightarrow> hit_confidence r | None \<Rightarrow> f64_zero)"
  "bd_method (detect_bank by_hash U opts) = (case best_hit by_hash U opts of Some r \<Rightarrow> hit_method r | None \<Rightarrow> ''none'')"
  "bd_needs_review (detect_bank by_hash U opts)
    = (f64_less (bd_confidence (detect_bank by_hash U opts)) (percent 60) \<and> bd_bank_name (detect_bank by_hash U opts) \<noteq> [])"
  by (simp_all add: detect_bank_def Let_def)

text \<open>A known branch code that the header labels as such decides the bank, with confidence 0.98; and a result is
  marked for review exactly when nothing but branch codes in the narrations named the bank.\<close>

lemma bank_detection_ranks_evidence:
  "pred_option (\<lambda>h. do_header_text opts = [] \<or>
      bd_bank_name (detect_bank by_hash U opts) = lit (hit_bank h) \<and> bd_confidence (detect_bank by_hash U opts) = percent 98)
     (labeled_ifsc U (do_header_text opts))
   \<and> bd_needs_review (detect_bank by_hash U opts) = (bd_method (detect_bank by_hash U opts) = ''narration_ifsc'')"
proof
  show "pred_option (\<lambda>h. do_header_text opts = [] \<or>
      bd_bank_name (detect_bank by_hash U opts) = lit (hit_bank h) \<and> bd_confidence (detect_bank by_hash U opts) = percent 98)
     (labeled_ifsc U (do_header_text opts))"
  proof (cases "labeled_ifsc U (do_header_text opts)")
    case (Some h)
    then have conf: "hit_confidence h = percent 98" by (auto simp: labeled_ifsc_def split: option.splits)
    have hit: "detect_by_ifsc U (do_header_text opts) = Some h" using Some by (simp add: detect_by_ifsc_def)
    have stays: "n \<le> 98 \<Longrightarrow> 1 \<le> n \<Longrightarrow> tier n a (Some h) = Some h" for n a
      using percent_less [of 98 n] conf by (simp add: tier_def below_def)
    have irrefl: "\<not> f64_less (percent 98) (percent 98)" by (simp add: percent_less)
    have "best_hit by_hash U opts = Some h" if "do_header_text opts \<noteq> []"
      using that by (simp add: best_hit_def Let_def hit update_hit_def stays conf irrefl)
    with Some conf show ?thesis by (auto simp: detect_bank_fields)
  qed simp
next
  have lit_Nil: "lit b \<noteq> [] \<longleftrightarrow> b \<noteq> ''''" for b by (simp add: lit_def)
  have zero: "f64_less f64_zero (percent 60)"
  proof -
    obtain m where "percent 60 = Finite False m" "\<bar>m - of_nat 60 / 100\<bar> \<le> 1 / 10000" by (rule percent_close [of 60]) simp_all
    moreover from this have "\<bar>m - 60 / 100\<bar> \<le> 1 / 10000" by (simp only: of_nat_numeral)
    then have "0 < m" by linarith
    ultimately show ?thesis by (simp add: f64_less_def f64_zero_def signed_rat_def)
  qed
  show "bd_needs_review (detect_bank by_hash U opts) = (bd_method (detect_bank by_hash U opts) = ''narration_ifsc'')"
  proof (cases "best_hit by_hash U opts")
    case None
    then show ?thesis by (simp add: detect_bank_fields)
  next
    case (Some h)
    with best_hit_cases [of by_hash U opts] narration_hit have "strong h \<or> weak h"
      by (auto simp: strong_opt_def)
    with Some show ?thesis
      by (auto simp: detect_bank_fields strong_def weak_def lit_Nil percent_less)
  qed
qed

subsection \<open>The repair of abbreviations\<close>

lemma abbrevs_foreign: "list_all (\<lambda>(abbrev, _). misread_digit c = c \<or> misread_digit c \<notin> set (lit abbrev)) ocr_abbrevs"
  by (simp add: ocr_abbrevs_def misread_digit_def)

lemma repair_never_nearer:
  assumes "(abbrev, bank, d) \<in> set ocr_abbrevs"
  shows "levenshtein w (lit abbrev) \<le> levenshtein (repair_abbrev w) (lit abbrev)"
proof -
  have "edits w (lit abbrev) \<le> edits (map misread_digit w) (lit abbrev)"
    using abbrevs_foreign assms by (intro edits_foreign) (auto simp: list_all_iff)
  then show ?thesis by (simp add: levenshtein_edits repair_abbrev_def)
qed

lemma repaired_implies_raw: "repaired_hit w \<noteq> None \<Longrightarrow> raw_hit w \<noteq> None"
proof -
  assume "repaired_hit w \<noteq> None"
  then obtain e where "abbrev_near (repair_abbrev w) = Some e" by (auto simp: repaired_hit_def split: if_splits)
  then obtain abbrev bank d where e: "(abbrev, bank, d) \<in> set ocr_abbrevs" "levenshtein (repair_abbrev w) (lit abbrev) \<le> d"
    unfolding abbrev_near_def by (auto simp: find_Some_iff) (metis nth_mem)
  then have "levenshtein w (lit abbrev) \<le> d" using repair_never_nearer [OF e(1), of w] by linarith
  with e(1) have "abbrev_near w \<noteq> None" unfolding abbrev_near_def find_None_iff by auto
  then show "raw_hit w \<noteq> None" by (simp add: raw_hit_def)
qed

text \<open>Looking again for a word after its letters were read as digits never finds a bank: the search gives what the
  first word near an abbreviation gives as it stands.\<close>

lemma misread_repair_never_helps:
  "detect_by_fuzzy U s = Option.bind (find (\<lambda>w. abbrev_near w \<noteq> None) (header_words U s)) raw_hit"
proof -
  have "fuzzy_words ws = Option.bind (find (\<lambda>w. abbrev_near w \<noteq> None) ws) raw_hit" for ws
  proof (induction ws)
    case (Cons w ws)
    show ?case
    proof (cases "raw_hit w")
      case None
      then have "repaired_hit w = None" using repaired_implies_raw [of w] by blast
      moreover have "abbrev_near w = None" using None by (simp add: raw_hit_def)
      moreover note None
      ultimately show ?thesis using Cons by simp
    next
      case (Some h)
      then have "abbrev_near w \<noteq> None" by (auto simp: raw_hit_def)
      with Some show ?thesis by simp
    qed
  qed simp
  then show ?thesis by (simp add: detect_by_fuzzy_def)
qed

text \<open>Every word of three letters one letter away from an abbreviation names a bank: a date of birth is enough.\<close>

lemma date_of_birth_is_a_bank: "map_option (\<lambda>(_, bank, _). bank) (abbrev_near (lit ''DOB'')) = Some ''Bank of Baroda''"
  by code_simp

subsection \<open>The account number\<close>

text \<open>Of an account number only the first and the last four characters are shown.\<close>

lemma account_masked: "set (drop 4 (take (length (masked s) - 4) (masked s))) \<subseteq> {88}"
  by (auto simp: masked_def dest: in_set_dropD in_set_takeD)

end
