(* ===== verification/OcrCorrection.thy ===== *)
theory OcrCorrection
  imports EditDistance Patterns
begin

text \<open>
  \<open>src/parser/ocr_correction.rs\<close>: the repair of text read from a scan. Tokens made of digits and of letters that
  look like digits become numbers, and longer words are replaced by the banking term nearest to them.
\<close>

subsection \<open>Terms\<close>

definition bank_terms :: "string list" where
  "bank_terms =
    [''NEFT'', ''RTGS'', ''IMPS'', ''UPI'', ''NACH'', ''ACH'', ''ECS'', ''BBPS'', ''CREDIT'', ''DEBIT'',
     ''TRANSFER'', ''BALANCE'', ''INTEREST'', ''CHARGES'', ''DEPOSIT'', ''WITHDRAWAL'', ''CHEQUE'',
     ''CLEARING'', ''NARRATION'', ''SALARY'', ''PAYMENT'', ''RECEIPT'', ''VOUCHER'', ''AIRTEL'', ''BSNL'',
     ''RELIANCE'', ''VODAFONE'', ''MSEDCL'', ''BESCOM'', ''ELECTRICITY'', ''AMAZON'', ''FLIPKART'', ''SWIGGY'',
     ''ZOMATO'', ''HDFC'', ''ICICI'', ''AXIS'', ''KOTAK'', ''SBI'', ''REFUND'', ''REVERSAL'', ''BOUNCE'',
     ''RETURN'', ''SUSPENSE'', ''CONTRA'', ''JOURNAL'']"

definition alpha_word :: "chars \<Rightarrow> bool" where
  "alpha_word w \<longleftrightarrow> 4 \<le> length w \<and> list_all ascii_alpha w"

definition sep_re :: rx where
  "sep_re = Some1 (Chr (\<lambda>c. white c \<or> c \<in> set (lit ''/-.,|:'')))"

subsection \<open>Numbers\<close>

definition is_plausibly_numeric :: "chars \<Rightarrow> bool" where
  "is_plausibly_numeric tok \<longleftrightarrow> tok \<noteq> [] \<and> byte_len tok \<le> 20
     \<and> list_all (\<lambda>c. ascii_digit c \<or> c \<in> set (lit ''OoIlSZBGqQAg'')) tok"

text \<open>The letters and the digits they look like.\<close>

definition look_alikes :: "(int \<times> int) list" where
  "look_alikes = [(79, 48), (111, 48), (73, 49), (108, 49), (83, 53), (90, 50), (122, 50), (66, 56), (71, 54),
     (113, 57), (81, 57), (65, 52), (103, 57)]"

definition repair_numeric_token :: "chars \<Rightarrow> chars" where
  "repair_numeric_token tok = map (\<lambda>c. case map_of look_alikes c of Some d \<Rightarrow> d | None \<Rightarrow> c) tok"

definition repair_ocr_token :: "chars \<Rightarrow> chars" where
  "repair_ocr_token tok = (if is_plausibly_numeric tok then repair_numeric_token tok else tok)"

definition repair_string :: "chars \<Rightarrow> chars" where
  "repair_string s =
    (let (found, tail) = find_pieces sep_re s in
     concat (map (\<lambda>(tok, sep). repair_ocr_token tok @ sep) found) @ repair_ocr_token tail)"

subsection \<open>Words\<close>

text \<open>This file's own copy of the distance, without the early returns.\<close>

definition ocr_levenshtein :: "chars \<Rightarrow> chars \<Rightarrow> nat" where
  "ocr_levenshtein a b = dp_table_end a b"

definition nearer_term :: "chars \<Rightarrow> nat \<Rightarrow> nat \<Rightarrow> string \<Rightarrow> chars \<times> nat option \<Rightarrow> chars \<times> nat option" where
  "nearer_term up len max_dist term = (\<lambda>(best, best_dist).
     if int max_dist < \<bar>int (length term) - int len\<bar> then (best, best_dist)
     else
       let d = ocr_levenshtein up (lit term) in
       if (case best_dist of None \<Rightarrow> True | Some b \<Rightarrow> d < b) \<and> d \<le> max_dist then (lit term, Some d)
       else (best, best_dist))"

definition max_dist_of :: "nat \<Rightarrow> nat" where
  "max_dist_of len = (if len \<le> 5 then 1 else if len \<le> 8 then 2 else 3)"

definition fuzzy_correct_term :: "unicode \<Rightarrow> chars \<Rightarrow> chars" where
  "fuzzy_correct_term U word =
    (let up = to_uppercase U word; len = length word in
     if up \<in> set (map lit bank_terms) then up
     else if \<not> (4 \<le> len \<and> len \<le> 15) then word
     else fst (fold (nearer_term up len (max_dist_of len)) bank_terms (word, None)))"

definition correct_word :: "unicode \<Rightarrow> chars \<Rightarrow> chars" where
  "correct_word U w =
    (if \<not> alpha_word w then w
     else
       let fixed = fuzzy_correct_term U w in
       if fixed \<noteq> to_uppercase U w \<and> fixed \<noteq> w then fixed else w)"

subsection \<open>Lines\<close>

definition correct_line :: "unicode \<Rightarrow> chars \<Rightarrow> chars" where
  "correct_line U line =
    (if trimmed line = [] then line
     else join_with [32] (map (correct_word U) (split_whitespace (repair_string line))))"

text \<open>\<open>lines\<close>: a carriage return before the line feed goes with it, and no line follows a final line feed.\<close>

definition text_lines :: "chars \<Rightarrow> chars list" where
  "text_lines s =
    (let parts = split_at (\<lambda>c. c = 10) s; ended = map (\<lambda>l. if l \<noteq> [] \<and> last l = 13 then butlast l else l) (butlast parts) in
     ended @ (if last parts = [] then [] else [last parts]))"

fun correct_text :: "unicode \<Rightarrow> nat \<Rightarrow> chars \<Rightarrow> chars" where
  "correct_text U 0 s = s"
| "correct_text U (Suc passes) s = correct_text U passes (join_with [10] (map (correct_line U) (text_lines s)))"

section \<open>What is corrected\<close>

text \<open>
  The term a word is corrected to is one of the nearest, the bound on the lengths leaves none out, and words made of
  letters that look like digits become numbers.
\<close>

lemma edits_length: "length a \<le> length b + edits a b \<and> length b \<le> length a + edits a b"
  by (induction a b rule: edits.induct) (auto simp: min_def)

lemma ocr_levenshtein_edits: "ocr_levenshtein a b = edits a b"
  by (simp add: ocr_levenshtein_def dp_table_edits edits_rev)

definition nearest_so_far :: "chars \<Rightarrow> chars \<Rightarrow> nat \<Rightarrow> string list \<Rightarrow> chars \<times> nat option \<Rightarrow> bool" where
  "nearest_so_far word up max_dist seen = (\<lambda>(best, best_dist).
     case best_dist of
       None \<Rightarrow> best = word \<and> (\<forall>t \<in> set seen. max_dist < ocr_levenshtein up (lit t))
     | Some d \<Rightarrow> d \<le> max_dist \<and> (\<exists>t \<in> set seen. best = lit t \<and> d = ocr_levenshtein up (lit t))
         \<and> (\<forall>t \<in> set seen. d \<le> ocr_levenshtein up (lit t)))"

lemma far_term: "int k < \<bar>int (length t) - int (length up)\<bar> \<Longrightarrow> k < ocr_levenshtein up (lit t)"
  using edits_length [of up "lit t"] by (auto simp: ocr_levenshtein_edits lit_def)

lemma nearer_step:
  assumes "nearest_so_far word up k seen st"
  shows "nearest_so_far word up k (t # seen) (nearer_term up (length up) k t st)"
proof (cases "int k < \<bar>int (length t) - int (length up)\<bar>")
  case True
  have far: "k < ocr_levenshtein up (lit t)" by (rule far_term [OF True])
  have "nearer_term up (length up) k t st = st" using True by (cases st) (simp add: nearer_term_def)
  with assms far show ?thesis by (fastforce simp: nearest_so_far_def split: option.splits)
next
  case False
  obtain best dist where st: "st = (best, dist)" by (cases st)
  let ?d = "ocr_levenshtein up (lit t)"
  show ?thesis
  proof (cases "(case dist of None \<Rightarrow> True | Some b \<Rightarrow> ?d < b) \<and> ?d \<le> k")
    case True
    then have "nearer_term up (length up) k t st = (lit t, Some ?d)"
      using False by (simp add: st nearer_term_def Let_def)
    with assms True show ?thesis unfolding st nearest_so_far_def by (auto split: option.splits)
  next
    case keep: False
    then have "nearer_term up (length up) k t st = st" using False by (auto simp: st nearer_term_def Let_def)
    with assms keep show ?thesis unfolding st nearest_so_far_def by (auto split: option.splits)
  qed
qed

lemma nearer_fold:
  "nearest_so_far word up k seen st \<Longrightarrow> nearest_so_far word up k (rev ts @ seen) (fold (nearer_term up (length up) k) ts st)"
proof (induction ts arbitrary: seen st)
  case (Cons t ts)
  from Cons.IH [OF nearer_step [OF Cons.prems]] show ?case by simp
qed simp

text \<open>A word of four to fifteen characters that is no term stays as it is when every term is further away than its length
  allows, and otherwise becomes a term that no other is nearer than.\<close>

lemma corrected_to_nearest:
  assumes "length (to_uppercase U w) = length w" and "4 \<le> length w" and "length w \<le> 15"
    and "to_uppercase U w \<notin> set (map lit bank_terms)"
  shows "(fuzzy_correct_term U w = w \<and> (\<forall>t \<in> set bank_terms. max_dist_of (length w) < ocr_levenshtein (to_uppercase U w) (lit t)))
    \<or> (\<exists>t \<in> set bank_terms. fuzzy_correct_term U w = lit t \<and> ocr_levenshtein (to_uppercase U w) (lit t) \<le> max_dist_of (length w)
        \<and> (\<forall>u \<in> set bank_terms. ocr_levenshtein (to_uppercase U w) (lit t) \<le> ocr_levenshtein (to_uppercase U w) (lit u)))"
proof -
  let ?r = "fold (nearer_term (to_uppercase U w) (length w) (max_dist_of (length w))) bank_terms (w, None)"
  have "nearest_so_far w (to_uppercase U w) (max_dist_of (length w)) [] (w, None)" by (simp add: nearest_so_far_def)
  from nearer_fold [OF this, of bank_terms]
  have "nearest_so_far w (to_uppercase U w) (max_dist_of (length w)) (rev bank_terms @ []) ?r" unfolding assms(1) .
  moreover have "fuzzy_correct_term U w = fst ?r" using assms by (simp add: fuzzy_correct_term_def Let_def)
  ultimately show ?thesis
    by (cases ?r) (auto simp: nearest_so_far_def split: option.splits)
qed

text \<open>A word whose letters all look like digits is taken for a number.\<close>

lemma word_becomes_number: "repair_string (lit ''All Bills'') = lit ''411 Bills'' \<and> repair_string (lit ''So'') = lit ''50''"
  by code_simp

end
