(* ===== verification/LocalDb.thy ===== *)
theory LocalDb
  imports Classifier NarrationCleaner StableSort
begin

text \<open>
  \<open>src/db/mod.rs\<close>, the operations: the SQLite database of the desktop application. The database is a
  record with one list of rows per table, in the order of their row ids. A statement either runs as a whole or
  leaves the tables alone; it fails when the schedule of faults says so, and when a constraint of the
  schema is violated: unique keys, and the references to clients and imports, which SQLite checks at the
  end of the statement. A number \<open>k > 0\<close> in the schedule makes the statement fail in its \<open>k\<close>-th stage,
  which decides the text of the error. Columns the code never reads back are left out.
\<close>

subsection \<open>Rows\<close>

record client =
  cl_id :: int
  cl_name :: chars
  cl_tally_ledger :: chars

definition find_client_name :: "client list \<Rightarrow> int \<Rightarrow> chars option" where
  "find_client_name clients i = map_option cl_name (find (\<lambda>c. cl_id c = i) clients)"

record import_record =
  ir_id :: int
  ir_client_id :: int
  ir_file_name :: chars
  ir_bank_name :: chars
  ir_account_no :: chars
  ir_txn_count :: int
  ir_imported_at :: chars

record client_row =
  cw_id :: int
  cw_name :: chars
  cw_gstin :: "chars option"

record txn_row =
  tr_id :: chars
  tr_client_id :: int
  tr_import_id :: "int option"
  tr_bank_name :: "chars option"
  tr_account_no :: "chars option"
  tr_date :: "chars option"
  tr_date_ts :: "int option"
  tr_narration :: "chars option"
  tr_reference :: "chars option"
  tr_debit :: "f64 option"
  tr_credit :: "f64 option"
  tr_balance :: "f64 option"
  tr_prev_balance :: "f64 option"
  tr_vendor :: "chars option"
  tr_account_head :: "chars option"
  tr_txn_type :: "chars option"
  tr_status :: chars
  tr_confidence :: "f64 option"
  tr_classified_by :: "chars option"
  tr_tags :: "chars option"
  tr_balance_ok :: "int option"
  tr_is_opening_bal :: "int option"
  tr_dup_flag :: int
  tr_gst_rate :: "f64 option"
  tr_gst_amount :: "f64 option"
  tr_gst_type :: "chars option"

record import_row =
  im_id :: int
  im_client_id :: int
  im_file_name :: chars
  im_bank_name :: "chars option"
  im_account_no :: "chars option"
  im_txn_count :: int
  im_imported_at :: chars

record rule_row =
  ru_id :: int
  ru_client_id :: int
  ru_pattern :: chars
  ru_vendor :: "chars option"
  ru_account_head :: "chars option"
  ru_txn_type :: "chars option"
  ru_priority :: int

record audit_row =
  au_id :: int
  au_client_id :: int
  au_event :: chars

record ledger_row =
  le_id :: int
  le_client_id :: int
  le_name :: chars
  le_group_name :: "chars option"

text \<open>The sequences are those of the \<open>AUTOINCREMENT\<close> columns: the largest id a table has ever had.\<close>

datatype sequence = SeqClients | SeqImports | SeqRules | SeqAudit | SeqLedgers

record local_db =
  ld_clients :: "client_row list"
  ld_transactions :: "txn_row list"
  ld_imports :: "import_row list"
  ld_rules :: "rule_row list"
  ld_audit :: "audit_row list"
  ld_hashes :: "(int \<times> chars) list"
  ld_ledgers :: "ledger_row list"
  ld_settings :: "chars \<Rightarrow> chars option"
  ld_last_id :: "sequence \<Rightarrow> int"
  ld_faults :: "nat list"

definition empty_db :: local_db where
  "empty_db = \<lparr> ld_clients = [], ld_transactions = [], ld_imports = [], ld_rules = [], ld_audit = [],
     ld_hashes = [], ld_ledgers = [], ld_settings = (\<lambda>_. None), ld_last_id = (\<lambda>_. 0), ld_faults = [] \<rparr>"

text \<open>
  What SQLite and serde_json leave open or bring along: how many ids a new row skips (SQLite promises
  only that they grow), the order in which imports of the same second are listed, the clock as SQLite's
  \<open>datetime('now')\<close> prints it, and the JSON text of a list of strings.
\<close>

record db_env =
  de_skipped :: "sequence \<Rightarrow> int \<Rightarrow> nat"
  de_scan :: "import_row list \<Rightarrow> import_row list"
  de_now :: chars
  de_tags_json :: "chars list \<Rightarrow> chars option"
  de_parse_tags :: "chars \<Rightarrow> chars list option"

subsection \<open>Statements\<close>

type_synonym 'a db_action = "local_db \<Rightarrow> (chars + 'a) \<times> local_db"

definition statement :: "string list \<Rightarrow> (local_db \<Rightarrow> ('a \<times> local_db) option) \<Rightarrow> 'a db_action" where
  "statement stages f d =
    (let d1 = d\<lparr>ld_faults := tl (ld_faults d)\<rparr>;
         failed = (\<lambda>k. (Inl (lit (stages ! min k (length stages - 1))), d1)) in
     case ld_faults d of
       Suc k # _ \<Rightarrow> failed k
     | _ \<Rightarrow> (case f d1 of None \<Rightarrow> failed 0 | Some (v, d2) \<Rightarrow> (Inr v, d2)))"

definition reading :: "string list \<Rightarrow> (local_db \<Rightarrow> 'a) \<Rightarrow> 'a db_action" where
  "reading stages f = statement stages (\<lambda>d. Some (f d, d))"

definition db_return :: "'a \<Rightarrow> 'a db_action" where
  "db_return v d = (Inr v, d)"

definition db_bind :: "'a db_action \<Rightarrow> ('a \<Rightarrow> 'b db_action) \<Rightarrow> 'b db_action" where
  "db_bind m k d = (case m d of (Inl e, d') \<Rightarrow> (Inl e, d') | (Inr v, d') \<Rightarrow> k v d')"

text \<open>\<open>unchecked_transaction\<close> to \<open>commit\<close>: an error on the way, or in the commit, rolls the tables back.\<close>

definition transaction_block :: "string \<Rightarrow> string \<Rightarrow> 'a db_action \<Rightarrow> 'a db_action" where
  "transaction_block begin_stage commit_stage body d =
    (case statement [begin_stage] (\<lambda>d. Some ((), d)) d of
       (Inl e, d1) \<Rightarrow> (Inl e, d1)
     | (Inr _, d1) \<Rightarrow>
        (case db_bind body (\<lambda>v. db_bind (statement [commit_stage] (\<lambda>d. Some ((), d))) (\<lambda>_. db_return v)) d1 of
           (Inl e, d2) \<Rightarrow> (Inl e, d1\<lparr>ld_faults := ld_faults d2\<rparr>)
         | (Inr v, d2) \<Rightarrow> (Inr v, d2)))"

definition new_id :: "db_env \<Rightarrow> sequence \<Rightarrow> local_db \<Rightarrow> int" where
  "new_id E q d = ld_last_id d q + 1 + int (de_skipped E q (ld_last_id d q))"

definition use_id :: "sequence \<Rightarrow> int \<Rightarrow> local_db \<Rightarrow> local_db" where
  "use_id q i d = d\<lparr>ld_last_id := (ld_last_id d)(q := i)\<rparr>"

definition has_client :: "local_db \<Rightarrow> int \<Rightarrow> bool" where
  "has_client d c \<longleftrightarrow> c \<in> set (map cw_id (ld_clients d))"

definition has_import :: "local_db \<Rightarrow> int option \<Rightarrow> bool" where
  "has_import d i \<longleftrightarrow> (case i of None \<Rightarrow> True | Some i \<Rightarrow> i \<in> set (map im_id (ld_imports d)))"

definition or_blank :: "chars option \<Rightarrow> chars" where
  "or_blank s = (case s of None \<Rightarrow> [] | Some s \<Rightarrow> s)"

subsection \<open>Clients\<close>

definition client_of_row :: "client_row \<Rightarrow> client" where
  "client_of_row r = \<lparr> cl_id = cw_id r, cl_name = cw_name r, cl_tally_ledger = or_blank (cw_gstin r) \<rparr>"

definition add_client :: "db_env \<Rightarrow> chars \<Rightarrow> chars \<Rightarrow> int db_action" where
  "add_client E name tally_ledger = statement [''add_client insert''] (\<lambda>d.
     if name \<in> set (map cw_name (ld_clients d)) then None
     else let i = new_id E SeqClients d in
       Some (i, (use_id SeqClients i d)\<lparr>ld_clients := ld_clients d
         @ [\<lparr> cw_id = i, cw_name = name, cw_gstin = Some tally_ledger \<rparr>]\<rparr>))"

definition get_clients :: "client list db_action" where
  "get_clients = reading [''get_clients prepare'', ''get_clients query'', ''get_clients collect''] (\<lambda>d.
     map client_of_row (stable_sort (\<lambda>a b. chars_less (cw_name a) (cw_name b)) (ld_clients d)))"

definition get_client :: "int \<Rightarrow> client option db_action" where
  "get_client i = reading [''get_client prepare'', ''get_client query'', ''get_client row''] (\<lambda>d.
     map_option client_of_row (find (\<lambda>r. cw_id r = i) (ld_clients d)))"

definition get_client_by_name :: "chars \<Rightarrow> client option db_action" where
  "get_client_by_name name = reading
     [''get_client_by_name prepare'', ''get_client_by_name query'', ''get_client_by_name row''] (\<lambda>d.
     map_option client_of_row (find (\<lambda>r. cw_name r = name) (ld_clients d)))"

definition update_client :: "int \<Rightarrow> chars \<Rightarrow> chars \<Rightarrow> unit db_action" where
  "update_client i name tally_ledger = statement [''update_client''] (\<lambda>d.
     if has_client d i \<and> list_ex (\<lambda>r. cw_id r \<noteq> i \<and> cw_name r = name) (ld_clients d) then None
     else Some ((), d\<lparr>ld_clients := map (\<lambda>r.
       if cw_id r = i then r\<lparr>cw_name := name, cw_gstin := Some tally_ledger\<rparr> else r) (ld_clients d)\<rparr>))"

text \<open>
  \<open>ON DELETE CASCADE\<close> takes the client's transactions, imports, rules, hashes and ledgers with it; the
  audit log has no reference. A transaction that stays must not refer to an import that goes.
\<close>

definition without_client :: "int \<Rightarrow> local_db \<Rightarrow> local_db" where
  "without_client c d = d\<lparr>
     ld_clients := filter (\<lambda>r. cw_id r \<noteq> c) (ld_clients d),
     ld_transactions := filter (\<lambda>r. tr_client_id r \<noteq> c) (ld_transactions d),
     ld_imports := filter (\<lambda>r. im_client_id r \<noteq> c) (ld_imports d),
     ld_rules := filter (\<lambda>r. ru_client_id r \<noteq> c) (ld_rules d),
     ld_hashes := filter (\<lambda>h. fst h \<noteq> c) (ld_hashes d),
     ld_ledgers := filter (\<lambda>r. le_client_id r \<noteq> c) (ld_ledgers d)\<rparr>"

definition delete_client :: "int \<Rightarrow> unit db_action" where
  "delete_client c = statement [''delete_client''] (\<lambda>d.
     if \<not> has_client d c then Some ((), d)
     else let d' = without_client c d in
       if list_all (\<lambda>t. has_import d' (tr_import_id t)) (ld_transactions d') then Some ((), d') else None)"

subsection \<open>Transactions\<close>

definition voucher_from_str :: "chars \<Rightarrow> voucher_type" where
  "voucher_from_str s =
    (if s = lit ''Payment'' then VchPayment else if s = lit ''Receipt'' then VchReceipt
     else if s = lit ''Contra'' then VchContra else if s = lit ''Journal'' then VchJournal
     else if s = lit ''Sales'' then VchSales else if s = lit ''Purchase'' then VchPurchase
     else VchUnknown)"

definition status_from_str :: "chars \<Rightarrow> transaction_status" where
  "status_from_str s =
    (if s = lit ''classified'' then Classified else if s = lit ''manual'' then Manual
     else if s = lit ''suspense'' then Suspense else if s = lit ''needs_review'' then NeedsReview
     else Unreviewed)"

text \<open>SQLite stores no NaN (it becomes \<open>NULL\<close>) and no negative zero.\<close>

definition stored_real :: "f64 \<Rightarrow> f64 option" where
  "stored_real x =
    (case x of NaN \<Rightarrow> None | Infinite s \<Rightarrow> Some x | Finite s m \<Rightarrow> Some (if m = 0 then Finite False 0 else x))"

definition stored_opt :: "f64 option \<Rightarrow> f64 option" where
  "stored_opt x = Option.bind x stored_real"

definition flag_int :: "bool \<Rightarrow> int" where
  "flag_int b = (if b then 1 else 0)"

definition tags_text :: "db_env \<Rightarrow> chars list \<Rightarrow> chars" where
  "tags_text E ts = (case de_tags_json E ts of Some j \<Rightarrow> j | None \<Rightarrow> lit ''[]'')"

definition row_of_txn :: "db_env \<Rightarrow> int \<Rightarrow> int option \<Rightarrow> transaction \<Rightarrow> txn_row" where
  "row_of_txn E c import t = \<lparr> tr_id = txn_id t, tr_client_id = c,
     tr_import_id = (case import of Some i \<Rightarrow> Some i | None \<Rightarrow> txn_import_id t),
     tr_bank_name = Some (txn_bank_name t), tr_account_no = Some (txn_account_no t),
     tr_date = Some (txn_date t), tr_date_ts = Some (txn_date_ts t),
     tr_narration = Some (txn_narration t), tr_reference = Some (txn_reference t),
     tr_debit = stored_opt (txn_debit t), tr_credit = stored_opt (txn_credit t),
     tr_balance = stored_opt (txn_balance t), tr_prev_balance = stored_opt (txn_prev_balance t),
     tr_vendor = Some (txn_vendor t), tr_account_head = Some (txn_account_head t),
     tr_txn_type = Some (voucher_type_display (txn_txn_type t)),
     tr_status = transaction_status_display (txn_status t), tr_confidence = stored_real (txn_confidence t),
     tr_classified_by = (if txn_classification_source t = [] then None else Some (txn_classification_source t)),
     tr_tags = Some (tags_text E (txn_tags t)), tr_balance_ok = map_option flag_int (txn_balance_ok t),
     tr_is_opening_bal = Some (flag_int (txn_is_opening_balance t)), tr_dup_flag = flag_int (txn_dup_flag t),
     tr_gst_rate = stored_opt (txn_gst_rate t), tr_gst_amount = stored_opt (txn_gst_amount t),
     tr_gst_type = txn_gst_type t \<rparr>"

definition same_txn_key :: "int \<Rightarrow> chars \<Rightarrow> txn_row \<Rightarrow> bool" where
  "same_txn_key c i r \<longleftrightarrow> tr_client_id r = c \<and> tr_id r = i"

text \<open>\<open>INSERT OR REPLACE\<close>: the row with the same key goes, the new row gets the next row id.\<close>

definition replace_txn :: "txn_row \<Rightarrow> local_db \<Rightarrow> (unit \<times> local_db) option" where
  "replace_txn r d =
    (if has_client d (tr_client_id r) \<and> has_import d (tr_import_id r)
     then Some ((), d\<lparr>ld_transactions :=
       filter (\<lambda>x. \<not> same_txn_key (tr_client_id r) (tr_id r) x) (ld_transactions d) @ [r]\<rparr>)
     else None)"

fun upsert_rows :: "db_env \<Rightarrow> int \<Rightarrow> int option \<Rightarrow> transaction list \<Rightarrow> nat \<Rightarrow> nat db_action" where
  "upsert_rows E c import [] done_rows = db_return done_rows"
| "upsert_rows E c import (t # ts) done_rows =
    db_bind (statement [''upsert_transaction row''] (replace_txn (row_of_txn E c import t)))
      (\<lambda>_. upsert_rows E c import ts (done_rows + 1))"

definition upsert_transactions :: "db_env \<Rightarrow> int \<Rightarrow> int option \<Rightarrow> transaction list \<Rightarrow> nat db_action" where
  "upsert_transactions E c import txns =
    transaction_block ''upsert_transactions: begin'' ''upsert_transactions: commit''
      (upsert_rows E c import txns 0)"

definition txn_of_row :: "db_env \<Rightarrow> txn_row \<Rightarrow> transaction" where
  "txn_of_row E r = \<lparr> txn_id = tr_id r, txn_import_id = tr_import_id r, txn_date = or_blank (tr_date r),
     txn_date_ts = (case tr_date_ts r of None \<Rightarrow> 0 | Some t \<Rightarrow> t),
     txn_narration = or_blank (tr_narration r), txn_reference = or_blank (tr_reference r),
     txn_debit = tr_debit r, txn_credit = tr_credit r, txn_balance = tr_balance r,
     txn_vendor = or_blank (tr_vendor r), txn_account_head = or_blank (tr_account_head r),
     txn_txn_type = voucher_from_str (or_blank (tr_txn_type r)),
     txn_confidence = (case tr_confidence r of None \<Rightarrow> f64_zero | Some x \<Rightarrow> x),
     txn_status = status_from_str (tr_status r),
     txn_classification_source = or_blank (tr_classified_by r),
     txn_tags = (case Option.bind (tr_tags r) (de_parse_tags E) of None \<Rightarrow> [] | Some ts \<Rightarrow> ts),
     txn_bank_name = or_blank (tr_bank_name r), txn_account_no = or_blank (tr_account_no r),
     txn_is_opening_balance = (tr_is_opening_bal r \<noteq> None \<and> tr_is_opening_bal r \<noteq> Some 0),
     txn_dup_flag = (tr_dup_flag r \<noteq> 0), txn_prev_balance = tr_prev_balance r,
     txn_balance_ok = map_option (\<lambda>v. v \<noteq> 0) (tr_balance_ok r),
     txn_gst_rate = tr_gst_rate r, txn_gst_amount = tr_gst_amount r, txn_gst_type = tr_gst_type r \<rparr>"

text \<open>\<open>ORDER BY date_ts ASC, rowid ASC\<close>, with \<open>NULL\<close> in front.\<close>

definition null_less :: "int option \<Rightarrow> int option \<Rightarrow> bool" where
  "null_less a b \<longleftrightarrow> (case b of None \<Rightarrow> False | Some y \<Rightarrow> (case a of None \<Rightarrow> True | Some x \<Rightarrow> x < y))"

definition by_date :: "txn_row list \<Rightarrow> txn_row list" where
  "by_date rows = stable_sort (\<lambda>a b. null_less (tr_date_ts a) (tr_date_ts b)) rows"

definition get_transactions :: "db_env \<Rightarrow> int \<Rightarrow> transaction list db_action" where
  "get_transactions E c = reading
     [''get_transactions prepare'', ''get_transactions query'', ''get_transactions collect''] (\<lambda>d.
     map (txn_of_row E) (by_date (filter (\<lambda>r. tr_client_id r = c) (ld_transactions d))))"

definition get_transactions_for_import :: "db_env \<Rightarrow> int \<Rightarrow> transaction list db_action" where
  "get_transactions_for_import E i = reading
     [''get_transactions_for_import prepare'', ''get_transactions_for_import query'',
      ''get_transactions_for_import collect''] (\<lambda>d.
     map (txn_of_row E) (by_date (filter (\<lambda>r. tr_import_id r = Some i) (ld_transactions d))))"

definition delete_transactions_for_client :: "int \<Rightarrow> unit db_action" where
  "delete_transactions_for_client c = statement [''delete_transactions_for_client''] (\<lambda>d.
     Some ((), d\<lparr>ld_transactions := filter (\<lambda>r. tr_client_id r \<noteq> c) (ld_transactions d)\<rparr>))"

definition upsert_transaction_classification ::
  "int \<Rightarrow> chars \<Rightarrow> chars \<Rightarrow> chars \<Rightarrow> chars \<Rightarrow> chars \<Rightarrow> f64 \<Rightarrow> chars \<Rightarrow> unit db_action" where
  "upsert_transaction_classification c i vendor account_head txn_type status confidence classification_source =
    statement [''upsert_transaction_classification''] (\<lambda>d.
      Some ((), d\<lparr>ld_transactions := map (\<lambda>r. if same_txn_key c i r
        then r\<lparr>tr_vendor := Some vendor, tr_account_head := Some account_head, tr_txn_type := Some txn_type,
               tr_status := status, tr_confidence := stored_real confidence,
               tr_classified_by := Some classification_source\<rparr>
        else r) (ld_transactions d)\<rparr>))"

fun update_dup_flags :: "int \<Rightarrow> transaction list \<Rightarrow> unit db_action" where
  "update_dup_flags c [] = db_return ()"
| "update_dup_flags c (t # ts) =
    db_bind (statement [''update_dup_flag''] (\<lambda>d.
      Some ((), d\<lparr>ld_transactions := map (\<lambda>r. if same_txn_key c (txn_id t) r
        then r\<lparr>tr_dup_flag := flag_int (txn_dup_flag t)\<rparr> else r) (ld_transactions d)\<rparr>)))
      (\<lambda>_. update_dup_flags c ts)"

definition delete_transaction :: "int \<Rightarrow> chars \<Rightarrow> unit db_action" where
  "delete_transaction c i = statement [''delete_transaction''] (\<lambda>d.
     Some ((), d\<lparr>ld_transactions := filter (\<lambda>r. \<not> same_txn_key c i r) (ld_transactions d)\<rparr>))"

subsection \<open>Imports\<close>

definition save_import :: "db_env \<Rightarrow> int \<Rightarrow> chars \<Rightarrow> chars \<Rightarrow> chars \<Rightarrow> nat \<Rightarrow> int db_action" where
  "save_import E c file_name bank_name account_no txn_count = statement [''save_import insert''] (\<lambda>d.
     if \<not> has_client d c then None
     else let i = new_id E SeqImports d in
       Some (i, (use_id SeqImports i d)\<lparr>ld_imports := ld_imports d
         @ [\<lparr> im_id = i, im_client_id = c, im_file_name = file_name, im_bank_name = Some bank_name,
              im_account_no = Some account_no, im_txn_count = int txn_count, im_imported_at = de_now E \<rparr>]\<rparr>))"

definition import_of_row :: "import_row \<Rightarrow> import_record" where
  "import_of_row r = \<lparr> ir_id = im_id r, ir_client_id = im_client_id r, ir_file_name = im_file_name r,
     ir_bank_name = or_blank (im_bank_name r), ir_account_no = or_blank (im_account_no r),
     ir_txn_count = im_txn_count r, ir_imported_at = im_imported_at r \<rparr>"

definition get_imports :: "db_env \<Rightarrow> int \<Rightarrow> import_record list db_action" where
  "get_imports E c = reading [''get_imports prepare'', ''get_imports query'', ''get_imports collect''] (\<lambda>d.
     map import_of_row (take 20 (stable_sort (\<lambda>a b. chars_less (im_imported_at b) (im_imported_at a))
       (de_scan E (filter (\<lambda>r. im_client_id r = c \<and> 0 < im_txn_count r \<and> im_file_name r \<noteq> []) (ld_imports d))))))"

text \<open>The reference of \<open>transactions.import_id\<close> has no \<open>ON DELETE\<close> clause: the deletion is refused.\<close>

definition delete_import :: "int \<Rightarrow> unit db_action" where
  "delete_import i = statement [''delete_import''] (\<lambda>d.
     let d' = d\<lparr>ld_imports := filter (\<lambda>r. im_id r \<noteq> i) (ld_imports d)\<rparr> in
     if list_all (\<lambda>t. has_import d' (tr_import_id t)) (ld_transactions d') then Some ((), d') else None)"

subsection \<open>Rules\<close>

text \<open>\<open>INSERT OR IGNORE\<close> under the unique index on client and pattern, compared under \<open>NOCASE\<close>.\<close>

definition same_rule_key :: "int \<Rightarrow> chars \<Rightarrow> rule_row \<Rightarrow> bool" where
  "same_rule_key c p r \<longleftrightarrow> ru_client_id r = c \<and> eq_ignore_ascii_case (ru_pattern r) p"

definition insert_rule ::
  "db_env \<Rightarrow> int \<Rightarrow> chars \<Rightarrow> chars \<Rightarrow> chars \<Rightarrow> chars \<Rightarrow> int \<Rightarrow> local_db \<Rightarrow> (nat \<times> local_db) option" where
  "insert_rule E c pattern vendor account_head txn_type priority d =
    (if list_ex (same_rule_key c pattern) (ld_rules d) then Some (0, d)
     else if \<not> has_client d c then None
     else let i = new_id E SeqRules d in
       Some (1, (use_id SeqRules i d)\<lparr>ld_rules := ld_rules d
         @ [\<lparr> ru_id = i, ru_client_id = c, ru_pattern = pattern, ru_vendor = Some vendor,
              ru_account_head = Some account_head, ru_txn_type = Some txn_type, ru_priority = priority \<rparr>]\<rparr>))"

definition add_rule :: "db_env \<Rightarrow> int \<Rightarrow> chars \<Rightarrow> chars \<Rightarrow> chars \<Rightarrow> chars \<Rightarrow> bool db_action" where
  "add_rule E c pattern vendor account_head txn_type =
    db_bind (statement [''add_rule''] (insert_rule E c pattern vendor account_head txn_type 0))
      (\<lambda>rows. db_return (0 < rows))"

definition rule_of_row :: "rule_row \<Rightarrow> classification_rule" where
  "rule_of_row r = \<lparr> cr_id = ru_id r, cr_client_id = ru_client_id r, cr_pattern = ru_pattern r,
     cr_vendor = or_blank (ru_vendor r), cr_account_head = or_blank (ru_account_head r),
     cr_txn_type = or_blank (ru_txn_type r) \<rparr>"

definition rules_for :: "int \<Rightarrow> local_db \<Rightarrow> classification_rule list" where
  "rules_for c d = map rule_of_row
     (stable_sort (\<lambda>a b. ru_priority b < ru_priority a \<or> ru_priority a = ru_priority b \<and> ru_id a < ru_id b)
       (filter (\<lambda>r. ru_client_id r = c \<or> ru_client_id r = 0) (ld_rules d)))"

definition get_rules :: "int \<Rightarrow> classification_rule list db_action" where
  "get_rules c = reading [''get_rules prepare'', ''get_rules query'', ''get_rules collect''] (rules_for c)"

definition delete_rule :: "int \<Rightarrow> unit db_action" where
  "delete_rule i = statement [''delete_rule''] (\<lambda>d.
     Some ((), d\<lparr>ld_rules := filter (\<lambda>r. ru_id r \<noteq> i) (ld_rules d)\<rparr>))"

definition json_str :: "chars \<Rightarrow> chars" where
  "json_str s = 34 # concat (map (\<lambda>c. if c = 34 then [92, 34] else c # []) (concat (map (\<lambda>c. if c = 92 then [92, 92] else c # []) s))) @ [34]"

definition quoted_key :: "string \<Rightarrow> chars" where
  "quoted_key k = 34 # lit k @ [34, 58]"

definition rule_json :: "classification_rule \<Rightarrow> chars" where
  "rule_json r =
    123 # quoted_key ''pattern'' @ json_str (cr_pattern r) @ 44 # quoted_key ''vendor'' @ json_str (cr_vendor r)
    @ 44 # quoted_key ''account_head'' @ json_str (cr_account_head r)
    @ 44 # quoted_key ''txn_type'' @ json_str (cr_txn_type r) @ [125]"

definition export_rules_json :: "int \<Rightarrow> chars db_action" where
  "export_rules_json c = db_bind (get_rules c) (\<lambda>rules. db_return
     (123 # quoted_key ''version'' @ 49 # 44 # quoted_key ''rules'' @ 91 # join_with [44] (map rule_json rules) @ [93, 125]))"

text \<open>What follows the first occurrence of a text, from its start on.\<close>

fun from_first :: "chars \<Rightarrow> chars \<Rightarrow> chars option" where
  "from_first p [] = (if p = [] then Some [] else None)"
| "from_first p (c # s) = (if has_prefix p (c # s) then Some (c # s) else from_first p s)"

text \<open>The text behind the bracket that opens the array of rules.\<close>

definition rules_array :: "chars \<Rightarrow> chars option" where
  "rules_array json =
    Option.bind (from_first (34 # lit ''rules'' @ [34]) json) (\<lambda>s. map_option tl (from_first [91] s))"

definition quoted_field :: "string \<Rightarrow> nat \<Rightarrow> rx" where
  "quoted_field k n = Cats [Chr (\<lambda>c. c = 34), Lits k, Chr (\<lambda>c. c = 34), Many Blank, Is CHR '':'', Many Blank,
     Chr (\<lambda>c. c = 34), Grp n (Many (Chr (\<lambda>c. c \<noteq> 34))), Chr (\<lambda>c. c = 34)]"

definition comma_rx :: rx where
  "comma_rx = Cats [Many Blank, Is CHR '','', Many Blank]"

definition obj_re :: rx where
  "obj_re = Cats [quoted_field ''pattern'' 1, comma_rx, quoted_field ''vendor'' 2, comma_rx,
     quoted_field ''account_head'' 3, comma_rx, quoted_field ''txn_type'' 4]"

fun insert_captured :: "db_env \<Rightarrow> int \<Rightarrow> (nat \<Rightarrow> chars option) list \<Rightarrow> nat \<Rightarrow> nat db_action" where
  "insert_captured E c [] done_rows = db_return done_rows"
| "insert_captured E c (cap # caps) done_rows =
    (if cap_text cap 1 = [] then insert_captured E c caps done_rows
     else db_bind (statement [''import_rules_json insert'']
         (insert_rule E c (cap_text cap 1) (cap_text cap 2) (cap_text cap 3) (cap_text cap 4) 1))
       (\<lambda>inserted. insert_captured E c caps (done_rows + inserted)))"

definition import_rules_json :: "db_env \<Rightarrow> int \<Rightarrow> chars \<Rightarrow> nat db_action" where
  "import_rules_json E c json =
    (case rules_array json of
       None \<Rightarrow> (\<lambda>d. (Inl (lit ''no 'rules' array in backup JSON''), d))
     | Some behind \<Rightarrow>
        db_bind (statement [''import_rules_json delete''] (\<lambda>d.
            Some ((), d\<lparr>ld_rules := filter (\<lambda>r. ru_client_id r \<noteq> c) (ld_rules d)\<rparr>)))
          (\<lambda>_. insert_captured E c (captures_iter obj_re behind) 0))"

subsection \<open>Audit log\<close>

definition push_audit_event :: "db_env \<Rightarrow> int \<Rightarrow> chars \<Rightarrow> unit db_action" where
  "push_audit_event E c event = statement [''push_audit_event''] (\<lambda>d.
     let i = new_id E SeqAudit d in
     Some ((), (use_id SeqAudit i d)\<lparr>ld_audit := ld_audit d
       @ [\<lparr> au_id = i, au_client_id = c, au_event = event \<rparr>]\<rparr>))"

definition get_audit_events :: "int \<Rightarrow> chars list db_action" where
  "get_audit_events c = reading
     [''get_audit_events prepare'', ''get_audit_events query'', ''get_audit_events collect''] (\<lambda>d.
     map au_event (take 500 (stable_sort (\<lambda>a b. au_id b < au_id a)
       (filter (\<lambda>r. au_client_id r = c) (ld_audit d)))))"

definition clear_audit_events :: "int \<Rightarrow> unit db_action" where
  "clear_audit_events c = statement [''clear_audit_events''] (\<lambda>d.
     Some ((), d\<lparr>ld_audit := filter (\<lambda>r. au_client_id r \<noteq> c) (ld_audit d)\<rparr>))"

definition clear_all_audit_events :: "unit db_action" where
  "clear_all_audit_events = statement [''clear_all_audit_events''] (\<lambda>d. Some ((), d\<lparr>ld_audit := []\<rparr>))"

subsection \<open>Hashes of transactions seen before\<close>

definition get_dedupe_hashes :: "int \<Rightarrow> chars set db_action" where
  "get_dedupe_hashes c = reading [''get_dedupe_hashes prepare'', ''get_dedupe_hashes query''] (\<lambda>d.
     snd ` set (filter (\<lambda>h. fst h = c) (ld_hashes d)))"

fun insert_hashes :: "int \<Rightarrow> chars list \<Rightarrow> unit db_action" where
  "insert_hashes c [] = db_return ()"
| "insert_hashes c (h # hs) =
    db_bind (statement [''add_dedupe_hashes''] (\<lambda>d.
      if (c, h) \<in> set (ld_hashes d) then Some ((), d)
      else if \<not> has_client d c then None
      else Some ((), d\<lparr>ld_hashes := ld_hashes d @ [(c, h)]\<rparr>)))
      (\<lambda>_. insert_hashes c hs)"

definition add_dedupe_hashes :: "int \<Rightarrow> chars list \<Rightarrow> unit db_action" where
  "add_dedupe_hashes c hashes =
    transaction_block ''add_dedupe_hashes: begin'' ''add_dedupe_hashes: commit'' (insert_hashes c hashes)"

definition reset_dedupe_hashes :: "int \<Rightarrow> unit db_action" where
  "reset_dedupe_hashes c = statement [''reset_dedupe_hashes''] (\<lambda>d.
     Some ((), d\<lparr>ld_hashes := filter (\<lambda>h. fst h \<noteq> c) (ld_hashes d)\<rparr>))"

subsection \<open>Ledgers\<close>

definition same_ledger_key :: "int \<Rightarrow> chars \<Rightarrow> ledger_row \<Rightarrow> bool" where
  "same_ledger_key c n r \<longleftrightarrow> le_client_id r = c \<and> le_name r = n"

definition insert_ledger :: "db_env \<Rightarrow> int \<Rightarrow> chars \<Rightarrow> chars \<Rightarrow> local_db \<Rightarrow> (nat \<times> local_db) option" where
  "insert_ledger E c name grp d =
    (if list_ex (same_ledger_key c name) (ld_ledgers d) then Some (0, d)
     else if \<not> has_client d c then None
     else let i = new_id E SeqLedgers d in
       Some (1, (use_id SeqLedgers i d)\<lparr>ld_ledgers := ld_ledgers d
         @ [\<lparr> le_id = i, le_client_id = c, le_name = name, le_group_name = Some grp \<rparr>]\<rparr>))"

fun insert_ledgers :: "db_env \<Rightarrow> int \<Rightarrow> (chars \<times> chars) list \<Rightarrow> nat \<Rightarrow> nat db_action" where
  "insert_ledgers E c [] added = db_return added"
| "insert_ledgers E c ((name, grp) # entries) added =
    db_bind (statement [''import_ledgers insert''] (insert_ledger E c name grp))
      (\<lambda>n. insert_ledgers E c entries (added + n))"

definition import_ledgers :: "db_env \<Rightarrow> int \<Rightarrow> (chars \<times> chars) list \<Rightarrow> nat db_action" where
  "import_ledgers E c entries = insert_ledgers E c entries 0"

definition auto_seed_ledgers :: "db_env \<Rightarrow> int \<Rightarrow> (chars \<times> chars) list \<Rightarrow> nat db_action" where
  "auto_seed_ledgers E c heads_with_groups = import_ledgers E c heads_with_groups"

subsection \<open>Settings\<close>

definition get_setting :: "chars \<Rightarrow> chars option db_action" where
  "get_setting key = reading [''get_setting prepare'', ''get_setting query'', ''get_setting row''] (\<lambda>d.
     ld_settings d key)"

definition set_setting :: "chars \<Rightarrow> chars \<Rightarrow> unit db_action" where
  "set_setting key v = statement [''set_setting''] (\<lambda>d.
     Some ((), d\<lparr>ld_settings := (ld_settings d)(key := Some v)\<rparr>))"

definition delete_setting :: "chars \<Rightarrow> unit db_action" where
  "delete_setting key = statement [''delete_setting''] (\<lambda>d.
     Some ((), d\<lparr>ld_settings := (ld_settings d)(key := None)\<rparr>))"

end
