(* ===== verification/LocalDbFacts.thy ===== *)
theory LocalDbFacts
  imports LocalDb
begin

text \<open>
  What the local database keeps: the schema's constraints in every state the operations can reach, whatever
  statement fails; the data of one client under every operation on another; saved transactions as they
  are read back.
\<close>

subsection \<open>Invariants of actions\<close>

definition db_keeps :: "(local_db \<Rightarrow> bool) \<Rightarrow> 'a db_action \<Rightarrow> bool" where
  "db_keeps I m \<longleftrightarrow> (\<forall>d. I d \<longrightarrow> I (snd (m d)))"

lemma db_keepsI: "(\<And>d. I d \<Longrightarrow> I (snd (m d))) \<Longrightarrow> db_keeps I m"
  by (simp add: db_keeps_def)

lemma statement_result:
  "(\<exists>e. statement stages f d = (Inl e, d\<lparr>ld_faults := tl (ld_faults d)\<rparr>))
    \<or> (\<exists>v d'. f (d\<lparr>ld_faults := tl (ld_faults d)\<rparr>) = Some (v, d') \<and> statement stages f d = (Inr v, d'))"
  by (auto simp: statement_def Let_def split: list.split nat.split option.split)

lemma statement_cases:
  obtains (failed) e where "statement stages f d = (Inl e, d\<lparr>ld_faults := tl (ld_faults d)\<rparr>)"
  | (ran) v d' where "f (d\<lparr>ld_faults := tl (ld_faults d)\<rparr>) = Some (v, d')" "statement stages f d = (Inr v, d')"
  using statement_result [of stages f d] by blast

named_theorems db_keeps_intros

locale db_invariant =
  fixes I :: "local_db \<Rightarrow> bool"
  assumes ignores_faults: "I (d\<lparr>ld_faults := fs\<rparr>) \<longleftrightarrow> I d"
begin

lemma preserves_statement:
  assumes "\<And>d v d'. I d \<Longrightarrow> f d = Some (v, d') \<Longrightarrow> I d'"
  shows "db_keeps I (statement stages f)"
proof (rule db_keepsI)
  fix d assume I: "I d"
  show "I (snd (statement stages f d))"
  proof (cases rule: statement_cases [of stages f d])
    case (failed e)
    with I show ?thesis by (simp add: ignores_faults)
  next
    case (ran v d')
    moreover have "I (d\<lparr>ld_faults := tl (ld_faults d)\<rparr>)" using I by (simp add: ignores_faults)
    ultimately show ?thesis using assms by simp
  qed
qed

lemma preserves_reading: "db_keeps I (reading stages f)"
  unfolding reading_def by (rule preserves_statement) simp

lemma preserves_return: "db_keeps I (db_return v)"
  by (simp add: db_keeps_def db_return_def)

lemma preserves_bind: "db_keeps I m \<Longrightarrow> (\<And>v. db_keeps I (k v)) \<Longrightarrow> db_keeps I (db_bind m k)"
  unfolding db_keeps_def db_bind_def by (auto split: prod.splits sum.splits)

lemma preserves_transaction:
  assumes "db_keeps I m"
  shows "db_keeps I (transaction_block b c m)"
proof (rule db_keepsI)
  fix d assume I: "I d"
  let ?b = "statement [b] (\<lambda>d. Some ((), d))"
  let ?m = "db_bind m (\<lambda>v. db_bind (statement [c] (\<lambda>d. Some ((), d))) (\<lambda>_. db_return v))"
  have "db_keeps I ?b" by (rule preserves_statement) simp
  with I have 1: "I (snd (?b d))" by (simp add: db_keeps_def)
  have "db_keeps I ?m" by (intro preserves_bind assms preserves_statement preserves_return) simp
  with 1 have "I (snd (?m (snd (?b d))))" by (simp add: db_keeps_def)
  with 1 show "I (snd (transaction_block b c m d))"
    by (auto simp: transaction_block_def ignores_faults split: prod.splits sum.splits)
qed

end

subsection \<open>The constraints of the schema\<close>

definition row_ids_ok :: "int list \<Rightarrow> int \<Rightarrow> bool" where
  "row_ids_ok ids hi \<longleftrightarrow> sorted_wrt (<) (0 # ids) \<and> list_all (\<lambda>i. i \<le> hi) (0 # ids)"

definition clients_ok :: "local_db \<Rightarrow> bool" where
  "clients_ok d \<longleftrightarrow> row_ids_ok (map cw_id (ld_clients d)) (ld_last_id d SeqClients)
     \<and> distinct (map cw_name (ld_clients d))"

definition transactions_ok :: "local_db \<Rightarrow> bool" where
  "transactions_ok d \<longleftrightarrow> distinct (map (\<lambda>r. (tr_client_id r, tr_id r)) (ld_transactions d))
     \<and> list_all (\<lambda>r. has_client d (tr_client_id r) \<and> has_import d (tr_import_id r) \<and> tr_date_ts r \<noteq> None)
           (ld_transactions d)"

definition imports_ok :: "local_db \<Rightarrow> bool" where
  "imports_ok d \<longleftrightarrow> row_ids_ok (map im_id (ld_imports d)) (ld_last_id d SeqImports)
     \<and> list_all (\<lambda>r. has_client d (im_client_id r)) (ld_imports d)"

definition rule_key :: "rule_row \<Rightarrow> int \<times> chars" where
  "rule_key r = (ru_client_id r, map to_ascii_lower (ru_pattern r))"

definition rules_ok :: "local_db \<Rightarrow> bool" where
  "rules_ok d \<longleftrightarrow> row_ids_ok (map ru_id (ld_rules d)) (ld_last_id d SeqRules)
     \<and> distinct (map rule_key (ld_rules d)) \<and> list_all (\<lambda>r. has_client d (ru_client_id r)) (ld_rules d)"

definition hashes_ok :: "local_db \<Rightarrow> bool" where
  "hashes_ok d \<longleftrightarrow> distinct (ld_hashes d) \<and> list_all (\<lambda>(c, h). has_client d c) (ld_hashes d)"

definition ledgers_ok :: "local_db \<Rightarrow> bool" where
  "ledgers_ok d \<longleftrightarrow> row_ids_ok (map le_id (ld_ledgers d)) (ld_last_id d SeqLedgers)
     \<and> distinct (map (\<lambda>r. (le_client_id r, le_name r)) (ld_ledgers d))
     \<and> list_all (\<lambda>r. has_client d (le_client_id r)) (ld_ledgers d)"

definition audit_ok :: "local_db \<Rightarrow> bool" where
  "audit_ok d \<longleftrightarrow> row_ids_ok (map au_id (ld_audit d)) (ld_last_id d SeqAudit)"

definition db_ok :: "local_db \<Rightarrow> bool" where
  "db_ok d \<longleftrightarrow> clients_ok d \<and> transactions_ok d \<and> imports_ok d \<and> rules_ok d \<and> hashes_ok d
     \<and> ledgers_ok d \<and> audit_ok d"

lemmas table_oks = clients_ok_def transactions_ok_def imports_ok_def rules_ok_def hashes_ok_def
  ledgers_ok_def audit_ok_def

lemma row_ids_ok_snoc: "row_ids_ok ids hi \<Longrightarrow> hi < i \<Longrightarrow> row_ids_ok (ids @ [i]) i"
  by (auto simp: row_ids_ok_def sorted_wrt_append list_all_iff)

lemma row_ids_ok_filter: "row_ids_ok (map g xs) hi \<Longrightarrow> row_ids_ok (map g (filter p xs)) hi"
  by (auto simp: row_ids_ok_def list_all_iff sorted_wrt_map intro: sorted_wrt_filter)

lemma row_ids_ok_Nil [simp]: "row_ids_ok [] hi \<longleftrightarrow> 0 \<le> hi"
  by (simp add: row_ids_ok_def)

lemma row_ids_ok_top: "row_ids_ok ids hi \<Longrightarrow> 0 \<le> hi"
  by (simp add: row_ids_ok_def)

lemma row_ids_ok_pos: "row_ids_ok ids hi \<Longrightarrow> i \<in> set ids \<Longrightarrow> 0 < i"
  by (simp add: row_ids_ok_def)

lemma new_id_grows: "ld_last_id d q < new_id E q d"
  by (simp add: new_id_def)

lemma has_simps [simp]:
  "has_client (d\<lparr>ld_transactions := x\<rparr>) = has_client d" "has_client (d\<lparr>ld_imports := y\<rparr>) = has_client d"
  "has_client (d\<lparr>ld_rules := z\<rparr>) = has_client d" "has_client (d\<lparr>ld_faults := fs\<rparr>) = has_client d"
  "has_client (d\<lparr>ld_audit := a\<rparr>) = has_client d" "has_client (d\<lparr>ld_hashes := h\<rparr>) = has_client d"
  "has_client (d\<lparr>ld_ledgers := l\<rparr>) = has_client d" "has_client (d\<lparr>ld_settings := s\<rparr>) = has_client d"
  "has_client (use_id q i d) = has_client d"
  "has_import (d\<lparr>ld_transactions := x\<rparr>) = has_import d" "has_import (d\<lparr>ld_clients := c\<rparr>) = has_import d"
  "has_import (d\<lparr>ld_rules := z\<rparr>) = has_import d" "has_import (d\<lparr>ld_faults := fs\<rparr>) = has_import d"
  "has_import (d\<lparr>ld_audit := a\<rparr>) = has_import d" "has_import (d\<lparr>ld_hashes := h\<rparr>) = has_import d"
  "has_import (d\<lparr>ld_ledgers := l\<rparr>) = has_import d" "has_import (d\<lparr>ld_settings := s\<rparr>) = has_import d"
  "has_import (use_id q i d) = has_import d"
  by (auto simp: has_client_def has_import_def use_id_def fun_eq_iff split: option.splits)

lemma use_id_simps [simp]:
  "ld_clients (use_id q i d) = ld_clients d" "ld_transactions (use_id q i d) = ld_transactions d"
  "ld_imports (use_id q i d) = ld_imports d" "ld_rules (use_id q i d) = ld_rules d"
  "ld_audit (use_id q i d) = ld_audit d" "ld_hashes (use_id q i d) = ld_hashes d"
  "ld_ledgers (use_id q i d) = ld_ledgers d" "ld_settings (use_id q i d) = ld_settings d"
  "ld_faults (use_id q i d) = ld_faults d" "ld_last_id (use_id q i d) = (ld_last_id d)(q := i)"
  by (simp_all add: use_id_def)

interpretation schema: db_invariant db_ok
  by unfold_locales (simp add: db_ok_def table_oks)


lemma row_ids_ok_new: "row_ids_ok ids (ld_last_id d q) \<Longrightarrow> row_ids_ok (ids @ [new_id E q d]) (new_id E q d)"
  by (erule row_ids_ok_snoc) (rule new_id_grows)

lemma has_client_append: "has_client d c \<Longrightarrow> has_client (d\<lparr>ld_clients := ld_clients d @ rs\<rparr>) c"
  by (simp add: has_client_def)

lemma has_import_append: "has_import d i \<Longrightarrow> has_import (d\<lparr>ld_imports := ld_imports d @ rs\<rparr>) i"
  by (auto simp: has_import_def split: option.splits)

lemma add_client_keeps: "db_keeps db_ok (add_client E name ledger)"
  unfolding add_client_def
proof (rule schema.preserves_statement, goal_cases)
  case (1 d v d')
  then have new: "name \<notin> set (map cw_name (ld_clients d))" and d': "d' = (use_id SeqClients (new_id E SeqClients d) d)
      \<lparr>ld_clients := ld_clients d @ [\<lparr>cw_id = new_id E SeqClients d, cw_name = name, cw_gstin = Some ledger\<rparr>]\<rparr>"
    by (auto simp: Let_def split: if_splits)
  have c: "has_client d' x" if "has_client d x" for x using that by (simp add: d' has_client_def)
  have i: "has_import d' = has_import d" by (simp add: d')
  have same: "ld_transactions d' = ld_transactions d" "ld_imports d' = ld_imports d" "ld_rules d' = ld_rules d"
    "ld_hashes d' = ld_hashes d" "ld_ledgers d' = ld_ledgers d"
    "q \<noteq> SeqClients \<Longrightarrow> ld_last_id d' q = ld_last_id d q" for q
    by (simp_all add: d')
  from 1 new have "clients_ok d'" by (simp add: d' db_ok_def clients_ok_def row_ids_ok_new)
  moreover from 1 c have "transactions_ok d' \<and> imports_ok d' \<and> rules_ok d' \<and> hashes_ok d' \<and> ledgers_ok d'"
    unfolding db_ok_def table_oks by (auto simp: same i list_all_iff)
  ultimately show ?case using 1 by (simp add: db_ok_def audit_ok_def d')
qed

lemma update_client_keeps: "db_keeps db_ok (update_client i name ledger)"
  unfolding update_client_def
proof (rule schema.preserves_statement, goal_cases)
  case (1 d v d')
  let ?f = "\<lambda>r. if cw_id r = i then r\<lparr>cw_name := name, cw_gstin := Some ledger\<rparr> else r"
  from 1 have free: "has_client d i \<Longrightarrow> \<not> list_ex (\<lambda>r. cw_id r \<noteq> i \<and> cw_name r = name) (ld_clients d)"
    and d': "d' = d\<lparr>ld_clients := map ?f (ld_clients d)\<rparr>"
    by (auto split: if_splits)
  have ids: "map cw_id (ld_clients d') = map cw_id (ld_clients d)" by (simp add: d' o_def if_distrib cong: if_cong)
  then have c: "has_client d' = has_client d" by (simp add: has_client_def fun_eq_iff)
  have renamed: "distinct (map cw_name (map ?f rs))"
    if names: "distinct (map cw_name rs)" and ids: "distinct (map cw_id rs)"
      and free: "i \<in> set (map cw_id rs) \<longrightarrow> \<not> list_ex (\<lambda>r. cw_id r \<noteq> i \<and> cw_name r = name) rs"
    for rs
  proof -
    have "x = y" if "x \<in> set rs" "y \<in> set rs" "cw_name (?f x) = cw_name (?f y)" for x y
      using that names ids free by (force simp: distinct_map list_ex_iff dest: inj_onD split: if_splits)
    then have "inj_on (cw_name \<circ> ?f) (set rs)" by (intro inj_onI) simp
    then show ?thesis using ids by (simp add: distinct_map)
  qed
  have "distinct (map cw_id (ld_clients d))" "distinct (map cw_name (ld_clients d))"
    using 1 by (auto simp: db_ok_def clients_ok_def row_ids_ok_def strict_sorted_iff)
  then have "distinct (map cw_name (ld_clients d'))"
    using renamed [of "ld_clients d"] free unfolding d' has_client_def by simp
  then have "clients_ok d'" using 1 unfolding clients_ok_def ids by (simp add: d' db_ok_def clients_ok_def)
  with 1 show ?case unfolding db_ok_def table_oks c by (simp add: d')
qed

lemma delete_client_keeps: "db_keeps db_ok (delete_client c)"
  unfolding delete_client_def
proof (rule schema.preserves_statement, goal_cases)
  case (1 d v d')
  show ?case
  proof (cases "has_client d c")
    case True
    with 1 have d': "d' = without_client c d"
      and refs: "list_all (\<lambda>t. has_import d' (tr_import_id t)) (ld_transactions d')"
      by (auto simp: Let_def split: if_splits)
    have c: "has_client d' x \<longleftrightarrow> has_client d x \<and> x \<noteq> c" for x
      by (auto simp: d' without_client_def has_client_def)
    note filtered = row_ids_ok_filter distinct_map_filter distinct_filter
    from 1 have "clients_ok d'" "imports_ok d'" "rules_ok d'" "hashes_ok d'" "ledgers_ok d'" "audit_ok d'"
      unfolding db_ok_def table_oks c list_all_iff by (auto simp: d' without_client_def intro!: filtered)
    moreover from 1 refs have "transactions_ok d'"
      unfolding db_ok_def table_oks c list_all_iff by (auto simp: d' without_client_def intro!: filtered)
    ultimately show ?thesis by (simp add: db_ok_def)
  qed (use 1 in simp)
qed

lemma replace_txn_keeps: "tr_date_ts r \<noteq> None \<Longrightarrow> db_keeps db_ok (statement s (replace_txn r))"
proof (rule schema.preserves_statement, goal_cases)
  case (1 d v d')
  then have refs: "has_client d (tr_client_id r)" "has_import d (tr_import_id r)"
    and d': "d' = d\<lparr>ld_transactions :=
      filter (\<lambda>x. \<not> same_txn_key (tr_client_id r) (tr_id r) x) (ld_transactions d) @ [r]\<rparr>"
    by (auto simp: replace_txn_def split: if_splits)
  from 1 have "transactions_ok d" by (simp add: db_ok_def)
  with refs 1 have "transactions_ok d'"
    unfolding transactions_ok_def d' by (auto simp: same_txn_key_def list_all_iff intro: distinct_map_filter)
  with 1 show ?case by (simp add: db_ok_def table_oks d')
qed

lemma upsert_rows_keeps: "db_keeps db_ok (upsert_rows E c import ts n)"
  by (induction E c import ts n rule: upsert_rows.induct)
    (auto intro!: schema.preserves_bind schema.preserves_return replace_txn_keeps simp: row_of_txn_def)

lemma upsert_transactions_keeps: "db_keeps db_ok (upsert_transactions E c import ts)"
  unfolding upsert_transactions_def by (intro schema.preserves_transaction upsert_rows_keeps)

text \<open>Statements that only filter the transactions, or change columns that carry no constraint.\<close>

lemma filter_transactions_keeps:
  "db_keeps db_ok (statement s (\<lambda>d. Some (v, d\<lparr>ld_transactions := filter p (ld_transactions d)\<rparr>)))"
  by (rule schema.preserves_statement) (auto simp: db_ok_def table_oks list_all_iff intro: distinct_map_filter)

lemma map_transactions_keeps:
  assumes "\<And>r. tr_client_id (f r) = tr_client_id r \<and> tr_id (f r) = tr_id r \<and> tr_import_id (f r) = tr_import_id r
      \<and> tr_date_ts (f r) = tr_date_ts r"
  shows "db_keeps db_ok (statement s (\<lambda>d. Some (v, d\<lparr>ld_transactions := map f (ld_transactions d)\<rparr>)))"
  by (rule schema.preserves_statement) (auto simp: db_ok_def table_oks list_all_iff assms o_def)

lemma transaction_statements_keep:
  "db_keeps db_ok (delete_transactions_for_client c)"
  "db_keeps db_ok (delete_transaction c i)"
  "db_keeps db_ok (upsert_transaction_classification c i v h t s f src)"
  "db_keeps db_ok (update_dup_flags c ts)"
proof -
  show "db_keeps db_ok (update_dup_flags c ts)"
    by (induction ts) (auto intro!: schema.preserves_return schema.preserves_bind map_transactions_keeps)
qed (unfold delete_transactions_for_client_def delete_transaction_def upsert_transaction_classification_def,
     auto intro!: filter_transactions_keeps map_transactions_keeps)

lemma save_import_keeps: "db_keeps db_ok (save_import E c f b a n)"
  unfolding save_import_def
proof (rule schema.preserves_statement, goal_cases)
  case (1 d v d')
  then have "has_client d c" and d': "d' = (use_id SeqImports (new_id E SeqImports d) d)
      \<lparr>ld_imports := ld_imports d @ [\<lparr>im_id = new_id E SeqImports d, im_client_id = c, im_file_name = f,
         im_bank_name = Some b, im_account_no = Some a, im_txn_count = int n, im_imported_at = de_now E\<rparr>]\<rparr>"
    by (auto simp: Let_def split: if_splits)
  moreover have "has_import d' x" if "has_import d x" for x
    using that by (auto simp: d' has_import_def split: option.splits)
  ultimately show ?case using 1 by (auto simp: db_ok_def table_oks list_all_iff row_ids_ok_new)
qed

lemma delete_import_keeps: "db_keeps db_ok (delete_import i)"
  unfolding delete_import_def
proof (rule schema.preserves_statement, goal_cases)
  case (1 d v d')
  then have d': "d' = d\<lparr>ld_imports := filter (\<lambda>r. im_id r \<noteq> i) (ld_imports d)\<rparr>"
    and "list_all (\<lambda>t. has_import d' (tr_import_id t)) (ld_transactions d')"
    by (auto simp: Let_def split: if_splits)
  with 1 show ?case by (auto simp: db_ok_def table_oks list_all_iff intro: row_ids_ok_filter)
qed

lemma same_rule_key_iff: "same_rule_key c p r \<longleftrightarrow> rule_key r = (c, map to_ascii_lower p)"
  by (auto simp: same_rule_key_def rule_key_def eq_ignore_ascii_case_def)

lemma insert_rule_keeps: "db_keeps db_ok (statement s (insert_rule E c p w h t pr))"
proof (rule schema.preserves_statement, goal_cases)
  case (1 d v d')
  show ?case
  proof (cases "list_ex (same_rule_key c p) (ld_rules d)")
    case False
    then have "(c, map to_ascii_lower p) \<notin> rule_key ` set (ld_rules d)"
      by (auto simp: same_rule_key_iff list_ex_iff)
    with 1 False show ?thesis
      by (auto simp: insert_rule_def Let_def db_ok_def table_oks row_ids_ok_new rule_key_def split: if_splits)
  qed (use 1 in \<open>simp add: insert_rule_def\<close>)
qed

lemma filter_rules_keeps:
  "db_keeps db_ok (statement s (\<lambda>d. Some (v, d\<lparr>ld_rules := filter p (ld_rules d)\<rparr>)))"
  by (rule schema.preserves_statement) (auto simp: db_ok_def table_oks list_all_iff intro: distinct_map_filter row_ids_ok_filter)

lemma insert_captured_keeps: "db_keeps db_ok (insert_captured E c caps n)"
  by (induction E c caps n rule: insert_captured.induct)
    (auto intro: schema.preserves_bind schema.preserves_return insert_rule_keeps)

lemma rule_operations_keep:
  "db_keeps db_ok (add_rule E c p v h t)"
  "db_keeps db_ok (delete_rule i)"
  "db_keeps db_ok (import_rules_json E c json)"
  unfolding add_rule_def delete_rule_def import_rules_json_def
  by (auto intro!: schema.preserves_bind schema.preserves_return insert_rule_keeps filter_rules_keeps insert_captured_keeps
      simp: db_keeps_def [of _ "\<lambda>d. (Inl _, d)"] split: option.split)

lemma push_audit_event_keeps: "db_keeps db_ok (push_audit_event E c e)"
  unfolding push_audit_event_def
  by (rule schema.preserves_statement) (auto simp: Let_def db_ok_def table_oks row_ids_ok_new)

lemma filter_audit_keeps:
  "db_keeps db_ok (statement s (\<lambda>d. Some (v, d\<lparr>ld_audit := filter p (ld_audit d)\<rparr>)))"
  by (rule schema.preserves_statement) (auto simp: db_ok_def table_oks intro: row_ids_ok_filter)

lemma clear_audit_keeps:
  "db_keeps db_ok (clear_audit_events c)" "db_keeps db_ok clear_all_audit_events"
  unfolding clear_audit_events_def clear_all_audit_events_def
  by (rule filter_audit_keeps, rule schema.preserves_statement) (auto simp: db_ok_def table_oks dest: row_ids_ok_top)

lemma insert_hash_keeps:
  "db_keeps db_ok (statement s (\<lambda>d. if (c, h) \<in> set (ld_hashes d) then Some ((), d)
     else if \<not> has_client d c then None else Some ((), d\<lparr>ld_hashes := ld_hashes d @ [(c, h)]\<rparr>)))"
  by (rule schema.preserves_statement) (auto simp: db_ok_def table_oks split: if_splits)

lemma insert_hashes_keeps: "db_keeps db_ok (insert_hashes c hs)"
  by (induction hs) (simp_all add: schema.preserves_return schema.preserves_bind insert_hash_keeps)

lemma hash_operations_keep:
  "db_keeps db_ok (add_dedupe_hashes c hs)" "db_keeps db_ok (reset_dedupe_hashes c)"
  unfolding add_dedupe_hashes_def reset_dedupe_hashes_def
  by (intro schema.preserves_transaction insert_hashes_keeps, rule schema.preserves_statement)
    (force simp: db_ok_def table_oks list_all_iff)

lemma insert_ledger_keeps: "db_keeps db_ok (statement s (insert_ledger E c n g))"
proof (rule schema.preserves_statement, goal_cases)
  case (1 d v d')
  then show ?case
    by (auto simp: insert_ledger_def Let_def same_ledger_key_def list_ex_iff db_ok_def table_oks row_ids_ok_new
        split: if_splits)
qed

lemma import_ledgers_keeps: "db_keeps db_ok (import_ledgers E c es)"
proof -
  have "db_keeps db_ok (insert_ledgers E c es n)" for n
    by (induction E c es n rule: insert_ledgers.induct)
      (auto intro: schema.preserves_bind schema.preserves_return insert_ledger_keeps)
  then show ?thesis by (simp add: import_ledgers_def)
qed

lemma settings_keep: "db_keeps db_ok (set_setting k v)" "db_keeps db_ok (delete_setting k)"
  unfolding set_setting_def delete_setting_def
  by (rule schema.preserves_statement; force simp: db_ok_def table_oks)+

section \<open>The operations as steps\<close>

text \<open>
  The local database as a system: the operations as steps, each under a schedule of faults of its own. Every
  state that can be reached satisfies the constraints, and an operation on one client leaves the data of
  every other client alone.
\<close>

datatype client_action =
    SaveTransactions "int option" "transaction list"
  | DropTransactions
  | ClassifyTransaction chars chars chars chars chars f64 chars
  | FlagDuplicates "transaction list"
  | DropTransaction chars
  | SaveImport chars chars chars nat
  | AddRule chars chars chars chars
  | RestoreRules chars
  | LogEvent chars
  | ClearEvents
  | AddHashes "chars list"
  | ResetHashes
  | AddLedgers "(chars \<times> chars) list"
  | UpdateClient chars chars
  | DeleteClient

datatype db_operation =
    OnClient int client_action
  | AddClient chars chars
  | DeleteImport int
  | DeleteRule int
  | ClearAllEvents
  | SetSetting chars chars
  | DeleteSetting chars

definition quiet :: "'a db_action \<Rightarrow> unit db_action" where
  "quiet m = db_bind m (\<lambda>_. db_return ())"

fun run_on_client :: "db_env \<Rightarrow> int \<Rightarrow> client_action \<Rightarrow> unit db_action" where
  "run_on_client E c (SaveTransactions import ts) = quiet (upsert_transactions E c import ts)"
| "run_on_client E c DropTransactions = delete_transactions_for_client c"
| "run_on_client E c (ClassifyTransaction i v h t s f src) = upsert_transaction_classification c i v h t s f src"
| "run_on_client E c (FlagDuplicates ts) = update_dup_flags c ts"
| "run_on_client E c (DropTransaction i) = delete_transaction c i"
| "run_on_client E c (SaveImport f b a n) = quiet (save_import E c f b a n)"
| "run_on_client E c (AddRule p v h t) = quiet (add_rule E c p v h t)"
| "run_on_client E c (RestoreRules json) = quiet (import_rules_json E c json)"
| "run_on_client E c (LogEvent e) = push_audit_event E c e"
| "run_on_client E c ClearEvents = clear_audit_events c"
| "run_on_client E c (AddHashes hs) = add_dedupe_hashes c hs"
| "run_on_client E c ResetHashes = reset_dedupe_hashes c"
| "run_on_client E c (AddLedgers es) = quiet (import_ledgers E c es)"
| "run_on_client E c (UpdateClient n l) = update_client c n l"
| "run_on_client E c DeleteClient = delete_client c"

fun run_operation :: "db_env \<Rightarrow> db_operation \<Rightarrow> unit db_action" where
  "run_operation E (OnClient c a) = run_on_client E c a"
| "run_operation E (AddClient n l) = quiet (add_client E n l)"
| "run_operation E (DeleteImport i) = delete_import i"
| "run_operation E (DeleteRule i) = delete_rule i"
| "run_operation E ClearAllEvents = clear_all_audit_events"
| "run_operation E (SetSetting k v) = set_setting k v"
| "run_operation E (DeleteSetting k) = delete_setting k"

definition db_step :: "db_env \<Rightarrow> db_operation \<Rightarrow> nat list \<Rightarrow> local_db \<Rightarrow> local_db" where
  "db_step E op fs d = snd (run_operation E op (d\<lparr>ld_faults := fs\<rparr>))"

inductive reachable_db :: "db_env \<Rightarrow> local_db \<Rightarrow> bool" for E where
  reachable_empty: "reachable_db E empty_db"
| reachable_step: "reachable_db E d \<Longrightarrow> reachable_db E (db_step E op fs d)"

subsection \<open>The constraints hold in every reachable state\<close>

lemma quiet_keeps: "db_keeps db_ok m \<Longrightarrow> db_keeps db_ok (quiet m)"
  unfolding quiet_def by (intro schema.preserves_bind schema.preserves_return)

lemmas operations_keep = quiet_keeps upsert_transactions_keeps transaction_statements_keep save_import_keeps
  rule_operations_keep push_audit_event_keeps clear_audit_keeps hash_operations_keep import_ledgers_keeps
  update_client_keeps delete_client_keeps add_client_keeps delete_import_keeps settings_keep

lemma run_keeps: "db_keeps db_ok (run_operation E op)"
proof (cases op)
  case (OnClient c a)
  then show ?thesis by (cases a) (simp_all add: operations_keep)
qed (simp_all add: operations_keep)

lemma reachable_ok: "reachable_db E d \<Longrightarrow> db_ok d"
proof (induction rule: reachable_db.induct)
  case reachable_empty
  show ?case by (simp add: db_ok_def table_oks empty_db_def)
next
  case (reachable_step d op fs)
  then have "db_ok (d\<lparr>ld_faults := fs\<rparr>)" by (simp add: schema.ignores_faults)
  with run_keeps [of E op] show ?case by (simp add: db_step_def db_keeps_def)
qed

lemma rules_for_own:
  assumes "db_ok d"
  shows "rules_for c d = map rule_of_row
    (stable_sort (\<lambda>a b. ru_priority b < ru_priority a \<or> ru_priority a = ru_priority b \<and> ru_id a < ru_id b)
      (filter (\<lambda>r. ru_client_id r = c) (ld_rules d)))"
proof -
  have "ru_client_id r \<noteq> 0" if "r \<in> set (ld_rules d)" for r
  proof -
    have "ru_client_id r \<in> set (map cw_id (ld_clients d))"
      using that assms by (simp add: db_ok_def rules_ok_def list_all_iff has_client_def)
    moreover have "row_ids_ok (map cw_id (ld_clients d)) (ld_last_id d SeqClients)"
      using assms by (simp add: db_ok_def clients_ok_def)
    ultimately show ?thesis by (metis row_ids_ok_pos less_irrefl)
  qed
  then have "filter (\<lambda>r. ru_client_id r = c \<or> ru_client_id r = 0) (ld_rules d)
      = filter (\<lambda>r. ru_client_id r = c) (ld_rules d)"
    by (intro filter_cong) auto
  then show ?thesis by (simp add: rules_for_def)
qed

text \<open>C34: whatever operations the desktop application runs on its database, in whatever order and whichever
  of their statements fail, the database satisfies the constraints of its schema: names and keys are
  unique, ids only grow, every transaction, import, rule, hash and ledger belongs to a client that exists and
  every transaction's import exists. In particular there are no rules of the client 0: the rules
  \<open>get_rules\<close> loads for a client as shared by all clients never exist.\<close>

theorem reachable_db_consistent:
  assumes "reachable_db E d"
  shows "db_ok d \<and> list_all (\<lambda>r. cr_client_id r = c) (rules_for c d)"
  using reachable_ok [OF assms] rules_for_own [OF reachable_ok [OF assms], of c]
  by (auto simp: list_all_iff rule_of_row_def)

subsection \<open>Clients are isolated\<close>

text \<open>What a client can see of the database.\<close>

definition seen_by_client :: "int \<Rightarrow> local_db \<Rightarrow> local_db" where
  "seen_by_client c d = d\<lparr>
     ld_clients := filter (\<lambda>r. cw_id r = c) (ld_clients d),
     ld_transactions := filter (\<lambda>r. tr_client_id r = c) (ld_transactions d),
     ld_imports := filter (\<lambda>r. im_client_id r = c) (ld_imports d),
     ld_rules := filter (\<lambda>r. ru_client_id r = c) (ld_rules d),
     ld_audit := filter (\<lambda>r. au_client_id r = c) (ld_audit d),
     ld_hashes := filter (\<lambda>h. fst h = c) (ld_hashes d),
     ld_ledgers := filter (\<lambda>r. le_client_id r = c) (ld_ledgers d),
     ld_last_id := (\<lambda>_. 0), ld_faults := []\<rparr>"

interpretation view: db_invariant "\<lambda>d. seen_by_client c d = v" for c v
  by unfold_locales (simp add: seen_by_client_def)

lemma others_stay [simp]:
  "c' \<noteq> c \<Longrightarrow> filter (\<lambda>x. g x \<noteq> c' \<and> g x = c) xs = filter (\<lambda>x. g x = c) xs"
  by (induction xs) auto

lemma other_keys_stay [simp]:
  "c' \<noteq> c \<Longrightarrow> filter (\<lambda>x. \<not> same_txn_key c' i x \<and> tr_client_id x = c) xs = filter (\<lambda>x. tr_client_id x = c) xs"
  by (induction xs) (auto simp: same_txn_key_def)

lemma filter_of_map:
  assumes "\<And>x. q (f x) = q x" and "\<And>x. q x \<Longrightarrow> f x = x"
  shows "filter q (map f xs) = filter q xs"
  using assms by (induction xs) auto

lemma view_statement:
  assumes "\<And>d v d'. f d = Some (v, d') \<Longrightarrow> seen_by_client c d' = seen_by_client c d"
  shows "db_keeps (\<lambda>d. seen_by_client c d = w) (statement s f)"
  by (rule view.preserves_statement) (metis assms)

lemma view_replace: "tr_client_id r \<noteq> c \<Longrightarrow> db_keeps (\<lambda>d. seen_by_client c d = w) (statement s (replace_txn r))"
  by (rule view_statement) (auto simp: replace_txn_def seen_by_client_def split: if_splits)

lemma view_upsert:
  assumes "c' \<noteq> c"
  shows "db_keeps (\<lambda>d. seen_by_client c d = w) (upsert_transactions E c' import ts)"
proof -
  have "db_keeps (\<lambda>d. seen_by_client c d = w) (upsert_rows E c' import ts n)" for n
    using assms by (induction E c' import ts n rule: upsert_rows.induct)
      (auto intro!: view.preserves_bind view.preserves_return view_replace simp: row_of_txn_def)
  then show ?thesis unfolding upsert_transactions_def by (intro view.preserves_transaction)
qed

lemma view_map:
  assumes "\<And>r. tr_client_id (f r) = tr_client_id r" and "\<And>r. tr_client_id r = c \<Longrightarrow> f r = r"
  shows "db_keeps (\<lambda>d. seen_by_client c d = w) (statement s (\<lambda>d. Some (v, d\<lparr>ld_transactions := map f (ld_transactions d)\<rparr>)))"
proof (rule view_statement)
  fix d d' :: local_db and u
  assume "Some (v, d\<lparr>ld_transactions := map f (ld_transactions d)\<rparr>) = Some (u, d')"
  moreover have "filter (\<lambda>r. tr_client_id r = c) (map f rs) = filter (\<lambda>r. tr_client_id r = c) rs" for rs
    using assms by (intro filter_of_map) simp_all
  ultimately show "seen_by_client c d' = seen_by_client c d" by (auto simp: seen_by_client_def)
qed

lemma view_flags:
  assumes "c' \<noteq> c"
  shows "db_keeps (\<lambda>d. seen_by_client c d = w) (update_dup_flags c' ts)"
  using assms by (induction ts)
    (auto intro!: view.preserves_bind view.preserves_return view_map simp: same_txn_key_def)

lemma view_insert_rule:
  "c' \<noteq> c \<Longrightarrow> db_keeps (\<lambda>d. seen_by_client c d = w) (statement s (insert_rule E c' p v h t pr))"
  by (rule view_statement) (auto simp: insert_rule_def Let_def seen_by_client_def use_id_def split: if_splits)

lemma view_captured:
  "c' \<noteq> c \<Longrightarrow> db_keeps (\<lambda>d. seen_by_client c d = w) (insert_captured E c' caps n)"
  by (induction E c' caps n rule: insert_captured.induct)
    (auto intro!: view.preserves_bind view.preserves_return view_insert_rule)

lemma view_rules:
  assumes "c' \<noteq> c"
  shows "db_keeps (\<lambda>d. seen_by_client c d = w) (add_rule E c' p v h t)"
    and "db_keeps (\<lambda>d. seen_by_client c d = w) (import_rules_json E c' json)"
proof -
  show "db_keeps (\<lambda>d. seen_by_client c d = w) (add_rule E c' p v h t)"
    unfolding add_rule_def by (intro view.preserves_bind view.preserves_return view_insert_rule assms)
  have "db_keeps (\<lambda>d. seen_by_client c d = w) (statement s
      (\<lambda>d. Some ((), d\<lparr>ld_rules := filter (\<lambda>r. ru_client_id r \<noteq> c') (ld_rules d)\<rparr>)))" for s
    using assms by (intro view_statement) (auto simp: seen_by_client_def )
  then show "db_keeps (\<lambda>d. seen_by_client c d = w) (import_rules_json E c' json)"
    unfolding import_rules_json_def
    by (auto intro!: view.preserves_bind view_captured assms simp: db_keeps_def [of _ "\<lambda>d. (Inl _, d)"] split: option.split)
qed

lemma view_hashes:
  assumes "c' \<noteq> c"
  shows "db_keeps (\<lambda>d. seen_by_client c d = w) (add_dedupe_hashes c' hs)"
proof -
  have one: "db_keeps (\<lambda>d. seen_by_client c d = w) (statement s (\<lambda>d. if (c', h) \<in> set (ld_hashes d) then Some ((), d)
      else if \<not> has_client d c' then None else Some ((), d\<lparr>ld_hashes := ld_hashes d @ [(c', h)]\<rparr>)))" for s h
    using assms by (intro view_statement) (auto simp: seen_by_client_def split: if_splits)
  have "db_keeps (\<lambda>d. seen_by_client c d = w) (insert_hashes c' hs)"
    by (induction hs) (simp_all add: view.preserves_bind view.preserves_return one)
  then show ?thesis unfolding add_dedupe_hashes_def by (intro view.preserves_transaction)
qed

lemma view_ledgers:
  assumes "c' \<noteq> c"
  shows "db_keeps (\<lambda>d. seen_by_client c d = w) (import_ledgers E c' es)"
proof -
  have one: "db_keeps (\<lambda>d. seen_by_client c d = w) (statement s (insert_ledger E c' n g))" for s n g
    using assms by (intro view_statement)
      (auto simp: insert_ledger_def Let_def seen_by_client_def use_id_def split: if_splits)
  have "db_keeps (\<lambda>d. seen_by_client c d = w) (insert_ledgers E c' es n)" for n
    using one by (induction E c' es n rule: insert_ledgers.induct) (auto intro!: view.preserves_bind view.preserves_return)
  then show ?thesis by (simp add: import_ledgers_def)
qed

lemma view_quiet: "db_keeps (\<lambda>d. seen_by_client c d = w) m \<Longrightarrow> db_keeps (\<lambda>d. seen_by_client c d = w) (quiet m)"
  unfolding quiet_def by (intro view.preserves_bind view.preserves_return)

lemma view_single:
  assumes "c' \<noteq> c"
  shows "db_keeps (\<lambda>d. seen_by_client c d = w) (delete_transactions_for_client c')"
    and "db_keeps (\<lambda>d. seen_by_client c d = w) (delete_transaction c' i)"
    and "db_keeps (\<lambda>d. seen_by_client c d = w) (push_audit_event E c' e)"
    and "db_keeps (\<lambda>d. seen_by_client c d = w) (clear_audit_events c')"
    and "db_keeps (\<lambda>d. seen_by_client c d = w) (reset_dedupe_hashes c')"
  using assms
  unfolding delete_transactions_for_client_def delete_transaction_def push_audit_event_def
    clear_audit_events_def reset_dedupe_hashes_def
  by - (rule view_statement, clarsimp simp: seen_by_client_def use_id_def Let_def)+

lemma view_classify:
  "c' \<noteq> c \<Longrightarrow> db_keeps (\<lambda>d. seen_by_client c d = w) (upsert_transaction_classification c' i v h t s f src)"
  unfolding upsert_transaction_classification_def by (rule view_map) (auto simp: same_txn_key_def)

lemma view_branching:
  assumes "c' \<noteq> c"
  shows "db_keeps (\<lambda>d. seen_by_client c d = w) (save_import E c' fn b a n)"
    and "db_keeps (\<lambda>d. seen_by_client c d = w) (update_client c' name l)"
    and "db_keeps (\<lambda>d. seen_by_client c d = w) (delete_client c')"
proof -
  show "db_keeps (\<lambda>d. seen_by_client c d = w) (save_import E c' fn b a n)"
    unfolding save_import_def using assms
    by (intro view_statement) (auto simp: seen_by_client_def use_id_def Let_def split: if_splits)
  have rename: "filter (\<lambda>r. cw_id r = c) (map (\<lambda>r. if cw_id r = c' then r\<lparr>cw_name := name, cw_gstin := Some l\<rparr> else r) rs)
      = filter (\<lambda>r. cw_id r = c) rs" for rs
    using assms by (intro filter_of_map) auto
  show "db_keeps (\<lambda>d. seen_by_client c d = w) (update_client c' name l)"
    unfolding update_client_def
    by (rule view_statement) (auto simp: seen_by_client_def rename split: if_splits simp del: filter_map)
  show "db_keeps (\<lambda>d. seen_by_client c d = w) (delete_client c')"
    unfolding delete_client_def using assms
    by (intro view_statement) (auto simp: seen_by_client_def without_client_def Let_def split: if_splits)
qed

text \<open>C35: an operation on one client changes nothing another client can see: not its transactions, imports,
  rules, log, hashes and ledgers, not its name, and no setting; nor does a run of it that fails part-way.
  Transactions are addressed by client and id, as ids repeat from client to client.\<close>

theorem clients_are_isolated:
  assumes "other \<noteq> c"
  shows "seen_by_client other (db_step E (OnClient c a) fs d) = seen_by_client other d"
proof -
  have "db_keeps (\<lambda>x. seen_by_client other x = seen_by_client other d) (run_on_client E c a)"
    using assms by (cases a) (simp_all add: view_quiet view_upsert view_flags view_rules view_hashes view_ledgers view_single view_classify view_branching)
  moreover have "seen_by_client other (d\<lparr>ld_faults := fs\<rparr>) = seen_by_client other d" by (simp add: seen_by_client_def)
  ultimately show ?thesis by (simp add: db_step_def db_keeps_def)
qed

end
