(* ===== verification/LocalDbSaved.thy ===== *)
theory LocalDbSaved
  imports LocalDbFacts
begin

text \<open>
  Saving transactions: a save happens as a whole or not at all, and what was saved is read back, in the
  order of the dates. An import that still has transactions cannot be deleted.
\<close>

subsection \<open>Reading back\<close>

definition stored_transactions :: "db_env \<Rightarrow> int \<Rightarrow> local_db \<Rightarrow> transaction list" where
  "stored_transactions E c d = map (txn_of_row E) (filter (\<lambda>r. tr_client_id r = c) (ld_transactions d))"

text \<open>What SQLite makes of a transaction: NaN is lost, a negative zero loses its sign.\<close>

definition as_stored :: "int option \<Rightarrow> transaction \<Rightarrow> transaction" where
  "as_stored import t = t\<lparr>
     txn_import_id := (case import of Some i \<Rightarrow> Some i | None \<Rightarrow> txn_import_id t),
     txn_debit := stored_opt (txn_debit t), txn_credit := stored_opt (txn_credit t),
     txn_balance := stored_opt (txn_balance t), txn_prev_balance := stored_opt (txn_prev_balance t),
     txn_gst_rate := stored_opt (txn_gst_rate t), txn_gst_amount := stored_opt (txn_gst_amount t),
     txn_confidence := (case stored_real (txn_confidence t) of None \<Rightarrow> f64_zero | Some x \<Rightarrow> x)\<rparr>"

text \<open>serde_json reads back the list of strings it printed.\<close>

definition tags_ok :: "db_env \<Rightarrow> bool" where
  "tags_ok E \<longleftrightarrow> (\<forall>ts. Option.bind (de_tags_json E ts) (de_parse_tags E) = Some ts)"

lemma voucher_roundtrip [simp]: "voucher_from_str (voucher_type_display v) = v"
  by (cases v) (simp_all add: voucher_from_str_def)

lemma status_roundtrip [simp]: "status_from_str (transaction_status_display s) = s"
  by (cases s) (simp_all add: status_from_str_def)

lemma tags_roundtrip: "tags_ok E \<Longrightarrow> de_parse_tags E (tags_text E ts) = Some ts"
  unfolding tags_ok_def tags_text_def by (drule spec [of _ ts]) (auto split: option.splits bind_splits)

lemma txn_of_row_of_txn: "tags_ok E \<Longrightarrow> txn_of_row E (row_of_txn E c import t) = as_stored import t"
  by (auto simp: txn_of_row_def row_of_txn_def as_stored_def or_blank_def tags_roundtrip flag_int_def
      option.map_comp o_def option.map_ident split: option.split cong: option.map_cong)

lemma stored_plain: "0 < m \<Longrightarrow> stored_opt (Some (Finite s m)) = Some (Finite s m)"
  by (simp add: stored_opt_def stored_real_def)

subsection \<open>Saving\<close>

definition put_row :: "txn_row \<Rightarrow> txn_row list \<Rightarrow> txn_row list" where
  "put_row r rows = filter (\<lambda>x. \<not> same_txn_key (tr_client_id r) (tr_id r) x) rows @ [r]"

lemma faults_same: "ld_faults d = [] \<Longrightarrow> d\<lparr>ld_faults := []\<rparr> = d"
  by simp

lemma statement_healthy: "ld_faults d = [] \<Longrightarrow> f d = Some (v, d') \<Longrightarrow> statement s f d = (Inr v, d')"
  by (simp add: statement_def Let_def faults_same)

lemma upsert_rows_effect:
  "upsert_rows E c import ts n d = (Inr k, d') \<Longrightarrow>
    k = n + length ts
    \<and> d'\<lparr>ld_faults := []\<rparr> = d\<lparr>ld_transactions := fold put_row (map (row_of_txn E c import) ts) (ld_transactions d),
        ld_faults := []\<rparr>"
proof (induction ts arbitrary: n d)
  case Nil
  then show ?case by (auto simp: db_return_def)
next
  case (Cons t ts)
  let ?r = "row_of_txn E c import t" and ?s = "[''upsert_transaction row'']"
  show ?case
  proof (cases rule: statement_cases [of ?s "replace_txn ?r" d])
    case (failed e)
    with Cons.prems show ?thesis by (simp add: db_bind_def)
  next
    case (ran v d1)
    then have d1: "d1 = d\<lparr>ld_transactions := put_row ?r (ld_transactions d), ld_faults := tl (ld_faults d)\<rparr>"
      by (auto simp: replace_txn_def put_row_def split: if_splits)
    from Cons.prems ran have "upsert_rows E c import ts (n + 1) d1 = (Inr k, d')" by (simp add: db_bind_def)
    from Cons.IH [OF this] show ?thesis by (simp add: d1)
  qed
qed

lemma upsert_rows_healthy:
  assumes "ld_faults d = []" and "has_client d c"
    and "\<And>t. t \<in> set ts \<Longrightarrow> has_import d (tr_import_id (row_of_txn E c import t))"
  shows "\<exists>d'. upsert_rows E c import ts n d = (Inr (n + length ts), d') \<and> ld_faults d' = []"
  using assms
proof (induction ts arbitrary: n d)
  case (Cons t ts)
  let ?r = "row_of_txn E c import t"
  let ?d = "d\<lparr>ld_transactions := put_row ?r (ld_transactions d)\<rparr>"
  have "tr_client_id ?r = c" by (simp add: row_of_txn_def)
  with Cons.prems have "statement [''upsert_transaction row''] (replace_txn ?r) d = (Inr (), ?d)"
    by (intro statement_healthy) (simp_all add: replace_txn_def put_row_def)
  moreover have "\<exists>d'. upsert_rows E c import ts (n + 1) ?d = (Inr (n + 1 + length ts), d') \<and> ld_faults d' = []"
    using Cons.prems by (intro Cons.IH) simp_all
  ultimately show ?case by (simp add: db_bind_def)
qed (simp add: db_return_def)

text \<open>A transaction block: its body's result, or nothing.\<close>

lemma transaction_block_cases:
  obtains (rolled_back) e d' where "transaction_block b k m d = (Inl e, d')" "d'\<lparr>ld_faults := []\<rparr> = d\<lparr>ld_faults := []\<rparr>"
  | (committed) v d1 d2 d' where "transaction_block b k m d = (Inr v, d')" "d1\<lparr>ld_faults := []\<rparr> = d\<lparr>ld_faults := []\<rparr>"
      "m d1 = (Inr v, d2)" "d'\<lparr>ld_faults := []\<rparr> = d2\<lparr>ld_faults := []\<rparr>"
proof (cases rule: statement_cases [of "[b]" "\<lambda>d. Some ((), d)" d])
  case (failed e)
  show ?thesis by (rule rolled_back [of e "d\<lparr>ld_faults := tl (ld_faults d)\<rparr>"]) (simp_all add: transaction_block_def failed)
next
  case (ran v d1)
  let ?d1 = "d\<lparr>ld_faults := tl (ld_faults d)\<rparr>"
  from ran have start: "statement [b] (\<lambda>d. Some ((), d)) d = (Inr (), ?d1)" by auto
  obtain r d2 where m: "m ?d1 = (r, d2)" by fastforce
  show ?thesis
  proof (cases r)
    case (Inl e)
    show ?thesis
      by (rule rolled_back [of e "?d1\<lparr>ld_faults := ld_faults d2\<rparr>"])
        (simp_all add: transaction_block_def start db_bind_def m Inl)
  next
    case (Inr u)
    show ?thesis
    proof (cases rule: statement_cases [of "[k]" "\<lambda>d. Some ((), d)" d2])
      case (failed e)
      show ?thesis
        by (rule rolled_back [of e "?d1\<lparr>ld_faults := tl (ld_faults d2)\<rparr>"])
          (simp_all add: transaction_block_def start db_bind_def m Inr failed)
    next
      case stop: (ran v' d3)
      then have "d3 = d2\<lparr>ld_faults := tl (ld_faults d2)\<rparr>" by auto
      then show ?thesis
        by (intro committed [of u d3 ?d1 d2])
          (simp_all add: transaction_block_def start db_bind_def m Inr stop(2) db_return_def)
    qed
  qed
qed

lemma transaction_block_healthy:
  assumes "ld_faults d = []" and "m d = (Inr v, d')" and "ld_faults d' = []"
  shows "transaction_block b k m d = (Inr v, d')"
  using assms by (simp add: transaction_block_def statement_healthy db_bind_def db_return_def)

text \<open>The rows after a save, as transactions.\<close>

lemma fold_put_row:
  assumes "distinct (map tr_id rs)" and "list_all (\<lambda>r. tr_client_id r = c) rs"
  shows "fold put_row rs rows = filter (\<lambda>x. \<not> (tr_client_id x = c \<and> tr_id x \<in> tr_id ` set rs)) rows @ rs"
  using assms
proof (induction rs arbitrary: rows)
  case (Cons r rs)
  then have r: "tr_client_id r = c" and fresh: "tr_id r \<notin> tr_id ` set rs" by auto
  have "fold put_row (r # rs) rows = filter (\<lambda>x. \<not> (tr_client_id x = c \<and> tr_id x \<in> tr_id ` set rs)) (put_row r rows) @ rs"
    using Cons by simp
  moreover have "filter (\<lambda>x. \<not> (tr_client_id x = c \<and> tr_id x \<in> tr_id ` set rs)) (put_row r rows)
      = filter (\<lambda>x. \<not> (tr_client_id x = c \<and> tr_id x \<in> tr_id ` set (r # rs))) rows @ [r]"
    using r fresh by (auto simp: put_row_def same_txn_key_def intro!: filter_cong)
  ultimately show ?case by simp
qed simp

lemma stored_after_save:
  assumes tags: "tags_ok E" and ids: "distinct (map txn_id ts)"
    and d': "ld_transactions d' = fold put_row (map (row_of_txn E c import) ts) (ld_transactions d)"
  shows "stored_transactions E c d'
    = filter (\<lambda>t. txn_id t \<notin> txn_id ` set ts) (stored_transactions E c d) @ map (as_stored import) ts"
proof -
  let ?rs = "map (row_of_txn E c import) ts"
  have key: "tr_id (row_of_txn E c import t) = txn_id t" "tr_client_id (row_of_txn E c import t) = c" for t
    by (simp_all add: row_of_txn_def)
  then have set: "tr_id ` set ?rs = txn_id ` set ts" by (simp add: image_image)
  have "fold put_row ?rs (ld_transactions d)
      = filter (\<lambda>x. \<not> (tr_client_id x = c \<and> tr_id x \<in> txn_id ` set ts)) (ld_transactions d) @ ?rs"
    using fold_put_row [of ?rs c "ld_transactions d"] ids unfolding set by (simp add: key o_def list_all_iff)
  moreover have "map (txn_of_row E) ?rs = map (as_stored import) ts"
    using tags by (simp add: txn_of_row_of_txn)
  moreover have "filter (\<lambda>r. tr_client_id r = c) ?rs = ?rs" by (simp add: key o_def)
  moreover have "map (txn_of_row E) (filter (\<lambda>x. \<not> (tr_client_id x = c \<and> tr_id x \<in> txn_id ` set ts) \<and> tr_client_id x = c) rows)
      = filter (\<lambda>t. txn_id t \<notin> txn_id ` set ts) (map (txn_of_row E) (filter (\<lambda>r. tr_client_id r = c) rows))" for rows
    by (induction rows) (simp_all add: txn_of_row_def)
  ultimately show ?thesis unfolding stored_transactions_def d' by simp
qed

lemma insert_by_map: "insert_by e (f x) (map f ys) = map f (insert_by (\<lambda>a b. e (f a) (f b)) x ys)"
  by (induction ys) simp_all

lemma stable_sort_map: "stable_sort e (map f xs) = map f (stable_sort (\<lambda>a b. e (f a) (f b)) xs)"
  by (induction xs) (simp_all add: insert_by_map)

lemma stable_sort_cong:
  assumes "\<And>x y. x \<in> set xs \<Longrightarrow> y \<in> set xs \<Longrightarrow> e x y = e' x y"
  shows "stable_sort e xs = stable_sort e' xs"
proof -
  have ins: "insert_by e x ys = insert_by e' x ys" if "\<And>y. y \<in> set ys \<Longrightarrow> e y x = e' y x" for x ys
    using that by (induction ys) auto
  from assms show ?thesis
  proof (induction xs)
    case (Cons x xs)
    then have "stable_sort e xs = stable_sort e' xs" by (meson list.set_intros(2))
    moreover have "insert_by e x (stable_sort e' xs) = insert_by e' x (stable_sort e' xs)"
      using Cons.prems by (intro ins) simp
    ultimately show ?case by simp
  qed simp
qed

definition in_date_order :: "transaction list \<Rightarrow> transaction list" where
  "in_date_order ts = stable_sort (\<lambda>a b. txn_date_ts a < txn_date_ts b) ts"

lemma get_transactions_eq:
  assumes "transactions_ok d" and "ld_faults d = []"
  shows "get_transactions E c d = (Inr (in_date_order (stored_transactions E c d)), d)"
proof -
  let ?rows = "filter (\<lambda>r. tr_client_id r = c) (ld_transactions d)"
  have "null_less (tr_date_ts a) (tr_date_ts b) = (txn_date_ts (txn_of_row E a) < txn_date_ts (txn_of_row E b))"
    if "a \<in> set ?rows" "b \<in> set ?rows" for a b
    using that assms(1) by (auto simp: transactions_ok_def list_all_iff null_less_def txn_of_row_def split: option.split)
  then have "by_date ?rows = stable_sort (\<lambda>a b. txn_date_ts (txn_of_row E a) < txn_date_ts (txn_of_row E b)) ?rows"
    unfolding by_date_def by (rule stable_sort_cong)
  then have "map (txn_of_row E) (by_date ?rows) = in_date_order (stored_transactions E c d)"
    by (simp add: in_date_order_def stored_transactions_def stable_sort_map)
  then show ?thesis unfolding get_transactions_def reading_def by (intro statement_healthy assms) simp
qed

text \<open>C36: saving transactions of a client happens completely or not at all, whichever statement of it
  fails, and what is saved is read back: the transactions of the client are then those it had, without
  the ones saved under the same id, followed by the saved ones, in the order of their dates and within a
  day in the order they were saved. Read back is what was saved, but for NaN and negative zeros, and with
  the number of the import.\<close>

theorem saved_transactions_load_back:
  assumes "tags_ok E" and "distinct (map txn_id ts)" and "db_ok d" and "ld_faults d = []"
    and "has_client d c" and "list_all (\<lambda>t. has_import d (tr_import_id (row_of_txn E c import t))) ts"
  shows "\<exists>d'. upsert_transactions E c import ts d = (Inr (length ts), d')
      \<and> get_transactions E c d' = (Inr (in_date_order
          (filter (\<lambda>t. txn_id t \<notin> txn_id ` set ts) (stored_transactions E c d) @ map (as_stored import) ts)), d')
      \<and> (\<forall>fs. case upsert_transactions E c import ts (d\<lparr>ld_faults := fs\<rparr>) of
          (Inl e, d'') \<Rightarrow> d''\<lparr>ld_faults := []\<rparr> = d
        | (Inr n, d'') \<Rightarrow> n = length ts \<and> d''\<lparr>ld_faults := []\<rparr> = d')"
proof -
  let ?rows = "fold put_row (map (row_of_txn E c import) ts) (ld_transactions d)"
  let ?d = "d\<lparr>ld_transactions := ?rows\<rparr>"
  from assms obtain d' where rows: "upsert_rows E c import ts 0 d = (Inr (length ts), d')" "ld_faults d' = []"
    using upsert_rows_healthy [of d c ts E import 0] by (auto simp: list_all_iff)
  have "d'\<lparr>ld_faults := []\<rparr> = ?d\<lparr>ld_faults := []\<rparr>"
    using upsert_rows_effect [OF rows(1)] by simp
  then have d': "d' = ?d" using faults_same [OF rows(2)] faults_same [of ?d] assms(4) by simp
  from rows assms have save: "upsert_transactions E c import ts d = (Inr (length ts), d')"
    unfolding upsert_transactions_def by (intro transaction_block_healthy)
  have "db_ok (snd (upsert_transactions E c import ts d))"
    using upsert_transactions_keeps [of E c import ts] assms by (simp add: db_keeps_def)
  then have "db_ok d'" by (simp add: save)
  then have "transactions_ok d'" by (simp add: db_ok_def)
  then have loaded: "get_transactions E c d' = (Inr (in_date_order (stored_transactions E c d')), d')"
    using rows by (intro get_transactions_eq)
  have stored: "stored_transactions E c d'
      = filter (\<lambda>t. txn_id t \<notin> txn_id ` set ts) (stored_transactions E c d) @ map (as_stored import) ts"
    by (rule stored_after_save [OF assms(1,2)]) (simp add: d')
  have "case upsert_transactions E c import ts (d\<lparr>ld_faults := fs\<rparr>) of
      (Inl e, d'') \<Rightarrow> d''\<lparr>ld_faults := []\<rparr> = d | (Inr n, d'') \<Rightarrow> n = length ts \<and> d''\<lparr>ld_faults := []\<rparr> = d'" for fs
  proof (cases rule: transaction_block_cases [of "''upsert_transactions: begin''" "''upsert_transactions: commit''"
        "upsert_rows E c import ts 0" "d\<lparr>ld_faults := fs\<rparr>"])
    case (rolled_back e d1)
    then show ?thesis using assms by (simp add: upsert_transactions_def faults_same)
  next
    case (committed n d1 d2 d3)
    have d1: "d1\<lparr>ld_faults := []\<rparr> = d" using committed(2) assms by (simp add: faults_same)
    then have same: "ld_transactions d1 = ld_transactions d" by (metis local_db.select_convs(2) local_db.update_convs(10) local_db.surjective)
    from upsert_rows_effect [OF committed(3)] have n: "n = length ts"
      and "d2\<lparr>ld_faults := []\<rparr> = (d1\<lparr>ld_faults := []\<rparr>)\<lparr>ld_transactions := ?rows\<rparr>"
      by (simp_all add: same)
    with d1 have "d3\<lparr>ld_faults := []\<rparr> = d'" using committed(4) d' by simp
    with committed n show ?thesis by (simp add: upsert_transactions_def)
  qed
  then show ?thesis by (intro exI [of _ d'] conjI allI save loaded [unfolded stored])
qed

subsection \<open>Deleting an import\<close>

text \<open>The import history offers to delete an import, but the database refuses as long as a transaction of
  it is there: the reference has no \<open>ON DELETE\<close> clause, and nothing deletes the transactions first.\<close>

lemma import_with_transactions_stays:
  assumes "t \<in> set (ld_transactions d)" and "tr_import_id t = Some i"
  shows "delete_import i d = (Inl (lit ''delete_import''), d\<lparr>ld_faults := tl (ld_faults d)\<rparr>)"
proof -
  let ?d = "d\<lparr>ld_faults := tl (ld_faults d), ld_imports := filter (\<lambda>r. im_id r \<noteq> i) (ld_imports d)\<rparr>"
  have "\<not> has_import ?d (tr_import_id t)" by (auto simp: assms has_import_def)
  with assms have "\<not> list_all (\<lambda>t. has_import ?d (tr_import_id t)) (ld_transactions d)"
    unfolding list_all_iff by blast
  then show ?thesis by (simp add: delete_import_def statement_def Let_def split: list.split nat.split)
qed

section \<open>The backup of the rules\<close>

text \<open>
  The backup of the classification rules: what is exported is read back by the pattern of
  \<open>import_rules_json\<close>, as long as the texts hold neither quotes nor backslashes.
\<close>

subsection \<open>Greedy repetition of a class\<close>











subsection \<open>The fields of a rule\<close>









subsection \<open>Reading a backup\<close>


















subsection \<open>Restoring the rules\<close>






end
