(* ===== verification/DbEncryption.thy ===== *)
theory DbEncryption
  imports Domain
begin

text \<open>
  \<open>src/db/encryption.rs\<close>: opening the encrypted database file. The file system and the credential store of
  the operating system are a record: the files by path, and the stored key. A file is what can be read from
  it: a plain SQLite file, one encrypted under a key, an empty one, or something neither can read. Reads may
  fail (the first schedule); writes may fail, or the process may end in them, with the target left
  damaged or not (the second). SQLCipher is a parameter: what its export produces, its two checks, and
  the random bytes of a new key.
\<close>

type_synonym db_contents = "(string \<times> string list) list"

datatype db_file = PlainDb db_contents | CipherDb string db_contents | EmptyFile | Unreadable

datatype write_outcome = WriteFine | WriteFails bool | WriteDies bool

record vault =
  va_files :: "string \<Rightarrow> db_file option"
  va_key :: "string option"
  va_reads :: "bool list"
  va_writes :: "write_outcome list"

record cipher_lib =
  cp_export :: "db_contents \<Rightarrow> string \<Rightarrow> db_file"
  cp_integrity :: "db_file \<Rightarrow> string"
  cp_problems :: "db_file \<Rightarrow> string list"
  cp_random :: "8 word list"

text \<open>A call returns, fails with the outermost text of its error, or the process ends in it.\<close>

datatype 'a outcome = Returned 'a | Failed string | Died

type_synonym 'a vault_action = "vault \<Rightarrow> 'a outcome \<times> vault"

definition vault_return :: "'a \<Rightarrow> 'a vault_action" where
  "vault_return v d = (Returned v, d)"

definition vault_fail :: "string \<Rightarrow> 'a vault_action" where
  "vault_fail e d = (Failed e, d)"

definition vault_bind :: "'a vault_action \<Rightarrow> ('a \<Rightarrow> 'b vault_action) \<Rightarrow> 'b vault_action" where
  "vault_bind m k d =
    (case m d of (Returned v, d') \<Rightarrow> k v d' | (Failed e, d') \<Rightarrow> (Failed e, d') | (Died, d') \<Rightarrow> (Died, d'))"

text \<open>\<open>context\<close>: a text around an error.\<close>

definition with_context :: "string \<Rightarrow> 'a vault_action \<Rightarrow> 'a vault_action" where
  "with_context s m d = (case m d of (Failed _, d') \<Rightarrow> (Failed s, d') | other \<Rightarrow> other)"

text \<open>A read that may fail, and a write that replaces a file, or damages it when it fails half-way.\<close>

definition probing :: "(vault \<Rightarrow> 'a option) \<Rightarrow> 'a option vault_action" where
  "probing f d =
    (let d' = d\<lparr>va_reads := tl (va_reads d)\<rparr> in
     (Returned (case va_reads d of True # _ \<Rightarrow> None | _ \<Rightarrow> f d'), d'))"

definition reading_or :: "string \<Rightarrow> (vault \<Rightarrow> 'a option) \<Rightarrow> 'a vault_action" where
  "reading_or e f = vault_bind (probing f) (\<lambda>r. case r of None \<Rightarrow> vault_fail e | Some v \<Rightarrow> vault_return v)"

definition writing :: "string \<Rightarrow> (vault \<Rightarrow> vault) \<Rightarrow> (vault \<Rightarrow> vault) \<Rightarrow> unit vault_action" where
  "writing e f damage d =
    (let d' = d\<lparr>va_writes := tl (va_writes d)\<rparr> in
     case va_writes d of
       WriteFails harm # _ \<Rightarrow> (Failed e, if harm then damage d' else d')
     | WriteDies harm # _ \<Rightarrow> (Died, if harm then damage d' else d')
     | _ \<Rightarrow> (Returned (), f d'))"

definition put_file :: "string \<Rightarrow> db_file option \<Rightarrow> vault \<Rightarrow> vault" where
  "put_file p f d = d\<lparr>va_files := (va_files d)(p := f)\<rparr>"

definition file_exists :: "string \<Rightarrow> vault \<Rightarrow> bool" where
  "file_exists p d \<longleftrightarrow> va_files d p \<noteq> None"

subsection \<open>The key\<close>

definition generate_key_hex :: "cipher_lib \<Rightarrow> string" where
  "generate_key_hex L = concat (map hex_byte (cp_random L))"

definition key_of_hex :: "string \<Rightarrow> string" where
  "key_of_hex hex = ''x'' @ [CHR 0x27] @ hex @ [CHR 0x27]"

text \<open>The store answers that there is no entry, or fails.\<close>

definition key_literal :: "cipher_lib \<Rightarrow> string vault_action" where
  "key_literal L =
    vault_bind (reading_or ''read db encryption key from OS credential store'' (\<lambda>d. Some (va_key d)))
      (\<lambda>entry. case entry of
         Some hex \<Rightarrow> vault_return (key_of_hex hex)
       | None \<Rightarrow>
          let hex = generate_key_hex L; stored = (\<lambda>d. d\<lparr>va_key := Some hex\<rparr>) in
          vault_bind (writing ''store newly generated db encryption key in OS credential store'' stored stored)
            (\<lambda>_. vault_return (key_of_hex hex)))"

subsection \<open>Reading database files\<close>

definition backup_path :: "string \<Rightarrow> string" where
  "backup_path p = p @ ''.bak''"

definition migrating_tmp_path :: "string \<Rightarrow> string" where
  "migrating_tmp_path p = p @ ''.migrating''"

definition readable_with :: "string \<Rightarrow> db_file option \<Rightarrow> db_contents option" where
  "readable_with key f =
    (case f of Some (CipherDb k c) \<Rightarrow> if k = key then Some c else None
     | Some EmptyFile \<Rightarrow> Some [] | None \<Rightarrow> Some [] | _ \<Rightarrow> None)"

definition try_open_with_key :: "string \<Rightarrow> string \<Rightarrow> db_contents option vault_action" where
  "try_open_with_key p key = probing (\<lambda>d. readable_with key (va_files d p))"

definition plain_contents :: "db_file option \<Rightarrow> db_contents option" where
  "plain_contents f =
    (case f of Some (PlainDb c) \<Rightarrow> Some c | Some EmptyFile \<Rightarrow> Some [] | None \<Rightarrow> Some [] | _ \<Rightarrow> None)"

definition is_plaintext_sqlite :: "string \<Rightarrow> bool vault_action" where
  "is_plaintext_sqlite p =
    vault_bind (probing (\<lambda>d. plain_contents (va_files d p))) (\<lambda>r. vault_return (r \<noteq> None))"

subsection \<open>Migration of a plain database\<close>

text \<open>\<open>NOT LIKE 'sqlite_%'\<close>: the underscore stands for any character, and case does not matter.\<close>

definition low_char :: "char \<Rightarrow> char" where
  "low_char c = (let n = of_char c :: nat in if 65 \<le> n \<and> n \<le> 90 then char_of (n + 32) else c)"

definition user_table :: "string \<Rightarrow> bool" where
  "user_table t \<longleftrightarrow> \<not> (7 \<le> length t \<and> map low_char (take 6 t) = ''sqlite'')"

definition row_count :: "string \<Rightarrow> db_contents \<Rightarrow> nat option" where
  "row_count t c = map_option length (map_of c t)"

fun compare_counts :: "string list \<Rightarrow> db_contents \<Rightarrow> db_contents \<Rightarrow> unit vault_action" where
  "compare_counts [] orig new = vault_return ()"
| "compare_counts (t # ts) orig new =
    vault_bind (reading_or (''count rows in original.'' @ t) (\<lambda>_. row_count t orig)) (\<lambda>m.
    vault_bind (reading_or (''count rows in migrated.'' @ t) (\<lambda>_. row_count t new)) (\<lambda>n.
    if m \<noteq> n then vault_fail ''row count mismatch after migration'' else compare_counts ts orig new))"

definition verify_migrated_db :: "cipher_lib \<Rightarrow> string \<Rightarrow> string \<Rightarrow> string \<Rightarrow> unit vault_action" where
  "verify_migrated_db L original_path new_path key =
    vault_bind (with_context ''open migrated db for verification''
      (vault_bind (try_open_with_key new_path key)
        (\<lambda>r. case r of None \<Rightarrow> vault_fail ''validate encryption key by reading sqlite_master'' | Some c \<Rightarrow> vault_return c)))
    (\<lambda>new.
    vault_bind (reading_or ''run integrity_check on migrated db'' (\<lambda>d. map_option (cp_integrity L) (va_files d new_path)))
    (\<lambda>integrity.
    if integrity \<noteq> ''ok'' then vault_fail ''integrity_check on migrated db'' else
    vault_bind (reading_or ''run cipher_integrity_check on migrated db'' (\<lambda>d. map_option (cp_problems L) (va_files d new_path)))
    (\<lambda>problems.
    if problems \<noteq> [] then vault_fail ''cipher_integrity_check on migrated db found problems'' else
    vault_bind (reading_or ''list tables in original db'' (\<lambda>d. plain_contents (va_files d original_path)))
    (\<lambda>orig. compare_counts (filter user_table (map fst orig)) orig new))))"

text \<open>
  Backup, export into the temporary file, verification, replacement. What fails while the stale temporary
  file is removed is ignored. The export reads the file again; it leaves nothing readable in the temporary file
  when it fails.
\<close>

definition remove_quietly :: "string \<Rightarrow> unit vault_action" where
  "remove_quietly p d =
    (case writing ''remove'' (put_file p None) id d of (Failed _, d') \<Rightarrow> (Returned (), d') | other \<Rightarrow> other)"

definition migrate_plaintext_to_encrypted :: "cipher_lib \<Rightarrow> string \<Rightarrow> string \<Rightarrow> unit vault_action" where
  "migrate_plaintext_to_encrypted L p key =
    (let bak = backup_path p; tmp = migrating_tmp_path p in
     vault_bind (\<lambda>d. if file_exists bak d then (Returned (), d)
         else writing ''create .bak backup before migrating to encrypted db''
           (put_file bak (va_files d p)) (put_file bak (Some Unreadable)) d)
     (\<lambda>_. vault_bind (remove_quietly tmp)
     (\<lambda>_. vault_bind (reading_or ''open plaintext db for export'' (\<lambda>d. plain_contents (va_files d p)))
     (\<lambda>c. vault_bind (writing ''sqlcipher_export into encrypted db''
         (put_file tmp (Some (cp_export L c key))) (put_file tmp (Some Unreadable)))
     (\<lambda>_. vault_bind (\<lambda>d. case verify_migrated_db L p tmp key d of
           (Failed e, d') \<Rightarrow> vault_bind (remove_quietly tmp) (\<lambda>_. vault_fail
             ''verification failed - original plaintext db left untouched, backup retained'') d'
         | other \<Rightarrow> other)
     (\<lambda>_. writing ''replace plaintext db with verified encrypted copy''
         (\<lambda>d. put_file tmp None (put_file p (va_files d tmp) d)) id))))))"

subsection \<open>Opening\<close>

text \<open>The loop of \<open>open_encrypted\<close>, without a bound: that it returns is a property.\<close>

definition restore_backup :: "string \<Rightarrow> bool \<Rightarrow> unit vault_action" where
  "restore_backup p recovered_once =
    (if recovered_once
     then vault_fail ''remained unreadable even after restoring from backup - manual recovery required''
     else (\<lambda>d. if \<not> file_exists (backup_path p) d
       then (Failed ''unreadable, not a plaintext SQLite file, and no backup exists'', d)
       else writing ''restore from .bak after detecting a corrupted/partial db file''
         (put_file p (va_files d (backup_path p))) (put_file p (Some Unreadable)) d))"

text \<open>One turn: the opened contents, or (\<open>None\<close>) a turn more on the restored file.\<close>

definition open_turn :: "cipher_lib \<Rightarrow> string \<Rightarrow> string \<Rightarrow> bool \<Rightarrow> db_contents option vault_action" where
  "open_turn L p key recovered_once d =
    (if \<not> file_exists p d
     then vault_bind (writing ''set encryption key on new db'' (put_file p (Some (CipherDb key []))) (put_file p (Some EmptyFile)))
       (\<lambda>_. vault_return (Some [])) d
     else vault_bind (try_open_with_key p key) (\<lambda>opened. case opened of
         Some c \<Rightarrow> vault_return (Some c)
       | None \<Rightarrow> vault_bind (is_plaintext_sqlite p) (\<lambda>plain.
           if plain
           then vault_bind (with_context ''migrate plaintext database to encrypted'' (migrate_plaintext_to_encrypted L p key))
             (\<lambda>_. vault_bind (try_open_with_key p key) (\<lambda>r. case r of
                None \<Rightarrow> vault_fail ''open freshly migrated encrypted db'' | Some c \<Rightarrow> vault_return (Some c)))
           else vault_bind (restore_backup p recovered_once) (\<lambda>_. vault_return None))) d)"

definition again :: "'a option outcome \<Rightarrow> bool" where
  "again r \<longleftrightarrow> (case r of Returned None \<Rightarrow> True | _ \<Rightarrow> False)"

definition final_result :: "'a option outcome \<Rightarrow> 'a outcome" where
  "final_result r = (case r of Returned (Some v) \<Rightarrow> Returned v | Failed e \<Rightarrow> Failed e | _ \<Rightarrow> Died)"

partial_function (option) open_loop ::
  "cipher_lib \<Rightarrow> string \<Rightarrow> string \<Rightarrow> bool \<Rightarrow> vault \<Rightarrow> (db_contents outcome \<times> vault) option" where
  "open_loop L p key recovered_once d =
    (let turn = open_turn L p key recovered_once d in
     if again (fst turn) then open_loop L p key True (snd turn)
     else Some (final_result (fst turn), snd turn))"

definition open_encrypted :: "cipher_lib \<Rightarrow> string \<Rightarrow> vault \<Rightarrow> (db_contents outcome \<times> vault) option" where
  "open_encrypted L p d =
    (case key_literal L d of
       (Returned key, d') \<Rightarrow> open_loop L p key False d'
     | (Failed e, d') \<Rightarrow> Some (Failed e, d')
     | (Died, d') \<Rightarrow> Some (Died, d'))"

section \<open>What opening guarantees\<close>

text \<open>
  Opening the encrypted database always returns, after at most one restored backup; while a plain database
  is being encrypted, no interruption loses its contents; and where the recovery goes wrong.
\<close>

subsection \<open>The loop ends\<close>

lemma again_simps [simp]: "again (Returned None)" "\<not> again (Returned (Some v))" "\<not> again (Failed e)" "\<not> again Died"
  by (simp_all add: again_def)

lemma again_iff: "again r \<longleftrightarrow> r = Returned None"
  by (cases r) (auto simp: again_def split: option.splits)

lemma bind_cases:
  obtains (returned) v d' where "m d = (Returned v, d')" "vault_bind m k d = k v d'"
  | (stopped) d' where "\<forall>r. fst (vault_bind m k d) \<noteq> Returned r" "vault_bind m k d = (fst (vault_bind m k d), d')"
proof (cases "fst (m d)")
  case (Returned v)
  then show ?thesis by (intro returned [of v "snd (m d)"]) (simp_all add: vault_bind_def prod_eq_iff split: prod.split)
qed (auto intro!: stopped [of "snd (m d)"] simp: vault_bind_def prod_eq_iff split: prod.splits outcome.splits)

lemma bind_never:
  assumes "\<And>v d'. \<not> again (fst (k v d'))"
  shows "\<not> again (fst (vault_bind m k d))"
  using assms by (auto simp: vault_bind_def again_iff split: prod.splits outcome.splits)

lemma if_never: "\<not> again (fst (m d)) \<Longrightarrow> \<not> again (fst (n d)) \<Longrightarrow> \<not> again (fst ((if b then m else n) d))"
  by simp

lemma option_never:
  "\<not> again (fst (m d)) \<Longrightarrow> (\<And>v. \<not> again (fst (n v d))) \<Longrightarrow> \<not> again (fst ((case x of None \<Rightarrow> m | Some v \<Rightarrow> n v) d))"
  by (cases x) simp_all

lemma restored_once: "\<not> again (fst (open_turn L p key True d))"
proof -
  have end_never: "\<not> again (fst (vault_return (Some c) d))" "\<not> again (fst (vault_fail e d :: 'a option outcome \<times> vault))"
    for c :: 'a and e d
    by (simp_all add: vault_return_def vault_fail_def)
  obtain f where f: "vault_bind (restore_backup p True) (\<lambda>_. vault_return None) = (f :: db_contents option vault_action)"
    by simp
  have stuck: "\<not> again (fst (f d'))" for d'
    unfolding f [symmetric] by (simp add: restore_backup_def vault_bind_def vault_fail_def)
  show ?thesis
    unfolding open_turn_def f by simp (intro conjI impI bind_never option_never if_never end_never stuck)
qed

lemma open_loop_second: "open_loop L p key True d = Some (final_result (fst (open_turn L p key True d)), snd (open_turn L p key True d))"
  by (subst open_loop.simps) (simp add: Let_def restored_once)

lemma open_loop_eq:
  "open_loop L p key False d =
    (let turn = open_turn L p key False d; turn' = open_turn L p key True (snd turn) in
     if again (fst turn) then Some (final_result (fst turn'), snd turn')
     else Some (final_result (fst turn), snd turn))"
  by (subst open_loop.simps) (simp add: Let_def open_loop_second)

text \<open>C38: opening the database always returns: whatever the files, the credential store and the failing reads
  and writes are, the loop of \<open>open_encrypted\<close> ends, because a second turn never restores the backup
  again.\<close>

theorem open_encrypted_returns:
  "\<exists>r d'. open_encrypted L p d = Some (r, d') \<and> \<not> again (fst (open_turn L p key True d))"
  by (auto simp: open_encrypted_def open_loop_eq Let_def restored_once split: prod.split outcome.split)

subsection \<open>Actions and what holds after them\<close>

definition ends_in :: "'a vault_action \<Rightarrow> ('a outcome \<Rightarrow> vault \<Rightarrow> bool) \<Rightarrow> vault \<Rightarrow> bool" where
  "ends_in m Q d \<longleftrightarrow> Q (fst (m d)) (snd (m d))"

lemma ends_in_return [simp]: "ends_in (vault_return v) Q d = Q (Returned v) d"
  by (simp add: ends_in_def vault_return_def)

lemma ends_in_fail [simp]: "ends_in (vault_fail e) Q d = Q (Failed e) d"
  by (simp add: ends_in_def vault_fail_def)

lemma ends_in_bind [simp]:
  "ends_in (vault_bind m k) Q d = ends_in m (\<lambda>r d'. case r of
     Returned v \<Rightarrow> ends_in (k v) Q d' | Failed e \<Rightarrow> Q (Failed e) d' | Died \<Rightarrow> Q Died d') d"
  by (auto simp: ends_in_def vault_bind_def split: prod.split outcome.split)

lemma ends_in_mono: "ends_in m Q d \<Longrightarrow> (\<And>r d'. Q r d' \<Longrightarrow> R r d') \<Longrightarrow> ends_in m R d"
  by (simp add: ends_in_def)

lemma reads_same: "va_reads d = [] \<Longrightarrow> d\<lparr>va_reads := []\<rparr> = d"
  by simp

lemma ends_in_probing: "va_reads d = [] \<Longrightarrow> ends_in (probing f) Q d = Q (Returned (f d)) d"
  by (simp add: ends_in_def probing_def Let_def reads_same)

lemma ends_in_reading:
  "va_reads d = [] \<Longrightarrow> ends_in (reading_or e f) Q d = (case f d of None \<Rightarrow> Q (Failed e) d | Some v \<Rightarrow> Q (Returned v) d)"
  by (simp add: reading_or_def ends_in_probing split: option.split)

lemma ends_in_writing:
  assumes "\<And>ws. Q (Returned ()) (f (d\<lparr>va_writes := ws\<rparr>))"
    and "\<And>ws. Q (Failed e) (d\<lparr>va_writes := ws\<rparr>)" and "\<And>ws. Q (Failed e) (damage (d\<lparr>va_writes := ws\<rparr>))"
    and "\<And>ws. Q Died (d\<lparr>va_writes := ws\<rparr>)" and "\<And>ws. Q Died (damage (d\<lparr>va_writes := ws\<rparr>))"
  shows "ends_in (writing e f damage) Q d"
  using assms by (simp add: ends_in_def writing_def Let_def split: list.split write_outcome.split)

lemma compare_counts_pure:
  "va_reads d = [] \<Longrightarrow> ends_in (compare_counts ts c c') (\<lambda>r d'. d' = d) d"
  by (induction ts) (simp_all add: ends_in_reading split: option.split)

lemma context_pure: "ends_in m (\<lambda>r d'. d' = d) d \<Longrightarrow> ends_in (with_context s m) (\<lambda>r d'. d' = d) d"
  by (auto simp: ends_in_def with_context_def split: prod.split outcome.split)

lemma verify_pure:
  assumes "va_reads d = []"
  shows "ends_in (verify_migrated_db L p q key) (\<lambda>r d'. d' = d) d"
proof -
  have "ends_in (with_context s (vault_bind (try_open_with_key q key)
      (\<lambda>r. case r of None \<Rightarrow> vault_fail e | Some c \<Rightarrow> vault_return c))) (\<lambda>r d'. d' = d) d" for s e
    by (rule context_pure) (simp add: assms try_open_with_key_def ends_in_probing split: option.split)
  then show ?thesis
    unfolding verify_migrated_db_def ends_in_bind
    by (rule ends_in_mono)
      (auto simp: ends_in_reading assms compare_counts_pure split: outcome.split option.split)
qed

subsection \<open>Nothing is lost\<close>

lemma paths_differ [simp]: "backup_path p \<noteq> p" "p \<noteq> backup_path p" "migrating_tmp_path p \<noteq> p" "p \<noteq> migrating_tmp_path p"
  "backup_path p \<noteq> migrating_tmp_path p" "migrating_tmp_path p \<noteq> backup_path p"
  by (simp_all add: backup_path_def migrating_tmp_path_def)

lemma put_file_simps [simp]:
  "va_files (put_file p f d) = (va_files d)(p := f)" "va_key (put_file p f d) = va_key d"
  "va_reads (put_file p f d) = va_reads d"
  by (simp_all add: put_file_def)

text \<open>The database file still is the plain one, or it is encrypted under the stored key.\<close>

definition plain_at :: "string \<Rightarrow> string \<Rightarrow> db_contents \<Rightarrow> vault \<Rightarrow> bool" where
  "plain_at hex p c d \<longleftrightarrow> va_reads d = [] \<and> va_key d = Some hex \<and> va_files d p = Some (PlainDb c)"

definition cipher_at :: "string \<Rightarrow> string \<Rightarrow> db_contents \<Rightarrow> vault \<Rightarrow> bool" where
  "cipher_at hex p c d \<longleftrightarrow> va_reads d = [] \<and> va_key d = Some hex
     \<and> va_files d p = Some (CipherDb (key_of_hex hex) c)"

definition export_ok :: "cipher_lib \<Rightarrow> bool" where
  "export_ok L \<longleftrightarrow> (\<forall>c key. cp_export L c key = CipherDb key c)"

lemma remove_quietly_plain:
  "plain_at hex p c d \<Longrightarrow> ends_in (remove_quietly (migrating_tmp_path p)) (\<lambda>r d'. plain_at hex p c d') d"
  by (auto simp: ends_in_def remove_quietly_def writing_def Let_def plain_at_def split: list.split write_outcome.split)

lemma backup_plain:
  assumes "plain_at hex p c d"
  shows "ends_in (\<lambda>d. if file_exists (backup_path p) d then (Returned (), d)
         else writing e (put_file (backup_path p) (va_files d p)) (put_file (backup_path p) (Some Unreadable)) d)
      (\<lambda>r d'. plain_at hex p c d') d"
proof (cases "file_exists (backup_path p) d")
  case False
  have "ends_in (writing e (put_file (backup_path p) (va_files d p)) (put_file (backup_path p) (Some Unreadable)))
      (\<lambda>r d'. plain_at hex p c d') d"
    using assms by (intro ends_in_writing) (simp_all add: plain_at_def)
  with False show ?thesis by (simp add: ends_in_def)
qed (simp add: ends_in_def assms)

lemma migrate_safe:
  assumes "export_ok L" and "plain_at hex p c d"
  shows "ends_in (migrate_plaintext_to_encrypted L p (key_of_hex hex))
    (\<lambda>r d'. (plain_at hex p c d' \<and> r \<noteq> Returned ()) \<or> cipher_at hex p c d') d"
proof -
  let ?key = "key_of_hex hex" and ?tmp = "migrating_tmp_path p"
  let ?Q = "\<lambda>r d'. (plain_at hex p c d' \<and> r \<noteq> Returned ()) \<or> cipher_at hex p c d'"
  have rename: "ends_in (writing e (\<lambda>d. put_file ?tmp None (put_file p (va_files d ?tmp) d)) id) ?Q d1"
    if "plain_at hex p c d1" "va_files d1 ?tmp = Some (CipherDb ?key c)" for e d1
    using that by (intro ends_in_writing) (simp_all add: plain_at_def cipher_at_def)
  have check: "ends_in (\<lambda>d. case verify_migrated_db L p ?tmp ?key d of
        (Failed e, d') \<Rightarrow> vault_bind (remove_quietly ?tmp) (\<lambda>_. vault_fail e') d' | other \<Rightarrow> other)
      (\<lambda>r d'. plain_at hex p c d' \<and> (r = Returned () \<longrightarrow> d' = d1)) d1" if "plain_at hex p c d1" for e' d1
  proof -
    have "ends_in (verify_migrated_db L p ?tmp ?key) (\<lambda>r d'. d' = d1) d1"
      using that by (intro verify_pure) (simp add: plain_at_def)
    then obtain r where "verify_migrated_db L p ?tmp ?key d1 = (r, d1)" by (auto simp: ends_in_def prod_eq_iff)
    moreover have "ends_in (vault_bind (remove_quietly ?tmp) (\<lambda>_. vault_fail e')) (\<lambda>r d'. plain_at hex p c d' \<and> r \<noteq> Returned ()) d1"
      for e' unfolding ends_in_bind
      by (rule ends_in_mono [OF remove_quietly_plain [OF that]]) (simp split: outcome.split)
    ultimately show ?thesis using that by (auto simp: ends_in_def split: outcome.split)
  qed
  have export: "ends_in (writing e (put_file ?tmp (Some (cp_export L c ?key))) (put_file ?tmp (Some Unreadable)))
      (\<lambda>r d'. plain_at hex p c d' \<and> (r = Returned () \<longrightarrow> va_files d' ?tmp = Some (CipherDb ?key c))) d1"
    if "plain_at hex p c d1" for e d1
    using that assms(1) by (intro ends_in_writing) (simp_all add: plain_at_def export_ok_def)
  show ?thesis
    unfolding migrate_plaintext_to_encrypted_def Let_def ends_in_bind
  proof (rule ends_in_mono [OF backup_plain [OF assms(2)]], goal_cases)
    case (1 r d1)
    then show ?case
    proof (cases r)
      case (Returned u)
      show ?thesis unfolding Returned outcome.case
      proof (rule ends_in_mono [OF remove_quietly_plain [OF 1]], goal_cases)
        case (1 r d2)
        then have read: "ends_in (reading_or e (\<lambda>d. plain_contents (va_files d p))) Q d2 = Q (Returned c) d2" for e Q
          by (simp add: ends_in_reading plain_at_def plain_contents_def)
        show ?case
        proof (cases r)
          case (Returned u)
          show ?thesis unfolding Returned outcome.case read
          proof (rule ends_in_mono [OF export [OF 1]], goal_cases)
            case (1 r d3)
            show ?case
            proof (cases r)
              case (Returned u)
              with 1 have at: "plain_at hex p c d3" "va_files d3 ?tmp = Some (CipherDb ?key c)" by auto
              show ?thesis unfolding Returned outcome.case
                by (rule ends_in_mono [OF check [OF at(1)]]) (use at in \<open>auto intro!: rename split: outcome.split\<close>)
            qed (use 1 in auto)
          qed
        qed (use 1 in auto)
      qed
    qed auto
  qed
qed

definition holds :: "string \<Rightarrow> db_contents \<Rightarrow> vault \<Rightarrow> bool" where
  "holds p c d \<longleftrightarrow> va_reads d = [] \<and> (va_files d p = Some (PlainDb c) \<or> (\<exists>hex. cipher_at hex p c d))"

lemma plain_holds: "plain_at hex p c d \<Longrightarrow> holds p c d"
  by (simp add: plain_at_def holds_def)

lemma cipher_holds: "cipher_at hex p c d \<Longrightarrow> holds p c d"
  by (auto simp: cipher_at_def holds_def)

lemma key_safe:
  assumes "holds p c d"
  shows "ends_in (key_literal L) (\<lambda>r d'. holds p c d' \<and> (\<forall>key. r = Returned key \<longrightarrow>
    (\<exists>hex. key = key_of_hex hex \<and> (plain_at hex p c d' \<or> cipher_at hex p c d')))) d"
proof (cases "va_key d")
  case None
  with assms have "va_files d p = Some (PlainDb c)" "va_reads d = []" by (auto simp: holds_def cipher_at_def)
  then show ?thesis using None
    by (auto simp: key_literal_def ends_in_reading Let_def holds_def plain_at_def intro!: ends_in_writing)
next
  case (Some hex)
  with assms show ?thesis
    by (auto simp: key_literal_def ends_in_reading holds_def plain_at_def cipher_at_def)
qed

definition turn_safe :: "string \<Rightarrow> string \<Rightarrow> db_contents \<Rightarrow> db_contents option outcome \<Rightarrow> vault \<Rightarrow> bool" where
  "turn_safe hex p c r d \<longleftrightarrow> \<not> again r \<and> (plain_at hex p c d \<and> (\<forall>x. r \<noteq> Returned x) \<or> cipher_at hex p c d)
     \<and> (\<forall>x. r = Returned (Some x) \<longrightarrow> x = c)"

lemma turn_on_cipher:
  "cipher_at hex p c d \<Longrightarrow> ends_in (open_turn L p (key_of_hex hex) b) (turn_safe hex p c) d"
  by (simp add: ends_in_def open_turn_def cipher_at_def file_exists_def try_open_with_key_def probing_def
      vault_bind_def Let_def readable_with_def vault_return_def turn_safe_def)

lemma turn_on_plain:
  assumes "export_ok L" and "plain_at hex p c d"
  shows "ends_in (open_turn L p (key_of_hex hex) b) (turn_safe hex p c) d"
proof -
  let ?key = "key_of_hex hex" and ?s = "''migrate plaintext database to encrypted''"
  have d: "va_reads d = []" "va_files d p = Some (PlainDb c)" using assms(2) by (simp_all add: plain_at_def)
  have migrated: "ends_in (with_context ?s (migrate_plaintext_to_encrypted L p ?key))
      (\<lambda>r d'. (plain_at hex p c d' \<and> r \<noteq> Returned ()) \<or> cipher_at hex p c d') d"
    using migrate_safe [OF assms] by (auto simp: ends_in_def with_context_def split: prod.split outcome.split)
  have reopened: "ends_in (try_open_with_key p ?key) Q d' = Q (Returned (Some c)) d'" if "cipher_at hex p c d'" for d' Q
    using that by (simp add: try_open_with_key_def ends_in_probing cipher_at_def readable_with_def)
  have "ends_in (open_turn L p ?key b) (turn_safe hex p c) d
      = ends_in (vault_bind (with_context ?s (migrate_plaintext_to_encrypted L p ?key))
             (\<lambda>_. vault_bind (try_open_with_key p ?key) (\<lambda>r. case r of
                None \<Rightarrow> vault_fail ''open freshly migrated encrypted db'' | Some c \<Rightarrow> vault_return (Some c)))) (turn_safe hex p c) d"
    by (simp add: ends_in_def open_turn_def d file_exists_def try_open_with_key_def is_plaintext_sqlite_def
        probing_def Let_def vault_bind_def readable_with_def plain_contents_def vault_return_def reads_same)
  also have "\<dots>"
    unfolding ends_in_bind
    by (rule ends_in_mono [OF migrated]) (auto simp: reopened turn_safe_def split: outcome.split)
  finally show ?thesis by simp
qed

lemma open_safe:
  assumes "export_ok L" and "holds p c d"
  shows "case open_encrypted L p d of None \<Rightarrow> False
    | Some (r, d') \<Rightarrow> holds p c d' \<and> (\<forall>x. r = Returned x \<longrightarrow> x = c)"
proof (cases "key_literal L d")
  case (Pair r d1)
  with key_safe [OF assms(2), of L] have h: "holds p c d1"
    and key: "\<And>key. r = Returned key \<Longrightarrow> \<exists>hex. key = key_of_hex hex \<and> (plain_at hex p c d1 \<or> cipher_at hex p c d1)"
    by (auto simp: ends_in_def)
  show ?thesis
  proof (cases r)
    case (Returned key)
    with key obtain hex where hex: "key = key_of_hex hex" "plain_at hex p c d1 \<or> cipher_at hex p c d1" by blast
    then have "ends_in (open_turn L p key False) (turn_safe hex p c) d1"
      using turn_on_plain [OF assms(1)] turn_on_cipher by blast
    then have t: "turn_safe hex p c (fst (open_turn L p key False d1)) (snd (open_turn L p key False d1))"
      by (simp add: ends_in_def)
    then have "holds p c (snd (open_turn L p key False d1))"
      by (auto simp: turn_safe_def intro: plain_holds cipher_holds)
    with t show ?thesis
      by (auto simp: open_encrypted_def Pair Returned open_loop_eq Let_def turn_safe_def final_result_def
          split: outcome.split option.split)
  qed (use h in \<open>simp_all add: open_encrypted_def Pair\<close>)
qed

subsection \<open>Interrupted attempts\<close>

definition open_under :: "cipher_lib \<Rightarrow> string \<Rightarrow> write_outcome list \<Rightarrow> vault \<Rightarrow> vault" where
  "open_under L p ws d = (case open_encrypted L p (d\<lparr>va_writes := ws\<rparr>) of Some (_, d') \<Rightarrow> d' | None \<Rightarrow> d)"

lemma holds_writes [simp]: "holds p c (d\<lparr>va_writes := ws\<rparr>) = holds p c d"
  by (simp add: holds_def cipher_at_def)

lemma attempts_hold:
  assumes "export_ok L" and "holds p c d"
  shows "holds p c (fold (open_under L p) wss d)"
  using assms(2)
proof (induction wss arbitrary: d)
  case (Cons ws wss)
  then have "holds p c (open_under L p ws d)"
    using open_safe [OF assms(1), of p c "d\<lparr>va_writes := ws\<rparr>"] by (auto simp: open_under_def split: option.splits)
  with Cons.IH show ?case by simp
qed simp

lemma writing_fine: "va_writes d = [] \<Longrightarrow> writing e f h d = (Returned (), f (d\<lparr>va_writes := []\<rparr>))"
  by (simp add: writing_def Let_def)

definition checks_ok :: "cipher_lib \<Rightarrow> db_contents \<Rightarrow> bool" where
  "checks_ok L c \<longleftrightarrow> (\<forall>key. cp_integrity L (CipherDb key c) = ''ok'' \<and> cp_problems L (CipherDb key c) = [])"

lemma probing_fine: "va_reads d = [] \<Longrightarrow> probing f d = (Returned (f d), d)"
  by (simp add: probing_def Let_def reads_same)

lemma reading_fine: "va_reads d = [] \<Longrightarrow> f d = Some v \<Longrightarrow> reading_or e f d = (Returned v, d)"
  by (simp add: reading_or_def vault_bind_def probing_fine vault_return_def)

lemma compare_same:
  assumes "va_reads d = []" and "set ts \<subseteq> set (map fst c)"
  shows "compare_counts ts c c d = (Returned (), d)"
  using assms(2)
proof (induction ts)
  case (Cons t ts)
  then have "map_of c t \<noteq> None" by (simp add: map_of_eq_None_iff)
  then obtain n where "row_count t c = Some n" by (auto simp: row_count_def)
  with Cons show ?case by (simp add: vault_bind_def reading_fine [OF assms(1)])
qed (simp add: vault_return_def)

lemma verify_fine:
  assumes "va_reads d = []" and "va_files d p = Some (PlainDb c)" and "va_files d q = Some (CipherDb key c)"
    and "checks_ok L c"
  shows "verify_migrated_db L p q key d = (Returned (), d)"
proof -
  have "compare_counts (filter user_table (map fst c)) c c d = (Returned (), d)"
    using assms(1) by (intro compare_same) auto
  then show ?thesis using assms
    by (simp add: verify_migrated_db_def vault_bind_def with_context_def try_open_with_key_def probing_fine
        readable_with_def vault_return_def reading_fine checks_ok_def plain_contents_def)
qed

lemma migrate_fine:
  assumes "export_ok L" and "checks_ok L c" and "plain_at hex p c d" and "va_writes d = []"
  shows "\<exists>d'. migrate_plaintext_to_encrypted L p (key_of_hex hex) d = (Returned (), d') \<and> cipher_at hex p c d' \<and> va_writes d' = []"
proof -
  let ?key = "key_of_hex hex" and ?tmp = "migrating_tmp_path p" and ?bak = "backup_path p"
  have fine: "va_writes (put_file q f x) = va_writes x" for q f x by (simp add: put_file_def)
  have same: "x\<lparr>va_writes := []\<rparr> = x" if "va_writes x = []" for x :: vault using that by simp
  obtain d1 where d1: "(if file_exists ?bak d then (Returned (), d)
         else writing e (put_file ?bak (va_files d p)) (put_file ?bak (Some Unreadable)) d) = (Returned (), d1)"
      "plain_at hex p c d1" "va_writes d1 = []" for e
    using assms(3,4) by (cases "file_exists ?bak d") (simp_all add: writing_fine same plain_at_def fine)
  let ?d2 = "put_file ?tmp None d1"
  let ?d3 = "put_file ?tmp (Some (CipherDb ?key c)) ?d2"
  have d3: "va_reads ?d3 = []" "va_files ?d3 p = Some (PlainDb c)" "va_files ?d3 ?tmp = Some (CipherDb ?key c)"
    using d1(2) by (simp_all add: plain_at_def)
  have "migrate_plaintext_to_encrypted L p ?key d
      = (Returned (), put_file ?tmp None (put_file p (Some (CipherDb ?key c)) ?d3))"
    using d1 assms(1) verify_fine [OF d3 assms(2)]
    by (simp add: migrate_plaintext_to_encrypted_def Let_def vault_bind_def remove_quietly_def writing_fine same fine
        reading_fine plain_at_def plain_contents_def export_ok_def)
  moreover have "cipher_at hex p c (put_file ?tmp None (put_file p (Some (CipherDb ?key c)) ?d3))"
    using d1(2) by (simp add: plain_at_def cipher_at_def)
  ultimately show ?thesis using d1(3) by (auto simp: fine)
qed

lemma open_fine:
  assumes "export_ok L" and "checks_ok L c" and "holds p c d" and "va_writes d = []"
  shows "\<exists>d'. open_encrypted L p d = Some (Returned c, d') \<and> (\<exists>hex. cipher_at hex p c d')"
proof -
  obtain hex d1 where key: "key_literal L d = (Returned (key_of_hex hex), d1)"
    and d1: "plain_at hex p c d1 \<or> cipher_at hex p c d1" "va_writes d1 = []"
  proof (cases "va_key d")
    case None
    let ?hex = "generate_key_hex L"
    from None assms have "va_files d p = Some (PlainDb c)" "va_reads d = []" by (auto simp: holds_def cipher_at_def)
    with None assms(4) show ?thesis
      by (intro that [of ?hex "d\<lparr>va_key := Some ?hex\<rparr>"])
        (simp_all add: key_literal_def vault_bind_def reading_fine Let_def writing_fine vault_return_def plain_at_def)
  next
    case (Some hex)
    from assms have "va_reads d = []" by (simp add: holds_def)
    with Some assms show ?thesis
      by (intro that [of hex d])
        (auto simp: key_literal_def vault_bind_def reading_fine vault_return_def plain_at_def holds_def cipher_at_def)
  qed
  obtain d2 where turn: "open_turn L p (key_of_hex hex) False d1 = (Returned (Some c), d2)" "cipher_at hex p c d2"
    using d1(1)
  proof
    assume plain: "plain_at hex p c d1"
    from migrate_fine [OF assms(1,2) this d1(2)] obtain d2
      where "migrate_plaintext_to_encrypted L p (key_of_hex hex) d1 = (Returned (), d2)" "cipher_at hex p c d2"
      by blast
    with plain show ?thesis
      by (intro that [of d2])
        (simp_all add: open_turn_def plain_at_def cipher_at_def file_exists_def try_open_with_key_def is_plaintext_sqlite_def
          probing_fine vault_bind_def readable_with_def plain_contents_def vault_return_def with_context_def)
  next
    assume "cipher_at hex p c d1"
    then show ?thesis
      by (intro that [of d1])
        (simp_all add: open_turn_def cipher_at_def file_exists_def try_open_with_key_def probing_fine vault_bind_def
          readable_with_def vault_return_def)
  qed
  then show ?thesis
    by (auto simp: open_encrypted_def key open_loop_eq Let_def final_result_def)
qed

text \<open>C39: encrypting a plain database loses nothing. However many attempts to open it are cut short, by a
  write that fails or a process that ends at any of the writes, and whatever was left in the backup and
  temporary files: the next undisturbed opening returns the contents of the original file, which is then
  encrypted under the stored key. This supposes that the export copies the contents, that SQLCipher's
  checks pass on such a copy, and that reads do not fail.\<close>

theorem encryption_loses_nothing:
  assumes "export_ok L" and "checks_ok L c" and "va_reads d = []" and "va_files d p = Some (PlainDb c)"
  shows "\<exists>d'. open_encrypted L p ((fold (open_under L p) attempts d)\<lparr>va_writes := []\<rparr>) = Some (Returned c, d')
    \<and> (\<exists>hex. cipher_at hex p c d')"
proof -
  have "holds p c d" using assms by (simp add: holds_def)
  then have "holds p c (fold (open_under L p) attempts d)" by (rule attempts_hold [OF assms(1)])
  then show ?thesis by (intro open_fine assms) simp_all
qed

subsection \<open>Where the recovery loses data\<close>

text \<open>
  Whatever keeps the file from being read counts as damage. The backup of the first migration is kept, and
  is by now older than the database: when one read of a sound encrypted database fails, the file is
  replaced by that backup, encrypted again, and opened, and everything entered since the migration is gone.
\<close>

lemma failed_read_restores_old_backup:
  assumes "export_ok L" and "checks_ok L old" and "va_key d = Some hex"
    and "va_files d p = Some (CipherDb (key_of_hex hex) new)" and "va_files d (backup_path p) = Some (PlainDb old)"
    and "va_reads d = [False, True]" and "va_writes d = []"
  shows "\<exists>d'. open_encrypted L p d = Some (Returned old, d') \<and> va_files d' p = Some (CipherDb (key_of_hex hex) old)"
proof -
  let ?key = "key_of_hex hex"
  let ?d1 = "d\<lparr>va_reads := [True]\<rparr>" and ?d2 = "d\<lparr>va_reads := []\<rparr>"
  let ?d3 = "put_file p (Some (PlainDb old)) ?d2"
  have same: "?d2\<lparr>va_writes := []\<rparr> = ?d2" using assms(7) by simp
  have key: "key_literal L d = (Returned ?key, ?d1)"
    using assms by (simp add: key_literal_def vault_bind_def reading_or_def probing_def Let_def vault_return_def)
  have turn: "open_turn L p ?key False ?d1 = (Returned None, ?d3)"
    using assms
    by (simp add: same open_turn_def file_exists_def try_open_with_key_def is_plaintext_sqlite_def probing_def Let_def
        vault_bind_def plain_contents_def vault_return_def restore_backup_def writing_fine)
  have plain: "plain_at hex p old ?d3" "va_writes ?d3 = []"
    using assms by (simp_all add: plain_at_def put_file_def)
  from migrate_fine [OF assms(1,2) plain] obtain d'
    where m: "migrate_plaintext_to_encrypted L p ?key ?d3 = (Returned (), d')" "cipher_at hex p old d'" by blast
  have "open_turn L p ?key True ?d3 = (Returned (Some old), d')"
    using plain m by (simp add: open_turn_def plain_at_def cipher_at_def file_exists_def try_open_with_key_def
        is_plaintext_sqlite_def probing_fine vault_bind_def readable_with_def plain_contents_def vault_return_def with_context_def)
  then have "open_encrypted L p d = Some (Returned old, d')"
    by (simp add: open_encrypted_def key open_loop_eq Let_def turn final_result_def)
  with m(2) show ?thesis by (auto simp: cipher_at_def)
qed

end
