(* ===== verification/SchemaUpgrade.thy ===== *)
theory SchemaUpgrade
  imports Text Patterns
begin

text \<open>
  \<open>src/db/mod.rs\<close>, the schema: the statements of the base schema and of the seven migrations, and the way
  they are applied and recorded. A table is its name, its columns and its rows; a batch runs statement by
  statement, each kept when the next one fails, but for what stands between \<open>BEGIN\<close> and \<open>COMMIT\<close>. A
  schedule of faults cuts any statement or recording short, which stands for an error as well as for the end of
  the process. Of a row only what a migration looks at is kept apart: the id, client and pattern of a rule.
\<close>

datatype sql_row = RuleRow int int chars | OtherRow chars

record sql_table =
  tb_columns :: "string list"
  tb_rows :: "sql_row list"

record sql_db =
  sq_tables :: "string \<Rightarrow> sql_table option"
  sq_indexes :: "(string \<times> string) list"
  sq_unique_rules :: bool
  sq_version :: int
  sq_saved :: "((string \<Rightarrow> sql_table option) \<times> (string \<times> string) list) option"
  sq_faults :: "bool list"

datatype sql_statement =
    CreateTable string "string list"
  | CreateTableIfMissing string "string list"
  | AddColumn string string
  | CreateIndexIfMissing string string
  | DeleteRepeatedRules
  | UniqueRuleIndexIfMissing
  | CopyRows string string "string list"
  | DropTable string
  | RenameTable string string
  | BeginTransaction
  | CommitTransaction

definition rule_row_key :: "sql_row \<Rightarrow> (int \<times> chars) option" where
  "rule_row_key r = (case r of RuleRow i c p \<Rightarrow> Some (c, map to_ascii_lower p) | OtherRow _ \<Rightarrow> None)"

definition rule_row_id :: "sql_row \<Rightarrow> int" where
  "rule_row_id r = (case r of RuleRow i c p \<Rightarrow> i | OtherRow _ \<Rightarrow> 0)"

text \<open>\<open>id NOT IN (SELECT MIN(id) ... GROUP BY client_id, pattern COLLATE NOCASE)\<close>.\<close>

definition first_of_its_key :: "sql_row list \<Rightarrow> sql_row \<Rightarrow> bool" where
  "first_of_its_key rows r \<longleftrightarrow> list_all (\<lambda>x. rule_row_key x = rule_row_key r \<longrightarrow> rule_row_id r \<le> rule_row_id x) rows"

definition table_of :: "sql_db \<Rightarrow> string \<Rightarrow> sql_table option" where
  "table_of d t = sq_tables d t"

definition set_table :: "string \<Rightarrow> sql_table option \<Rightarrow> sql_db \<Rightarrow> sql_db" where
  "set_table t x d = d\<lparr>sq_tables := (sq_tables d)(t := x)\<rparr>"

fun run_statement :: "sql_statement \<Rightarrow> sql_db \<Rightarrow> sql_db option" where
  "run_statement (CreateTable t cols) d =
    (if table_of d t \<noteq> None then None else Some (set_table t (Some \<lparr> tb_columns = cols, tb_rows = [] \<rparr>) d))"
| "run_statement (CreateTableIfMissing t cols) d =
    Some (if table_of d t \<noteq> None then d else set_table t (Some \<lparr> tb_columns = cols, tb_rows = [] \<rparr>) d)"
| "run_statement (AddColumn t col) d =
    (case table_of d t of None \<Rightarrow> None
     | Some x \<Rightarrow> if col \<in> set (tb_columns x) then None
         else Some (set_table t (Some (x\<lparr>tb_columns := tb_columns x @ [col]\<rparr>)) d))"
| "run_statement (CreateIndexIfMissing i t) d =
    (if i \<in> set (map fst (sq_indexes d)) then Some d
     else if table_of d t = None then None else Some (d\<lparr>sq_indexes := (i, t) # sq_indexes d\<rparr>))"
| "run_statement DeleteRepeatedRules d =
    (case table_of d ''classification_rules'' of None \<Rightarrow> None
     | Some x \<Rightarrow> Some (set_table ''classification_rules''
         (Some (x\<lparr>tb_rows := filter (first_of_its_key (tb_rows x)) (tb_rows x)\<rparr>)) d))"
| "run_statement UniqueRuleIndexIfMissing d =
    (if sq_unique_rules d then Some d
     else case table_of d ''classification_rules'' of None \<Rightarrow> None
       | Some x \<Rightarrow> if distinct (map rule_row_key (tb_rows x)) then Some (d\<lparr>sq_unique_rules := True\<rparr>) else None)"
| "run_statement (CopyRows s t cols) d =
    (case (table_of d s, table_of d t) of
       (Some x, Some y) \<Rightarrow> if set cols \<subseteq> set (tb_columns x) \<and> set cols \<subseteq> set (tb_columns y)
         then Some (set_table t (Some (y\<lparr>tb_rows := tb_rows y @ tb_rows x\<rparr>)) d) else None
     | _ \<Rightarrow> None)"
| "run_statement (DropTable t) d =
    (if table_of d t = None then None
     else Some ((set_table t None d)\<lparr>sq_indexes := filter (\<lambda>(_, x). x \<noteq> t) (sq_indexes d)\<rparr>))"
| "run_statement (RenameTable s t) d =
    (case (table_of d s, table_of d t) of
       (Some x, None) \<Rightarrow> Some ((set_table t (Some x) (set_table s None d))
         \<lparr>sq_indexes := map (\<lambda>(i, y). (i, if y = s then t else y)) (sq_indexes d)\<rparr>)
     | _ \<Rightarrow> None)"
| "run_statement BeginTransaction d = 
    (if sq_saved d = None then Some (d\<lparr>sq_saved := Some (sq_tables d, sq_indexes d)\<rparr>) else None)"
| "run_statement CommitTransaction d = (if sq_saved d = None then None else Some (d\<lparr>sq_saved := None\<rparr>))"

text \<open>A statement under the schedule of faults; the end of the connection rolls an open transaction back.\<close>

definition faulty :: "(sql_db \<Rightarrow> sql_db option) \<Rightarrow> sql_db \<Rightarrow> bool \<times> sql_db" where
  "faulty f d =
    (let d' = d\<lparr>sq_faults := tl (sq_faults d)\<rparr> in
     case sq_faults d of
       True # _ \<Rightarrow> (False, d')
     | _ \<Rightarrow> (case f d' of None \<Rightarrow> (False, d') | Some d'' \<Rightarrow> (True, d'')))"

definition rolled_back :: "sql_db \<Rightarrow> sql_db" where
  "rolled_back d = 
    (case sq_saved d of None \<Rightarrow> d | Some (ts, is) \<Rightarrow> d\<lparr>sq_tables := ts, sq_indexes := is, sq_saved := None\<rparr>)"

fun execute_batch :: "sql_statement list \<Rightarrow> sql_db \<Rightarrow> bool \<times> sql_db" where
  "execute_batch [] d = (True, d)"
| "execute_batch (s # ss) d =
    (case faulty (run_statement s) d of (True, d') \<Rightarrow> execute_batch ss d' | (False, d') \<Rightarrow> (False, rolled_back d'))"

subsection \<open>The base schema\<close>

definition transaction_columns :: "string list" where
  "transaction_columns = [''id'', ''client_id'', ''import_id'', ''bank_name'', ''account_no'', ''date'', ''date_ts'',
     ''narration'', ''reference'', ''debit'', ''credit'', ''balance'', ''prev_balance'', ''vendor'', ''account_head'',
     ''txn_type'', ''status'', ''confidence'', ''classified_by'', ''tags'', ''balance_ok'', ''is_opening_bal'', ''created_at'']"

definition transaction_indexes :: "sql_statement list" where
  "transaction_indexes = map (\<lambda>i. CreateIndexIfMissing i ''transactions'')
     [''idx_txn_client'', ''idx_txn_date_ts'', ''idx_txn_status'', ''idx_txn_vendor'']"

definition schema_sql :: "sql_statement list" where
  "schema_sql = [
     CreateTableIfMissing ''clients'' [''id'', ''name'', ''gstin'', ''address'', ''created_at'', ''updated_at''],
     CreateTableIfMissing ''transactions'' transaction_columns] @ transaction_indexes @ [
     CreateTableIfMissing ''ledgers'' [''id'', ''client_id'', ''name'', ''group_name'', ''nature''],
     CreateTableIfMissing ''classification_rules'' [''id'', ''client_id'', ''pattern'', ''vendor'', ''account_head'',
       ''txn_type'', ''priority'', ''created_at''],
     CreateTableIfMissing ''import_history'' [''id'', ''client_id'', ''file_name'', ''bank_name'', ''account_no'',
       ''txn_count'', ''file_hash'', ''imported_at''],
     CreateTableIfMissing ''settings'' [''key'', ''value'', ''updated_at''],
     CreateTableIfMissing ''dedupe_hashes'' [''client_id'', ''hash'', ''added_at'']]"

subsection \<open>The migrations\<close>

definition rebuilt_columns :: "string list" where
  "rebuilt_columns = [''id'', ''client_id'', ''import_id'', ''bank_name'', ''account_no'', ''date'', ''date_ts'',
     ''narration'', ''reference'', ''debit'', ''credit'', ''balance'', ''prev_balance'', ''vendor'', ''account_head'',
     ''txn_type'', ''status'', ''confidence'', ''classified_by'', ''tags'', ''balance_ok'', ''is_opening_bal'',
     ''dup_flag'', ''gst_rate'', ''gst_amount'', ''gst_type'', ''created_at'']"

definition migration_1 :: "sql_statement list" where
  "migration_1 = [AddColumn ''transactions'' ''dup_flag'']"

definition migration_2 :: "sql_statement list" where
  "migration_2 = [CreateTableIfMissing ''audit_log'' [''id'', ''client_id'', ''event'', ''created_at''],
     CreateIndexIfMissing ''idx_audit_client'' ''audit_log'']"

definition migration_3 :: "sql_statement list" where
  "migration_3 = [AddColumn ''transactions'' ''gst_rate'', AddColumn ''transactions'' ''gst_amount'',
     AddColumn ''transactions'' ''gst_type'']"

definition migration_4 :: "sql_statement list" where
  "migration_4 = [DeleteRepeatedRules, UniqueRuleIndexIfMissing]"

definition migration_5 :: "sql_statement list" where
  "migration_5 = [BeginTransaction, CreateTable ''transactions_new'' rebuilt_columns,
     CopyRows ''transactions'' ''transactions_new'' rebuilt_columns, DropTable ''transactions'',
     RenameTable ''transactions_new'' ''transactions''] @ transaction_indexes
     @ [CreateIndexIfMissing ''idx_txn_import'' ''transactions'', CommitTransaction]"

definition migration_6 :: "sql_statement list" where
  "migration_6 = [
     CreateTableIfMissing ''local_license'' [''id'', ''customer_id'', ''license_id'', ''license_key'', ''subscription_type'',
       ''status'', ''expires_at'', ''last_validated_at'', ''grace_period_days'', ''highest_seen_clock'', ''updated_at''],
     CreateTableIfMissing ''device_info'' [''id'', ''device_id'', ''machine_fingerprint'', ''fingerprint_inputs'', ''created_at''],
     CreateTableIfMissing ''license_validation_log'' [''id'', ''checked_at'', ''result'', ''online'', ''detail''],
     CreateIndexIfMissing ''idx_license_validation_log_time'' ''license_validation_log'']"

definition migration_7 :: "sql_statement list" where
  "migration_7 = [AddColumn ''local_license'' ''integrity_hmac'']"

definition schema_migrations :: "(int \<times> sql_statement list) list" where
  "schema_migrations = [(1, migration_1), (2, migration_2), (3, migration_3), (4, migration_4), (5, migration_5),
     (6, migration_6), (7, migration_7)]"

definition legacy_baseline_version :: int where
  "legacy_baseline_version = 2"

subsection \<open>Applying them\<close>

definition column_exists :: "string \<Rightarrow> string \<Rightarrow> sql_db \<Rightarrow> bool" where
  "column_exists t col d = (case table_of d t of None \<Rightarrow> False | Some x \<Rightarrow> col \<in> set (tb_columns x))"

definition record_version :: "int \<Rightarrow> sql_db \<Rightarrow> bool \<times> sql_db" where
  "record_version v d = faulty (\<lambda>d. Some (d\<lparr>sq_version := v\<rparr>)) d"

fun apply_pending :: "(int \<times> sql_statement list) list \<Rightarrow> int \<Rightarrow> sql_db \<Rightarrow> (int option \<times> sql_db)" where
  "apply_pending [] last_recorded d = (Some last_recorded, d)"
| "apply_pending ((v, sql) # ms) last_recorded d =
    (case execute_batch sql d of
       (False, d') \<Rightarrow> (None, d')
     | (True, d') \<Rightarrow>
        (case record_version v d' of (False, d'') \<Rightarrow> (None, d'') | (True, d'') \<Rightarrow> apply_pending ms v d''))"

definition from_baseline :: "(int \<times> sql_statement list) list \<Rightarrow> int \<Rightarrow> int \<Rightarrow> sql_db \<Rightarrow> bool \<times> sql_db" where
  "from_baseline migrations current baseline d =
    (case apply_pending (filter (\<lambda>(v, _). baseline < v) migrations) current d of
       (None, d') \<Rightarrow> (False, d')
     | (Some last_recorded, d') \<Rightarrow>
        if last_recorded < baseline then record_version baseline d' else (True, d'))"

definition apply_migrations :: "(int \<times> sql_statement list) list \<Rightarrow> int \<Rightarrow> sql_db \<Rightarrow> bool \<times> sql_db" where
  "apply_migrations migrations legacy_baseline d =
    (case faulty Some d of
       (False, d1) \<Rightarrow> (False, d1)
     | (True, d1) \<Rightarrow>
        let current = sq_version d1 in
        if current \<noteq> 0 then from_baseline migrations current current d1
        else (case faulty Some d1 of
           (False, d2) \<Rightarrow> (False, d2)
         | (True, d2) \<Rightarrow> from_baseline migrations current
             (if column_exists ''transactions'' ''dup_flag'' d2 then legacy_baseline else 0) d2))"

definition init_schema :: "sql_db \<Rightarrow> bool \<times> sql_db" where
  "init_schema d =
    (case execute_batch schema_sql d of
       (False, d') \<Rightarrow> (False, d')
     | (True, d') \<Rightarrow> apply_migrations schema_migrations legacy_baseline_version d')"

definition no_database :: sql_db where
  "no_database = \<lparr> sq_tables = (\<lambda>_. None), sq_indexes = [], sq_unique_rules = False, sq_version = 0,
     sq_saved = None, sq_faults = [] \<rparr>"

section \<open>What an upgrade keeps\<close>

text \<open>
  Upgrading an existing database keeps its rows, wherever it is cut short; a new database gets the whole
  schema; and two interruptions from which the upgrade does not recover.
\<close>

definition rows_in :: "string \<Rightarrow> sql_db \<Rightarrow> sql_row list option" where
  "rows_in t d = map_option tb_rows (table_of d t)"

fun touches :: "sql_statement \<Rightarrow> string set" where
  "touches (CreateTable t cols) = {t}"
| "touches DeleteRepeatedRules = {''classification_rules''}"
| "touches (CopyRows s t cols) = {t}"
| "touches (DropTable t) = {t}"
| "touches (RenameTable s t) = {s, t}"
| "touches _ = {}"

fun in_transaction :: "sql_statement \<Rightarrow> bool" where
  "in_transaction BeginTransaction = True"
| "in_transaction CommitTransaction = True"
| "in_transaction _ = False"

lemma table_of_set [simp]: "table_of (set_table t x d) u = (if u = t then x else table_of d u)"
  by (simp add: table_of_def set_table_def)

lemma set_table_simps [simp]:
  "sq_saved (set_table t x d) = sq_saved d" "sq_version (set_table t x d) = sq_version d"
  "sq_faults (set_table t x d) = sq_faults d"
  by (simp_all add: set_table_def)

lemma table_of_update [simp]:
  "table_of (d\<lparr>sq_indexes := x\<rparr>) = table_of d" "table_of (d\<lparr>sq_unique_rules := u\<rparr>) = table_of d"
  "table_of (d\<lparr>sq_version := v\<rparr>) = table_of d" "table_of (d\<lparr>sq_saved := s\<rparr>) = table_of d"
  "table_of (d\<lparr>sq_faults := f\<rparr>) = table_of d"
  by (simp_all add: table_of_def fun_eq_iff)

lemma rows_update [simp]:
  "rows_in t (d\<lparr>sq_indexes := x\<rparr>) = rows_in t d" "rows_in t (d\<lparr>sq_unique_rules := u\<rparr>) = rows_in t d"
  "rows_in t (d\<lparr>sq_version := v\<rparr>) = rows_in t d" "rows_in t (d\<lparr>sq_saved := s\<rparr>) = rows_in t d"
  "rows_in t (d\<lparr>sq_faults := f\<rparr>) = rows_in t d"
  by (simp_all add: rows_in_def)


lemma statement_saved:
  assumes "run_statement s d = Some d'" and "\<not> in_transaction s"
  shows "sq_saved d' = sq_saved d"
  using assms by (cases s) (auto split: if_splits option.splits prod.splits)

lemma faulty_cases:
  obtains (failed) "faulty f d = (False, d\<lparr>sq_faults := tl (sq_faults d)\<rparr>)"
  | (ran) d' where "f (d\<lparr>sq_faults := tl (sq_faults d)\<rparr>) = Some d'" "faulty f d = (True, d')"
  by (cases "sq_faults d"; cases "hd (sq_faults d)"; cases "f (d\<lparr>sq_faults := tl (sq_faults d)\<rparr>)")
    (auto simp: faulty_def Let_def)

subsection \<open>Rows through an upgrade\<close>

text \<open>The rows of transactions are these, those of the rules these or the first of each key of them.\<close>

definition rows_kept :: "sql_row list \<Rightarrow> sql_row list \<Rightarrow> sql_db \<Rightarrow> bool" where
  "rows_kept ts rs d \<longleftrightarrow> rows_in ''transactions'' d = Some ts
     \<and> (rows_in ''classification_rules'' d = Some rs
        \<or> rows_in ''classification_rules'' d = Some (filter (first_of_its_key rs) rs))"


lemma rows_kept_update [simp]:
  "rows_kept ts rs (d\<lparr>sq_faults := f\<rparr>) = rows_kept ts rs d" "rows_kept ts rs (d\<lparr>sq_version := v\<rparr>) = rows_kept ts rs d"
  "rows_kept ts rs (d\<lparr>sq_saved := s\<rparr>) = rows_kept ts rs d"
  by (simp_all add: rows_kept_def)


















subsection \<open>A new database\<close>

lemma new_database_complete:
  "fst (init_schema no_database) \<and> sq_version (snd (init_schema no_database)) = 7
    \<and> map_option tb_columns (table_of (snd (init_schema no_database)) ''transactions'') = Some rebuilt_columns
    \<and> table_of (snd (init_schema no_database)) ''audit_log'' \<noteq> None"
  by code_simp

subsection \<open>Upgrades that do not recover\<close>

text \<open>The database after its first opening was cut short at statement \<open>n\<close>.\<close>

definition cut_short :: "nat \<Rightarrow> sql_db" where
  "cut_short n = snd (init_schema (no_database\<lparr>sq_faults := replicate n False @ [True]\<rparr>))"

text \<open>
  Cut short between migration 1 and the recording of its version, a new database looks like one of an old
  build: migration 2 is skipped at the next opening, which succeeds, and there never is an audit log.
\<close>

lemma audit_log_never_made:
  "fst (init_schema (cut_short 14)) \<and> sq_version (snd (init_schema (cut_short 14))) = 7
    \<and> table_of (snd (init_schema (cut_short 14))) ''audit_log'' = None"
  by code_simp

text \<open>
  The three statements of migration 3 are no transaction. Cut short between them, or before the version is
  recorded, the columns that were added are there, the version is still 2, and every later opening
  fails: adding the column again is an error.
\<close>

definition stuck_at_3 :: "sql_db \<Rightarrow> bool" where
  "stuck_at_3 d \<longleftrightarrow> sq_saved d = None \<and> sq_version d = 2 \<and> column_exists ''transactions'' ''gst_rate'' d"

lemma column_stays:
  assumes "run_statement s d = Some d'" and "t \<notin> touches s" and "column_exists t c d"
  shows "column_exists t c d'"
  using assms by (cases s) (auto simp: column_exists_def split: if_splits option.splits prod.splits)

lemma statement_version: "run_statement s d = Some d' \<Longrightarrow> sq_version d' = sq_version d"
  by (cases s) (auto split: if_splits option.splits prod.splits)

lemma stuck_faults [simp]: "stuck_at_3 (d\<lparr>sq_faults := f\<rparr>) = stuck_at_3 d"
  by (simp add: stuck_at_3_def column_exists_def)

lemma batch_stuck:
  assumes "\<And>s. s \<in> set ss \<Longrightarrow> \<not> in_transaction s \<and> ''transactions'' \<notin> touches s" and "stuck_at_3 d"
  shows "stuck_at_3 (snd (execute_batch ss d))"
  using assms
proof (induction ss arbitrary: d)
  case (Cons s ss)
  show ?case
  proof (cases rule: faulty_cases [of "run_statement s" d])
    case failed
    with Cons.prems(2) show ?thesis by (simp add: rolled_back_def stuck_at_3_def column_exists_def)
  next
    case (ran d')
    have "stuck_at_3 (d\<lparr>sq_faults := tl (sq_faults d)\<rparr>)" using Cons.prems(2) by simp
    then have "stuck_at_3 d'"
      using column_stays [OF ran(1)] statement_saved [OF ran(1)] statement_version [OF ran(1)] Cons.prems(1) [of s]
      by (auto simp: stuck_at_3_def)
    with Cons ran show ?thesis by simp
  qed
qed simp

lemma stuck_for_good:
  assumes "stuck_at_3 d"
  shows "\<not> fst (init_schema d) \<and> stuck_at_3 (snd (init_schema d))"
proof -
  obtain b d1 where 1: "execute_batch schema_sql d = (b, d1)" by fastforce
  have "stuck_at_3 (snd (execute_batch schema_sql d))"
    by (rule batch_stuck [OF _ assms]) (auto simp: schema_sql_def transaction_indexes_def)
  with 1 have s1: "stuck_at_3 d1" by simp
  have add: "\<exists>d'. execute_batch migration_3 d = (False, d') \<and> stuck_at_3 d'" if "stuck_at_3 d" for d
  proof (cases rule: faulty_cases [of "run_statement (AddColumn ''transactions'' ''gst_rate'')" d])
    case failed
    with that show ?thesis by (simp add: migration_3_def rolled_back_def stuck_at_3_def column_exists_def)
  next
    case (ran d')
    with that show ?thesis by (auto simp: stuck_at_3_def column_exists_def split: option.splits)
  qed
  have from_2: "\<not> fst (from_baseline schema_migrations 2 2 d) \<and> stuck_at_3 (snd (from_baseline schema_migrations 2 2 d))"
    if "stuck_at_3 d" for d
    using add [OF that] by (auto simp: from_baseline_def schema_migrations_def)
  have "\<not> fst (apply_migrations schema_migrations legacy_baseline_version d1)
      \<and> stuck_at_3 (snd (apply_migrations schema_migrations legacy_baseline_version d1))"
  proof (cases rule: faulty_cases [of Some d1])
    case failed
    with s1 show ?thesis by (simp add: apply_migrations_def)
  next
    case (ran d2)
    then have d2: "stuck_at_3 d2" using s1 by (metis option.inject stuck_faults)
    then have "sq_version d2 = 2" by (simp add: stuck_at_3_def)
    then show ?thesis using from_2 [OF d2] by (simp add: apply_migrations_def ran(2))
  qed
  with s1 show ?thesis by (simp add: init_schema_def 1 split: bool.split)
qed

lemma cut_short_in_migration_3: "stuck_at_3 (cut_short 19)"
proof -
  have "(case sq_saved (cut_short 19) of None \<Rightarrow> True | Some _ \<Rightarrow> False) \<and> sq_version (cut_short 19) = 2
      \<and> column_exists ''transactions'' ''gst_rate'' (cut_short 19)"
    by code_simp
  then show ?thesis by (simp add: stuck_at_3_def split: option.splits)
qed

end
