(* ===== verification/SamplesDb.thy ===== *)
theory SamplesDb
  imports LocalDbSaved DbEncryption SchemaUpgrade
begin

text \<open>
  A database with two clients, an import and a rule, a plain database file and an old schema, on which the
  properties of the local database apply; and two rules that do not survive a backup.
\<close>

text \<open>An encoding of lists of strings that reads back.\<close>

definition mark_tags :: "chars list \<Rightarrow> chars" where
  "mark_tags ts = concat (map (\<lambda>t. concat (map (\<lambda>c. [0, c]) t) @ [1]) ts)"

fun read_marked :: "chars \<Rightarrow> chars \<Rightarrow> chars list option" where
  "read_marked acc [] = Some []"
| "read_marked acc [x] = (if x = 1 then Some [rev acc] else None)"
| "read_marked acc (x # c # s) =
    (if x = 1 then map_option ((#) (rev acc)) (read_marked [] (c # s)) else read_marked (c # acc) s)"

definition sample_env :: db_env where
  "sample_env = \<lparr> de_skipped = (\<lambda>_ _. 0), de_scan = id, de_now = lit ''2026-04-01 10:00:00'',
     de_tags_json = (\<lambda>ts. Some (mark_tags ts)), de_parse_tags = read_marked [] \<rparr>"

lemma read_marked_word:
  "read_marked acc (concat (map (\<lambda>c. [0, c]) t) @ 1 # s) = map_option ((#) (rev acc @ t)) (read_marked [] s)"
proof (induction t arbitrary: acc)
  case Nil
  show ?case by (cases s) simp_all
qed simp

lemma sample_tags_ok: "tags_ok sample_env"
proof -
  have "read_marked [] (mark_tags ts) = Some ts" for ts
    by (induction ts) (simp_all add: mark_tags_def read_marked_word)
  then show ?thesis by (simp add: tags_ok_def sample_env_def)
qed

definition two_clients :: local_db where
  "two_clients = db_step sample_env (AddClient (lit ''Bose'') []) []
     (db_step sample_env (AddClient (lit ''Acme'') []) [] empty_db)"

definition sample_db :: local_db where
  "sample_db = db_step sample_env (OnClient 1 (AddRule (lit ''amazon'') (lit ''Amazon'') (lit ''Office'') (lit ''Payment''))) []
     (db_step sample_env (OnClient 1 (SaveImport (lit ''a.xlsx'') [] [] 1)) [] two_clients)"

lemma sample_reachable: "reachable_db sample_env sample_db"
  unfolding sample_db_def two_clients_def by (intro reachable_step reachable_empty)

lemmas db_simps = db_step_def quiet_def db_bind_def db_return_def statement_def add_client_def save_import_def
  add_rule_def insert_rule_def new_id_def use_id_def has_client_def empty_db_def sample_env_def Let_def

lemma two_clients_eq: "ld_clients two_clients
    = [\<lparr>cw_id = 1, cw_name = lit ''Acme'', cw_gstin = Some []\<rparr>, \<lparr>cw_id = 2, cw_name = lit ''Bose'', cw_gstin = Some []\<rparr>]"
  "ld_rules two_clients = []" "ld_last_id two_clients SeqRules = 0" "ld_last_id two_clients SeqImports = 0"
  "ld_faults two_clients = []" "ld_imports two_clients = []"
  "ld_transactions two_clients = []"
  by (simp_all add: two_clients_def db_simps)

lemma sample_db_eq: "ld_clients sample_db = ld_clients two_clients" "ld_faults sample_db = []"
  "map im_id (ld_imports sample_db) = [1]" "ld_transactions sample_db = []"
  "ld_rules sample_db = [\<lparr>ru_id = 1, ru_client_id = 1, ru_pattern = lit ''amazon'', ru_vendor = Some (lit ''Amazon''),
     ru_account_head = Some (lit ''Office''), ru_txn_type = Some (lit ''Payment''), ru_priority = 0\<rparr>]"
  by (simp_all add: sample_db_def db_step_def quiet_def db_bind_def db_return_def statement_def add_rule_def
      insert_rule_def save_import_def new_id_def use_id_def has_client_def sample_env_def Let_def two_clients_eq)

theorem reachable_db_consistent_witness:
  "db_ok sample_db \<and> list_all (\<lambda>r. cr_client_id r = 2) (rules_for 2 sample_db)"
  by (rule reachable_db_consistent [OF sample_reachable])

theorem clients_are_isolated_witness:
  "seen_by_client 2 (db_step sample_env (OnClient 1 DeleteClient) [] sample_db) = seen_by_client 2 sample_db"
  by (rule clients_are_isolated) simp

lemma sample_ok: "db_ok sample_db"
  by (rule reachable_ok [OF sample_reachable])

definition two_transactions :: "transaction list" where
  "two_transactions = [transaction_new (lit ''t_1''), transaction_new (lit ''t_2'')]"

theorem saved_transactions_load_back_witness:
  "\<exists>d'. upsert_transactions sample_env 1 (Some 1) two_transactions sample_db = (Inr 2, d')
    \<and> get_transactions sample_env 1 d' = (Inr (in_date_order (map (as_stored (Some 1)) two_transactions)), d')"
proof -
  have "distinct (map txn_id two_transactions)" by (simp add: two_transactions_def transaction_new_def)
  moreover have "has_client sample_db 1" by (simp add: has_client_def sample_db_eq two_clients_eq)
  moreover have "list_all (\<lambda>t. has_import sample_db (tr_import_id (row_of_txn sample_env 1 (Some 1) t))) two_transactions"
    by (simp add: two_transactions_def has_import_def row_of_txn_def sample_db_eq del: set_map)
  ultimately have "\<exists>d'. upsert_transactions sample_env 1 (Some 1) two_transactions sample_db = (Inr (length two_transactions), d')
      \<and> get_transactions sample_env 1 d' = (Inr (in_date_order
          (filter (\<lambda>t. txn_id t \<notin> txn_id ` set two_transactions) (stored_transactions sample_env 1 sample_db)
            @ map (as_stored (Some 1)) two_transactions)), d')"
    using saved_transactions_load_back [OF sample_tags_ok _ sample_ok sample_db_eq(2), of two_transactions 1 "Some 1"]
    by blast
  moreover have "length two_transactions = 2" by (simp add: two_transactions_def)
  ultimately show ?thesis by (simp add: stored_transactions_def sample_db_eq)
qed



subsection \<open>Rules a backup does not keep\<close>

definition db_with_rule :: "chars \<Rightarrow> local_db" where
  "db_with_rule pattern = db_step sample_env (OnClient 1 (AddRule pattern (lit ''V'') (lit ''H'') (lit ''T''))) [] two_clients"

definition restored_rules :: "local_db \<Rightarrow> (chars + nat) \<times> chars list" where
  "restored_rules d =
    (case export_rules_json 1 d of
       (Inr json, d1) \<Rightarrow>
         (case import_rules_json sample_env 1 json d1 of (r, d2) \<Rightarrow> (r, map cr_pattern (rules_for 1 d2)))
     | (Inl e, d1) \<Rightarrow> (Inl e, []))"

text \<open>A quote in a pattern is written with a backslash, which the pattern that reads the backup does not know:
  the rule is gone. A backslash comes back doubled.\<close>

lemma quoted_rule_is_lost: "restored_rules (db_with_rule [65, 34, 66]) = (Inr 0, [])"
  by code_simp

lemma backslash_is_doubled: "restored_rules (db_with_rule [65, 92, 66]) = (Inr 1, [[65, 92, 92, 66]])"
  by code_simp

subsection \<open>The file and the schema\<close>

definition sample_cipher :: cipher_lib where
  "sample_cipher = \<lparr> cp_export = (\<lambda>c key. CipherDb key c), cp_integrity = (\<lambda>_. ''ok''), cp_problems = (\<lambda>_. []),
     cp_random = [1, 2] \<rparr>"

definition plain_vault :: vault where
  "plain_vault = \<lparr> va_files = [''bank.db'' \<mapsto> PlainDb [(''clients'', [''Acme''])]], va_key = None, va_reads = [], va_writes = [] \<rparr>"

theorem encryption_loses_nothing_witness:
  "\<exists>d'. open_encrypted sample_cipher ''bank.db'' ((fold (open_under sample_cipher ''bank.db'')
        [[WriteFine, WriteDies True], [WriteFine, WriteFine, WriteFine, WriteFails False]] plain_vault)\<lparr>va_writes := []\<rparr>)
      = Some (Returned [(''clients'', [''Acme''])], d')
    \<and> (\<exists>hex. cipher_at hex ''bank.db'' [(''clients'', [''Acme''])] d')"
  by (rule encryption_loses_nothing) (simp_all add: export_ok_def checks_ok_def sample_cipher_def plain_vault_def)



end
