(* ===== verification/Spec2Isabelle.thy ===== *)
theory Spec2Isabelle
  imports Races SamplesDesktop SamplesParsing TallyFacts GstEngine TextSafety RowBuilder NoiseFilter RateLimit TallyExport ClassifierFacts NarrationFacts ExcelFacts ExcelParser BankFacts OcrCorrection SamplesDb
begin

text \<open>
  A model of the bank statement processor in Isabelle/HOL: the licensing server (\<open>server/src\<close>), the
  protocol between server and desktop (\<open>protocol/src\<close>), and the desktop application (\<open>src/src\<close>):
  its license check, its parsers of statements, its classifier, its exports and its local database.

  \<^bold>\<open>The program.\<close> A customer pays through Razorpay; the server learns of it by webhook or by
  reconciliation and extends the customer's license. The desktop application activates a key, binds it to
  the device, and asks the server at every start whether the license is valid; it caches the answer and
  runs on it for some days without a connection. What it is for is reading bank statements: a workbook or a
  page becomes a list of transactions; bank, dates, amounts and columns are recognised; balances are
  recomputed and checked; narrations are cleaned, parties unified, accounts, vouchers and taxes assigned;
  duplicates are marked; the result is kept in an encrypted SQLite database, matched against Tally
  vouchers, and exported to Tally.

  \<^bold>\<open>How code is modelled.\<close>
  \<^item> A struct is a \<open>record\<close>, an enum a \<open>datatype\<close>, a function of the code a definition of the same name
    (with a prefix or suffix where the name was taken), in the order of the code. An early return, an
    error and a panic are branches: \<open>Inl\<close> or \<open>None\<close>, or an error datatype.
  \<^item> The server's functions are actions on a \<open>world\<close> (theory World): the Postgres tables as lists of
    rows, the sequences, the clock, spawned audit writes, and a schedule of faults of which each SQL
    statement consumes an element. A SQL text is translated by what it says; transactions roll back. The
    desktop's databases (DesktopStore, LocalDb) are modelled the same way, with SQLite's rules.
  \<^item> Text of the desktop is a list of Unicode scalar values (theory Text), text of the server a
    \<open>string\<close>. Regular expressions are terms of the same shape as the patterns, with the leftmost-first
    semantics of the regex crate (theory Patterns).
  \<^item> \<open>f64\<close> is IEEE 754 binary64 with exact rationals and rounding to even (theory Float64), printed and
    read as the standard library does (FloatText); \<open>i64\<close> and \<open>usize\<close> are \<open>int\<close> and \<open>nat\<close>, with the casts
    that narrow written out. Times are in microseconds.
  \<^item> Loops are structural recursion or recursion on a bound that the code implies (the length of the
    text for matches of a pattern, the number of rows of a grid): it is never reached with work left, as
    each turn consumes an element of what it is the length of. The one loop without a bound is
    \<open>partial_function (option)\<close> (theory DbEncryption), and that it returns is a property.

  \<^bold>\<open>Parameters.\<close> Code that is not in the repository is an argument: Razorpay's answers, the random
  generators, SHA-256, HMAC, base64 and Argon2 (\<open>server_env\<close>, \<open>externals\<close>); the governor crate's
  budgets; chrono's calendar; Unicode's tables of digits, words and cases (\<open>unicode\<close>); calamine, which
  delivers a workbook as the list of its sheets; the iteration orders of hash maps and hash sets, arbitrary
  functions that arrange the entries; SQLite's choices where SQL leaves them open, and serde_json's text of
  a list (\<open>db_env\<close>); SQLCipher's export and checks (\<open>cipher_lib\<close>). Where a property relies on one, the
  hypothesis is its documented behaviour (such as \<open>unicode_ok\<close>, \<open>calendar_ok\<close>, \<open>times_ok\<close>, \<open>tags_ok\<close>,
  \<open>export_ok\<close>), and the witness of the property instantiates it with a concrete function.

  \<^bold>\<open>The server.\<close>
  \<^item> Prelude, Domain, DecimalText, World, Schema: shared lemmas and locales; \<open>domain/*.rs\<close>; the world;
    the schema of \<open>server/migrations\<close> as the invariant \<open>schema_ok\<close>, which every repository operation keeps.
  \<^item> RepoAccounts, RepoLicenses, DeviceCap, RepoPayments: \<open>repository/*.rs\<close>. DeviceCap proves the effect
    of \<open>device_activate\<close> and the cap on active devices; RepoPayments that the claim of a webhook event and
    its mutation are applied together or not at all.
  \<^item> LicenseService, LicenseFacts, PaymentService, PaymentFacts, PaymentRules, Reconciliation, Checkout:
    \<open>service/license_service.rs\<close>, \<open>service/payment_service.rs\<close>, \<open>razorpay/*.rs\<close>. Validation and activation
    are decision tables over pure lookups; processing a webhook refines a pure function on the tables; the
    rules of the business (the state machine of payments, what an activation grants, refunds, disputes,
    healing of a missed capture) are statements about that function.
  \<^item> AuthService, AuthFacts, AdminService, AdminFacts, Routes, AdminRoutes, RouteFacts, RateLimit: \<open>auth/\<close>,
    \<open>service/auth_service.rs\<close>, \<open>service/admin_service.rs\<close>, \<open>repository/admin.rs\<close>, \<open>routes/*.rs\<close>,
    \<open>rate_limit.rs\<close>: sessions, the admin guard, pages that put together are the whole list, status codes,
    and whose budget a request is charged to.
  \<^item> Transitions, ServerSystem, Races: the server as a labelled transition system, where requests interleave
    between statements and statements fail; the cap, at-most-once application and dead tokens as
    properties of all runs; and runs that show what the guards do not cover.
  \<^item> Samples, SamplesServer: a concrete database on which the hypotheses hold.

  \<^bold>\<open>The desktop's license check.\<close>
  \<^item> Protocol, DesktopStore, DesktopLicense, DesktopFacts: \<open>protocol/src/lib.rs\<close>, \<open>src/license/*.rs\<close>: the
    wire types and the client, the signed cached record with its clock watermark, online and offline
    status, enforcement; when the application runs, what a revocation, an expiry and an edited
    record lead to, under failures of every statement.
  \<^item> EndToEnd, SamplesDesktop: the client's requests answered by the server's handlers.

  \<^bold>\<open>Reading statements.\<close>
  \<^item> Text, TextSafety, Patterns, StableSort, EditDistance, Float64, FloatText: text, slicing at byte
    offsets (\<open>text_safety.rs\<close>), patterns, \<open>sort_by\<close>, the Levenshtein routine with its equivalence to the
    edit distance, doubles.
  \<^item> AmountParser, AmountFacts, DateParser, DateFacts: \<open>parser/amount_parser.rs\<close>, \<open>parser/date_parser.rs\<close>, with
    round trips between printing and reading.
  \<^item> Transactions, ColumnDetector, ColumnFacts, RowBuilder, NoiseFilter, BalanceRules, Paise, BalanceFacts,
    ExcelParser, ExcelFacts: \<open>parser/{mod,column_detector,row_builder,noise_filter,excel_parser}.rs\<close>: from
    a grid to transactions; the passes over the balances compute in doubles what the statement says in
    whole paise.
  \<^item> BankDetection, BankFacts, OcrCorrection: \<open>parser/bank_detection.rs\<close>, \<open>parser/ocr_correction.rs\<close>.
  \<^item> SamplesParsing: inputs for the witnesses.

  \<^bold>\<open>Working with transactions.\<close>
  \<^item> NarrationCleaner, PartyMaster, NarrationFacts: \<open>narration_cleaner.rs\<close>, \<open>parser/party_master.rs\<close>.
  \<^item> GstEngine, Classifier, Duplicates, ClassifierFacts: \<open>gst_engine.rs\<close>, \<open>classifier.rs\<close>: classification
    settles in one run and keeps what was imported; every duplicate has an original.
  \<^item> TallyGroups, TallyFacts, TallyExport: \<open>tally_group_engine.rs\<close>, \<open>export/tally.rs\<close>.
  \<^item> BankMatching, MatchingFacts: \<open>reconciliation.rs\<close>, matching against Tally vouchers.

  \<^bold>\<open>The local database.\<close>
  \<^item> LocalDb, LocalDbFacts, LocalDbSaved: \<open>db/mod.rs\<close>, the operations; the constraints in every reachable
    state; the isolation of clients; what was saved is read back; the backup of rules.
  \<^item> SchemaUpgrade: \<open>db/mod.rs\<close>, schema and migrations, and what an interrupted upgrade keeps.
  \<^item> DbEncryption: \<open>db/encryption.rs\<close>, the encryption of a plain file and the recovery loop.
  \<^item> SamplesDb: a small database, and two rules that do not survive a backup.

  \<^bold>\<open>Interfaces.\<close> The locales state contracts once: the text form of enums (\<open>wire_enum\<close>), invariants of
  labelled systems (Transitions), comparisons that come from a rank (StableSort), the invariants of
  actions on the local database (LocalDbFacts); each is interpreted on the definitions of the model.

  \<^bold>\<open>Not modelled.\<close>
  \<^item> The user interface (\<open>src/src/main.rs\<close>, \<open>src/src/ui\<close>, the Slint files): callbacks that move data
    between widgets and the functions modelled here, and threads.
  \<^item> The parsers of PDF and of scans (\<open>parser/{pdf_parser,ocr_parser,transaction_extractor,csv_parser}.rs\<close>)
    and the extraction of text by outside programs (\<open>parser/{ocr_extractor,text_extractor}.rs\<close>). Their
    shared parts (rows, columns, dates, amounts, balances, banks, corrections) are modelled; the long
    heuristics of \<open>transaction_extractor.rs\<close> work on byte offsets of text layouts and have not been
    translated.
  \<^item> Exports to workbooks and accounting programs (\<open>export/{excel,accounting}.rs\<close>), dashboards
    (\<open>analytics.rs\<close>), the language model client (\<open>ai_classifier.rs\<close>), the import of data of the older
    program (\<open>migration/\<close>), settings, the monthly password: not translated yet.
  \<^item> Configuration, start-up, logging, metrics and the routing table of the server (\<open>config.rs\<close>, \<open>main.rs\<close>,
    \<open>lib.rs\<close>, \<open>state.rs\<close>, \<open>observability.rs\<close>), TLS and HTTP transport, and the extraction of JSON bodies:
    glue around libraries.
  \<^item> Of what is modelled: log messages, columns that are never read back, and the exact wording of
    errors that quote a path.
\<close>

end
